(* ===== verification/RedisCache.thy ===== *)
theory RedisCache
  imports Prelude
begin

text \<open>
  The fail-open Redis helpers of \<open>cache/redis.py\<close>.  The server is a map from keys to values with an
  optional expiry time; a list of flags says which of the next calls meet an outage.  The contract the
  message handlers rely on, that a key can be claimed only once, is a locale.
\<close>

record redis =
  kv :: "string \<rightharpoonup> string \<times> int option"
  clock :: int
  outages :: "bool list"

definition redis_get :: "string \<Rightarrow> redis \<Rightarrow> string option" where
  "redis_get k r =
     (case kv r k of
        None \<Rightarrow> None
      | Some (v, None) \<Rightarrow> Some v
      | Some (v, Some e) \<Rightarrow> if clock r < e then Some v else None)"

definition redis_put :: "string \<Rightarrow> string \<Rightarrow> int option \<Rightarrow> redis \<Rightarrow> redis" where
  "redis_put k v ex r = r\<lparr>kv := (kv r)(k \<mapsto> (v, map_option (\<lambda>n. clock r + n) ex))\<rparr>"

text \<open>Whether the next call fails with a \<open>RedisError\<close>.\<close>

definition next_outage :: "redis \<Rightarrow> bool \<times> redis" where
  "next_outage r = (case outages r of [] \<Rightarrow> (False, r) | b # bs \<Rightarrow> (b, r\<lparr>outages := bs\<rparr>))"

definition safe_get :: "string \<Rightarrow> redis \<Rightarrow> string option \<times> redis" where
  "safe_get k r = (case next_outage r of (True, r1) \<Rightarrow> (None, r1) | (False, r1) \<Rightarrow> (redis_get k r1, r1))"

definition safe_set :: "string \<Rightarrow> string \<Rightarrow> int option \<Rightarrow> redis \<Rightarrow> bool \<times> redis" where
  "safe_set k v ex r =
     (case next_outage r of (True, r1) \<Rightarrow> (False, r1) | (False, r1) \<Rightarrow> (True, redis_put k v ex r1))"

definition safe_set_nx :: "string \<Rightarrow> string \<Rightarrow> int \<Rightarrow> redis \<Rightarrow> bool option \<times> redis" where
  "safe_set_nx k v ex r =
     (case next_outage r of
        (True, r1) \<Rightarrow> (None, r1)
      | (False, r1) \<Rightarrow>
          if redis_get k r1 = None then (Some True, redis_put k v (Some ex) r1) else (Some False, r1))"

definition safe_delete :: "string \<Rightarrow> redis \<Rightarrow> bool \<times> redis" where
  "safe_delete k r =
     (case next_outage r of
        (True, r1) \<Rightarrow> (False, r1)
      | (False, r1) \<Rightarrow> (True, r1\<lparr>kv := (kv r1)(k := None)\<rparr>))"

definition safe_mget :: "string list \<Rightarrow> redis \<Rightarrow> string option list option \<times> redis" where
  "safe_mget ks r =
     (if ks = [] then (Some [], r)
      else (case next_outage r of
              (True, r1) \<Rightarrow> (None, r1)
            | (False, r1) \<Rightarrow> (Some (map (\<lambda>k. redis_get k r1) ks), r1)))"

definition parse_int :: "string \<Rightarrow> int option" where
  "parse_int s =
     (if s \<noteq> [] \<and> hd s = CHR ''-''
      then if isdigit (tl s) then Some (- int (nat_of_str (tl s))) else None
      else if isdigit s then Some (int (nat_of_str s)) else None)"

text \<open>
  \<open>INCR\<close> and \<open>EXPIRE\<close> in one transaction.  A value that is not a number makes \<open>INCR\<close> fail and the helper
  return \<open>None\<close>; the expiry is set all the same.
\<close>

definition safe_incr_with_ttl :: "string \<Rightarrow> int \<Rightarrow> redis \<Rightarrow> int option \<times> redis" where
  "safe_incr_with_ttl k ttl r =
     (case next_outage r of
        (True, r1) \<Rightarrow> (None, r1)
      | (False, r1) \<Rightarrow>
          (case redis_get k r1 of
             None \<Rightarrow> (Some 1, redis_put k (show_int 1) (Some ttl) r1)
           | Some v \<Rightarrow>
               (case parse_int v of
                  None \<Rightarrow> (None, redis_put k v (Some ttl) r1)
                | Some n \<Rightarrow> (Some (n + 1), redis_put k (show_int (n + 1)) (Some ttl) r1))))"

section \<open>Facts\<close>

lemma next_outage_simps:
  "next_outage r = (b, r') \<Longrightarrow> kv r' = kv r \<and> clock r' = clock r"
  by (auto simp: next_outage_def split: list.splits)

lemma redis_get_cong: "kv r = kv r' \<Longrightarrow> clock r = clock r' \<Longrightarrow> redis_get k r = redis_get k r'"
  by (simp add: redis_get_def split: option.split prod.split)

lemma redis_get_put [store_simps]:
  "redis_get k' (redis_put k v ex r) =
     (if k' = k then (case ex of None \<Rightarrow> Some v | Some n \<Rightarrow> if 0 < n then Some v else None)
      else redis_get k' r)"
  by (auto simp: redis_get_def redis_put_def split: option.split)

lemma parse_show_int: "parse_int (show_int i) = Some i"
proof (cases "i < 0")
  case False
  have "hd (show_nat (nat i)) \<in> set (show_nat (nat i))" by simp
  moreover have "list_all is_digit (show_nat (nat i))" using isdigit_show_nat by (simp add: isdigit_def)
  ultimately have "is_digit (hd (show_nat (nat i)))" by (simp add: list_all_iff)
  then have "hd (show_nat (nat i)) \<noteq> CHR ''-''" by (auto simp: is_digit_def)
  with False show ?thesis by (simp add: parse_int_def show_int_def)
qed (simp add: parse_int_def show_int_def)

section \<open>Claiming a key once\<close>

locale once_store =
  fixes claim :: "'k \<Rightarrow> 's \<Rightarrow> bool option \<times> 's"
    and claimed :: "'k \<Rightarrow> 's \<Rightarrow> bool"
  assumes claim_first: "claim k s = (Some True, s') \<Longrightarrow> \<not> claimed k s \<and> claimed k s'"
    and claim_again: "claim k s = (Some False, s') \<Longrightarrow> claimed k s"
    and claim_frame: "claim k s = (r, s') \<Longrightarrow> claimed k' s \<Longrightarrow> claimed k' s'"
begin

text \<open>The answers of a sequence of claims.\<close>

primrec answers :: "'k list \<Rightarrow> 's \<Rightarrow> ('k \<times> bool option) list" where
  "answers [] s = []"
| "answers (k # ks) s = (k, fst (claim k s)) # answers ks (snd (claim k s))"

lemma claimed_no_first: "claimed k s \<Longrightarrow> (k, Some True) \<notin> set (answers ks s)"
proof (induction ks arbitrary: s)
  case (Cons k' ks)
  obtain r s' where c: "claim k' s = (r, s')" by (cases "claim k' s")
  have "claimed k s'" using claim_frame [OF c Cons.prems] .
  moreover have "\<not> (k' = k \<and> r = Some True)" using claim_first c Cons.prems by blast
  ultimately show ?case using Cons.IH c by auto
qed simp

lemma claimed_at_most_once: "length (filter (\<lambda>a. a = (k, Some True)) (answers ks s)) \<le> 1"
proof (induction ks arbitrary: s)
  case (Cons k' ks)
  obtain r s' where c: "claim k' s = (r, s')" by (cases "claim k' s")
  show ?case
  proof (cases "k' = k \<and> r = Some True")
    case True
    then have "claimed k s'" using claim_first c by blast
    then have "(k, Some True) \<notin> set (answers ks s')" by (rule claimed_no_first)
    then have "filter (\<lambda>a. a = (k, Some True)) (answers ks s') = []" by (auto simp: filter_empty_conv)
    with True c show ?thesis by simp
  qed (use Cons c in auto)
qed simp

end

definition claim_key :: "string \<Rightarrow> redis \<Rightarrow> bool option \<times> redis" where
  "claim_key k r = safe_set_nx k ''1'' 86400 r"

interpretation idem: once_store claim_key "\<lambda>k r. redis_get k r \<noteq> None"
proof
  fix k k' :: string and s s' :: redis and r
  show "claim_key k s = (Some True, s') \<Longrightarrow> \<not> redis_get k s \<noteq> None \<and> redis_get k s' \<noteq> None"
    by (auto simp: claim_key_def safe_set_nx_def store_simps split: prod.splits bool.splits if_splits
        dest!: next_outage_simps) (metis redis_get_cong)
  show "claim_key k s = (Some False, s') \<Longrightarrow> redis_get k s \<noteq> None"
    by (auto simp: claim_key_def safe_set_nx_def split: prod.splits bool.splits if_splits
        dest!: next_outage_simps) (metis redis_get_cong option.distinct(1))
  show "claim_key k s = (r, s') \<Longrightarrow> redis_get k' s \<noteq> None \<Longrightarrow> redis_get k' s' \<noteq> None"
    by (auto simp: claim_key_def safe_set_nx_def store_simps split: prod.splits bool.splits if_splits
        dest!: next_outage_simps) (metis redis_get_cong option.distinct(1))+
qed

section \<open>Properties\<close>

text \<open>
  Within its lifetime a key is granted at most once.  In any sequence of claims, with
  outages anywhere, at most one claim of a key is answered \<open>True\<close>.  A granted key is refused (or meets an
  outage) at every time before its expiry and is free again from then on; an outage is answered
  \<open>None\<close> and changes no key.
\<close>

theorem set_nx_once:
  "length (filter (\<lambda>a. a = (k, Some True)) (idem.answers ks r)) \<le> 1
   \<and> redis_get k ((redis_put k v (Some ttl) r)\<lparr>clock := now\<rparr>) =
       (if now < clock r + ttl then Some v else None)
   \<and> (fst (safe_set_nx k v ttl r) = None) = fst (next_outage r)
   \<and> (fst (next_outage r) \<longrightarrow> kv (snd (safe_set_nx k v ttl r)) = kv r
        \<and> fst (safe_get k r) = None \<and> \<not> fst (safe_set k v None r) \<and> \<not> fst (safe_delete k r)
        \<and> fst (safe_incr_with_ttl k ttl r) = None)"
proof -
  have "length (filter (\<lambda>a. a = (k, Some True)) (idem.answers ks r)) \<le> 1"
    by (rule idem.claimed_at_most_once)
  moreover obtain b r1 where o: "next_outage r = (b, r1)" by (cases "next_outage r")
  then have "kv r1 = kv r" using next_outage_simps by blast
  ultimately show ?thesis
    using o by (cases b) (auto simp: safe_set_nx_def safe_get_def safe_set_def safe_delete_def
        safe_incr_with_ttl_def redis_get_def redis_put_def)
qed

theorem set_nx_once_witness:
  "let r = \<lparr>kv = Map.empty, clock = 0, outages = [True]\<rparr>
   in fst (safe_set_nx ''k'' ''1'' 5 r) = None \<and> kv (snd (safe_set_nx ''k'' ''1'' 5 r)) = Map.empty"
  using set_nx_once [where k = "''k''" and ks = "[]" and v = "''1''" and ttl = 5 and now = 0
      and r = "\<lparr>kv = Map.empty, clock = 0, outages = [True]\<rparr>"]
  by (simp add: next_outage_def)

end
