(* ===== verification/PyFloat.thy ===== *)
theory PyFloat
  imports Prelude "HOL-Library.Log_Nat"
begin

text \<open>
  Python's \<open>float\<close>.  A finite binary64 value is modelled by the rational number it denotes
  (type \<open>pyfloat\<close>), and every arithmetic operation of the source is the exact rational operation
  followed by \<open>fl\<close>, the IEEE-754 rounding to nearest, ties to even, with a 53-bit significand and
  the subnormal grid \<open>2^-1074\<close>.  The exponent is not bounded above: overflow to infinity, the
  infinities and NaN are outside the model.  \<open>math.ceil\<close>, comparison with an integer and
  \<open>int / int\<close> are exact in Python, and so here; \<open>round(x, n)\<close> is the correctly rounded decimal,
  converted back to binary64.
\<close>

type_synonym pyfloat = rat

section \<open>Round half to even on integers\<close>

definition rhe :: "rat \<Rightarrow> int" where
  "rhe q = (let f = \<lfloor>q\<rfloor>; d = q - of_int f in
     if d < 1 / 2 then f else if 1 / 2 < d then f + 1 else if even f then f else f + 1)"

lemma rhe_of_int [simp]: "rhe (of_int n) = n"
  by (simp add: rhe_def)

lemma rhe_cases:
  obtains "rhe q = \<lfloor>q\<rfloor>" "q - of_int \<lfloor>q\<rfloor> \<le> 1 / 2"
  | "rhe q = \<lfloor>q\<rfloor> + 1" "1 / 2 \<le> q - of_int \<lfloor>q\<rfloor>"
  by (cases "q - of_int \<lfloor>q\<rfloor>" "1 / 2 :: rat" rule: linorder_cases; cases "even \<lfloor>q\<rfloor>")
     (auto simp: rhe_def Let_def)

lemma rhe_error: "\<bar>of_int (rhe q) - q\<bar> \<le> 1 / 2"
proof (cases q rule: rhe_cases)
  case 1
  moreover have "of_int \<lfloor>q\<rfloor> \<le> q" by simp
  ultimately show ?thesis by (simp add: abs_le_iff)
next
  case 2
  moreover have "q < of_int \<lfloor>q\<rfloor> + 1" by linarith
  ultimately show ?thesis by (simp add: abs_le_iff)
qed

lemma rhe_mono: "p \<le> q \<Longrightarrow> rhe p \<le> rhe q"
proof -
  assume le: "p \<le> q"
  show ?thesis
  proof (cases "\<lfloor>p\<rfloor> = \<lfloor>q\<rfloor>")
    case True
    with le show ?thesis by (auto simp: rhe_def Let_def)
  next
    case False
    with le have "\<lfloor>p\<rfloor> + 1 \<le> \<lfloor>q\<rfloor>" using floor_mono [OF le] by linarith
    moreover have "rhe p \<le> \<lfloor>p\<rfloor> + 1" by (cases p rule: rhe_cases) auto
    moreover have "\<lfloor>q\<rfloor> \<le> rhe q" by (cases q rule: rhe_cases) auto
    ultimately show ?thesis by linarith
  qed
qed

lemma rhe_le_int: "q \<le> of_int n \<Longrightarrow> rhe q \<le> n"
  using rhe_mono [of q "of_int n"] by simp

lemma int_le_rhe: "of_int n \<le> q \<Longrightarrow> n \<le> rhe q"
  using rhe_mono [of "of_int n" q] by simp

lemma rhe_unique:
  assumes "\<bar>of_int n - q\<bar> < 1 / 2"
  shows "rhe q = n"
proof -
  have "\<bar>of_int (rhe q) - of_int n\<bar> < (1 :: rat)"
    using assms rhe_error [of q] by linarith
  then have "\<bar>rhe q - n\<bar> < 1"
    by (metis of_int_1 of_int_abs of_int_diff of_int_less_iff)
  then show ?thesis by simp
qed

lemma floor_uminus_nonint: "q \<noteq> of_int \<lfloor>q\<rfloor> \<Longrightarrow> \<lfloor>- q\<rfloor> = - \<lfloor>q\<rfloor> - 1" for q :: rat
  by (intro floor_unique) (auto simp: less_le, linarith)

lemma rhe_uminus: "rhe (- q) = - rhe q"
proof (cases "q = of_int \<lfloor>q\<rfloor>")
  case True
  then show ?thesis by (metis of_int_minus rhe_of_int)
next
  case False
  then show ?thesis
    by (auto simp: rhe_def Let_def floor_uminus_nonint)
qed


section \<open>Binary exponent\<close>

text \<open>\<open>ilog2 q\<close> is the exponent of the binade that holds a positive rational.\<close>

definition ilog2 :: "rat \<Rightarrow> int" where
  "ilog2 q = (let (n, d) = quotient_of q; k = bitlen n - bitlen d in
     if 2 powi k \<le> q then k else k - 1)"

lemma powi_gt_zero [simp]: "(0 :: rat) < 2 powi e"
  by simp

lemma powi_mono_2: "e \<le> f \<Longrightarrow> (2 :: rat) powi e \<le> 2 powi f"
  by (rule power_int_increasing) simp_all

lemma powi_less_2_iff: "(2 :: rat) powi e < 2 powi f \<longleftrightarrow> e < f"
  by (metis linorder_not_less powi_mono_2 power_int_strict_increasing one_less_numeral_iff semiring_norm(76))

lemma bitlen_powi:
  assumes "0 < n"
  shows "(2 :: rat) powi (bitlen n - 1) \<le> of_int n" and "of_int n < (2 :: rat) powi bitlen n"
proof -
  have b: "2 ^ nat (bitlen n - 1) \<le> n" "n < 2 ^ nat (bitlen n)"
    using bitlen_bounds [OF assms] by auto
  have p: "0 < bitlen n" using b(2) assms by (cases "bitlen n \<le> 0") auto
  from b(1) have "(of_int (2 ^ nat (bitlen n - 1)) :: rat) \<le> of_int n" by (simp only: of_int_le_iff)
  with p show "(2 :: rat) powi (bitlen n - 1) \<le> of_int n" by (simp add: power_int_def power_divide)
  from b(2) have "(of_int n :: rat) < of_int (2 ^ nat (bitlen n))" by (simp only: of_int_less_iff)
  with p show "of_int n < (2 :: rat) powi bitlen n" by (simp add: power_int_def power_divide)
qed

lemma ilog2_bounds:
  assumes "0 < q"
  shows "2 powi ilog2 q \<le> q" and "q < 2 powi (ilog2 q + 1)"
proof -
  obtain n d where nd: "quotient_of q = (n, d)" by (cases "quotient_of q")
  define k where "k = bitlen n - bitlen d"
  have d: "0 < d" by (rule quotient_of_denom_pos [OF nd])
  have q: "q = of_int n / of_int d" by (rule quotient_of_div [OF nd])
  have n: "0 < n" using assms d unfolding q by (simp add: zero_less_divide_iff)
  note bn = bitlen_powi [OF n] and bd = bitlen_powi [OF d]
  have "q < 2 powi bitlen n / 2 powi (bitlen d - 1)"
    unfolding q using bn(2) bd(1) d n by (intro frac_less) auto
  also have "\<dots> = 2 powi (k + 1)"
    by (simp add: k_def power_int_diff power_int_add)
  finally have up: "q < 2 powi (k + 1)" .
  have "2 powi (k - 1) = (2 :: rat) powi (bitlen n - 1) / 2 powi bitlen d"
    by (simp add: k_def power_int_diff power_int_add field_simps)
  also have "\<dots> \<le> q"
    unfolding q using bn(1) bd(2) d n by (intro frac_le) auto
  finally have lo: "2 powi (k - 1) \<le> q" .
  have il: "ilog2 q = (if 2 powi k \<le> q then k else k - 1)"
    by (simp add: ilog2_def nd k_def Let_def)
  show "2 powi ilog2 q \<le> q" using lo il by auto
  show "q < 2 powi (ilog2 q + 1)" using up il by auto
qed

lemma ilog2_unique:
  assumes "2 powi e \<le> q" and "q < 2 powi (e + 1)"
  shows "ilog2 q = e"
proof -
  have q: "0 < q" using assms(1) by (rule less_le_trans [OF powi_gt_zero])
  have "2 powi e < (2 :: rat) powi (ilog2 q + 1)"
    using assms(1) ilog2_bounds(2) [OF q] by (rule le_less_trans)
  moreover have "2 powi ilog2 q < (2 :: rat) powi (e + 1)"
    using ilog2_bounds(1) [OF q] assms(2) by (rule le_less_trans)
  ultimately show ?thesis by (simp add: powi_less_2_iff)
qed

lemma ilog2_mono: "0 < p \<Longrightarrow> p \<le> q \<Longrightarrow> ilog2 p \<le> ilog2 q"
proof -
  assume "0 < p" "p \<le> q"
  then have "2 powi ilog2 p < (2 :: rat) powi (ilog2 q + 1)"
    using ilog2_bounds(1) [of p] ilog2_bounds(2) [of q] by linarith
  then show ?thesis by (simp add: powi_less_2_iff)
qed

section \<open>Rounding to binary64\<close>

definition ulp_exp :: "rat \<Rightarrow> int" where
  "ulp_exp q = max (- 1074) (ilog2 \<bar>q\<bar> - 52)"

definition fl :: "rat \<Rightarrow> pyfloat" where
  "fl q = (if q = 0 then 0 else of_int (rhe (q / 2 powi ulp_exp q)) * 2 powi ulp_exp q)"

text \<open>The finite binary64 values (exponent unbounded above).\<close>

definition is_binary64 :: "rat \<Rightarrow> bool" where
  "is_binary64 q \<longleftrightarrow> (\<exists>m e. q = of_int m * 2 powi e \<and> \<bar>m\<bar> \<le> 2 ^ 53 \<and> - 1074 \<le> e)"

lemma is_binary64I: "\<bar>m\<bar> \<le> 2 ^ 53 \<Longrightarrow> - 1074 \<le> e \<Longrightarrow> is_binary64 (of_int m * 2 powi e)"
  unfolding is_binary64_def by blast

lemma fl_zero [simp]: "fl 0 = 0"
  by (simp add: fl_def)

lemma ulp_exp_uminus [simp]: "ulp_exp (- q) = ulp_exp q"
  by (simp add: ulp_exp_def)

lemma fl_uminus: "fl (- q) = - fl q"
  by (simp add: fl_def rhe_uminus flip: minus_divide_left)

lemma ulp_exp_ge: "- 1074 \<le> ulp_exp q"
  by (simp add: ulp_exp_def)

lemma ulp_exp_mono: "0 < p \<Longrightarrow> p \<le> q \<Longrightarrow> ulp_exp p \<le> ulp_exp q"
  using ilog2_mono [of p q] by (auto simp: ulp_exp_def)

lemma powi_int_quot: "f \<le> e \<Longrightarrow> of_int m * 2 powi e / 2 powi f = (of_int (m * 2 ^ nat (e - f)) :: rat)"
proof -
  assume "f \<le> e"
  have "(2 :: rat) powi e / 2 powi f = 2 powi (e - f)" by (simp add: power_int_diff)
  also have "\<dots> = 2 ^ nat (e - f)" using \<open>f \<le> e\<close> by (simp add: power_int_def power_divide)
  finally show ?thesis by (simp add: divide_simps)
qed


lemma fl_nonzero: "q \<noteq> 0 \<Longrightarrow> fl q = of_int (rhe (q / 2 powi ulp_exp q)) * 2 powi ulp_exp q"
  by (simp add: fl_def)

lemma fl_le_grid:
  assumes "q \<noteq> 0" and "q \<le> of_int m * 2 powi k" and "ulp_exp q \<le> k"
  shows "fl q \<le> of_int m * 2 powi k"
proof -
  define e where "e = ulp_exp q"
  have "q / 2 powi e \<le> of_int m * 2 powi k / 2 powi e"
    using assms(2) by (rule divide_right_mono) simp
  then have "rhe (q / 2 powi e) \<le> m * 2 ^ nat (k - e)"
    using assms(3) by (intro rhe_le_int) (simp only: powi_int_quot e_def)
  then have "of_int (rhe (q / 2 powi e)) * 2 powi e \<le> (of_int (m * 2 ^ nat (k - e)) :: rat) * 2 powi e"
    by (intro mult_right_mono) (simp_all only: of_int_le_iff, simp)
  also have "\<dots> = of_int m * 2 powi k"
    unfolding e_def powi_int_quot [OF assms(3), symmetric] by simp
  finally show ?thesis using assms(1) by (simp add: fl_nonzero e_def)
qed

lemma grid_le_fl:
  assumes "q \<noteq> 0" and "of_int m * 2 powi k \<le> q" and "ulp_exp q \<le> k"
  shows "of_int m * 2 powi k \<le> fl q"
  using fl_le_grid [of "- q" "- m" k] assms by (simp add: fl_uminus)

lemma fl_nonneg: "0 \<le> q \<Longrightarrow> 0 \<le> fl q"
  using grid_le_fl [of q 0 "ulp_exp q"] by (cases "q = 0") auto

lemma fl_mono_pos:
  assumes p: "0 < p" and pq: "p \<le> q"
  shows "fl p \<le> fl q"
proof (cases "ulp_exp p = ulp_exp q")
  case True
  have "p / 2 powi ulp_exp q \<le> q / 2 powi ulp_exp q"
    using pq by (rule divide_right_mono) simp
  then have "rhe (p / 2 powi ulp_exp q) \<le> rhe (q / 2 powi ulp_exp q)"
    by (rule rhe_mono)
  then show ?thesis
    using p pq True by (simp add: fl_nonzero mult_right_mono)
next
  case False
  have q: "0 < q" using p pq by simp
  with False ulp_exp_mono [OF p pq] have lt: "ulp_exp p < ulp_exp q" by simp
  then have k: "ulp_exp q = ilog2 q - 52" "ilog2 p < ilog2 q"
    using p q by (auto simp: ulp_exp_def max_def split: if_splits)
  have "p \<le> 2 powi ilog2 q"
    using ilog2_bounds(2) [OF p] powi_mono_2 [of "ilog2 p + 1" "ilog2 q"] k(2) by simp
  then have "fl p \<le> 2 powi ilog2 q"
    using fl_le_grid [of p 1 "ilog2 q"] p lt k by simp
  also have "\<dots> \<le> fl q"
    using grid_le_fl [of q 1 "ilog2 q"] ilog2_bounds(1) [OF q] q k by simp
  finally show ?thesis .
qed

theorem fl_mono: "p \<le> q \<Longrightarrow> fl p \<le> fl q"
proof -
  assume pq: "p \<le> q"
  consider "0 < p" | "p \<le> 0" "0 \<le> q" | "q < 0" by linarith
  then show ?thesis
  proof cases
    case 1
    then show ?thesis using pq by (rule fl_mono_pos)
  next
    case 2
    then show ?thesis using fl_nonneg [of q] fl_nonneg [of "- p"] by (simp add: fl_uminus)
  next
    case 3
    then show ?thesis using fl_mono_pos [of "- q" "- p"] pq by (simp add: fl_uminus)
  qed
qed

lemma fl_id_pos:
  assumes "0 < m" and "m \<le> 2 ^ 53" and "- 1074 \<le> e"
  shows "fl (of_int m * 2 powi e) = of_int m * 2 powi e"
proof -
  have less: "fl (of_int n * 2 powi f) = of_int n * 2 powi f"
    if n: "0 < n" "n < 2 ^ 53" and f: "- 1074 \<le> f" for n f
  proof -
    let ?q = "of_int n * 2 powi f :: rat"
    have q: "0 < ?q" using n by simp
    have "(of_int n :: rat) < of_int (2 ^ 53)" using n(2) by (simp only: of_int_less_iff)
    then have "?q < 2 ^ 53 * 2 powi f" by (intro mult_strict_right_mono) simp_all
    also have "\<dots> = 2 powi (f + 53)" by (simp add: power_int_add)
    finally have "2 powi ilog2 ?q < (2 :: rat) powi (f + 53)"
      using ilog2_bounds(1) [OF q] by linarith
    then have "ulp_exp ?q \<le> f" using f q by (simp add: powi_less_2_iff ulp_exp_def)
    then show ?thesis
      using fl_le_grid [of ?q n f] grid_le_fl [of ?q n f] n by (intro antisym) auto
  qed
  show ?thesis
  proof (cases "m = 2 ^ 53")
    case True
    have "of_int m * 2 powi e = (of_int (2 ^ 52) * 2 powi (e + 1) :: rat)"
      unfolding True by (simp add: power_int_add)
    moreover have "fl (of_int (2 ^ 52) * 2 powi (e + 1)) = of_int (2 ^ 52) * 2 powi (e + 1)"
      using assms(3) by (intro less) simp_all
    ultimately show ?thesis by simp
  next
    case False
    then show ?thesis using assms by (intro less) simp_all
  qed
qed

theorem fl_id: "is_binary64 q \<Longrightarrow> fl q = q"
proof -
  assume "is_binary64 q"
  then obtain m e where q: "q = of_int m * 2 powi e" and m: "\<bar>m\<bar> \<le> 2 ^ 53" and e: "- 1074 \<le> e"
    by (auto simp: is_binary64_def)
  consider "m = 0" | "0 < m" | "m < 0" by linarith
  then show ?thesis
  proof cases
    case 1
    then show ?thesis using q by simp
  next
    case 2
    then show ?thesis using q m e fl_id_pos [of m e] by simp
  next
    case 3
    then show ?thesis using q m e fl_id_pos [of "- m" e] by (simp add: fl_uminus)
  qed
qed

lemma is_binary64_of_int: "\<bar>n\<bar> \<le> 2 ^ 53 \<Longrightarrow> is_binary64 (of_int n)"
  using is_binary64I [of n 0] by simp

lemma fl_of_int: "\<bar>n\<bar> \<le> 2 ^ 53 \<Longrightarrow> fl (of_int n) = of_int n"
  by (intro fl_id is_binary64_of_int)

lemma fl_numeral [simp]: "(numeral n :: int) \<le> 2 ^ 53 \<Longrightarrow> fl (numeral n) = numeral n"
  using fl_of_int [of "numeral n"] by simp

lemma fl_one [simp]: "fl 1 = 1"
  using fl_of_int [of 1] by simp

text \<open>Rounding never crosses a representable value.\<close>

lemma fl_le_iff_binary64: "is_binary64 b \<Longrightarrow> q \<le> b \<Longrightarrow> fl q \<le> b"
  using fl_mono [of q b] fl_id [of b] by simp

lemma binary64_le_fl: "is_binary64 b \<Longrightarrow> b \<le> q \<Longrightarrow> b \<le> fl q"
  using fl_mono [of b q] fl_id [of b] by simp

lemma fl_le_int: "\<bar>n\<bar> \<le> 2 ^ 53 \<Longrightarrow> q \<le> of_int n \<Longrightarrow> fl q \<le> of_int n"
  by (rule fl_le_iff_binary64 [OF is_binary64_of_int])

lemma int_le_fl: "\<bar>n\<bar> \<le> 2 ^ 53 \<Longrightarrow> of_int n \<le> q \<Longrightarrow> of_int n \<le> fl q"
  by (rule binary64_le_fl [OF is_binary64_of_int])

text \<open>Every rounded value is representable, and representable values are spaced by their ulp.\<close>

lemma is_binary64_fl: "is_binary64 (fl q)"
proof (cases "q = 0")
  case True
  then show ?thesis using is_binary64_of_int [of 0] by simp
next
  case False
  define e where "e = ulp_exp q"
  have "\<bar>q\<bar> < 2 powi (ilog2 \<bar>q\<bar> + 1)" using False by (intro ilog2_bounds) simp
  also have "\<dots> \<le> 2 powi (e + 53)" unfolding e_def ulp_exp_def by (intro powi_mono_2) simp
  also have "\<dots> = 2 ^ 53 * 2 powi e" by (simp add: power_int_add)
  finally have "\<bar>q\<bar> / 2 powi e \<le> 2 ^ 53" by (simp add: pos_divide_le_eq)
  then have lo: "- (2 ^ 53) \<le> q / 2 powi e" and hi: "q / 2 powi e \<le> 2 ^ 53"
    by (simp_all add: abs_le_iff divide_simps)
  have "rhe (q / 2 powi e) \<le> 2 ^ 53" using hi by (intro rhe_le_int) simp
  moreover have "- (2 ^ 53) \<le> rhe (q / 2 powi e)" using lo by (intro int_le_rhe) simp
  ultimately have "\<bar>rhe (q / 2 powi e)\<bar> \<le> 2 ^ 53" by (simp add: abs_le_iff)
  then show ?thesis
    using False ulp_exp_ge [of q] is_binary64I [of "rhe (q / 2 powi e)" e]
    by (simp add: fl_nonzero e_def)
qed

lemma fl_fl [simp]: "fl (fl q) = fl q"
  by (rule fl_id [OF is_binary64_fl])

lemma binary64_below:
  assumes a: "is_binary64 a" and lo: "2 powi (e + 52) \<le> a" and lt: "a < of_int n * 2 powi e"
  shows "a \<le> of_int (n - 1) * 2 powi e"
proof -
  have pos: "0 < a" using lo by (rule less_le_trans [OF powi_gt_zero])
  define f where "f = ulp_exp a"
  define r where "r = rhe (a / 2 powi f) * 2 ^ nat (f - e)"
  have "2 powi (e + 52) < (2 :: rat) powi (ilog2 a + 1)"
    using lo ilog2_bounds(2) [OF pos] by (rule le_less_trans)
  then have ef: "e \<le> f" using pos by (simp add: powi_less_2_iff f_def ulp_exp_def)
  have "a = fl a" using a by (simp add: fl_id)
  also have "\<dots> = of_int (rhe (a / 2 powi f)) * 2 powi f" using pos by (simp add: fl_nonzero f_def)
  also have "\<dots> = of_int r * 2 powi e"
    using powi_int_quot [OF ef, of "rhe (a / 2 powi f)"] unfolding r_def [symmetric]
    by (simp add: nonzero_divide_eq_eq)
  finally have eq: "a = of_int r * 2 powi e" .
  with lt have "r \<le> n - 1" by simp
  then show ?thesis unfolding eq by (intro mult_right_mono) simp_all
qed

text \<open>The largest value below two, and below twenty: what the saturation thresholds need.\<close>

lemma binary64_below_2:
  assumes "is_binary64 a" "a < 2"
  shows "fl (a / 2) < 1"
proof (cases "a < 1")
  case True
  then have "fl (a / 2) \<le> fl (1 / 2)" by (intro fl_mono) simp
  moreover have "is_binary64 (1 / 2)"
    using is_binary64I [of 1 "- 1"] by (simp add: power_int_def)
  ultimately show ?thesis by (simp add: fl_id)
next
  case False
  then have "a \<le> of_int (2 * 2 ^ 52 - 1) * 2 powi (- 52)"
    using assms binary64_below [of a "- 52" "2 * 2 ^ 52"] by (simp add: power_int_def power_divide)
  then have "a / 2 \<le> of_int (2 ^ 53 - 1) * 2 powi (- 53)" by (simp add: power_int_def power_divide)
  moreover have "is_binary64 (of_int (2 ^ 53 - 1) * 2 powi (- 53))"
    by (rule is_binary64I) simp_all
  ultimately have "fl (a / 2) \<le> of_int (2 ^ 53 - 1) * 2 powi (- 53)"
    by (intro fl_le_iff_binary64)
  also have "\<dots> < 1" by (simp add: power_int_def power_divide)
  finally show ?thesis .
qed

lemma binary64_below_20:
  assumes "is_binary64 a" "a < 20"
  shows "fl (a / 20) < 1"
proof (cases "a < 16")
  case True
  have "is_binary64 (of_int 7 * 2 powi (- 3))"
    by (rule is_binary64I) simp_all
  moreover have "a / 20 \<le> of_int 7 * 2 powi (- 3)" using True by (simp add: power_int_def power_divide)
  ultimately have "fl (a / 20) \<le> of_int 7 * 2 powi (- 3)" by (rule fl_le_iff_binary64)
  then show ?thesis by (simp add: power_int_def power_divide)
next
  case False
  then have "a \<le> of_int (20 * 2 ^ 48 - 1) * 2 powi (- 48)"
    using assms binary64_below [of a "- 48" "20 * 2 ^ 48"] by (simp add: power_int_def power_divide)
  then have "a / 20 \<le> of_int (2 ^ 53 - 1) * 2 powi (- 53)" by (simp add: power_int_def power_divide)
  moreover have "is_binary64 (of_int (2 ^ 53 - 1) * 2 powi (- 53))"
    by (rule is_binary64I) simp_all
  ultimately have "fl (a / 20) \<le> of_int (2 ^ 53 - 1) * 2 powi (- 53)"
    by (intro fl_le_iff_binary64)
  also have "\<dots> < 1" by (simp add: power_int_def power_divide)
  finally show ?thesis .
qed

lemma fdiv_ge_1_iff_2: "is_binary64 a \<Longrightarrow> 1 \<le> fl (a / 2) \<longleftrightarrow> 2 \<le> a"
  using binary64_below_2 [of a] int_le_fl [of 1 "a / 2"] by fastforce

lemma fdiv_ge_1_iff_20: "is_binary64 a \<Longrightarrow> 1 \<le> fl (a / 20) \<longleftrightarrow> 20 \<le> a"
  using binary64_below_20 [of a] int_le_fl [of 1 "a / 20"] by fastforce

text \<open>The relative error of one rounding, away from the subnormal range.\<close>

lemma fl_error_ulp: "\<bar>fl q - q\<bar> \<le> 2 powi ulp_exp q / 2"
proof (cases "q = 0")
  case True
  then show ?thesis by simp
next
  case False
  let ?u = "2 powi ulp_exp q :: rat"
  have "fl q - q = (of_int (rhe (q / ?u)) - q / ?u) * ?u"
    using False by (simp add: fl_nonzero algebra_simps)
  then have "\<bar>fl q - q\<bar> = \<bar>of_int (rhe (q / ?u)) - q / ?u\<bar> * ?u"
    by (simp add: abs_mult)
  also have "\<dots> \<le> 1 / 2 * ?u" by (intro mult_right_mono rhe_error) simp
  finally show ?thesis by simp
qed

lemma fl_rel_error:
  assumes "2 powi (- 1022) \<le> \<bar>q\<bar>"
  shows "\<bar>fl q - q\<bar> \<le> \<bar>q\<bar> / 2 ^ 53"
proof -
  have q: "0 < \<bar>q\<bar>" using assms by (rule less_le_trans [OF powi_gt_zero])
  have "(2 :: rat) powi (- 1022) < 2 powi (ilog2 \<bar>q\<bar> + 1)"
    using assms ilog2_bounds(2) [OF q] by linarith
  then have "- 1022 \<le> ilog2 \<bar>q\<bar>" by (simp only: powi_less_2_iff)
  then have u: "ulp_exp q = ilog2 \<bar>q\<bar> - 52" by (simp add: ulp_exp_def)
  have "2 powi ulp_exp q / 2 = (2 :: rat) powi ilog2 \<bar>q\<bar> / 2 ^ 53"
    by (simp add: u power_int_diff)
  also have "\<dots> \<le> \<bar>q\<bar> / 2 ^ 53"
    using ilog2_bounds(1) [OF q] by (rule divide_right_mono) simp
  finally show ?thesis using fl_error_ulp [of q] by linarith
qed


section \<open>The arithmetic of the source\<close>

definition of_pyint :: "int \<Rightarrow> pyfloat" where
  "of_pyint n = fl (of_int n)"

definition fadd :: "pyfloat \<Rightarrow> pyfloat \<Rightarrow> pyfloat" where
  "fadd a b = fl (a + b)"

definition fsub :: "pyfloat \<Rightarrow> pyfloat \<Rightarrow> pyfloat" where
  "fsub a b = fl (a - b)"

definition fmul :: "pyfloat \<Rightarrow> pyfloat \<Rightarrow> pyfloat" where
  "fmul a b = fl (a * b)"

text \<open>Division; every division of the source has a divisor its guards keep away from zero.\<close>

definition fdiv :: "pyfloat \<Rightarrow> pyfloat \<Rightarrow> pyfloat" where
  "fdiv a b = fl (a / b)"

text \<open>\<open>int / int\<close>: the correctly rounded quotient.\<close>

definition idiv :: "int \<Rightarrow> int \<Rightarrow> pyfloat" where
  "idiv a b = fl (of_int a / of_int b)"

text \<open>\<open>round(x, n)\<close> for \<open>n \<ge> 0\<close>.\<close>

definition py_round :: "nat \<Rightarrow> pyfloat \<Rightarrow> pyfloat" where
  "py_round n x = fl (of_int (rhe (x * 10 ^ n)) / 10 ^ n)"

text \<open>\<open>int(x)\<close> on a float: truncation towards zero.\<close>

definition py_int :: "pyfloat \<Rightarrow> int" where
  "py_int x = (if 0 \<le> x then \<lfloor>x\<rfloor> else \<lceil>x\<rceil>)"

text \<open>\<open>sum\<close> of floats: the interpreter adds with a running compensation term and adds it at the end.\<close>

fun py_sum_from :: "pyfloat \<Rightarrow> pyfloat \<Rightarrow> pyfloat list \<Rightarrow> pyfloat" where
  "py_sum_from hi lo [] = fadd hi lo"
| "py_sum_from hi lo (x # xs) =
     (let t = fadd hi x;
          e = (if \<bar>hi\<bar> \<ge> \<bar>x\<bar> then fadd (fsub hi t) x else fadd (fsub x t) hi)
      in py_sum_from t (fadd lo e) xs)"

definition py_sum :: "pyfloat list \<Rightarrow> pyfloat" where
  "py_sum xs = py_sum_from 0 0 xs"

lemmas pyfloat_ops = of_pyint_def fadd_def fsub_def fmul_def fdiv_def idiv_def

lemma py_round_mono: "x \<le> y \<Longrightarrow> py_round n x \<le> py_round n y"
  unfolding py_round_def by (intro fl_mono divide_right_mono) (simp_all add: rhe_mono)

lemma py_round_int: "\<bar>m\<bar> \<le> 2 ^ 53 \<Longrightarrow> py_round n (of_int m) = of_int m"
proof -
  assume m: "\<bar>m\<bar> \<le> 2 ^ 53"
  have "of_int m * 10 ^ n = (of_int (m * 10 ^ n) :: rat)" by simp
  then have "rhe (of_int m * 10 ^ n) = m * 10 ^ n" by (simp only: rhe_of_int)
  with m show ?thesis by (simp add: py_round_def fl_of_int)
qed

lemma py_round_ge_int: "\<bar>m\<bar> \<le> 2 ^ 53 \<Longrightarrow> of_int m \<le> x \<Longrightarrow> of_int m \<le> py_round n x"
  using py_round_mono [of "of_int m" x n] by (simp add: py_round_int)

lemma py_round_le_int: "\<bar>m\<bar> \<le> 2 ^ 53 \<Longrightarrow> x \<le> of_int m \<Longrightarrow> py_round n x \<le> of_int m"
  using py_round_mono [of x "of_int m" n] by (simp add: py_round_int)

section \<open>The rounding interface of the sizing rules\<close>

text \<open>
  What the sizing arithmetic relies on: rounding is monotone, exact on the integers up to
  \<open>2^53\<close>, and relatively accurate.  The lemmas of the block are proved from that contract
  alone and reach the model through its interpretation on \<open>fl\<close>.
\<close>

locale rounding =
  fixes rnd :: "rat \<Rightarrow> rat"
  assumes rnd_mono: "p \<le> q \<Longrightarrow> rnd p \<le> rnd q"
    and rnd_int: "\<bar>n\<bar> \<le> 2 ^ 53 \<Longrightarrow> rnd (of_int n) = of_int n"
    and rnd_close: "2 powi (- 1022) \<le> \<bar>q\<bar> \<Longrightarrow> \<bar>rnd q - q\<bar> \<le> \<bar>q\<bar> / 2 ^ 53"
begin

lemma ceil_ge: "\<bar>n\<bar> \<le> 2 ^ 53 \<Longrightarrow> of_int n \<le> q \<Longrightarrow> n \<le> \<lceil>rnd q\<rceil>"
proof -
  assume "\<bar>n\<bar> \<le> 2 ^ 53" "of_int n \<le> q"
  then have "of_int n \<le> rnd q" using rnd_mono [of "of_int n" q] by (simp add: rnd_int)
  then show ?thesis by linarith
qed

lemma ceil_le: "\<bar>n\<bar> \<le> 2 ^ 53 \<Longrightarrow> q \<le> of_int n \<Longrightarrow> \<lceil>rnd q\<rceil> \<le> n"
proof -
  assume "\<bar>n\<bar> \<le> 2 ^ 53" "q \<le> of_int n"
  then have "rnd q \<le> of_int n" using rnd_mono [of q "of_int n"] by (simp add: rnd_int)
  then show ?thesis by linarith
qed

text \<open>Scaling a count by an integer percentage and back is exact.\<close>

lemma scale_exact:
  assumes "\<bar>k * n\<bar> \<le> 2 ^ 53" and "\<bar>n\<bar> \<le> 2 ^ 53" and "k \<noteq> 0"
  shows "rnd (rnd (of_int k * of_int n) / of_int k) = of_int n"
  using rnd_int [OF assms(1)] rnd_int [OF assms(2)] assms(3) by simp

lemma ceil_scale_ge:
  assumes "of_int k \<le> u" and "0 < k" and "0 \<le> n" and "k * n \<le> 2 ^ 53"
  shows "n \<le> \<lceil>rnd (rnd (u * of_int n) / of_int k)\<rceil>"
proof -
  have n: "n \<le> 2 ^ 53" using assms(2-4) mult_right_mono [of 1 k n] by linarith
  have "of_int k * of_int n \<le> u * of_int n"
    using assms(1,3) by (intro mult_right_mono) simp_all
  then have "rnd (of_int (k * n)) \<le> rnd (u * of_int n)"
    by (intro rnd_mono) simp
  then have "of_int (k * n) \<le> rnd (u * of_int n)"
    using assms(2-4) by (simp add: rnd_int del: of_int_mult)
  then have "of_int n \<le> rnd (u * of_int n) / of_int k"
    using assms(2) by (simp add: pos_le_divide_eq mult.commute)
  then show ?thesis using n assms(3) by (intro ceil_ge) simp_all
qed

lemma ceil_scale_le:
  assumes "u \<le> of_int k" and "0 < k" and "0 \<le> n" and "k * n \<le> 2 ^ 53"
  shows "\<lceil>rnd (rnd (u * of_int n) / of_int k)\<rceil> \<le> n"
proof -
  have n: "n \<le> 2 ^ 53" using assms(2-4) mult_right_mono [of 1 k n] by linarith
  have "u * of_int n \<le> of_int k * of_int n"
    using assms(1,3) by (intro mult_right_mono) simp_all
  then have "rnd (u * of_int n) \<le> rnd (of_int (k * n))"
    by (intro rnd_mono) simp
  then have "rnd (u * of_int n) \<le> of_int (k * n)"
    using assms(2-4) by (simp add: rnd_int del: of_int_mult)
  then have "rnd (u * of_int n) / of_int k \<le> of_int n"
    using assms(2) by (simp add: pos_divide_le_eq mult.commute)
  then show ?thesis using n assms(3) by (intro ceil_le) simp_all
qed

text \<open>A product or quotient loses at most the relative half-ulp.\<close>

lemma rnd_lower: "2 powi (- 1022) \<le> q \<Longrightarrow> q * (1 - 1 / 2 ^ 53) \<le> rnd q"
proof -
  assume q: "2 powi (- 1022) \<le> q"
  then have "0 < q" by (rule less_le_trans [OF powi_gt_zero])
  with q have "\<bar>rnd q - q\<bar> \<le> q / 2 ^ 53" using rnd_close [of q] by simp
  then have "q - q / 2 ^ 53 \<le> rnd q" by linarith
  then show ?thesis by (simp add: algebra_simps)
qed

text \<open>Demand \<open>x\<close> sized as \<open>ceil(x / k)\<close> fits \<open>k\<close> per unit, up to the two roundings.\<close>

lemma sized_demand:
  assumes x: "2 powi (- 1000) \<le> x" and k: "1 \<le> k" "k \<le> 2 ^ 10"
  shows "x * (1 - 1 / 2 ^ 53) ^ 2 \<le> k * of_int \<lceil>rnd (rnd x / k)\<rceil>"
proof -
  let ?e = "1 - 1 / 2 ^ 53 :: rat"
  have small: "(2 :: rat) powi (- 1022) \<le> 2 powi (- 1000)" by (rule powi_mono_2) simp
  have pos: "0 < x" using x by (rule less_le_trans [OF powi_gt_zero])
  have lo: "x * ?e \<le> rnd x" using x small by (intro rnd_lower) linarith
  have half: "x / 2 \<le> x * ?e" using pos by (simp add: field_simps)
  have "(2 :: rat) powi (- 1022) \<le> 2 powi (- 1000) / 2 / 2 ^ 10"
    using powi_mono_2 [of "- 1022" "- 1011"] by (simp add: power_int_def power_divide)
  also have "\<dots> \<le> rnd x / k"
  proof (rule frac_le)
    show "0 \<le> rnd x" using pos lo half by linarith
    show "2 powi (- 1000) / 2 \<le> rnd x" using x lo half by linarith
  qed (use k in simp_all)
  finally have "rnd x / k * ?e \<le> rnd (rnd x / k)" by (rule rnd_lower)
  moreover have "x * ?e / k * ?e \<le> rnd x / k * ?e"
    using lo k by (intro mult_right_mono divide_right_mono) simp_all
  ultimately have "x * ?e / k * ?e \<le> of_int \<lceil>rnd (rnd x / k)\<rceil>"
    using le_of_int_ceiling [of "rnd (rnd x / k)"] by linarith
  then have "k * (x * ?e / k * ?e) \<le> k * of_int \<lceil>rnd (rnd x / k)\<rceil>"
    using k by (intro mult_left_mono) simp_all
  moreover have "k * (x * ?e / k * ?e) = x * ?e ^ 2" using k by (simp add: power2_eq_square)
  ultimately show ?thesis by simp
qed

end

interpretation fl64: rounding fl
proof
  fix p q :: rat
  show "fl p \<le> fl q" if "p \<le> q" using that by (rule fl_mono)
  show "\<bar>fl q - q\<bar> \<le> \<bar>q\<bar> / 2 ^ 53" if "2 powi (- 1022) \<le> \<bar>q\<bar>"
    using that by (rule fl_rel_error)
next
  fix n :: int
  show "fl (of_int n) = of_int n" if "\<bar>n\<bar> \<le> 2 ^ 53" using that by (rule fl_of_int)
qed

end
