(* ===== verification/WireTypes.thy ===== *)
theory WireTypes
  imports PyFloat
begin

text \<open>
  The messages of the agents and the storage records made from them.  The first part has the inbound
  schemas of \<open>consumer/schemas.py\<close> (the class hierarchy is the record hierarchy), the second the
  storage records of \<open>db/dtos/inbound.py\<close>.  Timestamps are integers (microseconds of UTC), UUIDs are
  their canonical strings, JSON columns are values of \<open>json\<close>.
\<close>

type_synonym datetime = int

datatype json =
  JNull | JBool bool | JInt int | JFloat pyfloat | JStr string | JList "json list"
  | JObj "(string \<times> json) list"

section \<open>Inbound schemas\<close>

datatype attr_val = AStr string | AInt int

record Datapoint =
  attr :: "string \<rightharpoonup> attr_val"
  point_value :: "pyfloat option"

datatype metric_type = Counter | Gauge

record Metric =
  metric_type :: metric_type
  metric_unit :: string
  points :: "Datapoint list"

type_synonym Namespace = "string \<rightharpoonup> Metric"

text \<open>The raw RAID level is a number or a text.\<close>

datatype raid_level = Raid_int int | Raid_str string

record MessageBase =
  msg_schema_version :: string
  msg_message_id :: string
  msg_collected_at :: datetime
  msg_composite_id :: "string option"
  msg_machine_id :: "string option"
  msg_agent_version :: "string option"
  msg_boot_time :: "datetime option"
  msg_agent_started_at :: "datetime option"
  msg_os_family :: string

record AgentMessageBase = MessageBase +
  msg_agent_id :: string

record MetricsInput = AgentMessageBase +
  system_cpu :: "Namespace option"
  system_memory :: "Namespace option"
  system_disk :: "Namespace option"
  system_network :: "Namespace option"
  system_paging :: "Namespace option"
  system_filesystem :: "Namespace option"
  system_pressure :: "Namespace option"
  system_cgroup :: "Namespace option"

record BlockDeviceInfo =
  bd_name :: string
  bd_type :: string
  bd_size_bytes :: "int option"
  bd_fstype :: "string option"
  bd_mountpoint :: "string option"
  bd_parent :: "string option"
  bd_id :: "string option"
  bd_id_type :: "string option"
  bd_partition_table :: "string option"
  bd_sector_size :: "int option"
  bd_serial :: "string option"
  bd_wwn :: "string option"
  bd_rotational :: "bool option"
  bd_part_number :: "int option"
  bd_part_start_bytes :: "int option"
  bd_part_type :: "string option"
  bd_part_name :: "string option"
  bd_part_flags :: "string list option"
  bd_fs_uuid :: "string option"
  bd_fs_label :: "string option"
  bd_block_size :: "int option"
  bd_mount_options :: "string list option"
  bd_fs_freq :: "int option"
  bd_fs_passno :: "int option"
  bd_lvm_vg :: "string option"
  bd_lvm_lv :: "string option"
  bd_lvm_segtype :: "string option"
  bd_lvm_stripes :: "int option"
  bd_lvm_stripe_size_kib :: "int option"
  bd_raid_level :: "raid_level option"
  bd_raid_chunk_kib :: "int option"
  bd_raid_metadata :: "string option"
  bd_raid_uuid :: "string option"
  bd_crypt_type :: "string option"

record NetAddressInfo =
  na_address :: string
  na_prefix :: "int option"
  na_family :: string
  na_origin :: "string option"

record RouteInfo =
  rt_dest :: string
  rt_via :: "string option"

record NetInterfaceInfo =
  ni_name :: string
  ni_id :: "string option"
  ni_id_type :: "string option"
  ni_kind :: "string option"
  ni_speed_mbps :: "int option"
  ni_addresses :: "NetAddressInfo list"
  ni_gateway :: "string option"
  ni_mtu :: "int option"
  ni_dns :: "string list option"
  ni_routes :: "RouteInfo list option"
  ni_bond_mode :: "string option"
  ni_vlan_id :: "int option"

record LvmVgInfo =
  vg_name :: string
  vg_size_bytes :: "int option"
  vg_free_bytes :: "int option"
  vg_data_percent :: "pyfloat option"
  vg_metadata_percent :: "pyfloat option"
  vg_vg_uuid :: "string option"
  vg_extent_size_bytes :: "int option"
  vg_pv_ids :: "string list option"

record InventoryServiceInfo =
  sv_unit :: string
  sv_sub :: string
  sv_pid :: "int option"
  sv_exe :: "string option"

record InventoryListenPortInfo =
  lp_proto :: string
  lp_addr :: string
  lp_port :: int
  lp_uid :: "int option"
  lp_pid :: "int option"
  lp_comm :: "string option"

record BootInfo =
  bi_kernel_cmdline :: "string option"
  bi_root_ref_type :: "string option"
  bi_grub_install_target :: "string option"

record NonblockMountInfo =
  nm_source :: string
  nm_target :: string
  nm_fstype :: "string option"
  nm_options :: "string list option"
  nm_fs_freq :: "int option"
  nm_fs_passno :: "int option"

record InventoryInput = AgentMessageBase +
  inv_hostname :: string
  inv_os_id :: "string option"
  inv_os_version :: "string option"
  inv_os_codename :: "string option"
  inv_kernel_version :: "string option"
  inv_cpu_model :: "string option"
  inv_cpu_cores :: "int option"
  inv_mem_total_bytes :: "int option"
  inv_ip_external :: "string list option"
  inv_arch :: "string option"
  inv_bits :: "int option"
  inv_boot_firmware :: "string option"
  inv_secure_boot :: "bool option"
  inv_edition :: "string option"
  inv_product_name :: "string option"
  inv_timezone :: "string option"
  inv_rtc_utc :: "bool option"
  inv_boot :: "BootInfo option"
  inv_nonblock_mounts :: "NonblockMountInfo list option"
  inv_block_devices :: "BlockDeviceInfo list"
  inv_net_interfaces :: "NetInterfaceInfo list"
  inv_lvm_vgs :: "LvmVgInfo list"
  inv_services :: "InventoryServiceInfo list option"
  inv_listen_ports :: "InventoryListenPortInfo list"

record ErrorInput = AgentMessageBase +
  err_error_code :: string
  err_error_message :: string
  err_failed_component :: string
  err_retry_count :: "int option"
  err_first_failed_at :: "datetime option"
  err_recovered_at :: "datetime option"

record TaskResultInput = MessageBase +
  tr_agent_id :: "string option"
  tr_hostname :: string
  tr_os_id :: "string option"
  tr_os_version :: "string option"
  tr_os_codename :: "string option"
  tr_task_id :: string
  tr_status :: string
  tr_failure_reason :: "string option"
  tr_exit_code :: "int option"
  tr_signal_no :: "int option"
  tr_task_policy :: "bool option"
  tr_duration_ms :: int
  tr_stdout_tail :: string
  tr_stderr_tail :: string
  tr_completed_at :: datetime

section \<open>Storage records\<close>

record ServerInventoryCreate =
  ic_agent_id :: string
  ic_composite_id :: "string option"
  ic_machine_id :: "string option"
  ic_hostname :: string
  ic_agent_version :: "string option"
  ic_collected_at :: datetime
  ic_boot_time :: "datetime option"
  ic_agent_started_at :: "datetime option"
  ic_os_family :: "string option"
  ic_os_id :: "string option"
  ic_os_version :: "string option"
  ic_os_codename :: "string option"
  ic_kernel_version :: "string option"
  ic_cpu_cores :: "int option"
  ic_cpu_model :: "string option"
  ic_mem_total_bytes :: "int option"
  ic_block_devices :: "json list"
  ic_net_interfaces :: "json list"
  ic_lvm_vgs :: "json list"
  ic_ip_external :: "string list option"
  ic_services :: "json list option"
  ic_listen_ports :: "json list"
  ic_service_categories :: "string list"
  ic_arch :: "string option"
  ic_bits :: "int option"
  ic_boot_firmware :: "string option"
  ic_secure_boot :: "bool option"
  ic_edition :: "string option"
  ic_product_name :: "string option"
  ic_timezone :: "string option"
  ic_rtc_utc :: "bool option"
  ic_boot :: "json option"
  ic_nonblock_mounts :: "json list option"

record DiskIoEntry =
  dio_device_id :: string
  dio_device_name :: "string option"
  dio_io_read_bytes :: "int option"
  dio_io_write_bytes :: "int option"
  dio_ops_read :: "int option"
  dio_ops_write :: "int option"
  dio_io_time_s :: "pyfloat option"
  dio_op_read_time_s :: "pyfloat option"
  dio_op_write_time_s :: "pyfloat option"
  dio_pending_ops :: "pyfloat option"

record NetIoEntry =
  nio_iface_id :: string
  nio_iface_name :: "string option"
  nio_rx_bytes :: "int option"
  nio_tx_bytes :: "int option"
  nio_rx_packets :: "int option"
  nio_tx_packets :: "int option"
  nio_rx_errors :: "int option"
  nio_tx_errors :: "int option"
  nio_rx_dropped :: "int option"
  nio_tx_dropped :: "int option"
  nio_link_speed_bps :: "int option"

record FilesystemEntry =
  fs_mountpoint :: string
  fs_device_id :: "string option"
  fs_fstype :: "string option"
  fs_used_bytes :: "int option"
  fs_free_bytes :: "int option"
  fs_inodes_used :: "int option"
  fs_inodes_free :: "int option"

record CpuCoreEntry =
  cc_core_id :: int
  cc_cpu_user_s :: "pyfloat option"
  cc_cpu_nice_s :: "pyfloat option"
  cc_cpu_system_s :: "pyfloat option"
  cc_cpu_idle_s :: "pyfloat option"
  cc_cpu_iowait_s :: "pyfloat option"
  cc_cpu_irq_s :: "pyfloat option"
  cc_cpu_softirq_s :: "pyfloat option"
  cc_cpu_steal_s :: "pyfloat option"

record PressureEntry =
  pr_resource :: string
  pr_scope :: string
  pr_stall_time_s :: "pyfloat option"
  pr_ratio_avg10 :: "pyfloat option"
  pr_ratio_avg60 :: "pyfloat option"
  pr_ratio_avg300 :: "pyfloat option"

record DiskErrorEntry =
  de_device_id :: string
  de_error_kind :: string
  de_error_class :: string
  de_member :: "string option"
  de_count :: "int option"

record TaskCreate =
  tc_target_server_id :: int
  tc_target_agent_id :: string
  tc_task_type :: string
  tc_params :: "json option"
  tc_deadline_at :: "datetime option"

record TaskResultUpdate =
  tu_public_id :: string
  tu_status :: string
  tu_failure_reason :: "string option"
  tu_exit_code :: "int option"
  tu_signal_no :: "int option"
  tu_task_policy :: "bool option"
  tu_duration_ms :: int
  tu_stdout_tail :: string
  tu_stderr_tail :: string
  tu_completed_at :: datetime

record ServerMetricCreate =
  mc_collected_at :: datetime
  mc_boot_time :: "datetime option"
  mc_agent_started_at :: "datetime option"
  mc_cpu_user_s :: "pyfloat option"
  mc_cpu_nice_s :: "pyfloat option"
  mc_cpu_system_s :: "pyfloat option"
  mc_cpu_idle_s :: "pyfloat option"
  mc_cpu_iowait_s :: "pyfloat option"
  mc_cpu_irq_s :: "pyfloat option"
  mc_cpu_softirq_s :: "pyfloat option"
  mc_cpu_steal_s :: "pyfloat option"
  mc_cpu_logical_count :: "int option"
  mc_cpu_run_queue :: "pyfloat option"
  mc_cpu_blocked :: "pyfloat option"
  mc_cpu_mce :: "int option"
  mc_mem_free_bytes :: "int option"
  mc_mem_cached_bytes :: "int option"
  mc_mem_buffered_bytes :: "int option"
  mc_mem_available_bytes :: "int option"
  mc_mem_used_bytes :: "int option"
  mc_mem_limit_bytes :: "int option"
  mc_mem_commit_usage_bytes :: "int option"
  mc_mem_commit_limit_bytes :: "int option"
  mc_mem_hardware_corrupted_bytes :: "int option"
  mc_mem_oom_kill :: "int option"
  mc_paging_in :: "int option"
  mc_paging_out :: "int option"
  mc_paging_major :: "int option"
  mc_net_tcp_retransmits :: "int option"
  mc_net_conntrack_usage :: "int option"
  mc_net_conntrack_limit :: "int option"
  mc_disk_io :: "DiskIoEntry list"
  mc_net_io :: "NetIoEntry list"
  mc_filesystems :: "FilesystemEntry list"
  mc_cpu_per_core :: "CpuCoreEntry list"
  mc_pressure :: "PressureEntry list"
  mc_disk_errors :: "DiskErrorEntry list"

end
