(* ===== verification/BootTime.thy ===== *)
theory BootTime
  imports WireTypes
begin

text \<open>
  Same-boot tests of \<open>boot_time.py\<close>.  The agent derives the boot time from the uptime, so it jitters by
  a second; differences up to five seconds count as the same boot.  Times are microseconds.
\<close>

definition BOOT_TIME_JITTER_TOLERANCE :: int where
  "BOOT_TIME_JITTER_TOLERANCE = 5 * 1000000"

definition is_counter_reset :: "datetime option \<Rightarrow> datetime option \<Rightarrow> bool" where
  "is_counter_reset cur_boot prev_boot =
     (case (cur_boot, prev_boot) of
        (Some c, Some p) \<Rightarrow> \<bar>c - p\<bar> > BOOT_TIME_JITTER_TOLERANCE
      | _ \<Rightarrow> False)"

definition boot_time_changed :: "datetime option \<Rightarrow> datetime option \<Rightarrow> bool" where
  "boot_time_changed prev_boot new_boot =
     (case (prev_boot, new_boot) of
        (None, None) \<Rightarrow> False
      | (Some p, Some n) \<Rightarrow> \<bar>p - n\<bar> > BOOT_TIME_JITTER_TOLERANCE
      | _ \<Rightarrow> True)"

lemma boot_time_changed_refl [simp]: "\<not> boot_time_changed b b"
  by (simp add: boot_time_changed_def BOOT_TIME_JITTER_TOLERANCE_def split: option.split)

lemma boot_time_changed_sym: "boot_time_changed a b = boot_time_changed b a"
  by (auto simp: boot_time_changed_def abs_minus_commute split: option.split)

text \<open>
  The two boot tests are symmetric, agree whenever both times are known, absorb
  any jitter of up to five seconds, and differ only where one time is unknown: the history keeps that
  change while the counter logic does not claim a reset.
\<close>

theorem boot_tests_agree:
  "is_counter_reset a b = is_counter_reset b a
   \<and> boot_time_changed a b = boot_time_changed b a
   \<and> is_counter_reset (Some x) (Some y) = boot_time_changed (Some x) (Some y)
   \<and> is_counter_reset (Some x) (Some y) = (5000000 < \<bar>x - y\<bar>)
   \<and> (is_counter_reset a b \<noteq> boot_time_changed a b) = ((a = None) \<noteq> (b = None))"
  by (auto simp: is_counter_reset_def boot_time_changed_def BOOT_TIME_JITTER_TOLERANCE_def
      abs_minus_commute split: option.split)

end
