(* ===== verification/CollectRepo.thy ===== *)
theory CollectRepo
  imports BootTime
begin

text \<open>
  The collect repository (\<open>db/repositories/collect_sql.py\<close>) on an explicit database state: the server
  inventory with its history, the tasks, and the seven time-series tables.  Every method is one
  function on the state; a constraint of the schema that a statement can violate is a branch with the
  error the driver raises.  The UUID a task gets and the database clock are arguments.  The column
  \<open>public_id\<close> of a server, which the database fills, is not part of its row; where a page shows it, it is
  an argument.
\<close>

section \<open>Rows\<close>

record ServerInventory =
  si_id :: int
  si_agent_id :: string
  si_composite_id :: "string option"
  si_machine_id :: "string option"
  si_hostname :: string
  si_agent_version :: "string option"
  si_os_family :: "string option"
  si_os_id :: "string option"
  si_os_version :: "string option"
  si_os_codename :: "string option"
  si_kernel_version :: "string option"
  si_cpu_cores :: "int option"
  si_cpu_model :: "string option"
  si_mem_total_bytes :: "int option"
  si_boot_time :: "datetime option"
  si_agent_started_at :: "datetime option"
  si_block_devices :: "json list"
  si_net_interfaces :: "json list"
  si_lvm_vgs :: "json list"
  si_ip_external :: "string list option"
  si_services :: "json list option"
  si_listen_ports :: "json list"
  si_service_categories :: "string list"
  si_arch :: "string option"
  si_bits :: "int option"
  si_boot_firmware :: "string option"
  si_secure_boot :: "bool option"
  si_edition :: "string option"
  si_product_name :: "string option"
  si_timezone :: "string option"
  si_rtc_utc :: "bool option"
  si_boot :: "json option"
  si_nonblock_mounts :: "json list option"
  si_last_seen_at :: datetime

record ServerInventoryHistory =
  hi_server_id :: int
  hi_collected_at :: datetime
  hi_hostname :: string
  hi_agent_version :: "string option"
  hi_os_family :: "string option"
  hi_os_id :: "string option"
  hi_os_version :: "string option"
  hi_os_codename :: "string option"
  hi_kernel_version :: "string option"
  hi_arch :: "string option"
  hi_bits :: "int option"
  hi_boot_firmware :: "string option"
  hi_secure_boot :: "bool option"
  hi_edition :: "string option"
  hi_product_name :: "string option"
  hi_timezone :: "string option"
  hi_rtc_utc :: "bool option"
  hi_cpu_cores :: "int option"
  hi_cpu_model :: "string option"
  hi_mem_total_bytes :: "int option"
  hi_boot_time :: "datetime option"
  hi_agent_started_at :: "datetime option"
  hi_block_devices :: "json list"
  hi_net_interfaces :: "json list"
  hi_lvm_vgs :: "json list"
  hi_boot :: "json option"
  hi_nonblock_mounts :: "json list option"
  hi_ip_external :: "string list option"
  hi_services :: "json list option"
  hi_listen_ports :: "json list"

record Task =
  t_id :: int
  t_public_id :: string
  t_target_server_id :: int
  t_target_agent_id :: string
  t_task_type :: string
  t_params :: "json option"
  t_status :: string
  t_created_at :: datetime
  t_deadline_at :: "datetime option"
  t_completed_at :: "datetime option"
  t_failure_reason :: "string option"
  t_exit_code :: "int option"
  t_signal_no :: "int option"
  t_duration_ms :: "int option"
  t_stdout_tail :: "string option"
  t_stderr_tail :: "string option"
  t_task_policy :: "bool option"

record ServerMetrics =
  sm_server_id :: int
  sm_collected_at :: datetime
  sm_cpu_user_s :: "pyfloat option"
  sm_cpu_nice_s :: "pyfloat option"
  sm_cpu_system_s :: "pyfloat option"
  sm_cpu_idle_s :: "pyfloat option"
  sm_cpu_iowait_s :: "pyfloat option"
  sm_cpu_irq_s :: "pyfloat option"
  sm_cpu_softirq_s :: "pyfloat option"
  sm_cpu_steal_s :: "pyfloat option"
  sm_cpu_logical_count :: "int option"
  sm_cpu_run_queue :: "pyfloat option"
  sm_cpu_blocked :: "pyfloat option"
  sm_cpu_mce :: "int option"
  sm_mem_free_bytes :: "int option"
  sm_mem_cached_bytes :: "int option"
  sm_mem_buffered_bytes :: "int option"
  sm_mem_available_bytes :: "int option"
  sm_mem_used_bytes :: "int option"
  sm_mem_limit_bytes :: "int option"
  sm_mem_commit_usage_bytes :: "int option"
  sm_mem_commit_limit_bytes :: "int option"
  sm_mem_hardware_corrupted_bytes :: "int option"
  sm_mem_oom_kill :: "int option"
  sm_paging_in :: "int option"
  sm_paging_out :: "int option"
  sm_paging_major :: "int option"
  sm_net_tcp_retransmits :: "int option"
  sm_net_conntrack_usage :: "int option"
  sm_net_conntrack_limit :: "int option"
  sm_boot_time :: "datetime option"
  sm_agent_started_at :: "datetime option"

text \<open>A row of a child table: the envelope columns and the entry, whose fields are the other columns.\<close>

record 'e child_row =
  ch_server_id :: int
  ch_collected_at :: datetime
  ch_entry :: 'e

record db =
  servers :: "ServerInventory list"
  server_seq :: int
  history :: "ServerInventoryHistory list"
  tasks :: "Task list"
  task_seq :: int
  metrics_rows :: "ServerMetrics list"
  disk_io_rows :: "DiskIoEntry child_row list"
  net_io_rows :: "NetIoEntry child_row list"
  filesystem_rows :: "FilesystemEntry child_row list"
  cpu_core_rows :: "CpuCoreEntry child_row list"
  pressure_rows :: "PressureEntry child_row list"
  disk_error_rows :: "DiskErrorEntry child_row list"

definition empty_db :: db where
  "empty_db =
     \<lparr>servers = [], server_seq = 1, history = [], tasks = [], task_seq = 1, metrics_rows = [],
      disk_io_rows = [], net_io_rows = [], filesystem_rows = [], cpu_core_rows = [],
      pressure_rows = [], disk_error_rows = []\<rparr>"

text \<open>
  What a statement raises.  \<open>DBAPIError\<close> is the base class, with the SQLSTATE of the original error when
  it has one; \<open>RuntimeError\<close> is raised by the repository itself.
\<close>

datatype db_error =
  OperationalError | InterfaceError | IntegrityError | DataError | DBAPIError "string option"
  | TimeoutError | RuntimeError

section \<open>Server inventory\<close>

definition find_server_id :: "string \<Rightarrow> db \<Rightarrow> int option" where
  "find_server_id agent_id d =
     map_option si_id (List.find (\<lambda>r. si_agent_id r = agent_id) (servers d))"

definition inventory_row :: "int \<Rightarrow> ServerInventoryCreate \<Rightarrow> ServerInventory" where
  "inventory_row sid data =
     \<lparr>si_id = sid,
      si_agent_id = ic_agent_id data,
      si_composite_id = ic_composite_id data,
      si_machine_id = ic_machine_id data,
      si_hostname = ic_hostname data,
      si_agent_version = ic_agent_version data,
      si_os_family = ic_os_family data,
      si_os_id = ic_os_id data,
      si_os_version = ic_os_version data,
      si_os_codename = ic_os_codename data,
      si_kernel_version = ic_kernel_version data,
      si_cpu_cores = ic_cpu_cores data,
      si_cpu_model = ic_cpu_model data,
      si_mem_total_bytes = ic_mem_total_bytes data,
      si_boot_time = ic_boot_time data,
      si_agent_started_at = ic_agent_started_at data,
      si_block_devices = ic_block_devices data,
      si_net_interfaces = ic_net_interfaces data,
      si_lvm_vgs = ic_lvm_vgs data,
      si_ip_external = ic_ip_external data,
      si_services = ic_services data,
      si_listen_ports = ic_listen_ports data,
      si_service_categories = ic_service_categories data,
      si_arch = ic_arch data,
      si_bits = ic_bits data,
      si_boot_firmware = ic_boot_firmware data,
      si_secure_boot = ic_secure_boot data,
      si_edition = ic_edition data,
      si_product_name = ic_product_name data,
      si_timezone = ic_timezone data,
      si_rtc_utc = ic_rtc_utc data,
      si_boot = ic_boot data,
      si_nonblock_mounts = ic_nonblock_mounts data,
      si_last_seen_at = ic_collected_at data\<rparr>"

definition inventory_changed :: "ServerInventory \<Rightarrow> ServerInventoryCreate \<Rightarrow> bool" where
  "inventory_changed prev new =
     (si_agent_version prev \<noteq> ic_agent_version new
      \<or> si_os_family prev \<noteq> ic_os_family new
      \<or> si_os_id prev \<noteq> ic_os_id new
      \<or> si_os_version prev \<noteq> ic_os_version new
      \<or> si_os_codename prev \<noteq> ic_os_codename new
      \<or> si_kernel_version prev \<noteq> ic_kernel_version new
      \<or> si_arch prev \<noteq> ic_arch new
      \<or> si_bits prev \<noteq> ic_bits new
      \<or> si_boot_firmware prev \<noteq> ic_boot_firmware new
      \<or> si_secure_boot prev \<noteq> ic_secure_boot new
      \<or> si_edition prev \<noteq> ic_edition new
      \<or> si_product_name prev \<noteq> ic_product_name new
      \<or> si_timezone prev \<noteq> ic_timezone new
      \<or> si_rtc_utc prev \<noteq> ic_rtc_utc new
      \<or> si_cpu_cores prev \<noteq> ic_cpu_cores new
      \<or> si_cpu_model prev \<noteq> ic_cpu_model new
      \<or> si_mem_total_bytes prev \<noteq> ic_mem_total_bytes new
      \<or> boot_time_changed (si_boot_time prev) (ic_boot_time new)
      \<or> si_agent_started_at prev \<noteq> ic_agent_started_at new
      \<or> si_block_devices prev \<noteq> ic_block_devices new
      \<or> si_net_interfaces prev \<noteq> ic_net_interfaces new
      \<or> si_lvm_vgs prev \<noteq> ic_lvm_vgs new
      \<or> si_boot prev \<noteq> ic_boot new
      \<or> si_nonblock_mounts prev \<noteq> ic_nonblock_mounts new
      \<or> si_ip_external prev \<noteq> ic_ip_external new
      \<or> si_services prev \<noteq> ic_services new
      \<or> si_listen_ports prev \<noteq> ic_listen_ports new)"

definition history_row :: "int \<Rightarrow> ServerInventoryCreate \<Rightarrow> ServerInventoryHistory" where
  "history_row sid data =
     \<lparr>hi_server_id = sid,
      hi_collected_at = ic_collected_at data,
      hi_hostname = ic_hostname data,
      hi_agent_version = ic_agent_version data,
      hi_os_family = ic_os_family data,
      hi_os_id = ic_os_id data,
      hi_os_version = ic_os_version data,
      hi_os_codename = ic_os_codename data,
      hi_kernel_version = ic_kernel_version data,
      hi_arch = ic_arch data,
      hi_bits = ic_bits data,
      hi_boot_firmware = ic_boot_firmware data,
      hi_secure_boot = ic_secure_boot data,
      hi_edition = ic_edition data,
      hi_product_name = ic_product_name data,
      hi_timezone = ic_timezone data,
      hi_rtc_utc = ic_rtc_utc data,
      hi_cpu_cores = ic_cpu_cores data,
      hi_cpu_model = ic_cpu_model data,
      hi_mem_total_bytes = ic_mem_total_bytes data,
      hi_boot_time = ic_boot_time data,
      hi_agent_started_at = ic_agent_started_at data,
      hi_block_devices = ic_block_devices data,
      hi_net_interfaces = ic_net_interfaces data,
      hi_lvm_vgs = ic_lvm_vgs data,
      hi_boot = ic_boot data,
      hi_nonblock_mounts = ic_nonblock_mounts data,
      hi_ip_external = ic_ip_external data,
      hi_services = ic_services data,
      hi_listen_ports = ic_listen_ports data\<rparr>"

definition scalar_row :: "int \<Rightarrow> ServerMetricCreate \<Rightarrow> ServerMetrics" where
  "scalar_row sid data =
     \<lparr>sm_server_id = sid,
      sm_collected_at = mc_collected_at data,
      sm_cpu_user_s = mc_cpu_user_s data,
      sm_cpu_nice_s = mc_cpu_nice_s data,
      sm_cpu_system_s = mc_cpu_system_s data,
      sm_cpu_idle_s = mc_cpu_idle_s data,
      sm_cpu_iowait_s = mc_cpu_iowait_s data,
      sm_cpu_irq_s = mc_cpu_irq_s data,
      sm_cpu_softirq_s = mc_cpu_softirq_s data,
      sm_cpu_steal_s = mc_cpu_steal_s data,
      sm_cpu_logical_count = mc_cpu_logical_count data,
      sm_cpu_run_queue = mc_cpu_run_queue data,
      sm_cpu_blocked = mc_cpu_blocked data,
      sm_cpu_mce = mc_cpu_mce data,
      sm_mem_free_bytes = mc_mem_free_bytes data,
      sm_mem_cached_bytes = mc_mem_cached_bytes data,
      sm_mem_buffered_bytes = mc_mem_buffered_bytes data,
      sm_mem_available_bytes = mc_mem_available_bytes data,
      sm_mem_used_bytes = mc_mem_used_bytes data,
      sm_mem_limit_bytes = mc_mem_limit_bytes data,
      sm_mem_commit_usage_bytes = mc_mem_commit_usage_bytes data,
      sm_mem_commit_limit_bytes = mc_mem_commit_limit_bytes data,
      sm_mem_hardware_corrupted_bytes = mc_mem_hardware_corrupted_bytes data,
      sm_mem_oom_kill = mc_mem_oom_kill data,
      sm_paging_in = mc_paging_in data,
      sm_paging_out = mc_paging_out data,
      sm_paging_major = mc_paging_major data,
      sm_net_tcp_retransmits = mc_net_tcp_retransmits data,
      sm_net_conntrack_usage = mc_net_conntrack_usage data,
      sm_net_conntrack_limit = mc_net_conntrack_limit data,
      sm_boot_time = mc_boot_time data,
      sm_agent_started_at = mc_agent_started_at data\<rparr>"

text \<open>
  \<open>INSERT \<dots> ON CONFLICT DO NOTHING\<close>: rows are taken in order, and a row whose key is already in
  the table (or was inserted by the same statement) is skipped.  The count is the row count of the
  statement.
\<close>

fun insert_do_nothing :: "('r \<Rightarrow> 'k) \<Rightarrow> 'r list \<Rightarrow> 'r list \<Rightarrow> 'r list" where
  "insert_do_nothing k [] tbl = tbl"
| "insert_do_nothing k (r # rs) tbl =
     insert_do_nothing k rs (if k r \<in> k ` set tbl then tbl else tbl @ [r])"

definition history_key :: "ServerInventoryHistory \<Rightarrow> int \<times> datetime" where
  "history_key h = (hi_server_id h, hi_collected_at h)"

definition append_inventory_history :: "int \<Rightarrow> ServerInventoryCreate \<Rightarrow> db \<Rightarrow> db" where
  "append_inventory_history sid data d =
     d\<lparr>history := insert_do_nothing history_key [history_row sid data] (history d)\<rparr>"

text \<open>
  The statement \<open>INSERT \<dots> ON CONFLICT (agent_id) DO UPDATE \<dots> RETURNING id\<close>.  The sequence of the
  primary key advances on a conflict as well.
\<close>

definition upsert_statement :: "ServerInventoryCreate \<Rightarrow> db \<Rightarrow> int \<times> db" where
  "upsert_statement data d =
     (case List.find (\<lambda>r. si_agent_id r = ic_agent_id data) (servers d) of
        Some prev \<Rightarrow>
          (si_id prev,
           d\<lparr>servers := map (\<lambda>r. if si_agent_id r = ic_agent_id data
                                  then inventory_row (si_id r) data else r) (servers d),
             server_seq := server_seq d + 1\<rparr>)
      | None \<Rightarrow>
          (server_seq d,
           d\<lparr>servers := servers d @ [inventory_row (server_seq d) data],
             server_seq := server_seq d + 1\<rparr>))"

definition upsert_server :: "ServerInventoryCreate \<Rightarrow> db \<Rightarrow> int \<times> db" where
  "upsert_server data d =
     (let prev = List.find (\<lambda>r. si_agent_id r = ic_agent_id data) (servers d);
          (server_id, d1) = upsert_statement data d
      in if (case prev of None \<Rightarrow> True | Some p \<Rightarrow> inventory_changed p data)
         then (server_id, append_inventory_history server_id data d1)
         else (server_id, d1))"

definition insert_placeholder_server :: "ServerInventoryCreate \<Rightarrow> db \<Rightarrow> int option \<times> db" where
  "insert_placeholder_server data d =
     (if find_server_id (ic_agent_id data) d \<noteq> None
      then (None, d\<lparr>server_seq := server_seq d + 1\<rparr>)
      else (Some (server_seq d),
            d\<lparr>servers := servers d @ [inventory_row (server_seq d) data],
              server_seq := server_seq d + 1\<rparr>))"

text \<open>
  \<open>ensure_server_id\<close> runs three statements, and other transactions may commit between them.  The two
  lists are the inventories that other handlers upsert after the first and after the second
  statement; with empty lists the function runs undisturbed.
\<close>

definition interfere :: "ServerInventoryCreate list \<Rightarrow> db \<Rightarrow> db" where
  "interfere ds d = fold (\<lambda>x s. snd (upsert_server x s)) ds d"

definition ensure_server_id ::
  "ServerInventoryCreate list \<Rightarrow> ServerInventoryCreate list \<Rightarrow> string \<Rightarrow> ServerInventoryCreate \<Rightarrow> db
     \<Rightarrow> db_error + (int \<times> bool) \<times> db" where
  "ensure_server_id others1 others2 agent_id fallback d =
     (case find_server_id agent_id d of
        Some sid \<Rightarrow> Inr ((sid, False), d)
      | None \<Rightarrow>
          (case insert_placeholder_server fallback (interfere others1 d) of
             (Some new_id, d1) \<Rightarrow> Inr ((new_id, True), d1)
           | (None, d1) \<Rightarrow>
               let d2 = interfere others2 d1 in
               (case find_server_id agent_id d2 of
                  None \<Rightarrow> Inl RuntimeError
                | Some sid \<Rightarrow> Inr ((sid, False), d2))))"

section \<open>Tasks\<close>

definition is_pending :: "Task \<Rightarrow> bool" where
  "is_pending t = (t_status t = ''pending'')"

definition task_key :: "Task \<Rightarrow> int \<times> string" where
  "task_key t = (t_target_server_id t, t_task_type t)"

text \<open>The partial unique index \<open>uq_tasks_pending_per_server_type\<close>.\<close>

definition pending_unique :: "Task list \<Rightarrow> bool" where
  "pending_unique ts = distinct (map task_key (filter is_pending ts))"

definition new_task :: "int \<Rightarrow> string \<Rightarrow> datetime \<Rightarrow> TaskCreate \<Rightarrow> Task" where
  "new_task tid uuid now data =
     \<lparr>t_id = tid, t_public_id = uuid, t_target_server_id = tc_target_server_id data,
      t_target_agent_id = tc_target_agent_id data, t_task_type = tc_task_type data,
      t_params = tc_params data, t_status = ''pending'', t_created_at = now,
      t_deadline_at = tc_deadline_at data, t_completed_at = None, t_failure_reason = None,
      t_exit_code = None, t_signal_no = None, t_duration_ms = None, t_stdout_tail = None,
      t_stderr_tail = None, t_task_policy = None\<rparr>"

definition create_task :: "string \<Rightarrow> datetime \<Rightarrow> TaskCreate \<Rightarrow> db \<Rightarrow> db_error + string \<times> db" where
  "create_task uuid now data d =
     (let t = new_task (task_seq d) uuid now data; ts = tasks d @ [t] in
      if tc_target_server_id data \<notin> si_id ` set (servers d) then Inl IntegrityError
      else if uuid \<in> t_public_id ` set (tasks d) then Inl IntegrityError
      else if \<not> pending_unique ts then Inl IntegrityError
      else Inr (uuid, d\<lparr>tasks := ts, task_seq := task_seq d + 1\<rparr>))"

definition overdue :: "datetime \<Rightarrow> Task \<Rightarrow> bool" where
  "overdue now t = (is_pending t \<and> is_some_and (t_deadline_at t) (\<lambda>dl. dl < now))"

definition expire_task :: "datetime \<Rightarrow> Task \<Rightarrow> Task" where
  "expire_task now t =
     t\<lparr>t_status := ''failure'', t_failure_reason := Some ''timeout'', t_completed_at := Some now\<rparr>"

definition expire_where :: "(Task \<Rightarrow> bool) \<Rightarrow> datetime \<Rightarrow> db \<Rightarrow> nat \<times> db" where
  "expire_where p now d =
     (length (filter p (tasks d)), d\<lparr>tasks := map (\<lambda>t. if p t then expire_task now t else t) (tasks d)\<rparr>)"

definition expire_overdue_tasks :: "int list \<Rightarrow> datetime \<Rightarrow> db \<Rightarrow> nat \<times> db" where
  "expire_overdue_tasks server_ids now d =
     (if server_ids = [] then (0, d)
      else expire_where (\<lambda>t. t_target_server_id t \<in> set server_ids \<and> overdue now t) now d)"

definition expire_all_overdue_tasks :: "datetime \<Rightarrow> db \<Rightarrow> nat \<times> db" where
  "expire_all_overdue_tasks now d = expire_where (overdue now) now d"

definition find_pending_deadline_servers :: "int list \<Rightarrow> db \<Rightarrow> int list" where
  "find_pending_deadline_servers server_ids d =
     (if server_ids = [] then []
      else remdups (map t_target_server_id
             (filter (\<lambda>t. t_target_server_id t \<in> set server_ids \<and> is_pending t \<and> t_deadline_at t \<noteq> None)
                (tasks d))))"

text \<open>The range of a \<open>SmallInteger\<close> column; the driver refuses other values.\<close>

definition smallint :: "int option \<Rightarrow> bool" where
  "smallint v = (case v of None \<Rightarrow> True | Some i \<Rightarrow> - 32768 \<le> i \<and> i \<le> 32767)"

definition apply_result :: "TaskResultUpdate \<Rightarrow> Task \<Rightarrow> Task" where
  "apply_result data t =
     t\<lparr>t_status := tu_status data, t_completed_at := Some (tu_completed_at data),
       t_failure_reason := tu_failure_reason data, t_exit_code := tu_exit_code data,
       t_signal_no := tu_signal_no data, t_task_policy := tu_task_policy data,
       t_duration_ms := Some (tu_duration_ms data), t_stdout_tail := Some (tu_stdout_tail data),
       t_stderr_tail := Some (tu_stderr_tail data)\<rparr>"

definition complete_task :: "TaskResultUpdate \<Rightarrow> db \<Rightarrow> db_error + bool \<times> db" where
  "complete_task data d =
     (let hit = (\<lambda>t. t_public_id t = tu_public_id data);
          ts = map (\<lambda>t. if hit t then apply_result data t else t) (tasks d)
      in if \<not> smallint (tu_exit_code data) \<or> \<not> smallint (tu_signal_no data) then Inl DataError
         else if \<not> pending_unique ts then Inl IntegrityError
         else Inr (list_ex hit (tasks d), d\<lparr>tasks := ts\<rparr>))"

section \<open>Time series\<close>

definition metrics_key :: "ServerMetrics \<Rightarrow> int \<times> datetime" where
  "metrics_key r = (sm_server_id r, sm_collected_at r)"

definition child_key :: "('e \<Rightarrow> 'k) \<Rightarrow> 'e child_row \<Rightarrow> int \<times> 'k \<times> datetime" where
  "child_key f r = (ch_server_id r, f (ch_entry r), ch_collected_at r)"

definition disk_error_key :: "DiskErrorEntry \<Rightarrow> string \<times> string \<times> string \<times> string option" where
  "disk_error_key e = (de_device_id e, de_error_kind e, de_error_class e, de_member e)"

definition child_rows :: "int \<Rightarrow> datetime \<Rightarrow> 'e list \<Rightarrow> 'e child_row list" where
  "child_rows sid tm es = map (\<lambda>e. \<lparr>ch_server_id = sid, ch_collected_at = tm, ch_entry = e\<rparr>) es"

text \<open>The row hook of the disk errors: a missing member is the empty string.\<close>

definition member_hook :: "DiskErrorEntry \<Rightarrow> DiskErrorEntry" where
  "member_hook e = e\<lparr>de_member := Some (str_or (de_member e) [])\<rparr>"

definition insert_metrics :: "ServerMetrics list \<Rightarrow> db \<Rightarrow> db" where
  "insert_metrics rs d = d\<lparr>metrics_rows := insert_do_nothing metrics_key rs (metrics_rows d)\<rparr>"
definition insert_disk_io :: "DiskIoEntry child_row list \<Rightarrow> db \<Rightarrow> db" where
  "insert_disk_io rs d =
     d\<lparr>disk_io_rows := insert_do_nothing (child_key dio_device_id) rs (disk_io_rows d)\<rparr>"
definition insert_net_io :: "NetIoEntry child_row list \<Rightarrow> db \<Rightarrow> db" where
  "insert_net_io rs d =
     d\<lparr>net_io_rows := insert_do_nothing (child_key nio_iface_id) rs (net_io_rows d)\<rparr>"
definition insert_filesystem :: "FilesystemEntry child_row list \<Rightarrow> db \<Rightarrow> db" where
  "insert_filesystem rs d =
     d\<lparr>filesystem_rows := insert_do_nothing (child_key fs_mountpoint) rs (filesystem_rows d)\<rparr>"
definition insert_cpu_core :: "CpuCoreEntry child_row list \<Rightarrow> db \<Rightarrow> db" where
  "insert_cpu_core rs d =
     d\<lparr>cpu_core_rows := insert_do_nothing (child_key cc_core_id) rs (cpu_core_rows d)\<rparr>"
definition insert_pressure :: "PressureEntry child_row list \<Rightarrow> db \<Rightarrow> db" where
  "insert_pressure rs d =
     d\<lparr>pressure_rows :=
         insert_do_nothing (child_key (\<lambda>e. (pr_resource e, pr_scope e))) rs (pressure_rows d)\<rparr>"
definition insert_disk_error :: "DiskErrorEntry child_row list \<Rightarrow> db \<Rightarrow> db" where
  "insert_disk_error rs d =
     d\<lparr>disk_error_rows := insert_do_nothing (child_key disk_error_key) rs (disk_error_rows d)\<rparr>"

lemmas insert_table_defs =
  insert_metrics_def insert_disk_io_def insert_net_io_def insert_filesystem_def
  insert_cpu_core_def insert_pressure_def insert_disk_error_def

record MetricInsertResult =
  res_metrics :: nat
  res_disk_io :: nat
  res_net_io :: nat
  res_filesystem :: nat
  res_cpu_core :: nat
  res_pressure :: nat
  res_disk_error :: nat

text \<open>
  \<open>record_metrics\<close>: the seven inserts in the order of the source, with their row counts.  The foreign key of
  the rows is not a branch: its one caller obtains the identifier in the same transaction, and the reachable
  databases keep the reference (\<open>collect_integrity\<close>).
\<close>

definition record_metrics_db :: "int \<Rightarrow> ServerMetricCreate \<Rightarrow> db \<Rightarrow> db" where
  "record_metrics_db sid data d =
     (let tm = mc_collected_at data in
      insert_disk_error (child_rows sid tm (map member_hook (mc_disk_errors data)))
       (insert_pressure (child_rows sid tm (mc_pressure data))
         (insert_cpu_core (child_rows sid tm (mc_cpu_per_core data))
           (insert_filesystem (child_rows sid tm (mc_filesystems data))
             (insert_net_io (child_rows sid tm (mc_net_io data))
               (insert_disk_io (child_rows sid tm (mc_disk_io data))
                 (insert_metrics [scalar_row sid data] d)))))))"

definition record_metrics :: "int \<Rightarrow> ServerMetricCreate \<Rightarrow> db \<Rightarrow> MetricInsertResult \<times> db" where
  "record_metrics sid data d =
     (let d' = record_metrics_db sid data d;
          grown = (\<lambda>f. f d' - f d)
      in (\<lparr>res_metrics = grown (length \<circ> metrics_rows), res_disk_io = grown (length \<circ> disk_io_rows),
           res_net_io = grown (length \<circ> net_io_rows), res_filesystem = grown (length \<circ> filesystem_rows),
           res_cpu_core = grown (length \<circ> cpu_core_rows), res_pressure = grown (length \<circ> pressure_rows),
           res_disk_error = grown (length \<circ> disk_error_rows)\<rparr>, d'))"

end
