(* ===== verification/CollectStore.thy ===== *)
theory CollectStore
  imports CollectRepo
begin

text \<open>
  Facts about the collect repository.  The contract of a table with a natural key and
  conflict-ignoring inserts is a locale, interpreted on the seven time-series tables; replay safety of the metric inserts follows from it.
\<close>

section \<open>Conflict-ignoring inserts\<close>

lemma insert_do_nothing_keeps: "set tbl \<subseteq> set (insert_do_nothing k rs tbl)"
  by (induction k rs tbl rule: insert_do_nothing.induct) auto

lemma insert_do_nothing_new: "set (insert_do_nothing k rs tbl) \<subseteq> set tbl \<union> set rs"
  by (induction k rs tbl rule: insert_do_nothing.induct) (auto split: if_splits)

lemma insert_do_nothing_covers: "k ` set rs \<subseteq> k ` set (insert_do_nothing k rs tbl)"
proof (induction k rs tbl rule: insert_do_nothing.induct)
  case (2 k r rs tbl)
  let ?tbl = "if k r \<in> k ` set tbl then tbl else tbl @ [r]"
  have "k r \<in> k ` set ?tbl" by auto
  then have "k r \<in> k ` set (insert_do_nothing k rs ?tbl)"
    using insert_do_nothing_keeps [of ?tbl k rs] by (meson image_mono subsetD)
  with 2 show ?case by simp
qed simp

lemma insert_do_nothing_distinct:
  "distinct (map k tbl) \<Longrightarrow> distinct (map k (insert_do_nothing k rs tbl))"
  by (induction k rs tbl rule: insert_do_nothing.induct) auto

lemma insert_do_nothing_noop:
  "k ` set rs \<subseteq> k ` set tbl \<Longrightarrow> insert_do_nothing k rs tbl = tbl"
  by (induction k rs tbl rule: insert_do_nothing.induct) auto

lemma insert_do_nothing_fresh:
  "distinct (map k rs) \<Longrightarrow> k ` set rs \<inter> k ` set tbl = {} \<Longrightarrow> insert_do_nothing k rs tbl = tbl @ rs"
  by (induction k rs tbl rule: insert_do_nothing.induct) auto

locale natural_key_table =
  fixes key :: "'r \<Rightarrow> 'k"
    and rows :: "'t \<Rightarrow> 'r list"
    and ins :: "'r list \<Rightarrow> 't \<Rightarrow> 't"
  assumes ins_keeps: "set (rows t) \<subseteq> set (rows (ins rs t))"
    and ins_new: "set (rows (ins rs t)) \<subseteq> set (rows t) \<union> set rs"
    and ins_covers: "key ` set rs \<subseteq> key ` set (rows (ins rs t))"
    and ins_distinct: "distinct (map key (rows t)) \<Longrightarrow> distinct (map key (rows (ins rs t)))"
    and ins_noop: "key ` set rs \<subseteq> key ` set (rows t) \<Longrightarrow> ins rs t = t"
    and ins_fresh: "distinct (map key rs) \<Longrightarrow> key ` set rs \<inter> key ` set (rows t) = {} \<Longrightarrow>
                      rows (ins rs t) = rows t @ rs"
begin

text \<open>A second delivery of the same rows changes nothing, even after other inserts.\<close>

lemma replay: "ins rs (ins rs t) = ins rs t"
  using ins_covers by (intro ins_noop) blast

lemma replay_after: "ins rs (ins qs (ins rs t)) = ins qs (ins rs t)"
  by (rule ins_noop) (meson ins_covers ins_keeps image_mono subset_trans)

text \<open>The first row of a key stays.\<close>

lemma first_write_wins:
  assumes "r \<in> set (rows t)" and "distinct (map key (rows t))" and "q \<in> set (rows (ins rs t))"
    and "key q = key r"
  shows "q = r"
  using ins_keeps [of t rs] ins_distinct [OF assms(2), of rs] assms
  by (auto simp: distinct_map dest: inj_onD)

lemma replay_length: "length (rows (ins rs (ins rs t))) - length (rows (ins rs t)) = 0"
  by (simp add: replay)

end

lemma natural_key_tableI:
  assumes "\<And>rs t. rows (ins rs t) = insert_do_nothing k rs (rows t)"
    and "\<And>rs t. rows (ins rs t) = rows t \<Longrightarrow> ins rs t = t"
  shows "natural_key_table k rows ins"
proof
  fix t rs
  show "set (rows t) \<subseteq> set (rows (ins rs t))"
    unfolding assms(1) by (rule insert_do_nothing_keeps)
  show "set (rows (ins rs t)) \<subseteq> set (rows t) \<union> set rs"
    unfolding assms(1) by (rule insert_do_nothing_new)
  show "k ` set rs \<subseteq> k ` set (rows (ins rs t))"
    unfolding assms(1) by (rule insert_do_nothing_covers)
  show "distinct (map k (rows t)) \<Longrightarrow> distinct (map k (rows (ins rs t)))"
    unfolding assms(1) by (rule insert_do_nothing_distinct)
  show "k ` set rs \<subseteq> k ` set (rows t) \<Longrightarrow> ins rs t = t"
    by (rule assms(2)) (simp add: assms(1) insert_do_nothing_noop)
  show "distinct (map k rs) \<Longrightarrow> k ` set rs \<inter> k ` set (rows t) = {} \<Longrightarrow> rows (ins rs t) = rows t @ rs"
    unfolding assms(1) by (rule insert_do_nothing_fresh)
qed

interpretation metrics_tbl: natural_key_table metrics_key metrics_rows insert_metrics
  by (rule natural_key_tableI) (simp_all add: insert_table_defs)

interpretation disk_io_tbl: natural_key_table "child_key dio_device_id" disk_io_rows insert_disk_io
  by (rule natural_key_tableI) (simp_all add: insert_table_defs)

interpretation net_io_tbl: natural_key_table "child_key nio_iface_id" net_io_rows insert_net_io
  by (rule natural_key_tableI) (simp_all add: insert_table_defs)

interpretation filesystem_tbl: natural_key_table "child_key fs_mountpoint" filesystem_rows insert_filesystem
  by (rule natural_key_tableI) (simp_all add: insert_table_defs)

interpretation cpu_core_tbl: natural_key_table "child_key cc_core_id" cpu_core_rows insert_cpu_core
  by (rule natural_key_tableI) (simp_all add: insert_table_defs)

interpretation pressure_tbl: natural_key_table
  "child_key (\<lambda>e. (pr_resource e, pr_scope e))" pressure_rows insert_pressure
  by (rule natural_key_tableI) (simp_all add: insert_table_defs)

interpretation disk_error_tbl: natural_key_table "child_key disk_error_key" disk_error_rows insert_disk_error
  by (rule natural_key_tableI) (simp_all add: insert_table_defs)

section \<open>Replay of metrics\<close>

lemma record_metrics_tables:
  "metrics_rows (record_metrics_db sid m d) = metrics_rows (insert_metrics [scalar_row sid m] d)"
  "disk_io_rows (record_metrics_db sid m d) = disk_io_rows (insert_disk_io (child_rows sid (mc_collected_at m) (mc_disk_io m)) d)"
  "net_io_rows (record_metrics_db sid m d) = net_io_rows (insert_net_io (child_rows sid (mc_collected_at m) (mc_net_io m)) d)"
  "filesystem_rows (record_metrics_db sid m d) = filesystem_rows (insert_filesystem (child_rows sid (mc_collected_at m) (mc_filesystems m)) d)"
  "cpu_core_rows (record_metrics_db sid m d) = cpu_core_rows (insert_cpu_core (child_rows sid (mc_collected_at m) (mc_cpu_per_core m)) d)"
  "pressure_rows (record_metrics_db sid m d) = pressure_rows (insert_pressure (child_rows sid (mc_collected_at m) (mc_pressure m)) d)"
  "disk_error_rows (record_metrics_db sid m d) = disk_error_rows (insert_disk_error (child_rows sid (mc_collected_at m) (map member_hook (mc_disk_errors m))) d)"
  "servers (record_metrics_db sid m d) = servers d" "server_seq (record_metrics_db sid m d) = server_seq d"
  "history (record_metrics_db sid m d) = history d" "tasks (record_metrics_db sid m d) = tasks d"
  "task_seq (record_metrics_db sid m d) = task_seq d"
  by (simp_all add: record_metrics_db_def Let_def insert_table_defs)

definition metrics_present :: "int \<Rightarrow> ServerMetricCreate \<Rightarrow> db \<Rightarrow> bool" where
  "metrics_present sid m d =
     (metrics_key ` set [scalar_row sid m] \<subseteq> metrics_key ` set (metrics_rows d)
      \<and> child_key dio_device_id ` set (child_rows sid (mc_collected_at m) (mc_disk_io m))
          \<subseteq> child_key dio_device_id ` set (disk_io_rows d)
      \<and> child_key nio_iface_id ` set (child_rows sid (mc_collected_at m) (mc_net_io m))
          \<subseteq> child_key nio_iface_id ` set (net_io_rows d)
      \<and> child_key fs_mountpoint ` set (child_rows sid (mc_collected_at m) (mc_filesystems m))
          \<subseteq> child_key fs_mountpoint ` set (filesystem_rows d)
      \<and> child_key cc_core_id ` set (child_rows sid (mc_collected_at m) (mc_cpu_per_core m))
          \<subseteq> child_key cc_core_id ` set (cpu_core_rows d)
      \<and> child_key (\<lambda>e. (pr_resource e, pr_scope e)) ` set (child_rows sid (mc_collected_at m) (mc_pressure m))
          \<subseteq> child_key (\<lambda>e. (pr_resource e, pr_scope e)) ` set (pressure_rows d)
      \<and> child_key disk_error_key ` set (child_rows sid (mc_collected_at m) (map member_hook (mc_disk_errors m)))
          \<subseteq> child_key disk_error_key ` set (disk_error_rows d))"

lemma metrics_present_after: "metrics_present sid m (record_metrics_db sid m d)"
  unfolding metrics_present_def record_metrics_tables
  by (intro conjI metrics_tbl.ins_covers disk_io_tbl.ins_covers net_io_tbl.ins_covers
      filesystem_tbl.ins_covers cpu_core_tbl.ins_covers pressure_tbl.ins_covers disk_error_tbl.ins_covers)

lemma metrics_present_mono:
  "metrics_present sid m d \<Longrightarrow> metrics_present sid m (record_metrics_db sid' m' d)"
  unfolding metrics_present_def record_metrics_tables
  by (elim conjE, intro conjI)
    (erule subset_trans, rule image_mono, rule metrics_tbl.ins_keeps disk_io_tbl.ins_keeps
      net_io_tbl.ins_keeps filesystem_tbl.ins_keeps cpu_core_tbl.ins_keeps pressure_tbl.ins_keeps
      disk_error_tbl.ins_keeps)+

lemma metrics_present_noop:
  assumes "metrics_present sid m d"
  shows "record_metrics_db sid m d = d"
proof -
  have "insert_metrics [scalar_row sid m] d = d"
    by (rule metrics_tbl.ins_noop) (insert assms, unfold metrics_present_def, elim conjE, assumption)
  moreover have "insert_disk_io (child_rows sid (mc_collected_at m) (mc_disk_io m)) d = d"
    by (rule disk_io_tbl.ins_noop) (insert assms, unfold metrics_present_def, elim conjE, assumption)
  moreover have "insert_net_io (child_rows sid (mc_collected_at m) (mc_net_io m)) d = d"
    by (rule net_io_tbl.ins_noop) (insert assms, unfold metrics_present_def, elim conjE, assumption)
  moreover have "insert_filesystem (child_rows sid (mc_collected_at m) (mc_filesystems m)) d = d"
    by (rule filesystem_tbl.ins_noop) (insert assms, unfold metrics_present_def, elim conjE, assumption)
  moreover have "insert_cpu_core (child_rows sid (mc_collected_at m) (mc_cpu_per_core m)) d = d"
    by (rule cpu_core_tbl.ins_noop) (insert assms, unfold metrics_present_def, elim conjE, assumption)
  moreover have "insert_pressure (child_rows sid (mc_collected_at m) (mc_pressure m)) d = d"
    by (rule pressure_tbl.ins_noop) (insert assms, unfold metrics_present_def, elim conjE, assumption)
  moreover have "insert_disk_error (child_rows sid (mc_collected_at m) (map member_hook (mc_disk_errors m))) d = d"
    by (rule disk_error_tbl.ins_noop) (insert assms, unfold metrics_present_def, elim conjE, assumption)
  ultimately show ?thesis by (simp add: record_metrics_db_def Let_def)
qed

lemma metrics_present_fold:
  "metrics_present sid m d \<Longrightarrow>
     metrics_present sid m (fold (\<lambda>(s, x) e. snd (record_metrics s x e)) others d)"
  by (induction others arbitrary: d)
    (auto simp: record_metrics_def Let_def intro: metrics_present_mono)

text \<open>
  Storing metrics is idempotent.  A second delivery of a message, whatever
  messages of any host were stored in between, inserts no row in any of the seven tables and leaves
  the database as it is.
\<close>

theorem record_metrics_replay:
  "let d1 = snd (record_metrics sid m d);
       d2 = fold (\<lambda>(s, x) e. snd (record_metrics s x e)) others d1
   in record_metrics sid m d2 =
        (\<lparr>res_metrics = 0, res_disk_io = 0, res_net_io = 0, res_filesystem = 0, res_cpu_core = 0,
          res_pressure = 0, res_disk_error = 0\<rparr>, d2)"
proof -
  define d2 where "d2 = fold (\<lambda>(s, x) e. snd (record_metrics s x e)) others (snd (record_metrics sid m d))"
  have "metrics_present sid m d2"
    unfolding d2_def
    by (rule metrics_present_fold) (simp add: record_metrics_def Let_def metrics_present_after)
  then have "record_metrics_db sid m d2 = d2" by (rule metrics_present_noop)
  then show ?thesis unfolding Let_def d2_def [symmetric] by (simp add: record_metrics_def Let_def)
qed

end
