(* ===== verification/CollectInvariant.thy ===== *)
theory CollectInvariant
  imports CollectStore
begin

text \<open>
  The integrity of the collect database: what the unique constraints and foreign keys promise is an
  invariant of every sequence of repository calls, and the behaviour of inventory upserts, placeholder
  registration and the task life cycle on it.
\<close>

section \<open>The invariant\<close>

definition servers_inv :: "db \<Rightarrow> bool" where
  "servers_inv d =
     (distinct (map si_id (servers d)) \<and> distinct (map si_agent_id (servers d))
      \<and> (\<forall>r \<in> set (servers d). si_id r < server_seq d))"

definition history_inv :: "db \<Rightarrow> bool" where
  "history_inv d =
     (distinct (map history_key (history d)) \<and> hi_server_id ` set (history d) \<subseteq> si_id ` set (servers d))"

definition tasks_inv :: "db \<Rightarrow> bool" where
  "tasks_inv d =
     (distinct (map t_public_id (tasks d)) \<and> distinct (map t_id (tasks d))
      \<and> (\<forall>t \<in> set (tasks d). t_id t < task_seq d) \<and> pending_unique (tasks d)
      \<and> t_target_server_id ` set (tasks d) \<subseteq> si_id ` set (servers d))"

definition series_inv :: "db \<Rightarrow> bool" where
  "series_inv d =
     (distinct (map metrics_key (metrics_rows d))
      \<and> distinct (map (child_key dio_device_id) (disk_io_rows d))
      \<and> distinct (map (child_key nio_iface_id) (net_io_rows d))
      \<and> distinct (map (child_key fs_mountpoint) (filesystem_rows d))
      \<and> distinct (map (child_key cc_core_id) (cpu_core_rows d))
      \<and> distinct (map (child_key (\<lambda>e. (pr_resource e, pr_scope e))) (pressure_rows d))
      \<and> distinct (map (child_key disk_error_key) (disk_error_rows d)))"

text \<open>The servers the rows of the seven time-series tables refer to.\<close>

definition series_refs :: "db \<Rightarrow> int set" where
  "series_refs d =
     sm_server_id ` set (metrics_rows d) \<union> ch_server_id ` set (disk_io_rows d)
     \<union> ch_server_id ` set (net_io_rows d) \<union> ch_server_id ` set (filesystem_rows d)
     \<union> ch_server_id ` set (cpu_core_rows d) \<union> ch_server_id ` set (pressure_rows d)
     \<union> ch_server_id ` set (disk_error_rows d)"

definition db_inv :: "db \<Rightarrow> bool" where
  "db_inv d =
     (servers_inv d \<and> history_inv d \<and> tasks_inv d \<and> series_inv d
      \<and> series_refs d \<subseteq> si_id ` set (servers d))"

text \<open>
  One committed transaction.  The metrics transaction is \<open>save_metrics\<close> of the handler: it registers the
  host and records under the identifier it got, with other inventories committed in between.
\<close>

inductive collect_step :: "db \<Rightarrow> db \<Rightarrow> bool" where
  upsert: "collect_step d (snd (upsert_server x d))"
| ensure: "ensure_server_id o1 o2 (ic_agent_id f) f d = Inr (r, d') \<Longrightarrow> collect_step d d'"
| create: "create_task uuid now x d = Inr (r, d') \<Longrightarrow> collect_step d d'"
| expire: "collect_step d (snd (expire_overdue_tasks ids now d))"
| expire_all: "collect_step d (snd (expire_all_overdue_tasks now d))"
| complete: "complete_task u d = Inr (r, d') \<Longrightarrow> collect_step d d'"
| record_m: "ensure_server_id o1 o2 (ic_agent_id f) f d = Inr ((sid, new), d1) \<Longrightarrow>
     collect_step d (snd (record_metrics sid m (interfere o3 d1)))"

inductive_cases collect_stepE [elim]: "collect_step d d'"

section \<open>Lookup of servers\<close>

lemma find_Some_iff_distinct:
  assumes "distinct (map f xs)"
  shows "List.find (\<lambda>r. f r = a) xs = Some x \<longleftrightarrow> x \<in> set xs \<and> f x = a"
  using assms
proof (induction xs)
  case (Cons y ys)
  then show ?case by (cases "f y = a") (auto simp: rev_image_eqI)
qed simp

lemma find_server_id_None_iff: "find_server_id a d = None \<longleftrightarrow> a \<notin> si_agent_id ` set (servers d)"
  by (auto simp: find_server_id_def find_None_iff)

lemma find_server_id_Some_iff:
  "servers_inv d \<Longrightarrow>
     find_server_id a d = Some sid \<longleftrightarrow> (\<exists>r \<in> set (servers d). si_agent_id r = a \<and> si_id r = sid)"
  by (auto simp: find_server_id_def find_Some_iff_distinct servers_inv_def)

lemma inventory_row_sel [simp]:
  "si_id (inventory_row sid x) = sid" "si_agent_id (inventory_row sid x) = ic_agent_id x"
  by (simp_all add: inventory_row_def)

lemma history_row_sel [simp]:
  "hi_server_id (history_row sid x) = sid" "hi_collected_at (history_row sid x) = ic_collected_at x"
  by (simp_all add: history_row_def)

section \<open>Inventory upserts\<close>

lemma upsert_statement_other [simp]:
  "history (snd (upsert_statement x d)) = history d" "tasks (snd (upsert_statement x d)) = tasks d"
  "task_seq (snd (upsert_statement x d)) = task_seq d"
  "metrics_rows (snd (upsert_statement x d)) = metrics_rows d"
  "disk_io_rows (snd (upsert_statement x d)) = disk_io_rows d"
  "net_io_rows (snd (upsert_statement x d)) = net_io_rows d"
  "filesystem_rows (snd (upsert_statement x d)) = filesystem_rows d"
  "cpu_core_rows (snd (upsert_statement x d)) = cpu_core_rows d"
  "pressure_rows (snd (upsert_statement x d)) = pressure_rows d"
  "disk_error_rows (snd (upsert_statement x d)) = disk_error_rows d"
  by (simp_all add: upsert_statement_def split: option.split)

lemma upsert_statement_servers:
  assumes "servers_inv d"
  shows "servers_inv (snd (upsert_statement x d))"
    and "find_server_id (ic_agent_id x) (snd (upsert_statement x d)) = Some (fst (upsert_statement x d))"
    and "inventory_row (fst (upsert_statement x d)) x \<in> set (servers (snd (upsert_statement x d)))"
    and "si_id ` set (servers d) \<subseteq> si_id ` set (servers (snd (upsert_statement x d)))"
    and "filter (\<lambda>r. si_agent_id r \<noteq> ic_agent_id x) (servers (snd (upsert_statement x d))) =
         filter (\<lambda>r. si_agent_id r \<noteq> ic_agent_id x) (servers d)"
    and "fst (upsert_statement x d) =
         (case find_server_id (ic_agent_id x) d of Some s \<Rightarrow> s | None \<Rightarrow> server_seq d)"
proof -
  let ?f = "\<lambda>r. if si_agent_id r = ic_agent_id x then inventory_row (si_id r) x else r"
  have ids: "si_id \<circ> ?f = si_id" "si_agent_id \<circ> ?f = si_agent_id" by auto
  have inv: "distinct (map si_id (servers d))" "distinct (map si_agent_id (servers d))"
    "\<forall>r \<in> set (servers d). si_id r < server_seq d" using assms by (simp_all add: servers_inv_def)
  have filt: "filter (\<lambda>r. si_agent_id r \<noteq> ic_agent_id x) (map ?f xs) =
      filter (\<lambda>r. si_agent_id r \<noteq> ic_agent_id x) xs" for xs by (induction xs) auto
  have all: "servers_inv (snd (upsert_statement x d))
    \<and> find_server_id (ic_agent_id x) (snd (upsert_statement x d)) = Some (fst (upsert_statement x d))
    \<and> inventory_row (fst (upsert_statement x d)) x \<in> set (servers (snd (upsert_statement x d)))
    \<and> si_id ` set (servers d) \<subseteq> si_id ` set (servers (snd (upsert_statement x d)))
    \<and> filter (\<lambda>r. si_agent_id r \<noteq> ic_agent_id x) (servers (snd (upsert_statement x d))) =
         filter (\<lambda>r. si_agent_id r \<noteq> ic_agent_id x) (servers d)
    \<and> fst (upsert_statement x d) =
         (case find_server_id (ic_agent_id x) d of Some s \<Rightarrow> s | None \<Rightarrow> server_seq d)"
  proof (cases "List.find (\<lambda>r. si_agent_id r = ic_agent_id x) (servers d)")
    case None
    then have new: "ic_agent_id x \<notin> si_agent_id ` set (servers d)" by (auto simp: find_None_iff)
    have st: "upsert_statement x d = (server_seq d, d\<lparr>servers := servers d @ [inventory_row (server_seq d) x],
        server_seq := server_seq d + 1\<rparr>)" by (simp add: upsert_statement_def None)
    have s: "servers_inv (snd (upsert_statement x d))"
      using inv new by (auto simp: st servers_inv_def)
    show ?thesis
      using s find_server_id_Some_iff [OF s] None by (auto simp: st find_server_id_def)
  next
    case (Some p)
    then have p: "p \<in> set (servers d)" "si_agent_id p = ic_agent_id x"
      using inv(2) by (auto simp: find_Some_iff_distinct)
    have st: "upsert_statement x d = (si_id p, d\<lparr>servers := map ?f (servers d), server_seq := server_seq d + 1\<rparr>)"
      by (simp add: upsert_statement_def Some)
    have s: "servers_inv (snd (upsert_statement x d))"
      using inv by (fastforce simp: st servers_inv_def ids)
    have row: "inventory_row (si_id p) x \<in> set (map ?f (servers d))" using p by (force simp: image_iff)
    have sub: "si_id ` set (servers d) \<subseteq> si_id ` set (map ?f (servers d))"
      by (simp only: set_map image_comp ids subset_refl)
    have "\<exists>r \<in> set (servers (snd (upsert_statement x d))). si_agent_id r = ic_agent_id x \<and> si_id r = si_id p"
      using row by (intro bexI [of _ "inventory_row (si_id p) x"]) (simp_all add: st)
    then have "find_server_id (ic_agent_id x) (snd (upsert_statement x d)) = Some (si_id p)"
      using find_server_id_Some_iff [OF s] by blast
    moreover have "find_server_id (ic_agent_id x) d = Some (si_id p)" by (simp add: find_server_id_def Some)
    ultimately show ?thesis using s row sub filt [of "servers d"] unfolding st by simp
  qed
  from all show "servers_inv (snd (upsert_statement x d))"
    and "find_server_id (ic_agent_id x) (snd (upsert_statement x d)) = Some (fst (upsert_statement x d))"
    and "inventory_row (fst (upsert_statement x d)) x \<in> set (servers (snd (upsert_statement x d)))"
    and "si_id ` set (servers d) \<subseteq> si_id ` set (servers (snd (upsert_statement x d)))"
    and "filter (\<lambda>r. si_agent_id r \<noteq> ic_agent_id x) (servers (snd (upsert_statement x d))) =
         filter (\<lambda>r. si_agent_id r \<noteq> ic_agent_id x) (servers d)"
    and "fst (upsert_statement x d) =
         (case find_server_id (ic_agent_id x) d of Some s \<Rightarrow> s | None \<Rightarrow> server_seq d)"
    by blast+
qed

definition inventory_differs :: "ServerInventoryCreate \<Rightarrow> db \<Rightarrow> bool" where
  "inventory_differs x d =
     (case List.find (\<lambda>r. si_agent_id r = ic_agent_id x) (servers d) of
        None \<Rightarrow> True | Some p \<Rightarrow> inventory_changed p x)"

lemma upsert_server_alt:
  "upsert_server x d =
     (fst (upsert_statement x d),
      (if inventory_differs x d
       then append_inventory_history (fst (upsert_statement x d)) x (snd (upsert_statement x d))
       else snd (upsert_statement x d)))"
  by (simp add: upsert_server_def inventory_differs_def Let_def split: prod.split)

lemma append_history_other [simp]:
  "servers (append_inventory_history s x d) = servers d" "server_seq (append_inventory_history s x d) = server_seq d"
  "tasks (append_inventory_history s x d) = tasks d" "task_seq (append_inventory_history s x d) = task_seq d"
  by (simp_all add: append_inventory_history_def)

lemma upsert_server_sel [simp]:
  "fst (upsert_server x d) = fst (upsert_statement x d)"
  "servers (snd (upsert_server x d)) = servers (snd (upsert_statement x d))"
  "server_seq (snd (upsert_server x d)) = server_seq (snd (upsert_statement x d))"
  "tasks (snd (upsert_server x d)) = tasks d" "task_seq (snd (upsert_server x d)) = task_seq d"
  "history (snd (upsert_server x d)) =
     (if inventory_differs x d
      then insert_do_nothing history_key [history_row (fst (upsert_statement x d)) x] (history d)
      else history d)"
  by (simp_all add: upsert_server_alt append_inventory_history_def)

lemma servers_inv_cong:
  "servers d = servers d' \<Longrightarrow> server_seq d = server_seq d' \<Longrightarrow> servers_inv d = servers_inv d'"
  by (simp add: servers_inv_def)

lemma find_server_id_cong: "servers d = servers d' \<Longrightarrow> find_server_id a d = find_server_id a d'"
  by (simp add: find_server_id_def)

lemma upsert_server_servers_inv: "servers_inv d \<Longrightarrow> servers_inv (snd (upsert_server x d))"
  using upsert_statement_servers(1) [of d x] servers_inv_cong [of "snd (upsert_server x d)" "snd (upsert_statement x d)"]
  by simp

lemma upsert_server_find:
  assumes "servers_inv d"
  shows "find_server_id a (snd (upsert_server x d)) =
    (if a = ic_agent_id x then Some (fst (upsert_server x d)) else find_server_id a d)"
proof (cases "a = ic_agent_id x")
  case True
  then show ?thesis
    using upsert_statement_servers(2) [OF assms, of x]
      find_server_id_cong [of "snd (upsert_server x d)" "snd (upsert_statement x d)" a] by simp
next
  case False
  let ?n = "\<lambda>r. si_agent_id r \<noteq> ic_agent_id x"
  have via: "List.find (\<lambda>r. si_agent_id r = a) xs = List.find (\<lambda>r. si_agent_id r = a) (filter ?n xs)" for xs
    using False by (induction xs) auto
  have "List.find (\<lambda>r. si_agent_id r = a) (servers (snd (upsert_statement x d))) =
      List.find (\<lambda>r. si_agent_id r = a) (servers d)"
    unfolding via [of "servers (snd (upsert_statement x d))"] via [of "servers d"]
      upsert_statement_servers(5) [OF assms, of x] ..
  then show ?thesis using False by (simp add: find_server_id_def)
qed

lemma upsert_server_id_stable:
  "servers_inv d \<Longrightarrow> find_server_id a d = Some s \<Longrightarrow> find_server_id a (snd (upsert_server x d)) = Some s"
  using upsert_statement_servers(6) [of d x] by (auto simp: upsert_server_find)

lemma interfere_servers_inv: "servers_inv d \<Longrightarrow> servers_inv (interfere xs d)"
  by (induction xs arbitrary: d) (simp_all add: interfere_def upsert_server_servers_inv)

lemma interfere_id_stable:
  "servers_inv d \<Longrightarrow> find_server_id a d = Some s \<Longrightarrow> find_server_id a (interfere xs d) = Some s"
  by (induction xs arbitrary: d)
    (simp_all add: interfere_def upsert_server_servers_inv upsert_server_id_stable)

text \<open>
  An inventory message updates exactly its own host.  The row of the agent
  holds the new values under the identifier it had (or a fresh one), all other rows stay; the
  history gets a snapshot exactly when the host is new or a compared column changed, unless one of the
  same time stamp is there, and no snapshot is ever changed or removed.
\<close>

theorem upsert_server_spec:
  assumes "db_inv d"
  shows "let (sid, d') = upsert_server x d in
      find_server_id (ic_agent_id x) d' = Some sid
      \<and> inventory_row sid x \<in> set (servers d')
      \<and> (\<forall>s. find_server_id (ic_agent_id x) d = Some s \<longrightarrow> sid = s)
      \<and> filter (\<lambda>r. si_agent_id r \<noteq> ic_agent_id x) (servers d') =
          filter (\<lambda>r. si_agent_id r \<noteq> ic_agent_id x) (servers d)
      \<and> history d' =
          (if inventory_differs x d \<and> (sid, ic_collected_at x) \<notin> history_key ` set (history d)
           then history d @ [history_row sid x] else history d)"
proof -
  have s: "servers_inv d" using assms by (simp add: db_inv_def)
  let ?sid = "fst (upsert_statement x d)"
  have "find_server_id (ic_agent_id x) (snd (upsert_server x d)) = Some ?sid"
    by (simp add: upsert_server_find [OF s])
  moreover have "\<forall>s'. find_server_id (ic_agent_id x) d = Some s' \<longrightarrow> ?sid = s'"
    using upsert_statement_servers(6) [OF s, of x] by simp
  moreover have "history_key (history_row ?sid x) = (?sid, ic_collected_at x)"
    by (simp add: history_key_def)
  ultimately show ?thesis
    using upsert_statement_servers(3,5) [OF s, of x]
    by (simp add: Let_def split_beta)
qed

section \<open>Placeholder registration\<close>

lemma insert_placeholder_servers_inv:
  "servers_inv d \<Longrightarrow> servers_inv (snd (insert_placeholder_server x d))"
  by (auto simp: insert_placeholder_server_def servers_inv_def find_server_id_None_iff)

lemma insert_placeholder_sel [simp]:
  "history (snd (insert_placeholder_server x d)) = history d"
  "tasks (snd (insert_placeholder_server x d)) = tasks d"
  "task_seq (snd (insert_placeholder_server x d)) = task_seq d"
  by (simp_all add: insert_placeholder_server_def)

lemma insert_placeholder_find:
  assumes "servers_inv d"
  shows "insert_placeholder_server x d = (Some s, d') \<Longrightarrow> find_server_id (ic_agent_id x) d' = Some s"
    and "insert_placeholder_server x d = (None, d') \<Longrightarrow>
      servers d' = servers d \<and> find_server_id (ic_agent_id x) d' \<noteq> None"
proof -
  assume a: "insert_placeholder_server x d = (Some s, d')"
  then have "servers_inv d'" using insert_placeholder_servers_inv [OF assms, of x] by simp
  with a show "find_server_id (ic_agent_id x) d' = Some s"
    by (subst find_server_id_Some_iff) (auto simp: insert_placeholder_server_def split: if_splits)
qed (auto simp: insert_placeholder_server_def find_server_id_def split: if_splits)

text \<open>
  Claim C14: registering a host from a metrics message cannot fail, whatever
  inventories other handlers commit between its three statements: it returns an identifier under which
  the agent is then found.  A host that is already registered is not touched; and when the agent gets
  registered concurrently, the placeholder leaves the rows exactly as those commits wrote them.
\<close>

theorem ensure_server_id_total:
  assumes "servers_inv d" and "ic_agent_id f = a"
  shows "\<exists>sid new d'. ensure_server_id o1 o2 a f d = Inr ((sid, new), d')
     \<and> find_server_id a d' = Some sid
     \<and> (\<forall>s. find_server_id a d = Some s \<longrightarrow> sid = s \<and> \<not> new \<and> d' = d)
     \<and> (find_server_id a d = None \<and> \<not> new \<longrightarrow>
          find_server_id a (interfere o1 d) \<noteq> None
          \<and> servers d' = servers (interfere o2 ((interfere o1 d)\<lparr>server_seq := server_seq (interfere o1 d) + 1\<rparr>)))"
proof (cases "find_server_id a d")
  case (Some s)
  then show ?thesis by (simp add: ensure_server_id_def) blast
next
  case None
  let ?d1 = "interfere o1 d"
  have inv1: "servers_inv ?d1" by (rule interfere_servers_inv) (rule assms(1))
  show ?thesis
  proof (cases "find_server_id a ?d1")
    case None
    then have ins: "insert_placeholder_server f ?d1 =
        (Some (server_seq ?d1), snd (insert_placeholder_server f ?d1))"
      using assms(2) by (simp add: insert_placeholder_server_def)
    with insert_placeholder_find(1) [OF inv1 ins] show ?thesis
      using \<open>find_server_id a d = None\<close> assms(2)
      by (auto simp: ensure_server_id_def split: prod.split)
  next
    case (Some s)
    let ?d2 = "?d1\<lparr>server_seq := server_seq ?d1 + 1\<rparr>"
    have ins: "insert_placeholder_server f ?d1 = (None, ?d2)"
      using Some assms(2) by (simp add: insert_placeholder_server_def)
    have inv2: "servers_inv ?d2"
      using insert_placeholder_servers_inv [OF inv1, of f] by (simp add: ins)
    have "find_server_id a ?d2 = Some s" using Some by (simp add: find_server_id_def)
    from interfere_id_stable [OF inv2 this] have "find_server_id a (interfere o2 ?d2) = Some s" .
    then show ?thesis
      using \<open>find_server_id a d = None\<close> Some by (simp add: ensure_server_id_def ins Let_def) blast
  qed
qed

section \<open>Tasks\<close>

lemma pending_unique_append:
  "pending_unique (ts @ [t]) \<longleftrightarrow>
     pending_unique ts \<and> (is_pending t \<longrightarrow> task_key t \<notin> task_key ` {x \<in> set ts. is_pending x})"
  by (auto simp: pending_unique_def)

lemma pending_unique_Cons:
  "pending_unique (t # ts) \<longleftrightarrow>
     pending_unique ts \<and> (is_pending t \<longrightarrow> task_key t \<notin> task_key ` {x \<in> set ts. is_pending x})"
  by (auto simp: pending_unique_def)

lemma pending_unique_map:
  assumes "\<And>t. task_key (f t) = task_key t" and "\<And>t. is_pending (f t) \<Longrightarrow> is_pending t"
  shows "pending_unique ts \<Longrightarrow> pending_unique (map f ts)"
proof (induction ts)
  case (Cons t ts)
  have "task_key ` {x \<in> set (map f ts). is_pending x} \<subseteq> task_key ` {x \<in> set ts. is_pending x}"
  proof
    fix k assume "k \<in> task_key ` {x \<in> set (map f ts). is_pending x}"
    then obtain x where x: "x \<in> set ts" "is_pending (f x)" "k = task_key (f x)" by auto
    then show "k \<in> task_key ` {x \<in> set ts. is_pending x}" using assms(1,2) [of x] by blast
  qed
  with Cons assms(1,2) [of t] show ?case by (auto simp: pending_unique_Cons)
qed (simp add: pending_unique_def)

lemma new_task_sel [simp]:
  "t_public_id (new_task i u n x) = u" "t_id (new_task i u n x) = i"
  "t_target_server_id (new_task i u n x) = tc_target_server_id x"
  "t_task_type (new_task i u n x) = tc_task_type x" "is_pending (new_task i u n x)"
  "t_deadline_at (new_task i u n x) = tc_deadline_at x"
  by (simp_all add: new_task_def is_pending_def)

lemma expire_task_sel [simp]:
  "t_public_id (expire_task n t) = t_public_id t" "t_id (expire_task n t) = t_id t"
  "t_target_server_id (expire_task n t) = t_target_server_id t"
  "task_key (expire_task n t) = task_key t" "\<not> is_pending (expire_task n t)"
  by (simp_all add: expire_task_def task_key_def is_pending_def)

lemma apply_result_sel [simp]:
  "t_public_id (apply_result u t) = t_public_id t" "t_id (apply_result u t) = t_id t"
  "t_target_server_id (apply_result u t) = t_target_server_id t"
  "task_key (apply_result u t) = task_key t"
  "t_status (apply_result u t) = tu_status u" "t_exit_code (apply_result u t) = tu_exit_code u"
  by (simp_all add: apply_result_def task_key_def)

section \<open>The invariant is kept\<close>

lemma upsert_server_series [simp]:
  "series_inv (snd (upsert_server x d)) = series_inv d"
  "series_refs (snd (upsert_server x d)) = series_refs d"
  by (simp_all add: series_inv_def series_refs_def upsert_server_alt append_inventory_history_def)

lemma upsert_server_inv:
  assumes "db_inv d"
  shows "db_inv (snd (upsert_server x d))"
proof -
  have s: "servers_inv d" and h: "history_inv d" and ts: "tasks_inv d" and se: "series_inv d"
    using assms by (simp_all add: db_inv_def)
  note st = upsert_statement_servers [OF s, of x]
  let ?sid = "fst (upsert_statement x d)"
  have a: "hi_server_id ` set (history (snd (upsert_server x d))) \<subseteq> insert ?sid (hi_server_id ` set (history d))"
    by auto
  have b: "?sid \<in> si_id ` set (servers (snd (upsert_statement x d)))"
    using st(3) by (metis inventory_row_sel(1) imageI)
  have c: "hi_server_id ` set (history d) \<subseteq> si_id ` set (servers d)"
    using h by (simp add: history_inv_def)
  have refs: "hi_server_id ` set (history (snd (upsert_server x d))) \<subseteq>
      si_id ` set (servers (snd (upsert_server x d)))"
    unfolding upsert_server_sel(2)
    by (rule subset_trans [OF a insert_subsetI [OF b subset_trans [OF c st(4)]]])
  have "distinct (map history_key (history (snd (upsert_server x d))))"
    using h insert_do_nothing_distinct [of history_key "history d"]
    by (simp add: history_inv_def del: insert_do_nothing.simps)
  with refs have "history_inv (snd (upsert_server x d))" by (simp only: history_inv_def simp_thms)
  moreover have "tasks_inv (snd (upsert_server x d))"
    using ts subset_trans [OF _ st(4)] by (simp add: tasks_inv_def)
  moreover have "series_refs d \<subseteq> si_id ` set (servers (snd (upsert_server x d)))"
    using assms subset_trans [OF _ st(4)] by (simp add: db_inv_def)
  ultimately show ?thesis
    using upsert_server_servers_inv [OF s] se by (simp add: db_inv_def)
qed

lemma interfere_inv: "db_inv d \<Longrightarrow> db_inv (interfere xs d)"
  by (induction xs arbitrary: d) (simp_all add: interfere_def upsert_server_inv)

lemma insert_placeholder_inv: "db_inv d \<Longrightarrow> db_inv (snd (insert_placeholder_server x d))"
  using insert_placeholder_servers_inv [of d x]
  by (auto simp: db_inv_def history_inv_def tasks_inv_def series_inv_def series_refs_def
      insert_placeholder_server_def)

lemma ensure_server_id_inv:
  assumes "db_inv d" and "ensure_server_id o1 o2 a f d = Inr (r, d')"
  shows "db_inv d'"
proof -
  have "db_inv (snd (insert_placeholder_server f (interfere o1 d)))"
    using assms(1) by (simp add: interfere_inv insert_placeholder_inv)
  then show ?thesis
    using assms by (auto simp: ensure_server_id_def Let_def interfere_inv split: option.splits prod.splits)
qed

lemma db_inv_tasks:
  assumes "db_inv d" and "tasks_inv (d\<lparr>tasks := ts, task_seq := n\<rparr>)"
  shows "db_inv (d\<lparr>tasks := ts, task_seq := n\<rparr>)"
  using assms by (simp add: db_inv_def servers_inv_def history_inv_def series_inv_def series_refs_def)

lemma tasks_update_inv:
  assumes "db_inv d" and "pending_unique (map f (tasks d))"
    and "\<And>t. t_public_id (f t) = t_public_id t" "\<And>t. t_id (f t) = t_id t"
    and "\<And>t. t_target_server_id (f t) = t_target_server_id t"
  shows "db_inv (d\<lparr>tasks := map f (tasks d)\<rparr>)"
proof -
  have "tasks_inv d" using assms(1) by (simp add: db_inv_def)
  then have "tasks_inv (d\<lparr>tasks := map f (tasks d), task_seq := task_seq d\<rparr>)"
    using assms(2-) by (simp add: tasks_inv_def comp_def image_image)
  from db_inv_tasks [OF assms(1) this] show ?thesis by simp
qed

lemma create_task_inv: "db_inv d \<Longrightarrow> create_task u n x d = Inr (r, d') \<Longrightarrow> db_inv d'"
proof -
  assume inv: "db_inv d" and ok: "create_task u n x d = Inr (r, d')"
  let ?t = "new_task (task_seq d) u n x"
  have t: "tc_target_server_id x \<in> si_id ` set (servers d)" "u \<notin> t_public_id ` set (tasks d)"
    "pending_unique (tasks d @ [?t])" "d' = d\<lparr>tasks := tasks d @ [?t], task_seq := task_seq d + 1\<rparr>"
    using ok by (auto simp: create_task_def Let_def split: if_splits)
  have ti: "tasks_inv d" using inv by (simp add: db_inv_def)
  then have ids: "\<forall>y \<in> set (tasks d). t_id y < task_seq d" by (simp add: tasks_inv_def)
  then have "task_seq d \<notin> t_id ` set (tasks d)" by auto
  moreover have "\<forall>y \<in> set (tasks d). t_id y < task_seq d + 1" using ids by force
  ultimately have "tasks_inv (d\<lparr>tasks := tasks d @ [?t], task_seq := task_seq d + 1\<rparr>)"
    using ti t(1-3) by (simp add: tasks_inv_def)
  from db_inv_tasks [OF inv this] show "db_inv d'" by (simp add: t(4))
qed

lemma expire_where_inv: "db_inv d \<Longrightarrow> db_inv (snd (expire_where p n d))"
  unfolding expire_where_def snd_conv
  by (rule tasks_update_inv)
    (auto simp: db_inv_def tasks_inv_def intro!: pending_unique_map split: if_splits)

lemma complete_task_inv: "db_inv d \<Longrightarrow> complete_task u d = Inr (r, d') \<Longrightarrow> db_inv d'"
  by (auto simp: complete_task_def Let_def split: if_splits intro!: tasks_update_inv)

lemma insert_do_nothing_refs: "g ` set (insert_do_nothing k rs tbl) \<subseteq> g ` set rs \<union> g ` set tbl"
  using insert_do_nothing_new [of k rs tbl] by blast

lemma child_rows_refs: "ch_server_id ` set (child_rows sid tm es) \<subseteq> {sid}"
  by (auto simp: child_rows_def)

lemma insert_child_refs:
  "ch_server_id ` set (insert_do_nothing k (child_rows sid tm es) tbl) \<subseteq> insert sid (ch_server_id ` set tbl)"
  using insert_do_nothing_refs [of ch_server_id k "child_rows sid tm es" tbl] child_rows_refs [of sid tm es] by blast

lemma scalar_row_server [simp]: "sm_server_id (scalar_row sid m) = sid"
  by (simp add: scalar_row_def)

lemma insert_table_rows:
  "metrics_rows (insert_metrics rs d) = insert_do_nothing metrics_key rs (metrics_rows d)"
  "disk_io_rows (insert_disk_io ds d) = insert_do_nothing (child_key dio_device_id) ds (disk_io_rows d)"
  "net_io_rows (insert_net_io ns d) = insert_do_nothing (child_key nio_iface_id) ns (net_io_rows d)"
  "filesystem_rows (insert_filesystem fs d) = insert_do_nothing (child_key fs_mountpoint) fs (filesystem_rows d)"
  "cpu_core_rows (insert_cpu_core cs d) = insert_do_nothing (child_key cc_core_id) cs (cpu_core_rows d)"
  "pressure_rows (insert_pressure ps d) =
     insert_do_nothing (child_key (\<lambda>e. (pr_resource e, pr_scope e))) ps (pressure_rows d)"
  "disk_error_rows (insert_disk_error es d) = insert_do_nothing (child_key disk_error_key) es (disk_error_rows d)"
  by (simp_all add: insert_table_defs)

lemma record_metrics_refs: "series_refs (record_metrics_db sid m d) \<subseteq> insert sid (series_refs d)"
proof -
  have scalar: "sm_server_id ` set (insert_do_nothing metrics_key [scalar_row sid m] (metrics_rows d))
      \<subseteq> insert sid (sm_server_id ` set (metrics_rows d))"
    using insert_do_nothing_refs [of sm_server_id metrics_key "[scalar_row sid m]" "metrics_rows d"]
    by (simp del: insert_do_nothing.simps)
  show ?thesis
    unfolding series_refs_def record_metrics_tables insert_table_rows Un_insert_right [symmetric]
    by (intro Un_least subset_trans [OF insert_child_refs] subset_trans [OF scalar] insert_mono) auto
qed

lemma record_metrics_inv:
  assumes "db_inv d" and sid: "sid \<in> si_id ` set (servers d)"
  shows "db_inv (snd (record_metrics sid m d))"
proof -
  have "series_inv (record_metrics_db sid m d)"
    using assms unfolding db_inv_def series_inv_def record_metrics_tables
    by (elim conjE, intro conjI metrics_tbl.ins_distinct disk_io_tbl.ins_distinct
        net_io_tbl.ins_distinct filesystem_tbl.ins_distinct cpu_core_tbl.ins_distinct
        pressure_tbl.ins_distinct disk_error_tbl.ins_distinct)
  moreover have "series_refs (record_metrics_db sid m d) \<subseteq> si_id ` set (servers d)"
    using assms record_metrics_refs [of sid m d] unfolding db_inv_def by blast
  ultimately show ?thesis
    using assms
    by (simp add: db_inv_def servers_inv_def history_inv_def tasks_inv_def record_metrics_def Let_def
        record_metrics_tables)
qed

lemma ensured_exists:
  assumes inv: "db_inv d" and e: "ensure_server_id o1 o2 (ic_agent_id f) f d = Inr ((sid, new), d1)"
  shows "find_server_id (ic_agent_id f) d1 = Some sid"
  using ensure_server_id_total [of d f "ic_agent_id f" o1 o2] inv e by (auto simp: db_inv_def)

lemma collect_step_inv:
  assumes "collect_step d d'" and "db_inv d"
  shows "db_inv d'"
  using assms(1)
proof cases
  case (expire ids now)
  then show ?thesis using assms(2) by (simp add: expire_overdue_tasks_def expire_where_inv)
next
  case (expire_all now)
  then show ?thesis using assms(2) by (simp add: expire_all_overdue_tasks_def expire_where_inv)
next
  case (upsert x)
  then show ?thesis using upsert_server_inv assms(2) by blast
next
  case (ensure o1 o2 f r)
  then show ?thesis using ensure_server_id_inv assms(2) by blast
next
  case (create uuid now x r)
  then show ?thesis using create_task_inv assms(2) by blast
next
  case (complete u r)
  then show ?thesis using complete_task_inv assms(2) by blast
next
  case (record_m o1 o2 f sid new d1 m o3)
  have inv: "db_inv (interfere o3 d1)"
    using ensure_server_id_inv [OF assms(2) record_m(2)] by (rule interfere_inv)
  have "find_server_id (ic_agent_id f) (interfere o3 d1) = Some sid"
    using ensured_exists [OF assms(2) record_m(2)] ensure_server_id_inv [OF assms(2) record_m(2)]
    by (intro interfere_id_stable) (simp_all add: db_inv_def)
  then have "sid \<in> si_id ` set (servers (interfere o3 d1))"
    using inv by (auto simp: find_server_id_Some_iff db_inv_def)
  from record_metrics_inv [OF inv this] show ?thesis unfolding record_m(1) .
qed

lemma empty_db_inv: "db_inv empty_db"
  by (simp add: db_inv_def servers_inv_def history_inv_def tasks_inv_def series_inv_def series_refs_def
      empty_db_def pending_unique_def)

section \<open>Nothing collected is lost\<close>

definition kept :: "db \<Rightarrow> db \<Rightarrow> bool" where
  "kept d d' =
     ((\<forall>a s. find_server_id a d = Some s \<longrightarrow> find_server_id a d' = Some s)
      \<and> set (history d) \<subseteq> set (history d') \<and> t_public_id ` set (tasks d) \<subseteq> t_public_id ` set (tasks d')
      \<and> set (metrics_rows d) \<subseteq> set (metrics_rows d') \<and> set (disk_io_rows d) \<subseteq> set (disk_io_rows d')
      \<and> set (net_io_rows d) \<subseteq> set (net_io_rows d') \<and> set (filesystem_rows d) \<subseteq> set (filesystem_rows d')
      \<and> set (cpu_core_rows d) \<subseteq> set (cpu_core_rows d') \<and> set (pressure_rows d) \<subseteq> set (pressure_rows d')
      \<and> set (disk_error_rows d) \<subseteq> set (disk_error_rows d'))"

lemma kept_refl [simp]: "kept d d"
  by (simp add: kept_def)

lemma kept_trans [trans]: "kept d d' \<Longrightarrow> kept d' d'' \<Longrightarrow> kept d d''"
  unfolding kept_def by (elim conjE, intro conjI) ((erule (1) subset_trans | simp)+)

lemma upsert_server_tables [simp]:
  "metrics_rows (snd (upsert_server x d)) = metrics_rows d" "disk_io_rows (snd (upsert_server x d)) = disk_io_rows d"
  "net_io_rows (snd (upsert_server x d)) = net_io_rows d"
  "filesystem_rows (snd (upsert_server x d)) = filesystem_rows d"
  "cpu_core_rows (snd (upsert_server x d)) = cpu_core_rows d"
  "pressure_rows (snd (upsert_server x d)) = pressure_rows d"
  "disk_error_rows (snd (upsert_server x d)) = disk_error_rows d"
  by (simp_all add: upsert_server_alt append_inventory_history_def)

lemma upsert_server_kept: "servers_inv d \<Longrightarrow> kept d (snd (upsert_server x d))"
  unfolding kept_def
  using insert_do_nothing_keeps [of "history d" history_key "[history_row (fst (upsert_statement x d)) x]"]
  by (simp add: upsert_server_id_stable del: insert_do_nothing.simps)

lemma interfere_kept: "servers_inv d \<Longrightarrow> kept d (interfere xs d)"
proof (induction xs arbitrary: d)
  case (Cons x xs)
  have "kept d (snd (upsert_server x d))" using Cons.prems by (rule upsert_server_kept)
  also have "kept \<dots> (interfere xs \<dots>)" by (intro Cons.IH upsert_server_servers_inv Cons.prems)
  finally show ?case by (simp add: interfere_def)
qed (simp add: interfere_def)

lemma find_append_Some: "List.find p xs = Some y \<Longrightarrow> List.find p (xs @ ys) = Some y"
  by (induction xs) (auto split: if_splits)

lemma insert_placeholder_kept: "kept d (snd (insert_placeholder_server x d))"
  by (auto simp: kept_def insert_placeholder_server_def find_server_id_def intro: find_append_Some)

lemma ensure_server_id_kept:
  assumes s: "servers_inv d" and e: "ensure_server_id o1 o2 a f d = Inr (r, d')"
  shows "kept d d'"
proof -
  let ?p = "insert_placeholder_server f (interfere o1 d)"
  have p: "kept d (snd ?p)"
    using interfere_kept [OF s] insert_placeholder_kept by (rule kept_trans)
  have "servers_inv (snd ?p)" using s by (simp add: interfere_servers_inv insert_placeholder_servers_inv)
  then have "kept d (interfere o2 (snd ?p))" using p interfere_kept kept_trans by blast
  with p show ?thesis
    using e by (auto simp: ensure_server_id_def Let_def split: option.splits prod.splits)
qed

lemma tasks_kept:
  "t_public_id ` set (tasks d) \<subseteq> t_public_id ` set ts \<Longrightarrow> kept d (d\<lparr>tasks := ts\<rparr>)"
  "t_public_id ` set (tasks d) \<subseteq> t_public_id ` set ts \<Longrightarrow> kept d (d\<lparr>tasks := ts, task_seq := n\<rparr>)"
  by (simp_all add: kept_def find_server_id_def)

lemma ids_map: "(\<And>t. t_public_id (f t) = t_public_id t) \<Longrightarrow> t_public_id ` set ts \<subseteq> t_public_id ` set (map f ts)"
  by (simp only: set_map image_image subset_refl)

lemma expire_where_kept: "kept d (snd (expire_where p n d))"
  unfolding expire_where_def snd_conv by (intro tasks_kept(1) ids_map) simp

lemma complete_task_kept:
  assumes "complete_task u d = Inr (r, d')"
  shows "kept d d'"
proof -
  have "d' = d\<lparr>tasks := map (\<lambda>t. if t_public_id t = tu_public_id u then apply_result u t else t) (tasks d)\<rparr>"
    using assms by (auto simp: complete_task_def Let_def split: if_splits)
  then show ?thesis by (simp only:) (intro tasks_kept(1) ids_map, simp)
qed

lemma create_task_kept: 
  assumes "create_task u n x d = Inr (r, d')"
  shows "kept d d'"
proof -
  have "d' = d\<lparr>tasks := tasks d @ [new_task (task_seq d) u n x], task_seq := task_seq d + 1\<rparr>"
    using assms by (auto simp: create_task_def Let_def split: if_splits)
  then show ?thesis by (simp only:) (intro tasks_kept(2), auto)
qed

lemma record_metrics_kept: "kept d (snd (record_metrics sid m d))"
proof -
  have "find_server_id a (record_metrics_db sid m d) = find_server_id a d" for a
    by (rule find_server_id_cong) (rule record_metrics_tables)
  then show ?thesis
    unfolding kept_def record_metrics_def Let_def snd_conv record_metrics_tables insert_table_rows
    by (intro conjI insert_do_nothing_keeps) simp_all
qed

lemma collect_step_kept:
  assumes "collect_step d d'" and inv: "db_inv d"
  shows "kept d d'"
proof -
  have s: "servers_inv d" using inv by (simp add: db_inv_def)
  show ?thesis using assms(1)
  proof cases
    case (upsert x)
    then show ?thesis using upsert_server_kept [OF s] by blast
  next
    case (ensure o1 o2 f r)
    then show ?thesis using ensure_server_id_kept [OF s] by blast
  next
    case (create uuid now x r)
    then show ?thesis using create_task_kept by blast
  next
    case (expire ids now)
    then show ?thesis using expire_where_kept by (simp add: expire_overdue_tasks_def)
  next
    case (expire_all now)
    then show ?thesis using expire_where_kept by (simp add: expire_all_overdue_tasks_def)
  next
    case (complete u r)
    then show ?thesis using complete_task_kept by blast
  next
    case (record_m o1 o2 f sid new d1 m o3)
    have "kept d (interfere o3 d1)"
      using ensure_server_id_kept [OF s record_m(2)] interfere_kept ensure_server_id_inv [OF inv record_m(2)]
      by (auto simp: db_inv_def intro: kept_trans)
    then show ?thesis unfolding record_m(1) using record_metrics_kept by (rule kept_trans)
  qed
qed

text \<open>
  Claim C13: in every database reached from an empty one by committed transactions, in any
  order, with any data and with inventories of other handlers committed between the statements of a
  registration, the references hold: every row of the history, of the tasks and of the seven time-series
  tables points to a server that exists, although \<open>record_metrics\<close> itself checks nothing and the metrics
  transaction is the one that obtains the identifier.  Agents and identifiers are unique, and so are the
  natural keys the statements and the partial index guard.  And nothing collected is lost or moved: whatever
  is committed afterwards, an agent keeps its identifier, no history row, no task and no time-series row
  disappears, and no history or time-series row is rewritten.  (The column \<open>public_id\<close> of a server, filled
  by the database, is not in the model.)
\<close>

theorem collect_integrity:
  assumes "collect_step\<^sup>*\<^sup>* empty_db d" and "collect_step\<^sup>*\<^sup>* d d'"
  shows "db_inv d' \<and> kept d d'"
proof -
  have d: "db_inv d"
    using assms(1) by (induction rule: rtranclp_induct) (simp_all add: empty_db_inv collect_step_inv)
  show ?thesis
    using assms(2)
  proof (induction rule: rtranclp_induct)
    case (step y z)
    then show ?case using collect_step_inv collect_step_kept kept_trans by blast
  qed (simp add: d)
qed

section \<open>Examples\<close>

text \<open>A minimal inventory, for the concrete instances of the theorems.\<close>

definition sample_inventory :: "string \<Rightarrow> datetime \<Rightarrow> ServerInventoryCreate" where
  "sample_inventory a tm =
     \<lparr>ic_agent_id = a,
      ic_composite_id = None,
      ic_machine_id = None,
      ic_hostname = a,
      ic_agent_version = None,
      ic_collected_at = tm,
      ic_boot_time = None,
      ic_agent_started_at = None,
      ic_os_family = Some ''linux'',
      ic_os_id = None,
      ic_os_version = None,
      ic_os_codename = None,
      ic_kernel_version = None,
      ic_cpu_cores = None,
      ic_cpu_model = None,
      ic_mem_total_bytes = None,
      ic_block_devices = [],
      ic_net_interfaces = [],
      ic_lvm_vgs = [],
      ic_ip_external = None,
      ic_services = None,
      ic_listen_ports = [],
      ic_service_categories = [],
      ic_arch = None,
      ic_bits = None,
      ic_boot_firmware = None,
      ic_secure_boot = None,
      ic_edition = None,
      ic_product_name = None,
      ic_timezone = None,
      ic_rtc_utc = None,
      ic_boot = None,
      ic_nonblock_mounts = None\<rparr>"

abbreviation one_server :: db where
  "one_server \<equiv> snd (upsert_server (sample_inventory ''a1'' 10) empty_db)"

lemma one_server_inv: "db_inv one_server"
  by (rule upsert_server_inv) (rule empty_db_inv)

lemma one_server_ids: "si_id ` set (servers one_server) = {1}" "tasks one_server = []"
    "find_server_id ''a1'' one_server = Some 1" "history_key ` set (history one_server) = {(1, 10)}"
  by (simp_all add: upsert_statement_def find_server_id_def inventory_differs_def empty_db_def
      history_key_def sample_inventory_def)

theorem upsert_server_spec_witness:
  "let x = sample_inventory ''a1'' 20 in
     find_server_id ''a1'' (snd (upsert_server x one_server)) = Some (fst (upsert_server x one_server))
     \<and> fst (upsert_server x one_server) = 1"
  using upsert_server_spec [OF one_server_inv, of "sample_inventory ''a1'' 20"] one_server_ids(3)
  by (auto simp: sample_inventory_def split: prod.splits simp del: upsert_server_sel)

theorem ensure_server_id_total_witness:
  "\<exists>sid new d'. ensure_server_id [sample_inventory ''a1'' 5] [] ''a1'' (sample_inventory ''a1'' 9) empty_db
      = Inr ((sid, new), d') \<and> find_server_id ''a1'' d' = Some sid"
  using ensure_server_id_total [of empty_db "sample_inventory ''a1'' 9" "''a1''"
      "[sample_inventory ''a1'' 5]" "[]"] empty_db_inv
  by (auto simp: sample_inventory_def db_inv_def)

theorem collect_integrity_witness:
  "db_inv (snd (upsert_server (sample_inventory ''a1'' 20) one_server)) \<and>
   kept one_server (snd (upsert_server (sample_inventory ''a1'' 20) one_server)) \<and>
   find_server_id ''a1'' one_server = Some 1"
  using collect_integrity [of one_server "snd (upsert_server (sample_inventory ''a1'' 20) one_server)"]
    r_into_rtranclp [of collect_step, OF collect_step.upsert] one_server_ids(3) by blast

end
