(* ===== verification/TaskLifecycle.thy ===== *)
theory TaskLifecycle
  imports CollectInvariant "HOL-Library.Product_Lexorder"
begin

text \<open>
  The life of a remote task: creation under the partial unique index, expiry by the reaper or by a
  reissue, completion by a result message, and the paged listing of \<open>db/repositories/query/task_sql.py\<close>.
\<close>

section \<open>Lists\<close>

lemma distinct_filter_le: "distinct (map f xs) \<Longrightarrow> length (filter (\<lambda>x. f x = a) xs) \<le> 1"
proof (induction xs)
  case (Cons x xs)
  then have "f x = a \<Longrightarrow> filter (\<lambda>x. f x = a) xs = []" by (auto simp: filter_empty_conv rev_image_eqI)
  with Cons show ?case by auto
qed simp

lemma distinct_sorted_wrt_neq: "distinct (map f xs) \<Longrightarrow> sorted_wrt (\<lambda>a b. f a \<noteq> f b) xs"
  by (induction xs) auto

lemma sorted_wrt_conj:
  fixes f :: "'a \<Rightarrow> int"
  shows "sorted_wrt (\<lambda>a b. f b \<le> f a) xs \<Longrightarrow> sorted_wrt (\<lambda>a b. f a \<noteq> f b) xs \<Longrightarrow>
    sorted_wrt (\<lambda>a b. f b < f a) xs"
  by (induction xs) (auto simp: order_less_le)

section \<open>Listing\<close>

definition recent_order :: "Task \<Rightarrow> int \<times> int" where
  "recent_order t = (- t_created_at t, - t_id t)"

definition list_recent_tasks :: "int \<Rightarrow> nat \<Rightarrow> datetime option \<Rightarrow> db \<Rightarrow> Task list" where
  "list_recent_tasks sid limit cursor d =
     take limit
       (sort_key recent_order
          (filter (\<lambda>t. t_target_server_id t = sid
                       \<and> (case cursor of None \<Rightarrow> True | Some c \<Rightarrow> t_created_at t < c)) (tasks d)))"

text \<open>\<open>DISTINCT ON (target_server_id)\<close> with the newest task first.\<close>

definition latest_tasks_by_servers :: "int list \<Rightarrow> db \<Rightarrow> int \<rightharpoonup> Task" where
  "latest_tasks_by_servers server_ids d =
     (\<lambda>sid. if sid \<in> set server_ids
            then (case sort_key recent_order (filter (\<lambda>t. t_target_server_id t = sid) (tasks d)) of
                    [] \<Rightarrow> None | t # _ \<Rightarrow> Some t)
            else None)"

section \<open>Expiry\<close>

lemma not_overdue_expired [simp]: "\<not> overdue n (expire_task m t)"
  by (simp add: overdue_def)

text \<open>
  The reaper fails exactly the overdue tasks.  It reports their number, turns each
  into a failure with reason \<open>timeout\<close>, leaves every other task as it is, leaves no overdue task
  behind, and running it again at the same time does nothing.
\<close>

theorem expiry_exact:
  "let (n, d') = expire_all_overdue_tasks now d in
     n = length (filter (overdue now) (tasks d))
     \<and> tasks d' = map (\<lambda>t. if overdue now t then expire_task now t else t) (tasks d)
     \<and> filter (overdue now) (tasks d') = []
     \<and> expire_all_overdue_tasks now d' = (0, d')"
proof -
  define f where "f = (\<lambda>t. if overdue now t then expire_task now t else t)"
  let ?d = "d\<lparr>tasks := map f (tasks d)\<rparr>"
  have run: "expire_all_overdue_tasks now e = (length (filter (overdue now) (tasks e)), e\<lparr>tasks := map f (tasks e)\<rparr>)" for e
    by (simp add: expire_all_overdue_tasks_def expire_where_def f_def)
  have "\<not> overdue now (f x)" for x by (simp add: f_def)
  then have none: "filter (overdue now) (map f (tasks d)) = []" by (simp add: filter_empty_conv)
  have idem: "f \<circ> f = f" by (auto simp: f_def)
  have "tasks ?d = map f (tasks d)" by simp
  then have again: "expire_all_overdue_tasks now ?d = (0, ?d)"
    unfolding run using none by (simp add: idem)
  show ?thesis unfolding run [of d] Let_def prod.case using none again by (simp add: f_def)
qed

section \<open>Issuing a task\<close>

lemma create_task_ok_iff:
  "(\<exists>r. create_task uuid now x d = Inr r) \<longleftrightarrow>
     tc_target_server_id x \<in> si_id ` set (servers d) \<and> uuid \<notin> t_public_id ` set (tasks d)
     \<and> pending_unique (tasks d)
     \<and> (tc_target_server_id x, tc_task_type x) \<notin> task_key ` {t \<in> set (tasks d). is_pending t}"
proof -
  have "task_key (new_task i uuid now x) = (tc_target_server_id x, tc_task_type x)" for i
    by (simp add: task_key_def)
  then show ?thesis by (simp add: create_task_def Let_def pending_unique_append)
qed

lemma pending_after_expiry:
  "{t \<in> set (map (\<lambda>t. if p t then expire_task now t else t) ts). is_pending t} =
   {t \<in> set ts. is_pending t \<and> \<not> p t}"
  by (auto split: if_splits)

text \<open>
  After expiring the overdue tasks of a server, a new task for it is
  accepted exactly when no task of the same type is still pending within its deadline (or without
  one).  An agent that never answered cannot block a server for good, and a live task cannot be
  doubled; a refused creation leaves the database as it was.
\<close>

theorem reissue_unblocked:
  assumes "db_inv d" and "tc_target_server_id x \<in> set ids"
    and "tc_target_server_id x \<in> si_id ` set (servers d)" and "uuid \<notin> t_public_id ` set (tasks d)"
  shows "(\<exists>r. create_task uuid now x (snd (expire_overdue_tasks ids now d)) = Inr r) \<longleftrightarrow>
     \<not> (\<exists>t \<in> set (tasks d). is_pending t \<and> \<not> overdue now t \<and> t_target_server_id t = tc_target_server_id x
           \<and> t_task_type t = tc_task_type x)"
proof -
  let ?p = "\<lambda>t. t_target_server_id t \<in> set ids \<and> overdue now t"
  let ?d = "snd (expire_overdue_tasks ids now d)"
  have ne: "ids \<noteq> []" using assms(2) by auto
  have d': "?d = snd (expire_where ?p now d)" using ne by (simp add: expire_overdue_tasks_def)
  have inv: "db_inv ?d" unfolding d' by (rule expire_where_inv) (rule assms(1))
  have ts: "tasks ?d = map (\<lambda>t. if ?p t then expire_task now t else t) (tasks d)"
    and sv: "servers ?d = servers d" by (simp_all add: d' expire_where_def)
  have "t_public_id ` set (tasks ?d) = t_public_id ` set (tasks d)"
  proof -
    have "t_public_id \<circ> (\<lambda>t. if ?p t then expire_task now t else t) = t_public_id" by auto
    then show ?thesis unfolding ts set_map image_comp by simp
  qed
  moreover have "pending_unique (tasks ?d)" using inv by (simp add: db_inv_def tasks_inv_def)
  moreover have "(tc_target_server_id x, tc_task_type x) \<notin> task_key ` {t \<in> set (tasks ?d). is_pending t} \<longleftrightarrow>
     \<not> (\<exists>t \<in> set (tasks d). is_pending t \<and> \<not> overdue now t \<and> t_target_server_id t = tc_target_server_id x
           \<and> t_task_type t = tc_task_type x)"
    unfolding ts pending_after_expiry using assms(2) by (auto simp: task_key_def image_iff) metis
  ultimately show ?thesis using assms(3,4) unfolding create_task_ok_iff sv by simp
qed

definition sample_task :: "datetime option \<Rightarrow> TaskCreate" where
  "sample_task deadline =
     \<lparr>tc_target_server_id = 1, tc_target_agent_id = ''a1'', tc_task_type = ''install'', tc_params = None,
      tc_deadline_at = deadline\<rparr>"

theorem reissue_unblocked_witness:
  "\<exists>d. create_task ''u1'' 100 (sample_task (Some 200)) one_server = Inr (''u1'', d)
     \<and> (\<exists>r. create_task ''u2'' 300 (sample_task None) (snd (expire_overdue_tasks [1] 300 d)) = Inr r)"
proof -
  define d where "d = one_server\<lparr>tasks := [new_task 1 ''u1'' 100 (sample_task (Some 200))], task_seq := 2\<rparr>"
  have "task_seq one_server = 1" by (simp add: empty_db_def)
  then have c: "create_task ''u1'' 100 (sample_task (Some 200)) one_server = Inr (''u1'', d)"
    using one_server_ids(1,2) by (simp add: create_task_def Let_def sample_task_def d_def pending_unique_def)
  have inv: "db_inv d" by (rule create_task_inv [OF one_server_inv c])
  have "\<exists>r. create_task ''u2'' 300 (sample_task None) (snd (expire_overdue_tasks [1] 300 d)) = Inr r"
    using reissue_unblocked [OF inv, of "sample_task None" "[1]" "''u2''" 300] one_server_ids(1)
    by (simp add: sample_task_def d_def overdue_def)
  with c show ?thesis by blast
qed

section \<open>Completion\<close>

lemma complete_task_ok:
  assumes "db_inv d" "smallint (tu_exit_code u)" "smallint (tu_signal_no u)" "tu_status u \<noteq> ''pending''"
  shows "complete_task u d =
    Inr (tu_public_id u \<in> t_public_id ` set (tasks d),
         d\<lparr>tasks := map (\<lambda>t. if t_public_id t = tu_public_id u then apply_result u t else t) (tasks d)\<rparr>)"
proof -
  have "pending_unique (map (\<lambda>t. if t_public_id t = tu_public_id u then apply_result u t else t) (tasks d))"
    using assms(1,4)
    by (intro pending_unique_map) (auto simp: db_inv_def tasks_inv_def is_pending_def split: if_splits)
  moreover have "list_ex (\<lambda>t. t_public_id t = tu_public_id u) (tasks d) \<longleftrightarrow>
      tu_public_id u \<in> t_public_id ` set (tasks d)"
    by (auto simp: list_ex_iff image_iff eq_commute)
  ultimately show ?thesis using assms(2,3) by (simp add: complete_task_def Let_def)
qed

lemma apply_result_idem [simp]: "apply_result u (apply_result u t) = apply_result u t"
  by (simp add: apply_result_def)

text \<open>
  A result whose codes fit the columns is stored in the task with its
  identifier and nowhere else, whether the task is pending or has timed out before; the call says
  whether there was such a task (an unknown one is ignored), and storing the result a second time
  changes nothing.
\<close>

theorem complete_task_spec:
  assumes "db_inv d" and "smallint (tu_exit_code u)" and "smallint (tu_signal_no u)"
    and "tu_status u \<noteq> ''pending''"
  shows "\<exists>d'. complete_task u d = Inr (tu_public_id u \<in> t_public_id ` set (tasks d), d')
     \<and> d' = d\<lparr>tasks := map (\<lambda>t. if t_public_id t = tu_public_id u then apply_result u t else t) (tasks d)\<rparr>
     \<and> length (filter (\<lambda>t. t_public_id t = tu_public_id u) (tasks d)) \<le> 1
     \<and> complete_task u d' = Inr (tu_public_id u \<in> t_public_id ` set (tasks d), d')"
proof -
  define f where "f = (\<lambda>t. if t_public_id t = tu_public_id u then apply_result u t else t)"
  let ?d = "d\<lparr>tasks := map f (tasks d)\<rparr>"
  have run: "complete_task u e = Inr (tu_public_id u \<in> t_public_id ` set (tasks e), e\<lparr>tasks := map f (tasks e)\<rparr>)"
    if "db_inv e" for e
    using complete_task_ok [OF that assms(2-4)] by (simp add: f_def)
  have inv: "db_inv ?d" using complete_task_inv [OF assms(1) run [OF assms(1)]] .
  have pid: "t_public_id \<circ> f = t_public_id" and idem: "f \<circ> f = f" by (auto simp: f_def)
  have "t_public_id ` set (tasks ?d) = t_public_id ` set (tasks d)"
    by (simp add: image_comp pid del: comp_apply)
  then have again: "complete_task u ?d = Inr (tu_public_id u \<in> t_public_id ` set (tasks d), ?d)"
    unfolding run [OF inv] by (simp add: idem)
  have "distinct (map t_public_id (tasks d))" using assms(1) by (simp add: db_inv_def tasks_inv_def)
  then have "length (filter (\<lambda>t. t_public_id t = a) (tasks d)) \<le> 1" for a
    by (rule distinct_filter_le)
  with run [OF assms(1)] again show ?thesis by (auto simp: f_def)
qed

theorem complete_task_spec_witness:
  "\<exists>d'. complete_task
      \<lparr>tu_public_id = ''u9'', tu_status = ''success'', tu_failure_reason = None, tu_exit_code = Some 0,
       tu_signal_no = None, tu_task_policy = None, tu_duration_ms = 1, tu_stdout_tail = [],
       tu_stderr_tail = [], tu_completed_at = 9\<rparr> one_server = Inr (False, d')"
  using complete_task_spec [OF one_server_inv, of "\<lparr>tu_public_id = ''u9'', tu_status = ''success'',
      tu_failure_reason = None, tu_exit_code = Some 0, tu_signal_no = None, tu_task_policy = None,
      tu_duration_ms = 1, tu_stdout_tail = [], tu_stderr_tail = [], tu_completed_at = 9\<rparr>"] one_server_ids(2)
  by (simp add: smallint_def)

section \<open>Paging\<close>

lemma filter_below_last:
  assumes "sorted_wrt (\<lambda>a b. t_created_at b < t_created_at a) ts" and "take n ts \<noteq> []"
  shows "filter (\<lambda>t. t_created_at t < t_created_at (last (take n ts))) ts = drop n ts"
proof -
  let ?l = "last (take n ts)"
  have split: "sorted_wrt (\<lambda>a b. t_created_at b < t_created_at a) (take n ts @ drop n ts)"
    using assms(1) by simp
  have "t_created_at ?l \<le> t_created_at t" if "t \<in> set (take n ts)" for t
  proof -
    have "take n ts = butlast (take n ts) @ [?l]" using assms(2) by simp
    then have "sorted_wrt (\<lambda>a b. t_created_at b < t_created_at a) (butlast (take n ts) @ [?l])"
      using split by (metis sorted_wrt_append)
    then have "\<forall>t \<in> set (butlast (take n ts)). t_created_at ?l < t_created_at t"
      by (simp add: sorted_wrt_append)
    moreover have "t \<in> set (butlast (take n ts)) \<or> t = ?l"
      using that assms(2) by (metis append_butlast_last_id in_set_butlast_appendI rotate1.simps(2) set_ConsD set_rotate1)
    ultimately show ?thesis by fastforce
  qed
  then have "filter (\<lambda>t. t_created_at t < t_created_at ?l) (take n ts) = []"
    by (fastforce simp: filter_empty_conv)
  moreover have "t_created_at t < t_created_at ?l" if "t \<in> set (drop n ts)" for t
    using split that assms(2) unfolding sorted_wrt_append by (metis last_in_set)
  then have "filter (\<lambda>t. t_created_at t < t_created_at ?l) (drop n ts) = drop n ts" by simp
  ultimately show ?thesis
    by (metis (no_types, lifting) append_Nil append_take_drop_id filter_append)
qed

text \<open>
  Paging through the tasks of a server by the creation time of the last entry
  loses and repeats nothing, as long as no two tasks of the server have the same creation time: the
  page after the first \<open>n\<close> entries is the next slice of the full list, newest first.
\<close>

theorem recent_paging:
  assumes "distinct (map t_created_at (filter (\<lambda>t. t_target_server_id t = sid) (tasks d)))"
    and "list_recent_tasks sid n None d \<noteq> []"
  shows "list_recent_tasks sid n None d @
           list_recent_tasks sid m (Some (t_created_at (last (list_recent_tasks sid n None d)))) d =
         list_recent_tasks sid (n + m) None d"
proof -
  let ?all = "sort_key recent_order (filter (\<lambda>t. t_target_server_id t = sid) (tasks d))"
  have page: "list_recent_tasks sid k None d = take k ?all" for k
    by (simp add: list_recent_tasks_def)
  have "sorted (map recent_order ?all)" by simp
  then have le: "sorted_wrt (\<lambda>a b. t_created_at b \<le> t_created_at a) ?all"
    unfolding sorted_map by (rule sorted_wrt_mono_rel [rotated]) (auto simp: recent_order_def less_eq_prod_def)
  have "distinct (map t_created_at ?all)"
    using assms(1) by (simp add: distinct_map)
  then have "sorted_wrt (\<lambda>a b. t_created_at a \<noteq> t_created_at b) ?all"
    by (simp add: distinct_sorted_wrt_neq)
  with le have strict: "sorted_wrt (\<lambda>a b. t_created_at b < t_created_at a) ?all"
    by (rule sorted_wrt_conj)
  have "list_recent_tasks sid m (Some c) d = take m (filter (\<lambda>t. t_created_at t < c) ?all)" for c
    by (simp add: list_recent_tasks_def filter_sort conj_commute)
  then show ?thesis
    using assms(2) filter_below_last [OF strict] unfolding page by (simp add: take_add)
qed

theorem recent_paging_witness:
  "let d = one_server\<lparr>tasks := [new_task 1 ''u1'' 100 (sample_task None), new_task 2 ''u2'' 200 (sample_task None)]\<rparr>
   in list_recent_tasks 1 1 None d @ list_recent_tasks 1 1 (Some 200) d = list_recent_tasks 1 2 None d"
proof -
  let ?a = "new_task 1 ''u1'' 100 (sample_task None)" and ?b = "new_task 2 ''u2'' 200 (sample_task None)"
  define d where "d = one_server\<lparr>tasks := [?a, ?b]\<rparr>"
  have c: "t_created_at ?a = 100" "t_created_at ?b = 200" "tc_target_server_id (sample_task None) = 1"
    by (simp_all add: new_task_def sample_task_def)
  have first: "list_recent_tasks 1 1 None d = [?b]"
    by (simp add: list_recent_tasks_def d_def c recent_order_def)
  have "distinct (map t_created_at (filter (\<lambda>t. t_target_server_id t = 1) (tasks d)))"
    by (simp add: d_def c)
  from recent_paging [OF this, of 1 1] show ?thesis
    unfolding d_def [symmetric] Let_def by (simp add: first [unfolded One_nat_def] c numeral_2_eq_2)
qed

end
