(* ===== verification/ServiceCatalog.thy ===== *)
theory ServiceCatalog
  imports Prelude "HOL-Library.Char_ord" "HOL-Library.List_Lexorder" "HOL-Library.Product_Lexorder"
begin

text \<open>
  The catalogue of \<open>service_classifier.py\<close>: ten categories, each with the keywords of unit and process
  names and the well-known ports of its services, in the order of the source, which is the order of
  priority.  The indices the classifier reads are derived from it as the module does at import time.
\<close>

record CategoryDef =
  cat_key :: string
  name_keywords :: "string list"
  port_names :: "(string \<times> int list) list"
  badge_class :: string
  single_instance :: bool

definition category_web :: CategoryDef where
  "category_web =
     \<lparr>cat_key = ''web'',
      name_keywords =
        [''nginx'', ''httpd'', ''apache'', ''caddy'', ''lighttpd'', ''traefik'', ''haproxy'',
         ''w3svc'', ''iis'', ''openresty'', ''tomcat'', ''jetty'', ''php-fpm'', ''gunicorn'',
         ''uwsgi''],
      port_names =
        [(''nginx'', [80, 443]), (''apache2'', [80, 443]), (''httpd'', [80, 443]),
         (''caddy'', [80, 443]), (''lighttpd'', [80, 443]), (''haproxy'', [80, 443]),
         (''traefik'', [80, 443, 8080]), (''tomcat'', [8080])],
      badge_class = ''badge-cat-web'', single_instance = False\<rparr>"

definition category_db :: CategoryDef where
  "category_db =
     \<lparr>cat_key = ''db'',
      name_keywords =
        [''postgresql'', ''postgres'', ''mariadb'', ''mysqld'', ''mysql'', ''mongod'',
         ''mongodb'', ''cassandra'', ''influxdb'', ''sqlservr'', ''mssql'', ''oracle'',
         ''elasticsearch'', ''opensearch'', ''clickhouse'', ''db2''],
      port_names =
        [(''postgresql'', [5432]), (''postgres'', [5432]), (''mysqld'', [3306]),
         (''mysql'', [3306]), (''mariadb'', [3306]), (''mongod'', [27017]),
         (''cassandra'', [9042, 9160]), (''influxdb'', [8086]), (''oracle'', [1521]),
         (''sqlservr'', [1433]), (''mssql'', [1433]), (''elasticsearch'', [9200, 9300]),
         (''opensearch'', [9200, 9300]), (''clickhouse'', [8123, 9000]), (''db2'', [50000])],
      badge_class = ''badge-cat-db'', single_instance = False\<rparr>"

definition category_cache :: CategoryDef where
  "category_cache =
     \<lparr>cat_key = ''cache'',
      name_keywords =
        [''redis'', ''memcached'', ''varnish'', ''valkey'', ''keydb'', ''dragonfly''],
      port_names =
        [(''redis-server'', [6379]), (''redis'', [6379]), (''memcached'', [11211]),
         (''varnish'', [6081, 6082]), (''valkey'', [6379]), (''keydb'', [6379]),
         (''dragonfly'', [6379])],
      badge_class = ''badge-cat-cache'', single_instance = False\<rparr>"

definition category_mq :: CategoryDef where
  "category_mq =
     \<lparr>cat_key = ''mq'',
      name_keywords =
        [''rabbitmq'', ''kafka'', ''activemq'', ''nats'', ''mosquitto'', ''pulsar'',
         ''redpanda'', ''emqx'', ''artemis''],
      port_names =
        [(''rabbitmq-server'', [5672, 15672]), (''rabbitmq'', [5672, 15672]),
         (''kafka'', [9092]), (''nats-server'', [4222, 8222]), (''activemq'', [61616, 8161]),
         (''mosquitto'', [1883, 8883]), (''pulsar'', [6650]), (''emqx'', [1883])],
      badge_class = ''badge-cat-mq'', single_instance = False\<rparr>"

definition category_container :: CategoryDef where
  "category_container =
     \<lparr>cat_key = ''container'',
      name_keywords =
        [''docker'', ''containerd'', ''kubelet'', ''podman'', ''crio'', ''k3s'', ''k0s''],
      port_names =
        [],
      badge_class = ''badge-cat-container'', single_instance = True\<rparr>"

definition category_monitor :: CategoryDef where
  "category_monitor =
     \<lparr>cat_key = ''monitor'',
      name_keywords =
        [''prometheus'', ''grafana'', ''datadog'', ''node_exporter'', ''zabbix'', ''telegraf'',
         ''collectd'', ''fluentd'', ''fluent-bit'', ''filebeat'', ''victoriametrics'', ''loki'',
         ''netdata'', ''alertmanager''],
      port_names =
        [(''prometheus'', [9090]), (''node_exporter'', [9100]), (''zabbix'', [10050, 10051]),
         (''alertmanager'', [9093]), (''victoriametrics'', [8428]), (''loki'', [3100]),
         (''netdata'', [19999])],
      badge_class = ''badge-cat-monitor'', single_instance = False\<rparr>"

definition category_remote :: CategoryDef where
  "category_remote =
     \<lparr>cat_key = ''remote'',
      name_keywords =
        [''sshd'', ''ssh'', ''openssh'', ''rdp'', ''termservice'', ''umrdpservice'', ''winrm'',
         ''wsmprovhost'', ''tigervnc'', ''x11vnc'', ''vino'', ''vncserver'', ''teamviewer'',
         ''anydesk'', ''telnetd''],
      port_names =
        [(''sshd'', [22]), (''rdp'', [3389]), (''termservice'', [3389]),
         (''winrm'', [5985, 5986]), (''vncserver'', [5900, 5901]), (''tigervnc'', [5900, 5901]),
         (''telnetd'', [23])],
      badge_class = ''badge-cat-remote'', single_instance = False\<rparr>"

definition category_file :: CategoryDef where
  "category_file =
     \<lparr>cat_key = ''file'',
      name_keywords =
        [''nfsd'', ''nfs'', ''rpc.mountd'', ''rpcbind'', ''smbd'', ''samba'', ''nmbd'',
         ''vsftpd'', ''proftpd'', ''pure-ftpd'', ''glusterd'', ''ceph-osd'', ''minio'',
         ''iscsid'', ''tgtd''],
      port_names =
        [(''nfsd'', [2049]), (''rpc.mountd'', [20048]), (''rpcbind'', [111]),
         (''smbd'', [445, 139]), (''samba'', [445, 139]), (''vsftpd'', [21]),
         (''proftpd'', [21]), (''pure-ftpd'', [21]), (''minio'', [9001]), (''iscsid'', [3260]),
         (''tgtd'', [3260])],
      badge_class = ''badge-cat-file'', single_instance = False\<rparr>"

definition category_mail :: CategoryDef where
  "category_mail =
     \<lparr>cat_key = ''mail'',
      name_keywords =
        [''postfix'', ''sendmail'', ''exim'', ''exim4'', ''dovecot'', ''cyrus'', ''opendkim'',
         ''rspamd'', ''amavis'', ''zimbra''],
      port_names =
        [(''postfix'', [25, 587, 465]), (''sendmail'', [25]), (''exim'', [25]),
         (''exim4'', [25]), (''dovecot'', [143, 993, 110, 995]), (''cyrus'', [143, 993])],
      badge_class = ''badge-cat-mail'', single_instance = False\<rparr>"

definition category_infra :: CategoryDef where
  "category_infra =
     \<lparr>cat_key = ''infra'',
      name_keywords =
        [''named'', ''dnsmasq'', ''unbound'', ''pdns'', ''coredns'', ''knot'', ''dhcpd'',
         ''dhcp'', ''kea'', ''chronyd'', ''ntpd'', ''slapd'', ''sssd'', ''winbind'', ''squid'',
         ''privoxy'', ''snmpd'', ''keepalived''],
      port_names =
        [(''named'', [53]), (''dnsmasq'', [53]), (''unbound'', [53]), (''coredns'', [53]),
         (''dhcpd'', [67]), (''ntpd'', [123]), (''chronyd'', [123]), (''slapd'', [389, 636]),
         (''squid'', [3128]), (''snmpd'', [161, 162])],
      badge_class = ''badge-cat-infra'', single_instance = False\<rparr>"

definition SERVICE_CATALOG :: "CategoryDef list" where
  "SERVICE_CATALOG =
     [category_web, category_db, category_cache, category_mq, category_container,
      category_monitor, category_remote, category_file, category_mail, category_infra]"

lemmas catalog_defs =
  SERVICE_CATALOG_def category_web_def category_db_def category_cache_def category_mq_def
  category_container_def category_monitor_def category_remote_def category_file_def
  category_mail_def category_infra_def

section \<open>Derived indices\<close>

definition NAME_INDEX :: "(string \<times> string) list" where
  "NAME_INDEX = concat (map (\<lambda>d. map (\<lambda>kw. (kw, cat_key d)) (name_keywords d)) SERVICE_CATALOG)"

text \<open>A dictionary comprehension: the last entry of a name wins.\<close>

definition NAME_PORTS :: "string \<rightharpoonup> int list" where
  "NAME_PORTS = map_of (rev (concat (map port_names SERVICE_CATALOG)))"

text \<open>\<open>index.setdefault(port, d.key)\<close> over the catalogue: the first category wins.\<close>

definition port_pairs :: "CategoryDef list \<Rightarrow> (int \<times> string) list" where
  "port_pairs cat =
     concat (map (\<lambda>d. map (\<lambda>p. (p, cat_key d)) (concat (map snd (port_names d)))) cat)"

definition PORT_INDEX :: "int \<rightharpoonup> string" where
  "PORT_INDEX = fold (\<lambda>(p, c) m. if m p = None then m(p \<mapsto> c) else m) (port_pairs SERVICE_CATALOG) Map.empty"

definition SERVICE_CATEGORIES :: "string list" where
  "SERVICE_CATEGORIES = map cat_key SERVICE_CATALOG"

definition SIGNATURE_CATEGORIES :: "string list" where
  "SIGNATURE_CATEGORIES = [''web'', ''db'', ''cache'', ''mq'', ''container'', ''monitor'']"

definition SINGLE_INSTANCE_CATEGORIES :: "string list" where
  "SINGLE_INSTANCE_CATEGORIES = map cat_key (filter single_instance SERVICE_CATALOG)"

definition BADGE_CLASS_BY_CATEGORY :: "string \<rightharpoonup> string" where
  "BADGE_CLASS_BY_CATEGORY =
     (map_of (rev (map (\<lambda>d. (cat_key d, badge_class d)) SERVICE_CATALOG)))
       (''unknown'' \<mapsto> ''badge-cat-unknown'')"

definition BASELINE_KEYWORDS :: "string list" where
  "BASELINE_KEYWORDS =
     [''sshd'', ''ssh'', ''openssh'', ''rdp'', ''termservice'', ''umrdpservice'', ''winrm'',
      ''wsmprovhost'', ''tigervnc'', ''x11vnc'', ''vino'', ''vncserver'', ''telnetd'',
      ''chronyd'', ''ntpd'', ''ntpdate'', ''timesyncd'', ''resolved'', ''rpcbind'',
      ''gssproxy'', ''sssd'', ''winbind'', ''systemd-'']"

definition BASELINE_PORTS :: "int list" where
  "BASELINE_PORTS = [22, 23, 3389, 5985, 5986, 5900, 5901, 123, 111]"

section \<open>Facts about the indices\<close>

lemma fold_setdefault:
  "fold (\<lambda>(p, c) m. if m p = None then m(p \<mapsto> c) else m) ps m x =
     (case m x of Some c \<Rightarrow> Some c | None \<Rightarrow> map_of ps x)"
  by (induction ps arbitrary: m) (auto split: option.splits if_splits)

lemma PORT_INDEX_map_of: "PORT_INDEX x = map_of (port_pairs SERVICE_CATALOG) x"
  by (simp add: PORT_INDEX_def fold_setdefault)

lemma PORT_INDEX_category: "PORT_INDEX p = Some c \<Longrightarrow> c \<in> set SERVICE_CATEGORIES"
  by (auto simp: PORT_INDEX_map_of port_pairs_def SERVICE_CATEGORIES_def dest!: map_of_SomeD)

lemma NAME_INDEX_category: "(k, c) \<in> set NAME_INDEX \<Longrightarrow> c \<in> set SERVICE_CATEGORIES"
  by (auto simp: NAME_INDEX_def SERVICE_CATEGORIES_def)

lemma unknown_not_category: "''unknown'' \<notin> set SERVICE_CATEGORIES"
  by (simp add: SERVICE_CATEGORIES_def catalog_defs)

end
