(* ===== verification/ServiceClassifier.thy ===== *)
theory ServiceClassifier
  imports ServiceCatalog "HOL-Library.Multiset"
begin

text \<open>
  Classification of services and listening sockets (\<open>service_classifier.py\<close>).  A stored socket is the
  JSON object of the inventory; a missing key is \<open>None\<close> and \<open>p.get(k, default)\<close> supplies the default.
  The loops with a \<open>seen\<close> set are the function \<open>dedup_select\<close>.
\<close>

record ListenPort =
  port_proto :: "string option"
  port_number :: "int option"
  port_pid :: "int option"
  port_comm :: "string option"

record ServiceEntry =
  svc_unit :: "string option"
  svc_pid :: "int option"

record MatchedPort =
  mp_proto :: string
  mp_port :: int

definition get_port :: "ListenPort \<Rightarrow> int" where
  "get_port p = (case port_number p of None \<Rightarrow> 0 | Some n \<Rightarrow> n)"

definition get_proto :: "ListenPort \<Rightarrow> string" where
  "get_proto p = (case port_proto p of None \<Rightarrow> [] | Some s \<Rightarrow> s)"

definition comm_lower :: "ListenPort \<Rightarrow> string" where
  "comm_lower p = str_lower (str_or (port_comm p) [])"

definition socket_key :: "ListenPort \<Rightarrow> string \<times> int" where
  "socket_key p = (get_proto p, get_port p)"

definition sort_ports :: "ListenPort list \<Rightarrow> ListenPort list" where
  "sort_ports ps = sort_key (\<lambda>p. (get_port p, get_proto p)) ps"

fun dedup_select ::
  "(ListenPort \<Rightarrow> bool) \<Rightarrow> (string \<times> int) list \<Rightarrow> ListenPort list \<Rightarrow> ListenPort list" where
  "dedup_select ok seen [] = []"
| "dedup_select ok seen (p # ps) =
     (if ok p \<and> socket_key p \<notin> set seen
      then p # dedup_select ok (socket_key p # seen) ps
      else dedup_select ok seen ps)"

section \<open>Classification\<close>

definition match_keyword :: "string \<Rightarrow> string option" where
  "match_keyword t =
     (if t = [] then None
      else first_some (\<lambda>(kw, c). if str_in kw t then Some c else None) NAME_INDEX)"

definition service_suffix :: string where
  "service_suffix = ''.service''"

definition attributed_ports :: "string \<Rightarrow> ListenPort list \<Rightarrow> int option \<Rightarrow> ListenPort list" where
  "attributed_ports unit ps pid =
     (case pid of
        Some i \<Rightarrow> dedup_select (\<lambda>p. port_pid p = Some i) [] (sort_ports ps)
      | None \<Rightarrow>
          let name = str_lower (removesuffix service_suffix unit);
              well_known = (case NAME_PORTS name of None \<Rightarrow> [] | Some l \<Rightarrow> l)
          in dedup_select
               (\<lambda>p. let comm = comm_lower p;
                        comm_match = comm \<noteq> [] \<and> comm \<noteq> ''systemd'' \<and>
                                     (str_in name comm \<or> str_in comm name)
                    in comm_match \<or> get_port p \<in> set well_known)
               [] (sort_ports ps))"

definition classify :: "string \<Rightarrow> ListenPort list option \<Rightarrow> int option \<Rightarrow> string" where
  "classify unit listen_ports pid =
     (case match_keyword (removesuffix service_suffix (str_lower unit)) of
        Some c \<Rightarrow> c
      | None \<Rightarrow>
          (case listen_ports of
             None \<Rightarrow> ''unknown''
           | Some ps \<Rightarrow>
               if ps = [] then ''unknown''
               else
                 let att = attributed_ports unit ps pid in
                 case first_some (\<lambda>p. match_keyword (comm_lower p)) att of
                   Some c \<Rightarrow> c
                 | None \<Rightarrow>
                     (case first_some (\<lambda>p. PORT_INDEX (get_port p)) att of
                        Some c \<Rightarrow> c
                      | None \<Rightarrow> ''unknown'')))"

definition to_matched :: "ListenPort \<Rightarrow> MatchedPort" where
  "to_matched p = \<lparr>mp_proto = get_proto p, mp_port = get_port p\<rparr>"

definition matched_ports :: "string \<Rightarrow> ListenPort list \<Rightarrow> int option \<Rightarrow> MatchedPort list" where
  "matched_ports unit ps pid =
     (let cat = classify unit (Some ps) None in
      map to_matched
        (dedup_select
           (\<lambda>p. case port_pid p of
                  Some q \<Rightarrow> pid = Some q
                | None \<Rightarrow> cat \<noteq> ''unknown'' \<and> PORT_INDEX (get_port p) = Some cat)
           [] (sort_ports ps)))"

text \<open>Category of one socket: process name first, then port.\<close>

definition socket_category :: "ListenPort \<Rightarrow> string option" where
  "socket_category p =
     (case (if comm_lower p \<noteq> [] then match_keyword (comm_lower p) else None) of
        Some c \<Rightarrow> Some c
      | None \<Rightarrow> PORT_INDEX (get_port p))"

text \<open>\<open>out.setdefault(cat, []).append(v)\<close> on a dictionary in insertion order.\<close>

fun dict_append :: "'k \<Rightarrow> 'v \<Rightarrow> ('k \<times> 'v list) list \<Rightarrow> ('k \<times> 'v list) list" where
  "dict_append k v [] = [(k, [v])]"
| "dict_append k v ((k', vs) # d) =
     (if k' = k then (k', vs @ [v]) # d else (k', vs) # dict_append k v d)"

definition detect_listen_categories :: "ListenPort list \<Rightarrow> (string \<times> MatchedPort list) list" where
  "detect_listen_categories ps =
     fold (\<lambda>p. dict_append (the (socket_category p)) (to_matched p))
       (dedup_select (\<lambda>p. socket_category p \<noteq> None) [] (sort_ports ps)) []"

section \<open>Baseline services and the stored categories\<close>

definition is_baseline_service :: "string option \<Rightarrow> bool" where
  "is_baseline_service name =
     list_ex (\<lambda>kw. str_in kw (str_lower (str_or name []))) BASELINE_KEYWORDS"

definition is_baseline_socket :: "ListenPort \<Rightarrow> bool" where
  "is_baseline_socket p = (is_baseline_service (port_comm p) \<or> get_port p \<in> set BASELINE_PORTS)"

definition service_category ::
  "ListenPort list option \<Rightarrow> ServiceEntry \<Rightarrow> string option" where
  "service_category listen_ports s =
     (case svc_unit s of
        None \<Rightarrow> None
      | Some u \<Rightarrow>
          if u = [] \<or> is_baseline_service (Some u) then None
          else let cat = classify u listen_ports (svc_pid s)
               in if cat \<noteq> ''unknown'' then Some cat else None)"

definition compute_service_categories ::
  "ServiceEntry list option \<Rightarrow> ListenPort list option \<Rightarrow> string list" where
  "compute_service_categories services listen_ports =
     (let ports = (case listen_ports of None \<Rightarrow> [] | Some l \<Rightarrow> l);
          non_baseline_ports = filter (\<lambda>p. \<not> is_baseline_socket p) ports;
          svcs = (case services of None \<Rightarrow> [] | Some l \<Rightarrow> l);
          cats = List.map_filter (service_category listen_ports) svcs @
                 map fst (detect_listen_categories non_baseline_ports)
      in sort (remdups cats))"

section \<open>Facts about the loops\<close>

lemma dedup_select_subset: "p \<in> set (dedup_select ok seen ps) \<Longrightarrow> p \<in> set ps \<and> ok p"
  by (induction ok seen ps rule: dedup_select.induct) (auto split: if_splits)

lemma dedup_select_seen:
  "p \<in> set (dedup_select ok seen ps) \<Longrightarrow> socket_key p \<notin> set seen"
  by (induction ok seen ps rule: dedup_select.induct) (auto split: if_splits)

lemma dedup_select_distinct: "distinct (map socket_key (dedup_select ok seen ps))"
  by (induction ok seen ps rule: dedup_select.induct) (auto dest: dedup_select_seen)

lemma dedup_select_complete:
  "p \<in> set ps \<Longrightarrow> ok p \<Longrightarrow> socket_key p \<notin> set seen \<Longrightarrow>
     \<exists>q \<in> set (dedup_select ok seen ps). socket_key q = socket_key p \<and> ok q"
proof (induction ok seen ps rule: dedup_select.induct)
  case (1 ok seen)
  then show ?case by simp
next
  case (2 ok seen q ps)
  show ?case
  proof (cases "ok q \<and> socket_key q \<notin> set seen")
    case True
    show ?thesis
    proof (cases "socket_key q = socket_key p")
      case False
      with 2 True have "\<exists>r \<in> set (dedup_select ok (socket_key q # seen) ps). socket_key r = socket_key p \<and> ok r"
        by auto
      with True show ?thesis by auto
    qed (use True in auto)
  next
    case False
    with 2 have "p \<in> set ps" by auto
    with 2 False show ?thesis by auto
  qed
qed

lemma dedup_select_Nil: "(\<forall>p \<in> set ps. \<not> ok p) \<Longrightarrow> dedup_select ok seen ps = []"
  by (induction ok seen ps rule: dedup_select.induct) auto

lemma set_sort_ports [simp]: "set (sort_ports ps) = set ps"
  by (simp add: sort_ports_def)

lemma sort_ports_perm:
  assumes "mset ps = mset qs" and "inj_on socket_key (set ps)"
  shows "sort_ports ps = sort_ports qs"
proof -
  have "inj_on (\<lambda>p. (get_port p, get_proto p)) (set ps)"
    using assms(2) by (auto simp: inj_on_def socket_key_def)
  then show ?thesis
    unfolding sort_ports_def using assms(1) by (intro sort_key_inj_key_eq) auto
qed

lemma dict_append_keys: "set (map fst (dict_append k v d)) = insert k (set (map fst d))"
  by (induction k v d rule: dict_append.induct) auto

lemma fold_dict_append_keys:
  "set (map fst (fold (\<lambda>p. dict_append (f p) (g p)) ps d)) = f ` set ps \<union> set (map fst d)"
  by (induction ps arbitrary: d) (auto simp: dict_append_keys simp del: set_map)

lemma match_keyword_category: "match_keyword t = Some c \<Longrightarrow> c \<in> set SERVICE_CATEGORIES"
  using NAME_INDEX_category
  by (auto simp: match_keyword_def dest!: first_some_SomeD split: if_splits prod.splits)
    (metis nth_mem)

lemma match_keyword_None_iff:
  "match_keyword t = None \<longleftrightarrow> t = [] \<or> (\<forall>(kw, c) \<in> set NAME_INDEX. \<not> str_in kw t)"
  by (auto simp: match_keyword_def first_some_None_iff)

lemma socket_category_category: "socket_category p = Some c \<Longrightarrow> c \<in> set SERVICE_CATEGORIES"
  by (auto simp: socket_category_def dest: match_keyword_category PORT_INDEX_category
      split: option.splits if_splits)

lemma detect_keys:
  "set (map fst (detect_listen_categories ps)) = {c. \<exists>p \<in> set ps. socket_category p = Some c \<and>
     p \<in> set (dedup_select (\<lambda>p. socket_category p \<noteq> None) [] (sort_ports ps))}"
  unfolding detect_listen_categories_def fold_dict_append_keys
  by (auto simp del: set_map dest: dedup_select_subset) (force dest: dedup_select_subset)+

lemma classify_range: "classify u ps pid \<in> insert ''unknown'' (set SERVICE_CATEGORIES)"
  by (auto simp: classify_def Let_def split: option.split
      dest: match_keyword_category dest!: first_some_SomeD intro: PORT_INDEX_category)

lemma service_category_category:
  "service_category ps s = Some c \<Longrightarrow> c \<in> set SERVICE_CATEGORIES"
  using classify_range by (auto simp: service_category_def Let_def split: option.splits if_splits)

section \<open>Properties\<close>

text \<open>
  A unit stays unclassified exactly when no keyword of the catalogue
  occurs in its name and no socket attributed to it has a process name with a keyword or a well-known
  port.  Every other unit gets a category of the catalogue.
\<close>

theorem classify_unknown_iff:
  "(classify u (Some ps) pid = ''unknown'') =
     (match_keyword (removesuffix service_suffix (str_lower u)) = None
      \<and> {p \<in> set (attributed_ports u ps pid).
           (match_keyword (comm_lower p), PORT_INDEX (get_port p)) \<noteq> (None, None)} = {})
   \<and> classify u (Some ps) pid \<in> insert ''unknown'' (set SERVICE_CATEGORIES)"
proof -
  have known: "match_keyword t \<noteq> Some ''unknown''" "PORT_INDEX n \<noteq> Some ''unknown''" for t n
    using match_keyword_category PORT_INDEX_category unknown_not_category by blast+
  have first: "first_some f qs \<noteq> Some ''unknown''" if "\<And>q. f q \<noteq> Some ''unknown''"
    for f :: "ListenPort \<Rightarrow> string option" and qs
    using that by (auto dest: first_some_SomeD)
  have comm: "first_some (\<lambda>p. match_keyword (comm_lower p)) qs \<noteq> Some ''unknown''"
    and port: "first_some (\<lambda>p. PORT_INDEX (get_port p)) qs \<noteq> Some ''unknown''" for qs
    by (rule first, rule known)+
  have nil: "attributed_ports u [] pid = []"
    by (simp add: attributed_ports_def sort_ports_def Let_def split: option.split)
  have "(classify u (Some ps) pid = ''unknown'') =
      (match_keyword (removesuffix service_suffix (str_lower u)) = None
       \<and> first_some (\<lambda>p. match_keyword (comm_lower p)) (attributed_ports u ps pid) = None
       \<and> first_some (\<lambda>p. PORT_INDEX (get_port p)) (attributed_ports u ps pid) = None)"
    using known(1) comm port by (auto simp: classify_def Let_def nil split: option.split)
  then show ?thesis using classify_range by (auto simp: first_some_None_iff)
qed

text \<open>
  The identity of the software outranks the protocol.  A unit whose name
  carries a keyword keeps that category whatever ports are attributed to it, so a proxy in front of a
  database is not counted as a database.
\<close>

theorem name_outranks_port:
  assumes "match_keyword (removesuffix service_suffix (str_lower u)) = Some c"
  shows "classify u ps pid = c \<and> c \<in> set SERVICE_CATEGORIES
     \<and> (\<exists>i < length NAME_INDEX. snd (NAME_INDEX ! i) = c
           \<and> str_in (fst (NAME_INDEX ! i)) (removesuffix service_suffix (str_lower u))
           \<and> (\<forall>j < i. \<not> str_in (fst (NAME_INDEX ! j)) (removesuffix service_suffix (str_lower u))))"
proof -
  have "first_some (\<lambda>(kw, c). if str_in kw (removesuffix service_suffix (str_lower u)) then Some c else None)
      NAME_INDEX = Some c"
    using assms by (simp add: match_keyword_def split: if_splits)
  from first_some_SomeD [OF this] have "\<exists>i < length NAME_INDEX. snd (NAME_INDEX ! i) = c
           \<and> str_in (fst (NAME_INDEX ! i)) (removesuffix service_suffix (str_lower u))
           \<and> (\<forall>j < i. \<not> str_in (fst (NAME_INDEX ! j)) (removesuffix service_suffix (str_lower u)))"
    by (auto simp: split_beta split: if_splits)
  then show ?thesis using assms match_keyword_category by (simp add: classify_def)
qed

theorem name_outranks_port_witness:
  "classify ''haproxy.service''
     (Some [\<lparr>port_proto = Some ''tcp'', port_number = Some 5432, port_pid = Some 7,
             port_comm = Some ''haproxy''\<rparr>]) (Some 7) = ''web''
   \<and> PORT_INDEX 5432 = Some ''db''"
proof -
  have "match_keyword (removesuffix service_suffix (str_lower ''haproxy.service'')) = Some ''web''"
    by code_simp
  moreover have "PORT_INDEX 5432 = Some ''db''" by code_simp
  ultimately show ?thesis using name_outranks_port [of "''haproxy.service''" "''web''"] by simp
qed

text \<open>
  The category list stored with a host is strictly ascending, has only
  categories of the catalogue, and is empty for a host whose units and sockets all belong to the
  operating system's baseline.
\<close>

theorem categories_wellformed:
  "sorted (compute_service_categories svcs ps) \<and> distinct (compute_service_categories svcs ps)
   \<and> set (compute_service_categories svcs ps) \<subseteq> set SERVICE_CATEGORIES
   \<and> ((\<forall>s \<in> set (case svcs of None \<Rightarrow> [] | Some l \<Rightarrow> l). is_baseline_service (svc_unit s))
      \<and> (\<forall>p \<in> set (case ps of None \<Rightarrow> [] | Some l \<Rightarrow> l). is_baseline_socket p)
      \<longrightarrow> compute_service_categories svcs ps = [])"
proof -
  let ?P = "case ps of None \<Rightarrow> [] | Some l \<Rightarrow> l" and ?S = "case svcs of None \<Rightarrow> [] | Some l \<Rightarrow> l"
  have mem: "set (compute_service_categories svcs ps) =
      set (List.map_filter (service_category ps) ?S) \<union>
      set (map fst (detect_listen_categories (filter (\<lambda>p. \<not> is_baseline_socket p) ?P)))"
    by (simp add: compute_service_categories_def Let_def)
  have "set (compute_service_categories svcs ps) \<subseteq> set SERVICE_CATEGORIES"
    unfolding mem detect_keys using service_category_category socket_category_category
    by (auto simp: List.map_filter_def)
  moreover have "compute_service_categories svcs ps = []"
    if s: "\<forall>s \<in> set ?S. is_baseline_service (svc_unit s)" and p: "\<forall>p \<in> set ?P. is_baseline_socket p"
  proof -
    have "filter (\<lambda>p. \<not> is_baseline_socket p) ?P = []" using p by (simp add: filter_empty_conv)
    moreover have "detect_listen_categories [] = []"
      by (simp add: detect_listen_categories_def sort_ports_def)
    moreover have "service_category ps x = None" if "x \<in> set ?S" for x
      using s that by (auto simp: service_category_def split: option.split)
    ultimately have "set (compute_service_categories svcs ps) = {}"
      unfolding mem by (auto simp: List.map_filter_def)
    then show ?thesis by simp
  qed
  moreover have "sorted (compute_service_categories svcs ps) \<and> distinct (compute_service_categories svcs ps)"
    by (simp add: compute_service_categories_def Let_def)
  ultimately show ?thesis by blast
qed

theorem categories_wellformed_witness:
  "compute_service_categories (Some [\<lparr>svc_unit = Some ''sshd.service'', svc_pid = Some 1\<rparr>])
     (Some [\<lparr>port_proto = Some ''tcp'', port_number = Some 22, port_pid = Some 1, port_comm = Some ''sshd''\<rparr>])
   = []"
proof -
  have "is_baseline_service (Some ''sshd.service'')" by code_simp
  moreover have "is_baseline_socket \<lparr>port_proto = Some ''tcp'', port_number = Some 22,
      port_pid = Some 1, port_comm = Some ''sshd''\<rparr>" by code_simp
  ultimately show ?thesis
    using categories_wellformed [of "Some [\<lparr>svc_unit = Some ''sshd.service'', svc_pid = Some 1\<rparr>]"
        "Some [\<lparr>port_proto = Some ''tcp'', port_number = Some 22, port_pid = Some 1, port_comm = Some ''sshd''\<rparr>]"]
    by simp
qed

text \<open>
  Port attribution is exact.  Each reported port is a listening socket of
  the host; a socket with an owner process is reported for the unit of that process only, one without
  owner only for a unit of the port's category; no (protocol, port) pair is reported twice; and every
  socket owned by the unit's process is reported.
\<close>

theorem matched_ports_owner:
  "distinct (map (\<lambda>m. (mp_proto m, mp_port m)) (matched_ports u ps pid))
   \<and> set (matched_ports u ps pid) \<subseteq>
       {to_matched p | p. p \<in> set ps \<and>
          (case port_pid p of Some q \<Rightarrow> pid = Some q
           | None \<Rightarrow> PORT_INDEX (get_port p) = Some (classify u (Some ps) None))}
   \<and> {(get_proto p, get_port p) | p. p \<in> set ps \<and> port_pid p \<noteq> None \<and> port_pid p = pid}
       \<subseteq> (\<lambda>m. (mp_proto m, mp_port m)) ` set (matched_ports u ps pid)"
proof -
  let ?cat = "classify u (Some ps) None"
  define ok where "ok = (\<lambda>p. case port_pid p of Some q \<Rightarrow> pid = Some q
                | None \<Rightarrow> ?cat \<noteq> ''unknown'' \<and> PORT_INDEX (get_port p) = Some ?cat)"
  let ?sel = "dedup_select ok [] (sort_ports ps)"
  have mp: "matched_ports u ps pid = map to_matched ?sel"
    by (simp add: matched_ports_def Let_def ok_def)
  have key: "(\<lambda>m. (mp_proto m, mp_port m)) \<circ> to_matched = socket_key"
    by (auto simp: to_matched_def socket_key_def)
  have "distinct (map (\<lambda>m. (mp_proto m, mp_port m)) (matched_ports u ps pid))"
    by (simp only: mp map_map key dedup_select_distinct)
  moreover have "set (matched_ports u ps pid) \<subseteq>
       {to_matched p | p. p \<in> set ps \<and> (case port_pid p of Some q \<Rightarrow> pid = Some q
           | None \<Rightarrow> PORT_INDEX (get_port p) = Some ?cat)}"
  proof
    fix m assume "m \<in> set (matched_ports u ps pid)"
    then obtain p where p: "p \<in> set ?sel" "m = to_matched p" unfolding mp by auto
    from dedup_select_subset [OF p(1)] have "p \<in> set ps" "ok p" by simp_all
    with p(2) show "m \<in> {to_matched p | p. p \<in> set ps \<and> (case port_pid p of Some q \<Rightarrow> pid = Some q
           | None \<Rightarrow> PORT_INDEX (get_port p) = Some ?cat)}"
      by (auto simp: ok_def split: option.splits)
  qed
  moreover have "socket_key p \<in> socket_key ` set ?sel"
    if "p \<in> set ps" "port_pid p \<noteq> None" "port_pid p = pid" for p
  proof -
    have "ok p" using that by (auto simp: ok_def)
    with dedup_select_complete [of p "sort_ports ps" ok "[]"] that(1)
    obtain q where "q \<in> set ?sel" "socket_key q = socket_key p" by auto
    then show ?thesis by (metis imageI)
  qed
  then have "{(get_proto p, get_port p) | p. p \<in> set ps \<and> port_pid p \<noteq> None \<and> port_pid p = pid}
       \<subseteq> (\<lambda>m. (mp_proto m, mp_port m)) ` set (matched_ports u ps pid)"
    by (auto simp: mp image_comp key socket_key_def [symmetric] simp del: comp_apply)
  ultimately show ?thesis by blast
qed

text \<open>
  When no two sockets share a (protocol, port) pair, the categories detected
  from the sockets, with their ports, do not depend on the order in which the agent lists them.
\<close>

theorem detect_order_free:
  assumes "mset ps = mset qs" and "distinct (map socket_key ps)"
  shows "detect_listen_categories ps = detect_listen_categories qs"
  using sort_ports_perm [OF assms(1)] assms(2) by (simp add: detect_listen_categories_def distinct_map)

theorem detect_order_free_witness:
  "let a = \<lparr>port_proto = Some ''tcp'', port_number = Some 5432, port_pid = None, port_comm = None\<rparr>;
       b = \<lparr>port_proto = Some ''tcp'', port_number = Some 80, port_pid = None, port_comm = None\<rparr>
   in detect_listen_categories [a, b] = detect_listen_categories [b, a]"
  unfolding Let_def
  by (rule detect_order_free) (simp_all add: socket_key_def get_proto_def get_port_def)

text \<open>
  The socket scan reports the SSH port as category \<open>remote\<close>.  The comment of
  the function says that SSH is excluded; only the caller's baseline filter removes it.
\<close>

theorem ssh_is_detected:
  "let p = \<lparr>port_proto = Some ''tcp'', port_number = Some 22, port_pid = None, port_comm = None\<rparr>
   in detect_listen_categories [p] = [(''remote'', [\<lparr>mp_proto = ''tcp'', mp_port = 22\<rparr>])]
      \<and> is_baseline_socket p \<and> compute_service_categories None (Some [p]) = []"
  by code_simp

end
