(* ===== verification/WireMappers.thy ===== *)
theory WireMappers
  imports WireTypes ServiceClassifier
begin

text \<open>
  The mappers of \<open>consumer/mappers.py\<close>: from an accepted message to the storage records.  A metric is an
  array of points selected by attributes; a missing point or a null value stays \<open>None\<close>.
\<close>

section \<open>Point queries\<close>

definition points_of :: "Namespace option \<Rightarrow> string \<Rightarrow> Datapoint list" where
  "points_of ns metric =
     (case ns of None \<Rightarrow> [] | Some m \<Rightarrow> (case m metric of None \<Rightarrow> [] | Some x \<Rightarrow> points x))"

fun attr_str :: "attr_val \<Rightarrow> string" where
  "attr_str (AStr s) = s"
| "attr_str (AInt i) = show_int i"

definition attr_key :: "attr_val option \<Rightarrow> string option" where
  "attr_key v = map_option attr_str v"

text \<open>\<open>all(_attr_key(p.attr.get(k)) == v for k, v in want.items())\<close>.\<close>

definition point_matches :: "(string \<times> string option) list \<Rightarrow> Datapoint \<Rightarrow> bool" where
  "point_matches want p = list_all (\<lambda>(k, v). attr_key (attr p k) = v) want"

fun match_point :: "Datapoint list \<Rightarrow> (string \<times> string option) list \<Rightarrow> pyfloat option" where
  "match_point [] want = None"
| "match_point (p # ps) want = (if point_matches want p then point_value p else match_point ps want)"

definition scalar :: "Namespace option \<Rightarrow> string \<Rightarrow> pyfloat option" where
  "scalar ns metric = (case points_of ns metric of [] \<Rightarrow> None | p # ps \<Rightarrow> point_value p)"

definition int_opt :: "pyfloat option \<Rightarrow> int option" where
  "int_opt v = map_option py_int v"

definition state_sum :: "Datapoint list \<Rightarrow> string \<Rightarrow> pyfloat option" where
  "state_sum pts state =
     (let vals = List.map_filter point_value (filter (\<lambda>p. attr_key (attr p ''state'') = Some state) pts)
      in if vals \<noteq> [] then Some (py_sum vals) else None)"

definition attr_of ::
  "Datapoint list list \<Rightarrow> string \<Rightarrow> (string \<times> string option) list \<Rightarrow> string option" where
  "attr_of pts_lists k want =
     first_some (\<lambda>p. if point_matches want p then attr_key (attr p k) else None) (concat pts_lists)"

definition distinct_values :: "Datapoint list list \<Rightarrow> string \<Rightarrow> string list" where
  "distinct_values pts_lists k =
     keys_in_order (List.map_filter (\<lambda>p. attr_key (attr p k)) (concat pts_lists))"

section \<open>Metrics\<close>

definition build_disk_io :: "Namespace option \<Rightarrow> DiskIoEntry list" where
  "build_disk_io disk_ns =
     (let io = points_of disk_ns ''disk.io''; ops = points_of disk_ns ''disk.operations'';
          io_time = points_of disk_ns ''disk.io_time''; op_time = points_of disk_ns ''disk.operation_time'';
          pending = points_of disk_ns ''disk.pending_operations'';
          devs = distinct_values [io, ops, io_time, op_time, pending] ''device''
      in map (\<lambda>dev.
          \<lparr>dio_device_id = dev,
           dio_device_name = None,
           dio_io_read_bytes = int_opt (match_point io [(''device'', Some dev), (''direction'', Some ''read'')]),
           dio_io_write_bytes = int_opt (match_point io [(''device'', Some dev), (''direction'', Some ''write'')]),
           dio_ops_read = int_opt (match_point ops [(''device'', Some dev), (''direction'', Some ''read'')]),
           dio_ops_write = int_opt (match_point ops [(''device'', Some dev), (''direction'', Some ''write'')]),
           dio_io_time_s = match_point io_time [(''device'', Some dev)],
           dio_op_read_time_s = match_point op_time [(''device'', Some dev), (''direction'', Some ''read'')],
           dio_op_write_time_s = match_point op_time [(''device'', Some dev), (''direction'', Some ''write'')],
           dio_pending_ops = match_point pending [(''device'', Some dev)]\<rparr>) devs)"

definition build_disk_errors :: "Namespace option \<Rightarrow> DiskErrorEntry list" where
  "build_disk_errors disk_ns =
     List.map_filter (\<lambda>p.
       map_option (\<lambda>kind.
         \<lparr>de_device_id = str_or (attr_key (attr p ''device'')) [], de_error_kind = kind,
          de_error_class = str_or (attr_key (attr p ''class'')) [],
          de_member = attr_key (attr p ''member''), de_count = int_opt (point_value p)\<rparr>)
         (attr_key (attr p ''kind'')))
       (points_of disk_ns ''disk.errors'')"

definition build_net_io :: "Namespace option \<Rightarrow> NetIoEntry list" where
  "build_net_io net_ns =
     (let io = points_of net_ns ''network.io''; pkts = points_of net_ns ''network.packets'';
          errs = points_of net_ns ''network.errors''; drop_pts = points_of net_ns ''network.dropped'';
          speed = points_of net_ns ''network.link.speed'';
          devs = distinct_values [io, pkts, errs, drop_pts, speed] ''device''
      in map (\<lambda>dev.
          \<lparr>nio_iface_id = dev,
           nio_iface_name = None,
           nio_rx_bytes = int_opt (match_point io [(''device'', Some dev), (''direction'', Some ''receive'')]),
           nio_tx_bytes = int_opt (match_point io [(''device'', Some dev), (''direction'', Some ''transmit'')]),
           nio_rx_packets = int_opt (match_point pkts [(''device'', Some dev), (''direction'', Some ''receive'')]),
           nio_tx_packets = int_opt (match_point pkts [(''device'', Some dev), (''direction'', Some ''transmit'')]),
           nio_rx_errors = int_opt (match_point errs [(''device'', Some dev), (''direction'', Some ''receive'')]),
           nio_tx_errors = int_opt (match_point errs [(''device'', Some dev), (''direction'', Some ''transmit'')]),
           nio_rx_dropped = int_opt (match_point drop_pts [(''device'', Some dev), (''direction'', Some ''receive'')]),
           nio_tx_dropped = int_opt (match_point drop_pts [(''device'', Some dev), (''direction'', Some ''transmit'')]),
           nio_link_speed_bps = int_opt (match_point speed [(''device'', Some dev)])\<rparr>) devs)"

definition build_filesystems :: "Namespace option \<Rightarrow> FilesystemEntry list" where
  "build_filesystems fs_ns =
     (let usage = points_of fs_ns ''filesystem.usage''; inodes = points_of fs_ns ''filesystem.inodes.usage'';
          mounts = distinct_values [usage, inodes] ''mountpoint''
      in map (\<lambda>mp.
          \<lparr>fs_mountpoint = mp,
           fs_device_id = attr_of [usage, inodes] ''device'' [(''mountpoint'', Some mp)],
           fs_fstype = attr_of [usage] ''type'' [(''mountpoint'', Some mp)],
           fs_used_bytes = int_opt (match_point usage [(''mountpoint'', Some mp), (''state'', Some ''used'')]),
           fs_free_bytes = int_opt (match_point usage [(''mountpoint'', Some mp), (''state'', Some ''free'')]),
           fs_inodes_used = int_opt (match_point inodes [(''mountpoint'', Some mp), (''state'', Some ''used'')]),
           fs_inodes_free = int_opt (match_point inodes [(''mountpoint'', Some mp), (''state'', Some ''free'')])\<rparr>) mounts)"

definition build_cpu_cores :: "Datapoint list \<Rightarrow> CpuCoreEntry list" where
  "build_cpu_cores cpu_time =
     map (\<lambda>c.
          \<lparr>cc_core_id = int (nat_of_str c),
           cc_cpu_user_s = match_point cpu_time [(''cpu'', Some c), (''state'', Some ''user'')],
           cc_cpu_nice_s = match_point cpu_time [(''cpu'', Some c), (''state'', Some ''nice'')],
           cc_cpu_system_s = match_point cpu_time [(''cpu'', Some c), (''state'', Some ''system'')],
           cc_cpu_idle_s = match_point cpu_time [(''cpu'', Some c), (''state'', Some ''idle'')],
           cc_cpu_iowait_s = match_point cpu_time [(''cpu'', Some c), (''state'', Some ''iowait'')],
           cc_cpu_irq_s = match_point cpu_time [(''cpu'', Some c), (''state'', Some ''irq'')],
           cc_cpu_softirq_s = match_point cpu_time [(''cpu'', Some c), (''state'', Some ''softirq'')],
           cc_cpu_steal_s = match_point cpu_time [(''cpu'', Some c), (''state'', Some ''steal'')]\<rparr>)
       (filter isdigit (distinct_values [cpu_time] ''cpu''))"

definition build_pressure :: "Namespace option \<Rightarrow> PressureEntry list" where
  "build_pressure pr_ns =
     (let ratio = points_of pr_ns ''pressure.stall.ratio''; time = points_of pr_ns ''pressure.stall.time'';
          keys = keys_in_order
            (List.map_filter
               (\<lambda>p. case (attr_key (attr p ''resource''), attr_key (attr p ''scope'')) of
                       (Some r, Some sc) \<Rightarrow> Some (r, sc)
                     | _ \<Rightarrow> None)
               (concat [ratio, time]))
      in map (\<lambda>(r, s).
          \<lparr>pr_resource = r,
           pr_scope = s,
           pr_stall_time_s = match_point time [(''resource'', Some r), (''scope'', Some s)],
           pr_ratio_avg10 = match_point ratio [(''resource'', Some r), (''scope'', Some s), (''window'', Some ''10'')],
           pr_ratio_avg60 = match_point ratio [(''resource'', Some r), (''scope'', Some s), (''window'', Some ''60'')],
           pr_ratio_avg300 = match_point ratio [(''resource'', Some r), (''scope'', Some s), (''window'', Some ''300'')]\<rparr>) keys)"

definition to_metric_create :: "MetricsInput \<Rightarrow> ServerMetricCreate" where
  "to_metric_create data =
     (let cpu_ns = system_cpu data; mem_ns = system_memory data; disk_ns = system_disk data;
          net_ns = system_network data; pag_ns = system_paging data; fs_ns = system_filesystem data;
          pr_ns = system_pressure data;
          cpu_time = points_of cpu_ns ''cpu.time'';
          mem_usage = points_of mem_ns ''memory.usage'';
          paging = points_of pag_ns ''paging.operations''
      in
        \<lparr>mc_collected_at = msg_collected_at data,
         mc_boot_time = msg_boot_time data,
         mc_agent_started_at = msg_agent_started_at data,
         mc_cpu_user_s = state_sum cpu_time ''user'',
         mc_cpu_nice_s = state_sum cpu_time ''nice'',
         mc_cpu_system_s = state_sum cpu_time ''system'',
         mc_cpu_idle_s = state_sum cpu_time ''idle'',
         mc_cpu_iowait_s = state_sum cpu_time ''iowait'',
         mc_cpu_irq_s = state_sum cpu_time ''irq'',
         mc_cpu_softirq_s = state_sum cpu_time ''softirq'',
         mc_cpu_steal_s = state_sum cpu_time ''steal'',
         mc_cpu_logical_count = int_opt (scalar cpu_ns ''cpu.logical.count''),
         mc_cpu_run_queue = scalar cpu_ns ''cpu.run_queue'',
         mc_cpu_blocked = scalar cpu_ns ''cpu.blocked'',
         mc_cpu_mce = int_opt (scalar cpu_ns ''cpu.mce''),
         mc_mem_free_bytes = int_opt (match_point mem_usage [(''state'', Some ''free'')]),
         mc_mem_cached_bytes = int_opt (match_point mem_usage [(''state'', Some ''cached'')]),
         mc_mem_buffered_bytes = int_opt (match_point mem_usage [(''state'', Some ''buffered'')]),
         mc_mem_available_bytes = int_opt (match_point mem_usage [(''state'', Some ''available'')]),
         mc_mem_used_bytes = int_opt (match_point mem_usage [(''state'', Some ''used'')]),
         mc_mem_limit_bytes = int_opt (scalar mem_ns ''memory.limit''),
         mc_mem_commit_usage_bytes = int_opt (scalar mem_ns ''memory.commit.usage''),
         mc_mem_commit_limit_bytes = int_opt (scalar mem_ns ''memory.commit.limit''),
         mc_mem_hardware_corrupted_bytes = int_opt (scalar mem_ns ''memory.hardware_corrupted''),
         mc_mem_oom_kill = int_opt (scalar mem_ns ''memory.oom_kill''),
         mc_paging_in = int_opt (match_point paging [(''direction'', Some ''in''), (''type'', None)]),
         mc_paging_out = int_opt (match_point paging [(''direction'', Some ''out''), (''type'', None)]),
         mc_paging_major = int_opt (match_point paging [(''direction'', Some ''in''), (''type'', Some ''major'')]),
         mc_net_tcp_retransmits = int_opt (scalar net_ns ''network.tcp.retransmits''),
         mc_net_conntrack_usage = int_opt (scalar net_ns ''network.conntrack.usage''),
         mc_net_conntrack_limit = int_opt (scalar net_ns ''network.conntrack.limit''),
         mc_disk_io = build_disk_io disk_ns,
         mc_net_io = build_net_io net_ns,
         mc_filesystems = build_filesystems fs_ns,
         mc_cpu_per_core = build_cpu_cores cpu_time,
         mc_pressure = build_pressure pr_ns,
         mc_disk_errors = build_disk_errors disk_ns\<rparr>)"

section \<open>Inventory\<close>

text \<open>JSON values of optional attributes; \<open>None\<close> is \<open>JNull\<close>.\<close>

definition jopt :: "('a \<Rightarrow> json) \<Rightarrow> 'a option \<Rightarrow> json" where
  "jopt f v = (case v of None \<Rightarrow> JNull | Some x \<Rightarrow> f x)"

abbreviation jstr :: "string option \<Rightarrow> json" where "jstr \<equiv> jopt JStr"
abbreviation jint :: "int option \<Rightarrow> json" where "jint \<equiv> jopt JInt"
abbreviation jfloat :: "pyfloat option \<Rightarrow> json" where "jfloat \<equiv> jopt JFloat"
abbreviation jbool :: "bool option \<Rightarrow> json" where "jbool \<equiv> jopt JBool"
abbreviation jstrs :: "string list option \<Rightarrow> json" where
  "jstrs \<equiv> jopt (\<lambda>l. JList (map JStr l))"

definition jraid :: "raid_level option \<Rightarrow> json" where
  "jraid v = jopt (\<lambda>r. case r of Raid_int i \<Rightarrow> JInt i | Raid_str s \<Rightarrow> JStr s) v"

definition svc_dicts :: "InventoryInput \<Rightarrow> json list option" where
  "svc_dicts data =
     map_option (map (\<lambda>s. JObj
       [(''unit'', jstr (Some (sv_unit s))),
        (''sub'', jstr (Some (sv_sub s))),
        (''pid'', jint (sv_pid s)),
        (''exe'', jstr (sv_exe s))])) (inv_services data)"

definition lp_dicts :: "InventoryInput \<Rightarrow> json list" where
  "lp_dicts data =
     map (\<lambda>p. JObj
       [(''proto'', jstr (Some (lp_proto p))),
        (''addr'', jstr (Some (lp_addr p))),
        (''port'', jint (Some (lp_port p))),
        (''uid'', jint (lp_uid p)),
        (''pid'', jint (lp_pid p)),
        (''comm'', jstr (lp_comm p))]) (inv_listen_ports data)"

definition sparse :: "(string \<times> json) list \<Rightarrow> (string \<times> json) list" where
  "sparse d = filter (\<lambda>(k, v). v \<noteq> JNull) d"

definition bd_layout :: "BlockDeviceInfo \<Rightarrow> (string \<times> json) list" where
  "bd_layout b = sparse
     [(''partition_table'', jstr (bd_partition_table b)),
      (''sector_size'', jint (bd_sector_size b)),
      (''serial'', jstr (bd_serial b)),
      (''wwn'', jstr (bd_wwn b)),
      (''rotational'', jbool (bd_rotational b)),
      (''part_number'', jint (bd_part_number b)),
      (''part_start_bytes'', jint (bd_part_start_bytes b)),
      (''part_type'', jstr (bd_part_type b)),
      (''part_name'', jstr (bd_part_name b)),
      (''part_flags'', jstrs (bd_part_flags b)),
      (''fs_uuid'', jstr (bd_fs_uuid b)),
      (''fs_label'', jstr (bd_fs_label b)),
      (''block_size'', jint (bd_block_size b)),
      (''mount_options'', jstrs (bd_mount_options b)),
      (''fs_freq'', jint (bd_fs_freq b)),
      (''fs_passno'', jint (bd_fs_passno b)),
      (''lvm_vg'', jstr (bd_lvm_vg b)),
      (''lvm_lv'', jstr (bd_lvm_lv b)),
      (''lvm_segtype'', jstr (bd_lvm_segtype b)),
      (''lvm_stripes'', jint (bd_lvm_stripes b)),
      (''lvm_stripe_size_kib'', jint (bd_lvm_stripe_size_kib b)),
      (''raid_level'', jraid (bd_raid_level b)),
      (''raid_chunk_kib'', jint (bd_raid_chunk_kib b)),
      (''raid_metadata'', jstr (bd_raid_metadata b)),
      (''raid_uuid'', jstr (bd_raid_uuid b)),
      (''crypt_type'', jstr (bd_crypt_type b))]"

definition route_json :: "RouteInfo \<Rightarrow> json" where
  "route_json r = JObj [(''dest'', JStr (rt_dest r)), (''via'', jstr (rt_via r))]"

definition ni_layout :: "NetInterfaceInfo \<Rightarrow> (string \<times> json) list" where
  "ni_layout n = sparse
     [(''mtu'', jint (ni_mtu n)),
      (''dns'', jstrs (ni_dns n)),
      (''routes'',
        (case ni_routes n of
           None \<Rightarrow> JNull
         | Some rs \<Rightarrow> if rs = [] then JNull else JList (map route_json rs))),
      (''bond_mode'', jstr (ni_bond_mode n)),
      (''vlan_id'', jint (ni_vlan_id n))]"

definition vg_layout :: "LvmVgInfo \<Rightarrow> (string \<times> json) list" where
  "vg_layout v = sparse
     [(''vg_uuid'', jstr (vg_vg_uuid v)), (''extent_size_bytes'', jint (vg_extent_size_bytes v)),
      (''pv_ids'', jstrs (vg_pv_ids v))]"

text \<open>The object literals of \<open>to_inventory_create\<close>.\<close>

definition block_device_json :: "BlockDeviceInfo \<Rightarrow> json" where
  "block_device_json b = JObj
     ([(''name'', jstr (Some (bd_name b))),
       (''type'', jstr (Some (bd_type b))),
       (''size_bytes'', jint (bd_size_bytes b)),
       (''fstype'', jstr (bd_fstype b)),
       (''mountpoint'', jstr (bd_mountpoint b)),
       (''parent'', jstr (bd_parent b)),
       (''id'', jstr (bd_id b)),
       (''id_type'', jstr (bd_id_type b))]
      @ bd_layout b)"

definition address_json :: "NetAddressInfo \<Rightarrow> json" where
  "address_json a = JObj
     ([(''address'', JStr (na_address a)), (''prefix'', jint (na_prefix a)), (''family'', JStr (na_family a))]
      @ (case na_origin a of None \<Rightarrow> [] | Some s \<Rightarrow> [(''origin'', JStr s)]))"

definition net_interface_json :: "NetInterfaceInfo \<Rightarrow> json" where
  "net_interface_json n = JObj
     ([(''name'', JStr (ni_name n)), (''id'', jstr (ni_id n)), (''id_type'', jstr (ni_id_type n)),
       (''kind'', jstr (ni_kind n)), (''speed_mbps'', jint (ni_speed_mbps n)),
       (''addresses'', JList (map address_json (ni_addresses n))), (''gateway'', jstr (ni_gateway n))]
      @ ni_layout n)"

definition lvm_vg_json :: "LvmVgInfo \<Rightarrow> json" where
  "lvm_vg_json v = JObj
     ([(''name'', jstr (Some (vg_name v))),
       (''size_bytes'', jint (vg_size_bytes v)),
       (''free_bytes'', jint (vg_free_bytes v)),
       (''data_percent'', jfloat (vg_data_percent v)),
       (''metadata_percent'', jfloat (vg_metadata_percent v))]
      @ vg_layout v)"

definition boot_json :: "BootInfo \<Rightarrow> json" where
  "boot_json b = JObj
     [(''kernel_cmdline'', jstr (bi_kernel_cmdline b)),
      (''root_ref_type'', jstr (bi_root_ref_type b)),
      (''grub_install_target'', jstr (bi_grub_install_target b))]"

definition nonblock_mount_json :: "NonblockMountInfo \<Rightarrow> json" where
  "nonblock_mount_json m = JObj
     [(''source'', jstr (Some (nm_source m))),
      (''target'', jstr (Some (nm_target m))),
      (''fstype'', jstr (nm_fstype m)),
      (''options'', jstrs (nm_options m)),
      (''fs_freq'', jint (nm_fs_freq m)),
      (''fs_passno'', jint (nm_fs_passno m))]"

text \<open>How the classifier reads the stored objects: \<open>p.get(k)\<close>.\<close>

definition json_get :: "string \<Rightarrow> json \<Rightarrow> json option" where
  "json_get k j = (case j of JObj kvs \<Rightarrow> map_of kvs k | _ \<Rightarrow> None)"

definition get_str :: "string \<Rightarrow> json \<Rightarrow> string option" where
  "get_str k j = (case json_get k j of Some (JStr s) \<Rightarrow> Some s | _ \<Rightarrow> None)"

definition get_int :: "string \<Rightarrow> json \<Rightarrow> int option" where
  "get_int k j = (case json_get k j of Some (JInt i) \<Rightarrow> Some i | _ \<Rightarrow> None)"

definition listen_port_of_json :: "json \<Rightarrow> ListenPort" where
  "listen_port_of_json j =
     \<lparr>port_proto = get_str ''proto'' j, port_number = get_int ''port'' j, port_pid = get_int ''pid'' j,
      port_comm = get_str ''comm'' j\<rparr>"

definition service_of_json :: "json \<Rightarrow> ServiceEntry" where
  "service_of_json j = \<lparr>svc_unit = get_str ''unit'' j, svc_pid = get_int ''pid'' j\<rparr>"

definition stored_categories :: "json list option \<Rightarrow> json list \<Rightarrow> string list" where
  "stored_categories services listen_ports =
     compute_service_categories (map_option (map service_of_json) services)
       (Some (map listen_port_of_json listen_ports))"

definition to_inventory_create :: "InventoryInput \<Rightarrow> ServerInventoryCreate" where
  "to_inventory_create data =
     (let services = svc_dicts data; listen_ports = lp_dicts data in
        \<lparr>ic_agent_id = msg_agent_id data,
         ic_composite_id = msg_composite_id data,
         ic_machine_id = msg_machine_id data,
         ic_hostname = inv_hostname data,
         ic_agent_version = msg_agent_version data,
         ic_collected_at = msg_collected_at data,
         ic_boot_time = msg_boot_time data,
         ic_agent_started_at = msg_agent_started_at data,
         ic_os_family = Some (msg_os_family data),
         ic_os_id = inv_os_id data,
         ic_os_version = inv_os_version data,
         ic_os_codename = inv_os_codename data,
         ic_kernel_version = inv_kernel_version data,
         ic_cpu_cores = inv_cpu_cores data,
         ic_cpu_model = inv_cpu_model data,
         ic_mem_total_bytes = inv_mem_total_bytes data,
         ic_block_devices = map block_device_json (inv_block_devices data),
         ic_net_interfaces = map net_interface_json (inv_net_interfaces data),
         ic_lvm_vgs = map lvm_vg_json (inv_lvm_vgs data),
         ic_ip_external = inv_ip_external data,
         ic_services = services,
         ic_listen_ports = listen_ports,
         ic_service_categories = stored_categories services listen_ports,
         ic_arch = inv_arch data,
         ic_bits = inv_bits data,
         ic_boot_firmware = inv_boot_firmware data,
         ic_secure_boot = inv_secure_boot data,
         ic_edition = inv_edition data,
         ic_product_name = inv_product_name data,
         ic_timezone = inv_timezone data,
         ic_rtc_utc = inv_rtc_utc data,
         ic_boot = map_option boot_json (inv_boot data),
         ic_nonblock_mounts = map_option (map nonblock_mount_json) (inv_nonblock_mounts data)\<rparr>)"

definition build_placeholder_inventory :: "MetricsInput \<Rightarrow> ServerInventoryCreate" where
  "build_placeholder_inventory data =
        \<lparr>ic_agent_id = msg_agent_id data,
         ic_composite_id = msg_composite_id data,
         ic_machine_id = msg_machine_id data,
         ic_hostname = msg_agent_id data,
         ic_agent_version = msg_agent_version data,
         ic_collected_at = msg_collected_at data,
         ic_boot_time = msg_boot_time data,
         ic_agent_started_at = msg_agent_started_at data,
         ic_os_family = Some (msg_os_family data),
         ic_os_id = None,
         ic_os_version = None,
         ic_os_codename = None,
         ic_kernel_version = None,
         ic_cpu_cores = None,
         ic_cpu_model = None,
         ic_mem_total_bytes = None,
         ic_block_devices = [],
         ic_net_interfaces = [],
         ic_lvm_vgs = [],
         ic_ip_external = None,
         ic_services = None,
         ic_listen_ports = [],
         ic_service_categories = [],
         ic_arch = None,
         ic_bits = None,
         ic_boot_firmware = None,
         ic_secure_boot = None,
         ic_edition = None,
         ic_product_name = None,
         ic_timezone = None,
         ic_rtc_utc = None,
         ic_boot = None,
         ic_nonblock_mounts = None\<rparr>"

section \<open>Facts about point queries\<close>

lemma match_point_first:
  "match_point ps want = (case filter (point_matches want) ps of [] \<Rightarrow> None | p # _ \<Rightarrow> point_value p)"
  by (induction ps want rule: match_point.induct) auto

lemma set_distinct_values:
  "set (distinct_values pss k) = {v. \<exists>ps \<in> set pss. \<exists>p \<in> set ps. attr_key (attr p k) = Some v}"
  by (auto simp: distinct_values_def set_map_filter_iff)

lemma distinct_distinct_values [simp]: "distinct (distinct_values pss k)"
  by (simp add: distinct_values_def)

lemma map_of_sparse:
  assumes "distinct (map fst d)"
  shows "map_of (sparse d) k = (case map_of d k of Some v \<Rightarrow> if v = JNull then None else Some v | None \<Rightarrow> None)"
  using assms
proof (induction d)
  case Nil
  then show ?case by (simp add: sparse_def)
next
  case (Cons kv d)
  obtain k' v where kv: "kv = (k', v)" by (cases kv)
  have notin: "map_of d k' = None" using Cons.prems kv by (simp add: map_of_eq_None_iff)
  show ?case using Cons kv notin by (auto simp: sparse_def)
qed

lemma jopt_simps [simp]: "jopt f None = JNull" "jopt f (Some x) = f x"
  by (simp_all add: jopt_def)

lemma get_JObj:
  "get_str k (JObj kvs) = (case map_of kvs k of Some (JStr s) \<Rightarrow> Some s | _ \<Rightarrow> None)"
  "get_int k (JObj kvs) = (case map_of kvs k of Some (JInt i) \<Rightarrow> Some i | _ \<Rightarrow> None)"
  by (simp_all add: get_str_def get_int_def json_get_def)

lemma read_jopt:
  "(case jstr a of JStr s \<Rightarrow> Some s | _ \<Rightarrow> None) = a"
  "(case jint b of JInt i \<Rightarrow> Some i | _ \<Rightarrow> None) = b"
  by (cases a; cases b; simp)+

lemma sparse_jopt:
  "(if jstr a = JNull then None else Some (jstr a)) = map_option JStr a"
  "(if jint b = JNull then None else Some (jint b)) = map_option JInt b"
  by (cases a; cases b; simp)+

section \<open>Properties\<close>

text \<open>
  The child rows of one metrics message carry distinct natural keys.  No
  device, interface or mount point occurs twice and no pressure resource and scope, so the conflict
  rule of the tables never drops a row of a first delivery.  Every device that some disk metric
  mentions gets a row.
\<close>

theorem metric_rows_distinct:
  "distinct (map dio_device_id (mc_disk_io (to_metric_create d)))
   \<and> distinct (map nio_iface_id (mc_net_io (to_metric_create d)))
   \<and> distinct (map fs_mountpoint (mc_filesystems (to_metric_create d)))
   \<and> distinct (map (\<lambda>e. (pr_resource e, pr_scope e)) (mc_pressure (to_metric_create d)))
   \<and> set (map dio_device_id (mc_disk_io (to_metric_create d))) =
       {v. \<exists>m \<in> {''disk.io'', ''disk.operations'', ''disk.io_time'', ''disk.operation_time'',
                  ''disk.pending_operations''}.
             \<exists>p \<in> set (points_of (system_disk d) m). attr_key (attr p ''device'') = Some v}"
proof -
  have disk: "map dio_device_id (build_disk_io ns) =
      distinct_values [points_of ns ''disk.io'', points_of ns ''disk.operations'', points_of ns ''disk.io_time'',
        points_of ns ''disk.operation_time'', points_of ns ''disk.pending_operations''] ''device''" for ns
    by (simp add: build_disk_io_def Let_def comp_def)
  have net: "distinct (map nio_iface_id (build_net_io ns))" for ns
    by (simp add: build_net_io_def Let_def comp_def)
  have fs: "distinct (map fs_mountpoint (build_filesystems ns))" for ns
    by (simp add: build_filesystems_def Let_def comp_def)
  have pr: "distinct (map (\<lambda>e. (pr_resource e, pr_scope e)) (build_pressure ns))" for ns
    by (simp add: build_pressure_def Let_def comp_def split_beta)
  have sel: "mc_disk_io (to_metric_create d) = build_disk_io (system_disk d)"
    "mc_net_io (to_metric_create d) = build_net_io (system_network d)"
    "mc_filesystems (to_metric_create d) = build_filesystems (system_filesystem d)"
    "mc_pressure (to_metric_create d) = build_pressure (system_pressure d)"
    by (simp_all add: to_metric_create_def Let_def)
  show ?thesis
    unfolding sel using net fs pr by (auto simp: disk set_distinct_values simp del: set_map)
qed

text \<open>
  A missing measurement is never turned into a number.  The host total of a CPU
  state is absent exactly when no core reported a value for the state, and a single-valued metric is
  absent exactly when it has no point or its first point is null.
\<close>

theorem null_preserved:
  "(state_sum pts st = None) =
     (\<not> (\<exists>p \<in> set pts. attr_key (attr p ''state'') = Some st \<and> point_value p \<noteq> None))
   \<and> (int_opt (scalar ns m) = None) =
     (points_of ns m = [] \<or> point_value (hd (points_of ns m)) = None)"
  by (auto simp: state_sum_def Let_def List.map_filter_def filter_empty_conv scalar_def int_opt_def
      split: list.splits)

text \<open>
  The JSON objects stored for sockets, services and block devices are read
  back as what the agent sent.  The classifier therefore sees the same sockets and units whether it
  runs on the message at ingest or on the stored row, and the stored categories are those of the
  message.
\<close>

theorem inventory_roundtrip:
  "map listen_port_of_json (ic_listen_ports (to_inventory_create d)) =
     map (\<lambda>p. \<lparr>port_proto = Some (lp_proto p), port_number = Some (lp_port p), port_pid = lp_pid p,
               port_comm = lp_comm p\<rparr>) (inv_listen_ports d)
   \<and> map_option (map service_of_json) (ic_services (to_inventory_create d)) =
     map_option (map (\<lambda>s. \<lparr>svc_unit = Some (sv_unit s), svc_pid = sv_pid s\<rparr>)) (inv_services d)
   \<and> map (\<lambda>j. (get_str ''name'' j, get_int ''size_bytes'' j, get_str ''mountpoint'' j, get_str ''parent'' j,
               get_str ''serial'' j, get_str ''lvm_vg'' j, get_int ''raid_chunk_kib'' j))
       (ic_block_devices (to_inventory_create d)) =
     map (\<lambda>b. (Some (bd_name b), bd_size_bytes b, bd_mountpoint b, bd_parent b, bd_serial b, bd_lvm_vg b,
               bd_raid_chunk_kib b)) (inv_block_devices d)
   \<and> ic_service_categories (to_inventory_create d) =
       stored_categories (ic_services (to_inventory_create d)) (ic_listen_ports (to_inventory_create d))"
proof -
  have sel: "ic_listen_ports (to_inventory_create d) = lp_dicts d"
    "ic_services (to_inventory_create d) = svc_dicts d"
    "ic_block_devices (to_inventory_create d) = map block_device_json (inv_block_devices d)"
    "ic_service_categories (to_inventory_create d) = stored_categories (svc_dicts d) (lp_dicts d)"
    by (simp_all add: to_inventory_create_def Let_def)
  have ports: "map listen_port_of_json (lp_dicts d) =
     map (\<lambda>p. \<lparr>port_proto = Some (lp_proto p), port_number = Some (lp_port p), port_pid = lp_pid p,
               port_comm = lp_comm p\<rparr>) (inv_listen_ports d)"
    by (simp add: lp_dicts_def listen_port_of_json_def get_JObj read_jopt)
  have svcs: "map_option (map service_of_json) (svc_dicts d) =
     map_option (map (\<lambda>s. \<lparr>svc_unit = Some (sv_unit s), svc_pid = sv_pid s\<rparr>)) (inv_services d)"
    by (simp add: svc_dicts_def service_of_json_def get_JObj read_jopt option.map_comp comp_def)
  have layout: "map_of (bd_layout b) ''serial'' = map_option JStr (bd_serial b)"
    "map_of (bd_layout b) ''lvm_vg'' = map_option JStr (bd_lvm_vg b)"
    "map_of (bd_layout b) ''raid_chunk_kib'' = map_option JInt (bd_raid_chunk_kib b)" for b
    unfolding bd_layout_def by (simp_all add: map_of_sparse sparse_jopt)
  have bds: "map (\<lambda>j. (get_str ''name'' j, get_int ''size_bytes'' j, get_str ''mountpoint'' j,
               get_str ''parent'' j, get_str ''serial'' j, get_str ''lvm_vg'' j, get_int ''raid_chunk_kib'' j))
       (map block_device_json (inv_block_devices d)) =
     map (\<lambda>b. (Some (bd_name b), bd_size_bytes b, bd_mountpoint b, bd_parent b, bd_serial b, bd_lvm_vg b,
               bd_raid_chunk_kib b)) (inv_block_devices d)"
    by (simp add: block_device_json_def get_JObj read_jopt layout map_add_def split: option.split)
  show ?thesis unfolding sel using ports svcs bds by blast
qed

end
