(* ===== verification/TaskPolicy.thy ===== *)
theory TaskPolicy
  imports Prelude
begin

text \<open>
  The verdict on a reported task result, \<open>consumer/task_policy.py\<close>: the installation signal of the
  agent decides first; without it a failed script is forgiven when its exit code is on the allow list
  of the operating system.
\<close>

section \<open>The policy\<close>

definition SCRIPT_FAILED_REASON :: string where
  "SCRIPT_FAILED_REASON = ''script_failed''"

definition UNVERIFIED_REASON :: string where
  "UNVERIFIED_REASON = ''install_unverified''"

type_synonym exit_codes = "string \<rightharpoonup> int list"

text \<open>\<open>if s:\<close> on an optional string.\<close>

definition nonempty :: "string option \<Rightarrow> bool" where
  "nonempty s = is_some_and s (\<lambda>v. v \<noteq> [])"

text \<open>The local list \<open>keys\<close>, most specific key first; \<open>v.split('.')[0]\<close> is the prefix before the first dot.\<close>

definition policy_keys :: "string option \<Rightarrow> string option \<Rightarrow> string option \<Rightarrow> string list" where
  "policy_keys os_family os_version os_id =
     (if os_family = Some ''windows''
      then (if nonempty os_version then [the os_version] else []) @ [''windows'']
      else if os_family = Some ''linux'' \<and> nonempty os_id \<and> nonempty os_version
      then [the os_id @ '':'' @ takeWhile (\<lambda>c. c \<noteq> CHR ''.'') (the os_version)]
      else [])"

definition effective_task_result ::
  "string \<Rightarrow> string option \<Rightarrow> int option \<Rightarrow> string option \<Rightarrow> string option \<Rightarrow> string option
     \<Rightarrow> exit_codes \<Rightarrow> bool option \<Rightarrow> string \<times> string option" where
  "effective_task_result status failure_reason exit_code os_family os_version os_id
       success_exit_codes task_policy =
     (case task_policy of
        Some True \<Rightarrow> (''success'', None)
      | Some False \<Rightarrow> (''failure'', Some (str_or failure_reason UNVERIFIED_REASON))
      | None \<Rightarrow>
          if status \<noteq> ''failure'' \<or> failure_reason \<noteq> Some SCRIPT_FAILED_REASON \<or> exit_code = None
          then (status, failure_reason)
          else if list_ex (\<lambda>key. is_some_and (success_exit_codes key)
                             (\<lambda>allowed. the exit_code \<in> set allowed))
                    (policy_keys os_family os_version os_id)
          then (''success'', None)
          else (status, failure_reason))"

section \<open>Properties\<close>

text \<open>
  A task ends as a success exactly when the agent confirmed the
  installation, or, with no such signal, when it was reported as a success or its script failed with an
  exit code that one of the keys of the host's system allows.  An explicit negative signal always makes
  it a failure, and that failure carries a non-empty reason, the reported one when there was one.
\<close>

theorem effective_success_iff:
  "(fst (effective_task_result st fr ec osf osv osi codes pol) = ''success'') =
     (pol = Some True
      \<or> pol = None \<and> (st = ''success''
           \<or> st = ''failure'' \<and> fr = Some ''script_failed''
             \<and> (\<exists>c k allowed. ec = Some c \<and> k \<in> set (policy_keys osf osv osi)
                   \<and> codes k = Some allowed \<and> c \<in> set allowed)))
   \<and> (pol = Some False \<longrightarrow>
       (\<exists>r. effective_task_result st fr ec osf osv osi codes pol = (''failure'', Some r) \<and> r \<noteq> []
             \<and> (nonempty fr \<longrightarrow> fr = Some r)))"
proof (cases pol)
  case None
  show ?thesis
    unfolding None effective_task_result_def
    by (cases ec) (auto simp: SCRIPT_FAILED_REASON_def list_ex_iff is_some_and_iff)
next
  case (Some b)
  show ?thesis
    unfolding Some effective_task_result_def
    by (cases b; cases fr) (auto simp: str_or_def nonempty_def UNVERIFIED_REASON_def)
qed

theorem effective_success_iff_witness:
  "\<exists>r. effective_task_result ''success'' None (Some 0) (Some ''linux'') None None Map.empty (Some False)
      = (''failure'', Some r) \<and> r \<noteq> []"
  using effective_success_iff [of "''success''" None "Some 0" "Some ''linux''" None None Map.empty "Some False"]
  by auto

text \<open>
  The policy is stable.  Judging a result that was already judged, with
  the same evidence, changes nothing, so a message that is processed twice stores the same verdict.
\<close>

theorem effective_idempotent:
  "(let r = effective_task_result st fr ec osf osv osi codes pol
    in effective_task_result (fst r) (snd r) ec osf osv osi codes pol) =
   effective_task_result st fr ec osf osv osi codes pol"
proof (cases pol)
  case None
  then show ?thesis by (simp add: effective_task_result_def Let_def)
next
  case (Some b)
  then show ?thesis
    by (cases b; cases fr) (auto simp: effective_task_result_def str_or_def UNVERIFIED_REASON_def)
qed

text \<open>
  Without an installation signal the policy never turns a success into a
  failure, and it changes only a failed script on a Windows or Linux host.
\<close>

theorem fallback_only_forgives:
  assumes "effective_task_result st fr ec osf osv osi codes None \<noteq> (st, fr)"
  shows "effective_task_result st fr ec osf osv osi codes None = (''success'', None)
     \<and> st = ''failure'' \<and> fr = Some ''script_failed'' \<and> ec \<noteq> None
     \<and> osf \<in> {Some ''windows'', Some ''linux''}"
  using assms
  by (auto simp: effective_task_result_def SCRIPT_FAILED_REASON_def policy_keys_def
      split: if_splits)

theorem fallback_only_forgives_witness:
  "effective_task_result ''failure'' (Some ''script_failed'') (Some 3) (Some ''linux'') (Some ''9.4'')
     (Some ''rocky'') [''rocky:9'' \<mapsto> [3]] None = (''success'', None)"
proof -
  have "effective_task_result ''failure'' (Some ''script_failed'') (Some 3) (Some ''linux'') (Some ''9.4'')
     (Some ''rocky'') [''rocky:9'' \<mapsto> [3]] None \<noteq> (''failure'', Some ''script_failed'')"
    by (simp add: effective_task_result_def policy_keys_def nonempty_def SCRIPT_FAILED_REASON_def)
  from fallback_only_forgives [OF this] show ?thesis by simp
qed

end
