(* ===== verification/PyDateTime.thy ===== *)
theory PyDateTime
  imports WireTypes "HOL-Library.Monad_Syntax"
begin

text \<open>
  The part of Python's \<open>datetime\<close> the program uses on aware UTC instants: the calendar of
  \<open>date.fromordinal\<close> and \<open>date.toordinal\<close>, \<open>isoformat\<close>, and \<open>fromisoformat\<close> on the texts
  \<open>isoformat\<close> prints.  An instant is an integer of microseconds since 1970-01-01.  The theory shows that
  text and instant determine each other for the years 1 to 9999, which the stored report windows need.
\<close>

section \<open>Calendar\<close>

definition is_leap :: "int \<Rightarrow> bool" where
  "is_leap y = (y mod 4 = 0 \<and> (y mod 100 \<noteq> 0 \<or> y mod 400 = 0))"

definition days_before_year :: "int \<Rightarrow> int" where
  "days_before_year y = (y - 1) * 365 + (y - 1) div 4 - (y - 1) div 100 + (y - 1) div 400"

definition month_lengths :: "int list" where
  "month_lengths = [31, 28, 31, 30, 31, 30, 31, 31, 30, 31, 30, 31]"

definition days_before_month :: "bool \<Rightarrow> nat \<Rightarrow> int" where
  "days_before_month leap m = sum_list (take (m - 1) month_lengths) + (if 2 < m \<and> leap then 1 else 0)"

definition ymd2ord :: "int \<Rightarrow> nat \<Rightarrow> int \<Rightarrow> int" where
  "ymd2ord y m d = days_before_year y + days_before_month (is_leap y) m + d"

text \<open>Month and day of the \<open>n\<close>-th day of a year; the guess \<open>(n + 50) >> 5\<close> is at most one too large.\<close>

definition month_day :: "bool \<Rightarrow> int \<Rightarrow> nat \<times> int" where
  "month_day leap n =
     (let m = nat ((n + 50) div 32) in
      if days_before_month leap m > n then (m - 1, n - days_before_month leap (m - 1) + 1)
      else (m, n - days_before_month leap m + 1))"

definition ord2ymd :: "int \<Rightarrow> int \<times> nat \<times> int" where
  "ord2ymd ord =
     (let n = ord - 1;
          n400 = n div 146097; n = n mod 146097;
          n100 = n div 36524; n = n mod 36524;
          n4 = n div 1461; n = n mod 1461;
          n1 = n div 365; n = n mod 365;
          year = n400 * 400 + 1 + n100 * 100 + n4 * 4 + n1
      in if n1 = 4 \<or> n100 = 4 then (year - 1, 12, 31)
         else let leap = (n1 = 3 \<and> (n4 \<noteq> 24 \<or> n100 = 3)) in (year, month_day leap n))"

lemma month_day_table:
  "list_all (\<lambda>leap. list_all (\<lambda>n.
     let (m, d) = month_day leap n in
     days_before_month leap m + d = n + 1 \<and> 1 \<le> m \<and> m \<le> 12 \<and> 1 \<le> d \<and> d \<le> 31)
     (map int [0..<365])) [False, True]"
  by code_simp

lemma month_day_ok:
  assumes "0 \<le> n" "n < 365" "month_day leap n = (m, d)"
  shows "days_before_month leap m + d = n + 1" "1 \<le> m" "m \<le> 12" "1 \<le> d" "d \<le> 31"
proof -
  have "leap \<in> set [False, True]" by (cases leap) auto
  moreover have "n \<in> set (map int [0..<365])"
    using assms(1,2) by (auto intro!: image_eqI [of _ _ "nat n"])
  ultimately have "let (m, d) = month_day leap n in
     days_before_month leap m + d = n + 1 \<and> 1 \<le> m \<and> m \<le> 12 \<and> 1 \<le> d \<and> d \<le> 31"
    using month_day_table unfolding list_all_iff by blast
  then show "days_before_month leap m + d = n + 1" "1 \<le> m" "m \<le> 12" "1 \<le> d" "d \<le> 31"
    using assms(3) by simp_all
qed

lemma days_before_year_parts:
  assumes "0 \<le> b" "b \<le> 3" "0 \<le> c" "c \<le> 24" "0 \<le> e" "e \<le> 3"
  shows "days_before_year (a * 400 + 1 + b * 100 + c * 4 + e) = 146097 * a + 36524 * b + 1461 * c + 365 * e"
    and "is_leap (a * 400 + 1 + b * 100 + c * 4 + e) = (e = 3 \<and> (c \<noteq> 24 \<or> b = 3))"
proof -
  let ?y = "a * 400 + b * 100 + c * 4 + e"
  have d: "?y div 4 = 100 * a + 25 * b + c" "?y div 100 = 4 * a + b" "?y div 400 = a"
    using assms
    by (auto intro!: int_div_pos_eq [of ?y 4 _ e] int_div_pos_eq [of ?y 100 _ "c * 4 + e"]
        int_div_pos_eq [of ?y 400 _ "b * 100 + c * 4 + e"])
  have "a * 400 + 1 + b * 100 + c * 4 + e - 1 = ?y" by simp
  then show "days_before_year (a * 400 + 1 + b * 100 + c * 4 + e) = 146097 * a + 36524 * b + 1461 * c + 365 * e"
    unfolding days_before_year_def by (simp only: d) simp
  let ?z = "a * 400 + 1 + b * 100 + c * 4 + e"
  have m4: "?z mod 4 = (if e = 3 then 0 else e + 1)"
    by (rule int_mod_pos_eq [of _ _ "100 * a + 25 * b + c + (if e = 3 then 1 else 0)"]) (use assms in auto)
  have m100: "?z mod 100 = (if c = 24 \<and> e = 3 then 0 else c * 4 + e + 1)"
    by (rule int_mod_pos_eq [of _ _ "4 * a + b + (if c = 24 \<and> e = 3 then 1 else 0)"]) (use assms in auto)
  have m400: "?z mod 400 = (if b = 3 \<and> c = 24 \<and> e = 3 then 0 else b * 100 + c * 4 + e + 1)"
    by (rule int_mod_pos_eq [of _ _ "a + (if b = 3 \<and> c = 24 \<and> e = 3 then 1 else 0)"]) (use assms in auto)
  show "is_leap ?z = (e = 3 \<and> (c \<noteq> 24 \<or> b = 3))"
    unfolding is_leap_def m4 m100 m400 using assms by auto
qed

lemma ymd2ord_ord2ymd:
  assumes "ord2ymd ord = (y, m, d)"
  shows "ymd2ord y m d = ord" "1 \<le> m" "m \<le> 12" "1 \<le> d" "d \<le> 31"
proof -
  define n where "n = ord - 1"
  define a r where "a = n div 146097" and "r = n mod 146097"
  define b s where "b = r div 36524" and "s = r mod 36524"
  define c t where "c = s div 1461" and "t = s mod 1461"
  define e q where "e = t div 365" and "q = t mod 365"
  have n: "n = 146097 * a + r" "0 \<le> r" "r < 146097" by (simp_all add: a_def r_def)
  have r: "r = 36524 * b + s" "0 \<le> s" "s < 36524" by (simp_all add: b_def s_def)
  have s: "s = 1461 * c + t" "0 \<le> t" "t < 1461" by (simp_all add: c_def t_def)
  have t: "t = 365 * e + q" "0 \<le> q" "q < 365" by (simp_all add: e_def q_def)
  have b: "0 \<le> b" "b \<le> 4" using n r by linarith+
  have c: "0 \<le> c" "c \<le> 24" using r s by linarith+
  have e: "0 \<le> e" "e \<le> 4" using s t by linarith+
  let ?year = "a * 400 + 1 + b * 100 + c * 4 + e"
  have run: "ord2ymd ord = (if e = 4 \<or> b = 4 then (?year - 1, 12, 31)
     else (?year, month_day (e = 3 \<and> (c \<noteq> 24 \<or> b = 3)) q))"
    unfolding ord2ymd_def Let_def
    by (simp only: n_def [symmetric] a_def [symmetric] r_def [symmetric] b_def [symmetric] s_def [symmetric]
        c_def [symmetric] t_def [symmetric] e_def [symmetric] q_def [symmetric])
  have dec: "days_before_month True 12 = 335" by (simp add: days_before_month_def month_lengths_def eval_nat_numeral)
  have last: "ymd2ord (a * 400 + 1 + b' * 100 + c' * 4 + 3) 12 31 = 146097 * a + 36524 * b' + 1461 * c' + 1461"
    if "0 \<le> b'" "b' \<le> 3" "0 \<le> c'" "c' \<le> 24" "c' \<noteq> 24 \<or> b' = 3" for b' c'
    using that days_before_year_parts [of b' c' 3 a] by (simp add: ymd2ord_def dec)
  consider (cycle) "b = 4" | (leapday) "b \<noteq> 4" "e = 4" | (plain) "b \<noteq> 4" "e \<noteq> 4" by blast
  then have "ymd2ord y m d = ord \<and> 1 \<le> m \<and> m \<le> 12 \<and> 1 \<le> d \<and> d \<le> 31"
  proof cases
    case cycle
    then have "s = 0" "t = 0" "c = 0" "e = 0" using n r s t c e by linarith+
    moreover have "ord = 146097 * a + 146097" using cycle \<open>s = 0\<close> n r n_def by linarith
    ultimately show ?thesis using assms run cycle last [of 3 24] by (auto simp: algebra_simps)
  next
    case leapday
    then have "q = 0" "t = 1460" using s t by linarith+
    moreover have "c \<noteq> 24" using calculation r s by linarith
    moreover have "ord = 146097 * a + 36524 * b + 1461 * c + 1461" using calculation n r s n_def by linarith
    ultimately show ?thesis using assms run leapday last [of b c] b c by (auto simp: algebra_simps)
  next
    case plain
    let ?leap = "e = 3 \<and> (c \<noteq> 24 \<or> b = 3)"
    have y: "y = ?year" and md: "month_day ?leap q = (m, d)" using assms run plain by simp_all
    note ok = month_day_ok [OF t(2,3) md]
    have "ymd2ord y m d = 146097 * a + 36524 * b + 1461 * c + 365 * e + (days_before_month ?leap m + d)"
      unfolding ymd2ord_def y using days_before_year_parts [of b c e a] b c e plain by simp
    also have "\<dots> = ord" using ok(1) n(1) r(1) s(1) t(1) n_def by linarith
    finally show ?thesis using ok by simp
  qed
  then show "ymd2ord y m d = ord" "1 \<le> m" "m \<le> 12" "1 \<le> d" "d \<le> 31" by simp_all
qed

section \<open>ISO texts\<close>

text \<open>Fixed-width decimal fields.\<close>

definition pad :: "nat \<Rightarrow> nat \<Rightarrow> string" where
  "pad w n = map (\<lambda>i. digit_char (n div 10 ^ (w - 1 - i) mod 10)) [0..<w]"

definition int_field :: "string \<Rightarrow> int option" where
  "int_field s = (if isdigit s then Some (int (nat_of_str s)) else None)"

lemma length_pad [simp]: "length (pad w n) = w"
  by (simp add: pad_def)

lemma pad_Suc: "pad (Suc w) n = pad w (n div 10) @ [digit_char (n mod 10)]"
proof -
  have "n div 10 div 10 ^ (w - 1 - i) = n div 10 ^ (w - i)" if "i < w" for i
  proof -
    have "w - i = Suc (w - 1 - i)" using that by simp
    then show ?thesis by (simp add: div_mult2_eq)
  qed
  then show ?thesis by (auto simp: pad_def)
qed

lemma int_field_pad [simp]:
  assumes "n < 10 ^ w" "0 < w" shows "int_field (pad w n) = Some (int n)"
proof -
  have "list_all is_digit (pad w n)" by (simp add: pad_def list_all_iff)
  moreover have "pad w n \<noteq> []" using assms(2) length_pad [of w n] by fastforce
  moreover have "nat_of_str (pad w n) = n" using assms(1)
  proof (induction w arbitrary: n)
    case 0
    then show ?case by (simp add: pad_def nat_of_str_def)
  next
    case (Suc w)
    then have "nat_of_str (pad w (n div 10)) = n div 10" by (simp add: less_mult_imp_div_less)
    then show ?case by (simp add: pad_Suc nat_of_str_def)
  qed
  ultimately show ?thesis by (simp add: int_field_def isdigit_def)
qed

definition DAY :: int where "DAY = 86400 * 1000000"
definition EPOCH_ORD :: int where "EPOCH_ORD = 719163"

text \<open>\<open>dt.isoformat()\<close> of an aware UTC instant; a zero microsecond is left out.\<close>

definition isoformat :: "datetime \<Rightarrow> string" where
  "isoformat t =
     (let (y, m, d) = ord2ymd (t div DAY + EPOCH_ORD);
          us = t mod DAY; s = us div 1000000; frac = nat (us mod 1000000)
      in pad 4 (nat y) @ ''-'' @ pad 2 m @ ''-'' @ pad 2 (nat d) @ ''T''
         @ pad 2 (nat (s div 3600)) @ '':'' @ pad 2 (nat (s div 60 mod 60)) @ '':'' @ pad 2 (nat (s mod 60))
         @ (if frac = 0 then [] else ''.'' @ pad 6 frac) @ ''+00:00'')"

text \<open>\<open>datetime.fromisoformat\<close> on the texts that \<open>isoformat\<close> prints for UTC.\<close>

definition take_field :: "nat \<Rightarrow> string \<Rightarrow> (int \<times> string) option" where
  "take_field w s = (if length s < w then None else map_option (\<lambda>v. (v, drop w s)) (int_field (take w s)))"

definition take_lit :: "string \<Rightarrow> string \<Rightarrow> string option" where
  "take_lit l s = (if prefix l s then Some (drop (length l) s) else None)"

definition take_fraction :: "string \<Rightarrow> (int \<times> string) option" where
  "take_fraction s = (case take_lit ''.'' s of None \<Rightarrow> Some (0, s) | Some s' \<Rightarrow> take_field 6 s')"

definition fromisoformat :: "string \<Rightarrow> datetime option" where
  "fromisoformat s0 = do {
     (y, s1) \<leftarrow> take_field 4 s0; s2 \<leftarrow> take_lit ''-'' s1;
     (m, s3) \<leftarrow> take_field 2 s2; s4 \<leftarrow> take_lit ''-'' s3;
     (d, s5) \<leftarrow> take_field 2 s4; s6 \<leftarrow> take_lit ''T'' s5;
     (hh, s7) \<leftarrow> take_field 2 s6; s8 \<leftarrow> take_lit '':'' s7;
     (mm, s9) \<leftarrow> take_field 2 s8; s10 \<leftarrow> take_lit '':'' s9;
     (ss, s11) \<leftarrow> take_field 2 s10;
     (us, s12) \<leftarrow> take_fraction s11; s13 \<leftarrow> take_lit ''+00:00'' s12;
     if s13 \<noteq> [] then None
     else Some ((ymd2ord y (nat m) d - EPOCH_ORD) * DAY + (hh * 3600 + mm * 60 + ss) * 1000000 + us) }"

definition in_calendar :: "datetime \<Rightarrow> bool" where
  "in_calendar t = (case ord2ymd (t div DAY + EPOCH_ORD) of (y, _, _) \<Rightarrow> 1 \<le> y \<and> y \<le> 9999)"

lemma take_field_pad [simp]:
  "n < 10 ^ w \<Longrightarrow> 0 < w \<Longrightarrow> take_field w (pad w n @ s) = Some (int n, s)"
  by (simp add: take_field_def)

lemma take_lit_append [simp]: "take_lit l (l @ s) = Some s"
  by (simp add: take_lit_def)

lemma take_lit_single [simp]: "take_lit [c] (c # s) = Some s"
  by (simp add: take_lit_def)

lemma take_fraction_ok:
  assumes "n < 1000000"
  shows "take_fraction ((if n = 0 then [] else ''.'' @ pad 6 n) @ ''+00:00'') = Some (int n, ''+00:00'')"
proof (cases "n = 0")
  case True
  then show ?thesis by (simp add: take_fraction_def take_lit_def)
next
  case False
  have "take_field 6 (pad 6 n @ ''+00:00'') = Some (int n, ''+00:00'')" by (rule take_field_pad) (use assms in auto)
  then show ?thesis using False by (simp add: take_fraction_def)
qed

lemma isoformat_text:
  assumes "in_calendar t" shows "fromisoformat (isoformat t) = Some t"
proof -
  obtain y m d where o: "ord2ymd (t div DAY + EPOCH_ORD) = (y, m, d)" by (rule prod_cases3)
  have y: "1 \<le> y" "y \<le> 9999" using assms o by (simp_all add: in_calendar_def)
  note ord = ymd2ord_ord2ymd [OF o]
  define us s where "us = t mod DAY" and "s = us div 1000000"
  have us: "0 \<le> us" "us < 86400 * 1000000" by (simp_all add: us_def DAY_def)
  have s: "0 \<le> s" "s < 86400" unfolding s_def using us by linarith+
  define hh mm ss fr where "hh = s div 3600" and "mm = s div 60 mod 60" and "ss = s mod 60" and "fr = us mod 1000000"
  have b: "0 \<le> hh" "hh < 24" "0 \<le> mm" "mm < 60" "0 \<le> ss" "ss < 60" "0 \<le> fr" "fr < 1000000"
    unfolding hh_def mm_def ss_def fr_def using s by simp_all
  have "hh = s div 60 div 60" unfolding hh_def by (simp add: zdiv_zmult2_eq [symmetric])
  then have "s div 60 = hh * 60 + mm" unfolding mm_def by simp
  moreover have "s = s div 60 * 60 + ss" unfolding ss_def by simp
  ultimately have "s = hh * 3600 + mm * 60 + ss" by simp
  moreover have "s * 1000000 + fr = us" by (simp add: s_def fr_def)
  ultimately have sum: "(hh * 3600 + mm * 60 + ss) * 1000000 + fr = us" by simp
  let ?rest = "(if nat fr = 0 then [] else ''.'' @ pad 6 (nat fr)) @ ''+00:00''"
  have iso: "isoformat t = pad 4 (nat y) @ ''-'' @ pad 2 m @ ''-'' @ pad 2 (nat d) @ ''T''
     @ pad 2 (nat hh) @ '':'' @ pad 2 (nat mm) @ '':'' @ pad 2 (nat ss) @ ?rest"
    unfolding isoformat_def Let_def o prod.case us_def [symmetric] s_def [symmetric] hh_def mm_def ss_def fr_def
    by (rule refl)
  have pads: "take_field 4 (pad 4 (nat y) @ r) = Some (y, r)" "take_field 2 (pad 2 m @ r) = Some (int m, r)"
    "take_field 2 (pad 2 (nat d) @ r) = Some (d, r)" "take_field 2 (pad 2 (nat hh) @ r) = Some (hh, r)"
    "take_field 2 (pad 2 (nat mm) @ r) = Some (mm, r)" "take_field 2 (pad 2 (nat ss) @ r) = Some (ss, r)" for r
    using y ord b by (simp_all add: take_field_pad nat_less_iff)
  have frac: "take_fraction ?rest = Some (fr, ''+00:00'')" using take_fraction_ok [of "nat fr"] b by simp
  have "fromisoformat (isoformat t) =
     Some ((ymd2ord y (nat (int m)) d - EPOCH_ORD) * DAY + (hh * 3600 + mm * 60 + ss) * 1000000 + fr)"
    unfolding fromisoformat_def iso
    by (simp only: pads take_lit_append Option.bind.bind_lunit prod.case frac) (simp add: take_lit_def)
  also have "\<dots> = Some (t div DAY * DAY + us)" using ord(1) sum by simp
  also have "\<dots> = Some t" by (simp add: us_def)
  finally show ?thesis .
qed

text \<open>
  An instant of the years 1 to 9999 is read back exactly from the ISO text it
  was stored as, so the window a worker reconstructs is the window that was requested.
\<close>

theorem isoformat_roundtrip:
  assumes "in_calendar t" shows "fromisoformat (isoformat t) = Some t"
  using assms by (rule isoformat_text)

lemma digit_chars:
  "digit_char 0 = CHR ''0''" "digit_char (Suc 0) = CHR ''1''" "digit_char 2 = CHR ''2''" "digit_char 3 = CHR ''3''"
  "digit_char 4 = CHR ''4''" "digit_char 5 = CHR ''5''" "digit_char 6 = CHR ''6''" "digit_char 7 = CHR ''7''"
  "digit_char 8 = CHR ''8''" "digit_char 9 = CHR ''9''"
  by code_simp+

theorem isoformat_roundtrip_witness:
  "in_calendar 1772357400000000 \<and> isoformat 1772357400000000 = ''2026-03-01T09:30:00+00:00''
   \<and> fromisoformat ''2026-03-01T09:30:00+00:00'' = Some 1772357400000000"
proof -
  have "in_calendar 1772357400000000" by code_simp
  moreover have "isoformat 1772357400000000 = ''2026-03-01T09:30:00+00:00''"
    by (simp add: isoformat_def ord2ymd_def month_day_def days_before_month_def month_lengths_def DAY_def
        EPOCH_ORD_def Let_def pad_def digit_chars upt_rec)
  ultimately show ?thesis using isoformat_roundtrip [of 1772357400000000] by simp
qed

lemma isoformat_inject:
  "in_calendar t \<Longrightarrow> in_calendar u \<Longrightarrow> isoformat t = isoformat u \<longleftrightarrow> t = u"
  by (metis isoformat_text option.inject)

end
