(* ===== verification/Handlers.thy ===== *)
theory Handlers
  imports RedisCache TaskLifecycle WireMappers TaskPolicy PyDateTime
begin

text \<open>
  The message handlers of the consumer (\<open>consumer/handlers\<close>): idempotency, database retries, time
  checks, and the four handlers.  The world holds the Redis server, the database, the faults the next
  database attempts meet, and the log.  A fault before the commit rolls the attempt back; a fault after
  it is a lost acknowledgement, the commit stands.  Message parsing is an argument (\<open>None\<close> is a
  validation error).
\<close>

datatype fault = No_fault | Fail_before db_error | Fail_after db_error

datatype log_event =
  L_duplicate string | L_time_boot string | L_time_collected string | L_restart_alert int int
  | L_auto_registered string | L_task_unknown string | L_task_not_uuid string
  | L_task_stored string string | L_agent_error string string

record world =
  w_redis :: redis
  w_db :: db
  w_faults :: "fault list"
  w_log :: "log_event list"

definition log_it :: "log_event \<Rightarrow> world \<Rightarrow> world" where
  "log_it l w = w\<lparr>w_log := w_log w @ [l]\<rparr>"

section \<open>Settings\<close>

definition redis_ttl_idempotent :: int where "redis_ttl_idempotent = 86400"
definition redis_ttl_online :: int where "redis_ttl_online = 300"
definition redis_ttl_last_agent_start :: int where "redis_ttl_last_agent_start = 86400"
definition redis_ttl_agent_restarts :: int where "redis_ttl_agent_restarts = 3600"
definition redis_ttl_time_invariant_warned :: int where "redis_ttl_time_invariant_warned = 3600"
definition redis_key_cache_inventory :: "string \<Rightarrow> string" where
  "redis_key_cache_inventory x = ''cache:inventory:'' @ x"
definition redis_key_cache_metrics :: "string \<Rightarrow> string" where
  "redis_key_cache_metrics x = ''cache:metrics:'' @ x"
definition redis_key_idempotent :: "string \<Rightarrow> string" where
  "redis_key_idempotent x = ''idempotent:'' @ x"
definition redis_key_online :: "string \<Rightarrow> string" where
  "redis_key_online x = ''online:'' @ x"
definition redis_key_last_agent_start :: "string \<Rightarrow> string" where
  "redis_key_last_agent_start x = ''last_agent_start:'' @ x"
definition redis_key_agent_restarts :: "string \<Rightarrow> string" where
  "redis_key_agent_restarts x = ''agent_restarts:'' @ x"
definition redis_key_time_invariant_warned :: "string \<Rightarrow> string" where
  "redis_key_time_invariant_warned x = ''time_invariant_warned:'' @ x"
definition agent_restart_alert_threshold :: int where "agent_restart_alert_threshold = 3"

lemmas redis_key_defs =
  redis_key_cache_inventory_def redis_key_cache_metrics_def redis_key_idempotent_def
  redis_key_online_def redis_key_last_agent_start_def redis_key_agent_restarts_def
  redis_key_time_invariant_warned_def

section \<open>Database attempts\<close>

definition RETRYABLE_SQLSTATES :: "string list" where
  "RETRYABLE_SQLSTATES = [''40001'', ''40P01'', ''57P01'', ''57P02'', ''57P03'']"

definition RETRY_MAX_ATTEMPTS :: nat where "RETRY_MAX_ATTEMPTS = 3"

fun is_retryable_db_exc :: "db_error \<Rightarrow> bool" where
  "is_retryable_db_exc OperationalError = True"
| "is_retryable_db_exc InterfaceError = True"
| "is_retryable_db_exc (DBAPIError (Some s)) = (prefix ''08'' s \<or> s \<in> set RETRYABLE_SQLSTATES)"
| "is_retryable_db_exc _ = False"

text \<open>
  Which exceptions leave \<open>_db_retry\<close> at once: a permanent database failure, or an exception that its
  handler does not catch (\<open>RuntimeError\<close>).
\<close>

definition is_permanent_db_failure :: "db_error \<Rightarrow> bool" where
  "is_permanent_db_failure e = (e \<noteq> TimeoutError \<and> \<not> is_retryable_db_exc e)"

definition db_attempt ::
  "(db \<Rightarrow> db_error + 'a \<times> db) \<Rightarrow> world \<Rightarrow> (db_error + 'a) \<times> world" where
  "db_attempt op w =
     (let (f, w1) = (case w_faults w of [] \<Rightarrow> (No_fault, w) | f # fs \<Rightarrow> (f, w\<lparr>w_faults := fs\<rparr>)) in
      case f of
        Fail_before e \<Rightarrow> (Inl e, w1)
      | Fail_after e \<Rightarrow>
          (case op (w_db w1) of Inl e' \<Rightarrow> (Inl e', w1) | Inr (x, d) \<Rightarrow> (Inl e, w1\<lparr>w_db := d\<rparr>))
      | No_fault \<Rightarrow>
          (case op (w_db w1) of Inl e' \<Rightarrow> (Inl e', w1) | Inr (x, d) \<Rightarrow> (Inr x, w1\<lparr>w_db := d\<rparr>)))"

fun db_retry_n ::
  "nat \<Rightarrow> (db \<Rightarrow> db_error + 'a \<times> db) \<Rightarrow> world \<Rightarrow> (db_error + 'a) \<times> world" where
  "db_retry_n 0 op w = db_attempt op w"
| "db_retry_n (Suc n) op w =
     (case db_attempt op w of
        (Inr x, w1) \<Rightarrow> (Inr x, w1)
      | (Inl e, w1) \<Rightarrow> if is_permanent_db_failure e then (Inl e, w1) else db_retry_n n op w1)"

definition db_retry ::
  "(db \<Rightarrow> db_error + 'a \<times> db) \<Rightarrow> world \<Rightarrow> (db_error + 'a) \<times> world" where
  "db_retry op w = db_retry_n (RETRY_MAX_ATTEMPTS - 1) op w"

section \<open>Idempotency and time checks\<close>

definition uuid_hex :: "string \<Rightarrow> string" where
  "uuid_hex u = filter (\<lambda>c. c \<noteq> CHR ''-'') u"

definition on_redis :: "(redis \<Rightarrow> 'a \<times> redis) \<Rightarrow> world \<Rightarrow> 'a \<times> world" where
  "on_redis f w = (case f (w_redis w) of (x, r) \<Rightarrow> (x, w\<lparr>w_redis := r\<rparr>))"

definition check_idempotent :: "string \<Rightarrow> world \<Rightarrow> bool \<times> world" where
  "check_idempotent message_id w =
     (case on_redis (safe_set_nx (redis_key_idempotent (uuid_hex message_id)) ''1'' redis_ttl_idempotent) w of
        (res, w1) \<Rightarrow> (case res of None \<Rightarrow> True | Some b \<Rightarrow> b, w1))"

definition time_warn_allowed :: "string \<Rightarrow> world \<Rightarrow> bool \<times> world" where
  "time_warn_allowed agent_id w =
     (case on_redis (safe_set_nx (redis_key_time_invariant_warned agent_id) ''1'' redis_ttl_time_invariant_warned) w of
        (res, w1) \<Rightarrow> (res \<noteq> Some False, w1))"

definition log_time_invariants :: "('z) AgentMessageBase_scheme \<Rightarrow> world \<Rightarrow> world" where
  "log_time_invariants data w =
     (case msg_agent_started_at data of
        None \<Rightarrow> w
      | Some started \<Rightarrow>
          let boot_late = is_some_and (msg_boot_time data) (\<lambda>b. b > started) in
          if \<not> boot_late \<and> started \<le> msg_collected_at data then w
          else
            (case time_warn_allowed (msg_agent_id data) w of
               (False, w1) \<Rightarrow> w1
             | (True, w1) \<Rightarrow>
                 let w2 = (if boot_late then log_it (L_time_boot (msg_agent_id data)) w1 else w1)
                 in if started > msg_collected_at data
                    then log_it (L_time_collected (msg_agent_id data)) w2 else w2))"

definition track_agent_restart :: "int \<Rightarrow> datetime option \<Rightarrow> world \<Rightarrow> world" where
  "track_agent_restart server_id agent_started_at w =
     (case agent_started_at of
        None \<Rightarrow> w
      | Some started \<Rightarrow>
          let last_key = redis_key_last_agent_start (show_int server_id);
              counter_key = redis_key_agent_restarts (show_int server_id);
              current_iso = isoformat started
          in
            (case on_redis (safe_get last_key) w of
               (last_iso, w1) \<Rightarrow>
                 let w3 =
                   (if is_some_and last_iso (\<lambda>l. l \<noteq> [] \<and> l \<noteq> current_iso)
                    then
                      (case on_redis (safe_incr_with_ttl counter_key redis_ttl_agent_restarts) w1 of
                         (cnt, w2) \<Rightarrow>
                           if is_some_and cnt (\<lambda>c. c \<ge> agent_restart_alert_threshold)
                           then log_it (L_restart_alert server_id (the cnt)) w2 else w2)
                    else w1)
                 in snd (on_redis (safe_set last_key current_iso (Some redis_ttl_last_agent_start)) w3)))"

section \<open>The handlers\<close>

datatype outcome = Ack | Reject   \<comment> \<open>a rejected message goes to the dead-letter queue\<close>

text \<open>\<open>message.process(requeue=False)\<close> around parsing and handling.\<close>

definition in_message_context ::
  "('b \<Rightarrow> 'm option) \<Rightarrow> ('m \<Rightarrow> world \<Rightarrow> (db_error + unit) \<times> world) \<Rightarrow> 'b \<Rightarrow> world \<Rightarrow> outcome \<times> world" where
  "in_message_context parse handle body w =
     (case parse body of
        None \<Rightarrow> (Reject, w)
      | Some m \<Rightarrow>
          (case handle m w of (Inl e, w1) \<Rightarrow> (Reject, w1) | (Inr u, w1) \<Rightarrow> (Ack, w1)))"

definition store_inventory :: "InventoryInput \<Rightarrow> world \<Rightarrow> (db_error + unit) \<times> world" where
  "store_inventory data w =
     (case check_idempotent (msg_message_id data) w of
        (False, w1) \<Rightarrow> (Inr (), log_it (L_duplicate (msg_message_id data)) w1)
      | (True, w1) \<Rightarrow>
          let w2 = log_time_invariants data w1;
              dto = to_inventory_create data
          in
            (case db_retry (\<lambda>d. Inr (upsert_server dto d)) w2 of
               (Inl e, w3) \<Rightarrow> (Inl e, w3)
             | (Inr server_id, w3) \<Rightarrow>
                 let w4 = snd (on_redis (safe_set (redis_key_online (show_int server_id)) ''1'' (Some redis_ttl_online)) w3)
                 in (Inr (), snd (on_redis (safe_delete (redis_key_cache_inventory (show_int server_id))) w4))))"

definition save_metrics ::
  "string \<Rightarrow> ServerInventoryCreate \<Rightarrow> ServerMetricCreate \<Rightarrow> db
     \<Rightarrow> db_error + (int \<times> bool \<times> MetricInsertResult) \<times> db" where
  "save_metrics agent_id placeholder dto d =
     bind_res (ensure_server_id [] [] agent_id placeholder d)
       (\<lambda>((server_id, auto_registered), d1).
          let (res, d2) = record_metrics server_id dto d1 in Inr ((server_id, auto_registered, res), d2))"

definition store_metrics :: "MetricsInput \<Rightarrow> world \<Rightarrow> (db_error + unit) \<times> world" where
  "store_metrics data w =
     (case check_idempotent (msg_message_id data) w of
        (False, w1) \<Rightarrow> (Inr (), log_it (L_duplicate (msg_message_id data)) w1)
      | (True, w1) \<Rightarrow>
          let w2 = log_time_invariants data w1;
              dto = to_metric_create data;
              placeholder = build_placeholder_inventory data
          in
            (case db_retry (save_metrics (msg_agent_id data) placeholder dto) w2 of
               (Inl e, w3) \<Rightarrow> (Inl e, w3)
             | (Inr (server_id, auto_registered, res), w3) \<Rightarrow>
                 let w4 = (if auto_registered then log_it (L_auto_registered (msg_agent_id data)) w3 else w3);
                     w5 = snd (on_redis (safe_set (redis_key_online (show_int server_id)) ''1'' (Some redis_ttl_online)) w4);
                     w6 = snd (on_redis (safe_delete (redis_key_cache_metrics (show_int server_id))) w5)
                 in (Inr (), track_agent_restart server_id (msg_agent_started_at data) w6)))"

text \<open>
  \<open>str(UUID(s))\<close>: the texts \<open>urn:\<close> and \<open>uuid:\<close>, surrounding braces and hyphens are dropped; what is left
  must be 32 hexadecimal digits, printed in lower case in the groups 8-4-4-4-12.
\<close>

fun remove_all :: "string \<Rightarrow> string \<Rightarrow> string" where
  "remove_all pat [] = []"
| "remove_all pat (c # cs) =
     (if pat \<noteq> [] \<and> prefix pat (c # cs) then remove_all pat (drop (length pat - 1) cs)
      else c # remove_all pat cs)"

definition strip_braces :: "string \<Rightarrow> string" where
  "strip_braces s =
     (let brace = (\<lambda>c. c = CHR ''{'' \<or> c = CHR ''}'') in
      rev (dropWhile brace (rev (dropWhile brace s))))"

definition is_hex_digit :: "char \<Rightarrow> bool" where
  "is_hex_digit c = (is_digit c \<or> lower_char c \<in> set ''abcdef'')"

definition uuid_str :: "string \<Rightarrow> string option" where
  "uuid_str s =
     (let hex = uuid_hex (strip_braces (remove_all ''uuid:'' (remove_all ''urn:'' s)));
          h = str_lower hex
      in if length hex = 32 \<and> list_all is_hex_digit hex
         then Some (take 8 h @ ''-'' @ take 4 (drop 8 h) @ ''-'' @ take 4 (drop 12 h) @ ''-'' @
                    take 4 (drop 16 h) @ ''-'' @ drop 20 h)
         else None)"

definition task_update :: "exit_codes \<Rightarrow> string \<Rightarrow> TaskResultInput \<Rightarrow> TaskResultUpdate" where
  "task_update success_exit_codes public_id data =
     (let (eff_status, eff_reason) =
        effective_task_result (tr_status data) (tr_failure_reason data) (tr_exit_code data)
          (Some (msg_os_family data)) (tr_os_version data) (tr_os_id data) success_exit_codes
          (tr_task_policy data)
      in \<lparr>tu_public_id = public_id, tu_status = eff_status, tu_failure_reason = eff_reason,
          tu_exit_code = tr_exit_code data, tu_signal_no = tr_signal_no data,
          tu_task_policy = tr_task_policy data, tu_duration_ms = tr_duration_ms data,
          tu_stdout_tail = tr_stdout_tail data, tu_stderr_tail = tr_stderr_tail data,
          tu_completed_at = tr_completed_at data\<rparr>)"

definition store_task_result :: "exit_codes \<Rightarrow> TaskResultInput \<Rightarrow> world \<Rightarrow> (db_error + unit) \<times> world" where
  "store_task_result success_exit_codes data w =
     (case check_idempotent (msg_message_id data) w of
        (False, w1) \<Rightarrow> (Inr (), log_it (L_duplicate (msg_message_id data)) w1)
      | (True, w1) \<Rightarrow>
          (case uuid_str (tr_task_id data) of
             None \<Rightarrow> (Inr (), log_it (L_task_not_uuid (msg_message_id data)) w1)
           | Some task_public_id \<Rightarrow>
               let upd = task_update success_exit_codes task_public_id data in
               (case db_retry (complete_task upd) w1 of
                  (Inl e, w2) \<Rightarrow> (Inl e, w2)
                | (Inr updated, w2) \<Rightarrow>
                    (Inr (), if updated then log_it (L_task_stored (tr_task_id data) (tu_status upd)) w2
                             else log_it (L_task_unknown (tr_task_id data)) w2))))"

text \<open>\<open>str.isprintable\<close> on ASCII.\<close>

definition isprintable :: "char \<Rightarrow> bool" where
  "isprintable c = (32 \<le> (of_char c :: nat) \<and> (of_char c :: nat) \<le> 126)"

definition sanitize_log_text :: "string \<Rightarrow> nat \<Rightarrow> string" where
  "sanitize_log_text value limit =
     (let t = filter isprintable value in if length t \<le> limit then t else take limit t @ ''~'')"

definition ERROR_MESSAGE_LOG_MAX :: nat where "ERROR_MESSAGE_LOG_MAX = 500"

definition log_error :: "ErrorInput \<Rightarrow> world \<Rightarrow> (db_error + unit) \<times> world" where
  "log_error data w =
     (case check_idempotent (msg_message_id data) w of
        (False, w1) \<Rightarrow> (Inr (), log_it (L_duplicate (msg_message_id data)) w1)
      | (True, w1) \<Rightarrow>
          let w2 = log_time_invariants data w1;
              error_message = str_or (Some (sanitize_log_text (err_error_message data) ERROR_MESSAGE_LOG_MAX)) ''(empty)''
          in (Inr (), log_it (L_agent_error (msg_agent_id data) error_message) w2))"

definition make_inventory_handler :: "('b \<Rightarrow> InventoryInput option) \<Rightarrow> 'b \<Rightarrow> world \<Rightarrow> outcome \<times> world" where
  "make_inventory_handler parse = in_message_context parse store_inventory"

definition make_metrics_handler :: "('b \<Rightarrow> MetricsInput option) \<Rightarrow> 'b \<Rightarrow> world \<Rightarrow> outcome \<times> world" where
  "make_metrics_handler parse = in_message_context parse store_metrics"

definition make_task_result_handler ::
  "exit_codes \<Rightarrow> ('b \<Rightarrow> TaskResultInput option) \<Rightarrow> 'b \<Rightarrow> world \<Rightarrow> outcome \<times> world" where
  "make_task_result_handler codes parse = in_message_context parse (store_task_result codes)"

definition make_error_handler :: "('b \<Rightarrow> ErrorInput option) \<Rightarrow> 'b \<Rightarrow> world \<Rightarrow> outcome \<times> world" where
  "make_error_handler parse = in_message_context parse log_error"

end
