(* ===== verification/HandlerProps.thy ===== *)
theory HandlerProps
  imports Handlers
begin

text \<open>
  Delivery guarantees of the consumer.  An operation is replay safe when applying it again leaves what
  it observably did; the locale \<open>replay_safe\<close> states it, the three database operations of the handlers
  are interpretations, and retries after lost acknowledgements are harmless for each of them.
\<close>

section \<open>Replay-safe operations\<close>

locale replay_safe =
  fixes op :: "db \<Rightarrow> db_error + 'a \<times> db"
    and obs :: "db \<Rightarrow> 'o"
  assumes again: "op d = Inr (x, d') \<Longrightarrow> \<exists>x' d''. op d' = Inr (x', d'') \<and> obs d'' = obs d'"
begin

lemma attempt_cases:
  assumes "db_attempt op w = (r, w')"
  shows "(\<exists>e. r = Inl e) \<and> w_db w' = w_db w \<or> (\<exists>x. op (w_db w) = Inr (x, w_db w'))"
  using assms
  by (auto simp: db_attempt_def Let_def split: list.splits fault.splits sum.splits prod.splits)

lemma attempt_Inr:
  assumes "db_attempt op w = (Inr x, w')"
  shows "op (w_db w) = Inr (x, w_db w')"
  using assms
  by (auto simp: db_attempt_def Let_def split: list.splits fault.splits sum.splits prod.splits)

text \<open>Reached by some number of applications, each observably like the first.\<close>

inductive applied :: "db \<Rightarrow> db \<Rightarrow> bool" where
  first: "op d = Inr (x, d') \<Longrightarrow> applied d d'"
| more: "applied d d' \<Longrightarrow> op d' = Inr (x, d'') \<Longrightarrow> applied d d''"

lemma applied_effect:
  "applied d d' \<Longrightarrow> (\<exists>x e. op d = Inr (x, e) \<and> obs d' = obs e) \<and> (\<exists>y d''. op d' = Inr (y, d'') \<and> obs d'' = obs d')"
proof (induction rule: applied.induct)
  case (first d x d')
  then show ?case using again by blast
next
  case (more d d' x d'')
  then show ?case using again [OF more.hyps(2)] by auto
qed

lemma retry_n_effect:
  assumes "db_retry_n n op w = (r, w')" and "w_db w = d0 \<or> applied d0 (w_db w)"
  shows "((\<exists>e. r = Inl e) \<and> w_db w' = d0) \<or> applied d0 (w_db w')"
  using assms
proof (induction n arbitrary: w)
  case 0
  then show ?case using attempt_cases [of w r w'] by (auto intro: applied.intros)
next
  case (Suc n)
  obtain r1 w1 where at: "db_attempt op w = (r1, w1)" by (cases "db_attempt op w")
  have st: "(\<exists>e. r1 = Inl e) \<and> w_db w1 = d0 \<or> applied d0 (w_db w1)"
    using attempt_cases [OF at] Suc.prems(2) by (auto intro: applied.intros)
  show ?case
  proof (cases r1)
    case (Inr x)
    then show ?thesis using Suc.prems(1) at st by auto
  next
    case (Inl e)
    then show ?thesis using Suc.prems(1) at st Suc.IH [of w1] by (auto split: if_splits)
  qed
qed

lemma retry_effect:
  assumes "db_retry op w = (r, w')"
  shows "((\<exists>e. r = Inl e) \<and> w_db w' = w_db w)
    \<or> (\<exists>x d. op (w_db w) = Inr (x, d) \<and> obs (w_db w') = obs d)"
  using retry_n_effect [of "RETRY_MAX_ATTEMPTS - 1" w r w' "w_db w"] assms applied_effect
  by (auto simp: db_retry_def)

lemma retry_stable:
  assumes "db_retry op w = (Inr x, w')"
  shows "\<exists>y d. op (w_db w') = Inr (y, d) \<and> obs d = obs (w_db w')"
  using retry_n_effect [of "RETRY_MAX_ATTEMPTS - 1" w "Inr x" w' "w_db w"] assms applied_effect
  by (auto simp: db_retry_def)

end

section \<open>The operations of the handlers\<close>

lemma inventory_changed_row [simp]: "\<not> inventory_changed (inventory_row sid x) x"
  by (simp add: inventory_changed_def inventory_row_def)

lemma upsert_again:
  "snd (upsert_server x (snd (upsert_server x d))) =
     (snd (upsert_server x d))\<lparr>server_seq := server_seq d + 2\<rparr>"
proof -
  let ?f = "\<lambda>r. if si_agent_id r = ic_agent_id x then inventory_row (si_id r) x else r"
  have idem: "map ?f (map ?f xs) = map ?f xs" for xs by auto
  have find: "\<exists>s. List.find (\<lambda>r. si_agent_id r = ic_agent_id x) (map ?f xs) = Some (inventory_row s x)"
    if "List.find (\<lambda>r. si_agent_id r = ic_agent_id x) xs \<noteq> None" for xs
    using that by (induction xs) auto
  have app: "List.find (\<lambda>r. si_agent_id r = ic_agent_id x) (xs @ [inventory_row s x]) = Some (inventory_row s x)
      \<and> map ?f (xs @ [inventory_row s x]) = xs @ [inventory_row s x]"
    if "List.find (\<lambda>r. si_agent_id r = ic_agent_id x) xs = None" for xs s
    using that by (induction xs) (auto split: if_splits)
  show ?thesis
  proof (cases "List.find (\<lambda>r. si_agent_id r = ic_agent_id x) (servers d)")
    case None
    then show ?thesis
      using app [OF None, of "server_seq d"]
      by (simp add: upsert_server_alt upsert_statement_def inventory_differs_def
          append_inventory_history_def)
  next
    case (Some p)
    then obtain s where "List.find (\<lambda>r. si_agent_id r = ic_agent_id x) (map ?f (servers d)) = Some (inventory_row s x)"
      using find [of "servers d"] by auto
    then show ?thesis
      using Some idem [of "servers d"]
      by (auto simp: upsert_server_alt upsert_statement_def inventory_differs_def
          append_inventory_history_def simp del: map_map)
  qed
qed

text \<open>The sequence of the primary key is not part of what a client can observe.\<close>

definition without_seq :: "db \<Rightarrow> db" where
  "without_seq d = d\<lparr>server_seq := 0\<rparr>"

interpretation upsert_op: replay_safe "\<lambda>d. Inr (upsert_server x d)" without_seq for x
proof
  fix d d' :: db and v
  assume a: "Inr (upsert_server x d) = (Inr (v, d') :: db_error + int \<times> db)"
  have "upsert_server x d' = (fst (upsert_server x d'), snd (upsert_server x d'))"
    by (rule prod.collapse [symmetric])
  moreover have "without_seq (snd (upsert_server x d')) = without_seq d'"
    using upsert_again [of x d] a by (auto simp: without_seq_def)
  ultimately show "\<exists>x' d''. Inr (upsert_server x d') = (Inr (x', d'') :: db_error + int \<times> db)
      \<and> without_seq d'' = without_seq d'" by metis
qed

lemma record_again: "snd (record_metrics sid m (snd (record_metrics sid m d))) = snd (record_metrics sid m d)"
  using metrics_present_noop [OF metrics_present_after, of sid m d]
  by (simp add: record_metrics_def Let_def)

lemma find_server_record [simp]: "find_server_id a (snd (record_metrics sid m d)) = find_server_id a d"
  by (simp add: find_server_id_def record_metrics_def Let_def record_metrics_tables)

lemma save_metrics_known:
  "find_server_id a d = Some sid \<Longrightarrow>
     save_metrics a f m d = Inr ((sid, False, fst (record_metrics sid m d)), snd (record_metrics sid m d))"
  by (simp add: save_metrics_def ensure_server_id_def split: prod.split)

lemma save_metrics_new:
  assumes "find_server_id a d = None" and "ic_agent_id f = a"
  shows "\<exists>d1. find_server_id a d1 = Some (server_seq d) \<and>
     save_metrics a f m d =
       Inr ((server_seq d, True, fst (record_metrics (server_seq d) m d1)), snd (record_metrics (server_seq d) m d1))"
proof -
  let ?d1 = "d\<lparr>servers := servers d @ [inventory_row (server_seq d) f], server_seq := server_seq d + 1\<rparr>"
  have "List.find (\<lambda>r. si_agent_id r = a) (xs @ [inventory_row s f]) = Some (inventory_row s f)"
    if "List.find (\<lambda>r. si_agent_id r = a) xs = None" for xs s
    using that assms(2) by (induction xs) (auto split: if_splits)
  then have "find_server_id a ?d1 = Some (server_seq d)"
    using assms(1) by (simp add: find_server_id_def)
  moreover have "save_metrics a f m d =
      Inr ((server_seq d, True, fst (record_metrics (server_seq d) m ?d1)), snd (record_metrics (server_seq d) m ?d1))"
    using assms by (simp add: save_metrics_def ensure_server_id_def interfere_def
        insert_placeholder_server_def split: prod.split)
  ultimately show ?thesis by blast
qed

text \<open>Metrics of an agent always find or make a server row; storing them cannot fail by itself.\<close>

lemma save_metrics_ok:
  assumes "ic_agent_id f = a"
  obtains sid new res d' where "save_metrics a f m d = Inr ((sid, new, res), d')"
    "find_server_id a d' = Some sid" "snd (record_metrics sid m d') = d'"
proof (cases "find_server_id a d")
  case None
  from save_metrics_new [OF this assms, of m] show ?thesis
    by (auto intro!: that simp: record_again)
next
  case (Some sid)
  from save_metrics_known [OF this, of f m] Some show ?thesis
    by (auto intro!: that simp: record_again)
qed

lemma save_metrics_again:
  assumes "ic_agent_id f = a" and "save_metrics a f m d = Inr (x, d')"
  shows "\<exists>x'. save_metrics a f m d' = Inr (x', d')"
proof -
  obtain sid new res e where e: "save_metrics a f m d = Inr ((sid, new, res), e)"
    "find_server_id a e = Some sid" "snd (record_metrics sid m e) = e"
    by (rule save_metrics_ok [OF assms(1)])
  with assms(2) have "e = d'" by simp
  with e save_metrics_known [of a d' sid f m] show ?thesis by auto
qed

lemma placeholder_agent [simp]: "ic_agent_id (build_placeholder_inventory m) = msg_agent_id m"
  by (simp add: build_placeholder_inventory_def)

interpretation metrics_op: replay_safe
  "save_metrics (msg_agent_id m) (build_placeholder_inventory m) (to_metric_create m)" "\<lambda>d. d" for m
  by unfold_locales (metis placeholder_agent save_metrics_again)

lemma complete_again:
  assumes "complete_task u d = Inr (x, d')"
  shows "\<exists>x'. complete_task u d' = Inr (x', d')"
proof -
  define f where "f = (\<lambda>t. if t_public_id t = tu_public_id u then apply_result u t else t)"
  have idem: "f \<circ> f = f" by (auto simp: f_def)
  have "d' = d\<lparr>tasks := map f (tasks d)\<rparr>" and ok: "smallint (tu_exit_code u)" "smallint (tu_signal_no u)"
    "pending_unique (map f (tasks d))"
    using assms by (auto simp: complete_task_def Let_def f_def split: if_splits)
  then have "d'\<lparr>tasks := map f (tasks d')\<rparr> = d'" "map f (tasks d') = tasks d'" by (simp_all add: idem)
  then show ?thesis
    using ok \<open>d' = d\<lparr>tasks := map f (tasks d)\<rparr>\<close> unfolding complete_task_def Let_def f_def [symmetric]
    by (simp add: idem)
qed

interpretation complete_op: replay_safe "complete_task u" "\<lambda>d. d" for u
  by unfold_locales (metis complete_again)

section \<open>Properties\<close>

text \<open>
  Claim C11: whatever faults the attempts meet, lost acknowledgements included, the
  retry loop leaves the database as it was, in which case it reports an error, or with the effect of
  exactly one execution.  This holds for the inventory upsert (up to the value of the key sequence), for
  the metrics of a message and for a task result.
\<close>

theorem retry_applies_once:
  "(let (r, w') = db_retry (\<lambda>d. Inr (upsert_server x d)) w in
      (isl r \<and> w_db w' = w_db w) \<or> without_seq (w_db w') = without_seq (snd (upsert_server x (w_db w))))
   \<and> (let op = save_metrics (msg_agent_id m) (build_placeholder_inventory m) (to_metric_create m);
          (r, w') = db_retry op w in
      (isl r \<and> w_db w' = w_db w) \<or> (\<exists>v. op (w_db w) = Inr (v, w_db w')))
   \<and> (let (r, w') = db_retry (complete_task u) w in
      (isl r \<and> w_db w' = w_db w) \<or> (\<exists>v. complete_task u (w_db w) = Inr (v, w_db w')))"
proof -
  obtain r1 w1 where 1: "db_retry (\<lambda>d. Inr (upsert_server x d)) w = (r1, w1)"
    by (cases "db_retry (\<lambda>d. Inr (upsert_server x d) :: db_error + _) w")
  obtain r2 w2 where 2: "db_retry (save_metrics (msg_agent_id m) (build_placeholder_inventory m)
      (to_metric_create m)) w = (r2, w2)" by (rule prod.exhaust)
  obtain r3 w3 where 3: "db_retry (complete_task u) w = (r3, w3)" by (rule prod.exhaust)
  show ?thesis
    using upsert_op.retry_effect [OF 1] metrics_op.retry_effect [OF 2] complete_op.retry_effect [OF 3]
    unfolding 1 2 3 Let_def prod.case by (auto simp del: upsert_server_sel)
qed

lemma attempt_Fail_before:
  "w_faults w = Fail_before e # fs \<Longrightarrow> db_attempt op w = (Inl e, w\<lparr>w_faults := fs\<rparr>)"
  by (simp add: db_attempt_def)

lemma attempt_No_fault:
  "w_faults w = No_fault # fs \<Longrightarrow> op (w_db w) = Inr (x, d) \<Longrightarrow>
     db_attempt op w = (Inr x, w\<lparr>w_faults := fs, w_db := d\<rparr>)"
  by (simp add: db_attempt_def)

text \<open>
  An operation that the database would accept succeeds if at most two attempts
  fail, each with a transient error (a timeout, a lost connection, a deadlock or a serialization
  failure, a restarting server); the world then differs by that one effect.  A permanent error ends
  the loop after a single attempt.
\<close>

theorem retry_survives:
  assumes "w_faults w = map Fail_before es @ No_fault # fs" and "length es \<le> 2"
    and "\<forall>e \<in> set es. \<not> is_permanent_db_failure e" and "op (w_db w) = Inr (x, d)"
    and "is_permanent_db_failure e" and "w_faults v = Fail_before e # gs"
  shows "db_retry op w = (Inr x, w\<lparr>w_faults := fs, w_db := d\<rparr>)
     \<and> db_retry op v = (Inl e, v\<lparr>w_faults := gs\<rparr>)"
proof -
  have "db_retry_n n op w = (Inr x, w\<lparr>w_faults := fs, w_db := d\<rparr>)" if "length es \<le> n" for n
    using assms(1,3,4) that
  proof (induction es arbitrary: w n)
    case Nil
    then have "db_attempt op w = (Inr x, w\<lparr>w_faults := fs, w_db := d\<rparr>)"
      by (intro attempt_No_fault) simp_all
    then show ?case by (cases n) simp_all
  next
    case (Cons a es)
    obtain k where k: "n = Suc k" using Cons.prems(4) by (cases n) auto
    have at: "db_attempt op w = (Inl a, w\<lparr>w_faults := map Fail_before es @ No_fault # fs\<rparr>)"
      using Cons.prems(1) by (intro attempt_Fail_before) simp
    have "db_retry_n k op (w\<lparr>w_faults := map Fail_before es @ No_fault # fs\<rparr>) =
        (Inr x, (w\<lparr>w_faults := map Fail_before es @ No_fault # fs\<rparr>)\<lparr>w_faults := fs, w_db := d\<rparr>)"
      by (rule Cons.IH) (use Cons.prems k in auto)
    then show ?case using at Cons.prems(2) k by simp
  qed
  then have "db_retry op w = (Inr x, w\<lparr>w_faults := fs, w_db := d\<rparr>)"
    using assms(2) by (simp add: db_retry_def RETRY_MAX_ATTEMPTS_def)
  moreover have "db_retry op v = (Inl e, v\<lparr>w_faults := gs\<rparr>)"
    using attempt_Fail_before [OF assms(6), of op] assms(5)
    by (simp add: db_retry_def RETRY_MAX_ATTEMPTS_def numeral_2_eq_2)
  ultimately show ?thesis by simp
qed

definition sample_world :: "bool list \<Rightarrow> fault list \<Rightarrow> world" where
  "sample_world os fs =
     \<lparr>w_redis = \<lparr>kv = Map.empty, clock = 0, outages = os\<rparr>, w_db = one_server, w_faults = fs, w_log = []\<rparr>"

theorem retry_survives_witness:
  "let w = sample_world [] [Fail_before (DBAPIError (Some ''40P01'')), Fail_before TimeoutError, No_fault]
   in db_retry (\<lambda>d. Inr (0 :: int, d)) w = (Inr 0, w\<lparr>w_faults := []\<rparr>)"
proof -
  define w where "w = sample_world [] [Fail_before (DBAPIError (Some ''40P01'')), Fail_before TimeoutError, No_fault]"
  have "db_retry (\<lambda>d. Inr (0 :: int, d)) w = (Inr 0, w\<lparr>w_faults := [], w_db := w_db w\<rparr>)"
    using retry_survives [of w "[DBAPIError (Some ''40P01''), TimeoutError]" "[]" "\<lambda>d. Inr (0 :: int, d)" 0 "w_db w"
        IntegrityError "sample_world [] [Fail_before IntegrityError]" "[]"]
    by (simp add: w_def sample_world_def is_permanent_db_failure_def RETRYABLE_SQLSTATES_def)
  then show ?thesis unfolding w_def [symmetric] Let_def by simp
qed

section \<open>Idempotency of the handlers\<close>

lemma db_attempt_redis: "w_redis (snd (db_attempt op w)) = w_redis w"
  by (simp add: db_attempt_def Let_def split: list.split fault.split sum.split prod.split)

lemma db_retry_n_redis: "w_redis (snd (db_retry_n n op w)) = w_redis w"
proof (induction n arbitrary: w)
  case (Suc n)
  then show ?case using db_attempt_redis [of op w] by (auto split: prod.split sum.split)
qed (simp add: db_attempt_redis)

lemma db_retry_redis: "db_retry op w = (r, w') \<Longrightarrow> w_redis w' = w_redis w"
  using db_retry_n_redis [of "RETRY_MAX_ATTEMPTS - 1" op w] by (simp add: db_retry_def)

lemma log_it_db [simp]: "w_db (log_it l w) = w_db w" "w_redis (log_it l w) = w_redis w"
    "w_faults (log_it l w) = w_faults w"
  by (simp_all add: log_it_def)

lemma on_redis_db [simp]: "w_db (snd (on_redis f w)) = w_db w" "w_faults (snd (on_redis f w)) = w_faults w"
  by (simp_all add: on_redis_def split: prod.split)

lemma on_redis_db': "on_redis f w = (x, w') \<Longrightarrow> w_db w' = w_db w"
  using on_redis_db(1) [of f w] by simp

lemma check_idempotent_db: "check_idempotent i w = (b, w') \<Longrightarrow> w_db w' = w_db w"
  by (auto simp: check_idempotent_def split: prod.splits dest: on_redis_db')

lemma time_warn_db: "time_warn_allowed a w = (b, w') \<Longrightarrow> w_db w' = w_db w"
  by (auto simp: time_warn_allowed_def split: prod.splits dest: on_redis_db')

lemma log_time_db [simp]: "w_db (log_time_invariants m w) = w_db w"
  by (auto simp: log_time_invariants_def Let_def split: option.split prod.split bool.split
      dest: time_warn_db)

lemma track_db [simp]: "w_db (track_agent_restart s a w) = w_db w"
  by (auto simp: track_agent_restart_def Let_def split: option.split prod.split dest!: on_redis_db')

text \<open>What the metrics handler does to the database.\<close>

lemma store_metrics_db:
  assumes "store_metrics m w = (r, w')"
  shows "w_db w' = w_db w \<or>
    (\<exists>v. save_metrics (msg_agent_id m) (build_placeholder_inventory m) (to_metric_create m) (w_db w) = Inr (v, w_db w'))"
proof -
  obtain b w1 where c: "check_idempotent (msg_message_id m) w = (b, w1)" by (rule prod.exhaust)
  have d1: "w_db w1 = w_db w" by (rule check_idempotent_db [OF c])
  let ?op = "save_metrics (msg_agent_id m) (build_placeholder_inventory m) (to_metric_create m)"
  let ?w2 = "log_time_invariants m w1"
  obtain r3 w3 where q: "db_retry ?op ?w2 = (r3, w3)" by (rule prod.exhaust)
  have eff: "w_db w3 = w_db w \<or> (\<exists>v. ?op (w_db w) = Inr (v, w_db w3))"
    using metrics_op.retry_effect [OF q] d1 by auto
  have "w_db w' = w_db w1 \<or> w_db w' = w_db w3"
    using assms c q by (cases b) (auto simp: store_metrics_def Let_def split: sum.splits prod.splits if_splits)
  with eff d1 show ?thesis by auto
qed

lemma store_metrics_committed:
  assumes "store_metrics m w = (Inr (), w')" and "fst (check_idempotent (msg_message_id m) w)"
  shows "\<exists>v. save_metrics (msg_agent_id m) (build_placeholder_inventory m) (to_metric_create m) (w_db w') = Inr (v, w_db w')"
proof -
  obtain w1 where c: "check_idempotent (msg_message_id m) w = (True, w1)"
    using assms(2) by (cases "check_idempotent (msg_message_id m) w") auto
  let ?op = "save_metrics (msg_agent_id m) (build_placeholder_inventory m) (to_metric_create m)"
  obtain r3 w3 where q: "db_retry ?op (log_time_invariants m w1) = (r3, w3)" by (rule prod.exhaust)
  obtain y where y: "r3 = Inr y"
    using assms(1) c q by (cases r3) (simp_all add: store_metrics_def Let_def)
  have "w_db w' = w_db w3"
    using assms(1) c q y by (auto simp: store_metrics_def Let_def split: prod.splits if_splits)
  then show ?thesis using metrics_op.retry_stable [OF q [unfolded y]] by auto
qed

text \<open>
  Claim C10: metrics are stored once.  When the handler has accepted and stored a metrics
  message, handling the same message again changes nothing in the database, whatever the state of
  Redis (expired or lost keys, outages) and whatever faults the new attempts meet.
\<close>

theorem metrics_redelivery:
  assumes "store_metrics m w = (Inr (), w1)" and "fst (check_idempotent (msg_message_id m) w)"
    and "w_db w2 = w_db w1"
  shows "w_db (snd (store_metrics m w2)) = w_db w1"
proof -
  obtain v where v: "save_metrics (msg_agent_id m) (build_placeholder_inventory m) (to_metric_create m) (w_db w1) = Inr (v, w_db w1)"
    using store_metrics_committed [OF assms(1,2)] by blast
  obtain r w3 where s: "store_metrics m w2 = (r, w3)" by (rule prod.exhaust)
  show ?thesis using store_metrics_db [OF s] v assms(3) s by auto
qed

lemma attempt_clean: "w_faults w = [] \<Longrightarrow> op (w_db w) = Inr (x, d) \<Longrightarrow> db_retry op w = (Inr x, w\<lparr>w_db := d\<rparr>)"
  by (simp add: db_retry_def RETRY_MAX_ATTEMPTS_def numeral_2_eq_2 db_attempt_def)

text \<open>A message without measurements.\<close>

definition sample_metrics :: MetricsInput where
  "sample_metrics =
     \<lparr>msg_schema_version = ''2.0'', msg_message_id = ''m1'', msg_collected_at = 50, msg_composite_id = None,
      msg_machine_id = None, msg_agent_version = None, msg_boot_time = None, msg_agent_started_at = None,
      msg_os_family = ''linux'', msg_agent_id = ''a1'', system_cpu = None, system_memory = None,
      system_disk = None, system_network = None, system_paging = None, system_filesystem = None,
      system_pressure = None, system_cgroup = None\<rparr>"

theorem metrics_redelivery_witness:
  "\<exists>w1. store_metrics sample_metrics (sample_world [] []) = (Inr (), w1)
     \<and> w_db (snd (store_metrics sample_metrics (w1\<lparr>w_redis := \<lparr>kv = Map.empty, clock = 9, outages = [True]\<rparr>\<rparr>))) = w_db w1"
proof -
  let ?w = "sample_world [] []"
  obtain w1 where c: "check_idempotent (msg_message_id sample_metrics) ?w = (True, w1)" and f: "w_faults w1 = []"
    by (simp add: check_idempotent_def on_redis_def safe_set_nx_def next_outage_def redis_get_def sample_world_def)
  have lt: "log_time_invariants sample_metrics w1 = w1"
    by (simp add: log_time_invariants_def sample_metrics_def)
  obtain sid new res d' where s: "save_metrics (msg_agent_id sample_metrics) (build_placeholder_inventory sample_metrics)
      (to_metric_create sample_metrics) (w_db w1) = Inr ((sid, new, res), d')"
    using save_metrics_ok [OF placeholder_agent] by metis
  have "fst (store_metrics sample_metrics ?w) = Inr ()"
    using c lt attempt_clean [OF f, of "save_metrics (msg_agent_id sample_metrics)
        (build_placeholder_inventory sample_metrics) (to_metric_create sample_metrics)" _ d', OF s]
    by (simp add: store_metrics_def Let_def)
  then have st: "store_metrics sample_metrics ?w = (Inr (), snd (store_metrics sample_metrics ?w))"
    by (metis prod.collapse)
  show ?thesis
    using metrics_redelivery [OF st, of "(snd (store_metrics sample_metrics ?w))\<lparr>w_redis :=
        \<lparr>kv = Map.empty, clock = 9, outages = [True]\<rparr>\<rparr>"] c st by auto
qed

text \<open>
  The first line of defence is at most once.  A message whose database work
  failed is rejected with its idempotency key already set, and its database effect is none or complete;
  when the broker or an operator redelivers it before the key expires (here at the same clock, with Redis
  reachable), it is acknowledged as a duplicate and not stored.
\<close>

theorem rejected_not_retried:
  assumes "outages (w_redis w) = []" and "store_metrics m w = (Inl e, w1)"
    and "msg_agent_started_at m = None"
  shows "\<exists>w2. store_metrics m w1 = (Inr (), log_it (L_duplicate (msg_message_id m)) w2) \<and> w_db w2 = w_db w1"
proof -
  let ?k = "redis_key_idempotent (uuid_hex (msg_message_id m))"
  obtain b v where c: "check_idempotent (msg_message_id m) w = (b, v)" by (rule prod.exhaust)
  have b: "b" using assms(2) c by (cases b) (simp_all add: store_metrics_def)
  have red: "w_redis v = redis_put ?k ''1'' (Some redis_ttl_idempotent) (w_redis w)" "outages (w_redis v) = []"
    using c b assms(1)
    by (auto simp: check_idempotent_def on_redis_def safe_set_nx_def next_outage_def redis_put_def
        split: if_splits)
  have lt: "log_time_invariants m v = v" using assms(3) by (simp add: log_time_invariants_def)
  obtain r3 w3 where q: "db_retry (save_metrics (msg_agent_id m) (build_placeholder_inventory m)
      (to_metric_create m)) v = (r3, w3)" by (rule prod.exhaust)
  have "r3 = Inl e" "w1 = w3"
    using assms(2) c b lt q by (auto simp: store_metrics_def Let_def split: sum.splits)
  moreover have "w_redis w3 = w_redis v" using db_retry_redis [OF q] .
  ultimately have r1: "w_redis w1 = w_redis v" by simp
  have "redis_get ?k (w_redis w1) \<noteq> None"
    by (simp add: r1 red store_simps redis_ttl_idempotent_def)
  then have "check_idempotent (msg_message_id m) w1 = (False, w1\<lparr>w_redis := w_redis w1\<rparr>)"
    using red(2) r1 by (simp add: check_idempotent_def on_redis_def safe_set_nx_def next_outage_def)
  then show ?thesis by (auto simp: store_metrics_def)
qed

theorem rejected_not_retried_witness:
  "\<exists>w1 w2. store_metrics sample_metrics (sample_world [] [Fail_before IntegrityError]) = (Inl IntegrityError, w1)
     \<and> store_metrics sample_metrics w1 = (Inr (), log_it (L_duplicate ''m1'') w2)"
proof -
  let ?w = "sample_world [] [Fail_before IntegrityError]"
  have id: "msg_message_id sample_metrics = ''m1''" and nt: "msg_agent_started_at sample_metrics = None"
    by (simp_all add: sample_metrics_def)
  obtain v where c: "check_idempotent ''m1'' ?w = (True, v)" and f: "w_faults v = [Fail_before IntegrityError]"
    by (simp add: check_idempotent_def on_redis_def safe_set_nx_def next_outage_def redis_get_def sample_world_def)
  have "db_retry op v = (Inl IntegrityError, v\<lparr>w_faults := []\<rparr>)"
    for op :: "db \<Rightarrow> db_error + (int \<times> bool \<times> MetricInsertResult) \<times> db"
    by (simp add: db_retry_def RETRY_MAX_ATTEMPTS_def numeral_2_eq_2 attempt_Fail_before [OF f]
        is_permanent_db_failure_def)
  then have "store_metrics sample_metrics ?w = (Inl IntegrityError, v\<lparr>w_faults := []\<rparr>)"
    using c nt id by (simp add: store_metrics_def Let_def log_time_invariants_def)
  moreover from rejected_not_retried [OF _ this nt] id
  have "\<exists>w2. store_metrics sample_metrics (v\<lparr>w_faults := []\<rparr>) = (Inr (), log_it (L_duplicate ''m1'') w2)"
    by (auto simp: sample_world_def)
  ultimately show ?thesis by blast
qed

section \<open>Task results and log texts\<close>

lemma tu_sel [simp]:
  "tu_public_id (task_update c p m) = p" "tu_exit_code (task_update c p m) = tr_exit_code m"
  "tu_signal_no (task_update c p m) = tr_signal_no m"
  "(tu_status (task_update c p m), tu_failure_reason (task_update c p m)) =
     effective_task_result (tr_status m) (tr_failure_reason m) (tr_exit_code m) (Some (msg_os_family m))
       (tr_os_version m) (tr_os_id m) c (tr_task_policy m)"
  by (simp_all add: task_update_def split: prod.split)

text \<open>
  A task result whose exit code does not fit the 16-bit column is rejected
  without any effect on the database, though the wire contract allows every integer.  Windows status
  codes such as 3221225477 are of this kind; the task then stays pending until its deadline.
\<close>

theorem wide_exit_code_lost:
  assumes "tr_exit_code m = Some c" and "c < - 32768 \<or> 32767 < c"
    and "uuid_str (tr_task_id m) = Some u" and "fst (check_idempotent (msg_message_id m) w)"
    and "w_faults w = []"
  shows "\<exists>w'. store_task_result codes m w = (Inl DataError, w') \<and> w_db w' = w_db w"
proof -
  obtain w1 where c: "check_idempotent (msg_message_id m) w = (True, w1)"
    using assms(4) by (cases "check_idempotent (msg_message_id m) w") auto
  have "w_faults w1 = []"
    using c assms(5) by (auto simp: check_idempotent_def on_redis_def split: prod.splits)
  moreover have "complete_task (task_update codes u m) d = Inl DataError" for d
    using assms(1,2) by (auto simp: complete_task_def Let_def smallint_def)
  ultimately have "db_retry (complete_task (task_update codes u m)) w1 = (Inl DataError, w1)"
    by (simp add: db_retry_def RETRY_MAX_ATTEMPTS_def numeral_2_eq_2 db_attempt_def is_permanent_db_failure_def)
  with c assms(3) check_idempotent_db [OF c] show ?thesis
    by (simp add: store_task_result_def Let_def)
qed

definition sample_result :: TaskResultInput where
  "sample_result =
     \<lparr>msg_schema_version = ''2.0'', msg_message_id = ''m2'', msg_collected_at = 50, msg_composite_id = None,
      msg_machine_id = None, msg_agent_version = None, msg_boot_time = None, msg_agent_started_at = None,
      msg_os_family = ''windows'', tr_agent_id = None, tr_hostname = ''h'', tr_os_id = None, tr_os_version = None,
      tr_os_codename = None, tr_task_id = ''0123456789abcdef0123456789ABCDEF'', tr_status = ''failure'',
      tr_failure_reason = Some ''script_failed'', tr_exit_code = Some 3221225477, tr_signal_no = None,
      tr_task_policy = None, tr_duration_ms = 5, tr_stdout_tail = [], tr_stderr_tail = [], tr_completed_at = 60\<rparr>"

theorem wide_exit_code_lost_witness:
  "\<exists>w'. store_task_result Map.empty sample_result (sample_world [] []) = (Inl DataError, w')"
proof -
  have "uuid_str (tr_task_id sample_result) = Some ''01234567-89ab-cdef-0123-456789abcdef''" by code_simp
  moreover have "fst (check_idempotent (msg_message_id sample_result) (sample_world [] []))"
    by (simp add: check_idempotent_def on_redis_def safe_set_nx_def next_outage_def redis_get_def sample_world_def)
  ultimately show ?thesis
    using wide_exit_code_lost [of sample_result 3221225477 _ "sample_world [] []" Map.empty]
    by (auto simp: sample_result_def sample_world_def)
qed



text \<open>
  Whatever an agent sends as an error message, the logged text has printable
  characters only (so no forged log lines) and at most 501 of them, is never empty, and a short
  printable message is logged unchanged.
\<close>

theorem log_text_safe:
  "(let t = str_or (Some (sanitize_log_text s ERROR_MESSAGE_LOG_MAX)) ''(empty)'' in
      list_all isprintable t \<and> length t \<le> 501 \<and> t \<noteq> [])
   \<and> sanitize_log_text (filter isprintable (take n s)) (length s) = filter isprintable (take n s)"
proof -
  have p: "list_all isprintable ''(empty)''" "isprintable CHR ''~''" by code_simp+
  have "list_all isprintable (sanitize_log_text s k)" for k
    using p(2) by (auto simp: sanitize_log_text_def Let_def list_all_iff dest: in_set_takeD)
  moreover have "length (sanitize_log_text s k) \<le> k + 1" for k
    by (simp add: sanitize_log_text_def Let_def)
  moreover have "length (filter isprintable (take n s)) \<le> length s"
    by (rule order.trans [OF length_filter_le]) simp
  ultimately show ?thesis
    using p(1) by (simp add: str_or_def ERROR_MESSAGE_LOG_MAX_def sanitize_log_text_def Let_def)
qed

end
