(* ===== verification/PyJson.thy ===== *)
theory PyJson
  imports WireTypes "HOL-Library.List_Lexorder" "HOL-Library.Char_ord"
begin

text \<open>
  JSON texts and the accessors of \<open>json_types.py\<close>.  \<open>dumps\<close> is \<open>json.dumps(x, sort_keys=True,
  separators=(",", ":"))\<close> with Python's ASCII escapes; the text of a float is an argument.  The lemmas
  show that a dumped string can be cut off the front of a text in only one way, which makes the
  canonical text of a report request unambiguous.
\<close>

section \<open>Accessors\<close>

text \<open>A JSON object, the value of a JSONB column.\<close>

type_synonym JsonObject = "(string \<times> json) list"

definition json_member :: "json \<Rightarrow> string \<Rightarrow> json" where
  "json_member d key =
     (case d of JObj kvs \<Rightarrow> (case map_of kvs key of None \<Rightarrow> JNull | Some v \<Rightarrow> v) | _ \<Rightarrow> JNull)"

definition json_list :: "json \<Rightarrow> string \<Rightarrow> json list" where
  "json_list d key = (case json_member d key of JList xs \<Rightarrow> xs | _ \<Rightarrow> [])"

definition json_obj :: "json \<Rightarrow> string \<Rightarrow> JsonObject" where
  "json_obj d key = (case json_member d key of JObj kvs \<Rightarrow> kvs | _ \<Rightarrow> [])"

section \<open>Texts\<close>

definition hex_char :: "nat \<Rightarrow> char" where
  "hex_char n = (if n < 10 then char_of (48 + n) else char_of (87 + n))"

definition ESCAPE_DCT :: "(char \<times> char) list" where
  "ESCAPE_DCT =
     [(CHR 0x5C, CHR 0x5C), (CHR 0x22, CHR 0x22), (CHR 0x08, CHR ''b''), (CHR 0x0C, CHR ''f''),
      (CHR 0x0A, CHR ''n''), (CHR 0x0D, CHR ''r''), (CHR 0x09, CHR ''t'')]"

definition esc_char :: "char \<Rightarrow> string" where
  "esc_char c =
     (case map_of ESCAPE_DCT c of
        Some e \<Rightarrow> [CHR 0x5C, e]
      | None \<Rightarrow>
          let n = of_char c :: nat in
          if 32 \<le> n \<and> n \<le> 126 then [c]
          else [CHR 0x5C, CHR ''u'', CHR ''0'', CHR ''0'', hex_char (n div 16), hex_char (n mod 16)])"

definition dump_str :: "string \<Rightarrow> string" where
  "dump_str s = CHR 0x22 # concat (map esc_char s) @ [CHR 0x22]"

fun join :: "string \<Rightarrow> string list \<Rightarrow> string" where
  "join sep [] = []"
| "join sep [x] = x"
| "join sep (x # y # xs) = x @ sep @ join sep (y # xs)"

fun dumps :: "(pyfloat \<Rightarrow> string) \<Rightarrow> json \<Rightarrow> string" where
  "dumps fltext JNull = ''null''"
| "dumps fltext (JBool b) = (if b then ''true'' else ''false'')"
| "dumps fltext (JInt i) = show_int i"
| "dumps fltext (JFloat x) = fltext x"
| "dumps fltext (JStr s) = dump_str s"
| "dumps fltext (JList xs) = ''['' @ join '','' (map (dumps fltext) xs) @ '']''"
| "dumps fltext (JObj kvs) =
     ''{'' @ join '','' (map (\<lambda>(k, v). dump_str k @ '':'' @ v)
                 (sort_key fst (map (\<lambda>(k, v). (k, dumps fltext v)) kvs))) @ ''}''"

section \<open>Unambiguous strings\<close>

lemma hex_char_inject:
  assumes "m < 16" "n < 16" shows "hex_char m = hex_char n \<longleftrightarrow> m = n"
proof -
  have v: "(of_char (hex_char k) :: nat) = (if k < 10 then 48 + k else 87 + k)" if "k < 16" for k
    unfolding hex_char_def using that by (cases "k < 10") (simp_all only: if_True if_False of_char_of, simp_all)
  show ?thesis
  proof
    assume "hex_char m = hex_char n"
    then have "(of_char (hex_char m) :: nat) = of_char (hex_char n)" by simp
    then show "m = n" unfolding v [OF assms(1)] v [OF assms(2)] using assms by (simp split: if_splits)
  qed simp
qed

lemma short_escape:
  assumes "map_of ESCAPE_DCT c = Some e"
  shows "(c, e) \<in> set ESCAPE_DCT" "e \<noteq> CHR ''u''"
proof -
  show m: "(c, e) \<in> set ESCAPE_DCT" using assms by (rule map_of_SomeD)
  have "list_all (\<lambda>(c, e). e \<noteq> CHR ''u'') ESCAPE_DCT" by code_simp
  with m show "e \<noteq> CHR ''u''" by (auto simp: list_all_iff)
qed

lemma escape_inject:
  assumes "map_of ESCAPE_DCT c = Some e" "map_of ESCAPE_DCT d = Some e" shows "c = d"
proof -
  have "distinct (map snd ESCAPE_DCT)" by code_simp
  then show ?thesis using short_escape(1) [OF assms(1)] short_escape(1) [OF assms(2)]
    by (metis distinct_map inj_onD snd_conv prod.inject)
qed

text \<open>A backslash or quote is always escaped.\<close>

lemma unescaped:
  assumes "map_of ESCAPE_DCT c = None" shows "c \<noteq> CHR 0x5C" "c \<noteq> CHR 0x22"
  using assms by (auto simp: ESCAPE_DCT_def)

lemma esc_char_neq_quote: "esc_char c @ x \<noteq> CHR 0x22 # y"
  by (auto simp: esc_char_def Let_def split: option.split dest: unescaped)

text \<open>The first characters of an escape tell the character.\<close>

lemma esc_char_cancel: "esc_char c @ x = esc_char d @ y \<longleftrightarrow> c = d \<and> x = y"
proof
  assume e: "esc_char c @ x = esc_char d @ y"
  let ?n = "of_char c :: nat" and ?m = "of_char d :: nat"
  have u: "c = d" if "hex_char (?n div 16) = hex_char (?m div 16)" "hex_char (?n mod 16) = hex_char (?m mod 16)"
  proof -
    have "?n < 256" "?m < 256" by simp_all
    then have "?n div 16 < 16" "?m div 16 < 16" by (simp_all add: less_mult_imp_div_less)
    then have "?n div 16 = ?m div 16" "?n mod 16 = ?m mod 16" using that by (simp_all add: hex_char_inject)
    then have "?n = ?m" by (metis div_mult_mod_eq)
    then show "c = d" by simp
  qed
  have "c = d"
  proof (cases "map_of ESCAPE_DCT c"; cases "map_of ESCAPE_DCT d")
    assume n: "map_of ESCAPE_DCT c = None" "map_of ESCAPE_DCT d = None"
    with e u unescaped [OF n(1)] unescaped [OF n(2)] show ?thesis by (auto simp: esc_char_def Let_def split: if_splits)
  next
    fix b assume n: "map_of ESCAPE_DCT c = None" "map_of ESCAPE_DCT d = Some b"
    with e unescaped [OF n(1)] short_escape(2) [OF n(2)] show ?thesis by (auto simp: esc_char_def Let_def split: if_splits)
  next
    fix b assume n: "map_of ESCAPE_DCT c = Some b" "map_of ESCAPE_DCT d = None"
    with e unescaped [OF n(2)] short_escape(2) [OF n(1)] show ?thesis by (auto simp: esc_char_def Let_def split: if_splits)
  next
    fix a b assume n: "map_of ESCAPE_DCT c = Some a" "map_of ESCAPE_DCT d = Some b"
    with e have "a = b" by (simp add: esc_char_def)
    with n show ?thesis by (metis escape_inject)
  qed
  with e show "c = d \<and> x = y" by simp
qed simp

lemma dump_str_cancel [simp]: "dump_str s @ x = dump_str t @ y \<longleftrightarrow> s = t \<and> x = y"
proof -
  have "concat (map esc_char s) @ CHR 0x22 # x = concat (map esc_char t) @ CHR 0x22 # y \<longleftrightarrow> s = t \<and> x = y"
  proof (induction s arbitrary: t)
    case Nil
    show ?case
    proof (cases t)
      case (Cons d ds)
      then show ?thesis using esc_char_neq_quote [of d "concat (map esc_char ds) @ CHR 0x22 # y" x] by simp
    qed simp
  next
    case (Cons c s)
    show ?case
    proof (cases t)
      case Nil
      then show ?thesis using esc_char_neq_quote [of c "concat (map esc_char s) @ CHR 0x22 # x" y] by simp
    next
      case (Cons d ds)
      then show ?thesis using Cons.IH by (simp add: esc_char_cancel)
    qed
  qed
  then show ?thesis by (simp add: dump_str_def)
qed

lemma dump_str_inject [simp]: "dump_str s = dump_str t \<longleftrightarrow> s = t"
  using dump_str_cancel [of s "[]" t "[]"] by simp

lemma dump_str_nonempty [simp]: "dump_str s \<noteq> []" "dump_str s = c # x \<Longrightarrow> c = CHR 0x22"
  by (simp_all add: dump_str_def)

text \<open>A dumped list of strings, cut off at its bracket.\<close>

fun dump_tail :: "string list \<Rightarrow> string" where
  "dump_tail [] = []"
| "dump_tail (x # xs) = '','' @ dump_str x @ dump_tail xs"

lemma join_dump: "join '','' (map dump_str (x # xs)) = dump_str x @ dump_tail xs"
proof (induction xs arbitrary: x)
  case (Cons y ys)
  then show ?case by (simp only: list.map join.simps dump_tail.simps)
qed simp

lemma dump_tail_cancel: "dump_tail xs @ '']'' @ r = dump_tail ys @ '']'' @ q \<longleftrightarrow> xs = ys \<and> r = q"
proof (induction xs arbitrary: ys)
  case Nil
  show ?case by (cases ys) auto
next
  case (Cons x xs)
  then show ?case by (cases ys) auto
qed

lemma join_strs_cancel:
  "join '','' (map dump_str xs) @ '']'' @ r = join '','' (map dump_str ys) @ '']'' @ q \<longleftrightarrow> xs = ys \<and> r = q"
proof (cases xs; cases ys)
  fix x xs' y ys' assume "xs = x # xs'" "ys = y # ys'"
  then show ?thesis by (simp only: join_dump append_assoc dump_str_cancel dump_tail_cancel) auto
next
  fix x xs' assume "xs = x # xs'" "ys = []"
  then show ?thesis by (simp only: join_dump) (simp add: dump_str_def)
next
  fix y ys' assume "xs = []" "ys = y # ys'"
  then show ?thesis by (simp only: join_dump) (simp add: dump_str_def)
qed simp

end
