(* ===== verification/ReportJobs.thy ===== *)
theory ReportJobs
  imports PyJson PyDateTime CollectRepo
begin

text \<open>
  The table of report jobs and the service in front of it: the row of \<open>db/models/diagnostic_job.py\<close>,
  the statements of \<open>db/repositories/diagnostic_sql.py\<close>, the request parameters and their hash
  (\<open>web/services/report_result.py\<close>) and the publishing functions of
  \<open>web/services/diagnostic_service.py\<close>.  The statement time \<open>now()\<close>, the generated UUID and the digest
  are arguments.  Where another transaction may commit between two statements of one function, what it
  does to the table is an argument too.
\<close>

section \<open>Rows\<close>

record DiagnosticJobCreate =
  jc_scope :: string
  jc_input_params :: JsonObject
  jc_input_hash :: string
  jc_job_type :: string
  jc_requested_by :: "string option"

record DiagnosticJob =
  j_id :: string
  j_job_type :: string
  j_scope :: string
  j_input_params :: JsonObject
  j_input_hash :: string
  j_status :: string
  j_progress_stage :: "string option"
  j_result :: "JsonObject option"
  j_error_message :: "string option"
  j_created_at :: datetime
  j_started_at :: "datetime option"
  j_finished_at :: "datetime option"
  j_requested_by :: "string option"

type_synonym jobs = "DiagnosticJob list"

text \<open>The partial unique index \<open>uq_diagnostic_jobs_active_per_input\<close>.\<close>

definition is_active :: "DiagnosticJob \<Rightarrow> bool" where
  "is_active j = (j_status j = ''pending'' \<or> j_status j = ''running'')"

definition active_key :: "DiagnosticJob \<Rightarrow> string \<times> string \<times> string" where
  "active_key j = (j_scope j, j_input_hash j, j_job_type j)"

definition active_unique :: "jobs \<Rightarrow> bool" where
  "active_unique js = distinct (map active_key (filter is_active js))"

definition create_key :: "DiagnosticJobCreate \<Rightarrow> string \<times> string \<times> string" where
  "create_key x = (jc_scope x, jc_input_hash x, jc_job_type x)"

section \<open>Statements\<close>

definition new_job :: "string \<Rightarrow> datetime \<Rightarrow> DiagnosticJobCreate \<Rightarrow> DiagnosticJob" where
  "new_job uuid now x =
     \<lparr>j_id = uuid, j_job_type = jc_job_type x, j_scope = jc_scope x, j_input_params = jc_input_params x,
      j_input_hash = jc_input_hash x, j_status = ''pending'', j_progress_stage = Some ''queued'',
      j_result = None, j_error_message = None, j_created_at = now, j_started_at = None,
      j_finished_at = None, j_requested_by = jc_requested_by x\<rparr>"

text \<open>
  \<open>INSERT ... ON CONFLICT DO NOTHING RETURNING id\<close> on the partial index; a repeated primary key is not
  covered by the conflict clause and raises.
\<close>

definition enqueue :: "string \<Rightarrow> datetime \<Rightarrow> DiagnosticJobCreate \<Rightarrow> jobs \<Rightarrow> db_error + string option \<times> jobs" where
  "enqueue uuid now x js =
     (if create_key x \<in> active_key ` {j \<in> set js. is_active j} then Inr (None, js)
      else if uuid \<in> j_id ` set js then Inl IntegrityError
      else Inr (Some uuid, js @ [new_job uuid now x]))"

definition get_active_by_hash :: "string \<Rightarrow> string \<Rightarrow> string \<Rightarrow> jobs \<Rightarrow> string option" where
  "get_active_by_hash scope input_hash job_type js =
     map_option j_id (find (\<lambda>j. active_key j = (scope, input_hash, job_type) \<and> is_active j) js)"

definition get_by_id :: "string \<Rightarrow> jobs \<Rightarrow> DiagnosticJob option" where
  "get_by_id job_id js = find (\<lambda>j. j_id j = job_id) js"

definition update_job :: "string \<Rightarrow> (DiagnosticJob \<Rightarrow> DiagnosticJob) \<Rightarrow> jobs \<Rightarrow> jobs" where
  "update_job job_id f js = map (\<lambda>j. if j_id j = job_id then f j else j) js"

definition mark_succeeded :: "datetime \<Rightarrow> string \<Rightarrow> JsonObject \<Rightarrow> jobs \<Rightarrow> jobs" where
  "mark_succeeded now job_id result =
     update_job job_id (\<lambda>j. j\<lparr>j_status := ''succeeded'', j_result := Some result, j_finished_at := Some now,
                              j_progress_stage := None\<rparr>)"

definition mark_failed :: "datetime \<Rightarrow> string \<Rightarrow> string \<Rightarrow> jobs \<Rightarrow> jobs" where
  "mark_failed now job_id error_message =
     update_job job_id (\<lambda>j. j\<lparr>j_status := ''failed'', j_error_message := Some error_message,
                              j_finished_at := Some now, j_progress_stage := None\<rparr>)"

text \<open>
  \<open>SELECT ... ORDER BY created_at FOR UPDATE SKIP LOCKED LIMIT 1\<close>: the oldest pending row that no other
  transaction has locked.
\<close>

definition claimable :: "string list \<Rightarrow> jobs \<Rightarrow> jobs" where
  "claimable locked js = sort_key j_created_at (filter (\<lambda>j. j_status j = ''pending'' \<and> j_id j \<notin> set locked) js)"

definition start_job :: "datetime \<Rightarrow> DiagnosticJob \<Rightarrow> DiagnosticJob" where
  "start_job now j = j\<lparr>j_status := ''running'', j_started_at := Some now, j_progress_stage := Some ''running''\<rparr>"

definition claim_next_pending :: "string list \<Rightarrow> datetime \<Rightarrow> jobs \<Rightarrow> DiagnosticJob option \<times> jobs" where
  "claim_next_pending locked now js =
     (case claimable locked js of
        [] \<Rightarrow> (None, js)
      | j # _ \<Rightarrow> (Some (start_job now j), update_job (j_id j) (start_job now) js))"

definition is_stale :: "int \<Rightarrow> datetime \<Rightarrow> DiagnosticJob \<Rightarrow> bool" where
  "is_stale stale_seconds now j =
     (j_status j = ''running'' \<and> is_some_and (j_started_at j) (\<lambda>s. s < now - stale_seconds * 1000000))"

definition requeue_job :: "DiagnosticJob \<Rightarrow> DiagnosticJob" where
  "requeue_job j = j\<lparr>j_status := ''pending'', j_started_at := None, j_progress_stage := Some ''requeued''\<rparr>"

definition recover_stale_running :: "int \<Rightarrow> datetime \<Rightarrow> jobs \<Rightarrow> nat \<times> jobs" where
  "recover_stale_running stale_seconds now js =
     (length (filter (is_stale stale_seconds now) js),
      map (\<lambda>j. if is_stale stale_seconds now j then requeue_job j else j) js)"

definition delete_retention :: "int \<Rightarrow> datetime \<Rightarrow> jobs \<Rightarrow> nat \<times> jobs" where
  "delete_retention older_than_days now js =
     (let expired = (\<lambda>j. is_some_and (j_finished_at j) (\<lambda>t. t < now - older_than_days * DAY)) in
      (length (filter expired js), filter (\<lambda>j. \<not> expired j) js))"

text \<open>
  The filters of \<open>list_recent\<close>: \<open>->>\<close> reads a string member, \<open>?|\<close> holds when an array has one of the
  strings as an element (or an object one of them as a key).
\<close>

definition single_match :: "string list \<Rightarrow> DiagnosticJob \<Rightarrow> bool" where
  "single_match ids j =
     (case json_member (JObj (j_input_params j)) ''server_public_id'' of JStr s \<Rightarrow> s \<in> set ids | _ \<Rightarrow> False)"

definition multi_match :: "string list \<Rightarrow> DiagnosticJob \<Rightarrow> bool" where
  "multi_match ids j =
     (case json_member (JObj (j_input_params j)) ''server_public_ids'' of
        JList xs \<Rightarrow> list_ex (\<lambda>i. JStr i \<in> set xs) ids
      | JObj kvs \<Rightarrow> list_ex (\<lambda>i. i \<in> fst ` set kvs) ids
      | JStr s \<Rightarrow> s \<in> set ids
      | _ \<Rightarrow> False)"

definition list_recent ::
  "datetime \<Rightarrow> int \<Rightarrow> string option \<Rightarrow> string list option \<Rightarrow> string option \<Rightarrow> nat \<Rightarrow> jobs \<Rightarrow> jobs" where
  "list_recent now days scope server_public_ids job_type limit js =
     take limit (sort_key (\<lambda>j. - j_created_at j)
       (filter (\<lambda>j. (0 < days \<longrightarrow> now - days * DAY < j_created_at j)
                    \<and> (str_or scope [] \<noteq> [] \<longrightarrow> j_scope j = str_or scope [])
                    \<and> (str_or job_type [] \<noteq> [] \<longrightarrow> j_job_type j = str_or job_type [])
                    \<and> (case server_public_ids of None \<Rightarrow> True | Some [] \<Rightarrow> True
                       | Some ids \<Rightarrow> single_match ids j \<or> multi_match ids j)) js))"

section \<open>Requests\<close>

text \<open>What the standard library computes for the hash: the text of a float and SHA-256 in hexadecimal.\<close>

record digest =
  dg_float :: "pyfloat \<Rightarrow> string"
  dg_sha256 :: "string \<Rightarrow> string"

definition REPORT_KIND_ENV :: string where "REPORT_KIND_ENV = ''env_report''"

definition build_report_result :: "string \<Rightarrow> json \<Rightarrow> string \<Rightarrow> JsonObject option \<Rightarrow> JsonObject" where
  "build_report_result kind snapshot view aux =
     [(''kind'', JStr kind), (''snapshot'', snapshot), (''view'', JStr view),
      (''aux'', JObj (case aux of None \<Rightarrow> [] | Some a \<Rightarrow> a))]"

definition canonical :: "digest \<Rightarrow> string \<Rightarrow> JsonObject \<Rightarrow> string" where
  "canonical dg scope input_params = scope @ ''|'' @ dumps (dg_float dg) (JObj input_params)"

definition compute_hash :: "digest \<Rightarrow> string \<Rightarrow> JsonObject \<Rightarrow> string" where
  "compute_hash dg scope input_params = dg_sha256 dg (canonical dg scope input_params)"

text \<open>
  A request time with an optional UTC offset in microseconds, and its minute in UTC.
\<close>

definition normalize_anchor :: "datetime \<Rightarrow> (datetime \<times> int option) option \<Rightarrow> datetime" where
  "normalize_anchor now at_opt =
     (let t = (case at_opt of None \<Rightarrow> now | Some (t, None) \<Rightarrow> t | Some (t, Some offset) \<Rightarrow> t - offset)
      in t div 60000000 * 60000000)"

definition build_input_params :: "string \<Rightarrow> string \<Rightarrow> string list \<Rightarrow> string \<Rightarrow> datetime \<Rightarrow> JsonObject" where
  "build_input_params view scope server_public_ids time_range anchor_at =
     [(''view'', JStr view),
      (''server_public_ids'', JList (map JStr (sort server_public_ids))),
      (''time_range'', JStr time_range),
      (''anchor_at'', JStr (isoformat anchor_at))]
     @ (if scope = ''server'' \<and> length server_public_ids = 1
        then [(''server_public_id'', JStr (hd server_public_ids))] else [])"

record report_request =
  rq_view :: string
  rq_scope :: string
  rq_server_public_ids :: "string list"
  rq_time_range :: string
  rq_anchor_at :: datetime
  rq_requested_by :: "string option"

definition request_params :: "report_request \<Rightarrow> JsonObject" where
  "request_params rq =
     build_input_params (rq_view rq) (rq_scope rq) (rq_server_public_ids rq) (rq_time_range rq) (rq_anchor_at rq)"

definition job_create :: "digest \<Rightarrow> report_request \<Rightarrow> DiagnosticJobCreate" where
  "job_create dg rq =
     \<lparr>jc_scope = rq_scope rq, jc_input_params = request_params rq,
      jc_input_hash = compute_hash dg (rq_scope rq) (request_params rq),
      jc_job_type = rq_view rq @ ''_report'', jc_requested_by = rq_requested_by rq\<rparr>"

section \<open>Service\<close>

text \<open>
  A session that inserts: the UUID and the time of its insert, and what other sessions commit between
  its insert and its lookup.
\<close>

type_synonym attempt = "string \<times> datetime \<times> (jobs \<Rightarrow> jobs)"

definition active_of :: "DiagnosticJobCreate \<Rightarrow> jobs \<Rightarrow> string option" where
  "active_of x js = get_active_by_hash (jc_scope x) (jc_input_hash x) (jc_job_type x) js"

text \<open>
  \<open>emit_report\<close>: insert and complete in one transaction; on a conflict with an active job its id is
  looked up (after whatever \<open>others\<close> committed in between) and nothing is written.  The result carries
  \<open>child_jobs\<close> only when there are any.
\<close>

definition emit_report ::
  "digest \<Rightarrow> attempt \<Rightarrow> report_request \<Rightarrow> string \<Rightarrow> json \<Rightarrow> JsonObject option \<Rightarrow> JsonObject option
   \<Rightarrow> jobs \<Rightarrow> db_error + string option \<times> jobs" where
  "emit_report dg attempt rq kind snapshot aux child_jobs js =
     (let (uuid, now, others) = attempt;
          x = job_create dg rq;
          result = build_report_result kind snapshot (rq_view rq) aux
                   @ (case child_jobs of None \<Rightarrow> [] | Some [] \<Rightarrow> [] | Some c \<Rightarrow> [(''child_jobs'', JObj c)])
      in case enqueue uuid now x js of
           Inl e \<Rightarrow> Inl e
         | Inr (None, js1) \<Rightarrow> let js2 = others js1 in Inr (active_of x js2, js2)
         | Inr (Some new_id, js1) \<Rightarrow> Inr (Some new_id, mark_succeeded now new_id result js1))"

datatype report_error = ReportEnqueueError | Db_failure db_error

text \<open>
  \<open>enqueue_report\<close>: each attempt is an insert and, on a conflict, a lookup in a session of its own.
\<close>

fun enqueue_attempts :: "DiagnosticJobCreate \<Rightarrow> attempt list \<Rightarrow> jobs \<Rightarrow> (report_error + string) \<times> jobs" where
  "enqueue_attempts x [] js = (Inl ReportEnqueueError, js)"
| "enqueue_attempts x ((uuid, now, others) # rest) js =
     (case enqueue uuid now x js of
        Inl e \<Rightarrow> (Inl (Db_failure e), js)
      | Inr (Some new_id, js1) \<Rightarrow> (Inr new_id, js1)
      | Inr (None, js1) \<Rightarrow>
          let js2 = others js1 in
          case active_of x js2 of
            Some active_id \<Rightarrow> (Inr active_id, js2)
          | None \<Rightarrow> enqueue_attempts x rest js2)"

definition ENQUEUE_MAX_ATTEMPTS :: nat where "ENQUEUE_MAX_ATTEMPTS = 2"

definition enqueue_report :: "digest \<Rightarrow> attempt list \<Rightarrow> report_request \<Rightarrow> jobs \<Rightarrow> (report_error + string) \<times> jobs" where
  "enqueue_report dg attempts rq js =
     enqueue_attempts (job_create dg rq) (take ENQUEUE_MAX_ATTEMPTS attempts) js"

definition view_of :: "string \<Rightarrow> string" where "view_of v = v @ ''_report''"

definition ids_count :: "DiagnosticJob \<Rightarrow> nat" where
  "ids_count j = length (json_list (JObj (j_input_params j)) ''server_public_ids'')"

definition list_reports ::
  "datetime \<Rightarrow> int \<Rightarrow> string \<Rightarrow> string list option \<Rightarrow> nat \<Rightarrow> string option \<Rightarrow> jobs \<Rightarrow> jobs \<times> nat" where
  "list_reports now days view server_public_ids limit scope js =
     (let repo_scope = (if scope = Some ''selection'' \<or> scope = Some ''single'' then Some ''server'' else scope);
          recent = (\<lambda>t. list_recent now days repo_scope server_public_ids (Some t) 200 js);
          merged = (if view = ''all'' then recent ''customer_report'' @ recent ''engineer_report''
                    else recent (view_of view));
          kept = (if scope = Some ''selection'' then filter (\<lambda>j. 2 \<le> ids_count j) merged
                  else if scope = Some ''single'' then filter (\<lambda>j. ids_count j = 1) merged
                  else merged);
          sorted = sort_key (\<lambda>j. - j_created_at j) kept
      in (take limit sorted, length sorted))"

end
