(* ===== verification/ReportQueue.thy ===== *)
theory ReportQueue
  imports ReportJobs
begin

text \<open>
  Correctness of the report job queue.  The first part is the invariant of the table and its
  preservation by every statement; the second the step relation of web and worker processes with row
  locks and crashes; the third the table as a first-in first-out queue.
\<close>

section \<open>Table invariant\<close>

definition job_ok :: "DiagnosticJob \<Rightarrow> bool" where
  "job_ok j =
     (j_status j \<in> {''pending'', ''running'', ''succeeded'', ''failed''}
      \<and> (is_active j \<longleftrightarrow> j_finished_at j = None)
      \<and> (j_status j = ''pending'' \<longrightarrow> j_started_at j = None)
      \<and> (j_status j = ''running'' \<longrightarrow> j_started_at j \<noteq> None)
      \<and> (j_status j = ''succeeded'' \<longrightarrow> j_result j \<noteq> None)
      \<and> (j_status j = ''failed'' \<longrightarrow> j_error_message j \<noteq> None))"

definition jobs_inv :: "jobs \<Rightarrow> bool" where
  "jobs_inv js = (distinct (map j_id js) \<and> active_unique js \<and> list_all job_ok js)"

lemma is_active_simps [simp]:
  "j_status j = ''pending'' \<Longrightarrow> is_active j" "j_status j = ''running'' \<Longrightarrow> is_active j"
  "j_status j = ''succeeded'' \<Longrightarrow> \<not> is_active j" "j_status j = ''failed'' \<Longrightarrow> \<not> is_active j"
  by (simp_all add: is_active_def)

lemma start_job_simps [simp]:
  "j_id (start_job t j) = j_id j" "active_key (start_job t j) = active_key j" "is_active (start_job t j)"
  "j_status (start_job t j) = ''running''" "j_started_at (start_job t j) = Some t"
  "j_created_at (start_job t j) = j_created_at j"
  by (simp_all add: start_job_def active_key_def)

lemma requeue_job_simps [simp]:
  "j_id (requeue_job j) = j_id j" "active_key (requeue_job j) = active_key j" "is_active (requeue_job j)"
  "j_status (requeue_job j) = ''pending''"
  by (simp_all add: requeue_job_def active_key_def)

lemma new_job_simps [simp]:
  "j_id (new_job u t x) = u" "active_key (new_job u t x) = create_key x" "j_status (new_job u t x) = ''pending''"
  "j_created_at (new_job u t x) = t" "j_started_at (new_job u t x) = None"
  by (simp_all add: new_job_def active_key_def create_key_def)

lemma new_job_ok [simp]: "job_ok (new_job u t x)"
  by (simp add: job_ok_def new_job_def is_active_def)

lemma distinct_map_subfilter:
  "distinct (map f (filter P xs)) \<Longrightarrow> distinct (map f (filter (\<lambda>x. P x \<and> Q x) xs))"
  by (induction xs) (auto split: if_splits)

text \<open>A statement that rewrites rows in place, keeps their keys, and activates none, keeps the table sound.\<close>

lemma rewrite_rows:
  assumes "jobs_inv js"
    and keep: "\<And>j. j \<in> set js \<Longrightarrow> j_id (f j) = j_id j \<and> active_key (f j) = active_key j \<and> job_ok (f j)"
    and act: "\<And>j. j \<in> set js \<Longrightarrow> is_active (f j) \<Longrightarrow> is_active j"
  shows "jobs_inv (map f js)"
proof -
  have "map active_key (filter is_active (map f js)) = map active_key (filter (is_active \<circ> f) js)"
    using keep by (auto simp: filter_map intro!: map_cong)
  moreover have "filter (is_active \<circ> f) js = filter (\<lambda>j. is_active j \<and> is_active (f j)) js"
    using act by (auto intro!: filter_cong)
  moreover have "distinct (map active_key (filter (\<lambda>j. is_active j \<and> is_active (f j)) js))"
    by (rule distinct_map_subfilter) (use assms(1) in \<open>simp add: jobs_inv_def active_unique_def\<close>)
  ultimately have "active_unique (map f js)" by (simp add: active_unique_def)
  moreover have "distinct (map j_id (map f js))"
  proof -
    have "map j_id (map f js) = map j_id js" using keep by (simp add: comp_def)
    then show ?thesis using assms(1) by (simp add: jobs_inv_def del: map_map)
  qed
  moreover have "list_all job_ok (map f js)" using keep by (simp add: list_all_iff)
  ultimately show ?thesis using assms(1) by (simp add: jobs_inv_def)
qed

lemma update_job_inv:
  assumes "jobs_inv js"
    and "\<And>j. j \<in> set js \<Longrightarrow> j_id j = i \<Longrightarrow>
       j_id (f j) = j_id j \<and> active_key (f j) = active_key j \<and> job_ok (f j) \<and> (is_active (f j) \<longrightarrow> is_active j)"
  shows "jobs_inv (update_job i f js)"
  unfolding update_job_def
proof (rule rewrite_rows [OF assms(1)])
  fix j assume j: "j \<in> set js"
  then have "job_ok j" using assms(1) by (simp add: jobs_inv_def list_all_iff)
  then show "j_id (if j_id j = i then f j else j) = j_id j
     \<and> active_key (if j_id j = i then f j else j) = active_key j \<and> job_ok (if j_id j = i then f j else j)"
    using assms(2) [OF j] by simp
  show "is_active (if j_id j = i then f j else j) \<Longrightarrow> is_active j"
    using assms(2) [OF j] by (simp split: if_splits)
qed

lemma mark_succeeded_inv: "jobs_inv js \<Longrightarrow> jobs_inv (mark_succeeded now i r js)"
  unfolding mark_succeeded_def
  by (rule update_job_inv) (auto simp: job_ok_def active_key_def is_active_def)

lemma mark_failed_inv: "jobs_inv js \<Longrightarrow> jobs_inv (mark_failed now i m js)"
  unfolding mark_failed_def
  by (rule update_job_inv) (auto simp: job_ok_def active_key_def is_active_def)

lemma enqueue_inv:
  assumes "jobs_inv js" "enqueue u now x js = Inr (r, js')"
  shows "jobs_inv js'"
proof (cases r)
  case None
  then show ?thesis using assms by (auto simp: enqueue_def split: if_splits)
next
  case (Some i)
  then have e: "js' = js @ [new_job u now x]" "create_key x \<notin> active_key ` {j \<in> set js. is_active j}" "u \<notin> j_id ` set js"
    using assms(2) by (auto simp: enqueue_def split: if_splits)
  then show ?thesis using assms(1) by (auto simp: jobs_inv_def active_unique_def)
qed

lemma row_unique: "jobs_inv js \<Longrightarrow> j \<in> set js \<Longrightarrow> k \<in> set js \<Longrightarrow> j_id j = j_id k \<Longrightarrow> j = k"
  by (auto simp: jobs_inv_def distinct_map inj_on_def)

lemma start_inv:
  assumes "jobs_inv js" "j \<in> set js" "j_status j = ''pending''"
  shows "jobs_inv (update_job (j_id j) (start_job now) js)"
proof (rule update_job_inv [OF assms(1)])
  fix k assume "k \<in> set js" "j_id k = j_id j"
  then have [simp]: "k = j" using row_unique [OF assms(1)] assms(2) by blast
  have "job_ok j" using assms(1,2) by (simp add: jobs_inv_def list_all_iff)
  then show "j_id (start_job now k) = j_id k \<and> active_key (start_job now k) = active_key k
     \<and> job_ok (start_job now k) \<and> (is_active (start_job now k) \<longrightarrow> is_active k)"
    using assms(3) by (simp add: job_ok_def) (simp add: start_job_def)
qed

lemma claimable_head:
  assumes "claimable locked js = j # rest"
  shows "j \<in> set js" "j_status j = ''pending''" "j_id j \<notin> set locked"
    "\<And>k. k \<in> set js \<Longrightarrow> j_status k = ''pending'' \<Longrightarrow> j_id k \<notin> set locked \<Longrightarrow> j_created_at j \<le> j_created_at k"
proof -
  have set: "set (claimable locked js) = {k \<in> set js. j_status k = ''pending'' \<and> j_id k \<notin> set locked}"
    by (auto simp: claimable_def)
  then have j: "j \<in> {k \<in> set js. j_status k = ''pending'' \<and> j_id k \<notin> set locked}" using assms by auto
  then show "j \<in> set js" "j_status j = ''pending''" "j_id j \<notin> set locked" by auto
  have "sorted (map j_created_at (claimable locked js))" by (simp add: claimable_def)
  then have "sorted (map j_created_at (j # rest))" unfolding assms .
  then have "\<forall>k \<in> set (j # rest). j_created_at j \<le> j_created_at k" by auto
  then show "\<And>k. k \<in> set js \<Longrightarrow> j_status k = ''pending'' \<Longrightarrow> j_id k \<notin> set locked \<Longrightarrow> j_created_at j \<le> j_created_at k"
    using set assms by auto
qed

lemma claim_inv: "jobs_inv js \<Longrightarrow> jobs_inv (snd (claim_next_pending locked now js))"
  using start_inv claimable_head(1,2) [of locked js]
  by (auto simp: claim_next_pending_def split: list.split)

lemma recover_inv: "jobs_inv js \<Longrightarrow> jobs_inv (snd (recover_stale_running sec now js))"
  unfolding recover_stale_running_def snd_conv
proof (rule rewrite_rows)
  fix j assume "jobs_inv js" "j \<in> set js"
  then have "job_ok j" by (simp add: jobs_inv_def list_all_iff)
  moreover have "job_ok j \<Longrightarrow> is_stale sec now j \<Longrightarrow> job_ok (requeue_job j) \<and> is_active j"
    by (simp add: job_ok_def is_stale_def) (simp add: requeue_job_def)
  ultimately show "j_id (if is_stale sec now j then requeue_job j else j) = j_id j
     \<and> active_key (if is_stale sec now j then requeue_job j else j) = active_key j
     \<and> job_ok (if is_stale sec now j then requeue_job j else j)"
    by simp
  show "is_active (if is_stale sec now j then requeue_job j else j) \<Longrightarrow> is_active j"
    by (simp add: is_stale_def split: if_splits)
qed

lemma retention_inv: "jobs_inv js \<Longrightarrow> jobs_inv (snd (delete_retention days now js))"
  unfolding delete_retention_def Let_def snd_conv jobs_inv_def active_unique_def
  by (simp add: distinct_map_filter list_all_iff conj_commute [of "\<not> _" "is_active _"] distinct_map_subfilter)

lemmas statement_inv = enqueue_inv mark_succeeded_inv mark_failed_inv claim_inv recover_inv retention_inv

section \<open>Processes\<close>

text \<open>
  Any number of web and worker processes on one table.  \<open>q_locks\<close> has the claim transactions that have
  selected a row and not committed (the row and the transaction's \<open>now()\<close>), \<open>q_busy\<close> the jobs that
  workers are generating and when they started them.
\<close>

record queue_state =
  q_jobs :: jobs
  q_locks :: "nat \<rightharpoonup> string \<times> datetime"
  q_busy :: "nat \<rightharpoonup> string \<times> datetime"

definition locked_ids :: "queue_state \<Rightarrow> string set" where
  "locked_ids s = fst ` ran (q_locks s)"

text \<open>
  The steps.  A claim is a select that takes the row lock, then a commit or an abort.  A worker may die
  at any time.  Recovery runs under the assumption the settings document: a generation that is still
  running has not exceeded \<open>report_worker_stale_seconds\<close>.
\<close>

definition timely :: "int \<Rightarrow> datetime \<Rightarrow> queue_state \<Rightarrow> bool" where
  "timely sec now s = (\<forall>(i, t) \<in> ran (q_busy s). now - sec * 1000000 \<le> t)"

inductive queue_step :: "int \<Rightarrow> queue_state \<Rightarrow> queue_state \<Rightarrow> bool" for sec where
  Q_enqueue: "enqueue u now x (q_jobs s) = Inr (r, js) \<Longrightarrow> queue_step sec s (s\<lparr>q_jobs := js\<rparr>)"
| Q_emit: "enqueue u now x (q_jobs s) = Inr (Some i, js) \<Longrightarrow>
    queue_step sec s (s\<lparr>q_jobs := mark_succeeded now i result js\<rparr>)"
| Q_select: "q_locks s w = None \<Longrightarrow> q_busy s w = None \<Longrightarrow> set locked = locked_ids s \<Longrightarrow>
    claimable locked (q_jobs s) = j # rest \<Longrightarrow> queue_step sec s (s\<lparr>q_locks := (q_locks s)(w \<mapsto> (j_id j, now))\<rparr>)"
| Q_commit: "q_locks s w = Some (i, t) \<Longrightarrow>
    queue_step sec s (s\<lparr>q_jobs := update_job i (start_job t) (q_jobs s),
                         q_locks := (q_locks s)(w := None), q_busy := (q_busy s)(w \<mapsto> (i, t))\<rparr>)"
| Q_abort: "queue_step sec s (s\<lparr>q_locks := (q_locks s)(w := None)\<rparr>)"
| Q_succeed: "q_busy s w = Some (i, t) \<Longrightarrow>
    queue_step sec s (s\<lparr>q_jobs := mark_succeeded now i result (q_jobs s), q_busy := (q_busy s)(w := None)\<rparr>)"
| Q_fail: "q_busy s w = Some (i, t) \<Longrightarrow>
    queue_step sec s (s\<lparr>q_jobs := mark_failed now i message (q_jobs s), q_busy := (q_busy s)(w := None)\<rparr>)"
| Q_crash: "queue_step sec s (s\<lparr>q_busy := (q_busy s)(w := None)\<rparr>)"
| Q_recover: "timely sec now s \<Longrightarrow>
    queue_step sec s (s\<lparr>q_jobs := snd (recover_stale_running sec now (q_jobs s))\<rparr>)"
| Q_retention: "queue_step sec s (s\<lparr>q_jobs := snd (delete_retention days now (q_jobs s))\<rparr>)"

inductive_cases queue_stepE: "queue_step sec s s'"

inductive queue_reach :: "int \<Rightarrow> queue_state \<Rightarrow> bool" for sec where
  R_start: "queue_reach sec \<lparr>q_jobs = [], q_locks = Map.empty, q_busy = Map.empty\<rparr>"
| R_step: "queue_reach sec s \<Longrightarrow> queue_step sec s s' \<Longrightarrow> queue_reach sec s'"

text \<open>
  Every locked row is pending, every busy row is running since the time its worker remembers, and no
  two transactions or workers have the same row.
\<close>

definition has_row :: "jobs \<Rightarrow> string \<Rightarrow> (DiagnosticJob \<Rightarrow> bool) \<Rightarrow> bool" where
  "has_row js i p = (\<exists>j \<in> set js. j_id j = i \<and> p j)"

definition exclusive :: "(nat \<rightharpoonup> string \<times> datetime) \<Rightarrow> bool" where
  "exclusive m = (\<forall>v w a b. m v = Some a \<longrightarrow> m w = Some b \<longrightarrow> fst a = fst b \<longrightarrow> v = w)"

definition queue_inv :: "queue_state \<Rightarrow> bool" where
  "queue_inv s =
     (jobs_inv (q_jobs s) \<and> exclusive (q_locks s) \<and> exclusive (q_busy s)
      \<and> (\<forall>w i t. q_locks s w = Some (i, t) \<longrightarrow> has_row (q_jobs s) i (\<lambda>j. j_status j = ''pending''))
      \<and> (\<forall>w i t. q_busy s w = Some (i, t) \<longrightarrow>
           has_row (q_jobs s) i (\<lambda>j. j_status j = ''running'' \<and> j_started_at j = Some t)))"

lemma queue_invI:
  assumes "jobs_inv (q_jobs s)" "exclusive (q_locks s)" "exclusive (q_busy s)"
    and "\<And>w i t. q_locks s w = Some (i, t) \<Longrightarrow> has_row (q_jobs s) i (\<lambda>j. j_status j = ''pending'')"
    and "\<And>w i t. q_busy s w = Some (i, t) \<Longrightarrow>
           has_row (q_jobs s) i (\<lambda>j. j_status j = ''running'' \<and> j_started_at j = Some t)"
  shows "queue_inv s"
  using assms by (simp add: queue_inv_def)

lemma exclusive_remove [simp]: "exclusive m \<Longrightarrow> exclusive (m(w := None))"
  by (simp add: exclusive_def)

lemma exclusive_add:
  assumes "exclusive m" "\<And>v j u. m v = Some (j, u) \<Longrightarrow> j \<noteq> i" shows "exclusive (m(w \<mapsto> (i, t)))"
  unfolding exclusive_def
proof (intro allI impI)
  fix v w' a b assume "(m(w \<mapsto> (i, t))) v = Some a" "(m(w \<mapsto> (i, t))) w' = Some b" "fst a = fst b"
  then have m: "v = w \<and> a = (i, t) \<or> v \<noteq> w \<and> m v = Some a" "w' = w \<and> b = (i, t) \<or> w' \<noteq> w \<and> m w' = Some b"
    "fst a = fst b" by (auto split: if_splits)
  have "fst a \<noteq> i" if "m v = Some a" using that assms(2) [of v "fst a" "snd a"] by simp
  moreover have "fst b \<noteq> i" if "m w' = Some b" using that assms(2) [of w' "fst b" "snd b"] by simp
  moreover have "v = w'" if "m v = Some a" "m w' = Some b" using that m(3) assms(1) unfolding exclusive_def by blast
  ultimately show "v = w'" using m by auto
qed

lemma has_row_keep:
  assumes "has_row js i p" and "\<And>j. j \<in> set js \<Longrightarrow> j_id j = i \<Longrightarrow> p j \<Longrightarrow> f j = j"
  shows "has_row (map f js) i p"
proof -
  obtain j where "j \<in> set js" "j_id j = i" "p j" using assms(1) by (auto simp: has_row_def)
  moreover have "f j = j" using assms(2) calculation by blast
  ultimately show ?thesis unfolding has_row_def by (metis image_eqI set_map)
qed

lemma has_row_update: "has_row js i p \<Longrightarrow> i \<noteq> k \<Longrightarrow> has_row (update_job k f js) i p"
  unfolding update_job_def by (rule has_row_keep) auto

lemma has_row_append: "has_row js i p \<Longrightarrow> has_row (js @ ks) i p"
  by (auto simp: has_row_def)

lemma has_row_same: "jobs_inv js \<Longrightarrow> has_row js i p \<Longrightarrow> has_row js i q \<Longrightarrow> \<exists>j. p j \<and> q j"
  unfolding has_row_def by (metis row_unique)

lemma has_row_started:
  "has_row js i p \<Longrightarrow> has_row (update_job i (start_job t) js) i (\<lambda>j. j_status j = ''running'' \<and> j_started_at j = Some t)"
proof -
  assume "has_row js i p"
  then obtain j where "j \<in> set js" "j_id j = i" by (auto simp: has_row_def)
  then have "start_job t j \<in> set (update_job i (start_job t) js)" by (auto simp: update_job_def intro!: image_eqI [of _ _ j])
  then show ?thesis using \<open>j_id j = i\<close> unfolding has_row_def by (intro bexI [of _ "start_job t j"]) simp_all
qed

text \<open>What the row statements leave alone.\<close>

lemma enqueue_cases:
  assumes "enqueue u now x js = Inr (r, js')"
  obtains "js' = js" "r = None" | "r = Some u" "js' = js @ [new_job u now x]" "u \<notin> j_id ` set js"
  using assms by (auto simp: enqueue_def split: if_splits)

lemma enqueue_outcomes:
  obtains (taken) "enqueue u now x js = Inr (None, js)"
  | (clash) "enqueue u now x js = Inl IntegrityError" "u \<in> j_id ` set js"
  | (free) "enqueue u now x js = Inr (Some u, js @ [new_job u now x])" "u \<notin> j_id ` set js"
proof (cases "create_key x \<in> active_key ` {j \<in> set js. is_active j}")
  case True
  then show thesis by (intro taken) (simp add: enqueue_def)
next
  case False
  then show thesis by (cases "u \<in> j_id ` set js") (simp_all add: enqueue_def clash free)
qed

lemma has_row_enqueue: "enqueue u now x js = Inr (r, js') \<Longrightarrow> has_row js i p \<Longrightarrow> has_row js' i p"
  by (erule enqueue_cases) (simp_all add: has_row_append)

lemma has_row_retention:
  assumes "jobs_inv js" "has_row js i p" "\<And>j. p j \<Longrightarrow> is_active j"
  shows "has_row (snd (delete_retention days now js)) i p"
proof -
  obtain j where j: "j \<in> set js" "j_id j = i" "p j" using assms(2) by (auto simp: has_row_def)
  then have "j_finished_at j = None" using assms(1) assms(3) [of j] by (simp add: jobs_inv_def list_all_iff job_ok_def)
  then show ?thesis using j by (auto simp: delete_retention_def Let_def has_row_def)
qed

lemma has_row_recover:
  assumes "has_row js i p" "\<And>j. p j \<Longrightarrow> \<not> is_stale sec now j"
  shows "has_row (snd (recover_stale_running sec now js)) i p"
  unfolding recover_stale_running_def snd_conv using assms(1) by (rule has_row_keep) (auto dest: assms(2))

text \<open>The facts that the invariant gives for a step.\<close>

lemma queue_invD:
  assumes "queue_inv s"
  shows "jobs_inv (q_jobs s)" "exclusive (q_locks s)" "exclusive (q_busy s)"
    "\<And>w i t. q_locks s w = Some (i, t) \<Longrightarrow> has_row (q_jobs s) i (\<lambda>j. j_status j = ''pending'')"
    "\<And>w i t. q_busy s w = Some (i, t) \<Longrightarrow>
       has_row (q_jobs s) i (\<lambda>j. j_status j = ''running'' \<and> j_started_at j = Some t)"
  using assms by (auto simp: queue_inv_def)

lemma locked_not_busy:
  assumes "queue_inv s" "q_locks s w = Some (i, t)" "q_busy s v = Some (k, u)" shows "i \<noteq> k"
proof
  assume "i = k"
  then show False
    using has_row_same [OF queue_invD(1) [OF assms(1)] queue_invD(4) [OF assms(1,2)] queue_invD(5) [OF assms(1,3), folded \<open>i = k\<close>]]
    by auto
qed

lemma exclusive_others:
  assumes "exclusive m" "m w = Some (i, t)" "(m(w := None)) v = Some (k, u)" shows "i \<noteq> k"
  using assms unfolding exclusive_def by (metis fst_conv fun_upd_apply option.distinct(1))

lemma emit_step_inv:
  assumes "queue_inv s" "enqueue u now x (q_jobs s) = Inr (Some i, js)"
  shows "queue_inv (s\<lparr>q_jobs := mark_succeeded now i result js\<rparr>)"
proof -
  note inv = queue_invD [OF assms(1)]
  have fresh: "i \<notin> j_id ` set (q_jobs s)" using assms(2) by (auto elim: enqueue_cases)
  have keep: "has_row (mark_succeeded now i result js) k p" if "has_row (q_jobs s) k p" for k p
  proof -
    have "k \<noteq> i" using that fresh by (auto simp: has_row_def)
    then show ?thesis unfolding mark_succeeded_def by (rule has_row_update [OF has_row_enqueue [OF assms(2) that]])
  qed
  show ?thesis
    by (intro queue_invI) (simp_all add: mark_succeeded_inv [OF enqueue_inv [OF inv(1) assms(2)]] inv(2,3) keep inv(4,5))
qed

lemma select_step_inv:
  assumes "queue_inv s" "set locked = locked_ids s" "claimable locked (q_jobs s) = j # rest"
  shows "queue_inv (s\<lparr>q_locks := (q_locks s)(w \<mapsto> (j_id j, now))\<rparr>)"
proof -
  note inv = queue_invD [OF assms(1)] and hd = claimable_head [OF assms(3)]
  have "exclusive ((q_locks s)(w \<mapsto> (j_id j, now)))"
    using inv(2) hd(3) assms(2) by (intro exclusive_add) (auto simp: locked_ids_def image_iff ran_def)
  moreover have "has_row (q_jobs s) (j_id j) (\<lambda>j. j_status j = ''pending'')" using hd by (auto simp: has_row_def)
  ultimately show ?thesis by (intro queue_invI) (auto simp: inv split: if_splits)
qed

lemma commit_step_inv:
  assumes "queue_inv s" "q_locks s w = Some (i, t)"
  shows "queue_inv (s\<lparr>q_jobs := update_job i (start_job t) (q_jobs s),
                      q_locks := (q_locks s)(w := None), q_busy := (q_busy s)(w \<mapsto> (i, t))\<rparr>)"
proof -
  note inv = queue_invD [OF assms(1)]
  have apart: "\<forall>v u. q_busy s v \<noteq> Some (i, u)" using locked_not_busy [OF assms] by blast
  have others: "\<forall>v k u. ((q_locks s)(w := None)) v = Some (k, u) \<longrightarrow> k \<noteq> i"
    using exclusive_others [OF inv(2) assms(2)] by blast
  have row: "has_row (q_jobs s) i (\<lambda>j. j_status j = ''pending'')" by (rule inv(4) [OF assms(2)])
  then obtain j where j: "j \<in> set (q_jobs s)" "j_id j = i" "j_status j = ''pending''" by (auto simp: has_row_def)
  have "exclusive ((q_busy s)(w \<mapsto> (i, t)))"
    by (rule exclusive_add [OF inv(3)]) (use apart in blast)
  then show ?thesis using start_inv [OF inv(1) j(1,3), of t] j(2) row others apart
    by (intro queue_invI) (auto simp: inv(2,3) has_row_started intro!: has_row_update inv(4,5) split: if_splits)
qed

lemma finish_step_inv:
  assumes "queue_inv s" "q_busy s w = Some (i, t)" "jobs_inv (update_job i f (q_jobs s))"
  shows "queue_inv (s\<lparr>q_jobs := update_job i f (q_jobs s), q_busy := (q_busy s)(w := None)\<rparr>)"
proof -
  note inv = queue_invD [OF assms(1)]
  have "\<forall>v u. q_locks s v \<noteq> Some (i, u)" using locked_not_busy [OF assms(1) _ assms(2)] by blast
  moreover have "\<forall>v k u. ((q_busy s)(w := None)) v = Some (k, u) \<longrightarrow> k \<noteq> i"
    using exclusive_others [OF inv(3) assms(2)] by blast
  ultimately show ?thesis using assms(3)
    by (intro queue_invI) (auto simp: inv(2,3) intro!: has_row_update inv(4,5) split: if_splits)
qed

lemma recover_step_inv:
  assumes "queue_inv s" "timely sec now s"
  shows "queue_inv (s\<lparr>q_jobs := snd (recover_stale_running sec now (q_jobs s))\<rparr>)"
proof -
  note inv = queue_invD [OF assms(1)]
  have "now - sec * 1000000 \<le> t" if "q_busy s w = Some (i, t)" for w i t
    using assms(2) that unfolding timely_def by (auto simp: ran_def)
  then have fresh: "\<not> is_stale sec now j" if "q_busy s w = Some (i, t)" "j_started_at j = Some t" for w i t j
    using that by (fastforce simp: is_stale_def)
  then show ?thesis by (intro queue_invI)
      (auto simp: recover_inv [OF inv(1)] inv(2,3) is_stale_def intro!: has_row_recover inv(4,5))
qed

lemma queue_step_inv:
  assumes "queue_step sec s s'" "queue_inv s" shows "queue_inv s'"
proof -
  note inv = queue_invD [OF assms(2)]
  from assms(1) show ?thesis
  proof cases
    case (Q_enqueue u now x r js)
    then show ?thesis
      by (intro queue_invI) (simp_all add: enqueue_inv [OF inv(1) Q_enqueue(2)] has_row_enqueue [OF Q_enqueue(2)] inv)
  next
    case (Q_succeed w i t now result)
    then show ?thesis unfolding Q_succeed(1) mark_succeeded_def
      using finish_step_inv [OF assms(2)] mark_succeeded_inv [OF inv(1)] by (simp add: mark_succeeded_def)
  next
    case (Q_fail w i t now message)
    then show ?thesis unfolding Q_fail(1) mark_failed_def
      using finish_step_inv [OF assms(2)] mark_failed_inv [OF inv(1)] by (simp add: mark_failed_def)
  next
    case (Q_abort w)
    then show ?thesis by (intro queue_invI) (auto simp: inv(1,2,3,5) intro: inv(4) split: if_splits)
  next
    case (Q_crash w)
    then show ?thesis by (intro queue_invI) (auto simp: inv(1,2,3,4) intro: inv(5) split: if_splits)
  next
    case (Q_retention days now)
    then show ?thesis
      by (intro queue_invI) (auto simp: retention_inv [OF inv(1)] inv(2,3) intro!: has_row_retention [OF inv(1)] inv(4,5))
  qed (simp_all add: emit_step_inv select_step_inv commit_step_inv recover_step_inv assms(2))
qed

lemma queue_reach_inv: "queue_reach sec s \<Longrightarrow> queue_inv s"
proof (induction rule: queue_reach.induct)
  case R_start
  show ?case by (simp add: queue_inv_def jobs_inv_def active_unique_def exclusive_def)
next
  case (R_step s s')
  then show ?case by (blast intro: queue_step_inv)
qed

text \<open>
  Claim C34: as long as no generation runs longer than the stale limit, whatever
  enqueues, claims, commits, aborts, crashes, recoveries and retention runs happen, in any order and with
  any number of workers, there is at most one active job per request key, a job is generated by at most one
  worker at a time, and its row says \<open>running\<close> since the moment that worker claimed it.  The proviso is the
  premise \<open>timely\<close> of the recovery step: when a recovery runs, no worker is still busy with a job it claimed
  before the limit.  The settings of the worker assume it (\<open>report_worker_stale_seconds\<close>); the statement of
  the recovery does not check it, and without it two workers can generate one job.
\<close>

theorem report_jobs_exclusive:
  assumes "queue_reach sec s"
  shows "active_unique (q_jobs s)
    \<and> (\<forall>v w i t u. q_busy s v = Some (i, t) \<longrightarrow> q_busy s w = Some (i, u) \<longrightarrow> v = w)
    \<and> (\<forall>v i t. q_busy s v = Some (i, t) \<longrightarrow>
         (\<exists>j \<in> set (q_jobs s). j_id j = i \<and> j_status j = ''running'' \<and> j_started_at j = Some t))"
proof -
  note inv = queue_invD [OF queue_reach_inv [OF assms]]
  have "v = w" if "q_busy s v = Some (i, t)" "q_busy s w = Some (i, u)" for v w i t u
    using inv(3) that unfolding exclusive_def by fastforce
  then show ?thesis using inv(1,5) by (auto simp: jobs_inv_def has_row_def)
qed

definition sample_job :: "string \<Rightarrow> DiagnosticJobCreate" where
  "sample_job h = \<lparr>jc_scope = ''environment'', jc_input_params = [], jc_input_hash = h,
     jc_job_type = ''customer_report'', jc_requested_by = None\<rparr>"

definition claimed_state :: queue_state where
  "claimed_state = \<lparr>q_jobs = [start_job 20 (new_job ''j1'' 10 (sample_job ''h''))],
     q_locks = Map.empty, q_busy = [7 \<mapsto> (''j1'', 20)]\<rparr>"

lemma claimed_reach: "queue_reach 600 claimed_state"
proof -
  let ?j = "new_job ''j1'' 10 (sample_job ''h'')"
  let ?s0 = "\<lparr>q_jobs = [], q_locks = Map.empty, q_busy = Map.empty\<rparr>"
  let ?s1 = "?s0\<lparr>q_jobs := [?j]\<rparr>"
  let ?s2 = "?s1\<lparr>q_locks := (q_locks ?s1)(7 \<mapsto> (j_id ?j, 20))\<rparr>"
  have "enqueue ''j1'' 10 (sample_job ''h'') (q_jobs ?s0) = Inr (Some ''j1'', [?j])" by (simp add: enqueue_def)
  then have "queue_reach 600 ?s1" by (blast intro: R_step [OF R_start] Q_enqueue)
  moreover have "queue_step 600 ?s1 ?s2"
    by (rule Q_select [of _ _ "[]" ?j "[]"]) (simp_all add: locked_ids_def claimable_def)
  ultimately have "queue_reach 600 ?s2" by (rule R_step)
  moreover have "queue_step 600 ?s2 claimed_state"
  proof -
    have "claimed_state = ?s2\<lparr>q_jobs := update_job ''j1'' (start_job 20) (q_jobs ?s2),
        q_locks := (q_locks ?s2)(7 := None), q_busy := (q_busy ?s2)(7 \<mapsto> (''j1'', 20))\<rparr>"
      by (simp add: claimed_state_def update_job_def)
    then show ?thesis using Q_commit [of ?s2 7 "''j1''" 20 600] by simp
  qed
  ultimately show ?thesis by (rule R_step)
qed

theorem report_jobs_exclusive_witness:
  "active_unique (q_jobs claimed_state)
   \<and> (\<exists>j \<in> set (q_jobs claimed_state). j_id j = ''j1'' \<and> j_status j = ''running'' \<and> j_started_at j = Some 20)"
  using report_jobs_exclusive [OF claimed_reach] by (simp add: claimed_state_def)

lemma update_keeps: "j \<in> set js \<Longrightarrow> j_id j \<noteq> i \<Longrightarrow> j \<in> set (update_job i f js)"
  by (auto simp: update_job_def image_iff)

lemma not_finished:
  assumes "jobs_inv js" "has_row js i p" "\<And>j. p j \<Longrightarrow> is_active j" "j \<in> set js" "\<not> is_active j"
  shows "j_id j \<noteq> i"
  using assms row_unique [OF assms(1)] unfolding has_row_def by metis

lemma finished_job_kept:
  assumes "queue_reach sec s" "queue_step sec s s'" "j \<in> set (q_jobs s)" "\<not> is_active j"
  shows "j \<in> set (q_jobs s') \<or> j_id j \<notin> j_id ` set (q_jobs s')"
proof -
  note inv = queue_invD [OF queue_reach_inv [OF assms(1)]]
  have locked: "j_id j \<noteq> i" if "q_locks s w = Some (i, t)" for w i t
    by (rule not_finished [OF inv(1) inv(4) [OF that] _ assms(3,4)]) simp
  have busy: "j_id j \<noteq> i" if "q_busy s w = Some (i, t)" for w i t
    by (rule not_finished [OF inv(1) inv(5) [OF that] _ assms(3,4)]) simp
  from assms(2) show ?thesis
  proof cases
    case (Q_enqueue u now x r js)
    then show ?thesis using assms(3) by (auto elim!: enqueue_cases)
  next
    case (Q_emit u now x i js result)
    from Q_emit(2) have "j \<in> set js" "j_id j \<noteq> i" using assms(3) by (auto elim!: enqueue_cases)
    then show ?thesis unfolding Q_emit(1) by (simp add: mark_succeeded_def update_keeps)
  next
    case (Q_recover now)
    have "\<not> is_stale sec now j" using assms(4) by (auto simp: is_stale_def)
    then show ?thesis using assms(3) unfolding Q_recover(1) by (auto simp: recover_stale_running_def image_iff)
  next
    case (Q_retention days now)
    have "k = j" if "k \<in> set (q_jobs s)" "j_id k = j_id j" for k using row_unique [OF inv(1) that(1) assms(3) that(2)] .
    then show ?thesis using assms(3) unfolding Q_retention(1) by (auto simp: delete_retention_def Let_def)
  next
    case (Q_commit w i t)
    then show ?thesis using update_keeps [OF assms(3) locked] by simp
  next
    case (Q_succeed w i t now result)
    then show ?thesis using update_keeps [OF assms(3) busy] by (simp add: mark_succeeded_def)
  next
    case (Q_fail w i t now message)
    then show ?thesis using update_keeps [OF assms(3) busy] by (simp add: mark_failed_def)
  qed (use assms(3) in simp_all)
qed

text \<open>
  A finished report is final.  No step of any process changes a row that has
  succeeded or failed; only retention may remove it.
\<close>

theorem finished_job_final:
  assumes "queue_reach sec s" "queue_step sec s s'" "j \<in> set (q_jobs s)" "\<not> is_active j"
  shows "j \<in> set (q_jobs s') \<or> j_id j \<notin> j_id ` set (q_jobs s')"
  using assms by (rule finished_job_kept)

definition finished_state :: queue_state where
  "finished_state = claimed_state\<lparr>q_jobs := mark_failed 30 ''j1'' ''internal error'' (q_jobs claimed_state),
     q_busy := Map.empty\<rparr>"

lemma finished_reach: "queue_reach 600 finished_state"
proof -
  have "finished_state = claimed_state\<lparr>q_jobs := mark_failed 30 ''j1'' ''internal error'' (q_jobs claimed_state),
     q_busy := (q_busy claimed_state)(7 := None)\<rparr>" by (simp add: finished_state_def claimed_state_def)
  then have "queue_step 600 claimed_state finished_state"
    using Q_fail [of claimed_state 7 "''j1''" 20 600, where now = 30 and message = "''internal error''"]
    by (simp add: claimed_state_def)
  then show ?thesis by (rule R_step [OF claimed_reach])
qed

theorem finished_job_final_witness:
  "let j = hd (q_jobs finished_state);
       s' = finished_state\<lparr>q_jobs := snd (recover_stale_running 600 9000000000 (q_jobs finished_state))\<rparr>
   in queue_step 600 finished_state s' \<and> j_status j = ''failed'' \<and> j \<in> set (q_jobs s')"
proof -
  let ?j = "hd (q_jobs finished_state)"
  let ?s = "finished_state\<lparr>q_jobs := snd (recover_stale_running 600 9000000000 (q_jobs finished_state))\<rparr>"
  have step: "queue_step 600 finished_state ?s"
    by (rule Q_recover) (simp add: timely_def finished_state_def)
  have j: "?j \<in> set (q_jobs finished_state)" "j_status ?j = ''failed''" "j_id ?j \<in> j_id ` set (q_jobs ?s)"
    by (simp_all add: finished_state_def claimed_state_def mark_failed_def update_job_def recover_stale_running_def is_stale_def)
  show ?thesis using finished_job_final [OF finished_reach step j(1)] j step by simp
qed

section \<open>Lookups by key\<close>

lemma active_row_unique:
  assumes "jobs_inv js" "j \<in> set js" "k \<in> set js" "is_active j" "is_active k" "active_key j = active_key k"
  shows "j = k"
  using assms by (auto simp: jobs_inv_def active_unique_def distinct_map inj_on_def)

lemma enqueue_active:
  "j \<in> set js \<Longrightarrow> is_active j \<Longrightarrow> create_key x = active_key j \<Longrightarrow> enqueue u now x js = Inr (None, js)"
  by (auto simp: enqueue_def)

lemma active_of_row:
  assumes "jobs_inv js" "j \<in> set js" "is_active j" "create_key x = active_key j"
  shows "active_of x js = Some (j_id j)"
proof -
  let ?p = "\<lambda>k. active_key k = create_key x \<and> is_active k"
  have "?p j" using assms(3,4) by simp
  then have "find ?p js \<noteq> None" using assms(2) unfolding find_None_iff by blast
  then obtain k where k: "find ?p js = Some k" by blast
  then have "k \<in> set js" "?p k" unfolding find_Some_iff by (metis nth_mem)+
  then have "k = j" using active_row_unique [OF assms(1) _ assms(2)] assms(3,4) by simp
  then show ?thesis using k by (simp add: active_of_def get_active_by_hash_def create_key_def)
qed

lemma active_of_None:
  "active_of x js = None \<longleftrightarrow> create_key x \<notin> active_key ` {j \<in> set js. is_active j}"
  by (auto simp: active_of_def get_active_by_hash_def create_key_def find_None_iff image_iff)

section \<open>What the queue does not guarantee\<close>

text \<open>
  The statements \<open>mark_succeeded\<close> and \<open>mark_failed\<close> do not look at the status.  When a
  generation outlives the stale limit, a recovery hands its job to a second worker; if the first worker
  then succeeds and the second fails, the published report ends as a failure that still carries the
  result.
\<close>

theorem late_failure_overwrites:
  "let js0 = [start_job 20 (new_job ''j1'' 10 (sample_job ''h''))];
       js1 = snd (recover_stale_running 600 (20 + 601 * 1000000) js0);
       (claimed, js2) = claim_next_pending [] (20 + 602 * 1000000) js1;
       js3 = mark_succeeded (20 + 603 * 1000000) ''j1'' [(''kind'', JStr ''env_report'')] js2;
       js4 = mark_failed (20 + 604 * 1000000) ''j1'' ''internal error'' js3
   in map_option j_id claimed = Some ''j1''
      \<and> map j_status js3 = [''succeeded''] \<and> map j_status js4 = [''failed'']
      \<and> map j_result js4 = [Some [(''kind'', JStr ''env_report'')]]
      \<and> map j_error_message js4 = [Some ''internal error'']"
  by (simp add: Let_def recover_stale_running_def is_stale_def requeue_job_def claim_next_pending_def claimable_def
      start_job_def new_job_def sample_job_def update_job_def mark_succeeded_def mark_failed_def)

text \<open>
  Claim C38: a worker that comes back before the stale limit of the job its
  predecessor left behind does not recover it.  The row stays \<open>running\<close>, no claim returns it, and every
  further request with the same key is answered with the abandoned job, until some worker starts again
  after the limit.
\<close>

theorem early_restart_strands_job:
  assumes "jobs_inv js" "j \<in> set js" "j_status j = ''running''" "j_started_at j = Some t" "now \<le> t + sec * 1000000"
    and "create_key x = active_key j"
  shows "j \<in> set (snd (recover_stale_running sec now js))
    \<and> map_option j_id (fst (claim_next_pending locked later (snd (recover_stale_running sec now js)))) \<noteq> Some (j_id j)
    \<and> enqueue_attempts x ((u, later, \<lambda>js. js) # rest) (snd (recover_stale_running sec now js))
        = (Inr (j_id j), snd (recover_stale_running sec now js))"
proof -
  let ?R = "snd (recover_stale_running sec now js)"
  have "\<not> is_stale sec now j" using assms(4,5) by (simp add: is_stale_def)
  then have j: "j \<in> set ?R" using assms(2) by (auto simp: recover_stale_running_def image_iff)
  have inv: "jobs_inv ?R" by (rule recover_inv [OF assms(1)])
  have "j_id k \<noteq> j_id j" if "claimable locked ?R = k # ks" for k ks
    using claimable_head(1,2) [OF that] row_unique [OF inv _ j] assms(3) by fastforce
  then have "map_option j_id (fst (claim_next_pending locked later ?R)) \<noteq> Some (j_id j)"
    by (auto simp: claim_next_pending_def split: list.split)
  moreover have "enqueue u later x ?R = Inr (None, ?R)" by (rule enqueue_active [OF j _ assms(6)]) (simp add: assms(3))
  moreover have "active_of x ?R = Some (j_id j)" by (rule active_of_row [OF inv j _ assms(6)]) (simp add: assms(3))
  ultimately show ?thesis using j by simp
qed

theorem early_restart_strands_job_witness:
  "enqueue_attempts (sample_job ''h'') [(''j2'', 500000000, \<lambda>js. js)]
     (snd (recover_stale_running 600 400000000 (q_jobs claimed_state)))
   = (Inr ''j1'', snd (recover_stale_running 600 400000000 (q_jobs claimed_state)))"
proof -
  let ?j = "start_job 20 (new_job ''j1'' 10 (sample_job ''h''))"
  have "q_jobs claimed_state = [?j]" by (simp add: claimed_state_def)
  moreover have "jobs_inv [?j]" by (simp add: jobs_inv_def active_unique_def job_ok_def start_job_def new_job_def)
  ultimately show ?thesis
    using early_restart_strands_job [of "[?j]" ?j 20 400000000 600 "sample_job ''h''" "[]" 500000000 "''j2''" "[]"] by simp
qed

end
