(* ===== verification/ReportRequests.thy ===== *)
theory ReportRequests
  imports ReportQueue "HOL-Library.Multiset"
begin

text \<open>
  Publishing reports: when two requests are the same request, what a repeated request returns, that
  \<open>enqueue_report\<close> ends with a job, and the order in which jobs are served.
\<close>

section \<open>Identity of a request\<close>

definition same_request :: "report_request \<Rightarrow> report_request \<Rightarrow> bool" where
  "same_request a b =
     (rq_view a = rq_view b \<and> rq_scope a = rq_scope b \<and> mset (rq_server_public_ids a) = mset (rq_server_public_ids b)
      \<and> rq_time_range a = rq_time_range b \<and> rq_anchor_at a = rq_anchor_at b)"

lemma sort_eq_iff: "sort xs = sort ys \<longleftrightarrow> mset xs = mset (ys :: 'a::linorder list)"
proof
  assume "sort xs = sort ys"
  then have "mset (sort xs) = mset (sort ys)" by simp
  then show "mset xs = mset ys" by simp
next
  assume "mset xs = mset ys"
  then show "sort xs = sort ys" by (intro properties_for_sort) simp_all
qed

lemma same_request_create:
  assumes "same_request a b"
  shows "request_params a = request_params b" "create_key (job_create dg a) = create_key (job_create dg b)"
proof -
  have s: "sort (rq_server_public_ids a) = sort (rq_server_public_ids b)"
    and l: "length (rq_server_public_ids a) = length (rq_server_public_ids b)"
    using assms by (auto simp: same_request_def sort_eq_iff dest: mset_eq_length)
  have "hd (rq_server_public_ids a) = hd (rq_server_public_ids b)" if "length (rq_server_public_ids b) = 1"
  proof -
    have one: "xs = [hd xs]" if "length xs = 1" for xs :: "string list" using that by (cases xs) auto
    have "sort [hd (rq_server_public_ids a)] = sort [hd (rq_server_public_ids b)]"
      using s one [of "rq_server_public_ids a"] one [of "rq_server_public_ids b"] that l by metis
    then show ?thesis by simp
  qed
  then show p: "request_params a = request_params b"
    using assms s l by (auto simp: request_params_def build_input_params_def same_request_def)
  show "create_key (job_create dg a) = create_key (job_create dg b)"
    using assms by (simp add: create_key_def job_create_def p same_request_def)
qed

text \<open>The canonical text, field by field in key order.\<close>

definition field :: "string \<Rightarrow> string \<Rightarrow> string" where
  "field k v = dump_str k @ '':'' @ v"

lemma dumps_request:
  "dumps r (JObj (build_input_params view scope ids tr t)) =
     ''{'' @ field ''anchor_at'' (dump_str (isoformat t)) @ '','' @
     (if scope = ''server'' \<and> length ids = 1 then field ''server_public_id'' (dump_str (hd ids)) @ '','' else []) @
     field ''server_public_ids'' (''['' @ join '','' (map dump_str (sort ids)) @ '']'') @ '','' @
     field ''time_range'' (dump_str tr) @ '','' @ field ''view'' (dump_str view) @ ''}''"
proof -
  have s: "map (dumps r) (map JStr xs) = map dump_str xs" for xs by simp
  have le:
    "\<not> (''view'' :: string) \<le> ''server_public_ids''" "\<not> (''view'' :: string) \<le> ''server_public_id''"
    "\<not> (''view'' :: string) \<le> ''time_range''" "\<not> (''view'' :: string) \<le> ''anchor_at''"
    "(''server_public_ids'' :: string) \<le> ''time_range''" "\<not> (''server_public_ids'' :: string) \<le> ''anchor_at''"
    "\<not> (''server_public_ids'' :: string) \<le> ''server_public_id''" "\<not> (''time_range'' :: string) \<le> ''anchor_at''"
    "\<not> (''time_range'' :: string) \<le> ''server_public_id''" "(''anchor_at'' :: string) \<le> ''server_public_id''"
    by (simp_all add: less_char_def less_eq_char_def)
  have "sort_key fst [(''view'', a), (''server_public_ids'', b), (''time_range'', c), (''anchor_at'', d)] =
      [(''anchor_at'', d), (''server_public_ids'', b), (''time_range'', c), (''view'', a)]" for a b c d :: string
    by (simp only: sort_key_simps insort_key.simps fst_conv le if_True if_False)
  moreover have "sort_key fst [(''view'', a), (''server_public_ids'', b), (''time_range'', c), (''anchor_at'', d), (''server_public_id'', e)] =
      [(''anchor_at'', d), (''server_public_id'', e), (''server_public_ids'', b), (''time_range'', c), (''view'', a)]"
    for a b c d e :: string
    by (simp only: sort_key_simps insort_key.simps fst_conv le if_True if_False)
  ultimately show ?thesis
    by (simp add: build_input_params_def field_def s del: sort_key_simps map_map)
qed

text \<open>A scope never contains the separator.\<close>

lemma scope_cancel:
  assumes "CHR ''|'' \<notin> set a" "CHR ''|'' \<notin> set b" "a @ ''|'' @ x = b @ ''|'' @ y" shows "a = b \<and> x = y"
  using assms
proof (induction a arbitrary: b)
  case Nil
  then show ?case by (cases b) auto
next
  case (Cons c a)
  then show ?case by (cases b) auto
qed

lemma field_cancel: "field k (dump_str v @ x) @ r = field k' (dump_str v' @ y) @ q \<longleftrightarrow> k = k' \<and> v = v' \<and> x @ r = y @ q"
  by (simp add: field_def)

text \<open>
  The text under the hash identifies the request.  Two requests have the
  same canonical text exactly when view, scope, time range and anchor minute agree and the servers are
  the same up to order; the digest is the only place where two requests could be confused.
\<close>

theorem same_text_same_request:
  assumes "CHR ''|'' \<notin> set (rq_scope a)" "CHR ''|'' \<notin> set (rq_scope b)"
    and "in_calendar (rq_anchor_at a)" "in_calendar (rq_anchor_at b)"
  shows "canonical dg (rq_scope a) (request_params a) = canonical dg (rq_scope b) (request_params b) \<longleftrightarrow> same_request a b"
proof
  assume same: "same_request a b"
  have "rq_scope a = rq_scope b" using same unfolding same_request_def by blast
  then show "canonical dg (rq_scope a) (request_params a) = canonical dg (rq_scope b) (request_params b)"
    unfolding same_request_create(1) [OF same] by (rule arg_cong)
next
  assume "canonical dg (rq_scope a) (request_params a) = canonical dg (rq_scope b) (request_params b)"
  then have both: "rq_scope a = rq_scope b
      \<and> dumps (dg_float dg) (JObj (request_params a)) = dumps (dg_float dg) (JObj (request_params b))"
    unfolding canonical_def by (rule scope_cancel [OF assms(1,2)])
  note sc = both [THEN conjunct1]
  note parts = both [THEN conjunct2, unfolded request_params_def dumps_request sc]
  have "rq_view a = rq_view b \<and> sort (rq_server_public_ids a) = sort (rq_server_public_ids b)
      \<and> rq_time_range a = rq_time_range b \<and> isoformat (rq_anchor_at a) = isoformat (rq_anchor_at b)"
    using parts
    by (cases "rq_scope b = ''server'' \<and> length (rq_server_public_ids a) = 1";
        cases "rq_scope b = ''server'' \<and> length (rq_server_public_ids b) = 1")
      (simp_all only: field_def append_assoc append_same_eq same_append_eq if_True if_False dump_str_cancel
        join_strs_cancel append_Nil list.inject char.inject simp_thms dump_str_inject list.distinct)
  then show "same_request a b"
    using sc isoformat_inject [OF assms(3,4)] by (simp add: same_request_def sort_eq_iff)
qed

definition sample_request :: "string list \<Rightarrow> report_request" where
  "sample_request ids = \<lparr>rq_view = ''customer'', rq_scope = ''server'', rq_server_public_ids = ids,
     rq_time_range = ''7d'', rq_anchor_at = 1772357400000000, rq_requested_by = None\<rparr>"

definition sample_digest :: digest where
  "sample_digest = \<lparr>dg_float = (\<lambda>_. ''0.0''), dg_sha256 = (\<lambda>s. take 64 s)\<rparr>"

lemma sample_in_calendar: "in_calendar (rq_anchor_at (sample_request ids))"
proof -
  have "in_calendar 1772357400000000" by code_simp
  then show ?thesis by (simp add: sample_request_def)
qed

theorem same_text_same_request_witness:
  "canonical sample_digest ''server'' (request_params (sample_request [''b'', ''a''])) =
     canonical sample_digest ''server'' (request_params (sample_request [''a'', ''b'']))
   \<and> canonical sample_digest ''server'' (request_params (sample_request [''a''])) \<noteq>
     canonical sample_digest ''server'' (request_params (sample_request [''a'', ''a'']))"
proof -
  have s: "rq_scope (sample_request ids) = ''server''" for ids by (simp add: sample_request_def)
  have "canonical sample_digest ''server'' (request_params (sample_request xs)) = canonical sample_digest ''server'' (request_params (sample_request ys))
      \<longleftrightarrow> same_request (sample_request xs) (sample_request ys)" for xs ys
    using same_text_same_request [of "sample_request xs" "sample_request ys" sample_digest] sample_in_calendar unfolding s by simp
  then show ?thesis by (simp add: same_request_def sample_request_def)
qed

section \<open>Repeated requests\<close>

lemma enqueue_report_first:
  "enqueue_report dg ((u, now, others) # rest) rq js =
     enqueue_attempts (job_create dg rq) ((u, now, others) # take 1 rest) js"
  by (simp add: enqueue_report_def ENQUEUE_MAX_ATTEMPTS_def eval_nat_numeral)

lemma enqueue_attempt_quiet:
  assumes "jobs_inv js" "enqueue_attempts x ((u, now, \<lambda>js. js) # rest) js = (Inr i, js')"
  shows "jobs_inv js' \<and> (\<exists>j \<in> set js'. j_id j = i \<and> is_active j \<and> active_key j = create_key x)"
proof (cases "create_key x \<in> active_key ` {j \<in> set js. is_active j}")
  case True
  then obtain j where j: "j \<in> set js" "is_active j" "create_key x = active_key j" by auto
  then show ?thesis using assms enqueue_active [OF j] active_of_row [OF assms(1) j] by auto
next
  case False
  show ?thesis
  proof (cases "u \<in> j_id ` set js")
    case True
    then show ?thesis using assms(2) False by (simp add: enqueue_def)
  next
    case fresh: False
    then have e: "enqueue u now x js = Inr (Some u, js @ [new_job u now x])" using False by (simp add: enqueue_def)
    then have "i = u" "js' = js @ [new_job u now x]" using assms(2) by auto
    then show ?thesis using enqueue_inv [OF assms(1) e] by simp
  qed
qed

text \<open>
  Pressing the button twice makes one report.  When a request has been
  accepted, the same request (its servers in any order, from any user) is answered with the same job and
  writes nothing for as long as that job is queued or running.
\<close>

theorem double_click_joins:
  assumes "jobs_inv js" "enqueue_report dg ((u, now, \<lambda>js. js) # rest) rq js = (Inr i, js')" "same_request rq rq'"
  shows "enqueue_report dg ((u', now', \<lambda>js. js) # rest') rq' js' = (Inr i, js')"
proof -
  have "jobs_inv js' \<and> (\<exists>j \<in> set js'. j_id j = i \<and> is_active j \<and> active_key j = create_key (job_create dg rq))"
    using enqueue_attempt_quiet [OF assms(1) assms(2) [unfolded enqueue_report_first]] .
  then obtain j where "jobs_inv js'" "j \<in> set js'" "j_id j = i" "is_active j"
    "create_key (job_create dg rq') = active_key j" using same_request_create(2) [OF assms(3)] by auto
  then show ?thesis
    unfolding enqueue_report_first by (simp add: enqueue_active active_of_row)
qed

theorem double_click_joins_witness:
  "\<exists>js'. enqueue_report sample_digest [(''u1'', 10, \<lambda>js. js)] (sample_request [''a'', ''b'']) [] = (Inr ''u1'', js')
     \<and> enqueue_report sample_digest [(''u2'', 20, \<lambda>js. js)] (sample_request [''b'', ''a'']) js' = (Inr ''u1'', js')"
proof -
  define js' where "js' = [new_job ''u1'' 10 (job_create sample_digest (sample_request [''a'', ''b'']))]"
  have e: "enqueue_report sample_digest [(''u1'', 10, \<lambda>js. js)] (sample_request [''a'', ''b'']) [] = (Inr ''u1'', js')"
    by (simp add: enqueue_report_def ENQUEUE_MAX_ATTEMPTS_def enqueue_def js'_def)
  have inv: "jobs_inv []" by (simp add: jobs_inv_def active_unique_def)
  have same: "same_request (sample_request [''a'', ''b'']) (sample_request [''b'', ''a''])"
    by (simp add: same_request_def sample_request_def)
  show ?thesis using e double_click_joins [OF inv e same] by blast
qed

text \<open>
  Claim C36: a request is answered with an active job of its own key even when the job
  it first collided with ends before it can be looked up: the second attempt absorbs one
  interference, whatever the other sessions did.
\<close>

theorem enqueue_report_ends:
  assumes "jobs_inv js" "jobs_inv (others js)" "u \<notin> j_id ` set js" "u' \<notin> j_id ` set (others js)"
  shows "\<exists>i js'. enqueue_report dg [(u, now, others), (u', now', \<lambda>js. js)] rq js = (Inr i, js')
    \<and> (\<exists>j \<in> set js'. j_id j = i \<and> is_active j \<and> active_key j = create_key (job_create dg rq))"
proof -
  let ?x = "job_create dg rq"
  have quiet: "\<exists>i ks'. enqueue_attempts ?x [(v, t, \<lambda>js. js)] ks = (Inr i, ks')"
    if "jobs_inv ks" "v \<notin> j_id ` set ks" for v t ks
  proof (cases "active_of ?x ks")
    case None
    then show ?thesis using that unfolding active_of_None by (simp add: enqueue_def)
  next
    case (Some i)
    then have "create_key ?x \<in> active_key ` {j \<in> set ks. is_active j}" using active_of_None [of ?x ks] by auto
    then have "enqueue v t ?x ks = Inr (None, ks)" by (simp add: enqueue_def)
    then show ?thesis using Some by simp
  qed
  have run: "enqueue_report dg [(u, now, others), (u', now', \<lambda>js. js)] rq js =
      enqueue_attempts ?x [(u, now, others), (u', now', \<lambda>js. js)] js"
    by (simp add: enqueue_report_def ENQUEUE_MAX_ATTEMPTS_def)
  show ?thesis
  proof (cases rule: enqueue_outcomes [of u now ?x js])
    case clash
    then show ?thesis using assms(3) by simp
  next
    case free
    then show ?thesis unfolding run by simp
  next
    case taken
    show ?thesis
    proof (cases "active_of ?x (others js)")
      case (Some i)
      then obtain j where "j \<in> set (others js)" "is_active j" "create_key ?x = active_key j"
        using active_of_None [of ?x "others js"] by auto
      then show ?thesis unfolding run using taken active_of_row [OF assms(2)] by auto
    next
      case None
      obtain i ks' where i: "enqueue_attempts ?x [(u', now', \<lambda>js. js)] (others js) = (Inr i, ks')"
        using quiet [OF assms(2,4)] by blast
      then show ?thesis unfolding run using taken None enqueue_attempt_quiet [OF assms(2) i] by auto
    qed
  qed
qed

theorem enqueue_report_ends_witness:
  "\<exists>i js'. enqueue_report sample_digest [(''u1'', 10, \<lambda>js. []), (''u2'', 20, \<lambda>js. js)] (sample_request [''a''])
      [new_job ''u0'' 5 (job_create sample_digest (sample_request [''a'']))] = (Inr i, js')
    \<and> (\<exists>j \<in> set js'. j_id j = i \<and> is_active j
          \<and> active_key j = create_key (job_create sample_digest (sample_request [''a''])))"
  by (rule enqueue_report_ends) (simp_all add: jobs_inv_def active_unique_def)

section \<open>Order of service\<close>

text \<open>Putting a sequence of items, each of them admitted in its turn, and taking up to \<open>n\<close> items.\<close>

fun all_admitted :: "('x \<Rightarrow> 's \<Rightarrow> bool) \<Rightarrow> ('x \<Rightarrow> 's \<Rightarrow> 's) \<Rightarrow> 'x list \<Rightarrow> 's \<Rightarrow> bool" where
  "all_admitted admits put [] s = True"
| "all_admitted admits put (x # xs) s = (admits x s \<and> all_admitted admits put xs (put x s))"

fun serve :: "('s \<Rightarrow> 'i option \<times> 's) \<Rightarrow> nat \<Rightarrow> 's \<Rightarrow> 'i list" where
  "serve next_item 0 s = []"
| "serve next_item (Suc n) s = (case next_item s of (None, s') \<Rightarrow> [] | (Some i, s') \<Rightarrow> i # serve next_item n s')"

text \<open>
  The interface of a first-in first-out queue: what waits, in order; putting appends, taking removes the
  front.  Its clients serve whole sequences.
\<close>

locale fifo_queue =
  fixes ok :: "'s \<Rightarrow> bool"
    and waiting :: "'s \<Rightarrow> 'i list"
    and admits :: "'x \<Rightarrow> 's \<Rightarrow> bool"
    and name_of :: "'x \<Rightarrow> 'i"
    and put :: "'x \<Rightarrow> 's \<Rightarrow> 's"
    and next_item :: "'s \<Rightarrow> 'i option \<times> 's"
  assumes put_ok: "ok s \<Longrightarrow> admits x s \<Longrightarrow> ok (put x s)"
    and put_waiting: "ok s \<Longrightarrow> admits x s \<Longrightarrow> waiting (put x s) = waiting s @ [name_of x]"
    and next_ok: "ok s \<Longrightarrow> ok (snd (next_item s))"
    and next_empty: "ok s \<Longrightarrow> waiting s = [] \<Longrightarrow> next_item s = (None, s)"
    and next_front: "ok s \<Longrightarrow> waiting s = i # r \<Longrightarrow> fst (next_item s) = Some i \<and> waiting (snd (next_item s)) = r"
begin

lemma puts_waiting: "ok s \<Longrightarrow> all_admitted admits put xs s \<Longrightarrow> ok (fold put xs s) \<and> waiting (fold put xs s) = waiting s @ map name_of xs"
  by (induction xs arbitrary: s) (auto simp: put_ok put_waiting)

lemma serve_waiting: "ok s \<Longrightarrow> serve next_item n s = take n (waiting s)"
proof (induction n arbitrary: s)
  case (Suc n)
  show ?case
  proof (cases "waiting s")
    case Nil
    then show ?thesis using next_empty [OF Suc.prems] by simp
  next
    case (Cons i r)
    note front = next_front [OF Suc.prems Cons]
    have "serve next_item (Suc n) s = i # serve next_item n (snd (next_item s))" using front by (cases "next_item s") simp
    also have "\<dots> = take (Suc n) (waiting s)" using Suc.IH [OF next_ok [OF Suc.prems]] front Cons by simp
    finally show ?thesis .
  qed
qed simp

lemma served_in_order:
  "ok s \<Longrightarrow> all_admitted admits put xs s \<Longrightarrow> serve next_item n (fold put xs s) = take n (waiting s @ map name_of xs)"
  using puts_waiting serve_waiting by metis

end

text \<open>The job table as such a queue.\<close>

definition waiting_jobs :: "jobs \<Rightarrow> string list" where
  "waiting_jobs js = map j_id (claimable [] js)"

type_synonym submission = "string \<times> datetime \<times> DiagnosticJobCreate"

definition submit :: "submission \<Rightarrow> jobs \<Rightarrow> jobs" where
  "submit sub js = (case sub of (u, now, x) \<Rightarrow> (case enqueue u now x js of Inr (_, js') \<Rightarrow> js' | Inl _ \<Rightarrow> js))"

definition accepts :: "submission \<Rightarrow> jobs \<Rightarrow> bool" where
  "accepts sub js =
     (case sub of (u, now, x) \<Rightarrow>
        create_key x \<notin> active_key ` {j \<in> set js. is_active j} \<and> u \<notin> j_id ` set js
        \<and> (\<forall>j \<in> set js. j_created_at j \<le> now))"

definition claim_id :: "datetime \<Rightarrow> jobs \<Rightarrow> string option \<times> jobs" where
  "claim_id now js = (case claim_next_pending [] now js of (r, js') \<Rightarrow> (map_option j_id r, js'))"

lemma sort_key_snoc:
  assumes "\<And>y. y \<in> set xs \<Longrightarrow> f y \<le> f x" shows "sort_key f (xs @ [x]) = sort_key f xs @ [x]"
proof (rule properties_for_sort_key)
  show "sorted (map f (sort_key f xs @ [x]))" using assms by (auto simp: sorted_append)
  show "filter (\<lambda>y. f k = f y) (sort_key f xs @ [x]) = filter (\<lambda>y. f k = f y) (xs @ [x])" for k
    using sort_key_stable [of f "f k" xs] by (simp add: eq_commute [of "f k"])
qed simp

lemma submit_accepted: "accepts (u, now, x) js \<Longrightarrow> enqueue u now x js = Inr (Some u, js @ [new_job u now x])"
  by (simp add: accepts_def enqueue_def)

lemma submit_waiting:
  assumes "accepts (u, now, x) js" shows "waiting_jobs (submit (u, now, x) js) = waiting_jobs js @ [u]"
proof -
  let ?p = "filter (\<lambda>j. j_status j = ''pending'')"
  have "sort_key j_created_at (?p js @ [new_job u now x]) = sort_key j_created_at (?p js) @ [new_job u now x]"
    by (rule sort_key_snoc) (use assms in \<open>simp add: accepts_def\<close>)
  then show ?thesis by (simp add: waiting_jobs_def submit_def submit_accepted [OF assms] claimable_def)
qed

lemma claim_waiting:
  assumes "jobs_inv js" "claimable [] js = j # rest"
  shows "claimable [] (update_job (j_id j) (start_job now) js) = rest"
proof -
  let ?p = "\<lambda>k. j_status k = ''pending''"
  have "filter ?p (update_job (j_id j) (start_job now) js) = filter (\<lambda>k. j_id k \<noteq> j_id j) (filter ?p js)"
    by (induction js) (auto simp: update_job_def)
  then have "claimable [] (update_job (j_id j) (start_job now) js) = filter (\<lambda>k. j_id k \<noteq> j_id j) (claimable [] js)"
    by (simp add: claimable_def filter_sort)
  also have "\<dots> = rest"
  proof -
    have "distinct (map j_id (claimable [] js))"
      using assms(1) unfolding claimable_def jobs_inv_def
      by (metis (no_types, lifting) distinct_map_filter mset_map mset_sort mset_eq_imp_distinct_iff)
    then have "j_id k \<noteq> j_id j" if "k \<in> set rest" for k using that assms(2) by (auto simp: image_iff)
    then show ?thesis using assms(2) by (simp add: filter_True)
  qed
  finally show ?thesis .
qed

interpretation report_fifo: fifo_queue jobs_inv waiting_jobs accepts fst submit "claim_id now" for now
proof (unfold_locales)
  fix js sub assume inv: "jobs_inv js" and acc: "accepts sub js"
  obtain u t x where sub: "sub = (u, t, x)" by (rule prod_cases3)
  show "jobs_inv (submit sub js)"
    using enqueue_inv [OF inv submit_accepted [OF acc [unfolded sub]]]
    by (simp add: sub submit_def submit_accepted [OF acc [unfolded sub]])
  show "waiting_jobs (submit sub js) = waiting_jobs js @ [fst sub]"
    using submit_waiting acc by (simp add: sub)
next
  fix js assume inv: "jobs_inv js"
  show "jobs_inv (snd (claim_id now js))"
    using claim_inv [OF inv, of "[]" now] by (cases "claim_next_pending [] now js") (simp add: claim_id_def)
  show "claim_id now js = (None, js)" if "waiting_jobs js = []"
    using that by (simp add: claim_id_def claim_next_pending_def waiting_jobs_def)
  show "fst (claim_id now js) = Some i \<and> waiting_jobs (snd (claim_id now js)) = r" if w: "waiting_jobs js = i # r" for i r
  proof -
    obtain j rest where c: "claimable [] js = j # rest" "j_id j = i" "map j_id rest = r"
      using w by (cases "claimable [] js") (simp_all add: waiting_jobs_def)
    then show ?thesis using claim_waiting [OF inv c(1), of now]
      by (simp add: claim_id_def claim_next_pending_def waiting_jobs_def)
  qed
qed

text \<open>
  Claim C35: the table is a first-in first-out queue.  Reports submitted one
  after the other to an idle queue are claimed in the order of submission, after those that were already
  waiting.
\<close>

theorem reports_first_come_first_served:
  assumes "jobs_inv js" "all_admitted accepts submit subs js"
  shows "serve (claim_id now) n (fold submit subs js) = take n (waiting_jobs js @ map fst subs)"
  using assms by (rule report_fifo.served_in_order)

theorem reports_first_come_first_served_witness:
  "serve (claim_id 100) 2
     (fold submit [(''u1'', 10, sample_job ''x''), (''u2'', 20, sample_job ''y''), (''u3'', 30, sample_job ''z'')] [])
   = [''u1'', ''u2'']"
proof -
  have "jobs_inv []" by (simp add: jobs_inv_def active_unique_def)
  moreover have "all_admitted accepts submit [(''u1'', 10, sample_job ''x''), (''u2'', 20, sample_job ''y''), (''u3'', 30, sample_job ''z'')] []"
    by (auto simp: accepts_def submit_def enqueue_def sample_job_def create_key_def active_key_def new_job_def)
  ultimately show ?thesis
    using reports_first_come_first_served [of "[]" "[(''u1'', 10, sample_job ''x''), (''u2'', 20, sample_job ''y''), (''u3'', 30, sample_job ''z'')]" 100 2]
    by (simp add: waiting_jobs_def claimable_def eval_nat_numeral)
qed

end
