(* ===== verification/ReportWorker.thy ===== *)
theory ReportWorker
  imports ReportRequests "HOL-Library.AList"
begin

text \<open>
  The worker process: generation of a report for a claimed job (\<open>web/services/report_generator.py\<close>), and
  the loop around it (\<open>worker/report_worker.py\<close>).  The query service is an argument, a record of its methods; a raised exception is the left value of a sum.
\<close>

section \<open>Operational signals\<close>

record attention_row =
  at_link_text :: string
  at_badge_text :: string
  at_meta_text :: string

record AttentionSignals =
  gap_warnings :: "attention_row list"
  os_eol_warnings :: "attention_row list"
  agent_unstable :: "attention_row list"

type_synonym signal_dict = "(string \<times> string) list"

definition note_rows :: "string \<Rightarrow> (attention_row \<Rightarrow> string) \<Rightarrow> string \<Rightarrow> attention_row list \<Rightarrow> signal_dict \<Rightarrow> signal_dict" where
  "note_rows key text_of hostname rows out =
     fold (\<lambda>row out. if at_link_text row = hostname then AList.update key (text_of row) out else out) rows out"

definition attention_for_host :: "string \<Rightarrow> AttentionSignals \<Rightarrow> signal_dict" where
  "attention_for_host hostname a =
     note_rows ''restart'' at_badge_text hostname (agent_unstable a)
       (note_rows ''os_eol'' at_meta_text hostname (os_eol_warnings a)
         (note_rows ''gap'' at_badge_text hostname (gap_warnings a) []))"

text \<open>The same for a set of hosts (given in some order without repetition), one entry per host.\<close>

definition note_rows_by_host ::
  "string \<Rightarrow> (attention_row \<Rightarrow> string) \<Rightarrow> attention_row list \<Rightarrow> (string \<times> signal_dict) list \<Rightarrow> (string \<times> signal_dict) list" where
  "note_rows_by_host key text_of rows by_host =
     fold (\<lambda>row d. case map_of d (at_link_text row) of
                     None \<Rightarrow> d
                   | Some out \<Rightarrow> AList.update (at_link_text row) (AList.update key (text_of row) out) d) rows by_host"

definition attention_by_host :: "string list \<Rightarrow> AttentionSignals \<Rightarrow> (string \<times> signal_dict) list" where
  "attention_by_host hostnames a =
     note_rows_by_host ''restart'' at_badge_text (agent_unstable a)
       (note_rows_by_host ''os_eol'' at_meta_text (os_eol_warnings a)
         (note_rows_by_host ''gap'' at_badge_text (gap_warnings a) (map (\<lambda>h. (h, [])) hostnames)))"

definition signals_json :: "signal_dict \<Rightarrow> json" where
  "signals_json d = JObj (map (\<lambda>(k, v). (k, JStr v)) d)"

section \<open>Generation\<close>

datatype gen_error = ReportGenerationError string | OtherException

record report_summary =
  rs_total :: int
  rs_row_hostnames :: "string list"
  rs_dict :: json

record query_service =
  get_environment_report :: "string \<Rightarrow> datetime \<Rightarrow> string \<Rightarrow> gen_error + report_summary"
  resolve_server_ids :: "string list \<Rightarrow> gen_error + (string \<rightharpoonup> int)"
  get_attention_signals :: "datetime \<Rightarrow> gen_error + AttentionSignals"
  get_single_server_report ::
    "string \<Rightarrow> string \<Rightarrow> string \<Rightarrow> datetime \<Rightarrow> AttentionSignals \<Rightarrow> gen_error + report_summary option"
  build_child_prefetched_reports ::
    "string list \<Rightarrow> (string \<rightharpoonup> int) \<Rightarrow> string \<Rightarrow> string \<Rightarrow> datetime \<Rightarrow> AttentionSignals
     \<Rightarrow> gen_error + (string \<times> report_summary option) list"
  get_selection_report :: "string list \<Rightarrow> string \<Rightarrow> string \<Rightarrow> datetime \<Rightarrow> gen_error + report_summary option"

definition DIAGNOSTIC_DEFAULT_TIME_RANGE :: string where
  "DIAGNOSTIC_DEFAULT_TIME_RANGE = ''14d''"

text \<open>
  \<open>p[key]\<close> for a string member; a missing key raises.  The table only has parameters written by
  \<open>_build_input_params\<close>, so a member of another type does not occur (it counts as missing).
\<close>

definition str_member :: "JsonObject \<Rightarrow> string \<Rightarrow> gen_error + string" where
  "str_member p key = (case map_of p key of Some (JStr s) \<Rightarrow> Inr s | _ \<Rightarrow> Inl OtherException)"

definition time_range_of :: "JsonObject \<Rightarrow> string" where
  "time_range_of p = (case map_of p ''time_range'' of Some (JStr s) \<Rightarrow> s | _ \<Rightarrow> DIAGNOSTIC_DEFAULT_TIME_RANGE)"

definition ids_of :: "JsonObject \<Rightarrow> gen_error + string list" where
  "ids_of p =
     (case map_of p ''server_public_ids'' of
        Some (JList xs) \<Rightarrow> Inr (map (\<lambda>x. case x of JStr s \<Rightarrow> s | _ \<Rightarrow> []) xs)
      | _ \<Rightarrow> Inl OtherException)"

definition anchor_of :: "JsonObject \<Rightarrow> gen_error + datetime" where
  "anchor_of p =
     bind_res (str_member p ''anchor_at'')
       (\<lambda>s. case fromisoformat s of Some t \<Rightarrow> Inr t | None \<Rightarrow> Inl OtherException)"

definition host_aux :: "string \<Rightarrow> report_summary \<Rightarrow> AttentionSignals \<Rightarrow> JsonObject" where
  "host_aux pid summary attention =
     [(''attention_for_host'',
       signals_json (attention_for_host (case rs_row_hostnames summary of [] \<Rightarrow> pid | h # _ \<Rightarrow> h) attention))]"

definition child_request :: "string \<Rightarrow> string \<Rightarrow> datetime \<Rightarrow> string \<Rightarrow> report_request" where
  "child_request view time_range anchor pid =
     \<lparr>rq_view = view, rq_scope = ''server'', rq_server_public_ids = [pid], rq_time_range = time_range,
      rq_anchor_at = anchor, rq_requested_by = None\<rparr>"

text \<open>
  The loop over the children: each report is published on its own, with its own session; an exception
  leaves those already committed.
\<close>

fun emit_children ::
  "digest \<Rightarrow> (string \<Rightarrow> attempt) \<Rightarrow> string \<Rightarrow> string \<Rightarrow> datetime \<Rightarrow> AttentionSignals
   \<Rightarrow> (string \<times> report_summary option) list \<Rightarrow> JsonObject \<Rightarrow> jobs \<Rightarrow> (gen_error + JsonObject) \<times> jobs" where
  "emit_children dg sess view time_range anchor attention [] child_jobs js = (Inr child_jobs, js)"
| "emit_children dg sess view time_range anchor attention ((pid, None) # rest) child_jobs js =
     emit_children dg sess view time_range anchor attention rest child_jobs js"
| "emit_children dg sess view time_range anchor attention ((pid, Some child) # rest) child_jobs js =
     (case emit_report dg (sess pid) (child_request view time_range anchor pid) REPORT_KIND_ENV (rs_dict child)
             (Some (host_aux pid child attention)) None js of
        Inl e \<Rightarrow> (Inl OtherException, js)
      | Inr (None, js1) \<Rightarrow> emit_children dg sess view time_range anchor attention rest child_jobs js1
      | Inr (Some cid, js1) \<Rightarrow>
          emit_children dg sess view time_range anchor attention rest (AList.update pid (JStr cid) child_jobs) js1)"

definition single_report ::
  "query_service \<Rightarrow> string \<Rightarrow> string \<Rightarrow> datetime \<Rightarrow> AttentionSignals \<Rightarrow> string \<Rightarrow> gen_error + JsonObject" where
  "single_report qs view time_range anchor attention pid =
     bind_res (get_single_server_report qs pid view time_range anchor attention)
       (\<lambda>r. case r of
              None \<Rightarrow> Inl (ReportGenerationError ''server not found'')
            | Some summary \<Rightarrow>
                Inr (build_report_result REPORT_KIND_ENV (rs_dict summary) view (Some (host_aux pid summary attention))))"

definition selection_report ::
  "digest \<Rightarrow> (string \<Rightarrow> attempt) \<Rightarrow> query_service \<Rightarrow> string \<Rightarrow> string \<Rightarrow> datetime \<Rightarrow> AttentionSignals
   \<Rightarrow> (string \<rightharpoonup> int) \<Rightarrow> string list \<Rightarrow> jobs \<Rightarrow> (gen_error + JsonObject) \<times> jobs" where
  "selection_report dg sess qs view time_range anchor attention sid_map valid js =
     (case build_child_prefetched_reports qs valid sid_map view time_range anchor attention of
        Inl e \<Rightarrow> (Inl e, js)
      | Inr children \<Rightarrow>
          (case emit_children dg sess view time_range anchor attention children [] js of
             (Inl e, js1) \<Rightarrow> (Inl e, js1)
           | (Inr child_jobs, js1) \<Rightarrow>
               (case get_selection_report qs valid view time_range anchor of
                  Inl e \<Rightarrow> (Inl e, js1)
                | Inr None \<Rightarrow> (Inl (ReportGenerationError ''no valid server ids''), js1)
                | Inr (Some selection) \<Rightarrow>
                    let aux = [(''attention_by_host'',
                                JObj (map (\<lambda>(h, d). (h, signals_json d))
                                       (attention_by_host (remdups (rs_row_hostnames selection)) attention)))]
                    in (Inr (build_report_result REPORT_KIND_ENV (rs_dict selection) view (Some aux)
                             @ [(''child_jobs'', JObj child_jobs)]), js1))))"

definition server_report ::
  "digest \<Rightarrow> (string \<Rightarrow> attempt) \<Rightarrow> query_service \<Rightarrow> string \<Rightarrow> string \<Rightarrow> datetime \<Rightarrow> string list \<Rightarrow> jobs
   \<Rightarrow> (gen_error + JsonObject) \<times> jobs" where
  "server_report dg sess qs view time_range anchor ids js =
     (case resolve_server_ids qs ids of
        Inl e \<Rightarrow> (Inl e, js)
      | Inr sid_map \<Rightarrow>
          let valid = filter (\<lambda>pid. pid \<in> dom sid_map) ids in
          if valid = [] then (Inl (ReportGenerationError ''no valid server ids''), js)
          else (case get_attention_signals qs anchor of
                  Inl e \<Rightarrow> (Inl e, js)
                | Inr attention \<Rightarrow>
                    (case valid of
                       [pid] \<Rightarrow> (single_report qs view time_range anchor attention pid, js)
                     | _ \<Rightarrow> selection_report dg sess qs view time_range anchor attention sid_map valid js)))"

definition environment_report :: "query_service \<Rightarrow> string \<Rightarrow> string \<Rightarrow> datetime \<Rightarrow> gen_error + JsonObject" where
  "environment_report qs view time_range anchor =
     bind_res (get_environment_report qs time_range anchor view)
       (\<lambda>summary. if rs_total summary = 0 then Inl (ReportGenerationError ''no registered servers'')
                  else Inr (build_report_result REPORT_KIND_ENV (rs_dict summary) view None))"

definition build_report_result_for_job ::
  "digest \<Rightarrow> (string \<Rightarrow> attempt) \<Rightarrow> query_service \<Rightarrow> DiagnosticJob \<Rightarrow> jobs \<Rightarrow> (gen_error + JsonObject) \<times> jobs" where
  "build_report_result_for_job dg sess qs record js =
     (let p = j_input_params record; time_range = time_range_of p in
      case str_member p ''view'' of
        Inl e \<Rightarrow> (Inl e, js)
      | Inr view \<Rightarrow>
          (case anchor_of p of
             Inl e \<Rightarrow> (Inl e, js)
           | Inr anchor \<Rightarrow>
               if j_scope record = ''environment'' then (environment_report qs view time_range anchor, js)
               else (case ids_of p of
                       Inl e \<Rightarrow> (Inl e, js)
                     | Inr ids \<Rightarrow> server_report dg sess qs view time_range anchor ids js)))"

section \<open>The worker\<close>

text \<open>A database call of the worker: done, failed before its commit, or committed with the answer lost.\<close>

datatype call_fault = Call_ok | Call_failed | Call_unacknowledged

definition run_call :: "call_fault \<Rightarrow> (jobs \<Rightarrow> jobs) \<Rightarrow> jobs \<Rightarrow> bool \<times> jobs" where
  "run_call f op js =
     (case f of Call_ok \<Rightarrow> (True, op js) | Call_failed \<Rightarrow> (False, js) | Call_unacknowledged \<Rightarrow> (False, op js))"

definition internal_error :: string where "internal_error = ''internal error''"

text \<open>
  \<open>_process_one\<close>: the call that stores the result is inside the \<open>try\<close>, so its failure is handled like a
  failure of the generation.  The first component is whether the function returned.
\<close>

definition process_one ::
  "call_fault \<Rightarrow> call_fault \<Rightarrow> datetime \<Rightarrow> datetime \<Rightarrow> string
   \<Rightarrow> (jobs \<Rightarrow> (gen_error + JsonObject) \<times> jobs) \<Rightarrow> jobs \<Rightarrow> bool \<times> jobs" where
  "process_one store_fault fail_fault t1 t2 job_id generate js =
     (case generate js of
        (Inr result, js1) \<Rightarrow>
          (case run_call store_fault (mark_succeeded t1 job_id result) js1 of
             (True, js2) \<Rightarrow> (True, js2)
           | (False, js2) \<Rightarrow> run_call fail_fault (mark_failed t2 job_id internal_error) js2)
      | (Inl (ReportGenerationError m), js1) \<Rightarrow> run_call fail_fault (mark_failed t2 job_id m) js1
      | (Inl OtherException, js1) \<Rightarrow> run_call fail_fault (mark_failed t2 job_id internal_error) js1)"

text \<open>What happens around one turn of the loop.\<close>

record turn =
  tn_stop :: bool
  tn_claim_fault :: call_fault
  tn_locked :: "string list"
  tn_claim_at :: datetime
  tn_generate :: "DiagnosticJob \<Rightarrow> jobs \<Rightarrow> (gen_error + JsonObject) \<times> jobs"
  tn_store_fault :: call_fault
  tn_fail_fault :: call_fault
  tn_store_at :: datetime
  tn_fail_at :: datetime

definition worker_turn :: "turn \<Rightarrow> jobs \<Rightarrow> jobs" where
  "worker_turn tn js =
     (case claim_next_pending (tn_locked tn) (tn_claim_at tn) js of
        (rec, js1) \<Rightarrow>
          (case tn_claim_fault tn of
             Call_failed \<Rightarrow> js
           | Call_unacknowledged \<Rightarrow> js1
           | Call_ok \<Rightarrow>
               (case rec of
                  None \<Rightarrow> js1
                | Some j \<Rightarrow> snd (process_one (tn_store_fault tn) (tn_fail_fault tn) (tn_store_at tn) (tn_fail_at tn)
                                  (j_id j) (tn_generate tn j) js1))))"

fun worker_loop :: "turn list \<Rightarrow> jobs \<Rightarrow> jobs" where
  "worker_loop [] js = js"
| "worker_loop (tn # rest) js = (if tn_stop tn then js else worker_loop rest (worker_turn tn js))"

text \<open>
  \<open>run_report_worker\<close>: one recovery (its failure is logged), then the loop; the turns are those until the
  process is stopped.
\<close>

definition run_report_worker :: "int \<Rightarrow> datetime \<Rightarrow> call_fault \<Rightarrow> turn list \<Rightarrow> jobs \<Rightarrow> jobs" where
  "run_report_worker stale_seconds now recover_fault turns js =
     worker_loop turns (snd (run_call recover_fault (snd \<circ> recover_stale_running stale_seconds now) js))"

section \<open>Signals of one host and of many\<close>

lemma note_rows_Cons:
  "note_rows key f h (r # rows) out =
     note_rows key f h rows (if at_link_text r = h then AList.update key (f r) out else out)"
  by (simp add: note_rows_def)

lemma note_rows_by_host_lookup:
  "map_of (note_rows_by_host key f rows d) h = map_option (note_rows key f h rows) (map_of d h)"
proof (induction rows arbitrary: d)
  case Nil
  show ?case by (simp add: note_rows_by_host_def note_rows_def option.map_ident)
next
  case (Cons r rows)
  let ?d = "case map_of d (at_link_text r) of None \<Rightarrow> d
            | Some out \<Rightarrow> AList.update (at_link_text r) (AList.update key (f r) out) d"
  have "map_of (note_rows_by_host key f (r # rows) d) h = map_option (note_rows key f h rows) (map_of ?d h)"
    using Cons.IH [of ?d] by (simp add: note_rows_by_host_def)
  also have "map_of ?d h = map_option (\<lambda>out. if at_link_text r = h then AList.update key (f r) out else out) (map_of d h)"
    by (cases "map_of d (at_link_text r)"; cases "at_link_text r = h"; cases "map_of d h") (simp_all add: update_conv')
  finally show ?case by (simp add: option.map_comp comp_def note_rows_Cons)
qed

text \<open>
  The batch lookup used for a selection gives every selected host the
  signals that the single-host lookup gives it, and no other host an entry.
\<close>

theorem attention_by_host_agrees:
  "map_of (attention_by_host hostnames a) h =
     (if h \<in> set hostnames then Some (attention_for_host h a) else None)"
proof -
  have "map_of (map (\<lambda>h. (h, [])) hostnames) h = (if h \<in> set hostnames then Some [] else None)"
    by (induction hostnames) auto
  then show ?thesis
    by (cases "h \<in> set hostnames") (simp_all add: attention_by_host_def attention_for_host_def note_rows_by_host_lookup)
qed

section \<open>Generation only adds finished reports\<close>

definition quiet :: "(string \<Rightarrow> attempt) \<Rightarrow> bool" where
  "quiet sess = (\<forall>pid. snd (snd (sess pid)) = (\<lambda>js. js))"

definition adds_reports :: "jobs \<Rightarrow> jobs \<Rightarrow> bool" where
  "adds_reports js js' = (\<exists>new. js' = js @ new \<and> (\<forall>j \<in> set new. j_status j = ''succeeded'' \<and> j_id j \<notin> j_id ` set js))"

lemma adds_reports_refl [simp]: "adds_reports js js"
  by (simp add: adds_reports_def)

lemma adds_reports_trans:
  assumes "adds_reports a b" "adds_reports b c" shows "adds_reports a c"
proof -
  obtain p q where b: "b = a @ p" "\<forall>j \<in> set p. j_status j = ''succeeded'' \<and> j_id j \<notin> j_id ` set a"
    and c: "c = b @ q" "\<forall>j \<in> set q. j_status j = ''succeeded'' \<and> j_id j \<notin> j_id ` set b"
    using assms unfolding adds_reports_def by blast
  have "\<forall>j \<in> set (p @ q). j_status j = ''succeeded'' \<and> j_id j \<notin> j_id ` set a"
    using b(2) c(2) unfolding b(1) set_append image_Un by blast
  then show ?thesis unfolding adds_reports_def b(1) c(1) by (intro exI [of _ "p @ q"]) simp
qed

lemma update_job_new:
  "u \<notin> j_id ` set js \<Longrightarrow> update_job u f (js @ [j]) = js @ [if j_id j = u then f j else j]"
  unfolding update_job_def by (simp, intro map_idI) auto

lemma emit_report_adds:
  assumes "quiet sess" "emit_report dg (sess pid) rq kind snapshot aux child_jobs js = Inr (r, js')" "jobs_inv js"
  shows "adds_reports js js' \<and> jobs_inv js' \<and> (\<forall>i. r = Some i \<longrightarrow> i \<in> j_id ` set js')"
proof -
  obtain u now others where sess: "sess pid = (u, now, others)" by (rule prod_cases3)
  then have others: "others = (\<lambda>js. js)" using assms(1) unfolding quiet_def by (metis snd_conv)
  let ?x = "job_create dg rq"
  show ?thesis
  proof (cases rule: enqueue_outcomes [of u now ?x js])
    case taken
    then have r: "r = active_of ?x js" "js' = js" using assms(2) by (auto simp: emit_report_def sess others)
    have "i \<in> j_id ` set js" if "active_of ?x js = Some i" for i
      using that by (auto simp: active_of_def get_active_by_hash_def find_Some_iff)
    then show ?thesis using r assms(3) by simp
  next
    case clash
    then show ?thesis using assms(2) by (simp add: emit_report_def sess)
  next
    case free
    have "\<exists>res. js' = mark_succeeded now u res (js @ [new_job u now ?x]) \<and> r = Some u"
      using assms(2) free by (auto simp: emit_report_def sess)
    then obtain res where js': "js' = mark_succeeded now u res (js @ [new_job u now ?x])" "r = Some u" by blast
    have "js' = js @ [(new_job u now ?x)\<lparr>j_status := ''succeeded'', j_result := Some res,
        j_finished_at := Some now, j_progress_stage := None\<rparr>]"
      unfolding js' mark_succeeded_def by (simp only: update_job_new [OF free(2)] new_job_simps refl if_True)
    moreover have "jobs_inv js'" unfolding js' by (rule mark_succeeded_inv [OF enqueue_inv [OF assms(3) free(1)]])
    ultimately show ?thesis using free(2) js'(2) by (simp add: adds_reports_def)
  qed
qed

lemma emit_children_adds:
  assumes "quiet sess" "jobs_inv js"
    "emit_children dg sess view time_range anchor attention children child_jobs js = (r, js')"
  shows "adds_reports js js' \<and> jobs_inv js'"
  using assms
proof (induction dg sess view time_range anchor attention children child_jobs js rule: emit_children.induct)
  case (3 dg sess view time_range anchor attention pid child rest child_jobs js)
  let ?e = "emit_report dg (sess pid) (child_request view time_range anchor pid) REPORT_KIND_ENV (rs_dict child)
             (Some (host_aux pid child attention)) None js"
  show ?case
  proof (cases ?e)
    case (Inl e)
    then show ?thesis using "3.prems" by simp
  next
    case (Inr res)
    obtain i js1 where res: "res = (i, js1)" by (rule prod.exhaust)
    note step = emit_report_adds [OF "3.prems"(1) Inr [unfolded res] "3.prems"(2)]
    show ?thesis
    proof (cases i)
      case None
      then have "adds_reports js1 js' \<and> jobs_inv js'"
        using "3.IH"(1) [OF Inr] Inr res step "3.prems" by simp
      then show ?thesis using step adds_reports_trans by blast
    next
      case (Some cid)
      then have "adds_reports js1 js' \<and> jobs_inv js'"
        using "3.IH"(2) [OF Inr] Inr res step "3.prems" by simp
      then show ?thesis using step adds_reports_trans by blast
    qed
  qed
qed auto

lemma generation_adds:
  assumes "quiet sess" "jobs_inv js" "build_report_result_for_job dg sess qs record js = (r, js')"
  shows "adds_reports js js' \<and> jobs_inv js'"
proof -
  have sel: "adds_reports js ks \<and> jobs_inv ks"
    if "selection_report dg sess qs view time_range anchor attention sid_map valid js = (q, ks)"
    for view time_range anchor attention sid_map valid q ks
  proof (cases "build_child_prefetched_reports qs valid sid_map view time_range anchor attention")
    case (Inl e)
    then show ?thesis using that assms(2) by (simp add: selection_report_def)
  next
    case (Inr children)
    obtain c js1 where e: "emit_children dg sess view time_range anchor attention children [] js = (c, js1)"
      by (rule prod.exhaust)
    have "ks = js1" using that Inr e by (auto simp: selection_report_def Let_def split: sum.splits option.splits)
    then show ?thesis using emit_children_adds [OF assms(1,2) e] by simp
  qed
  have srv: "adds_reports js ks \<and> jobs_inv ks"
    if "server_report dg sess qs view time_range anchor ids js = (q, ks)" for view time_range anchor ids q ks
    using that sel assms(2) unfolding server_report_def Let_def
    by (auto split: sum.splits if_splits list.splits)
  show ?thesis
    using assms(2,3) srv unfolding build_report_result_for_job_def Let_def
    by (auto split: sum.splits if_splits)
qed

section \<open>Every claimed job is settled\<close>

definition settled_as :: "gen_error + JsonObject \<Rightarrow> DiagnosticJob \<Rightarrow> bool" where
  "settled_as r j =
     (case r of
        Inr result \<Rightarrow> j_status j = ''succeeded'' \<and> j_result j = Some result
      | Inl (ReportGenerationError m) \<Rightarrow> j_status j = ''failed'' \<and> j_error_message j = Some m
      | Inl OtherException \<Rightarrow> j_status j = ''failed'' \<and> j_error_message j = Some internal_error)"

lemma update_row: "j \<in> set js \<Longrightarrow> j_id j = i \<Longrightarrow> f j \<in> set (update_job i f js)"
  by (auto simp: update_job_def intro: image_eqI [of _ _ j])

lemma process_one_settles:
  assumes "generate js = (r, js1)"
  shows "\<exists>f. process_one Call_ok Call_ok t1 t2 i generate js = (True, update_job i f js1)
    \<and> (\<forall>j. j_id (f j) = j_id j \<and> settled_as r (f j))"
proof -
  have ok: "\<exists>f. update_job i g js1 = update_job i f js1 \<and> (\<forall>j. j_id (f j) = j_id j \<and> settled_as r (f j))"
    if "\<And>j. j_id (g j) = j_id j \<and> settled_as r (g j)" for g
    using that by blast
  show ?thesis
  proof (cases r)
    case (Inr result)
    then show ?thesis using assms
      by (simp add: process_one_def run_call_def mark_succeeded_def) (rule ok [unfolded Inr], simp add: settled_as_def)
  next
    case (Inl e)
    show ?thesis
    proof (cases e)
      case (ReportGenerationError m)
      then show ?thesis using assms Inl
        by (simp add: process_one_def run_call_def mark_failed_def)
          (rule ok [unfolded Inl ReportGenerationError], simp add: settled_as_def)
    next
      case OtherException
      then show ?thesis using assms Inl
        by (simp add: process_one_def run_call_def mark_failed_def)
          (rule ok [unfolded Inl OtherException], simp add: settled_as_def)
    qed
  qed
qed

lemma worker_turn_settles:
  assumes "jobs_inv js" "quiet sess"
    and "claim_next_pending (tn_locked tn) (tn_claim_at tn) js = (Some j, js1)"
    and "tn_claim_fault tn = Call_ok" "tn_store_fault tn = Call_ok" "tn_fail_fault tn = Call_ok"
    and "tn_generate tn = build_report_result_for_job dg sess qs"
  shows "(\<exists>k \<in> set (worker_turn tn js). j_id k = j_id j
          \<and> settled_as (fst (build_report_result_for_job dg sess qs j js1)) k)
    \<and> {k \<in> set js. j_id k \<noteq> j_id j} \<subseteq> set (worker_turn tn js)
    \<and> {k \<in> set (worker_turn tn js). j_id k \<notin> j_id ` set js} \<subseteq> {k. j_status k = ''succeeded''}"
proof -
  let ?gen = "build_report_result_for_job dg sess qs j"
  obtain h rest where h: "claimable (tn_locked tn) js = h # rest" "j = start_job (tn_claim_at tn) h"
    "js1 = update_job (j_id h) (start_job (tn_claim_at tn)) js"
    using assms(3) by (auto simp: claim_next_pending_def split: list.splits)
  note hd = claimable_head [OF h(1)]
  have inv1: "jobs_inv js1" using claim_inv [OF assms(1), of "tn_locked tn" "tn_claim_at tn"] assms(3) by simp
  have j1: "j \<in> set js1" unfolding h(2,3) by (rule update_row [OF hd(1)]) simp
  have others: "{k \<in> set js. j_id k \<noteq> j_id j} \<subseteq> set js1" unfolding h(2,3) using update_keeps by auto
  have "map j_id js1 = map j_id js" unfolding h(3) update_job_def by simp
  then have ids1: "j_id ` set js1 = j_id ` set js" by (metis set_map)
  obtain r js2 where gen: "?gen js1 = (r, js2)" by (rule prod.exhaust)
  obtain new where new: "js2 = js1 @ new" "\<forall>k \<in> set new. j_status k = ''succeeded''"
    using generation_adds [OF assms(2) inv1 gen] unfolding adds_reports_def by blast
  obtain f where run: "process_one Call_ok Call_ok (tn_store_at tn) (tn_fail_at tn) (j_id j) ?gen js1 = (True, update_job (j_id j) f js2)"
    and f: "\<And>k. j_id (f k) = j_id k \<and> settled_as r (f k)" using process_one_settles [of ?gen js1, OF gen] by blast
  have turn: "worker_turn tn js = update_job (j_id j) f js2"
    using assms(3-7) run by (simp add: worker_turn_def)
  have "f j \<in> set (update_job (j_id j) f js2)" by (rule update_row) (simp_all add: new j1)
  then have "\<exists>k \<in> set (worker_turn tn js). j_id k = j_id j \<and> settled_as (fst (?gen js1)) k"
    using f [of j] by (auto simp: turn gen)
  moreover have "{k \<in> set js. j_id k \<noteq> j_id j} \<subseteq> set (worker_turn tn js)"
    using others update_keeps [of _ js2] unfolding turn by (auto simp: new)
  moreover have "j_status k = ''succeeded''" if k: "k \<in> set (worker_turn tn js)" "j_id k \<notin> j_id ` set js" for k
  proof -
    have "j_id j \<in> j_id ` set js" using j1 ids1 by blast
    then have "k \<in> set js2" using k f unfolding turn update_job_def by (auto split: if_splits)
    moreover have "k \<notin> set js1" using k(2) ids1 by blast
    ultimately show ?thesis using new by auto
  qed
  ultimately show ?thesis by blast
qed

text \<open>
  Claim C37: a turn of the worker without a database failure finishes the job it claims.
  The row ends as a success with exactly the generated result, or as a failure whose message is the reason
  of a \<open>ReportGenerationError\<close> or the fixed text of an internal error, never the text of another
  exception; every other row stays, and the only new rows are finished reports.
\<close>

theorem worker_settles_job:
  assumes "jobs_inv js" "quiet sess"
    and "claim_next_pending (tn_locked tn) (tn_claim_at tn) js = (Some j, js1)"
    and "tn_claim_fault tn = Call_ok" "tn_store_fault tn = Call_ok" "tn_fail_fault tn = Call_ok"
    and "tn_generate tn = build_report_result_for_job dg sess qs"
  shows "(\<exists>k \<in> set (worker_turn tn js). j_id k = j_id j
          \<and> settled_as (fst (build_report_result_for_job dg sess qs j js1)) k)
    \<and> {k \<in> set js. j_id k \<noteq> j_id j} \<subseteq> set (worker_turn tn js)
    \<and> {k \<in> set (worker_turn tn js). j_id k \<notin> j_id ` set js} \<subseteq> {k. j_status k = ''succeeded''}"
  by (rule worker_turn_settles [OF assms])

definition empty_query_service :: query_service where
  "empty_query_service =
     \<lparr>get_environment_report = (\<lambda>_ _ _. Inr \<lparr>rs_total = 0, rs_row_hostnames = [], rs_dict = JNull\<rparr>),
      resolve_server_ids = (\<lambda>_. Inr Map.empty),
      get_attention_signals = (\<lambda>_. Inr \<lparr>gap_warnings = [], os_eol_warnings = [], agent_unstable = []\<rparr>),
      get_single_server_report = (\<lambda>_ _ _ _ _. Inr None),
      build_child_prefetched_reports = (\<lambda>_ _ _ _ _ _. Inr []),
      get_selection_report = (\<lambda>_ _ _ _. Inr None)\<rparr>"

definition sample_session :: "string \<Rightarrow> attempt" where
  "sample_session pid = (pid @ ''-report'', 50, \<lambda>js. js)"

definition environment_request :: report_request where
  "environment_request = \<lparr>rq_view = ''customer'', rq_scope = ''environment'', rq_server_public_ids = [],
     rq_time_range = ''7d'', rq_anchor_at = 1772357400000000, rq_requested_by = None\<rparr>"

definition sample_turn :: turn where
  "sample_turn = \<lparr>tn_stop = False, tn_claim_fault = Call_ok, tn_locked = [], tn_claim_at = 30,
     tn_generate = build_report_result_for_job sample_digest sample_session empty_query_service,
     tn_store_fault = Call_ok, tn_fail_fault = Call_ok, tn_store_at = 40, tn_fail_at = 41\<rparr>"

theorem worker_settles_job_witness:
  "\<exists>k \<in> set (worker_turn sample_turn [new_job ''j1'' 10 (job_create sample_digest environment_request)]).
     j_id k = ''j1'' \<and> j_status k = ''failed'' \<and> j_error_message k = Some ''no registered servers''"
proof -
  let ?j = "new_job ''j1'' 10 (job_create sample_digest environment_request)"
  let ?k = "start_job 30 ?j"
  have inv: "jobs_inv [?j]" by (simp add: jobs_inv_def active_unique_def)
  have q: "quiet sample_session" by (simp add: quiet_def sample_session_def)
  have c: "claim_next_pending (tn_locked sample_turn) (tn_claim_at sample_turn) [?j] = (Some ?k, [?k])"
    by (simp add: sample_turn_def claim_next_pending_def claimable_def update_job_def)
  have "j_input_params ?k = request_params environment_request" "j_scope ?k = ''environment''"
    by (simp_all add: start_job_def new_job_def job_create_def environment_request_def)
  moreover have "fromisoformat (isoformat 1772357400000000) = Some 1772357400000000"
    by (rule isoformat_text) (use sample_in_calendar in \<open>simp add: sample_request_def\<close>)
  ultimately have g: "build_report_result_for_job sample_digest sample_session empty_query_service ?k [?k]
      = (Inl (ReportGenerationError ''no registered servers''), [?k])"
    by (simp add: build_report_result_for_job_def request_params_def build_input_params_def environment_request_def
        str_member_def anchor_of_def environment_report_def empty_query_service_def)
  show ?thesis
    using worker_settles_job [OF inv q c, of sample_digest empty_query_service]
    by (simp add: sample_turn_def g settled_as_def)
qed

text \<open>
  Claim C39: the result is stored inside the same \<open>try\<close> as the generation.  When the
  commit of a finished report succeeds and only its answer is lost, the worker marks the very same report
  as failed, with the message of an internal error and the published result still in the row.
\<close>

theorem lost_ack_fails_report:
  assumes "generate js = (Inr result, js1)" "j \<in> set js1" "j_id j = i"
  shows "\<exists>js2. process_one Call_unacknowledged Call_ok t1 t2 i generate js = (True, js2)
    \<and> (\<exists>k \<in> set js2. j_id k = i \<and> j_status k = ''failed'' \<and> j_error_message k = Some internal_error
          \<and> j_result k = Some result)"
proof -
  let ?js2 = "mark_failed t2 i internal_error (mark_succeeded t1 i result js1)"
  have "process_one Call_unacknowledged Call_ok t1 t2 i generate js = (True, ?js2)"
    by (simp add: process_one_def run_call_def assms(1))
  moreover have "\<exists>k \<in> set ?js2. j_id k = i \<and> j_status k = ''failed'' \<and> j_error_message k = Some internal_error
      \<and> j_result k = Some result"
  proof -
    let ?g = "\<lambda>j. j\<lparr>j_status := ''succeeded'', j_result := Some result, j_finished_at := Some t1, j_progress_stage := None\<rparr>"
    let ?h = "\<lambda>j. j\<lparr>j_status := ''failed'', j_error_message := Some internal_error, j_finished_at := Some t2, j_progress_stage := None\<rparr>"
    have "?g j \<in> set (update_job i ?g js1)" by (rule update_row [OF assms(2,3)])
    then have "?h (?g j) \<in> set (update_job i ?h (update_job i ?g js1))" by (rule update_row) (simp add: assms(3))
    then show ?thesis unfolding mark_failed_def mark_succeeded_def
      by (rule bexI [rotated]) (simp add: assms(3))
  qed
  ultimately show ?thesis by blast
qed

theorem lost_ack_fails_report_witness:
  "\<exists>js2. process_one Call_unacknowledged Call_ok 40 41 ''j1'' (\<lambda>js. (Inr [(''kind'', JStr ''env_report'')], js))
       (q_jobs claimed_state) = (True, js2)
    \<and> (\<exists>k \<in> set js2. j_id k = ''j1'' \<and> j_status k = ''failed'' \<and> j_error_message k = Some internal_error
          \<and> j_result k = Some [(''kind'', JStr ''env_report'')])"
  by (rule lost_ack_fails_report [of _ _ _ "q_jobs claimed_state" "start_job 20 (new_job ''j1'' 10 (sample_job ''h''))"])
    (simp_all add: claimed_state_def)

section \<open>Children of a failed selection\<close>

text \<open>
  The reports of the single servers are committed before the body of
  the selection is read.  When that last query fails or finds nothing, the selection ends as a failure,
  and every report already published for a server of it stays in the history.
\<close>

theorem children_outlive_failed_parent:
  assumes "build_child_prefetched_reports qs valid sid_map view time_range anchor attention = Inr children"
    and "emit_children dg sess view time_range anchor attention children [] js = (Inr child_jobs, js1)"
    and "get_selection_report qs valid view time_range anchor = Inr None"
    and "j \<in> set js1" "j_id j = i"
  shows "\<exists>js2. process_one Call_ok Call_ok t1 t2 i (selection_report dg sess qs view time_range anchor attention sid_map valid) js
      = (True, js2)
    \<and> (\<exists>k \<in> set js2. j_id k = i \<and> j_status k = ''failed'' \<and> j_error_message k = Some ''no valid server ids'')
    \<and> {k \<in> set js1. j_id k \<noteq> i} \<subseteq> set js2"
proof -
  have "selection_report dg sess qs view time_range anchor attention sid_map valid js
      = (Inl (ReportGenerationError ''no valid server ids''), js1)"
    using assms(1-3) by (simp add: selection_report_def)
  from process_one_settles [of "selection_report dg sess qs view time_range anchor attention sid_map valid", OF this]
  obtain f where f: "process_one Call_ok Call_ok t1 t2 i (selection_report dg sess qs view time_range anchor attention sid_map valid) js
      = (True, update_job i f js1)"
    "\<And>k. j_id (f k) = j_id k \<and> settled_as (Inl (ReportGenerationError ''no valid server ids'')) (f k)" by blast
  have "f j \<in> set (update_job i f js1)" by (rule update_row [OF assms(4,5)])
  moreover have "{k \<in> set js1. j_id k \<noteq> i} \<subseteq> set (update_job i f js1)" using update_keeps by blast
  ultimately show ?thesis using f assms(5) by (auto simp: settled_as_def)
qed

definition child_query_service :: query_service where
  "child_query_service = empty_query_service\<lparr>build_child_prefetched_reports :=
     (\<lambda>valid _ _ _ _ _. Inr (map (\<lambda>pid. (pid, Some \<lparr>rs_total = 1, rs_row_hostnames = [pid], rs_dict = JObj []\<rparr>)) valid))\<rparr>"

definition no_signals :: AttentionSignals where
  "no_signals = \<lparr>gap_warnings = [], os_eol_warnings = [], agent_unstable = []\<rparr>"

theorem children_outlive_failed_parent_witness:
  "\<exists>js2. process_one Call_ok Call_ok 40 41 ''j1''
       (selection_report sample_digest sample_session child_query_service ''customer'' ''7d'' 1772357400000000 no_signals Map.empty [''a''])
       [start_job 20 (new_job ''j1'' 10 (sample_job ''h''))] = (True, js2)
    \<and> (\<exists>k \<in> set js2. j_id k = ''j1'' \<and> j_status k = ''failed'' \<and> j_error_message k = Some ''no valid server ids'')
    \<and> ''a-report'' \<in> j_id ` set js2"
proof -
  let ?p = "start_job 20 (new_job ''j1'' 10 (sample_job ''h''))"
  let ?rq = "child_request ''customer'' ''7d'' 1772357400000000 ''a''"
  let ?child = "\<lparr>rs_total = 1, rs_row_hostnames = [''a''], rs_dict = JObj []\<rparr>"
  let ?new = "new_job ''a-report'' 50 (job_create sample_digest ?rq)"
  have "create_key (job_create sample_digest ?rq) \<noteq> active_key ?p"
    by (simp add: create_key_def job_create_def child_request_def sample_job_def)
  then have e: "enqueue ''a-report'' 50 (job_create sample_digest ?rq) [?p] = Inr (Some ''a-report'', [?p, ?new])"
    by (auto simp: enqueue_def)
  then obtain res where c: "emit_report sample_digest (sample_session ''a'') ?rq REPORT_KIND_ENV (rs_dict ?child)
        (Some (host_aux ''a'' ?child no_signals)) None [?p] = Inr (Some ''a-report'', mark_succeeded 50 ''a-report'' res [?p, ?new])"
    by (simp add: emit_report_def sample_session_def)
  let ?js1 = "mark_succeeded 50 ''a-report'' res [?p, ?new]"
  have b: "build_child_prefetched_reports child_query_service [''a''] Map.empty ''customer'' ''7d'' 1772357400000000 no_signals
      = Inr [(''a'', Some ?child)]" by (simp add: child_query_service_def)
  have m: "emit_children sample_digest sample_session ''customer'' ''7d'' 1772357400000000 no_signals [(''a'', Some ?child)] [] [?p]
      = (Inr [(''a'', JStr ''a-report'')], ?js1)" using c by simp
  have s: "get_selection_report child_query_service [''a''] ''customer'' ''7d'' 1772357400000000 = Inr None"
    by (simp add: child_query_service_def empty_query_service_def)
  have p: "?p \<in> set ?js1" "''a-report'' \<in> j_id ` {k \<in> set ?js1. j_id k \<noteq> ''j1''}"
    unfolding image_iff by (auto simp: mark_succeeded_def update_job_def)
  show ?thesis using children_outlive_failed_parent [OF b m s p(1), of "''j1''" 40 41] p(2) by fastforce
qed

section \<open>The whole process\<close>

definition turn_ok :: "turn \<Rightarrow> bool" where
  "turn_ok tn = (\<forall>j js. jobs_inv js \<longrightarrow> jobs_inv (snd (tn_generate tn j js)))"

lemma process_one_inv:
  assumes "jobs_inv js" "jobs_inv (snd (generate js))"
  shows "jobs_inv (snd (process_one f g t1 t2 i generate js))"
proof (cases "generate js")
  case (Pair r js1)
  then have "jobs_inv js1" using assms(2) by simp
  then show ?thesis unfolding process_one_def Pair
    by (cases f; cases g; cases r) (auto simp: run_call_def mark_succeeded_inv mark_failed_inv split: gen_error.split)
qed

lemma worker_loop_inv: "list_all turn_ok turns \<Longrightarrow> jobs_inv js \<Longrightarrow> jobs_inv (worker_loop turns js)"
proof (induction turns arbitrary: js)
  case (Cons tn turns)
  have "jobs_inv (worker_turn tn js)"
  proof (cases "claim_next_pending (tn_locked tn) (tn_claim_at tn) js")
    case (Pair r js1)
    then have "jobs_inv js1" using claim_inv [OF Cons.prems(2), of "tn_locked tn" "tn_claim_at tn"] by simp
    then show ?thesis using Cons.prems Pair
      by (auto simp: worker_turn_def turn_ok_def intro!: process_one_inv split: call_fault.split option.split)
  qed
  then show ?case using Cons by simp
qed simp

text \<open>
  Whatever database calls fail, are lost or are refused in whatever turns, a
  worker process from its recovery to its stop leaves the job table sound: unique ids, one active job per
  key, a finish time exactly on finished jobs, a result on every success and a message on every failure.
\<close>

theorem worker_keeps_table:
  assumes "jobs_inv js" "list_all (\<lambda>tn. \<exists>dg sess qs. quiet sess \<and> tn_generate tn = build_report_result_for_job dg sess qs) turns"
  shows "jobs_inv (run_report_worker stale_seconds now recover_fault turns js)"
proof -
  have "turn_ok tn" if "quiet sess" "tn_generate tn = build_report_result_for_job dg sess qs" for tn sess dg qs
    using generation_adds [OF that(1)] that(2) unfolding turn_ok_def by (metis prod.collapse)
  then have "list_all turn_ok turns" using assms(2) unfolding list_all_iff by blast
  moreover have "jobs_inv (snd (run_call recover_fault (snd \<circ> recover_stale_running stale_seconds now) js))"
    using assms(1) by (cases recover_fault) (simp_all add: run_call_def recover_inv)
  ultimately show ?thesis unfolding run_report_worker_def by (rule worker_loop_inv)
qed

theorem worker_keeps_table_witness:
  "jobs_inv (run_report_worker 600 5 Call_failed [sample_turn] [new_job ''j1'' 10 (job_create sample_digest environment_request)])"
proof (rule worker_keeps_table)
  show "jobs_inv [new_job ''j1'' 10 (job_create sample_digest environment_request)]"
    by (simp add: jobs_inv_def active_unique_def)
  have "quiet sample_session" by (simp add: quiet_def sample_session_def)
  then show "list_all (\<lambda>tn. \<exists>dg sess qs. quiet sess \<and> tn_generate tn = build_report_result_for_job dg sess qs) [sample_turn]"
    by (auto simp: sample_turn_def)
qed

end
