(* ===== verification/TaskService.thy ===== *)
theory TaskService
  imports TaskLifecycle RedisCache PyDateTime PyJson
begin

text \<open>
  Issuing install tasks: \<open>web/services/task_service.py\<close> and the request validation of
  \<open>web/routers/tasks.py\<close>.  HTTP, SHA-256 and the broker's answers are arguments; the broker itself is the
  list of messages it has accepted and the queues it has been told to declare.
\<close>

section \<open>Settings\<close>

definition TASK_TYPE_INSTALL :: string where "TASK_TYPE_INSTALL = ''zconverter_install''"
definition TASK_QUEUE_MAX_LEN :: int where "TASK_QUEUE_MAX_LEN = 100"
definition zdm_package_path :: string where
  "zdm_package_path = ''/download/ZConverter_CloudSource_Setup_Linux.tar.gz''"
definition zdm_package_script :: string where
  "zdm_package_script = ''zconverter_install_source/install.sh''"
definition zdm_package_path_windows :: string where
  "zdm_package_path_windows = ''/download/ZConverter_CloudSource_Setup_Windows.exe''"
definition redis_key_zdm_package_sha256 :: "string \<Rightarrow> string \<Rightarrow> string" where
  "redis_key_zdm_package_sha256 host etag = ''cache:zdm_package:sha256:'' @ host @ '':'' @ etag"
definition redis_ttl_zdm_package_sha256 :: int where "redis_ttl_zdm_package_sha256 = 6 * 60 * 60"
definition install_timeout_sec :: int where "install_timeout_sec = 600"
definition install_task_deadline_sec :: int where "install_task_deadline_sec = 3600"
definition AGENT_CONTRACT_VERSION :: string where "AGENT_CONTRACT_VERSION = ''1.0''"
definition agent_task_queue :: "string \<Rightarrow> string" where "agent_task_queue agent_id = ''agent.tasks.'' @ agent_id"
definition task_install_routing_key :: "string \<Rightarrow> string" where
  "task_install_routing_key agent_id = ''task.install.'' @ agent_id"
definition online_key :: "int \<Rightarrow> string" where "online_key sid = ''online:'' @ show_int sid"

section \<open>Errors\<close>

datatype task_error =
  TaskNotFoundError | TaskDuplicatePendingError "string list" | TaskNotConfiguredError
  | TaskPublishFailedError string | UnhandledError

section \<open>Targets\<close>

definition resolve_install_dispatch :: "string \<Rightarrow> task_error + string \<times> string \<times> string option" where
  "resolve_install_dispatch os_family =
     (if os_family = ''linux'' then Inr (zdm_package_path, ''shell'', Some zdm_package_script)
      else if os_family = ''windows'' then Inr (zdm_package_path_windows, ''direct_exec'', None)
      else Inl TaskNotConfiguredError)"

text \<open>\<open>re.sub("^https?://", "", s)\<close>, ignoring case.\<close>

definition strip_scheme :: "string \<Rightarrow> string" where
  "strip_scheme s =
     (if prefix ''http://'' (str_lower s) then drop 7 s
      else if prefix ''https://'' (str_lower s) then drop 8 s else s)"

definition strip_slashes :: "string \<Rightarrow> string" where
  "strip_slashes s = rev (dropWhile (\<lambda>c. c = CHR ''/'') (rev (dropWhile (\<lambda>c. c = CHR ''/'') s)))"

definition extract_zdm_host :: "string \<Rightarrow> string" where
  "extract_zdm_host zdm_ip = takeWhile (\<lambda>c. c \<noteq> CHR ''/'') (strip_slashes (strip_scheme zdm_ip))"

section \<open>Validation of the request\<close>

definition forbidden_chars :: string where
  "forbidden_chars = '' '' @ [CHR 0x09, CHR 0x0A, CHR 0x0D] @ '';|&`$<>''"

definition is_alnum :: "char \<Rightarrow> bool" where
  "is_alnum c = (let n = of_char c :: nat in 48 \<le> n \<and> n \<le> 57 \<or> 65 \<le> n \<and> n \<le> 90 \<or> 97 \<le> n \<and> n \<le> 122)"

text \<open>One label of a host name; \<open>$\<close> also matches before a final newline, which is rejected earlier.\<close>

definition hostname_label :: "string \<Rightarrow> bool" where
  "hostname_label l =
     (1 \<le> length l \<and> length l \<le> 63 \<and> is_alnum (hd l) \<and> is_alnum (last l)
      \<and> list_all (\<lambda>c. is_alnum c \<or> c = CHR ''-'') l)"

fun split_on :: "char \<Rightarrow> string \<Rightarrow> string list" where
  "split_on d [] = [[]]"
| "split_on d (c # s) =
     (if c = d then [] # split_on d s
      else case split_on d s of [] \<Rightarrow> [[c]] | l # ls \<Rightarrow> (c # l) # ls)"

definition is_valid_hostname :: "string \<Rightarrow> bool" where
  "is_valid_hostname v =
     (length v \<le> 253
      \<and> (let w = rev (dropWhile (\<lambda>c. c = CHR ''.'') (rev v)) in w \<noteq> [] \<and> list_all hostname_label (split_on CHR ''.'' w)))"

text \<open>\<open>ipaddress.IPv4Address\<close>: four decimal parts up to 255 without leading zeros.\<close>

definition ipv4_part :: "string \<Rightarrow> bool" where
  "ipv4_part p = (isdigit p \<and> length p \<le> 3 \<and> (p = ''0'' \<or> hd p \<noteq> CHR ''0'') \<and> nat_of_str p \<le> 255)"

definition is_ipv4 :: "string \<Rightarrow> bool" where
  "is_ipv4 s = (let ps = split_on CHR ''.'' s in length ps = 4 \<and> list_all ipv4_part ps)"

definition is_valid_host_or_host_port :: "string \<Rightarrow> bool" where
  "is_valid_host_or_host_port v =
     (if v = [] \<or> hd v = CHR ''['' \<or> 2 \<le> count_list v CHR '':'' then False
      else if CHR '':'' \<in> set v then
        (let host = takeWhile (\<lambda>c. c \<noteq> CHR '':'') v; port_s = tl (dropWhile (\<lambda>c. c \<noteq> CHR '':'') v) in
         host \<noteq> [] \<and> isdigit port_s \<and> 1 \<le> nat_of_str port_s \<and> nat_of_str port_s \<le> 65535
         \<and> (is_ipv4 host \<or> is_valid_hostname host))
      else is_ipv4 v \<or> is_valid_hostname v)"

text \<open>The validator of \<open>zdm_ip\<close>: \<open>None\<close> is a validation error.\<close>

definition validate_zdm_ip :: "string option \<Rightarrow> string option option" where
  "validate_zdm_ip v =
     (case v of
        None \<Rightarrow> Some None
      | Some s \<Rightarrow>
          if s = [] then Some None
          else if list_ex (\<lambda>c. c \<in> set forbidden_chars) s then None
          else if prefix ''http://'' (str_lower s) \<or> prefix ''https://'' (str_lower s) then Some (Some s)
          else if is_valid_host_or_host_port s then Some (Some s)
          else None)"

section \<open>Package metadata\<close>

record head_response =
  hr_status :: int
  hr_headers :: "string \<rightharpoonup> string"

record get_response =
  gr_status :: int
  gr_chunks :: "string list"
  gr_broken :: bool

text \<open>The HTTP client: \<open>None\<close> is an \<open>HTTPError\<close>; a broken stream is one in the middle of the body.\<close>

record http_client =
  http_head :: "string \<Rightarrow> head_response option"
  http_stream :: "string \<Rightarrow> get_response option"

datatype meta_error =
  Head_failed | Head_status int | Missing_content_length | Content_length_not_int | Content_length_not_positive int
  | Get_failed | Get_status int | Size_mismatch int int

text \<open>\<open>int(s)\<close>: surrounding blanks, a sign, digits with single underscores in between.\<close>

definition is_blank :: "char \<Rightarrow> bool" where
  "is_blank c = (let n = of_char c :: nat in n = 32 \<or> 9 \<le> n \<and> n \<le> 13)"

definition strip_blanks :: "string \<Rightarrow> string" where
  "strip_blanks s = rev (dropWhile is_blank (rev (dropWhile is_blank s)))"

definition py_digits :: "string \<Rightarrow> int option" where
  "py_digits s =
     (let ps = split_on CHR ''_'' s in
      if list_all isdigit ps then Some (int (nat_of_str (concat ps))) else None)"

definition header_int :: "string \<Rightarrow> int option" where
  "header_int s =
     (case strip_blanks s of
        [] \<Rightarrow> None
      | c # cs \<Rightarrow>
          if c = CHR ''-'' then map_option uminus (py_digits cs)
          else if c = CHR ''+'' then py_digits cs
          else py_digits (c # cs))"

definition head_size :: "head_response option \<Rightarrow> meta_error + int" where
  "head_size resp =
     (case resp of
        None \<Rightarrow> Inl Head_failed
      | Some r \<Rightarrow>
          if hr_status r \<noteq> 200 then Inl (Head_status (hr_status r))
          else (case hr_headers r ''Content-Length'' of
                  None \<Rightarrow> Inl Missing_content_length
                | Some raw \<Rightarrow>
                    (case header_int raw of
                       None \<Rightarrow> Inl Content_length_not_int
                     | Some n \<Rightarrow> if n \<le> 0 then Inl (Content_length_not_positive n) else Inr n)))"

definition head_etag :: "head_response option \<Rightarrow> string" where
  "head_etag resp =
     (case resp of
        None \<Rightarrow> []
      | Some r \<Rightarrow> str_or (case str_or (hr_headers r ''ETag'') [] of [] \<Rightarrow> hr_headers r ''Last-Modified'' | e \<Rightarrow> Some e) [])"

definition download :: "(string \<Rightarrow> string) \<Rightarrow> get_response option \<Rightarrow> int \<Rightarrow> meta_error + string" where
  "download sha256 resp size_bytes =
     (case resp of
        None \<Rightarrow> Inl Get_failed
      | Some r \<Rightarrow>
          if gr_status r \<noteq> 200 then Inl (Get_status (gr_status r))
          else if gr_broken r then Inl Get_failed
          else let body = concat (gr_chunks r) in
               if int (length body) \<noteq> size_bytes then Inl (Size_mismatch size_bytes (int (length body)))
               else Inr (sha256 body))"

definition zdm_url :: "string \<Rightarrow> string \<Rightarrow> string" where
  "zdm_url zdm_host package_path = ''http://'' @ zdm_host @ package_path"

text \<open>\<open>HttpZdmPackageResolver.resolve\<close>: \<open>HEAD\<close>, cache, \<open>GET\<close>, cache.\<close>

definition resolve_package ::
  "(string \<Rightarrow> string) \<Rightarrow> http_client \<Rightarrow> string \<Rightarrow> string \<Rightarrow> redis \<Rightarrow> (meta_error + string \<times> int) \<times> redis" where
  "resolve_package sha256 http zdm_host package_path r =
     (let url = zdm_url zdm_host package_path; head = http_head http url in
      case head_size head of
        Inl e \<Rightarrow> (Inl e, r)
      | Inr size_bytes \<Rightarrow>
          let etag = head_etag head;
              cache_key = (if etag = [] then [] else redis_key_zdm_package_sha256 zdm_host etag);
              (cached, r1) = (if cache_key = [] then (None, r) else safe_get cache_key r)
          in if str_or cached [] \<noteq> [] then (Inr (str_or cached [], size_bytes), r1)
             else (case download sha256 (http_stream http url) size_bytes of
                     Inl e \<Rightarrow> (Inl e, r1)
                   | Inr sha256_hex \<Rightarrow>
                       (Inr (sha256_hex, size_bytes),
                        if cache_key = [] then r1
                        else snd (safe_set cache_key sha256_hex (Some redis_ttl_zdm_package_sha256) r1))))"

section \<open>The service\<close>

record target_detail =
  td_id :: int
  td_agent_id :: string
  td_hostname :: string
  td_os_family :: "string option"

record install_message =
  im_routing_key :: string
  im_payload :: JsonObject

text \<open>The world of the service: database, Redis, and the broker's queues (with their TTL) and messages.\<close>

record task_world =
  tw_db :: db
  tw_redis :: redis
  tw_queues :: "(string \<times> int) list"
  tw_published :: "install_message list"

text \<open>
  What happens around the publication of one task: the UUID and time of the insert, what other sessions
  commit before it, and how the broker and the commit answer.  \<open>Publish_unconfirmed\<close> is a message that
  reached the broker although the publisher saw an error.
\<close>

datatype publish_fault = Publish_ok | Publish_refused | Publish_unconfirmed | Commit_failed | Commit_unacknowledged

record publication =
  pb_uuid :: string
  pb_now :: datetime
  pb_others :: "db \<Rightarrow> db"
  pb_fault :: publish_fault

record TaskCreated =
  tk_target_public_id :: string
  tk_task_id :: string
  tk_target_online :: bool

type_synonym dispatch = "string \<times> string \<times> string option"

definition install_payload ::
  "string \<Rightarrow> string \<Rightarrow> datetime \<Rightarrow> string \<Rightarrow> string \<Rightarrow> string \<times> int \<Rightarrow> dispatch \<Rightarrow> JsonObject" where
  "install_payload task_id agent_id now zdm_host zdm_user meta dispatch =
     (case dispatch of (package_path, install_type, install_script) \<Rightarrow>
      [(''message_type'', JStr ''task.install''),
       (''schema_version'', JStr AGENT_CONTRACT_VERSION),
       (''task_id'', JStr task_id),
       (''agent_id'', JStr agent_id),
       (''issued_at'', JStr (removesuffix ''+00:00'' (isoformat now) @ ''Z'')),
       (''download'', JObj [(''url'', JStr (zdm_url zdm_host package_path)), (''sha256'', JStr (fst meta)),
                           (''size_bytes'', JInt (snd meta))]),
       (''install'', JObj [(''type'', JStr install_type),
                          (''script'', case install_script of None \<Rightarrow> JNull | Some s \<Rightarrow> JStr s),
                          (''args'', JList (map JStr [''-s'', zdm_host, ''-u'', zdm_user])),
                          (''timeout_sec'', JInt install_timeout_sec)])])"

definition install_create :: "int \<Rightarrow> string \<Rightarrow> string \<Rightarrow> string \<Rightarrow> datetime \<Rightarrow> TaskCreate" where
  "install_create server_id agent_id zdm_ip zdm_user deadline_at =
     \<lparr>tc_target_server_id = server_id, tc_target_agent_id = agent_id, tc_task_type = TASK_TYPE_INSTALL,
      tc_params = Some (JObj [(''zdm_ip'', JStr zdm_ip), (''zdm_user'', JStr zdm_user)]),
      tc_deadline_at = Some deadline_at\<rparr>"

text \<open>\<open>_ensure_machine_queue\<close>: declaring a queue again with the same arguments changes nothing.\<close>

definition ensure_machine_queue :: "string \<Rightarrow> task_world \<Rightarrow> task_world" where
  "ensure_machine_queue agent_id w =
     (let q = (agent_task_queue agent_id, install_task_deadline_sec * 1000) in
      if q \<in> set (tw_queues w) then w else w\<lparr>tw_queues := tw_queues w @ [q]\<rparr>)"

definition publish_install :: "string \<Rightarrow> JsonObject \<Rightarrow> task_world \<Rightarrow> task_world" where
  "publish_install agent_id payload w =
     w\<lparr>tw_published := tw_published w @ [\<lparr>im_routing_key = task_install_routing_key agent_id, im_payload = payload\<rparr>]\<rparr>"

text \<open>
  One target: insert, publish, commit, in this order; leaving the session without the commit rolls the
  insert back.
\<close>

definition issue_task ::
  "string \<Rightarrow> string \<Rightarrow> string \<Rightarrow> datetime \<Rightarrow> target_detail \<Rightarrow> dispatch \<Rightarrow> string \<times> int \<Rightarrow> publication \<Rightarrow> task_world
   \<Rightarrow> (task_error + string) \<times> task_world" where
  "issue_task zdm_ip zdm_host zdm_user deadline_at detail dispatch meta p w =
     (let w1 = w\<lparr>tw_db := pb_others p (tw_db w)\<rparr> in
      case create_task (pb_uuid p) (pb_now p) (install_create (td_id detail) (td_agent_id detail) zdm_ip zdm_user deadline_at) (tw_db w1) of
        Inl IntegrityError \<Rightarrow> (Inl (TaskDuplicatePendingError [td_hostname detail]), w1)
      | Inl _ \<Rightarrow> (Inl UnhandledError, w1)
      | Inr (task_id, d) \<Rightarrow>
          let w2 = ensure_machine_queue (td_agent_id detail) w1;
              sent = publish_install (td_agent_id detail)
                       (install_payload task_id (td_agent_id detail) (pb_now p) zdm_host zdm_user meta dispatch) w2
          in case pb_fault p of
               Publish_ok \<Rightarrow> (Inr task_id, sent\<lparr>tw_db := d\<rparr>)
             | Publish_refused \<Rightarrow> (Inl (TaskPublishFailedError (td_hostname detail)), w2)
             | Publish_unconfirmed \<Rightarrow> (Inl (TaskPublishFailedError (td_hostname detail)), sent)
             | Commit_failed \<Rightarrow> (Inl UnhandledError, sent)
             | Commit_unacknowledged \<Rightarrow> (Inl UnhandledError, sent\<lparr>tw_db := d\<rparr>))"

text \<open>
  The loop over the targets.  The publications are consumed one per target; details, dispatch and
  metadata were looked up before.
\<close>

fun issue_all ::
  "(target_detail \<Rightarrow> publication \<Rightarrow> task_world \<Rightarrow> (task_error + string) \<times> task_world) \<Rightarrow> (string \<Rightarrow> target_detail option)
   \<Rightarrow> (int \<Rightarrow> bool) \<Rightarrow> string list \<Rightarrow> publication list \<Rightarrow> TaskCreated list \<Rightarrow> task_world
   \<Rightarrow> (task_error + TaskCreated list) \<times> task_world" where
  "issue_all issue detail_of online [] ps created w = (Inr created, w)"
| "issue_all issue detail_of online (public_id # rest) ps created w =
     (case detail_of public_id of
        None \<Rightarrow> (Inl TaskNotFoundError, w)
      | Some detail \<Rightarrow>
          (case ps of
             [] \<Rightarrow> (Inl UnhandledError, w)
           | p # ps' \<Rightarrow>
               (case issue detail p w of
                  (Inl e, w1) \<Rightarrow> (Inl e, w1)
                | (Inr task_id, w1) \<Rightarrow>
                    issue_all issue detail_of online rest ps'
                      (created @ [\<lparr>tk_target_public_id = public_id, tk_task_id = task_id, tk_target_online = online (td_id detail)\<rparr>])
                      w1)))"

definition online_targets :: "int list \<Rightarrow> redis \<Rightarrow> (int \<rightharpoonup> bool) \<times> redis" where
  "online_targets server_ids r =
     (if server_ids = [] then (Map.empty, r)
      else (case safe_mget (map online_key server_ids) r of
              (None, r1) \<Rightarrow> (map_of (map (\<lambda>sid. (sid, True)) server_ids), r1)
            | (Some flags, r1) \<Rightarrow> (map_of (rev (zip server_ids (map (\<lambda>f. f \<noteq> None) flags))), r1)))"

text \<open>Dispatch and metadata of every host, the metadata once per package path.\<close>

fun resolve_metas ::
  "(string \<Rightarrow> redis \<Rightarrow> (meta_error + string \<times> int) \<times> redis) \<Rightarrow> target_detail list
   \<Rightarrow> (int \<rightharpoonup> dispatch) \<Rightarrow> (string \<rightharpoonup> string \<times> int) \<Rightarrow> redis
   \<Rightarrow> (task_error + (int \<rightharpoonup> dispatch) \<times> (string \<rightharpoonup> string \<times> int)) \<times> redis" where
  "resolve_metas resolve [] dispatch_by_host meta_by_path r = (Inr (dispatch_by_host, meta_by_path), r)"
| "resolve_metas resolve (detail # rest) dispatch_by_host meta_by_path r =
     (case resolve_install_dispatch (str_or (td_os_family detail) ''linux'') of
        Inl e \<Rightarrow> (Inl e, r)
      | Inr dispatch \<Rightarrow>
          let hosts = dispatch_by_host(td_id detail \<mapsto> dispatch) in
          if meta_by_path (fst dispatch) \<noteq> None then resolve_metas resolve rest hosts meta_by_path r
          else (case resolve (fst dispatch) r of
                  (Inl e, r1) \<Rightarrow> (Inl TaskNotConfiguredError, r1)
                | (Inr meta, r1) \<Rightarrow> resolve_metas resolve rest hosts (meta_by_path(fst dispatch \<mapsto> meta)) r1))"

text \<open>The query repository's answers at the start of the call.\<close>

record target_queries =
  tq_resolve :: "string list \<Rightarrow> string \<rightharpoonup> int"
  tq_servers :: "int list \<Rightarrow> target_detail list"

definition create_install_tasks ::
  "(string \<Rightarrow> string) \<Rightarrow> http_client \<Rightarrow> target_queries \<Rightarrow> datetime \<Rightarrow> publication list \<Rightarrow> string list \<Rightarrow> string \<Rightarrow> string
   \<Rightarrow> task_world \<Rightarrow> (task_error + TaskCreated list) \<times> task_world" where
  "create_install_tasks sha256 http queries now ps target_public_ids zdm_ip zdm_user w =
     (let sid_map = tq_resolve queries target_public_ids in
      if list_ex (\<lambda>pid. sid_map pid = None) target_public_ids then (Inl TaskNotFoundError, w)
      else
        let server_ids = map (\<lambda>pid. the (sid_map pid)) target_public_ids;
            details = tq_servers queries server_ids;
            detail_by_id = map_of (rev (map (\<lambda>d. (td_id d, d)) details));
            d1 = snd (expire_overdue_tasks server_ids now (tw_db w));
            busy_ids = find_pending_deadline_servers server_ids d1;
            w1 = w\<lparr>tw_db := d1\<rparr>
        in if busy_ids \<noteq> []
           then (Inl (TaskDuplicatePendingError
                   (sort (map (\<lambda>sid. td_hostname (the (detail_by_id sid)))
                            (filter (\<lambda>sid. detail_by_id sid \<noteq> None) busy_ids)))), w1)
           else
             let deadline_at = now + install_task_deadline_sec * 1000000;
                 (online_by_id, r1) = online_targets server_ids (tw_redis w1);
                 zdm_host = extract_zdm_host zdm_ip
             in case resolve_metas (resolve_package sha256 http zdm_host) details Map.empty Map.empty r1 of
                  (Inl e, r2) \<Rightarrow> (Inl e, w1\<lparr>tw_redis := r2\<rparr>)
                | (Inr (dispatch_by_host, meta_by_path), r2) \<Rightarrow>
                    issue_all
                      (\<lambda>detail. issue_task zdm_ip zdm_host zdm_user deadline_at detail (the (dispatch_by_host (td_id detail)))
                                 (the (meta_by_path (fst (the (dispatch_by_host (td_id detail)))))))
                      (\<lambda>pid. detail_by_id (the (sid_map pid)))
                      (\<lambda>sid. case online_by_id sid of None \<Rightarrow> True | Some b \<Rightarrow> b)
                      target_public_ids ps [] (w1\<lparr>tw_redis := r2\<rparr>))"

end
