(* ===== verification/TaskServiceProps.thy ===== *)
theory TaskServiceProps
  imports TaskService
begin

text \<open>
  Correctness of issuing install tasks: nothing is issued when a precondition fails, a stored task always
  has its message, and what the request's address can put on the agent's command line.
\<close>

section \<open>The address\<close>

lemma set_strip_scheme: "set (strip_scheme s) \<subseteq> set s"
  by (auto simp: strip_scheme_def dest: in_set_dropD)

lemma set_dropWhile_subset: "set (dropWhile P xs) \<subseteq> set xs"
  by (blast dest: set_dropWhileD)

lemma set_strip_slashes: "set (strip_slashes s) \<subseteq> set s"
  unfolding strip_slashes_def set_rev by (rule subset_trans [OF set_dropWhile_subset]) (simp add: set_dropWhile_subset)

lemma split_on_absent: "x \<noteq> d \<Longrightarrow> x \<notin> \<Union> (set ` set (split_on d s)) \<Longrightarrow> x \<notin> set s"
  by (induction s) (auto split: list.splits if_splits)

lemma not_slash:
  "is_digit c \<Longrightarrow> c \<noteq> CHR ''/''" "is_alnum c \<Longrightarrow> c \<noteq> CHR ''/''"
  by (auto simp: is_digit_def is_alnum_def Let_def)

lemma digits_no_slash: "isdigit s \<Longrightarrow> CHR ''/'' \<notin> set s"
  unfolding isdigit_def list_all_iff using not_slash(1) by blast

lemma ipv4_no_slash: "is_ipv4 s \<Longrightarrow> CHR ''/'' \<notin> set s"
proof (rule split_on_absent [of _ "CHR ''.''"])
  assume "is_ipv4 s"
  then have "\<forall>p \<in> set (split_on CHR ''.'' s). isdigit p" by (simp add: is_ipv4_def ipv4_part_def Let_def list_all_iff)
  then show "CHR ''/'' \<notin> \<Union> (set ` set (split_on CHR ''.'' s))" using digits_no_slash by blast
qed simp

lemma rstrip_chars: "set v \<subseteq> insert d (set (rev (dropWhile (\<lambda>c. c = d) (rev v))))"
proof -
  have "set (dropWhile (\<lambda>c. c = d) w) \<union> {d} \<supseteq> set w" for w by (induction w) auto
  from this [of "rev v"] show ?thesis by simp
qed

lemma hostname_no_slash: "is_valid_hostname s \<Longrightarrow> CHR ''/'' \<notin> set s"
proof
  assume valid: "is_valid_hostname s" and slash: "CHR ''/'' \<in> set s"
  let ?w = "rev (dropWhile (\<lambda>c. c = CHR ''.'') (rev s))"
  have "CHR ''/'' \<in> set ?w" using slash rstrip_chars [of s "CHR ''.''"] by auto
  then obtain l where "l \<in> set (split_on CHR ''.'' ?w)" "CHR ''/'' \<in> set l"
    using split_on_absent [of "CHR ''/''" "CHR ''.''" ?w] by auto
  then show False using valid by (auto simp: is_valid_hostname_def hostname_label_def Let_def list_all_iff dest: not_slash)
qed

lemma hd_tl_absent: "x \<notin> set (tl xs) \<Longrightarrow> hd xs \<noteq> x \<Longrightarrow> x \<notin> set xs"
  by (cases xs) auto

lemma host_port_no_slash:
  assumes "is_valid_host_or_host_port s" shows "CHR ''/'' \<notin> set s"
proof (cases "CHR '':'' \<in> set s")
  case False
  then show ?thesis using assms ipv4_no_slash hostname_no_slash
    by (auto simp: is_valid_host_or_host_port_def split: if_splits)
next
  case True
  let ?h = "takeWhile (\<lambda>c. c \<noteq> CHR '':'') s" and ?p = "dropWhile (\<lambda>c. c \<noteq> CHR '':'') s"
  have parts: "is_ipv4 ?h \<or> is_valid_hostname ?h" "isdigit (tl ?p)" using assms True
    by (auto simp: is_valid_host_or_host_port_def Let_def split: if_splits)
  have h: "CHR ''/'' \<notin> set ?h" by (rule disjE [OF parts(1)]) (erule ipv4_no_slash, erule hostname_no_slash)
  have "?p \<noteq> []" using True by (simp add: dropWhile_eq_Nil_conv)
  then have hd: "hd ?p = CHR '':''" using hd_dropWhile [of "\<lambda>c. c \<noteq> CHR '':''" s] by blast
  have "CHR '':'' \<noteq> CHR ''/''" by simp
  then have "CHR ''/'' \<notin> set ?p" using hd_tl_absent [OF digits_no_slash [OF parts(2)]] unfolding hd by blast
  with h have "CHR ''/'' \<notin> set (?h @ ?p)" by (simp only: set_append Un_iff simp_thms)
  then show ?thesis by (simp only: takeWhile_dropWhile_id simp_thms)
qed

lemma strip_slashes_id: "CHR ''/'' \<notin> set s \<Longrightarrow> strip_slashes s = s"
proof -
  assume "CHR ''/'' \<notin> set s"
  then have "dropWhile (\<lambda>c. c = CHR ''/'') t = t" if "set t = set s" for t
    using that by (cases t) auto
  then show ?thesis by (simp add: strip_slashes_def)
qed

lemma takeWhile_id: "x \<notin> set s \<Longrightarrow> takeWhile (\<lambda>c. c \<noteq> x) s = s"
  by (simp add: takeWhile_eq_all_conv) auto

text \<open>
  The address that reaches the agent's command line and download URL is a part of
  what the operator sent and has no slash and none of the characters of \<open>forbidden_chars\<close>; an address that is
  not a URL is passed on unchanged.  The list of the code has the blank, the tab, line feed, carriage return
  and eight shell characters; quotes, parentheses, backslash and globs are not in it and pass.
\<close>

theorem zdm_target_safe:
  assumes "validate_zdm_ip v = Some (Some s)"
  shows "set (extract_zdm_host s) \<subseteq> set s - set forbidden_chars - {CHR ''/''}
    \<and> (\<not> prefix ''http://'' (str_lower s) \<and> \<not> prefix ''https://'' (str_lower s) \<longrightarrow> extract_zdm_host s = s)"
proof (intro conjI impI)
  have v: "s \<noteq> []" "list_all (\<lambda>c. c \<notin> set forbidden_chars) s"
    "prefix ''http://'' (str_lower s) \<or> prefix ''https://'' (str_lower s) \<or> is_valid_host_or_host_port s"
    using assms by (auto simp: validate_zdm_ip_def list_all_iff list_ex_iff split: option.splits if_splits)
  have "set (extract_zdm_host s) \<subseteq> set s"
    using set_strip_slashes [of "strip_scheme s"] set_strip_scheme [of s]
    unfolding extract_zdm_host_def by (blast dest: set_takeWhileD)
  moreover have "CHR ''/'' \<notin> set (extract_zdm_host s)"
    unfolding extract_zdm_host_def by (blast dest: set_takeWhileD)
  ultimately show "set (extract_zdm_host s) \<subseteq> set s - set forbidden_chars - {CHR ''/''}"
    using v(2) unfolding list_all_iff by blast
  assume plain: "\<not> prefix ''http://'' (str_lower s) \<and> \<not> prefix ''https://'' (str_lower s)"
  then have "CHR ''/'' \<notin> set s" using v(3) host_port_no_slash by blast
  then show "extract_zdm_host s = s"
    using plain by (simp add: extract_zdm_host_def strip_scheme_def strip_slashes_id takeWhile_id)
qed

theorem zdm_target_safe_witness:
  "extract_zdm_host ''zdm.example.com'' = ''zdm.example.com''"
proof -
  have "validate_zdm_ip (Some ''zdm.example.com'') = Some (Some ''zdm.example.com'')" by code_simp
  moreover have "\<not> prefix ''http://'' (str_lower ''zdm.example.com'')" "\<not> prefix ''https://'' (str_lower ''zdm.example.com'')"
    by code_simp+
  ultimately show ?thesis using zdm_target_safe [of "Some ''zdm.example.com''" "''zdm.example.com''"] by simp
qed

section \<open>Every stored task has its message\<close>

text \<open>The tasks of a set of ids, as the pairs of id and agent, and the pairs some message was sent for.\<close>

definition task_pairs :: "string set \<Rightarrow> db \<Rightarrow> (string \<times> string) set" where
  "task_pairs U d = (\<lambda>t. (t_public_id t, t_target_agent_id t)) ` {t \<in> set (tasks d). t_public_id t \<in> U}"

definition announces :: "install_message \<Rightarrow> string \<times> string \<Rightarrow> bool" where
  "announces m = (\<lambda>(task_id, agent_id).
     im_routing_key m = task_install_routing_key agent_id \<and> map_of (im_payload m) ''task_id'' = Some (JStr task_id))"

definition announced :: "task_world \<Rightarrow> (string \<times> string) set" where
  "announced w = {p. \<exists>m \<in> set (tw_published w). announces m p}"

definition keeps_pairs :: "string set \<Rightarrow> publication \<Rightarrow> bool" where
  "keeps_pairs U p = (\<forall>d. task_pairs U (pb_others p d) \<subseteq> task_pairs U d)"

lemma install_announces:
  "announces \<lparr>im_routing_key = task_install_routing_key a, im_payload = install_payload i a now h u m dsp\<rparr> (i, a)"
  by (cases dsp) (simp add: announces_def install_payload_def)

lemma ensure_queue_simps [simp]:
  "tw_db (ensure_machine_queue a w) = tw_db w" "tw_published (ensure_machine_queue a w) = tw_published w"
  by (simp_all add: ensure_machine_queue_def Let_def)

lemma publish_simps [simp]:
  "tw_db (publish_install a m w) = tw_db w"
  "tw_published (publish_install a m w) = tw_published w @ [\<lparr>im_routing_key = task_install_routing_key a, im_payload = m\<rparr>]"
  by (simp_all add: publish_install_def)

lemma create_task_pairs:
  "create_task uuid now x d = Inr (i, d') \<Longrightarrow> i = uuid \<and> task_pairs U d' \<subseteq> insert (uuid, tc_target_agent_id x) (task_pairs U d)"
  by (auto simp: create_task_def Let_def task_pairs_def new_task_def split: if_splits)

lemma issue_task_announced:
  assumes "keeps_pairs U p" "task_pairs U (tw_db w) \<subseteq> announced w"
    "issue_task zdm_ip zdm_host zdm_user dl detail dsp meta p w = (r, w')"
  shows "task_pairs U (tw_db w') \<subseteq> announced w'"
proof -
  let ?d = "pb_others p (tw_db w)" and ?x = "install_create (td_id detail) (td_agent_id detail) zdm_ip zdm_user dl"
  have before: "task_pairs U ?d \<subseteq> announced w" using assms(1,2) unfolding keeps_pairs_def by blast
  show ?thesis
  proof (cases "create_task (pb_uuid p) (pb_now p) ?x ?d")
    case (Inl e)
    then show ?thesis using assms(3) before by (cases e) (auto simp: issue_task_def announced_def)
  next
    case (Inr res)
    obtain i d where res: "res = (i, d)" by (rule prod.exhaust)
    let ?m = "\<lparr>im_routing_key = task_install_routing_key (td_agent_id detail),
               im_payload = install_payload i (td_agent_id detail) (pb_now p) zdm_host zdm_user meta dsp\<rparr>"
    have new: "i = pb_uuid p" "task_pairs U d \<subseteq> insert (i, td_agent_id detail) (task_pairs U ?d)"
      using create_task_pairs [OF Inr [unfolded res], of U] by (auto simp: install_create_def)
    have "announces ?m (i, td_agent_id detail)" by (rule install_announces)
    then have sent: "insert (i, td_agent_id detail) (task_pairs U ?d) \<subseteq> announced w'" if "tw_published w' = tw_published w @ [?m]"
      using before that unfolding announced_def by auto
    have quiet: "task_pairs U ?d \<subseteq> announced w'" if "tw_published w' = tw_published w"
      using before that unfolding announced_def by simp
    show ?thesis
    proof (cases "pb_fault p = Publish_refused")
      case True
      then have "tw_published w' = tw_published w" "tw_db w' = ?d" using assms(3) Inr res by (auto simp: issue_task_def Let_def)
      then show ?thesis using quiet by simp
    next
      case False
      then have "tw_published w' = tw_published w @ [?m]" "tw_db w' = ?d \<or> tw_db w' = d"
        using assms(3) Inr res by (cases "pb_fault p"; auto simp: issue_task_def Let_def)+
      then show ?thesis using sent new(2) by auto
    qed
  qed
qed

lemma issue_all_announced:
  assumes "\<And>detail p w r w'. p \<in> set ps \<Longrightarrow> task_pairs U (tw_db w) \<subseteq> announced w \<Longrightarrow> issue detail p w = (r, w') \<Longrightarrow>
      task_pairs U (tw_db w') \<subseteq> announced w'"
    and "task_pairs U (tw_db w) \<subseteq> announced w" "issue_all issue detail_of online targets ps created w = (r, w')"
  shows "task_pairs U (tw_db w') \<subseteq> announced w'"
  using assms
proof (induction issue detail_of online targets ps created w rule: issue_all.induct)
  case (2 issue detail_of online public_id rest ps created w)
  show ?case
  proof (cases "detail_of public_id")
    case None
    then show ?thesis using "2.prems" by simp
  next
    case (Some detail)
    show ?thesis
    proof (cases ps)
      case Nil
      then show ?thesis using Some "2.prems" by simp
    next
      case (Cons p ps')
      obtain q w1 where i: "issue detail p w = (q, w1)" by (rule prod.exhaust)
      have w1: "task_pairs U (tw_db w1) \<subseteq> announced w1"
        by (rule "2.prems"(1) [OF _ "2.prems"(2) i]) (simp add: Cons)
      show ?thesis
      proof (cases q)
        case (Inl e)
        then show ?thesis using "2.prems"(3) Some Cons i w1 by simp
      next
        case (Inr task_id)
        show ?thesis
        proof (rule "2.IH" [OF Some Cons i [symmetric] Inr _ w1])
          show "task_pairs U (tw_db v') \<subseteq> announced v'"
            if "k \<in> set ps'" "task_pairs U (tw_db v) \<subseteq> announced v" "issue dt k v = (x, v')" for k v dt x v'
            by (rule "2.prems"(1) [OF _ that(2,3)]) (simp add: Cons that(1))
          show "issue_all issue detail_of online rest ps'
             (created @ [\<lparr>tk_target_public_id = public_id, tk_task_id = task_id, tk_target_online = online (td_id detail)\<rparr>]) w1 = (r, w')"
            using "2.prems"(3) Some Cons i Inr by simp
        qed
      qed
    qed
  qed
qed simp

lemma task_pairs_alt:
  "task_pairs U d = {p \<in> set (map (\<lambda>t. (t_public_id t, t_target_agent_id t)) (tasks d)). fst p \<in> U}"
  by (auto simp: task_pairs_def)

lemma expire_pairs [simp]: "task_pairs U (snd (expire_overdue_tasks ids now d)) = task_pairs U d"
  by (simp add: task_pairs_alt expire_overdue_tasks_def expire_where_def comp_def expire_task_def if_distrib cong: if_cong)

text \<open>
  The phases before the loop, as one function: it ends in an error or hands the loop its arguments.
\<close>

lemma create_install_cases:
  obtains (stop) e d r where "create_install_tasks sha http q now ps targets zdm_ip zdm_user w = (Inl e, w\<lparr>tw_db := d, tw_redis := r\<rparr>)"
      "d = tw_db w \<or> (\<exists>ids. d = snd (expire_overdue_tasks ids now (tw_db w)))"
  | (go) ids r issue detail_of online dsp meta dl where
      "create_install_tasks sha http q now ps targets zdm_ip zdm_user w =
         issue_all issue detail_of online targets ps []
           (w\<lparr>tw_db := snd (expire_overdue_tasks ids now (tw_db w)), tw_redis := r\<rparr>)"
      "issue = (\<lambda>detail. issue_task zdm_ip (extract_zdm_host zdm_ip) zdm_user dl detail (dsp detail) (meta detail))"
proof -
  let ?sid = "tq_resolve q targets"
  let ?ids = "map (\<lambda>pid. the (?sid pid)) targets"
  let ?d = "snd (expire_overdue_tasks ?ids now (tw_db w))"
  let ?by = "map_of (rev (map (\<lambda>d. (td_id d, d)) (tq_servers q ?ids)))"
  show thesis
  proof (cases "list_ex (\<lambda>pid. ?sid pid = None) targets")
    case True
    then show thesis by (intro stop [of TaskNotFoundError "tw_redis w" "tw_db w"]) (simp_all add: create_install_tasks_def)
  next
    case known: False
    show thesis
    proof (cases "find_pending_deadline_servers ?ids ?d = []")
      case False
      then show thesis using known
        by (intro stop [of "TaskDuplicatePendingError (sort (map (\<lambda>sid. td_hostname (the (?by sid)))
              (filter (\<lambda>sid. ?by sid \<noteq> None) (find_pending_deadline_servers ?ids ?d))))" "tw_redis w" ?d])
          (auto simp: create_install_tasks_def Let_def)
    next
      case True
      obtain onl r1 where o: "online_targets ?ids (tw_redis w) = (onl, r1)" by (rule prod.exhaust)
      obtain res r2 where m: "resolve_metas (resolve_package sha http (extract_zdm_host zdm_ip)) (tq_servers q ?ids) Map.empty Map.empty r1 = (res, r2)"
        by (rule prod.exhaust)
      show thesis
      proof (cases res)
        case (Inl e)
        then show thesis using known True o m
          by (intro stop [of e r2 ?d]) (auto simp: create_install_tasks_def Let_def)
      next
        case (Inr tables)
        obtain hosts metas where t: "tables = (hosts, metas)" by (rule prod.exhaust)
        show thesis
          by (rule go [where dl = "now + install_task_deadline_sec * 1000000" and dsp = "\<lambda>detail. the (hosts (td_id detail))"
                and meta = "\<lambda>detail. the (metas (fst (the (hosts (td_id detail)))))" and ids = ?ids and r = r2, OF _ refl])
            (use known True o m Inr t in \<open>simp add: create_install_tasks_def Let_def\<close>)
      qed
    qed
  qed
qed

text \<open>
  Claim C15: whatever fails or races during an issue, every task it leaves in the database has
  its install message in the broker, for the task's own agent and with the task's own id; there is no
  task that waits for a message nobody sent.  (What other sessions commit meanwhile must not use its ids.)
\<close>

theorem no_ghost_pending:
  assumes "\<forall>p \<in> set ps. keeps_pairs U p" "task_pairs U (tw_db w) = {}"
    and "create_install_tasks sha256 http q now ps targets zdm_ip zdm_user w = (r, w')"
    and "t \<in> set (tasks (tw_db w'))" "t_public_id t \<in> U"
  shows "\<exists>m \<in> set (tw_published w'). im_routing_key m = task_install_routing_key (t_target_agent_id t)
    \<and> map_of (im_payload m) ''task_id'' = Some (JStr (t_public_id t))"
proof -
  have "task_pairs U (tw_db w') \<subseteq> announced w'"
  proof (cases rule: create_install_cases [of sha256 http q now ps targets zdm_ip zdm_user w])
    case (stop e d x)
    then have "task_pairs U (tw_db w') = {}" using assms(2,3) by auto
    then show ?thesis by simp
  next
    case (go ids x issue detail_of online dsp meta dl)
    show ?thesis
    proof (rule issue_all_announced)
      show "issue_all issue detail_of online targets ps [] (w\<lparr>tw_db := snd (expire_overdue_tasks ids now (tw_db w)), tw_redis := x\<rparr>) = (r, w')"
        using assms(3) go(1) by simp
      show "task_pairs U (tw_db (w\<lparr>tw_db := snd (expire_overdue_tasks ids now (tw_db w)), tw_redis := x\<rparr>)) \<subseteq>
          announced (w\<lparr>tw_db := snd (expire_overdue_tasks ids now (tw_db w)), tw_redis := x\<rparr>)" using assms(2) by simp
      show "task_pairs U (tw_db v') \<subseteq> announced v'"
        if "p \<in> set ps" "task_pairs U (tw_db v) \<subseteq> announced v" "issue detail p v = (y, v')" for detail p v y v'
        by (rule issue_task_announced [OF _ that(2)]) (use assms(1) that(1,3) go(2) in auto)
    qed
  qed
  moreover have "(t_public_id t, t_target_agent_id t) \<in> task_pairs U (tw_db w')" using assms(4,5) by (auto simp: task_pairs_def)
  ultimately have "(t_public_id t, t_target_agent_id t) \<in> announced w'" by blast
  then show ?thesis by (simp add: announced_def announces_def)
qed

definition plain_server :: http_client where
  "plain_server =
     \<lparr>http_head = (\<lambda>url. Some \<lparr>hr_status = 200, hr_headers = [''Content-Length'' \<mapsto> ''3'', ''Last-Modified'' \<mapsto> ''Sun'']\<rparr>),
      http_stream = (\<lambda>url. Some \<lparr>gr_status = 200, gr_chunks = [take 3 (rev url)], gr_broken = False\<rparr>)\<rparr>"

definition one_target :: "string option \<Rightarrow> target_queries" where
  "one_target os = \<lparr>tq_resolve = (\<lambda>ids. [''p1'' \<mapsto> 1]),
     tq_servers = (\<lambda>ids. [\<lparr>td_id = 1, td_agent_id = ''a1'', td_hostname = ''h1'', td_os_family = os\<rparr>])\<rparr>"

definition fresh_world :: task_world where
  "fresh_world = \<lparr>tw_db = one_server, tw_redis = \<lparr>kv = Map.empty, clock = 0, outages = []\<rparr>, tw_queues = [], tw_published = []\<rparr>"

lemma fresh_world_simps:
  "tw_db fresh_world = one_server" "tw_redis fresh_world = \<lparr>kv = Map.empty, clock = 0, outages = []\<rparr>"
  "tw_queues fresh_world = []" "tw_published fresh_world = []"
  unfolding fresh_world_def task_world.simps by (rule refl)+

definition publication_of :: "string \<Rightarrow> publish_fault \<Rightarrow> publication" where
  "publication_of u f = \<lparr>pb_uuid = u, pb_now = 20, pb_others = (\<lambda>d. d), pb_fault = f\<rparr>"

lemma three: "header_int ''3'' = Some 3"
  by code_simp

lemma plain_server_size: "head_size (http_head plain_server url) = Inr 3" "head_etag (http_head plain_server url) = ''Sun''"
  by (simp_all add: plain_server_def head_size_def three head_etag_def str_or_def)

lemma plain_server_download: "4 \<le> length url \<Longrightarrow> download sha (http_stream plain_server url) 3 = Inr (sha (take 3 (rev url)))"
  by (simp add: plain_server_def download_def)

lemma resolve_miss:
  assumes "head_size (http_head http (zdm_url host path)) = Inr n" "head_etag (http_head http (zdm_url host path)) = e" "e \<noteq> []"
    and "redis_get (redis_key_zdm_package_sha256 host e) r = None" "outages r = []"
    and "download sha (http_stream http (zdm_url host path)) n = Inr h"
  shows "resolve_package sha http host path r =
    (Inr (h, n), redis_put (redis_key_zdm_package_sha256 host e) h (Some redis_ttl_zdm_package_sha256) r)"
proof -
  have "redis_key_zdm_package_sha256 host e \<noteq> []" by (simp add: redis_key_zdm_package_sha256_def)
  then show ?thesis using assms by (simp add: resolve_package_def safe_get_def safe_set_def next_outage_def str_or_def)
qed

section \<open>The package hash\<close>

text \<open>What the server at a path serves, with the tag its \<open>HEAD\<close> gives.\<close>

definition package :: "http_client \<Rightarrow> string \<Rightarrow> string \<Rightarrow> (string \<times> string) option" where
  "package http host path =
     (case http_stream http (zdm_url host path) of
        None \<Rightarrow> None
      | Some g \<Rightarrow> if gr_status g = 200 \<and> \<not> gr_broken g
                   then Some (head_etag (http_head http (zdm_url host path)), concat (gr_chunks g)) else None)"

text \<open>
  The cache is traced when every hash in it is the hash of a package of its host with its tag.  The key has
  no path, so which of the packages with that tag is left open.
\<close>

definition hash_cache_traced :: "(string \<Rightarrow> string) \<Rightarrow> http_client \<Rightarrow> string \<Rightarrow> redis \<Rightarrow> bool" where
  "hash_cache_traced sha http host r =
     (\<forall>etag v. etag \<noteq> [] \<longrightarrow> redis_get (redis_key_zdm_package_sha256 host etag) r = Some v \<longrightarrow> v \<noteq> [] \<longrightarrow>
        (\<exists>path body. package http host path = Some (etag, body) \<and> v = sha body))"

lemma next_outage_get: "next_outage r = (b, r') \<Longrightarrow> redis_get k r' = redis_get k r"
  using next_outage_simps [of r b r'] by (intro redis_get_cong) simp_all

lemma safe_get_sound:
  "safe_get k r = (c, r1) \<Longrightarrow> (c = None \<or> c = redis_get k r) \<and> (\<forall>k'. redis_get k' r1 = redis_get k' r)"
  by (cases "next_outage r") (auto simp: safe_get_def next_outage_get split: bool.splits)

lemma safe_set_get:
  assumes "redis_get k' (snd (safe_set k v ex r)) = Some x" shows "redis_get k' r = Some x \<or> k' = k \<and> x = v"
proof (cases "next_outage r")
  case (Pair b r1)
  then show ?thesis using assms
    by (cases b) (auto simp: safe_set_def next_outage_get redis_get_put split: if_splits option.splits)
qed

text \<open>
  Claim C18: the hash that goes into an install message is the hash of a package the
  server really has under the tag of the requested path, and the cache stays that way.  It is the hash of
  the package at the requested path itself whenever the server sends no tag (nothing is cached then) or no
  other path of the host has the same tag with another content; nothing is assumed about tags.  (When two
  paths do share a tag the hash can be the wrong one: \<open>shared_tag_wrong_hash\<close>.)
\<close>

theorem package_hash_correct:
  assumes "hash_cache_traced sha http host r"
    and "package http host path = Some (etag, body)"
    and "resolve_package sha http host path r = (Inr (h, n), r')"
  shows "(\<exists>q b. package http host q = Some (etag, b) \<and> h = sha b) \<and> hash_cache_traced sha http host r'
    \<and> (etag = [] \<or> (\<forall>q b. package http host q = Some (etag, b) \<longrightarrow> b = body) \<longrightarrow> h = sha body)"
proof -
  let ?url = "zdm_url host path"
  have g: "\<exists>g. http_stream http ?url = Some g \<and> gr_status g = 200 \<and> \<not> gr_broken g \<and> concat (gr_chunks g) = body"
    and e: "head_etag (http_head http ?url) = etag"
    using assms(2) by (auto simp: package_def split: option.splits if_splits)
  have size: "head_size (http_head http ?url) = Inr n"
    using assms(3) by (auto simp: resolve_package_def Let_def split: sum.splits prod.splits if_splits)
  have dl: "download sha (http_stream http ?url) n = Inr x \<Longrightarrow> x = sha body" for x
    using g by (auto simp: download_def Let_def split: if_splits)
  let ?key = "if etag = [] then [] else redis_key_zdm_package_sha256 host etag"
  obtain cached r1 where c: "(if ?key = [] then (None, r) else safe_get ?key r) = (cached, r1)" by (rule prod.exhaust)
  have same: "redis_get k r1 = redis_get k r" for k
    using c safe_get_sound [of ?key r] by (auto split: if_splits)
  have traced1: "hash_cache_traced sha http host r1" using assms(1) by (simp add: hash_cache_traced_def same)
  show ?thesis
  proof (cases "str_or cached [] = []")
    case False
    then have hit: "h = str_or cached []" "r' = r1"
      using assms(3) size e c by (simp_all add: resolve_package_def Let_def)
    from False have some: "cached = Some h" "h \<noteq> []"
      using hit(1) by (cases cached; simp add: str_or_def split: if_splits)+
    then have tag: "etag \<noteq> []" using c by (auto split: if_splits)
    then have "redis_get (redis_key_zdm_package_sha256 host etag) r = Some h"
      using c some safe_get_sound [of ?key r cached r1] by (auto simp: redis_key_zdm_package_sha256_def split: if_splits)
    then obtain q b where "package http host q = Some (etag, b)" "h = sha b"
      using assms(1) tag some(2) unfolding hash_cache_traced_def by blast
    then show ?thesis using hit(2) traced1 tag by blast
  next
    case True
    then obtain x where x: "download sha (http_stream http ?url) n = Inr x" "h = x"
        "r' = (if ?key = [] then r1 else snd (safe_set ?key x (Some redis_ttl_zdm_package_sha256) r1))"
      using assms(3) size e c by (auto simp: resolve_package_def Let_def split: sum.splits)
    have h: "h = sha body" using dl x by blast
    have "hash_cache_traced sha http host (snd (safe_set ?key h (Some redis_ttl_zdm_package_sha256) r1))" if "etag \<noteq> []"
      unfolding hash_cache_traced_def
    proof (intro allI impI)
      fix t v
      assume t: "t \<noteq> []" "v \<noteq> []"
        and v: "redis_get (redis_key_zdm_package_sha256 host t) (snd (safe_set ?key h (Some redis_ttl_zdm_package_sha256) r1)) = Some v"
      from safe_set_get [OF v] show "\<exists>p b. package http host p = Some (t, b) \<and> v = sha b"
      proof
        assume "redis_get (redis_key_zdm_package_sha256 host t) r1 = Some v"
        then show ?thesis using traced1 t unfolding hash_cache_traced_def by blast
      next
        assume k: "redis_key_zdm_package_sha256 host t = ?key \<and> v = h"
        then have "t = etag" using that by (simp add: redis_key_zdm_package_sha256_def)
        then show ?thesis using k h assms(2) by blast
      qed
    qed
    then show ?thesis using h x traced1 assms(2) by (auto split: if_splits)
  qed
qed

definition quiet_redis :: redis where
  "quiet_redis = \<lparr>kv = Map.empty, clock = 0, outages = []\<rparr>"

definition tagged_server :: http_client where
  "tagged_server = plain_server\<lparr>http_head := (\<lambda>url. Some \<lparr>hr_status = 200,
     hr_headers = [''Content-Length'' \<mapsto> ''3'', ''ETag'' \<mapsto> take 3 (rev url)]\<rparr>)\<rparr>"

lemma head_etag_present: "hr_headers x ''ETag'' = Some e \<Longrightarrow> e \<noteq> [] \<Longrightarrow> head_etag (Some x) = e"
  by (cases e) (simp_all add: head_etag_def str_or_def)

theorem package_hash_correct_witness:
  "fst (resolve_package rev tagged_server ''zdm'' ''/a.tgz'' quiet_redis) = Inr (''tgz'', 3)"
proof -
  have p: "package tagged_server host path = Some (take 3 (rev (zdm_url host path)), take 3 (rev (zdm_url host path)))" for host path
  proof -
    have "take 3 (rev (zdm_url host path)) \<noteq> []" by (simp add: zdm_url_def)
    then show ?thesis
      by (simp add: package_def) (simp add: tagged_server_def plain_server_def head_etag_present)
  qed
  have "hash_cache_traced rev tagged_server ''zdm'' quiet_redis"
    by (simp add: hash_cache_traced_def quiet_redis_def redis_get_def)
  moreover have "package tagged_server ''zdm'' ''/a.tgz'' = Some (''zgt'', ''zgt'')" unfolding p by (simp add: zdm_url_def)
  moreover have "\<exists>h r'. resolve_package rev tagged_server ''zdm'' ''/a.tgz'' quiet_redis = (Inr (h, 3), r')"
  proof -
    have t: "head_etag (http_head tagged_server (zdm_url ''zdm'' ''/a.tgz'')) = ''zgt''"
      by (simp add: tagged_server_def head_etag_present zdm_url_def)
    show ?thesis by (subst resolve_miss [OF _ t])
      (simp_all add: tagged_server_def plain_server_def head_size_def three download_def zdm_url_def quiet_redis_def redis_get_def)
  qed
  moreover have "\<forall>q b. package tagged_server ''zdm'' q = Some (''zgt'', b) \<longrightarrow> b = ''zgt''" unfolding p by simp
  ultimately have "\<exists>h r'. resolve_package rev tagged_server ''zdm'' ''/a.tgz'' quiet_redis = (Inr (h, 3), r') \<and> h = rev ''zgt''"
    using package_hash_correct [of rev tagged_server "''zdm''" quiet_redis "''/a.tgz''" "''zgt''" "''zgt''"] by blast
  then show ?thesis by auto
qed

lemma plain_resolve:
  "resolve_package rev plain_server ''zdm'' zdm_package_path quiet_redis = (Inr (''.gz'', 3),
     redis_put (redis_key_zdm_package_sha256 ''zdm'' ''Sun'') ''.gz'' (Some redis_ttl_zdm_package_sha256) quiet_redis)"
  by (subst resolve_miss [OF plain_server_size(1) plain_server_size(2)])
    (simp_all add: quiet_redis_def redis_get_def plain_server_download zdm_url_def zdm_package_path_def)

text \<open>
  The cache key has the host and the tag but not the path.  On a server that
  sends no \<open>ETag\<close> and one modification date for both packages, the Windows hosts of a batch get the hash
  of the Linux package as soon as that is cached, and every one of their installations fails its check.
\<close>

theorem shared_tag_wrong_hash:
  "let (linux, r1) = resolve_package rev plain_server ''zdm'' zdm_package_path quiet_redis;
       (windows, r2) = resolve_package rev plain_server ''zdm'' zdm_package_path_windows r1
   in linux = Inr (''.gz'', 3) \<and> windows = Inr (''.gz'', 3)
      \<and> package plain_server ''zdm'' zdm_package_path_windows = Some (''Sun'', rev ''exe'')"
proof -
  let ?key = "redis_key_zdm_package_sha256 ''zdm'' ''Sun''"
  let ?r1 = "redis_put ?key ''.gz'' (Some redis_ttl_zdm_package_sha256) quiet_redis"
  have "resolve_package rev plain_server ''zdm'' zdm_package_path quiet_redis = (Inr (''.gz'', 3), ?r1)"
    by (rule plain_resolve)
  moreover have "redis_get ?key ?r1 = Some ''.gz''" by (simp add: redis_get_put redis_ttl_zdm_package_sha256_def)
  moreover have "outages ?r1 = []" by (simp add: redis_put_def quiet_redis_def)
  moreover have "?key \<noteq> []" by (simp add: redis_key_zdm_package_sha256_def)
  ultimately have "resolve_package rev plain_server ''zdm'' zdm_package_path_windows ?r1 = (Inr (''.gz'', 3), ?r1)"
    by (simp add: resolve_package_def plain_server_size safe_get_def next_outage_def str_or_def)
  moreover have "package plain_server ''zdm'' zdm_package_path_windows = Some (''Sun'', rev ''exe'')"
    unfolding package_def plain_server_size(2) by (simp add: plain_server_def zdm_url_def zdm_package_path_windows_def)
  ultimately show ?thesis
    using \<open>resolve_package rev plain_server ''zdm'' zdm_package_path quiet_redis = (Inr (''.gz'', 3), ?r1)\<close> by simp
qed

section \<open>All or nothing\<close>

lemma resolve_metas_unsupported:
  assumes "x \<in> set details" "str_or (td_os_family x) ''linux'' \<notin> {''linux'', ''windows''}"
  shows "\<exists>e r'. resolve_metas resolve details h m r = (Inl e, r')"
  using assms(1)
proof (induction resolve details h m r rule: resolve_metas.induct)
  case (2 resolve detail rest hosts metas r)
  show ?case
  proof (cases "resolve_install_dispatch (str_or (td_os_family detail) ''linux'')")
    case (Inr dsp)
    then have "x \<in> set rest" using 2(3) assms(2) by (auto simp: resolve_install_dispatch_def split: if_splits)
    show ?thesis
    proof (cases "metas (fst dsp) = None")
      case False
      then show ?thesis using Inr 2(1) [OF Inr refl False \<open>x \<in> set rest\<close>] by (simp add: Let_def del: fun_upd_apply)
    next
      case True
      obtain q r1 where q: "resolve (fst dsp) r = (q, r1)" by (rule prod.exhaust)
      show ?thesis
      proof (cases q)
        case (Inr meta)
        have "\<exists>e r'. resolve_metas resolve rest (hosts(td_id detail \<mapsto> dsp)) (metas(fst dsp \<mapsto> meta)) r1 = (Inl e, r')"
          using 2(2) [OF \<open>resolve_install_dispatch _ = Inr dsp\<close> refl _ q [symmetric] Inr \<open>x \<in> set rest\<close>] True by (simp del: fun_upd_apply)
        then show ?thesis using \<open>resolve_install_dispatch _ = Inr dsp\<close> True q Inr by (simp add: Let_def del: fun_upd_apply)
      qed (use Inr True q in simp)
    qed
  qed auto
qed simp

text \<open>
  When one of the targets is unknown, has an install still pending, or runs a
  system without a package, the whole call is refused before anything is issued: no task, no queue, no
  message, for any of the targets.
\<close>

theorem refusal_issues_nothing:
  assumes "(\<exists>pid \<in> set targets. tq_resolve q targets pid = None)
    \<or> find_pending_deadline_servers ids (snd (expire_overdue_tasks ids now (tw_db w))) \<noteq> []
    \<or> (\<exists>x \<in> set (tq_servers q ids). str_or (td_os_family x) ''linux'' \<notin> {''linux'', ''windows''})"
    and "ids = map (\<lambda>pid. the (tq_resolve q targets pid)) targets"
    and "create_install_tasks sha256 http q now ps targets zdm_ip zdm_user w = (r, w')"
  shows "(\<exists>e. r = Inl e) \<and> tw_published w' = tw_published w \<and> tw_queues w' = tw_queues w
    \<and> map t_public_id (tasks (tw_db w')) = map t_public_id (tasks (tw_db w))"
proof -
  have ids: "map t_public_id (tasks (snd (expire_overdue_tasks is now d))) = map t_public_id (tasks d)" for "is" now d
    by (simp add: expire_overdue_tasks_def expire_where_def comp_def expire_task_def if_distrib cong: if_cong)
  let ?d = "snd (expire_overdue_tasks ids now (tw_db w))"
  show ?thesis
  proof (cases "list_ex (\<lambda>pid. tq_resolve q targets pid = None) targets")
    case True
    then show ?thesis using assms(3) by (auto simp: create_install_tasks_def)
  next
    case known: False
    show ?thesis
    proof (cases "find_pending_deadline_servers ids ?d = []")
      case False
      then show ?thesis using assms(3) known ids by (auto simp: create_install_tasks_def Let_def assms(2) [symmetric])
    next
      case True
      then obtain x where "x \<in> set (tq_servers q ids)" "str_or (td_os_family x) ''linux'' \<notin> {''linux'', ''windows''}"
        using assms(1) known by (auto simp: list_ex_iff)
      note unsupported = resolve_metas_unsupported [OF this]
      obtain onl r1 where o: "online_targets ids (tw_redis w) = (onl, r1)" by (rule prod.exhaust)
      obtain e r2 where m: "resolve_metas (resolve_package sha256 http (extract_zdm_host zdm_ip)) (tq_servers q ids) Map.empty Map.empty r1 = (Inl e, r2)"
        using unsupported by blast
      have "create_install_tasks sha256 http q now ps targets zdm_ip zdm_user w = (Inl e, w\<lparr>tw_db := ?d, tw_redis := r2\<rparr>)"
        using known True o m by (simp add: create_install_tasks_def Let_def assms(2) [symmetric])
      then show ?thesis using assms(3) ids by auto
    qed
  qed
qed

theorem refusal_issues_nothing_witness:
  "let (r, w') = create_install_tasks rev plain_server (one_target (Some ''macos'')) 10 [publication_of ''u1'' Publish_ok]
        [''p1''] ''zdm'' ''admin@x.y'' fresh_world
   in (\<exists>e. r = Inl e) \<and> tw_published w' = []"
proof -
  obtain r w' where run: "create_install_tasks rev plain_server (one_target (Some ''macos'')) 10 [publication_of ''u1'' Publish_ok]
        [''p1''] ''zdm'' ''admin@x.y'' fresh_world = (r, w')" by (rule prod.exhaust)
  have "\<exists>x \<in> set (tq_servers (one_target (Some ''macos'')) [1]). str_or (td_os_family x) ''linux'' \<notin> {''linux'', ''windows''}"
    by (simp add: one_target_def str_or_def)
  note refused = disjI2 [OF disjI2 [OF this]]
  have "[1] = map (\<lambda>pid. the (tq_resolve (one_target (Some ''macos'')) [''p1''] pid)) [''p1'']"
    by (simp add: one_target_def)
  from refusal_issues_nothing [OF refused this run] show ?thesis
    unfolding run Let_def prod.case fresh_world_simps by blast
qed

text \<open>The loop without faults and without other sessions.\<close>

lemma issue_ok:
  assumes "create_task (pb_uuid p) (pb_now p) (install_create (td_id detail) (td_agent_id detail) zdm_ip zdm_user dl) (tw_db w) = Inr (i, d)"
    and "pb_others p = (\<lambda>d. d)" "pb_fault p = Publish_ok"
  shows "issue_task zdm_ip zdm_host zdm_user dl detail dsp meta p w =
    (Inr i, (publish_install (td_agent_id detail)
              (install_payload i (td_agent_id detail) (pb_now p) zdm_host zdm_user meta dsp)
              (ensure_machine_queue (td_agent_id detail) w))\<lparr>tw_db := d\<rparr>)"
  using assms by (simp add: issue_task_def)

abbreviation sample_dispatch :: dispatch where
  "sample_dispatch \<equiv> (zdm_package_path, ''shell'', Some zdm_package_script)"

abbreviation sample_deadline :: datetime where
  "sample_deadline \<equiv> 10 + install_task_deadline_sec * 1000000"

abbreviation sample_create :: TaskCreate where
  "sample_create \<equiv> install_create 1 ''a1'' ''zdm'' ''admin@x.y'' sample_deadline"

lemma plain_run:
  assumes d: "tasks d = []" and n: "0 < n"
  obtains onl r1 where
    "create_install_tasks rev plain_server (one_target None) 10 ps (replicate n ''p1'') ''zdm'' ''admin@x.y''
       \<lparr>tw_db = d, tw_redis = quiet_redis, tw_queues = [], tw_published = []\<rparr> =
     issue_all (\<lambda>detail. issue_task ''zdm'' ''zdm'' ''admin@x.y'' sample_deadline detail
         (the ([1 \<mapsto> sample_dispatch] (td_id detail)))
         (the ([zdm_package_path \<mapsto> (''.gz'', 3)] (fst (the ([1 \<mapsto> sample_dispatch] (td_id detail)))))))
      (\<lambda>pid. [(1::int) \<mapsto> \<lparr>td_id = 1, td_agent_id = ''a1'', td_hostname = ''h1'', td_os_family = None\<rparr>] (the ([''p1'' \<mapsto> 1] pid)))
      (\<lambda>sid. case onl sid of None \<Rightarrow> True | Some b \<Rightarrow> b) (replicate n ''p1'') ps []
      \<lparr>tw_db = d, tw_redis = r1, tw_queues = [], tw_published = []\<rparr>"
proof -
  let ?ids = "replicate n (1::int)"
  have ids: "map (\<lambda>pid. the (if pid = ''p1'' then Some 1 else None)) (replicate n ''p1'') = ?ids" by simp
  have exp: "snd (expire_overdue_tasks ?ids 10 d) = d" by (simp add: expire_overdue_tasks_def expire_where_def d)
  have idle: "find_pending_deadline_servers ?ids d = []" by (simp add: find_pending_deadline_servers_def d)
  have "?ids \<noteq> []" using n by simp
  then obtain onl where onl: "online_targets ?ids quiet_redis = (onl, quiet_redis)"
    by (simp add: online_targets_def safe_mget_def next_outage_def quiet_redis_def)
  have host: "extract_zdm_host ''zdm'' = ''zdm''" by code_simp
  obtain r1 where res: "resolve_package rev plain_server ''zdm'' zdm_package_path quiet_redis = (Inr (''.gz'', 3), r1)"
    using plain_resolve by (rule that)
  have dsp: "resolve_install_dispatch (str_or None ''linux'') = Inr sample_dispatch"
    by (simp add: str_or_def resolve_install_dispatch_def)
  have known: "\<not> list_ex (\<lambda>pid. (if pid = ''p1'' then Some (1::int) else None) = None) (replicate n ''p1'')"
    by (simp add: list_ex_iff)
  show thesis
    by (rule that [of onl r1]) (use exp idle onl known in \<open>simp add: create_install_tasks_def one_target_def Let_def host dsp res\<close>)
qed

lemma repeated_target_core:
  assumes d: "si_id ` set (servers d) = {1}" "tasks d = []"
  shows "let (r, w') = create_install_tasks rev plain_server (one_target None) 10
        [publication_of ''u1'' Publish_ok, publication_of ''u2'' Publish_ok] [''p1'', ''p1''] ''zdm'' ''admin@x.y''
        \<lparr>tw_db = d, tw_redis = quiet_redis, tw_queues = [], tw_published = []\<rparr>
   in r = Inl (TaskDuplicatePendingError [''h1'']) \<and> length (tw_published w') = 1
      \<and> map t_public_id (filter is_pending (tasks (tw_db w'))) = [''u1'']"
proof -
  let ?d1 = "d\<lparr>tasks := [new_task (task_seq d) ''u1'' 20 sample_create], task_seq := task_seq d + 1\<rparr>"
  have first: "create_task ''u1'' 20 sample_create d = Inr (''u1'', ?d1)"
    using d by (simp add: create_task_def Let_def pending_unique_def install_create_def)
  have again: "create_task ''u2'' 20 sample_create ?d1 = Inl IntegrityError"
    by (simp add: create_task_def Let_def pending_unique_def new_task_def is_pending_def task_key_def)
  have two: "[''p1'', ''p1''] = replicate 2 ''p1''" by (simp add: eval_nat_numeral)
  have pending: "map t_public_id (filter is_pending (tasks ?d1)) = [''u1'']"
    by (simp add: new_task_def is_pending_def)
  show ?thesis unfolding two
    by (rule plain_run [OF d(2), of 2 "[publication_of ''u1'' Publish_ok, publication_of ''u2'' Publish_ok]"])
      (use pending in \<open>simp_all add: eval_nat_numeral issue_task_def publication_of_def first again Let_def publish_install_def
        ensure_machine_queue_def\<close>)
qed

text \<open>
  The request's list of targets may name a server twice.  The checks
  before the loop accept it; the loop issues the first copy and fails on the second, so the caller gets
  a conflict although a task was committed and its message sent.
\<close>

theorem repeated_target_half_issued:
  "let (r, w') = create_install_tasks rev plain_server (one_target None) 10
        [publication_of ''u1'' Publish_ok, publication_of ''u2'' Publish_ok] [''p1'', ''p1''] ''zdm'' ''admin@x.y'' fresh_world
   in r = Inl (TaskDuplicatePendingError [''h1'']) \<and> length (tw_published w') = 1
      \<and> map t_public_id (filter is_pending (tasks (tw_db w'))) = [''u1'']"
  using repeated_target_core [OF one_server_ids(1,2)]
  unfolding fresh_world_def quiet_redis_def .

lemma issue_task_accounts:
  assumes "issue_task zdm_ip zdm_host zdm_user dl detail dsp meta p w = (Inr i, w')"
  shows "\<exists>m. tw_published w' = tw_published w @ [m] \<and> announces m (i, td_agent_id detail)"
proof -
  obtain j d where c: "create_task (pb_uuid p) (pb_now p) (install_create (td_id detail) (td_agent_id detail) zdm_ip zdm_user dl)
      (pb_others p (tw_db w)) = Inr (j, d)"
    using assms by (auto simp: issue_task_def Let_def split: sum.splits db_error.splits)
  then have "i = j" "pb_fault p = Publish_ok" using assms by (cases "pb_fault p"; simp add: issue_task_def Let_def)+
  then show ?thesis using assms c by (auto simp: issue_task_def Let_def install_announces)
qed

lemma issue_all_accounts:
  assumes "issue_all (\<lambda>detail. issue_task zdm_ip zdm_host zdm_user dl detail (dsp detail) (meta detail)) detail_of online targets ps created w
      = (Inr res, w')"
  shows "\<exists>new ms. res = created @ new \<and> tw_published w' = tw_published w @ ms \<and> map tk_target_public_id new = targets
     \<and> list_all2 (\<lambda>c m. \<exists>agent_id. announces m (tk_task_id c, agent_id)) new ms"
  using assms
proof (induction targets arbitrary: ps created w)
  case (Cons pid rest)
  let ?issue = "\<lambda>detail. issue_task zdm_ip zdm_host zdm_user dl detail (dsp detail) (meta detail)"
  obtain detail where d: "detail_of pid = Some detail" using Cons.prems by (cases "detail_of pid") auto
  obtain p ps' where ps: "ps = p # ps'" using Cons.prems d by (cases ps) auto
  obtain i w1 where i: "?issue detail p w = (Inr i, w1)" using Cons.prems d ps by (auto split: prod.splits sum.splits)
  obtain m where m: "tw_published w1 = tw_published w @ [m]" "announces m (i, td_agent_id detail)"
    using issue_task_accounts [OF i] by blast
  let ?c = "\<lparr>tk_target_public_id = pid, tk_task_id = i, tk_target_online = online (td_id detail)\<rparr>"
  have "issue_all ?issue detail_of online rest ps' (created @ [?c]) w1 = (Inr res, w')" using Cons.prems d ps i by simp
  from Cons.IH [OF this] obtain new ms where n: "res = created @ ?c # new" "tw_published w' = tw_published w1 @ ms"
    "map tk_target_public_id new = rest" "list_all2 (\<lambda>c m. \<exists>agent_id. announces m (tk_task_id c, agent_id)) new ms" by auto
  show ?case by (rule exI [of _ "?c # new"], rule exI [of _ "m # ms"]) (use n m in auto)
qed auto

text \<open>
  A call that answers with a list has issued exactly one message for each target, in
  the order of the targets, and each entry of the list names its target and the task of its message.
\<close>

theorem issue_accounts:
  assumes "create_install_tasks sha256 http q now ps targets zdm_ip zdm_user w = (Inr created, w')"
  shows "map tk_target_public_id created = targets
    \<and> (\<exists>ms. tw_published w' = tw_published w @ ms
         \<and> list_all2 (\<lambda>c m. \<exists>agent_id. announces m (tk_task_id c, agent_id)) created ms)"
proof (cases rule: create_install_cases [of sha256 http q now ps targets zdm_ip zdm_user w])
  case (stop e d r)
  then show ?thesis using assms by simp
next
  case (go ids r issue detail_of online dsp meta dl)
  from assms [unfolded go] issue_all_accounts show ?thesis by fastforce
qed

lemma single_target_core:
  assumes d: "si_id ` set (servers d) = {1}" "tasks d = []"
  shows "\<exists>created w'. create_install_tasks rev plain_server (one_target None) 10 [publication_of ''u1'' Publish_ok] [''p1'']
     ''zdm'' ''admin@x.y'' \<lparr>tw_db = d, tw_redis = quiet_redis, tw_queues = [], tw_published = []\<rparr> = (Inr created, w')"
proof -
  let ?d1 = "d\<lparr>tasks := [new_task (task_seq d) ''u1'' 20 sample_create], task_seq := task_seq d + 1\<rparr>"
  have first: "create_task ''u1'' 20 sample_create d = Inr (''u1'', ?d1)"
    using d by (simp add: create_task_def Let_def pending_unique_def install_create_def)
  have one: "[''p1''] = replicate 1 ''p1''" by simp
  show ?thesis unfolding one
    by (rule plain_run [OF d(2), of 1 "[publication_of ''u1'' Publish_ok]"])
      (simp_all add: issue_task_def publication_of_def first Let_def)
qed

theorem issue_accounts_witness:
  "\<exists>created w'. create_install_tasks rev plain_server (one_target None) 10 [publication_of ''u1'' Publish_ok] [''p1'']
     ''zdm'' ''admin@x.y'' fresh_world = (Inr created, w') \<and> map tk_target_public_id created = [''p1''] \<and> length (tw_published w') = 1"
proof -
  obtain created w' where run: "create_install_tasks rev plain_server (one_target None) 10 [publication_of ''u1'' Publish_ok] [''p1'']
     ''zdm'' ''admin@x.y'' fresh_world = (Inr created, w')"
    using single_target_core [OF one_server_ids(1,2)] unfolding fresh_world_def quiet_redis_def by blast
  obtain ms where acc: "map tk_target_public_id created = [''p1'']" "tw_published w' = tw_published fresh_world @ ms"
    "list_all2 (\<lambda>c m. \<exists>agent_id. announces m (tk_task_id c, agent_id)) created ms"
    using issue_accounts [OF run] by - (elim conjE exE, rule that)
  have "length created = 1" using acc(1) by (metis length_map One_nat_def length_Cons list.size(3))
  then have "length (tw_published w') = 1" using acc(2,3) unfolding fresh_world_simps by (simp add: list_all2_lengthD)
  with run acc(1) show ?thesis by - (rule exI [of _ created], rule exI [of _ w'], intro conjI)
qed

theorem no_ghost_pending_witness:
  "\<exists>r w'. create_install_tasks rev plain_server (one_target None) 10 [publication_of ''u1'' Publish_ok] [''p1'']
     ''zdm'' ''admin@x.y'' fresh_world = (r, w')
     \<and> (\<forall>t \<in> set (tasks (tw_db w')). t_public_id t = ''u1'' \<longrightarrow>
          (\<exists>m \<in> set (tw_published w'). im_routing_key m = task_install_routing_key (t_target_agent_id t)))"
proof -
  obtain r w' where run: "create_install_tasks rev plain_server (one_target None) 10 [publication_of ''u1'' Publish_ok] [''p1'']
     ''zdm'' ''admin@x.y'' fresh_world = (r, w')" by (rule prod.exhaust)
  have k: "\<forall>p \<in> set [publication_of ''u1'' Publish_ok]. keeps_pairs {''u1''} p" by (simp add: keeps_pairs_def publication_of_def)
  have e: "task_pairs {''u1''} (tw_db fresh_world) = {}" unfolding fresh_world_simps task_pairs_def one_server_ids(2) by simp
  from no_ghost_pending [OF k e run] run show ?thesis by blast
qed

end
