(* ===== verification/DeviceFilters.thy ===== *)
theory DeviceFilters
  imports WireMappers PyJson
begin

text \<open>
  Device classes and display units: \<open>web/services/device_filters.py\<close>, \<open>web/services/unit_converter.py\<close>
  and the join keys between inventory nodes and time series of \<open>mappers/metrics_calculator.py\<close>.  Inventory
  nodes are the JSON objects that the wire mappers store; the fields read here are strings or null there.
\<close>

section \<open>Device predicates\<close>

definition VIRTUAL_FSTYPES :: "string list" where
  "VIRTUAL_FSTYPES =
    [''tmpfs'', ''devtmpfs'', ''overlay'', ''squashfs'', ''proc'', ''sysfs'', ''cgroup'', ''cgroup2'',
     ''mqueue'', ''debugfs'', ''tracefs'', ''securityfs'', ''pstore'', ''bpf'', ''configfs'', ''ramfs'',
     ''autofs'', ''hugetlbfs'', ''fusectl'', ''nsfs'', ''efivarfs'', ''binfmt_misc'']"

definition is_physical_disk :: "string option \<Rightarrow> bool" where
  "is_physical_disk dtype = (dtype = Some ''disk'')"

definition is_lvm_disk :: "string option \<Rightarrow> bool" where
  "is_lvm_disk dtype = is_some_and dtype (\<lambda>t. t \<in> set [''lvm'', ''raid'', ''crypt'', ''mpath'', ''dynamic''])"

definition is_partition :: "string option \<Rightarrow> bool" where
  "is_partition dtype = (dtype = Some ''part'')"

definition is_swap :: "string option \<Rightarrow> bool" where
  "is_swap dtype = (dtype = Some ''swap'')"

definition is_virtual_interface :: "string option \<Rightarrow> bool" where
  "is_virtual_interface kind = (kind \<noteq> Some ''physical'' \<and> kind \<noteq> Some ''bond_master'')"

definition is_data_volume :: "string option \<Rightarrow> string option \<Rightarrow> bool" where
  "is_data_volume fstype mountpoint =
     (if is_some_and fstype (\<lambda>f. f \<in> set VIRTUAL_FSTYPES) then False
      else \<not> is_some_and mountpoint (prefix ''/boot''))"

text \<open>\<open>d.get("size_bytes") or 0\<close>.\<close>

definition size_or_0 :: "json \<Rightarrow> int" where
  "size_or_0 d = (case get_int ''size_bytes'' d of None \<Rightarrow> 0 | Some n \<Rightarrow> n)"

definition disk_total_bytes :: "json list \<Rightarrow> int" where
  "disk_total_bytes block_devices =
     sum_list (map size_or_0 (filter (\<lambda>d. is_physical_disk (get_str ''type'' d)) block_devices))"

definition swap_total_bytes :: "json list \<Rightarrow> int" where
  "swap_total_bytes block_devices =
     sum_list (map size_or_0 (filter (\<lambda>d. is_swap (get_str ''type'' d)) block_devices))"

section \<open>Units\<close>

definition bytes_to_gb :: "int option \<Rightarrow> pyfloat option" where
  "bytes_to_gb b = map_option (\<lambda>n. py_round 2 (idiv n (1024 ^ 3))) b"

definition bytes_to_gib :: "int option \<Rightarrow> pyfloat option" where
  "bytes_to_gib b = (case b of None \<Rightarrow> None | Some n \<Rightarrow> if n = 0 then None else Some (py_round 1 (idiv n (1024 ^ 3))))"

definition usage_pct :: "int option \<Rightarrow> int option \<Rightarrow> pyfloat option" where
  "usage_pct used total_n =
     (case (used, total_n) of
        (Some u, Some t) \<Rightarrow> if t = 0 then None else Some (py_round 1 (max 0 (fmul (idiv u t) 100)))
      | _ \<Rightarrow> None)"

section \<open>Join keys\<close>

text \<open>The truth value of an optional string, as an option.\<close>

definition nonblank :: "string option \<Rightarrow> string option" where
  "nonblank s = (case s of Some [] \<Rightarrow> None | _ \<Rightarrow> s)"

definition composite_dev_id :: "json \<Rightarrow> string option" where
  "composite_dev_id node =
     (case (nonblank (get_str ''id'' node), nonblank (get_str ''id_type'' node)) of
        (Some did, Some dtype) \<Rightarrow> Some (dtype @ '':'' @ did)
      | _ \<Rightarrow> None)"

definition register_name :: "json \<Rightarrow> (string \<rightharpoonup> string) \<Rightarrow> (string \<rightharpoonup> string)" where
  "register_name n result =
     (let name = nonblank (get_str ''name'' n);
          cid = composite_dev_id n
      in case (case name of None \<Rightarrow> cid | Some s \<Rightarrow> Some s) of
           None \<Rightarrow> result
         | Some display \<Rightarrow>
             let r1 = (case cid of None \<Rightarrow> result | Some c \<Rightarrow> result(c \<mapsto> display))
             in (case name of None \<Rightarrow> r1 | Some s \<Rightarrow> r1(''name:'' @ s \<mapsto> display)))"

definition physical_dev_names :: "json list option \<Rightarrow> (json \<Rightarrow> bool) \<Rightarrow> (string \<rightharpoonup> string) option" where
  "physical_dev_names nodes keep =
     (case nodes of
        None \<Rightarrow> None
      | Some ns \<Rightarrow> if ns = [] then None else Some (fold register_name (filter keep ns) Map.empty))"

text \<open>The keys a node registers: its composite id and its name, either of which a collector may use.\<close>

definition dev_keys :: "json \<Rightarrow> string set" where
  "dev_keys n = set_option (composite_dev_id n) \<union> (\<lambda>s. ''name:'' @ s) ` set_option (nonblank (get_str ''name'' n))"

lemma dom_register_name: "dom (register_name n result) = dom result \<union> dev_keys n"
  by (cases "nonblank (get_str ''name'' n)"; cases "composite_dev_id n")
    (simp_all add: register_name_def dev_keys_def Let_def insert_commute del: append_Cons)

lemma dom_register_names: "dom (fold register_name ns result) = dom result \<union> (\<Union>n \<in> set ns. dev_keys n)"
  by (induction ns arbitrary: result) (simp_all add: dom_register_name Un_assoc)

text \<open>
  The join keys of the activity cards are exactly the composite ids and names of
  the kept nodes, and without an inventory there is no filter.
\<close>

lemma physical_keys_exact:
  assumes "physical_dev_names nodes keep = Some names"
  shows "dom names = (\<Union>n \<in> set (filter keep (the nodes)). dev_keys n)"
proof -
  obtain ns where "nodes = Some ns" "names = fold register_name (filter keep ns) Map.empty"
    using assms by (auto simp: physical_dev_names_def split: option.splits if_splits)
  then show ?thesis by (simp only: dom_register_names dom_empty Un_empty_left option.sel)
qed

end
