(* ===== verification/Recommendation.thy ===== *)
theory Recommendation
  imports PyFloat
begin

text \<open>
  Right-sizing rules of \<open>src/assessment_engine/recommendation.py\<close>: the thresholds, the statistics a
  host is judged on (\<open>ResourceStats\<close>), the OS-aware saturation signals, and the five per-resource
  assessments (CPU, memory, disk capacity, disk I/O, network) with their sizing targets, plus the
  per-mount sizing of the assessment API.  Percentages and rates are Python floats and carry the
  binary64 rounding of \<open>PyFloat\<close>.  The Korean texts of the \<open>detail\<close> field are replaced by the
  constructors of \<open>detail\<close>, which carry the numbers the texts print.
\<close>

section \<open>Thresholds\<close>

definition IDLE_CPU_P95_PCT :: rat where "IDLE_CPU_P95_PCT = 3"
definition IDLE_NET_MBPS :: rat where "IDLE_NET_MBPS = 2"
definition IDLE_DISK_IOPS :: rat where "IDLE_DISK_IOPS = 5"
definition IDLE_STRONG_PEAK_PCT :: rat where "IDLE_STRONG_PEAK_PCT = 1"
definition IDLE_STRONG_NET_KBYTES_PER_S :: rat where "IDLE_STRONG_NET_KBYTES_PER_S = 1"

definition PROCS_RUNNING_PER_CORE_SATURATION :: pyfloat where
  "PROCS_RUNNING_PER_CORE_SATURATION = 1"
definition CPU_RUN_QUEUE_PER_CORE_SATURATION :: pyfloat where
  "CPU_RUN_QUEUE_PER_CORE_SATURATION = 2"
definition DISK_QUEUE_PER_DISK_SATURATION :: pyfloat where
  "DISK_QUEUE_PER_DISK_SATURATION = 2"
definition WIN_PAGES_INPUT_SATURATION :: pyfloat where
  "WIN_PAGES_INPUT_SATURATION = 20"
definition PROCS_BLOCKED_DSTATE_SATURATION :: pyfloat where
  "PROCS_BLOCKED_DSTATE_SATURATION = 1"

definition RS_CPU_UNDER_PCT :: rat where "RS_CPU_UNDER_PCT = 70"
definition RS_CPU_SIZING_TARGET_PCT :: rat where "RS_CPU_SIZING_TARGET_PCT = 70"
definition RS_CPU_SAT_HEADROOM :: pyfloat where "RS_CPU_SAT_HEADROOM = fl (7 / 10)"
definition RS_CPU_PERCORE_HOLD_PCT :: rat where "RS_CPU_PERCORE_HOLD_PCT = 85"
definition RS_CPU_STEAL_BIAS_PCT :: rat where "RS_CPU_STEAL_BIAS_PCT = 5"
definition RS_MEM_UNDER_PCT :: rat where "RS_MEM_UNDER_PCT = 90"
definition RS_MEM_SIZING_TARGET_PCT :: rat where "RS_MEM_SIZING_TARGET_PCT = 80"
definition RS_DISK_RUNWAY_DAYS :: rat where "RS_DISK_RUNWAY_DAYS = 30"
definition RS_DISK_HEADROOM_TARGET_PCT :: int where "RS_DISK_HEADROOM_TARGET_PCT = 70"
definition RS_DISK_STATIC_GUARD_PCT :: rat where "RS_DISK_STATIC_GUARD_PCT = 85"
definition RS_DISKIO_AWAIT_MS :: rat where "RS_DISKIO_AWAIT_MS = 20"
definition RS_NET_RETRANS_PCT :: pyfloat where "RS_NET_RETRANS_PCT = 1"
definition RS_NET_DROP_PCT :: pyfloat where "RS_NET_DROP_PCT = fl (1 / 2)"
definition RS_NET_MIN_TRAFFIC_KBPS :: pyfloat where "RS_NET_MIN_TRAFFIC_KBPS = 10"
definition RS_CONNTRACK_SATURATION_RATIO :: pyfloat where
  "RS_CONNTRACK_SATURATION_RATIO = fl (8 / 10)"
definition RS_CONFIDENCE_MIN_HOURS :: rat where "RS_CONFIDENCE_MIN_HOURS = 30"
definition RS_DOWNSIZE_MIN_SUFFICIENCY :: pyfloat where
  "RS_DOWNSIZE_MIN_SUFFICIENCY = fl (7 / 10)"
definition RS_BURST_RATIO_MAX :: pyfloat where "RS_BURST_RATIO_MAX = 2"
definition RS_UTIL_TREND_RISING_PCT_PER_DAY :: pyfloat where
  "RS_UTIL_TREND_RISING_PCT_PER_DAY = fl (2 / 10)"
definition RS_MEM_SATURATION_HEADROOM_PCT :: int where "RS_MEM_SATURATION_HEADROOM_PCT = 30"
definition GIB :: int where "GIB = 1024 ^ 3"

lemmas thresholds [sizing_simps] =
  IDLE_CPU_P95_PCT_def IDLE_NET_MBPS_def IDLE_DISK_IOPS_def IDLE_STRONG_PEAK_PCT_def
  IDLE_STRONG_NET_KBYTES_PER_S_def PROCS_RUNNING_PER_CORE_SATURATION_def
  CPU_RUN_QUEUE_PER_CORE_SATURATION_def DISK_QUEUE_PER_DISK_SATURATION_def
  WIN_PAGES_INPUT_SATURATION_def PROCS_BLOCKED_DSTATE_SATURATION_def
  RS_CPU_UNDER_PCT_def RS_CPU_SIZING_TARGET_PCT_def RS_CPU_PERCORE_HOLD_PCT_def
  RS_CPU_STEAL_BIAS_PCT_def RS_MEM_UNDER_PCT_def RS_MEM_SIZING_TARGET_PCT_def
  RS_DISK_RUNWAY_DAYS_def RS_DISK_HEADROOM_TARGET_PCT_def RS_DISK_STATIC_GUARD_PCT_def
  RS_DISKIO_AWAIT_MS_def RS_NET_RETRANS_PCT_def RS_NET_MIN_TRAFFIC_KBPS_def
  RS_CONFIDENCE_MIN_HOURS_def RS_BURST_RATIO_MAX_def RS_MEM_SATURATION_HEADROOM_PCT_def

section \<open>Statistics and verdicts\<close>

datatype recommendation =
  Rec_idle | Rec_over_provisioned | Rec_under_provisioned | Rec_optimal | Rec_insufficient_data

datatype resource_kind = Cpu | Memory | Disk_capacity | Disk_io | Network

datatype trigger_kind =
  T_cpu_util | T_cpu_saturation | T_mem_util | T_mem_saturation | T_mem_oom | T_disk_capacity
  | T_disk_io | T_net_retrans | T_net_drop | T_net_conntrack

datatype resource_status =
  Under | Optimal | Over | Insufficient | Filling | Capacity_ok | Io_bound | Io_ok
  | Congested | Quality_ok | Unmeasured

datatype host_status = HS_under | HS_idle | HS_over | HS_optimal | HS_insufficient

record ResourceStats =
  cpu_p95_pct :: "pyfloat option"
  cpu_peak_pct :: "pyfloat option"
  cpu_cores :: "int option"
  mem_p95_pct :: "pyfloat option"
  disk_used_pct :: "pyfloat option"
  net_avg_kbytes_per_s :: "pyfloat option"
  os_family :: "string option"
  sample_sufficiency :: "pyfloat option"
  disk_queue_p95 :: "pyfloat option"
  cpu_run_queue_p95 :: "pyfloat option"
  mem_pages_input_rate_p95 :: "pyfloat option"
  cpu_percore_p95_max :: "pyfloat option"
  procs_blocked_p95 :: "pyfloat option"
  procs_running_p95 :: "pyfloat option"
  mem_swap_paging :: bool
  oom_occurred :: bool
  mem_total_mb :: "int option"
  mem_near_peak_pct :: "pyfloat option"
  disk_await_p95_ms :: "pyfloat option"
  disk_iops_baseline :: "pyfloat option"
  disk_capacity_runway_days :: "pyfloat option"
  disk_inode_runway_days :: "pyfloat option"
  disk_inode_used_pct :: "pyfloat option"
  disk_capacity_target_gb :: "pyfloat option"
  net_retrans_pct :: "pyfloat option"
  net_drop_pct :: "pyfloat option"
  conntrack_ratio :: "pyfloat option"
  history_hours :: "pyfloat option"
  cpu_burst_ratio :: "pyfloat option"
  util_trend_rising :: "bool option"
  cpu_steal_p95_pct :: "pyfloat option"

record ConfidenceNote =
  low_precision :: bool
  coverage_gap :: bool
  biased :: bool
  nonstationary :: bool

text \<open>The property \<open>high\<close> of the dataclass.\<close>

definition confidence_high :: "ConfidenceNote \<Rightarrow> bool" where
  "confidence_high c = (\<not> (low_precision c \<or> coverage_gap c \<or> biased c))"

text \<open>
  The texts of \<open>detail\<close>, one constructor per literal of the source.  A number printed with
  \<open>:.0f\<close> is the integer \<open>rhe\<close> gives; \<open>:.1f\<close> and \<open>:.2f\<close> carry tenths and hundredths.
\<close>

datatype detail =
  D_empty
  | D_util_unmeasured
  | D_cores_unknown
  | D_target_cores int
  | D_saturation_led int
  | D_target_mb int
  | D_raise_current_spec
  | D_util_unmeasured_oom
  | D_runway int "int option"
  | D_used_static int "int option"
  | D_inode_static int
  | D_capacity_unmeasured
  | D_days_left int
  | D_used int
  | D_room
  | D_device_low_activity
  | D_latency_unmeasured
  | D_await_ms int
  | D_queue_tenths int
  | D_net_parts "(trigger_kind \<times> int) list"
  | D_quality_unmeasured

record ResourceAssessment =
  kind :: resource_kind
  status :: resource_status
  triggers :: "trigger_kind list"
  sizing_target :: "int option"
  sizing_floor :: "int option"
  confidence :: ConfidenceNote
  detail_text :: detail

text \<open>The constructor with the defaults of the dataclass.\<close>

definition mk_assessment ::
  "resource_kind \<Rightarrow> resource_status \<Rightarrow> trigger_kind list \<Rightarrow> int option \<Rightarrow> int option
     \<Rightarrow> ConfidenceNote \<Rightarrow> detail \<Rightarrow> ResourceAssessment" where
  "mk_assessment k st tr tgt fl' c d =
     \<lparr>kind = k, status = st, triggers = tr, sizing_target = tgt, sizing_floor = fl',
      confidence = c, detail_text = d\<rparr>"

lemma mk_assessment_sel [simp]:
  "kind (mk_assessment k st tr tgt fl' c d) = k"
  "status (mk_assessment k st tr tgt fl' c d) = st"
  "triggers (mk_assessment k st tr tgt fl' c d) = tr"
  "sizing_target (mk_assessment k st tr tgt fl' c d) = tgt"
  "sizing_floor (mk_assessment k st tr tgt fl' c d) = fl'"
  "confidence (mk_assessment k st tr tgt fl' c d) = c"
  "detail_text (mk_assessment k st tr tgt fl' c d) = d"
  by (simp_all add: mk_assessment_def)

abbreviation windows :: string where "windows \<equiv> ''windows''"

abbreviation is_windows :: "ResourceStats \<Rightarrow> bool" where
  "is_windows s \<equiv> os_family s = Some windows"

section \<open>Saturation signals\<close>

definition disk_io_saturated :: "ResourceStats \<Rightarrow> bool option" where
  "disk_io_saturated s =
     (case disk_await_p95_ms s of
        Some a \<Rightarrow> Some (a > RS_DISKIO_AWAIT_MS)
      | None \<Rightarrow>
          if is_windows s
          then map_option (\<lambda>q. q \<ge> DISK_QUEUE_PER_DISK_SATURATION) (disk_queue_p95 s)
          else None)"

definition cpu_saturated :: "ResourceStats \<Rightarrow> bool option" where
  "cpu_saturated s =
     (case cpu_cores s of
        None \<Rightarrow> None
      | Some cores \<Rightarrow>
          if cores \<le> 0 then None
          else
            let rq_sat =
              (if is_windows s
               then map_option (\<lambda>rq. fdiv rq (of_pyint cores) \<ge> CPU_RUN_QUEUE_PER_CORE_SATURATION)
                      (cpu_run_queue_p95 s)
               else map_option (\<lambda>rq. fdiv rq (of_pyint cores) \<ge> PROCS_RUNNING_PER_CORE_SATURATION)
                      (procs_running_p95 s))
            in (case rq_sat of
                  None \<Rightarrow> None
                | Some False \<Rightarrow> Some False
                | Some True \<Rightarrow>
                    (case cpu_p95_pct s of
                       None \<Rightarrow> Some True
                     | Some u \<Rightarrow> Some (u \<ge> RS_CPU_UNDER_PCT))))"

definition cpu_saturation_index ::
  "pyfloat option \<Rightarrow> int option \<Rightarrow> string option \<Rightarrow> pyfloat option" where
  "cpu_saturation_index run_queue cores osf =
     (case run_queue of
        None \<Rightarrow> None
      | Some rq \<Rightarrow>
          (case cores of
             None \<Rightarrow> None
           | Some c \<Rightarrow>
               if c = 0 then None
               else
                 let threshold = (if osf = Some windows then CPU_RUN_QUEUE_PER_CORE_SATURATION
                                  else PROCS_RUNNING_PER_CORE_SATURATION)
                 in Some (fdiv (fdiv rq (of_pyint c)) threshold)))"

definition disk_io_saturation_index ::
  "pyfloat option \<Rightarrow> pyfloat option \<Rightarrow> string option \<Rightarrow> pyfloat option" where
  "disk_io_saturation_index await_ms disk_queue osf =
     (case await_ms of
        Some a \<Rightarrow> Some (fdiv a RS_DISKIO_AWAIT_MS)
      | None \<Rightarrow>
          if osf = Some windows
          then map_option (\<lambda>q. fdiv q DISK_QUEUE_PER_DISK_SATURATION) disk_queue
          else None)"

definition mem_pressure_active :: "pyfloat option \<Rightarrow> string option \<Rightarrow> bool" where
  "mem_pressure_active paging_major_rate osf =
     (case paging_major_rate of
        None \<Rightarrow> False
      | Some r \<Rightarrow> if osf = Some windows then r \<ge> WIN_PAGES_INPUT_SATURATION else r > 0)"

definition net_signal_active ::
  "pyfloat option \<Rightarrow> pyfloat option \<Rightarrow> pyfloat option \<Rightarrow> pyfloat option \<Rightarrow> bool" where
  "net_signal_active retrans drop_pct conntrack net_kbytes =
     (let low_traffic = is_some_and net_kbytes (\<lambda>n. n < RS_NET_MIN_TRAFFIC_KBPS) in
      if \<not> low_traffic \<and> is_some_and retrans (\<lambda>r. r > RS_NET_RETRANS_PCT) then True
      else if \<not> low_traffic \<and> is_some_and drop_pct (\<lambda>d. d > RS_NET_DROP_PCT) then True
      else is_some_and conntrack (\<lambda>c. c \<ge> RS_CONNTRACK_SATURATION_RATIO))"

definition mem_saturated :: "ResourceStats \<Rightarrow> bool option" where
  "mem_saturated s =
     (case mem_p95_pct s of
        None \<Rightarrow> None
      | Some u \<Rightarrow>
          if u < RS_MEM_UNDER_PCT then Some False
          else if is_windows s
          then map_option (\<lambda>r. r \<ge> WIN_PAGES_INPUT_SATURATION) (mem_pages_input_rate_p95 s)
          else Some (mem_swap_paging s))"

definition util_trend_rising_from_slopes :: "pyfloat option \<Rightarrow> pyfloat option \<Rightarrow> bool option" where
  "util_trend_rising_from_slopes cpu_slope mem_slope =
     (let slopes = List.map_filter (\<lambda>x. x) [cpu_slope, mem_slope] in
      if slopes = [] then None
      else Some (list_ex (\<lambda>s. s \<ge> RS_UTIL_TREND_RISING_PCT_PER_DAY) slopes))"

section \<open>Confidence\<close>

definition precision_low :: "ResourceStats \<Rightarrow> bool" where
  "precision_low s =
     (if is_some_and (history_hours s) (\<lambda>h. h < RS_CONFIDENCE_MIN_HOURS) then True
      else is_some_and (cpu_burst_ratio s) (\<lambda>b. b > RS_BURST_RATIO_MAX))"

definition base_confidence :: "ResourceStats \<Rightarrow> bool \<Rightarrow> bool \<Rightarrow> ConfidenceNote" where
  "base_confidence s bias util_bearing =
     \<lparr>low_precision = precision_low s, coverage_gap = False, biased = bias,
      nonstationary = (if util_bearing then truthy (util_trend_rising s) else False)\<rparr>"

section \<open>CPU\<close>

definition run_queue_value :: "ResourceStats \<Rightarrow> pyfloat option" where
  "run_queue_value s = (if is_windows s then cpu_run_queue_p95 s else procs_running_p95 s)"

definition RS_CPU_SAT_LINE :: "string \<rightharpoonup> pyfloat" where
  "RS_CPU_SAT_LINE = [windows \<mapsto> CPU_RUN_QUEUE_PER_CORE_SATURATION]"

definition RS_CPU_SAT_LINE_DEFAULT :: pyfloat where
  "RS_CPU_SAT_LINE_DEFAULT = PROCS_RUNNING_PER_CORE_SATURATION"

definition cpu_target_cores ::
  "pyfloat \<Rightarrow> int \<Rightarrow> pyfloat option \<Rightarrow> string option \<Rightarrow> bool \<Rightarrow> int" where
  "cpu_target_cores util_pct cores run_queue osf saturated =
     (let util_cores =
            (if util_pct > 0
             then \<lceil>fdiv (fmul util_pct (of_pyint cores)) RS_CPU_SIZING_TARGET_PCT\<rceil> else 1);
          sat_cores =
            (if saturated \<and> is_some_and run_queue (\<lambda>rq. rq > 0)
             then
               let sat_line = (case RS_CPU_SAT_LINE (str_or osf []) of
                                 Some l \<Rightarrow> l | None \<Rightarrow> RS_CPU_SAT_LINE_DEFAULT)
               in \<lceil>fdiv (the run_queue) (fmul sat_line RS_CPU_SAT_HEADROOM)\<rceil>
             else 0)
      in max 1 (max util_cores sat_cores))"

definition assess_cpu :: "ResourceStats \<Rightarrow> ResourceAssessment" where
  "assess_cpu s =
     (let util = cpu_p95_pct s;
          sat = cpu_saturated s;
          steal_biased = is_some_and (cpu_steal_p95_pct s) (\<lambda>x. x \<ge> RS_CPU_STEAL_BIAS_PCT);
          conf0 = base_confidence s steal_biased True;
          conf = (if sat = None \<or> util = None then conf0\<lparr>coverage_gap := True\<rparr> else conf0)
      in if util = None \<and> \<not> truthy sat
         then mk_assessment Cpu Unmeasured [] None None conf D_util_unmeasured
         else
           (case cpu_cores s of
              None \<Rightarrow> mk_assessment Cpu Unmeasured [] None None conf D_cores_unknown
            | Some cores \<Rightarrow>
                if cores \<le> 0
                then mk_assessment Cpu Unmeasured [] None None conf D_cores_unknown
                else
                  let target = cpu_target_cores (case util of None \<Rightarrow> 0 | Some u \<Rightarrow> u) cores
                                 (run_queue_value s) (os_family s) (truthy sat);
                      tr = (if is_some_and util (\<lambda>u. u \<ge> RS_CPU_UNDER_PCT)
                            then [T_cpu_util] else []) @
                           (if truthy sat then [T_cpu_saturation] else []);
                      percore_busy =
                        is_some_and (cpu_percore_p95_max s) (\<lambda>x. x \<ge> RS_CPU_PERCORE_HOLD_PCT)
                  in if tr \<noteq> [] \<or> target > cores
                     then
                       let up = (if target > cores then Some target else None);
                           floor' = (if up \<noteq> None then None else Some (cores + 1))
                       in mk_assessment Cpu Under tr up floor' conf
                            (case up of Some t \<Rightarrow> D_target_cores t
                                      | None \<Rightarrow> D_saturation_led (cores + 1))
                     else if target < cores \<and> \<not> percore_busy
                     then mk_assessment Cpu Over [] (Some target) None conf (D_target_cores target)
                     else mk_assessment Cpu Optimal [] (Some cores) None conf D_empty))"

section \<open>Memory\<close>

definition mem_target_mb :: "pyfloat \<Rightarrow> int option \<Rightarrow> int option" where
  "mem_target_mb near_peak_pct total_mb =
     (case total_mb of
        None \<Rightarrow> None
      | Some t \<Rightarrow>
          if near_peak_pct \<le> 0 then None
          else Some \<lceil>fdiv (fmul (of_pyint t) near_peak_pct) RS_MEM_SIZING_TARGET_PCT\<rceil>)"

text \<open>The literal expression \<open>total * (1 + RS_MEM_SATURATION_HEADROOM_PCT / 100)\<close>.\<close>

definition mem_headroom_mb :: "int \<Rightarrow> int" where
  "mem_headroom_mb total_mb =
     \<lceil>fmul (of_pyint total_mb) (fadd 1 (idiv RS_MEM_SATURATION_HEADROOM_PCT 100))\<rceil>"

definition mem_paging_active :: "ResourceStats \<Rightarrow> bool" where
  "mem_paging_active s = truthy (mem_saturated s)"

definition mem_under_target :: "int option \<Rightarrow> ResourceStats \<Rightarrow> int option" where
  "mem_under_target util_target s =
     (let total = mem_total_mb s;
          candidates = List.map_filter (\<lambda>x. x) [util_target] @
            (case total of
               None \<Rightarrow> []
             | Some t \<Rightarrow> if mem_paging_active s \<or> oom_occurred s then [mem_headroom_mb t] else [])
      in case candidates of
           [] \<Rightarrow> None
         | c # cs \<Rightarrow>
             let up = fold max cs c
             in case total of
                  None \<Rightarrow> Some up
                | Some t \<Rightarrow> if up > t then Some up else None)"

definition assess_memory :: "ResourceStats \<Rightarrow> ResourceAssessment" where
  "assess_memory s =
     (let conf = base_confidence s False True in
      case mem_p95_pct s of
        None \<Rightarrow>
          if oom_occurred s
          then mk_assessment Memory Under [T_mem_oom] None
                 (map_option mem_headroom_mb (mem_total_mb s)) conf D_util_unmeasured_oom
          else mk_assessment Memory Unmeasured [] None None (conf\<lparr>coverage_gap := True\<rparr>)
                 D_util_unmeasured
      | Some util \<Rightarrow>
          let tr = (if util \<ge> RS_MEM_UNDER_PCT then [T_mem_util] else []) @
                   (if mem_paging_active s then [T_mem_saturation] else []) @
                   (if oom_occurred s then [T_mem_oom] else []);
              near_peak = (case mem_near_peak_pct s of Some p \<Rightarrow> p | None \<Rightarrow> util);
              target_mb = mem_target_mb near_peak (mem_total_mb s)
          in if tr \<noteq> []
             then
               let up = mem_under_target target_mb s;
                   floor' = (if up = None then map_option mem_headroom_mb (mem_total_mb s) else None)
               in mk_assessment Memory Under tr up floor' conf
                    (case up of Some u \<Rightarrow> if u \<noteq> 0 then D_target_mb u else D_raise_current_spec
                              | None \<Rightarrow> D_raise_current_spec)
             else
               (case (mem_total_mb s, target_mb) of
                  (Some t, Some g) \<Rightarrow>
                    if t \<noteq> 0 \<and> g \<noteq> 0 \<and> g < t
                    then mk_assessment Memory Over [] (Some g) None conf (D_target_mb g)
                    else mk_assessment Memory Optimal [] (mem_total_mb s) None conf D_empty
                | _ \<Rightarrow> mk_assessment Memory Optimal [] (mem_total_mb s) None conf D_empty))"

section \<open>Disk capacity\<close>

definition min_runway :: "pyfloat option list \<Rightarrow> pyfloat option" where
  "min_runway runways =
     (case List.map_filter (\<lambda>x. x) runways of
        [] \<Rightarrow> None
      | v # vs \<Rightarrow> Some (fold min vs v))"

definition assess_disk_capacity :: "ResourceStats \<Rightarrow> ResourceAssessment" where
  "assess_disk_capacity s =
     (let conf = base_confidence s False False;
          runway = min_runway [disk_capacity_runway_days s, disk_inode_runway_days s];
          used = disk_used_pct s;
          inode_used = disk_inode_used_pct s;
          tgt = (case disk_capacity_target_gb s of
                   None \<Rightarrow> None
                 | Some t \<Rightarrow> if t \<ge> 1 then Some \<lceil>t\<rceil> else None);
          byte_static = (disk_capacity_runway_days s = None \<and>
                         is_some_and used (\<lambda>u. u \<ge> RS_DISK_STATIC_GUARD_PCT));
          inode_static = (disk_inode_runway_days s = None \<and>
                          is_some_and inode_used (\<lambda>u. u \<ge> RS_DISK_STATIC_GUARD_PCT))
      in if is_some_and runway (\<lambda>r. r < RS_DISK_RUNWAY_DAYS)
         then
           let rtgt = (if runway = disk_capacity_runway_days s then tgt else None)
           in mk_assessment Disk_capacity Filling [T_disk_capacity] rtgt None conf
                (D_runway (rhe (the runway)) rtgt)
         else if byte_static
         then mk_assessment Disk_capacity Filling [T_disk_capacity] tgt None conf
                (D_used_static (rhe (the used)) tgt)
         else if inode_static
         then mk_assessment Disk_capacity Filling [T_disk_capacity] None None conf
                (D_inode_static (rhe (the inode_used)))
         else if runway = None \<and> used = None \<and> inode_used = None
         then mk_assessment Disk_capacity Unmeasured [] None None (conf\<lparr>coverage_gap := True\<rparr>)
                D_capacity_unmeasured
         else
           (case runway of
              Some r \<Rightarrow> mk_assessment Disk_capacity Capacity_ok [] None None conf (D_days_left (rhe r))
            | None \<Rightarrow>
                mk_assessment Disk_capacity Capacity_ok [] None None conf
                  (case used of Some u \<Rightarrow> D_used (rhe u) | None \<Rightarrow> D_room)))"

datatype mount_action = Increase | Keep
datatype estimate_quality = Exact | Floor_estimate

record MountSizing =
  current_gib :: int
  recommended_gib :: int
  mount_action :: mount_action
  estimate :: estimate_quality
  inode_note :: bool

definition mk_mount_sizing ::
  "int \<Rightarrow> int \<Rightarrow> mount_action \<Rightarrow> estimate_quality \<Rightarrow> bool \<Rightarrow> MountSizing" where
  "mk_mount_sizing c r a e n =
     \<lparr>current_gib = c, recommended_gib = r, mount_action = a, estimate = e, inode_note = n\<rparr>"

lemma mk_mount_sizing_sel [simp]:
  "current_gib (mk_mount_sizing c r a e n) = c"
  "recommended_gib (mk_mount_sizing c r a e n) = r"
  "mount_action (mk_mount_sizing c r a e n) = a"
  "estimate (mk_mount_sizing c r a e n) = e"
  "inode_note (mk_mount_sizing c r a e n) = n"
  by (simp_all add: mk_mount_sizing_def)

definition axis_filling :: "pyfloat option \<Rightarrow> pyfloat option \<Rightarrow> bool" where
  "axis_filling runway used_pct =
     (is_some_and runway (\<lambda>r. r < RS_DISK_RUNWAY_DAYS) \<or>
      runway = None \<and> is_some_and used_pct (\<lambda>u. u \<ge> RS_DISK_STATIC_GUARD_PCT))"

definition assess_mount_capacity ::
  "int option \<Rightarrow> pyfloat option \<Rightarrow> pyfloat option \<Rightarrow> pyfloat option \<Rightarrow> pyfloat option \<Rightarrow> pyfloat option
     \<Rightarrow> MountSizing option" where
  "assess_mount_capacity total_bytes target_bytes byte_runway used_pct inode_runway inode_used =
     (case total_bytes of
        None \<Rightarrow> None
      | Some tb \<Rightarrow>
          if tb = 0 then None
          else
            let cur = \<lceil>idiv tb GIB\<rceil>;
                byte_filling = axis_filling byte_runway used_pct;
                inode_filling = axis_filling inode_runway inode_used
            in (case (byte_filling, target_bytes) of
                  (True, Some t) \<Rightarrow>
                    let rec_gib = max cur \<lceil>fdiv t (of_pyint GIB)\<rceil>
                    in Some (mk_mount_sizing cur rec_gib
                               (if rec_gib > cur then Increase else Keep) Exact False)
                | (True, None) \<Rightarrow>
                    let floor_gib =
                      max cur \<lceil>fdiv (of_pyint cur) (idiv RS_DISK_HEADROOM_TARGET_PCT 100)\<rceil>
                    in Some (mk_mount_sizing cur floor_gib Increase Floor_estimate False)
                | (False, _) \<Rightarrow>
                    Some (mk_mount_sizing cur cur Keep Exact inode_filling)))"

section \<open>Disk I/O and network\<close>

definition assess_disk_io :: "ResourceStats \<Rightarrow> ResourceAssessment" where
  "assess_disk_io s =
     (let conf = base_confidence s True False in
      case disk_io_saturated s of
        None \<Rightarrow>
          if disk_iops_baseline s \<noteq> None
          then mk_assessment Disk_io Io_ok [] None None conf D_device_low_activity
          else mk_assessment Disk_io Unmeasured [] None None (conf\<lparr>coverage_gap := True\<rparr>)
                 D_latency_unmeasured
      | Some sat \<Rightarrow>
          let d = (case disk_await_p95_ms s of
                     Some a \<Rightarrow> D_await_ms (rhe a)
                   | None \<Rightarrow> D_queue_tenths (rhe (the (disk_queue_p95 s) * 10)))
          in if sat then mk_assessment Disk_io Io_bound [T_disk_io] None None conf d
             else mk_assessment Disk_io Io_ok [] None None conf d)"

definition network_triggers :: "ResourceStats \<Rightarrow> trigger_kind list" where
  "network_triggers s =
     (let low_traffic = is_some_and (net_avg_kbytes_per_s s) (\<lambda>n. n < RS_NET_MIN_TRAFFIC_KBPS) in
      (if \<not> low_traffic \<and> is_some_and (net_retrans_pct s) (\<lambda>r. r > RS_NET_RETRANS_PCT)
       then [T_net_retrans] else []) @
      (if \<not> low_traffic \<and> is_some_and (net_drop_pct s) (\<lambda>d. d > RS_NET_DROP_PCT)
       then [T_net_drop] else []) @
      (if is_some_and (conntrack_ratio s) (\<lambda>c. c \<ge> RS_CONNTRACK_SATURATION_RATIO)
       then [T_net_conntrack] else []))"

definition assess_network :: "ResourceStats \<Rightarrow> ResourceAssessment" where
  "assess_network s =
     (let conf = base_confidence s False False;
          retrans = net_retrans_pct s;
          dropped = net_drop_pct s;
          conntrack = conntrack_ratio s;
          tr = network_triggers s
      in if tr \<noteq> []
         then
           let parts =
             (case retrans of Some r \<Rightarrow> [(T_net_retrans, rhe (r * 10))] | None \<Rightarrow> []) @
             (case dropped of Some d \<Rightarrow> [(T_net_drop, rhe (d * 100))] | None \<Rightarrow> []) @
             (case conntrack of
                Some c \<Rightarrow> if T_net_conntrack \<in> set tr
                          then [(T_net_conntrack, rhe (fmul c 100))] else []
              | None \<Rightarrow> [])
           in mk_assessment Network Congested tr None None conf (D_net_parts parts)
         else if retrans = None \<and> dropped = None \<and> conntrack = None
         then mk_assessment Network Unmeasured [] None None (conf\<lparr>coverage_gap := True\<rparr>)
                D_quality_unmeasured
         else mk_assessment Network Quality_ok [] None None conf D_empty)"

end
