(* ===== verification/LiveDashboard.thy ===== *)
theory LiveDashboard
  imports DeviceFilters BootTime Recommendation
begin

text \<open>
  The live dashboard of one server: \<open>web/services/mappers/metrics_calculator.py\<close> up to the snapshot
  signals, on the raw records of \<open>db/dtos/outbound.py\<close>, into the view records of
  \<open>web/view_models/metric.py\<close>.  Rates come from two readings of a cumulative counter.
\<close>

section \<open>Raw readings\<close>

record MetricPairRaw =
  mp_collected_at :: datetime
  mp_cpu_user_s :: "pyfloat option"
  mp_cpu_nice_s :: "pyfloat option"
  mp_cpu_system_s :: "pyfloat option"
  mp_cpu_idle_s :: "pyfloat option"
  mp_cpu_iowait_s :: "pyfloat option"
  mp_cpu_irq_s :: "pyfloat option"
  mp_cpu_softirq_s :: "pyfloat option"
  mp_cpu_steal_s :: "pyfloat option"
  mp_mem_limit_bytes :: "int option"
  mp_mem_free_bytes :: "int option"
  mp_mem_available_bytes :: "int option"
  mp_mem_buffered_bytes :: "int option"
  mp_mem_cached_bytes :: "int option"
  mp_mem_used_bytes :: "int option"
  mp_cpu_run_queue :: "pyfloat option"
  mp_cpu_logical_count :: "int option"
  mp_cpu_blocked :: "pyfloat option"
  mp_boot_time :: "datetime option"
  mp_agent_started_at :: "datetime option"

record CpuCoreRaw =
  cr_core_id :: int
  cr_collected_at :: datetime
  cr_cpu_user_s :: "pyfloat option"
  cr_cpu_nice_s :: "pyfloat option"
  cr_cpu_system_s :: "pyfloat option"
  cr_cpu_idle_s :: "pyfloat option"
  cr_cpu_iowait_s :: "pyfloat option"
  cr_cpu_irq_s :: "pyfloat option"
  cr_cpu_softirq_s :: "pyfloat option"
  cr_cpu_steal_s :: "pyfloat option"

record DiskIoRaw =
  dr_device_id :: string
  dr_collected_at :: datetime
  dr_io_read_bytes :: "int option"
  dr_io_write_bytes :: "int option"
  dr_ops_read :: "int option"
  dr_ops_write :: "int option"
  dr_op_read_time_s :: "pyfloat option"
  dr_op_write_time_s :: "pyfloat option"
  dr_io_time_s :: "pyfloat option"
  dr_pending_ops :: "pyfloat option"
  dr_device_name :: "string option"
  dr_boot_time :: "datetime option"
  dr_agent_started_at :: "datetime option"

record NetIoRaw =
  nr_iface_id :: string
  nr_collected_at :: datetime
  nr_rx_bytes :: "int option"
  nr_tx_bytes :: "int option"
  nr_rx_packets :: "int option"
  nr_tx_packets :: "int option"
  nr_rx_errors :: "int option"
  nr_tx_errors :: "int option"
  nr_rx_dropped :: "int option"
  nr_tx_dropped :: "int option"
  nr_link_speed_bps :: "int option"
  nr_iface_name :: "string option"
  nr_boot_time :: "datetime option"
  nr_agent_started_at :: "datetime option"

record MountUsageRaw =
  mu_mountpoint :: string
  mu_used_bytes :: "int option"
  mu_free_bytes :: "int option"
  mu_inodes_used :: "int option"
  mu_inodes_free :: "int option"
  mu_device_id :: "string option"
  mu_fstype :: "string option"
  mu_collected_at :: "datetime option"

record DashboardRaw =
  db_metrics :: "MetricPairRaw list"
  db_disk_io :: "DiskIoRaw list"
  db_net_io :: "NetIoRaw list"
  db_filesystems :: "MountUsageRaw list"
  db_os_family :: "string option"
  db_kernel_version :: "string option"
  db_block_devices :: "json list option"
  db_net_interfaces :: "json list option"
  db_cpu_cores :: "CpuCoreRaw list"

section \<open>View records\<close>

record CpuSnapshot =
  cs_usage_pct :: "pyfloat option"
  cs_user_pct :: "pyfloat option"
  cs_system_pct :: "pyfloat option"
  cs_iowait_pct :: "pyfloat option"
  cs_steal_pct :: "pyfloat option"
  cs_nice_pct :: "pyfloat option"

record CpuCoreSnapshot =
  cc_core_id :: int
  cc_usage_pct :: "pyfloat option"
  cc_hot :: bool

record MemSnapshot =
  ms_total_bytes :: "int option"
  ms_used_bytes :: "int option"
  ms_available_bytes :: "int option"
  ms_cached_bytes :: "int option"
  ms_buffered_bytes :: "int option"
  ms_usage_pct :: "pyfloat option"
  ms_cached_pct :: "pyfloat option"
  ms_buffers_pct :: "pyfloat option"
  ms_free_pct :: "pyfloat option"

record DiskIoSnapshot =
  ds_device :: string
  ds_read_iops :: "pyfloat option"
  ds_write_iops :: "pyfloat option"
  ds_read_kbps :: "pyfloat option"
  ds_write_kbps :: "pyfloat option"

record NetIoSnapshot =
  ns_interface :: string
  ns_rx_kbps :: "pyfloat option"
  ns_tx_kbps :: "pyfloat option"
  ns_rx_pps :: "pyfloat option"
  ns_tx_pps :: "pyfloat option"

record MountDashSnapshot =
  md_mount :: string
  md_total_gb :: "pyfloat option"
  md_used_gb :: "pyfloat option"
  md_avail_gb :: "pyfloat option"
  md_usage_pct :: "pyfloat option"

text \<open>The signal lists of the dashboard are filled by the caller from the signal builders.\<close>

record MetricDashboard =
  da_collected_at :: "datetime option"
  da_cpu :: "CpuSnapshot option"
  da_memory :: "MemSnapshot option"
  da_disk_io :: "DiskIoSnapshot list"
  da_net_io :: "NetIoSnapshot list"
  da_mounts :: "MountDashSnapshot list"
  da_disk_usage_pct :: "pyfloat option"
  da_cpu_cores :: "CpuCoreSnapshot list"

section \<open>Helpers\<close>

text \<open>\<open>_group_by_dim\<close>: the groups in order of first occurrence, each with its rows in order.\<close>

definition group_by_dim :: "'a list \<Rightarrow> ('a \<Rightarrow> 'k) \<Rightarrow> ('k \<times> 'a list) list" where
  "group_by_dim rows key = map (\<lambda>k. (k, filter (\<lambda>r. key r = k) rows)) (keys_in_order (map key rows))"

definition delta_rate :: "int option \<Rightarrow> int option \<Rightarrow> pyfloat \<Rightarrow> pyfloat option" where
  "delta_rate cur prev dt =
     (case (cur, prev) of
        (Some c, Some p) \<Rightarrow> let d = c - p in if d < 0 then None else Some (py_round 1 (fdiv (of_pyint d) dt))
      | _ \<Rightarrow> None)"

definition delta_kbps :: "int option \<Rightarrow> int option \<Rightarrow> pyfloat \<Rightarrow> pyfloat option" where
  "delta_kbps cur prev dt =
     (case (cur, prev) of
        (Some c, Some p) \<Rightarrow> let d = c - p in if d < 0 then None else Some (py_round 1 (fdiv (idiv d 1024) dt))
      | _ \<Rightarrow> None)"

definition clip_to_remaining :: "pyfloat option \<Rightarrow> pyfloat \<Rightarrow> pyfloat option" where
  "clip_to_remaining raw_pct remaining_room = map_option (\<lambda>r. py_round 1 (min (max 0 remaining_room) r)) raw_pct"

text \<open>\<open>timedelta.total_seconds()\<close>.\<close>

definition total_seconds :: "int \<Rightarrow> pyfloat" where
  "total_seconds us = idiv us 1000000"

section \<open>CPU\<close>

definition sum_known :: "pyfloat option list \<Rightarrow> pyfloat" where
  "sum_known vals = py_sum (List.map_filter (\<lambda>v. v) vals)"

definition cpu_total :: "MetricPairRaw \<Rightarrow> pyfloat" where
  "cpu_total r = sum_known [mp_cpu_user_s r, mp_cpu_nice_s r, mp_cpu_system_s r, mp_cpu_idle_s r,
     mp_cpu_iowait_s r, mp_cpu_irq_s r, mp_cpu_softirq_s r, mp_cpu_steal_s r]"

definition share_pct :: "pyfloat \<Rightarrow> pyfloat option \<Rightarrow> pyfloat option \<Rightarrow> pyfloat option" where
  "share_pct delta_total c p =
     (case (c, p) of
        (Some x, Some y) \<Rightarrow> Some (py_round 1 (max 0 (fmul (fdiv (fsub x y) delta_total) 100)))
      | _ \<Rightarrow> None)"

definition empty_cpu :: CpuSnapshot where
  "empty_cpu = \<lparr>cs_usage_pct = None, cs_user_pct = None, cs_system_pct = None, cs_iowait_pct = None,
     cs_steal_pct = None, cs_nice_pct = None\<rparr>"

definition compute_cpu :: "MetricPairRaw option \<Rightarrow> MetricPairRaw option \<Rightarrow> CpuSnapshot option" where
  "compute_cpu cur prev =
     (case cur of
        None \<Rightarrow> None
      | Some c \<Rightarrow>
          (case prev of
             None \<Rightarrow> Some empty_cpu
           | Some p \<Rightarrow>
               if is_counter_reset (mp_boot_time c) (mp_boot_time p) then Some empty_cpu
               else
                 let delta_total = fsub (cpu_total c) (cpu_total p);
                     pct = share_pct delta_total;
                     idle_pct = pct (mp_cpu_idle_s c) (mp_cpu_idle_s p)
                 in if delta_total \<le> 0 then Some empty_cpu
                    else Some \<lparr>cs_usage_pct = map_option (\<lambda>i. py_round 1 (max 0 (fsub 100 i))) idle_pct,
                               cs_user_pct = pct (mp_cpu_user_s c) (mp_cpu_user_s p),
                               cs_system_pct = pct (mp_cpu_system_s c) (mp_cpu_system_s p),
                               cs_iowait_pct = pct (mp_cpu_iowait_s c) (mp_cpu_iowait_s p),
                               cs_steal_pct = pct (mp_cpu_steal_s c) (mp_cpu_steal_s p),
                               cs_nice_pct = pct (mp_cpu_nice_s c) (mp_cpu_nice_s p)\<rparr>))"

definition core_total :: "CpuCoreRaw \<Rightarrow> pyfloat" where
  "core_total r = sum_known [cr_cpu_user_s r, cr_cpu_nice_s r, cr_cpu_system_s r, cr_cpu_idle_s r,
     cr_cpu_iowait_s r, cr_cpu_irq_s r, cr_cpu_softirq_s r, cr_cpu_steal_s r]"

text \<open>One core: the two newest rows; \<open>sorted(reverse=True)\<close> keeps the order of equal times.\<close>

definition core_snapshot :: "int \<times> CpuCoreRaw list \<Rightarrow> CpuCoreSnapshot" where
  "core_snapshot = (\<lambda>(core_id, rows).
     let unknown = \<lparr>cc_core_id = core_id, cc_usage_pct = None, cc_hot = False\<rparr> in
     case sort_key (\<lambda>r. - cr_collected_at r) rows of
       cur # prev # _ \<Rightarrow>
         let delta_total = fsub (core_total cur) (core_total prev) in
         if delta_total \<le> 0 then unknown
         else (case (cr_cpu_idle_s cur, cr_cpu_idle_s prev) of
                 (Some cur_idle, Some prev_idle) \<Rightarrow>
                   let idle_pct = max 0 (fmul (fdiv (fsub cur_idle prev_idle) delta_total) 100);
                       usage = py_round 1 (max 0 (fsub 100 idle_pct))
                   in \<lparr>cc_core_id = core_id, cc_usage_pct = Some usage, cc_hot = (usage \<ge> RS_CPU_PERCORE_HOLD_PCT)\<rparr>
               | _ \<Rightarrow> unknown)
     | _ \<Rightarrow> unknown)"

definition compute_cpu_cores :: "CpuCoreRaw list \<Rightarrow> CpuCoreSnapshot list" where
  "compute_cpu_cores pairs = map core_snapshot (sort_key fst (group_by_dim pairs cr_core_id))"

section \<open>Memory\<close>

definition compute_mem :: "MetricPairRaw option \<Rightarrow> MemSnapshot option" where
  "compute_mem cur =
     (case cur of
        None \<Rightarrow> None
      | Some c \<Rightarrow>
          (case mp_mem_limit_bytes c of
             None \<Rightarrow> None
           | Some limit \<Rightarrow>
               let used = map_option (\<lambda>a. max 0 (limit - a)) (mp_mem_available_bytes c);
                   used_pct = usage_pct used (Some limit);
                   or_0 = (\<lambda>x. case x of None \<Rightarrow> 0 | Some v \<Rightarrow> v);
                   remaining_after_used = fsub 100 (or_0 used_pct);
                   cached_pct = clip_to_remaining (usage_pct (mp_mem_cached_bytes c) (Some limit)) remaining_after_used;
                   remaining_after_cached = fsub remaining_after_used (or_0 cached_pct);
                   buffers_pct = clip_to_remaining (usage_pct (mp_mem_buffered_bytes c) (Some limit)) remaining_after_cached;
                   free_pct = py_round 1 (max 0 (fsub remaining_after_cached (or_0 buffers_pct)))
               in Some \<lparr>ms_total_bytes = Some limit, ms_used_bytes = used,
                        ms_available_bytes = mp_mem_available_bytes c, ms_cached_bytes = mp_mem_cached_bytes c,
                        ms_buffered_bytes = mp_mem_buffered_bytes c, ms_usage_pct = used_pct,
                        ms_cached_pct = cached_pct, ms_buffers_pct = buffers_pct, ms_free_pct = Some free_pct\<rparr>))"

section \<open>Disk and network activity\<close>

text \<open>\<open>(names or {}).get(id) or name or id\<close>.\<close>

definition display_name :: "(string \<rightharpoonup> string) option \<Rightarrow> string \<Rightarrow> string option \<Rightarrow> string" where
  "display_name names dev_id name =
     (case nonblank (case names of None \<Rightarrow> None | Some m \<Rightarrow> m dev_id) of
        Some s \<Rightarrow> s
      | None \<Rightarrow> (case nonblank name of Some s \<Rightarrow> s | None \<Rightarrow> dev_id))"

definition idle_disk :: "string \<Rightarrow> DiskIoSnapshot" where
  "idle_disk device = \<lparr>ds_device = device, ds_read_iops = None, ds_write_iops = None, ds_read_kbps = None, ds_write_kbps = None\<rparr>"

definition disk_io_snapshot :: "(string \<rightharpoonup> string) option \<Rightarrow> DiskIoRaw list \<Rightarrow> DiskIoSnapshot" where
  "disk_io_snapshot dev_names rows =
     (let display = display_name dev_names (dr_device_id (hd rows)) (dr_device_name (hd rows)) in
      case rows of
        cur # prev # _ \<Rightarrow>
          let dt = total_seconds (dr_collected_at cur - dr_collected_at prev) in
          if dt \<le> 0 then idle_disk display
          else if is_counter_reset (dr_boot_time cur) (dr_boot_time prev) then idle_disk display
          else \<lparr>ds_device = display,
                ds_read_iops = delta_rate (dr_ops_read cur) (dr_ops_read prev) dt,
                ds_write_iops = delta_rate (dr_ops_write cur) (dr_ops_write prev) dt,
                ds_read_kbps = delta_kbps (dr_io_read_bytes cur) (dr_io_read_bytes prev) dt,
                ds_write_kbps = delta_kbps (dr_io_write_bytes cur) (dr_io_write_bytes prev) dt\<rparr>
      | _ \<Rightarrow> idle_disk display)"

definition compute_disk_io :: "DiskIoRaw list \<Rightarrow> (string \<rightharpoonup> string) option \<Rightarrow> DiskIoSnapshot list" where
  "compute_disk_io pairs dev_names =
     (let pairs' = (case dev_names of None \<Rightarrow> pairs | Some m \<Rightarrow> filter (\<lambda>p. m (dr_device_id p) \<noteq> None) pairs)
      in map (\<lambda>(_, rows). disk_io_snapshot dev_names rows) (sort_key fst (group_by_dim pairs' dr_device_id)))"

definition idle_net :: "string \<Rightarrow> NetIoSnapshot" where
  "idle_net iface = \<lparr>ns_interface = iface, ns_rx_kbps = None, ns_tx_kbps = None, ns_rx_pps = None, ns_tx_pps = None\<rparr>"

definition net_io_snapshot :: "(string \<rightharpoonup> string) option \<Rightarrow> NetIoRaw list \<Rightarrow> NetIoSnapshot" where
  "net_io_snapshot iface_names rows =
     (let display = display_name iface_names (nr_iface_id (hd rows)) (nr_iface_name (hd rows)) in
      case rows of
        cur # prev # _ \<Rightarrow>
          let dt = total_seconds (nr_collected_at cur - nr_collected_at prev) in
          if dt \<le> 0 then idle_net display
          else if is_counter_reset (nr_boot_time cur) (nr_boot_time prev) then idle_net display
          else \<lparr>ns_interface = display,
                ns_rx_kbps = delta_kbps (nr_rx_bytes cur) (nr_rx_bytes prev) dt,
                ns_tx_kbps = delta_kbps (nr_tx_bytes cur) (nr_tx_bytes prev) dt,
                ns_rx_pps = delta_rate (nr_rx_packets cur) (nr_rx_packets prev) dt,
                ns_tx_pps = delta_rate (nr_tx_packets cur) (nr_tx_packets prev) dt\<rparr>
      | _ \<Rightarrow> idle_net display)"

definition compute_net_io :: "NetIoRaw list \<Rightarrow> (string \<rightharpoonup> string) option \<Rightarrow> NetIoSnapshot list" where
  "compute_net_io pairs iface_names =
     (let pairs' = (case iface_names of None \<Rightarrow> pairs | Some m \<Rightarrow> filter (\<lambda>p. m (nr_iface_id p) \<noteq> None) pairs)
      in map (\<lambda>(_, rows). net_io_snapshot iface_names rows) (sort_key fst (group_by_dim pairs' nr_iface_id)))"

section \<open>Mounts\<close>

definition mount_snapshot :: "MountUsageRaw \<Rightarrow> MountDashSnapshot" where
  "mount_snapshot m =
     (let total_n = (case (mu_used_bytes m, mu_free_bytes m) of (Some u, Some f) \<Rightarrow> Some (u + f) | _ \<Rightarrow> None)
      in \<lparr>md_mount = mu_mountpoint m, md_total_gb = bytes_to_gb total_n, md_used_gb = bytes_to_gb (mu_used_bytes m),
          md_avail_gb = bytes_to_gb (mu_free_bytes m), md_usage_pct = usage_pct (mu_used_bytes m) total_n\<rparr>)"

definition compute_mounts :: "MountUsageRaw list \<Rightarrow> MountDashSnapshot list" where
  "compute_mounts mounts =
     map mount_snapshot (filter (\<lambda>m. is_data_volume (mu_fstype m) (Some (mu_mountpoint m))) (sort_key mu_mountpoint mounts))"

text \<open>A total of \<open>0.0\<close> after rounding is falsy and leaves the mount out of both sums.\<close>

definition aggregate_disk_usage :: "MountDashSnapshot list \<Rightarrow> pyfloat option" where
  "aggregate_disk_usage mounts =
     (let sized = filter (\<lambda>m. is_some_and (md_total_gb m) (\<lambda>t. t \<noteq> 0)) mounts;
          total_gb = sum_known (map md_total_gb sized);
          used_gb = sum_known (map md_used_gb sized)
      in if total_gb > 0 then Some (py_round 1 (fmul (fdiv used_gb total_gb) 100)) else None)"

section \<open>The dashboard\<close>

definition build_dashboard :: "DashboardRaw \<Rightarrow> MetricDashboard" where
  "build_dashboard raw =
     (let cur = (case db_metrics raw of c # _ \<Rightarrow> Some c | _ \<Rightarrow> None);
          prev = (case db_metrics raw of _ # p # _ \<Rightarrow> Some p | _ \<Rightarrow> None);
          phys_disks = physical_dev_names (db_block_devices raw) (\<lambda>n. is_physical_disk (get_str ''type'' n));
          phys_ifaces = physical_dev_names (db_net_interfaces raw) (\<lambda>n. \<not> is_virtual_interface (get_str ''kind'' n));
          mounts = compute_mounts (db_filesystems raw)
      in \<lparr>da_collected_at = map_option mp_collected_at cur, da_cpu = compute_cpu cur prev, da_memory = compute_mem cur,
          da_disk_io = compute_disk_io (db_disk_io raw) phys_disks, da_net_io = compute_net_io (db_net_io raw) phys_ifaces,
          da_mounts = mounts, da_disk_usage_pct = aggregate_disk_usage mounts,
          da_cpu_cores = compute_cpu_cores (db_cpu_cores raw)\<rparr>)"

end
