(* ===== verification/SnapshotSignals.thy ===== *)
theory SnapshotSignals
  imports LiveDashboard
begin

text \<open>
  The saturation and error signals of the live dashboard: the signal builders of
  \<open>web/services/mappers/metrics_calculator.py\<close>.  Labels and hover texts are display text and left out;
  the reason of a missing signal and the kind of an error context are constructors.
\<close>

section \<open>Raw values and view records\<close>

record SaturationRaw =
  sr_run_queue :: "pyfloat option"
  sr_await_ms :: "pyfloat option"
  sr_pending_ops :: "pyfloat option"
  sr_disk_io_util_pct :: "pyfloat option"
  sr_paging_major_rate :: "pyfloat option"
  sr_retrans_pct :: "pyfloat option"
  sr_drop_pct :: "pyfloat option"
  sr_conntrack_ratio :: "pyfloat option"
  sr_psi_cpu :: "pyfloat option"
  sr_psi_mem :: "pyfloat option"
  sr_psi_io :: "pyfloat option"

record ErrorFleetRaw =
  ef_measured :: bool
  ef_net_measured :: bool
  ef_disk_err_measured :: bool
  ef_mce_count :: int
  ef_oom_count :: int
  ef_corrupted_bytes :: "int option"
  ef_net_error_count :: int
  ef_disk_error_count :: int
  ef_disk_error_kinds :: "string list"
  ef_last_error_at :: "datetime option"

datatype signal_state = Measured | No_data | Not_applicable

datatype na_reason = Windows_unsupported | Old_kernel

record SaturationSignal =
  ss_key :: string
  ss_state :: signal_state
  ss_value :: "pyfloat option"
  ss_threshold :: "pyfloat option"
  ss_unit :: "string option"
  ss_saturated :: "bool option"
  ss_na_reason :: "na_reason option"

datatype error_state = Clean | Occurred | Err_no_data | Err_not_applicable

datatype error_context = Error_kinds "string list" | Corrupted_bytes int

record ErrorSignal =
  es_key :: string
  es_state :: error_state
  es_count :: "int option"
  es_context :: "error_context option"
  es_last_at :: "datetime option"

section \<open>Saturation signals\<close>

definition PSI_STALL_DISPLAY_PCT :: pyfloat where "PSI_STALL_DISPLAY_PCT = 10"

definition bare_signal :: "string \<Rightarrow> signal_state \<Rightarrow> na_reason option \<Rightarrow> SaturationSignal" where
  "bare_signal key state reason =
     \<lparr>ss_key = key, ss_state = state, ss_value = None, ss_threshold = None, ss_unit = None, ss_saturated = None,
      ss_na_reason = reason\<rparr>"

text \<open>A signal whose optional value decides between measured and missing.\<close>

definition value_signal ::
  "string \<Rightarrow> pyfloat option \<Rightarrow> (pyfloat \<Rightarrow> pyfloat) \<Rightarrow> pyfloat \<Rightarrow> string option \<Rightarrow> bool option \<Rightarrow> SaturationSignal" where
  "value_signal key val shown threshold unit saturated =
     \<lparr>ss_key = key, ss_state = (if val = None then No_data else Measured), ss_value = map_option shown val,
      ss_threshold = Some threshold, ss_unit = unit, ss_saturated = saturated, ss_na_reason = None\<rparr>"

text \<open>\<open>re.match(r"(\d+)\.(\d+)", v)\<close> and the comparison with 4.20.\<close>

definition psi_supported :: "string option \<Rightarrow> bool option" where
  "psi_supported kernel_version =
     (case nonblank kernel_version of
        None \<Rightarrow> None
      | Some v \<Rightarrow>
          let major = takeWhile is_digit v in
          case dropWhile is_digit v of
            [] \<Rightarrow> None
          | c # rest \<Rightarrow>
              let minor = takeWhile is_digit rest in
              if major = [] \<or> c \<noteq> CHR ''.'' \<or> minor = [] then None
              else Some (4 < nat_of_str major \<or> nat_of_str major = 4 \<and> 20 \<le> nat_of_str minor))"

definition psi_signal :: "string \<Rightarrow> pyfloat option \<Rightarrow> bool \<Rightarrow> bool option \<Rightarrow> SaturationSignal" where
  "psi_signal key psi_val win supported =
     (if win then bare_signal key Not_applicable (Some Windows_unsupported)
      else if supported = Some False then bare_signal key Not_applicable (Some Old_kernel)
      else case psi_val of
             None \<Rightarrow> bare_signal key No_data None
           | Some p \<Rightarrow> value_signal key (Some p) (py_round 1) PSI_STALL_DISPLAY_PCT (Some ''%'')
                         (Some (p \<ge> PSI_STALL_DISPLAY_PCT)))"

definition ratio_signal :: "string \<Rightarrow> pyfloat option \<Rightarrow> pyfloat \<Rightarrow> SaturationSignal" where
  "ratio_signal key val threshold =
     value_signal key val (py_round 2) threshold (Some ''%'') (map_option (\<lambda>v. v \<ge> threshold) val)"

definition cpu_signals ::
  "bool \<Rightarrow> bool option \<Rightarrow> string option \<Rightarrow> pyfloat option \<Rightarrow> int option \<Rightarrow> pyfloat option \<Rightarrow> SaturationRaw
   \<Rightarrow> pyfloat option \<Rightarrow> SaturationSignal list" where
  "cpu_signals win psi_ok osf run_queue_total cores steal_pct sat blocked =
     (let rq_idx = cpu_saturation_index run_queue_total cores osf;
          rq_threshold = (if win then CPU_RUN_QUEUE_PER_CORE_SATURATION else PROCS_RUNNING_PER_CORE_SATURATION);
          rq_percore = (case (run_queue_total, cores) of
                          (Some rq, Some c) \<Rightarrow> if c = 0 then None else Some (fdiv rq (of_pyint c))
                        | _ \<Rightarrow> None)
      in [\<lparr>ss_key = ''cpu_run_queue'', ss_state = (if rq_idx = None then No_data else Measured),
           ss_value = map_option (py_round 2) rq_percore, ss_threshold = Some rq_threshold,
           ss_unit = Some ''per_core'', ss_saturated = map_option (\<lambda>i. i \<ge> 1) rq_idx, ss_na_reason = None\<rparr>,
          (if win then bare_signal ''cpu_steal'' Not_applicable (Some Windows_unsupported)
           else value_signal ''cpu_steal'' steal_pct (py_round 1) RS_CPU_STEAL_BIAS_PCT (Some ''%'')
                  (map_option (\<lambda>x. x \<ge> RS_CPU_STEAL_BIAS_PCT) steal_pct)),
          psi_signal ''cpu_psi'' (sr_psi_cpu sat) win psi_ok,
          (if win then bare_signal ''cpu_blocked'' Not_applicable (Some Windows_unsupported)
           else value_signal ''cpu_blocked'' blocked (py_round 1) PROCS_BLOCKED_DSTATE_SATURATION None
                  (map_option (\<lambda>b. b \<ge> PROCS_BLOCKED_DSTATE_SATURATION) blocked))])"

definition mem_signals :: "bool \<Rightarrow> bool option \<Rightarrow> string option \<Rightarrow> SaturationRaw \<Rightarrow> SaturationSignal list" where
  "mem_signals win psi_ok osf sat =
     (let paging = sr_paging_major_rate sat in
      [value_signal ''mem_paging'' paging (\<lambda>p. of_int (rhe p)) (if win then WIN_PAGES_INPUT_SATURATION else 0)
         (Some ''/s'') (if paging = None then None else Some (mem_pressure_active paging osf)),
       psi_signal ''mem_psi'' (sr_psi_mem sat) win psi_ok])"

definition disk_signals :: "bool \<Rightarrow> bool option \<Rightarrow> string option \<Rightarrow> SaturationRaw \<Rightarrow> SaturationSignal list" where
  "disk_signals win psi_ok osf sat =
     (let di_idx = disk_io_saturation_index (sr_await_ms sat) (sr_pending_ops sat) osf;
          saturated = map_option (\<lambda>i. i \<ge> 1) di_idx
      in [(if sr_await_ms sat \<noteq> None
           then value_signal ''disk_await'' (sr_await_ms sat) (py_round 1) RS_DISKIO_AWAIT_MS (Some ''ms'') saturated
           else if win \<and> sr_pending_ops sat \<noteq> None
           then value_signal ''disk_await'' (sr_pending_ops sat) (py_round 2) DISK_QUEUE_PER_DISK_SATURATION (Some ''ops'') saturated
           else bare_signal ''disk_await'' No_data None),
          psi_signal ''disk_psi'' (sr_psi_io sat) win psi_ok])"

definition net_signals :: "bool \<Rightarrow> SaturationRaw \<Rightarrow> SaturationSignal list" where
  "net_signals win sat =
     [ratio_signal ''net_retrans'' (sr_retrans_pct sat) RS_NET_RETRANS_PCT,
      ratio_signal ''net_drop'' (sr_drop_pct sat) RS_NET_DROP_PCT,
      (if win then bare_signal ''net_conntrack'' Not_applicable (Some Windows_unsupported)
       else value_signal ''net_conntrack'' (sr_conntrack_ratio sat) (\<lambda>r. py_round 1 (fmul r 100))
              (fmul RS_CONNTRACK_SATURATION_RATIO 100) (Some ''%'')
              (map_option (\<lambda>r. r \<ge> RS_CONNTRACK_SATURATION_RATIO) (sr_conntrack_ratio sat)))]"

definition build_saturation_signals ::
  "string option \<Rightarrow> string option \<Rightarrow> pyfloat option \<Rightarrow> int option \<Rightarrow> pyfloat option \<Rightarrow> SaturationRaw \<Rightarrow> pyfloat option
   \<Rightarrow> (string \<times> SaturationSignal list) list" where
  "build_saturation_signals osf kernel_version run_queue_total cores steal_pct sat blocked =
     (let win = (osf = Some windows); psi_ok = psi_supported kernel_version in
      [(''cpu'', cpu_signals win psi_ok osf run_queue_total cores steal_pct sat blocked),
       (''mem'', mem_signals win psi_ok osf sat),
       (''disk'', disk_signals win psi_ok osf sat),
       (''net'', net_signals win sat)])"

section \<open>Error signals\<close>

definition error_counter ::
  "string \<Rightarrow> int \<Rightarrow> bool \<Rightarrow> datetime option \<Rightarrow> error_context option \<Rightarrow> ErrorSignal" where
  "error_counter key n measured last_at context =
     (if \<not> measured then \<lparr>es_key = key, es_state = Err_no_data, es_count = None, es_context = None, es_last_at = None\<rparr>
      else if n > 0 then \<lparr>es_key = key, es_state = Occurred, es_count = Some n, es_context = context, es_last_at = last_at\<rparr>
      else \<lparr>es_key = key, es_state = Clean, es_count = Some 0, es_context = None, es_last_at = None\<rparr>)"

definition corrupted_signal :: "int option \<Rightarrow> string option \<Rightarrow> ErrorSignal" where
  "corrupted_signal corrupted_bytes osf =
     (let sig = (\<lambda>st n ctx. \<lparr>es_key = ''mem_corrupted'', es_state = st, es_count = n, es_context = ctx, es_last_at = None\<rparr>) in
      if osf = Some windows then sig Err_not_applicable None None
      else case corrupted_bytes of
             None \<Rightarrow> sig Err_no_data None None
           | Some b \<Rightarrow> if b > 0 then sig Occurred None (Some (Corrupted_bytes b)) else sig Clean (Some 0) None)"

definition build_error_signals :: "ErrorFleetRaw \<Rightarrow> string option \<Rightarrow> ErrorSignal list" where
  "build_error_signals err osf =
     [error_counter ''cpu_mce'' (ef_mce_count err) (ef_measured err) None None,
      error_counter ''mem_oom'' (ef_oom_count err) (ef_measured err) None None,
      error_counter ''net_errors'' (ef_net_error_count err) (ef_net_measured err) None None,
      error_counter ''disk_errors'' (ef_disk_error_count err) (ef_disk_err_measured err) (ef_last_error_at err)
        (if ef_disk_error_kinds err = [] then None else Some (Error_kinds (ef_disk_error_kinds err))),
      corrupted_signal (ef_corrupted_bytes err) osf]"

end
