(* ===== verification/LiveDashboardProps.thy ===== *)
theory LiveDashboardProps
  imports SnapshotSignals
begin

text \<open>
  What the live dashboard promises: the segments of the memory bar fill it, no rate is computed across a
  known change of the boot time or from a counter that went back, activity rows are the physical devices, signals are well formed
  and their missing states have the right reason, and where the network signals differ from the verdict.
\<close>

section \<open>Percentages with one decimal\<close>

text \<open>The displayed tenths of a percentage; a missing one is drawn as nothing.\<close>

definition tenths :: "pyfloat option \<Rightarrow> int" where
  "tenths x = (case x of None \<Rightarrow> 0 | Some v \<Rightarrow> rhe (v * 10))"

lemma fl_small_error:
  assumes "\<bar>q\<bar> < 128" shows "\<bar>fl q - q\<bar> \<le> 1 / 10 ^ 12"
proof (cases "q = 0")
  case False
  then have "2 powi ilog2 \<bar>q\<bar> \<le> \<bar>q\<bar>" by (intro ilog2_bounds) simp
  also have "\<dots> < 2 powi 7" using assms by simp
  finally have "ilog2 \<bar>q\<bar> < 7" by (simp only: powi_less_2_iff)
  then have "ulp_exp q \<le> - 46" by (simp add: ulp_exp_def)
  then have "(2 :: rat) powi ulp_exp q \<le> 2 powi (- 46)" by (rule powi_mono_2)
  also have "\<dots> \<le> 1 / 10 ^ 12" by (simp add: power_int_def power_divide)
  finally show ?thesis using fl_error_ulp [of q] by linarith
qed simp

definition near :: "rat \<Rightarrow> int \<Rightarrow> rat \<Rightarrow> bool" where
  "near d n x = (of_int n - d \<le> x * 10 \<and> x * 10 \<le> of_int n + d)"

lemma tenth_near:
  assumes "0 \<le> k" "k \<le> 1000" shows "near (1 / 10 ^ 11) k (fl (of_int k / 10))"
proof -
  have k: "0 \<le> (of_int k :: rat)" "(of_int k :: rat) \<le> 1000" using assms by simp_all
  have "\<bar>fl (of_int k / 10) - of_int k / 10\<bar> \<le> (1 / 10 ^ 12 :: rat)"
    by (rule fl_small_error) (use k in simp)
  then have "fl (of_int k / 10) - of_int k / 10 \<le> 1 / 10 ^ 12" "of_int k / 10 - fl (of_int k / 10) \<le> (1 / 10 ^ 12 :: rat)"
    by (rule abs_le_D1, metis abs_le_D1 abs_minus_commute)
  then show ?thesis by (simp add: near_def)
qed

lemma near_rhe: "near d n x \<Longrightarrow> d < 1 / 2 \<Longrightarrow> rhe (x * 10) = n"
  unfolding near_def by (rule rhe_unique) (unfold abs_less_iff, linarith)

lemma tenths_fl: "0 \<le> k \<Longrightarrow> k \<le> 1000 \<Longrightarrow> tenths (Some (fl (of_int k / 10))) = k"
  unfolding tenths_def option.case by (rule near_rhe [OF tenth_near]) simp_all

lemma py_round_1: "py_round (Suc 0) x = fl (of_int (rhe (x * 10)) / 10)"
  by (simp add: py_round_def)

lemma rhe_le_near: "q < of_int n + 1 / 2 \<Longrightarrow> rhe q \<le> n"
proof -
  assume "q < of_int n + 1 / 2"
  then have "of_int (rhe q) < (of_int (n + 1) :: rat)" using rhe_error [of q] by linarith
  then show ?thesis by (simp only: of_int_less_iff)
qed

text \<open>One subtraction keeps a remainder near its tenths.\<close>

lemma near_sub:
  assumes "near d n x" "near e m y" "0 \<le> m" "m \<le> n" "n \<le> 1000" "d \<le> 1" "e \<le> 1"
  shows "near (d + e + 1 / 10 ^ 11) (n - m) (fsub x y)"
proof -
  have m: "(of_int m :: rat) \<le> of_int n" "(of_int n :: rat) \<le> 1000" "0 \<le> (of_int m :: rat)" using assms by simp_all
  have xy: "of_int n - d \<le> x * 10" "x * 10 \<le> of_int n + d" "of_int m - e \<le> y * 10" "y * 10 \<le> of_int m + e"
    using assms(1,2) by (simp_all add: near_def)
  have "\<bar>x - y\<bar> < 128" unfolding abs_less_iff using xy m assms(6,7) by linarith
  then have "\<bar>fsub x y - (x - y)\<bar> \<le> 1 / 10 ^ 12" unfolding fsub_def by (rule fl_small_error)
  then have "fsub x y - (x - y) \<le> 1 / 10 ^ 12" "(x - y) - fsub x y \<le> 1 / 10 ^ 12"
    by (rule abs_le_D1, metis abs_le_D1 abs_minus_commute)
  then show ?thesis unfolding near_def using xy by simp
qed

lemma clip_near:
  assumes "near d n x" "d < 1 / 2" "0 \<le> n" "0 \<le> raw"
  obtains m where "clip_to_remaining (Some raw) x = Some (fl (of_int m / 10))" "0 \<le> m" "m \<le> n"
proof -
  let ?v = "min (max 0 x) raw * 10"
  have "0 \<le> (of_int n :: rat)" using assms(3) by simp
  then have "max 0 x * 10 < of_int n + 1 / 2" using assms(1,2) by (simp add: max_def near_def)
  moreover have "?v \<le> max 0 x * 10" by simp
  ultimately have "?v < of_int n + 1 / 2" by linarith
  then have "rhe ?v \<le> n" by (rule rhe_le_near)
  moreover have "0 \<le> rhe ?v" using assms(4) by (intro int_le_rhe) (simp add: min_def max_def)
  ultimately show ?thesis by (intro that [of "rhe ?v"]) (simp_all add: clip_to_remaining_def py_round_1)
qed

text \<open>A clipped segment, present or not, is some number of tenths within the room.\<close>

abbreviation or_0 :: "pyfloat option \<Rightarrow> pyfloat" where
  "or_0 x \<equiv> (case x of None \<Rightarrow> 0 | Some v \<Rightarrow> v)"

lemma segment_near:
  assumes "near d n x" "d < 1 / 2" "0 \<le> n" "n \<le> 1000" "\<And>r. raw = Some r \<Longrightarrow> 0 \<le> r"
  obtains m where "or_0 (clip_to_remaining raw x) = fl (of_int m / 10)" "tenths (clip_to_remaining raw x) = m" "0 \<le> m" "m \<le> n"
proof (cases raw)
  case None
  then show ?thesis using that [of 0] assms(3) by (simp add: clip_to_remaining_def tenths_def)
next
  case (Some r)
  obtain m where m: "clip_to_remaining (Some r) x = Some (fl (of_int m / 10))" "0 \<le> m" "m \<le> n"
    using clip_near [OF assms(1-3) assms(5) [OF Some]] .
  have "m \<le> 1000" using m(3) assms(4) by linarith
  then show ?thesis using that [of m] m Some tenths_fl [of m] by simp
qed

lemma usage_pct_nonneg: "usage_pct u t = Some p \<Longrightarrow> 0 \<le> p"
proof -
  assume "usage_pct u t = Some p"
  then obtain x where "p = py_round 1 (max 0 x)" by (auto simp: usage_pct_def split: option.splits if_splits)
  then show ?thesis using py_round_ge_int [of 0 "max 0 x" 1] by simp
qed

lemma usage_pct_tenths:
  assumes "usage_pct (Some u) (Some t) = Some p" "u \<le> t" "0 \<le> t"
  obtains k where "p = fl (of_int k / 10)" "0 \<le> k" "k \<le> 1000"
proof -
  have t: "0 < t" using assms(1,3) by (cases "t = 0") (auto simp: usage_pct_def)
  let ?v = "max 0 (fmul (idiv u t) 100)"
  have p: "p = py_round 1 ?v" using assms(1) t by (simp add: usage_pct_def)
  have "idiv u t \<le> 1" unfolding idiv_def using fl_le_int [of 1 "of_int u / of_int t"] assms(2) t by simp
  then have "fmul (idiv u t) 100 \<le> 100" unfolding fmul_def using fl_le_int [of 100 "idiv u t * 100"] by simp
  then have "rhe (?v * 10) \<le> 1000" by (intro rhe_le_int) (simp add: max_def)
  moreover have "0 \<le> rhe (?v * 10)" by (intro int_le_rhe) simp
  ultimately show ?thesis by (intro that [of "rhe (?v * 10)"]) (simp_all add: p py_round_1)
qed

lemma used_tenths:
  assumes "0 \<le> limit" "\<And>a. available = Some a \<Longrightarrow> 0 \<le> a"
  obtains k where "or_0 (usage_pct (map_option (\<lambda>a. max 0 (limit - a)) available) (Some limit)) = fl (of_int k / 10)"
    "tenths (usage_pct (map_option (\<lambda>a. max 0 (limit - a)) available) (Some limit)) = k" "0 \<le> k" "k \<le> 1000"
proof (cases "usage_pct (map_option (\<lambda>a. max 0 (limit - a)) available) (Some limit)")
  case None
  then show ?thesis using that [of 0] by (simp add: tenths_def)
next
  case (Some p)
  then obtain a where a: "available = Some a" by (auto simp: usage_pct_def split: option.splits)
  have u: "usage_pct (Some (max 0 (limit - a))) (Some limit) = Some p" using Some a by simp
  have "max 0 (limit - a) \<le> limit" using assms(1) assms(2) [OF a] by simp
  from usage_pct_tenths [OF u this assms(1)] obtain k where "p = fl (of_int k / 10)" "0 \<le> k" "k \<le> 1000" .
  then show ?thesis using that [of k] Some tenths_fl [of k] by simp
qed

lemma near_max_tenths:
  assumes "near d n x" "d < 1 / 2" "0 \<le> n" "n \<le> 1000"
  shows "tenths (Some (py_round 1 (max 0 x))) = n"
proof -
  have "0 \<le> (of_int n :: rat)" using assms(3) by simp
  then have "near d n (max 0 x)" using assms(1) by (simp add: near_def max_def)
  then have "rhe (max 0 x * 10) = n" using assms(2) by (rule near_rhe)
  then show ?thesis using tenths_fl [OF assms(3,4)] by (simp add: py_round_1)
qed

lemma segment_usage:
  assumes "near d n x" "d < 1 / 2" "0 \<le> n" "n \<le> 1000"
  obtains m where "or_0 (clip_to_remaining (usage_pct u t) x) = fl (of_int m / 10)"
    "tenths (clip_to_remaining (usage_pct u t) x) = m" "0 \<le> m" "m \<le> n"
  using segment_near [OF assms usage_pct_nonneg] .

section \<open>The memory bar\<close>

text \<open>
  The segments of the memory bar (used, cached, buffers, free) fill it exactly: in
  the displayed tenths of a percent they add up to 100.0, whatever the binary rounding of the single steps.
\<close>

theorem memory_bar_fills:
  assumes "compute_mem (Some c) = Some m" "mp_mem_limit_bytes c = Some limit" "0 \<le> limit"
    "\<And>a. mp_mem_available_bytes c = Some a \<Longrightarrow> 0 \<le> a"
  shows "tenths (ms_usage_pct m) + tenths (ms_cached_pct m) + tenths (ms_buffers_pct m) + tenths (ms_free_pct m) = 1000
    \<and> (\<forall>x \<in> {ms_usage_pct m, ms_cached_pct m, ms_buffers_pct m, ms_free_pct m}. 0 \<le> tenths x)"
proof -
  define used where "used = usage_pct (map_option (\<lambda>a. max 0 (limit - a)) (mp_mem_available_bytes c)) (Some limit)"
  obtain k where k: "or_0 used = fl (of_int k / 10)" "tenths used = k" "0 \<le> k" "k \<le> 1000"
    unfolding used_def using used_tenths [OF assms(3,4)] .
  define r1 where "r1 = fsub 100 (or_0 used)"
  have "near 0 1000 100" by (simp add: near_def)
  from near_sub [OF this tenth_near [OF k(3,4)] k(3,4)]
  have r1: "near (1 / 10 ^ 10) (1000 - k) r1" unfolding r1_def k(1) by (simp add: near_def)
  have side1: "(1 / 10 ^ 10 :: rat) < 1 / 2" "0 \<le> 1000 - k" "1000 - k \<le> 1000" using k by simp_all
  define cached where "cached = clip_to_remaining (usage_pct (mp_mem_cached_bytes c) (Some limit)) r1"
  obtain j where j: "or_0 cached = fl (of_int j / 10)" "tenths cached = j" "0 \<le> j" "j \<le> 1000 - k"
    unfolding cached_def using segment_usage [OF r1 side1] .
  have j': "j \<le> 1000" using j k by linarith
  define r2 where "r2 = fsub r1 (or_0 cached)"
  from near_sub [OF r1 tenth_near [OF j(3) j'] j(3,4)]
  have r2: "near (1 / 10 ^ 9) (1000 - k - j) r2" unfolding r2_def j(1) using k(3) by (simp add: near_def)
  have side2: "(1 / 10 ^ 9 :: rat) < 1 / 2" "0 \<le> 1000 - k - j" "1000 - k - j \<le> 1000" using k j by simp_all
  define buffers where "buffers = clip_to_remaining (usage_pct (mp_mem_buffered_bytes c) (Some limit)) r2"
  obtain b where b: "or_0 buffers = fl (of_int b / 10)" "tenths buffers = b" "0 \<le> b" "b \<le> 1000 - k - j"
    unfolding buffers_def using segment_usage [OF r2 side2] .
  have b': "b \<le> 1000" using b j k by linarith
  define r3 where "r3 = fsub r2 (or_0 buffers)"
  from near_sub [OF r2 tenth_near [OF b(3) b'] b(3,4)]
  have r3: "near (1 / 10 ^ 8) (1000 - k - j - b) r3" unfolding r3_def b(1) using k(3) j(3) by (simp add: near_def)
  have free: "tenths (Some (py_round 1 (max 0 r3))) = 1000 - k - j - b"
    using near_max_tenths [OF r3] b(3,4) k j by simp
  have m: "ms_usage_pct m = used" "ms_cached_pct m = cached" "ms_buffers_pct m = buffers"
    "ms_free_pct m = Some (py_round 1 (max 0 r3))"
    using assms(1,2) by (auto simp: compute_mem_def Let_def used_def cached_def buffers_def r1_def r2_def r3_def)
  show ?thesis unfolding m using free k(2,3) j(2,3) b(2-4) by simp
qed

abbreviation sample_memory :: "int option \<Rightarrow> int option \<Rightarrow> MetricPairRaw" where
  "sample_memory available cached \<equiv>
     \<lparr>mp_collected_at = 0, mp_cpu_user_s = None, mp_cpu_nice_s = None, mp_cpu_system_s = None, mp_cpu_idle_s = None,
      mp_cpu_iowait_s = None, mp_cpu_irq_s = None, mp_cpu_softirq_s = None, mp_cpu_steal_s = None,
      mp_mem_limit_bytes = Some 3000, mp_mem_free_bytes = None, mp_mem_available_bytes = available,
      mp_mem_buffered_bytes = None, mp_mem_cached_bytes = cached, mp_mem_used_bytes = None, mp_cpu_run_queue = None,
      mp_cpu_logical_count = None, mp_cpu_blocked = None, mp_boot_time = None, mp_agent_started_at = None\<rparr>"

theorem memory_bar_fills_witness:
  "\<exists>m. compute_mem (Some (sample_memory (Some 2000) (Some 1700))) = Some m
     \<and> tenths (ms_usage_pct m) + tenths (ms_cached_pct m) + tenths (ms_buffers_pct m) + tenths (ms_free_pct m) = 1000"
proof -
  let ?c = "sample_memory (Some 2000) (Some 1700)"
  have "compute_mem (Some ?c) \<noteq> None" by (simp add: compute_mem_def Let_def)
  then obtain m where m: "compute_mem (Some ?c) = Some m" by (rule not_None_eq [THEN iffD1, THEN exE])
  have "mp_mem_limit_bytes ?c = Some 3000" "0 \<le> (3000 :: int)" "\<And>a. mp_mem_available_bytes ?c = Some a \<Longrightarrow> 0 \<le> a" by simp_all
  from memory_bar_fills [OF m this] m show ?thesis by blast
qed

section \<open>Rates\<close>

lemma delta_rate_Some:
  "delta_rate cur prev dt = Some r \<longleftrightarrow>
     (\<exists>c p. cur = Some c \<and> prev = Some p \<and> p \<le> c \<and> r = py_round 1 (fdiv (of_pyint (c - p)) dt))"
  by (auto simp: delta_rate_def Let_def split: option.splits)

lemma delta_kbps_Some:
  "delta_kbps cur prev dt = Some r \<longleftrightarrow>
     (\<exists>c p. cur = Some c \<and> prev = Some p \<and> p \<le> c \<and> r = py_round 1 (fdiv (idiv (c - p) 1024) dt))"
  by (auto simp: delta_kbps_def Let_def split: option.splits)

lemma rate_nonneg: "0 \<le> q \<Longrightarrow> 0 \<le> dt \<Longrightarrow> 0 \<le> py_round 1 (fdiv q dt)"
  using py_round_ge_int [of 0 "fdiv q dt" 1] fl_nonneg [of "q / dt"] by (simp add: fdiv_def)

lemma delta_rate_nonneg: "delta_rate cur prev dt = Some r \<Longrightarrow> 0 \<le> dt \<Longrightarrow> 0 \<le> r"
  using rate_nonneg fl_nonneg by (auto simp: delta_rate_Some of_pyint_def)

lemma delta_kbps_nonneg: "delta_kbps cur prev dt = Some r \<Longrightarrow> 0 \<le> dt \<Longrightarrow> 0 \<le> r"
  using rate_nonneg fl_nonneg by (auto simp: delta_kbps_Some idiv_def)

lemma total_seconds_pos: "0 < total_seconds us \<Longrightarrow> 0 < us"
proof (rule ccontr)
  assume a: "0 < total_seconds us" "\<not> 0 < us"
  then have "total_seconds us \<le> 0" unfolding total_seconds_def idiv_def using fl_mono [of "of_int us / of_int 1000000" 0] by simp
  with a show False by simp
qed

text \<open>
  Claim C30: a disk rate is shown only from two readings in order of time, between which no change
  of the boot time is known, of a counter that did not go back, and it is never negative.  A boot time that
  is unknown on either side is no known change; the repository leaves it empty on every disk row, so in
  production only the counter tells a reboot, and a rate across a reboot after which the counter has already
  passed its old value is shown.
\<close>

theorem rates_sound:
  assumes "disk_io_snapshot names (cur # prev # rest) = s"
    "(rate, counter) \<in> {(ds_read_iops s, dr_ops_read), (ds_write_iops s, dr_ops_write),
       (ds_read_kbps s, dr_io_read_bytes), (ds_write_kbps s, dr_io_write_bytes)}"
    "rate = Some r"
  shows "dr_collected_at prev < dr_collected_at cur \<and> \<not> is_counter_reset (dr_boot_time cur) (dr_boot_time prev)
    \<and> (\<exists>c p. counter cur = Some c \<and> counter prev = Some p \<and> p \<le> c) \<and> 0 \<le> r"
proof -
  let ?dt = "total_seconds (dr_collected_at cur - dr_collected_at prev)"
  have live: "0 < ?dt \<and> \<not> is_counter_reset (dr_boot_time cur) (dr_boot_time prev)"
  proof (rule ccontr)
    assume "\<not> (0 < ?dt \<and> \<not> is_counter_reset (dr_boot_time cur) (dr_boot_time prev))"
    then have "s = idle_disk (display_name names (dr_device_id cur) (dr_device_name cur))"
      using assms(1) by (simp add: disk_io_snapshot_def Let_def split: if_splits)
    with assms(2,3) show False by (simp add: idle_disk_def) 
  qed
  have s: "ds_read_iops s = delta_rate (dr_ops_read cur) (dr_ops_read prev) ?dt"
    "ds_write_iops s = delta_rate (dr_ops_write cur) (dr_ops_write prev) ?dt"
    "ds_read_kbps s = delta_kbps (dr_io_read_bytes cur) (dr_io_read_bytes prev) ?dt"
    "ds_write_kbps s = delta_kbps (dr_io_write_bytes cur) (dr_io_write_bytes prev) ?dt"
    unfolding assms(1) [symmetric] using live by (simp_all add: disk_io_snapshot_def Let_def)
  have "rate = delta_rate (counter cur) (counter prev) ?dt \<or> rate = delta_kbps (counter cur) (counter prev) ?dt"
    using assms(2) unfolding s by (elim insertE emptyE) simp_all
  then have "delta_rate (counter cur) (counter prev) ?dt = Some r \<or> delta_kbps (counter cur) (counter prev) ?dt = Some r"
    using assms(3) by auto
  then have "(\<exists>c p. counter cur = Some c \<and> counter prev = Some p \<and> p \<le> c) \<and> 0 \<le> r"
  proof
    assume d: "delta_rate (counter cur) (counter prev) ?dt = Some r"
    show ?thesis using delta_rate_nonneg [OF d] live d [unfolded delta_rate_Some] by auto
  next
    assume d: "delta_kbps (counter cur) (counter prev) ?dt = Some r"
    show ?thesis using delta_kbps_nonneg [OF d] live d [unfolded delta_kbps_Some] by auto
  qed
  then show ?thesis using live total_seconds_pos [of "dr_collected_at cur - dr_collected_at prev"] by simp
qed

abbreviation sample_disk :: "datetime \<Rightarrow> int \<Rightarrow> DiskIoRaw" where
  "sample_disk t n \<equiv>
     \<lparr>dr_device_id = ''serial:A'', dr_collected_at = t, dr_io_read_bytes = Some (2048 * n), dr_io_write_bytes = None,
      dr_ops_read = Some n, dr_ops_write = Some n, dr_op_read_time_s = None, dr_op_write_time_s = None,
      dr_io_time_s = None, dr_pending_ops = None, dr_device_name = None, dr_boot_time = Some 0, dr_agent_started_at = None\<rparr>"

theorem rates_sound_witness:
  "ds_read_kbps (disk_io_snapshot None [sample_disk 60000000 40, sample_disk 0 10]) = Some 1 \<and> (0 :: pyfloat) \<le> 1"
proof -
  have dt: "total_seconds (60000000 - 0) = 60" by (simp add: total_seconds_def idiv_def)
  define s where "s = disk_io_snapshot None [sample_disk 60000000 40, sample_disk 0 10]"
  have k: "ds_read_kbps s = Some 1"
    using dt by (simp add: s_def disk_io_snapshot_def delta_kbps_def Let_def is_counter_reset_def
        BOOT_TIME_JITTER_TOLERANCE_def idiv_def fdiv_def py_round_def rhe_def)
  have "(ds_read_kbps s, dr_io_read_bytes) \<in> {(ds_read_iops s, dr_ops_read), (ds_write_iops s, dr_ops_write),
       (ds_read_kbps s, dr_io_read_bytes), (ds_write_kbps s, dr_io_write_bytes)}" by (rule insertI2, rule insertI2, rule insertI1)
  from rates_sound [OF s_def [symmetric] this k] k show ?thesis by (simp add: s_def)
qed

section \<open>Groups\<close>

lemma insort_key_pair: "insort_key fst (k, f k) (map (\<lambda>k. (k, f k)) ks) = map (\<lambda>k. (k, f k)) (insort k ks)"
  by (induction ks) simp_all

lemma sort_group_by_dim:
  fixes key :: "'a \<Rightarrow> 'k :: linorder"
  shows "sort_key fst (group_by_dim rows key) =
    map (\<lambda>k. (k, filter (\<lambda>r. key r = k) rows)) (sort (keys_in_order (map key rows)))"
proof -
  let ?g = "\<lambda>k. (k, filter (\<lambda>r. key r = k) rows)"
  have "sort_key fst (map ?g ks) = map ?g (sort ks)" for ks
    by (induction ks) (simp_all add: insort_key_pair [where f = "\<lambda>k. filter (\<lambda>r. key r = k) rows"])
  then show ?thesis by (simp add: group_by_dim_def)
qed

lemma filter_kept_group:
  assumes "P k" shows "filter (\<lambda>r. key r = k) (filter (\<lambda>r. P (key r)) rows) = filter (\<lambda>r. key r = k) rows"
  by (simp add: filter_filter, rule filter_cong) (use assms in auto)

text \<open>The kept keys of a list of rows, in order; what both activity cards are built over.\<close>

lemma activity_groups:
  fixes key :: "'a \<Rightarrow> 'k :: linorder"
  obtains ids where "sorted ids" "distinct ids" "set ids = {k \<in> key ` set rows. P k}"
    "sort_key fst (group_by_dim (filter (\<lambda>r. P (key r)) rows) key) = map (\<lambda>k. (k, filter (\<lambda>r. key r = k) rows)) ids"
proof -
  let ?ids = "sort (keys_in_order (map key (filter (\<lambda>r. P (key r)) rows)))"
  have "set ?ids = {k \<in> key ` set rows. P k}" by auto
  moreover have "map (\<lambda>k. (k, filter (\<lambda>r. key r = k) (filter (\<lambda>r. P (key r)) rows))) ?ids = map (\<lambda>k. (k, filter (\<lambda>r. key r = k) rows)) ?ids"
    by (rule map_cong [OF refl]) (use filter_kept_group [of P] in \<open>auto simp del: filter_filter\<close>)
  ultimately show ?thesis by (intro that [of ?ids]) (simp_all add: sort_group_by_dim)
qed

text \<open>
  The disk card of the dashboard has one row per device, in the order of the
  device keys: with an inventory exactly the devices with readings that a physical disk node registers, and
  every device with readings when there is none; each row is computed from all the readings of its device.
\<close>

theorem activity_rows_exact:
  "\<exists>ids. sorted ids \<and> distinct ids
     \<and> set ids = {d \<in> dr_device_id ` set (db_disk_io raw).
          case db_block_devices raw of
            Some (n # ns) \<Rightarrow> \<exists>node \<in> set (n # ns). get_str ''type'' node = Some ''disk'' \<and> d \<in> dev_keys node
          | _ \<Rightarrow> True}
     \<and> da_disk_io (build_dashboard raw) =
         map (\<lambda>d. disk_io_snapshot (physical_dev_names (db_block_devices raw) (\<lambda>n. is_physical_disk (get_str ''type'' n)))
                    (filter (\<lambda>r. dr_device_id r = d) (db_disk_io raw))) ids"
proof -
  define names where "names = physical_dev_names (db_block_devices raw) (\<lambda>n. is_physical_disk (get_str ''type'' n))"
  define keep where "keep = (\<lambda>d. case names of None \<Rightarrow> True | Some m \<Rightarrow> m d \<noteq> None)"
  obtain ids where ids: "sorted ids" "distinct ids" "set ids = {k \<in> dr_device_id ` set (db_disk_io raw). keep k}"
    "sort_key fst (group_by_dim (filter (\<lambda>r. keep (dr_device_id r)) (db_disk_io raw)) dr_device_id) =
       map (\<lambda>k. (k, filter (\<lambda>r. dr_device_id r = k) (db_disk_io raw))) ids"
    by (rule activity_groups)
  have keep: "keep d = (case db_block_devices raw of
        Some (n # ns) \<Rightarrow> \<exists>node \<in> set (n # ns). get_str ''type'' node = Some ''disk'' \<and> d \<in> dev_keys node
      | _ \<Rightarrow> True)" for d
  proof (cases names)
    case None
    then show ?thesis
      by (auto simp: keep_def names_def physical_dev_names_def split: option.splits list.splits if_splits)
  next
    case (Some m)
    then obtain n ns where nodes: "db_block_devices raw = Some (n # ns)"
      by (auto simp: names_def physical_dev_names_def neq_Nil_conv split: option.splits if_splits)
    have "dom m = (\<Union>x \<in> set (filter (\<lambda>n. is_physical_disk (get_str ''type'' n)) (n # ns)). dev_keys x)"
      using physical_keys_exact [OF Some [unfolded names_def]] unfolding nodes option.sel .
    then have "d \<in> dom m \<longleftrightarrow> (\<exists>node \<in> set (n # ns). get_str ''type'' node = Some ''disk'' \<and> d \<in> dev_keys node)"
      unfolding is_physical_disk_def by (simp only: UN_iff set_filter mem_Collect_eq Bex_def conj_assoc)
    then show ?thesis unfolding nodes keep_def Some option.case list.case by (simp only: domIff)
  qed
  have "(case names of None \<Rightarrow> db_disk_io raw | Some m \<Rightarrow> filter (\<lambda>p. m (dr_device_id p) \<noteq> None) (db_disk_io raw))
      = filter (\<lambda>r. keep (dr_device_id r)) (db_disk_io raw)"
    by (cases names) (simp_all add: keep_def)
  then have "da_disk_io (build_dashboard raw) =
      map (\<lambda>d. disk_io_snapshot names (filter (\<lambda>r. dr_device_id r = d) (db_disk_io raw))) ids"
    by (simp add: build_dashboard_def Let_def compute_disk_io_def ids(4) names_def [symmetric] comp_def)
  then show ?thesis using ids(1-3) unfolding keep names_def by blast
qed

section \<open>CPU usage\<close>

text \<open>
  The CPU card shows no share across a reboot or without progress of the counters,
  and a shown usage is a percentage, whatever the counters did.
\<close>

theorem cpu_usage_clamped:
  assumes "compute_cpu (Some c) (Some p) = Some s"
  shows "(is_counter_reset (mp_boot_time c) (mp_boot_time p) \<or> fsub (cpu_total c) (cpu_total p) \<le> 0 \<longrightarrow> s = empty_cpu)
    \<and> (\<forall>u. cs_usage_pct s = Some u \<longrightarrow> 0 \<le> u \<and> u \<le> 100)"
proof -
  let ?d = "fsub (cpu_total c) (cpu_total p)"
  have range: "0 \<le> u \<and> u \<le> 100" if u: "cs_usage_pct s = Some u" for u
  proof -
    obtain i where i: "share_pct ?d (mp_cpu_idle_s c) (mp_cpu_idle_s p) = Some i" "u = py_round 1 (max 0 (fsub 100 i))"
      using assms u by (auto simp: compute_cpu_def Let_def empty_cpu_def split: if_splits)
    then obtain x where "i = py_round 1 (max 0 x)" by (auto simp: share_pct_def split: option.splits)
    then have "0 \<le> i" using py_round_ge_int [of 0 "max 0 x" 1] by simp
    then have "max 0 (fsub 100 i) \<le> 100" unfolding fsub_def using fl_le_int [of 100 "100 - i"] by simp
    then show ?thesis unfolding i(2) using py_round_ge_int [of 0 "max 0 (fsub 100 i)" 1] py_round_le_int [of 100 "max 0 (fsub 100 i)" 1] by simp
  qed
  show ?thesis using range assms by (auto simp: compute_cpu_def Let_def split: if_splits)
qed

theorem cpu_usage_clamped_witness:
  "compute_cpu (Some ((sample_memory None None)\<lparr>mp_cpu_idle_s := Some 30, mp_cpu_user_s := Some 20\<rparr>))
      (Some ((sample_memory None None)\<lparr>mp_cpu_idle_s := Some 40\<rparr>)) \<noteq> None
   \<and> (\<forall>s. compute_cpu (Some ((sample_memory None None)\<lparr>mp_cpu_idle_s := Some 30, mp_cpu_user_s := Some 20\<rparr>))
        (Some ((sample_memory None None)\<lparr>mp_cpu_idle_s := Some 40\<rparr>)) = Some s \<longrightarrow>
      (\<forall>u. cs_usage_pct s = Some u \<longrightarrow> 0 \<le> u \<and> u \<le> 100))"
proof (intro conjI allI impI)
  fix s u
  assume run: "compute_cpu (Some ((sample_memory None None)\<lparr>mp_cpu_idle_s := Some 30, mp_cpu_user_s := Some 20\<rparr>))
      (Some ((sample_memory None None)\<lparr>mp_cpu_idle_s := Some 40\<rparr>)) = Some s" and u: "cs_usage_pct s = Some u"
  from cpu_usage_clamped [OF run] u show "0 \<le> u" "u \<le> 100" by blast+
qed (simp add: compute_cpu_def Let_def)

section \<open>Saturation signals\<close>

definition wf_signal :: "SaturationSignal \<Rightarrow> bool" where
  "wf_signal s = ((ss_state s = Measured) = (ss_value s \<noteq> None)
     \<and> (ss_state s = Measured) = (ss_saturated s \<noteq> None)
     \<and> (ss_state s = Measured \<longrightarrow> ss_threshold s \<noteq> None)
     \<and> (ss_state s = Not_applicable) = (ss_na_reason s \<noteq> None))"

definition all_signals :: "(string \<times> SaturationSignal list) list \<Rightarrow> SaturationSignal list" where
  "all_signals axes = concat (map snd axes)"

lemma wf_bare_signal: "wf_signal (bare_signal k st r) \<longleftrightarrow> st \<noteq> Measured \<and> (st = Not_applicable) = (r \<noteq> None)"
  by (auto simp: wf_signal_def bare_signal_def)

lemma wf_value_signal: "wf_signal (value_signal k v f t u sat) \<longleftrightarrow> (v = None) = (sat = None)"
  by (auto simp: wf_signal_def value_signal_def)

lemma wf_record: "wf_signal \<lparr>ss_key = k, ss_state = st, ss_value = v, ss_threshold = t, ss_unit = u, ss_saturated = sat, ss_na_reason = r\<rparr>
    \<longleftrightarrow> (st = Measured) = (v \<noteq> None) \<and> (st = Measured) = (sat \<noteq> None) \<and> (st = Measured \<longrightarrow> t \<noteq> None) \<and> (st = Not_applicable) = (r \<noteq> None)"
  by (simp add: wf_signal_def)

lemma wf_psi_signal: "wf_signal (psi_signal k v win supported)"
  by (simp add: psi_signal_def wf_bare_signal wf_value_signal split: option.split)

lemma index_known: "cpu_saturation_index rq cores osf = None \<longleftrightarrow> rq = None \<or> cores = None \<or> cores = Some 0"
  by (auto simp: cpu_saturation_index_def Let_def split: option.splits)

text \<open>
  Claim C31: the signal lists have the eleven known keys, each once and in a fixed order, and
  every signal is well formed: a value and a verdict exactly when measured, a line to compare with, and a
  reason exactly when the system cannot deliver it.
\<close>

theorem signals_wellformed:
  "list_all wf_signal (all_signals (build_saturation_signals osf kv rq cores steal sat blocked))
   \<and> map ss_key (all_signals (build_saturation_signals osf kv rq cores steal sat blocked)) =
      [''cpu_run_queue'', ''cpu_steal'', ''cpu_psi'', ''cpu_blocked'', ''mem_paging'', ''mem_psi'',
       ''disk_await'', ''disk_psi'', ''net_retrans'', ''net_drop'', ''net_conntrack'']"
proof -
  have "list_all wf_signal (cpu_signals win ok osf rq cores steal sat blocked)" for win ok
    by (cases rq; cases cores)
      (simp_all add: cpu_signals_def Let_def wf_psi_signal wf_bare_signal wf_value_signal wf_record index_known)
  moreover have "list_all wf_signal (mem_signals win ok osf sat)" for win ok
    by (simp add: mem_signals_def Let_def wf_psi_signal wf_value_signal)
  moreover have "list_all wf_signal (disk_signals (osf = Some windows) ok osf sat)" for ok
    by (auto simp: disk_signals_def Let_def wf_psi_signal wf_value_signal wf_bare_signal disk_io_saturation_index_def split: option.split)
  moreover have "list_all wf_signal (net_signals win sat)" for win
    by (simp add: net_signals_def ratio_signal_def wf_bare_signal wf_value_signal)
  moreover have "ss_key (psi_signal k v win ok) = k" for k v win ok
    by (simp add: psi_signal_def bare_signal_def value_signal_def split: option.split)
  ultimately show ?thesis
    by (simp add: all_signals_def build_saturation_signals_def Let_def)
      (simp add: cpu_signals_def mem_signals_def disk_signals_def net_signals_def Let_def ratio_signal_def value_signal_def bare_signal_def)
qed

text \<open>
  Which signals are marked as unavailable: on Windows the seven that its agents
  cannot deliver, on a Linux kernel known to be older than 4.20 the three stall signals, otherwise none;
  a kernel with an unreadable version counts as unknown, not as old.
\<close>

theorem not_applicable_exact:
  "map ss_key (filter (\<lambda>s. ss_state s = Not_applicable)
       (all_signals (build_saturation_signals osf kv rq cores steal sat blocked))) =
    (if osf = Some windows then [''cpu_steal'', ''cpu_psi'', ''cpu_blocked'', ''mem_psi'', ''disk_psi'', ''net_conntrack'']
     else if psi_supported kv = Some False then [''cpu_psi'', ''mem_psi'', ''disk_psi''] else [])"
proof -
  have v: "ss_state (value_signal k v f t u s) \<noteq> Not_applicable" for k v f t u s by (simp add: value_signal_def)
  have b: "ss_state (bare_signal k st r) = st" "ss_key (bare_signal k st r) = k" for k st r by (simp_all add: bare_signal_def)
  have p: "(ss_state (psi_signal k v win ok) = Not_applicable) = (win \<or> ok = Some False)" "ss_key (psi_signal k v win ok) = k" for k v win ok
    using v by (simp_all add: psi_signal_def b split: option.split) (simp add: value_signal_def)
  show ?thesis
    using v by (simp add: all_signals_def build_saturation_signals_def cpu_signals_def mem_signals_def disk_signals_def net_signals_def
        ratio_signal_def Let_def p b)
qed

text \<open>
  Kernel versions are compared by number, not by text: the stall signals are supported
  exactly from version 4.20 on, whatever follows the minor number.
\<close>

theorem kernel_gate:
  assumes "rest = [] \<or> \<not> is_digit (hd rest)"
  shows "psi_supported (Some (show_nat a @ ''.'' @ show_nat b @ rest)) = Some (4 < a \<or> a = 4 \<and> 20 \<le> b)"
proof -
  have digits: "\<And>c. c \<in> set (show_nat n) \<Longrightarrow> is_digit c" for n
    using isdigit_show_nat [of n] by (simp add: isdigit_def list_all_iff)
  have dot: "\<not> is_digit CHR ''.''" by (simp add: is_digit_def)
  let ?v = "show_nat a @ ''.'' @ show_nat b @ rest"
  have "nonblank (Some ?v) = Some ?v" by (cases "show_nat a") (simp_all add: nonblank_def)
  moreover have "takeWhile is_digit ?v = show_nat a" "dropWhile is_digit ?v = ''.'' @ show_nat b @ rest"
    using digits dot by (simp_all add: takeWhile_append2 dropWhile_append2)
  moreover have "takeWhile is_digit (show_nat b @ rest) = show_nat b"
    using digits assms by (cases rest) (simp_all add: takeWhile_append2)
  ultimately show ?thesis by (simp add: psi_supported_def Let_def)
qed

theorem kernel_gate_witness: "psi_supported (Some ''5.4.0-generic'') = Some True \<and> psi_supported (Some ''4.19'') = Some False"
proof -
  have n: "''5'' = show_nat 5" "''4'' = show_nat 4" "''19'' = show_nat 19" by code_simp+
  have "psi_supported (Some (show_nat 5 @ ''.'' @ show_nat 4 @ ''.0-generic'')) = Some ((4 :: nat) < 5 \<or> (5 :: nat) = 4 \<and> 20 \<le> (4 :: nat))"
    by (rule kernel_gate) (simp add: is_digit_def)
  moreover have "psi_supported (Some (show_nat 4 @ ''.'' @ show_nat 19 @ [])) = Some ((4 :: nat) < 4 \<or> (4 :: nat) = 4 \<and> 20 \<le> (19 :: nat))"
    by (rule kernel_gate) simp
  ultimately show ?thesis by (simp add: n [symmetric])
qed

text \<open>
  The retransmission and drop signals turn red at their line, while the
  network verdict needs a value above it; a conntrack table counts from its line on in both.  Without the
  traffic guard of the verdict, some network signal is red exactly when the verdict holds or one of the two
  ratios sits on its line.
\<close>

theorem network_signals_boundary:
  "(\<exists>s \<in> set (net_signals False sat). ss_saturated s = Some True) =
    (net_signal_active (sr_retrans_pct sat) (sr_drop_pct sat) (sr_conntrack_ratio sat) None
     \<or> sr_retrans_pct sat = Some RS_NET_RETRANS_PCT \<or> sr_drop_pct sat = Some RS_NET_DROP_PCT)"
proof -
  have r: "(ss_saturated (ratio_signal k v t) = Some True) = (is_some_and v (\<lambda>x. t < x) \<or> v = Some t)" for k v t
    by (cases v) (auto simp: ratio_signal_def value_signal_def)
  show ?thesis
    by (cases "sr_conntrack_ratio sat") (auto simp: net_signals_def r net_signal_active_def Let_def value_signal_def)
qed

section \<open>Error signals\<close>

text \<open>
  An error row is red exactly when its counter was measured and grew, with that
  count; memory damage is red exactly when the gauge is positive, and never on Windows.
\<close>

theorem error_signals_exact:
  "map (\<lambda>s. (es_key s, es_state s = Occurred, es_count s)) (build_error_signals err osf) =
     map (\<lambda>(k, measured, n). (k, measured \<and> 0 < n, if measured then Some (max 0 n) else None))
       [(''cpu_mce'', ef_measured err, ef_mce_count err), (''mem_oom'', ef_measured err, ef_oom_count err),
        (''net_errors'', ef_net_measured err, ef_net_error_count err),
        (''disk_errors'', ef_disk_err_measured err, ef_disk_error_count err)]
     @ [(''mem_corrupted'', osf \<noteq> Some windows \<and> is_some_and (ef_corrupted_bytes err) (\<lambda>b. 0 < b),
         if osf \<noteq> Some windows \<and> is_some_and (ef_corrupted_bytes err) (\<lambda>b. b \<le> 0) then Some 0 else None)]"
  by (cases "ef_corrupted_bytes err")
    (simp_all add: build_error_signals_def error_counter_def corrupted_signal_def Let_def max_def)

end
