(* ===== verification/CpuSizing.thy ===== *)
theory CpuSizing
  imports Recommendation
begin

text \<open>
  The CPU axis: when it is short, fits or has room, and that its targets are sound under binary64 rounding.
\<close>

section \<open>CPU: the verdict and its target\<close>

text \<open>Below the target utilisation and without saturation the target never exceeds the cores.\<close>

lemma cpu_target_cores_le:
  assumes "u \<le> 70" and "0 < c" and "70 * c \<le> 2 ^ 53"
  shows "cpu_target_cores u c rq osf False \<le> c"
proof -
  have "\<lceil>fl (fl (u * of_int c) / of_int 70)\<rceil> \<le> c"
    using assms by (intro fl64.ceil_scale_le) simp_all
  moreover have "of_pyint c = of_int c"
    using assms by (simp add: of_pyint_def fl_of_int)
  ultimately show ?thesis
    using assms(2) by (simp add: cpu_target_cores_def fdiv_def fmul_def sizing_simps Let_def)
qed

lemma cpu_target_cores_ge:
  assumes "70 \<le> u" and "0 < c" and "70 * c \<le> 2 ^ 53"
  shows "c \<le> cpu_target_cores u c rq osf sat"
proof -
  have "c \<le> \<lceil>fl (fl (u * of_int c) / of_int 70)\<rceil>"
    using assms by (intro fl64.ceil_scale_ge) simp_all
  moreover have "of_pyint c = of_int c"
    using assms by (simp add: of_pyint_def fl_of_int)
  ultimately show ?thesis
    using assms(1) by (simp add: cpu_target_cores_def fdiv_def fmul_def sizing_simps Let_def le_max_iff_disj)
qed

lemma cpu_target_cores_pos: "1 \<le> cpu_target_cores u c rq osf sat"
  by (simp add: cpu_target_cores_def Let_def)

lemma cpu_target_cores_adequate:
  assumes u: "2 powi (- 1000) \<le> u" and c: "0 < c" "c \<le> 2 ^ 46"
  shows "u * of_int c * (1 - 1 / 2 ^ 53) ^ 2 \<le> 70 * of_int (cpu_target_cores u c rq osf sat)"
proof -
  have pos: "0 < u" using u by (rule less_le_trans [OF powi_gt_zero])
  have cc: "of_pyint c = of_int c" using c by (simp add: of_pyint_def fl_of_int)
  have "2 powi (- 1000) * 1 \<le> u * of_int c" using u c pos by (intro mult_mono) simp_all
  then have "u * of_int c * (1 - 1 / 2 ^ 53) ^ 2 \<le> 70 * of_int \<lceil>fl (fl (u * of_int c) / 70)\<rceil>"
    by (intro fl64.sized_demand) simp_all
  also have "\<dots> \<le> 70 * of_int (cpu_target_cores u c rq osf sat)"
    using pos by (simp add: cpu_target_cores_def fdiv_def fmul_def sizing_simps Let_def cc)
  finally show ?thesis .
qed

text \<open>The dispatch of \<open>assess_cpu\<close> once the cores are known.\<close>

lemma assess_cpu_known:
  assumes "cpu_cores s = Some c" and "0 < c" and "cpu_p95_pct s \<noteq> None \<or> truthy (cpu_saturated s)"
  defines "t \<equiv> cpu_target_cores (case cpu_p95_pct s of None \<Rightarrow> 0 | Some u \<Rightarrow> u) c
                 (run_queue_value s) (os_family s) (truthy (cpu_saturated s))"
  shows "status (assess_cpu s) =
           (if is_some_and (cpu_p95_pct s) (\<lambda>u. 70 \<le> u) \<or> truthy (cpu_saturated s) \<or> c < t then Under
            else if t < c \<and> \<not> is_some_and (cpu_percore_p95_max s) (\<lambda>x. 85 \<le> x) then Over
            else Optimal)"
    and "sizing_target (assess_cpu s) =
           (if c < t then Some t
            else if is_some_and (cpu_p95_pct s) (\<lambda>u. 70 \<le> u) \<or> truthy (cpu_saturated s) then None
            else if t < c \<and> \<not> is_some_and (cpu_percore_p95_max s) (\<lambda>x. 85 \<le> x) then Some t
            else Some c)"
  using assms by (cases "truthy (cpu_saturated s)"; auto simp: assess_cpu_def Let_def sizing_simps)+

text \<open>
  On a host whose core count and CPU signal are known, the CPU is
  under-provisioned exactly when the p95 utilisation reaches 70 percent or the run queue is
  saturated.  The third disjunct of the code's test, \<open>target > cores\<close>, adds nothing: binary64
  rounding in the sizing formula cannot push the target past the cores below 70 percent.
\<close>

theorem assess_cpu_under_iff:
  assumes "cpu_cores s = Some c" and "0 < c" and "70 * c \<le> 2 ^ 53"
    and "cpu_p95_pct s \<noteq> None \<or> truthy (cpu_saturated s)"
  shows "status (assess_cpu s) = Under \<longleftrightarrow>
           is_some_and (cpu_p95_pct s) (\<lambda>u. u \<ge> RS_CPU_UNDER_PCT) \<or> truthy (cpu_saturated s)"
proof (cases "is_some_and (cpu_p95_pct s) (\<lambda>u. 70 \<le> u) \<or> truthy (cpu_saturated s)")
  case True
  then show ?thesis using assms by (auto simp: assess_cpu_known sizing_simps)
next
  case False
  have "cpu_target_cores (case cpu_p95_pct s of None \<Rightarrow> 0 | Some u \<Rightarrow> u) c (run_queue_value s)
          (os_family s) False \<le> c"
    using False assms(2,3) by (intro cpu_target_cores_le) (auto split: option.splits)
  with False show ?thesis using assms by (simp add: assess_cpu_known sizing_simps)
qed

definition stats0 :: ResourceStats where
  "stats0 =
     \<lparr>cpu_p95_pct = None, cpu_peak_pct = None, cpu_cores = None, mem_p95_pct = None,
      disk_used_pct = None, net_avg_kbytes_per_s = None, os_family = None,
      sample_sufficiency = None, disk_queue_p95 = None, cpu_run_queue_p95 = None,
      mem_pages_input_rate_p95 = None, cpu_percore_p95_max = None, procs_blocked_p95 = None,
      procs_running_p95 = None, mem_swap_paging = False, oom_occurred = False, mem_total_mb = None,
      mem_near_peak_pct = None, disk_await_p95_ms = None, disk_iops_baseline = None,
      disk_capacity_runway_days = None, disk_inode_runway_days = None, disk_inode_used_pct = None,
      disk_capacity_target_gb = None, net_retrans_pct = None, net_drop_pct = None,
      conntrack_ratio = None, history_hours = None, cpu_burst_ratio = None,
      util_trend_rising = None, cpu_steal_p95_pct = None\<rparr>"

lemma stats0_sel [simp]:
  "cpu_p95_pct stats0 = None" "cpu_peak_pct stats0 = None" "cpu_cores stats0 = None"
  "mem_p95_pct stats0 = None" "disk_used_pct stats0 = None" "net_avg_kbytes_per_s stats0 = None"
  "os_family stats0 = None" "sample_sufficiency stats0 = None" "disk_queue_p95 stats0 = None"
  "cpu_run_queue_p95 stats0 = None" "mem_pages_input_rate_p95 stats0 = None"
  "cpu_percore_p95_max stats0 = None" "procs_blocked_p95 stats0 = None"
  "procs_running_p95 stats0 = None" "mem_swap_paging stats0 = False" "oom_occurred stats0 = False"
  "mem_total_mb stats0 = None" "mem_near_peak_pct stats0 = None" "disk_await_p95_ms stats0 = None"
  "disk_iops_baseline stats0 = None" "disk_capacity_runway_days stats0 = None"
  "disk_inode_runway_days stats0 = None" "disk_inode_used_pct stats0 = None"
  "disk_capacity_target_gb stats0 = None" "net_retrans_pct stats0 = None"
  "net_drop_pct stats0 = None" "conntrack_ratio stats0 = None" "history_hours stats0 = None"
  "cpu_burst_ratio stats0 = None" "util_trend_rising stats0 = None" "cpu_steal_p95_pct stats0 = None"
  by (simp_all add: stats0_def)

theorem assess_cpu_under_iff_witness:
  "status (assess_cpu (stats0\<lparr>cpu_cores := Some 4, cpu_p95_pct := Some 69\<rparr>)) \<noteq> Under
   \<and> status (assess_cpu (stats0\<lparr>cpu_cores := Some 4, cpu_p95_pct := Some 70\<rparr>)) = Under"
  using assess_cpu_under_iff [of "stats0\<lparr>cpu_cores := Some 4, cpu_p95_pct := Some 69\<rparr>" 4]
    assess_cpu_under_iff [of "stats0\<lparr>cpu_cores := Some 4, cpu_p95_pct := Some 70\<rparr>" 4]
  by (simp add: cpu_saturated_def sizing_simps)

text \<open>
  An under-provisioned CPU always carries a number to grow to: either
  an exact target above the current cores and no floor, or no target and the floor \<open>cores + 1\<close>.
\<close>

theorem assess_cpu_under_sized:
  assumes "status (assess_cpu s) = Under"
  shows "\<exists>c. cpu_cores s = Some c \<and> 0 < c \<and>
           ((\<exists>t > c. sizing_target (assess_cpu s) = Some t \<and> sizing_floor (assess_cpu s) = None) \<or>
            (sizing_target (assess_cpu s) = None \<and> sizing_floor (assess_cpu s) = Some (c + 1)))"
  using assms
  by (cases "cpu_saturated s") (auto simp: assess_cpu_def Let_def split: option.splits if_splits)

theorem assess_cpu_under_sized_witness:
  "\<exists>t > 4. sizing_target (assess_cpu (stats0\<lparr>cpu_cores := Some 4, cpu_p95_pct := Some 140\<rparr>)) = Some t"
proof -
  let ?s = "stats0\<lparr>cpu_cores := Some 4, cpu_p95_pct := Some 140\<rparr>"
  have "cpu_target_cores 140 4 None None False = 8"
    by (simp add: cpu_target_cores_def sizing_simps pyfloat_ops)
  then have "status (assess_cpu ?s) = Under" "sizing_target (assess_cpu ?s) = Some 8"
    by (simp_all add: assess_cpu_known cpu_saturated_def run_queue_value_def)
  with assess_cpu_under_sized [of ?s] show ?thesis by auto
qed

text \<open>
  Claim C6: a downsizing verdict never gives too few cores.  When the CPU is judged
  over-provisioned with target \<open>t\<close>, then \<open>1 \<le> t\<close> and \<open>t\<close> is below the current cores, no core is
  held busy at 85 percent, and the demand \<open>util * cores\<close> moved onto \<open>t\<close> cores stays at 70 percent
  utilisation, up to the two roundings of the formula.
\<close>

theorem assess_cpu_over_safe:
  assumes over: "status (assess_cpu s) = Over"
    and u: "cpu_p95_pct s = Some u" and pos: "2 powi (- 1000) \<le> u"
    and c: "cpu_cores s = Some c" "0 < c" "c \<le> 2 ^ 46"
  shows "\<exists>t. sizing_target (assess_cpu s) = Some t \<and> 1 \<le> t \<and> t < c \<and>
           u * of_int c * (1 - 1 / 2 ^ 53) ^ 2 \<le> 70 * of_int t \<and>
           \<not> is_some_and (cpu_percore_p95_max s) (\<lambda>x. x \<ge> RS_CPU_PERCORE_HOLD_PCT)"
  using over c u cpu_target_cores_pos cpu_target_cores_adequate [OF pos c(2,3)]
  by (auto simp: assess_cpu_known sizing_simps split: if_splits)

theorem assess_cpu_over_safe_witness:
  "\<exists>t. sizing_target (assess_cpu (stats0\<lparr>cpu_cores := Some 8, cpu_p95_pct := Some 35\<rparr>)) = Some t \<and> t < 8"
proof -
  let ?s = "stats0\<lparr>cpu_cores := Some 8, cpu_p95_pct := Some 35\<rparr>"
  have "cpu_target_cores 35 8 None None False = 4"
    by (simp add: cpu_target_cores_def sizing_simps pyfloat_ops)
  then have "status (assess_cpu ?s) = Over"
    by (simp add: assess_cpu_known cpu_saturated_def run_queue_value_def)
  moreover have "(2 :: rat) powi (- 1000) \<le> 35"
    using powi_mono_2 [of "- 1000" 0] by simp
  ultimately show ?thesis using assess_cpu_over_safe [of ?s 35 8] by auto
qed

end
