(* ===== verification/MemorySizing.thy ===== *)
theory MemorySizing
  imports CpuSizing
begin

text \<open>
  The memory axis: its triggers, the target of a shortage and of a shrink, and their bounds under binary64 rounding.
\<close>

section \<open>Memory: the never-null contract and the downsizing target\<close>

text \<open>A factor of at least 5/4 lifts any count strictly, whatever the rounding does.\<close>

lemma ceil_grow:
  assumes "0 < n" and "n \<le> 2 ^ 50" and "of_int n * (5 / 4) \<le> q"
  shows "n < \<lceil>fl q\<rceil>"
proof -
  have "is_binary64 (of_int (4 * n + 1) * 2 powi (- 2))"
    using assms(1,2) by (intro is_binary64I) simp_all
  moreover have "of_int (4 * n + 1) * 2 powi (- 2) \<le> q"
    using assms(1,3) by (simp add: power_int_def field_simps)
  ultimately have "of_int (4 * n + 1) * 2 powi (- 2) \<le> fl q"
    by (rule binary64_le_fl)
  then have "of_int n < fl q" by (simp add: power_int_def field_simps)
  then show ?thesis by (simp add: less_ceiling_iff)
qed

lemma quarter_binary64: "\<bar>m\<bar> \<le> 2 ^ 53 \<Longrightarrow> is_binary64 (of_int m / 4)"
  using is_binary64I [of m "- 2"] by (simp add: power_int_def power_divide)

lemma headroom_factor: "5 / 4 \<le> fadd 1 (idiv RS_MEM_SATURATION_HEADROOM_PCT 100)"
proof -
  have "1 / 4 \<le> idiv RS_MEM_SATURATION_HEADROOM_PCT 100"
    unfolding idiv_def using quarter_binary64 [of 1]
    by (intro binary64_le_fl) (simp_all add: sizing_simps)
  then show ?thesis
    unfolding fadd_def using quarter_binary64 [of 5] by (intro binary64_le_fl) simp_all
qed

lemma mem_headroom_grows: "0 < t \<Longrightarrow> t \<le> 2 ^ 50 \<Longrightarrow> t < mem_headroom_mb t"
proof -
  assume t: "0 < t" "t \<le> 2 ^ 50"
  have "of_int t * (5 / 4) \<le> of_int t * fadd 1 (idiv RS_MEM_SATURATION_HEADROOM_PCT 100)"
    using t headroom_factor by (intro mult_left_mono) simp_all
  with t show ?thesis
    unfolding mem_headroom_mb_def fmul_def
    by (intro ceil_grow) (simp_all add: of_pyint_def fl_of_int)
qed

lemma mem_under_target_exceeds: "mem_under_target ut s = Some v \<Longrightarrow> mem_total_mb s = Some t \<Longrightarrow> t < v"
  by (auto simp: mem_under_target_def Let_def split: list.splits if_splits)

text \<open>
  An under-provisioned memory verdict on a host with known RAM always
  proposes more memory than it has: a target above the total, or, when no exact target exists, a
  floor above the total.  The 30 percent headroom is computed in binary64 and still lands above.
\<close>

theorem assess_memory_under_sized:
  assumes "status (assess_memory s) = Under"
    and "mem_total_mb s = Some t" and "0 < t" and "t \<le> 2 ^ 50"
  shows "\<exists>v > t. sizing_target (assess_memory s) = Some v \<or>
           sizing_target (assess_memory s) = None \<and> sizing_floor (assess_memory s) = Some v"
proof (cases "sizing_target (assess_memory s)")
  case None
  then have "sizing_floor (assess_memory s) = Some (mem_headroom_mb t)"
    using assms(1,2) by (auto simp: assess_memory_def Let_def split: option.splits if_splits)
  with None mem_headroom_grows [OF assms(3,4)] show ?thesis by auto
next
  case (Some v)
  then have "t < v"
    using assms(1,2) mem_under_target_exceeds
    by (auto simp: assess_memory_def Let_def split: option.splits if_splits)
  with Some show ?thesis by auto
qed

theorem assess_memory_under_sized_witness:
  "\<exists>v > 4096. sizing_floor (assess_memory (stats0\<lparr>mem_total_mb := Some 4096, oom_occurred := True\<rparr>))
     = Some v"
  using assess_memory_under_sized [of "stats0\<lparr>mem_total_mb := Some 4096, oom_occurred := True\<rparr>" 4096]
  by (auto simp: assess_memory_def)

text \<open>
  Claim C7: a memory downsizing verdict has no trigger, its target is positive
  and below the current total, and the near-peak demand fits the target at 80 percent, up to the
  two roundings of the formula.
\<close>

theorem assess_memory_over_safe:
  assumes over: "status (assess_memory s) = Over"
    and np: "p = (case mem_near_peak_pct s of Some x \<Rightarrow> x | None \<Rightarrow> the (mem_p95_pct s))"
    and pos: "2 powi (- 1000) \<le> p"
    and t: "mem_total_mb s = Some t" "0 < t" "t \<le> 2 ^ 53"
  shows "\<exists>g. sizing_target (assess_memory s) = Some g \<and> 0 < g \<and> g < t \<and>
           of_int t * p * (1 - 1 / 2 ^ 53) ^ 2 \<le> 80 * of_int g \<and>
           triggers (assess_memory s) = [] \<and> \<not> oom_occurred s"
proof -
  obtain util where u: "mem_p95_pct s = Some util"
    using over by (cases "mem_p95_pct s") (auto simp: assess_memory_def Let_def split: if_splits)
  have p: "p = (case mem_near_peak_pct s of Some x \<Rightarrow> x | None \<Rightarrow> util)"
    using np u by (simp split: option.splits)
  have ppos: "0 < p" using pos by (rule less_le_trans [OF powi_gt_zero])
  have "1 * 2 powi (- 1000) \<le> of_int t * p" using pos t ppos by (intro mult_mono) simp_all
  then have fit: "of_int t * p * (1 - 1 / 2 ^ 53) ^ 2 \<le> 80 * of_int \<lceil>fl (fl (of_int t * p) / 80)\<rceil>"
    by (intro fl64.sized_demand) simp_all
  have "0 < of_int t * p * (1 - 1 / 2 ^ 53) ^ 2" using ppos t by simp
  with fit have "0 < \<lceil>fl (fl (of_int t * p) / 80)\<rceil>" by linarith
  moreover have "mem_target_mb p (mem_total_mb s) = Some \<lceil>fl (fl (of_int t * p) / 80)\<rceil>"
    using t ppos by (simp add: mem_target_mb_def fdiv_def fmul_def of_pyint_def fl_of_int sizing_simps)
  ultimately show ?thesis
    using over u t(1) fit unfolding p
    by (auto simp: assess_memory_def Let_def split: if_splits)
qed

theorem assess_memory_over_safe_witness:
  "\<exists>g. sizing_target (assess_memory (stats0\<lparr>mem_total_mb := Some 8000, mem_p95_pct := Some 40\<rparr>)) = Some g
     \<and> g < 8000"
proof -
  let ?s = "stats0\<lparr>mem_total_mb := Some 8000, mem_p95_pct := Some 40\<rparr>"
  have "mem_target_mb 40 (Some 8000) = Some 4000"
    by (simp add: mem_target_mb_def pyfloat_ops sizing_simps)
  then have "status (assess_memory ?s) = Over"
    by (simp add: assess_memory_def mem_paging_active_def mem_saturated_def sizing_simps)
  moreover have "(2 :: rat) powi (- 1000) \<le> 40"
    using powi_mono_2 [of "- 1000" 0] by simp
  ultimately show ?thesis using assess_memory_over_safe [of ?s 40 8000] by auto
qed

end
