(* ===== verification/StorageSizing.thy ===== *)
theory StorageSizing
  imports MemorySizing
begin

text \<open>
  The sizing of a mount, and the agreement of the live saturation indices with the verdicts of the window.
\<close>

section \<open>Mounts never shrink\<close>

lemma headroom_divisor: "0 < idiv RS_DISK_HEADROOM_TARGET_PCT 100 \<and> idiv RS_DISK_HEADROOM_TARGET_PCT 100 \<le> 3 / 4"
proof
  have "1 / 4 \<le> idiv RS_DISK_HEADROOM_TARGET_PCT 100"
    unfolding idiv_def using quarter_binary64 [of 1]
    by (intro binary64_le_fl) (simp_all add: sizing_simps)
  then show "0 < idiv RS_DISK_HEADROOM_TARGET_PCT 100" by simp
  show "idiv RS_DISK_HEADROOM_TARGET_PCT 100 \<le> 3 / 4"
    unfolding idiv_def using quarter_binary64 [of 3]
    by (intro fl_le_iff_binary64) (simp_all add: sizing_simps)
qed

lemma mount_floor_grows:
  assumes "0 < c" and "c \<le> 2 ^ 50"
  shows "c < \<lceil>fdiv (of_pyint c) (idiv RS_DISK_HEADROOM_TARGET_PCT 100)\<rceil>"
proof -
  let ?d = "idiv RS_DISK_HEADROOM_TARGET_PCT 100"
  have "of_int c * (5 / 4) * ?d \<le> of_int c * (5 / 4) * (3 / 4)"
    using assms(1) headroom_divisor by (intro mult_left_mono) simp_all
  also have "\<dots> \<le> of_int c" using assms(1) by simp
  finally have "of_int c * (5 / 4) \<le> of_int c / ?d"
    using headroom_divisor by (simp add: pos_le_divide_eq)
  with assms show ?thesis
    unfolding fdiv_def by (intro ceil_grow) (simp_all add: of_pyint_def fl_of_int)
qed

lemma gib_bounds:
  assumes "0 < b" and "b \<le> 2 ^ 53"
  shows "0 < \<lceil>idiv b GIB\<rceil>" and "\<lceil>idiv b GIB\<rceil> \<le> 2 ^ 23"
proof -
  have "is_binary64 (of_int b * 2 powi (- 30))"
    using assms by (intro is_binary64I) simp_all
  then have eq: "idiv b GIB = of_int b / 2 ^ 30"
    by (simp add: idiv_def GIB_def fl_id power_int_def power_divide)
  then show "0 < \<lceil>idiv b GIB\<rceil>" using assms(1) by simp
  have "(of_int b :: rat) \<le> of_int (2 ^ 53)" using assms(2) by (simp only: of_int_le_iff)
  then have "idiv b GIB \<le> of_int (2 ^ 23)" unfolding eq by simp
  then show "\<lceil>idiv b GIB\<rceil> \<le> 2 ^ 23" by (simp add: ceiling_le_iff)
qed

text \<open>
  For a mount of positive size the sizing never recommends less than the
  current size, says \<open>increase\<close> exactly when it recommends more, does so also on the path without a
  computed target, and raises the inode note only while the bytes are not filling.
\<close>

theorem mount_never_shrinks:
  assumes "0 < b" and "b \<le> 2 ^ 53"
    and "assess_mount_capacity (Some b) target br up ir iu = Some m"
  shows "current_gib m \<le> recommended_gib m
    \<and> (mount_action m = Increase \<longleftrightarrow> current_gib m < recommended_gib m)
    \<and> (mount_action m = Increase \<longrightarrow> axis_filling br up)
    \<and> (inode_note m \<longrightarrow> axis_filling ir iu \<and> \<not> axis_filling br up \<and> mount_action m = Keep)"
  using assms mount_floor_grows [of "\<lceil>idiv b GIB\<rceil>"] gib_bounds [OF assms(1,2)]
  by (auto simp: assess_mount_capacity_def Let_def less_max_iff_disj
           split: option.splits bool.splits prod.splits if_splits)

theorem mount_never_shrinks_witness:
  "\<exists>m. assess_mount_capacity (Some (2 ^ 30)) None None (Some 90) None None = Some m
     \<and> mount_action m = Increase \<and> current_gib m < recommended_gib m"
proof -
  obtain m where m: "assess_mount_capacity (Some (2 ^ 30)) None None (Some 90) None None = Some m"
    and inc: "mount_action m = Increase"
    by (simp add: assess_mount_capacity_def axis_filling_def sizing_simps Let_def)
  with mount_never_shrinks [OF _ _ m] show ?thesis by auto
qed

section \<open>The snapshot indices agree with the window verdicts\<close>

text \<open>
  The live saturation index reaches 1 exactly when the run queue per core
  reaches the OS threshold that the windowed verdict uses, on both operating systems and through
  the two binary64 divisions.
\<close>

theorem cpu_index_agrees:
  assumes "cpu_saturation_index (Some rq) (Some c) osf = Some i"
  shows "1 \<le> i \<longleftrightarrow>
    (if osf = Some windows then CPU_RUN_QUEUE_PER_CORE_SATURATION
     else PROCS_RUNNING_PER_CORE_SATURATION) \<le> fdiv rq (of_pyint c)"
  using assms fdiv_ge_1_iff_2 [OF is_binary64_fl, of "rq / of_pyint c"]
  by (auto simp: cpu_saturation_index_def Let_def sizing_simps fdiv_def split: if_splits)

theorem cpu_index_agrees_witness:
  "\<exists>i. cpu_saturation_index (Some 8) (Some 4) (Some windows) = Some i \<and> 1 \<le> i"
proof -
  have i: "cpu_saturation_index (Some 8) (Some 4) (Some windows) = Some 1"
    by (simp add: cpu_saturation_index_def sizing_simps pyfloat_ops)
  with cpu_index_agrees [OF i] show ?thesis by simp
qed

text \<open>
  The live disk index and the windowed disk verdict agree on every measured
  latency except exactly 20 ms, where the index says saturated and the verdict does not: the
  verdict tests \<open>>\<close> and the index \<open>>= 1\<close>.
\<close>

theorem disk_index_boundary:
  assumes "is_binary64 a" and "disk_await_p95_ms s = Some a"
  shows "is_some_and (disk_io_saturation_index (Some a) q osf) (\<lambda>i. 1 \<le> i) \<longleftrightarrow>
           truthy (disk_io_saturated s) \<or> a = RS_DISKIO_AWAIT_MS"
  using assms
  by (auto simp: disk_io_saturation_index_def disk_io_saturated_def fdiv_def sizing_simps fdiv_ge_1_iff_20)

theorem disk_index_boundary_witness:
  "is_some_and (disk_io_saturation_index (Some 20) None None) (\<lambda>i. 1 \<le> i)
   \<and> \<not> truthy (disk_io_saturated (stats0\<lparr>disk_await_p95_ms := Some 20\<rparr>))"
  using disk_index_boundary [of 20 "stats0\<lparr>disk_await_p95_ms := Some 20\<rparr>" None None]
    is_binary64_of_int [of 20]
  by (simp add: disk_io_saturated_def sizing_simps)

text \<open>
  The live network signal of the dashboard and the windowed network verdict
  are the same decision on the same four numbers.
\<close>

theorem net_signal_agrees:
  "net_signal_active (net_retrans_pct s) (net_drop_pct s) (conntrack_ratio s) (net_avg_kbytes_per_s s)
     \<longleftrightarrow> status (assess_network s) = Congested"
  by (auto simp: net_signal_active_def assess_network_def network_triggers_def Let_def)

end
