(* ===== verification/HostRollup.thy ===== *)
theory HostRollup
  imports StorageSizing
begin

text \<open>
  The host verdict of \<open>recommendation.py\<close>: \<open>rollup_host\<close> combines the five resource assessments into
  a host status, a root cause and its symptoms; the prescription functions turn the verdict into the
  list of actions; \<open>downsize_prescribable\<close> is the gate in front of every shrink.  Korean words of the
  prescriptions are tokens of the datatype \<open>token\<close>, so a text is a token list.
\<close>

section \<open>Host verdict\<close>

record HostAssessment =
  resources :: "resource_kind \<rightharpoonup> ResourceAssessment"
  root_cause :: "resource_kind option"
  symptom_of_root :: "resource_kind list"
  host_status :: host_status
  network_congested :: bool
  host_sample_sufficiency :: "pyfloat option"

definition all_kinds :: "resource_kind list" where
  "all_kinds = [Cpu, Memory, Disk_capacity, Disk_io, Network]"

definition ROOTABLE_UNDER :: "resource_status list" where
  "ROOTABLE_UNDER = [Under, Filling]"

definition rollup_status ::
  "ResourceStats \<Rightarrow> (resource_kind \<Rightarrow> ResourceAssessment) \<Rightarrow> resource_kind list \<Rightarrow> host_status" where
  "rollup_status s res under_kinds =
     (if under_kinds \<noteq> [] then HS_under
      else if status (res Cpu) \<in> {Unmeasured, Insufficient} \<and>
              status (res Memory) \<in> {Unmeasured, Insufficient}
      then HS_insufficient
      else
        let net_mbps = map_option (\<lambda>n. fdiv (fmul n 8) 1000) (net_avg_kbytes_per_s s);
            disk_io_active = is_some_and (disk_iops_baseline s) (\<lambda>i. i > IDLE_DISK_IOPS)
        in if is_some_and (cpu_p95_pct s) (\<lambda>u. u \<le> IDLE_CPU_P95_PCT) \<and>
              is_some_and net_mbps (\<lambda>m. m \<le> IDLE_NET_MBPS) \<and> \<not> disk_io_active
           then HS_idle
           else if list_ex (\<lambda>k. status (res k) = Over) [Cpu, Memory] then HS_over
           else HS_optimal)"

text \<open>The dictionary \<open>res\<close> of \<open>rollup_host\<close>, total on the five kinds.\<close>

primrec assess :: "ResourceStats \<Rightarrow> resource_kind \<Rightarrow> ResourceAssessment" where
  "assess s Cpu = assess_cpu s"
| "assess s Memory = assess_memory s"
| "assess s Disk_capacity = assess_disk_capacity s"
| "assess s Disk_io = assess_disk_io s"
| "assess s Network = assess_network s"

definition rootable :: "ResourceStats \<Rightarrow> resource_kind list" where
  "rootable s = filter (\<lambda>k. status (assess s k) \<in> set ROOTABLE_UNDER) all_kinds"

definition rollup_root :: "ResourceStats \<Rightarrow> resource_kind option \<times> resource_kind list" where
  "rollup_root s =
     (let res = assess s;
          under_kinds = rootable s;
          mem_pressure = (status (res Memory) = Under);
          disk_io_pressure = (status (res Disk_io) = Io_bound);
          cpu_pressure = (status (res Cpu) = Under);
          procs_blocked_high =
            is_some_and (procs_blocked_p95 s) (\<lambda>b. b \<ge> PROCS_BLOCKED_DSTATE_SATURATION)
      in if mem_pressure \<and> mem_paging_active s \<and> (disk_io_pressure \<or> cpu_pressure)
         then (Some Memory,
               filter (\<lambda>k. k \<in> set under_kinds \<or> k = Disk_io \<and> disk_io_pressure) [Disk_io, Cpu])
         else if disk_io_pressure \<and> cpu_pressure \<and> procs_blocked_high
         then (Some Disk_io, if Cpu \<in> set under_kinds then [Cpu] else [])
         else if under_kinds \<noteq> []
         then (List.find (\<lambda>k. k \<in> set under_kinds) [Memory, Disk_io, Cpu, Disk_capacity], [])
         else (None, []))"

definition rollup_host :: "ResourceStats \<Rightarrow> HostAssessment" where
  "rollup_host s =
     (let res = assess s; (root, symptoms) = rollup_root s in
      \<lparr>resources = (\<lambda>k. Some (res k)), root_cause = root, symptom_of_root = symptoms,
       host_status = rollup_status s res (rootable s),
       network_congested = (status (res Network) = Congested),
       host_sample_sufficiency = sample_sufficiency s\<rparr>)"

definition host_status_to_recommendation :: "host_status \<Rightarrow> recommendation" where
  "host_status_to_recommendation st =
     (case st of HS_under \<Rightarrow> Rec_under_provisioned | HS_idle \<Rightarrow> Rec_idle
      | HS_over \<Rightarrow> Rec_over_provisioned | HS_optimal \<Rightarrow> Rec_optimal
      | HS_insufficient \<Rightarrow> Rec_insufficient_data)"

definition classify_host :: "ResourceStats \<Rightarrow> recommendation" where
  "classify_host s = host_status_to_recommendation (host_status (rollup_host s))"

definition SATURATION_KINDS :: "resource_kind list" where
  "SATURATION_KINDS = [Cpu, Memory, Disk_io]"

definition host_saturation_unmeasured :: "HostAssessment \<Rightarrow> bool" where
  "host_saturation_unmeasured h =
     list_ex (\<lambda>k. case resources h k of None \<Rightarrow> False | Some a \<Rightarrow> coverage_gap (confidence a))
       SATURATION_KINDS"

fun CLASSIFICATION_ORDER :: "recommendation \<Rightarrow> nat" where
  "CLASSIFICATION_ORDER Rec_under_provisioned = 0"
| "CLASSIFICATION_ORDER Rec_over_provisioned = 1"
| "CLASSIFICATION_ORDER Rec_idle = 2"
| "CLASSIFICATION_ORDER Rec_optimal = 3"
| "CLASSIFICATION_ORDER Rec_insufficient_data = 4"

section \<open>Actions\<close>

definition is_idle_strong :: "ResourceStats \<Rightarrow> bool" where
  "is_idle_strong s =
     (is_some_and (cpu_peak_pct s) (\<lambda>p. p \<le> IDLE_STRONG_PEAK_PCT) \<and>
      is_some_and (net_avg_kbytes_per_s s) (\<lambda>n. n \<le> IDLE_STRONG_NET_KBYTES_PER_S))"

text \<open>One constructor per Korean action text.\<close>

datatype action_text =
  A_expand_review | A_shrink_review | A_stop_or_merge_review | A_keep | A_observe
  | A_stop_now_review | A_merge_relocate_review

fun RECOMMENDATION_ACTION_KO :: "recommendation \<Rightarrow> action_text" where
  "RECOMMENDATION_ACTION_KO Rec_under_provisioned = A_expand_review"
| "RECOMMENDATION_ACTION_KO Rec_over_provisioned = A_shrink_review"
| "RECOMMENDATION_ACTION_KO Rec_idle = A_stop_or_merge_review"
| "RECOMMENDATION_ACTION_KO Rec_optimal = A_keep"
| "RECOMMENDATION_ACTION_KO Rec_insufficient_data = A_observe"

definition recommend_action :: "recommendation \<Rightarrow> ResourceStats \<Rightarrow> action_text" where
  "recommend_action r s =
     (if r = Rec_idle
      then (if is_idle_strong s then A_stop_now_review else A_merge_relocate_review)
      else RECOMMENDATION_ACTION_KO r)"

datatype token =
  Txt string            \<comment> \<open>ASCII text\<close>
  | Dec int             \<comment> \<open>a decimal integer\<close>
  | Tenths int          \<comment> \<open>a number printed with one decimal\<close>
  | Ko_cores            \<comment> \<open>the unit of cores\<close>
  | Ko_storage          \<comment> \<open>the word for storage\<close>
  | Ko_base resource_kind       \<comment> \<open>\<open>_UNDER_ACTION_BASE\<close>\<close>
  | Ko_label resource_kind      \<comment> \<open>\<open>RS_RESOURCE_KIND_LABEL_KO\<close>\<close>
  | Ko_sizeable resource_kind   \<comment> \<open>\<open>_SIZEABLE_LABEL\<close>\<close>
  | Ko_middot           \<comment> \<open>the separator of root-cause lists\<close>
  | Ko_induces          \<comment> \<open>the suffix of an induced symptom list\<close>

definition UNDER_ORDER :: "resource_kind list" where
  "UNDER_ORDER = [Memory, Cpu, Disk_io, Disk_capacity, Network]"

definition fmt_sizing_target :: "resource_kind \<Rightarrow> int \<Rightarrow> token list" where
  "fmt_sizing_target k target =
     (if k = Cpu then [Dec target, Ko_cores]
      else if target \<ge> 1024
      then
        let tenths = rhe (idiv target 1024 * 10)
        in (if tenths mod 10 = 0 then [Dec (tenths div 10)] else [Tenths tenths]) @ [Txt ''GB'']
      else [Dec target, Txt ''MB''])"

definition resource_prescription :: "resource_kind \<Rightarrow> ResourceAssessment \<Rightarrow> token list" where
  "resource_prescription k ra =
     (case sizing_target ra of
        Some t \<Rightarrow>
          if k = Disk_capacity then [Ko_storage, Txt '': '', Dec t, Txt ''GB'']
          else if k \<in> {Cpu, Memory} then [Ko_sizeable k, Txt '': ''] @ fmt_sizing_target k t
          else [Ko_base k]
      | None \<Rightarrow> [Ko_base k])"

definition prescribed_under_kinds :: "HostAssessment \<Rightarrow> resource_kind list" where
  "prescribed_under_kinds h =
     filter (\<lambda>k. case resources h k of None \<Rightarrow> False | Some a \<Rightarrow> status a \<in> set ROOTABLE_UNDER)
       UNDER_ORDER"

fun join_tokens :: "token list \<Rightarrow> token list list \<Rightarrow> token list" where
  "join_tokens sep [] = []"
| "join_tokens sep [x] = x"
| "join_tokens sep (x # y # ys) = x @ sep @ join_tokens sep (y # ys)"

definition under_prescription :: "HostAssessment \<Rightarrow> token list" where
  "under_prescription h =
     join_tokens [Txt '' | '']
       (map (\<lambda>k. case resources h k of None \<Rightarrow> [] | Some a \<Rightarrow> resource_prescription k a)
          (prescribed_under_kinds h))"

definition root_cause_display :: "HostAssessment \<Rightarrow> token list" where
  "root_cause_display h =
     (let under = prescribed_under_kinds h in
      case under of
        [] \<Rightarrow> []
      | k # ks \<Rightarrow>
          (case (symptom_of_root h, root_cause h) of
             (y # ys, Some r) \<Rightarrow>
               [Ko_label r, Txt '' (''] @ join_tokens [Ko_middot] (map (\<lambda>z. [Ko_label z]) (y # ys)) @
               [Ko_induces]
           | _ \<Rightarrow>
               if ks = [] then [Ko_label k]
               else join_tokens [Ko_middot] (map (\<lambda>z. [Ko_label z]) under)))"

definition downsize_prescribable :: "ResourceAssessment \<Rightarrow> ResourceStats \<Rightarrow> bool" where
  "downsize_prescribable a s =
     (if status a \<noteq> Over then False
      else if \<not> confidence_high (confidence a) then False
      else if nonstationary (confidence a) then False
      else \<not> (case sample_sufficiency s of
               None \<Rightarrow> True | Some x \<Rightarrow> x < RS_DOWNSIZE_MIN_SUFFICIENCY))"

section \<open>Which statuses a resource can have\<close>

lemma assess_cpu_status: "status (assess_cpu s) \<in> {Under, Over, Optimal, Unmeasured}"
  by (simp add: assess_cpu_def Let_def split: option.split)

lemma assess_memory_status: "status (assess_memory s) \<in> {Under, Over, Optimal, Unmeasured}"
  by (simp add: assess_memory_def Let_def split: option.split)

lemma assess_disk_capacity_status:
  "status (assess_disk_capacity s) \<in> {Filling, Capacity_ok, Unmeasured}"
  by (simp add: assess_disk_capacity_def Let_def split: option.split)

lemma assess_disk_io_status: "status (assess_disk_io s) \<in> {Io_bound, Io_ok, Unmeasured}"
  by (simp add: assess_disk_io_def Let_def split: option.split)

lemma assess_network_status: "status (assess_network s) \<in> {Congested, Quality_ok, Unmeasured}"
  by (simp add: assess_network_def Let_def)

lemmas status_ranges =
  assess_cpu_status assess_memory_status assess_disk_capacity_status assess_disk_io_status
  assess_network_status

lemma rootable_iff: "k \<in> set (rootable s) \<longleftrightarrow> status (assess s k) \<in> {Under, Filling}"
  by (cases k) (simp_all add: rootable_def all_kinds_def ROOTABLE_UNDER_def)

lemma rootable_set: "set (rootable s) \<subseteq> {Cpu, Memory, Disk_capacity}"
proof
  fix k assume "k \<in> set (rootable s)"
  then have "status (assess s k) \<in> {Under, Filling}" by (simp add: rootable_iff)
  then show "k \<in> {Cpu, Memory, Disk_capacity}"
    using assess_disk_io_status [of s] assess_network_status [of s] by (cases k) auto
qed

lemma rollup_host_sel [simp]:
  "resources (rollup_host s) = (\<lambda>k. Some (assess s k))"
  "root_cause (rollup_host s) = fst (rollup_root s)"
  "symptom_of_root (rollup_host s) = snd (rollup_root s)"
  "host_status (rollup_host s) = rollup_status s (assess s) (rootable s)"
  "network_congested (rollup_host s) = (status (assess s Network) = Congested)"
  "host_sample_sufficiency (rollup_host s) = sample_sufficiency s"
  by (simp_all add: rollup_host_def Let_def split: prod.splits)

lemma rollup_status_under_iff: "rollup_status s res ks = HS_under \<longleftrightarrow> ks \<noteq> []"
  by (simp add: rollup_status_def Let_def)


section \<open>Facts about prescriptions and gates\<close>

lemma rootable_Nil_iff:
  "rootable s = [] \<longleftrightarrow> status (assess_cpu s) \<noteq> Under \<and> status (assess_memory s) \<noteq> Under
      \<and> status (assess_disk_capacity s) \<noteq> Filling"
proof -
  have "status (assess_cpu s) \<noteq> Filling" using assess_cpu_status [of s] by auto
  moreover have "status (assess_memory s) \<noteq> Filling" using assess_memory_status [of s] by auto
  moreover have "status (assess_disk_capacity s) \<noteq> Under"
    using assess_disk_capacity_status [of s] by auto
  moreover have "status (assess_disk_io s) \<notin> {Under, Filling}"
    using assess_disk_io_status [of s] by auto
  moreover have "status (assess_network s) \<notin> {Under, Filling}"
    using assess_network_status [of s] by auto
  ultimately show ?thesis by (simp add: rootable_def all_kinds_def ROOTABLE_UNDER_def)
qed

lemma prescribed_set:
  "set (prescribed_under_kinds (rollup_host s)) = {k. status (assess s k) \<in> {Under, Filling}}"
proof -
  have "k \<in> set UNDER_ORDER" for k by (cases k) (simp_all add: UNDER_ORDER_def)
  then show ?thesis by (auto simp: prescribed_under_kinds_def ROOTABLE_UNDER_def)
qed

lemma fmt_sizing_target_nonempty: "fmt_sizing_target k t \<noteq> []"
  by (simp add: fmt_sizing_target_def Let_def)

lemma resource_prescription_nonempty: "resource_prescription k a \<noteq> []"
  by (simp add: resource_prescription_def split: option.split)

lemma join_tokens_Nil_iff:
  "(\<forall>x \<in> set xs. x \<noteq> []) \<Longrightarrow> sep \<noteq> [] \<Longrightarrow> join_tokens sep xs = [] \<longleftrightarrow> xs = []"
  by (induction sep xs rule: join_tokens.induct) auto

lemma downsize_prescribableD:
  assumes "downsize_prescribable a s"
  shows "status a = Over" "confidence_high (confidence a)" "\<not> nonstationary (confidence a)"
    "\<exists>x. sample_sufficiency s = Some x \<and> x \<ge> RS_DOWNSIZE_MIN_SUFFICIENCY"
  using assms by (auto simp: downsize_prescribable_def not_less split: if_splits option.splits)

lemma assess_cpu_confidence:
  "low_precision (confidence (assess_cpu s)) = precision_low s"
  "nonstationary (confidence (assess_cpu s)) = truthy (util_trend_rising s)"
  "biased (confidence (assess_cpu s)) =
     is_some_and (cpu_steal_p95_pct s) (\<lambda>x. x \<ge> RS_CPU_STEAL_BIAS_PCT)"
  by (simp_all add: assess_cpu_def Let_def base_confidence_def split: option.split)

lemma assess_cpu_gap:
  "coverage_gap (confidence (assess_cpu s)) \<longleftrightarrow> cpu_saturated s = None \<or> cpu_p95_pct s = None"
  by (simp add: assess_cpu_def Let_def base_confidence_def split: option.split)

lemma assess_cpu_over_sat: "status (assess_cpu s) = Over \<Longrightarrow> \<not> truthy (cpu_saturated s)"
  by (auto simp: assess_cpu_def Let_def split: option.splits if_splits)

lemma assess_memory_confidence:
  "low_precision (confidence (assess_memory s)) = precision_low s"
  "nonstationary (confidence (assess_memory s)) = truthy (util_trend_rising s)"
  by (simp_all add: assess_memory_def Let_def base_confidence_def split: option.split)

lemma assess_memory_over:
  "status (assess_memory s) = Over \<Longrightarrow>
     mem_p95_pct s \<noteq> None \<and> \<not> mem_paging_active s \<and> \<not> oom_occurred s"
  by (auto simp: assess_memory_def Let_def split: option.splits if_splits)

section \<open>Properties of the host verdict\<close>

text \<open>
  Claim C8: a host is classified under-provisioned exactly when a root cause is
  named, and exactly when some sizable resource (CPU, memory, disk capacity) is short.  No host
  reaches the shortage card without a cause, and none has a cause without being on it.
\<close>

theorem root_cause_iff_under:
  "(host_status (rollup_host s) = HS_under) = (root_cause (rollup_host s) \<noteq> None)
   \<and> (classify_host s = Rec_under_provisioned) = (root_cause (rollup_host s) \<noteq> None)
   \<and> (root_cause (rollup_host s) \<noteq> None) =
       (\<exists>k \<in> {Cpu, Memory, Disk_capacity}. status (assess s k) \<in> {Under, Filling})"
proof -
  have root: "root_cause (rollup_host s) \<noteq> None \<longleftrightarrow> rootable s \<noteq> []"
  proof
    assume some: "root_cause (rollup_host s) \<noteq> None"
    have "status (assess_cpu s) = Under \<longrightarrow> rootable s \<noteq> []" using rootable_iff [of Cpu s] by auto
    moreover have "status (assess_memory s) = Under \<longrightarrow> rootable s \<noteq> []"
      using rootable_iff [of Memory s] by auto
    ultimately show "rootable s \<noteq> []"
      using some by (auto simp: rollup_root_def Let_def split: if_splits)
  next
    assume ne: "rootable s \<noteq> []"
    have "List.find (\<lambda>k. k \<in> set (rootable s)) [Memory, Disk_io, Cpu, Disk_capacity] \<noteq> None"
      using ne rootable_set [of s] by (cases "rootable s") (auto simp: find_None_iff)
    then show "root_cause (rollup_host s) \<noteq> None"
      using ne by (simp add: rollup_root_def Let_def)
  qed
  have ex: "rootable s \<noteq> [] \<longleftrightarrow>
      (\<exists>k \<in> {Cpu, Memory, Disk_capacity}. status (assess s k) \<in> {Under, Filling})"
    using rootable_iff [of _ s] rootable_set [of s] by (metis (no_types, lifting) list.set_sel(1) subsetD equals0D set_empty)
  have cls: "classify_host s = Rec_under_provisioned \<longleftrightarrow> rootable s \<noteq> []"
    by (simp add: classify_host_def host_status_to_recommendation_def rollup_status_under_iff
        split: host_status.splits) (simp add: rollup_status_def Let_def)
  show ?thesis unfolding root ex [symmetric] cls by (simp add: rollup_status_under_iff)
qed


text \<open>
  Claim C9: network quality and disk latency are advisory.  Whatever values they
  take, they leave the host status, the classification and the set of prescribed resources unchanged.
\<close>

theorem advisory_axes_orthogonal:
  "let s' = s\<lparr>net_retrans_pct := a, net_drop_pct := b, conntrack_ratio := c,
              disk_await_p95_ms := d, disk_queue_p95 := e\<rparr>
   in host_status (rollup_host s') = host_status (rollup_host s)
      \<and> classify_host s' = classify_host s
      \<and> prescribed_under_kinds (rollup_host s') = prescribed_under_kinds (rollup_host s)"
proof -
  define s' where "s' = s\<lparr>net_retrans_pct := a, net_drop_pct := b, conntrack_ratio := c,
                            disk_await_p95_ms := d, disk_queue_p95 := e\<rparr>"
  have sel: "os_family s' = os_family s" "cpu_cores s' = cpu_cores s" "cpu_p95_pct s' = cpu_p95_pct s"
    "cpu_run_queue_p95 s' = cpu_run_queue_p95 s" "procs_running_p95 s' = procs_running_p95 s"
    "mem_p95_pct s' = mem_p95_pct s" "mem_swap_paging s' = mem_swap_paging s"
    "mem_pages_input_rate_p95 s' = mem_pages_input_rate_p95 s" "mem_total_mb s' = mem_total_mb s"
    "oom_occurred s' = oom_occurred s" "mem_near_peak_pct s' = mem_near_peak_pct s"
    "disk_capacity_runway_days s' = disk_capacity_runway_days s"
    "disk_inode_runway_days s' = disk_inode_runway_days s" "disk_used_pct s' = disk_used_pct s"
    "disk_inode_used_pct s' = disk_inode_used_pct s"
    "disk_capacity_target_gb s' = disk_capacity_target_gb s"
    "cpu_steal_p95_pct s' = cpu_steal_p95_pct s" "cpu_percore_p95_max s' = cpu_percore_p95_max s"
    "history_hours s' = history_hours s" "cpu_burst_ratio s' = cpu_burst_ratio s"
    "util_trend_rising s' = util_trend_rising s" "net_avg_kbytes_per_s s' = net_avg_kbytes_per_s s"
    "disk_iops_baseline s' = disk_iops_baseline s" "sample_sufficiency s' = sample_sufficiency s"
    by (simp_all add: s'_def)
  have conf: "base_confidence s' x y = base_confidence s x y" for x y
    unfolding base_confidence_def precision_low_def sel ..
  have sig: "cpu_saturated s' = cpu_saturated s" "run_queue_value s' = run_queue_value s"
      "mem_saturated s' = mem_saturated s"
    unfolding cpu_saturated_def run_queue_value_def mem_saturated_def sel by (rule refl)+
  have pag: "mem_paging_active s' = mem_paging_active s"
    by (simp add: mem_paging_active_def sig)
  have cpu: "assess_cpu s' = assess_cpu s"
    unfolding assess_cpu_def conf sig sel ..
  have tgt: "mem_under_target x s' = mem_under_target x s" for x
    unfolding mem_under_target_def pag sel ..
  have mem: "assess_memory s' = assess_memory s"
    unfolding assess_memory_def conf pag tgt sel ..
  have disk: "assess_disk_capacity s' = assess_disk_capacity s"
    unfolding assess_disk_capacity_def conf sel ..
  have same: "assess s' k = assess s k" if "k \<in> {Cpu, Memory, Disk_capacity}" for k
    using that cpu mem disk by auto
  have root: "k \<in> set (rootable s') \<longleftrightarrow> k \<in> set (rootable s)" for k
    using same [of k] rootable_set [of s] rootable_set [of s'] by (auto simp: rootable_iff)
  have ne: "(rootable s' = []) = (rootable s = [])"
    using root by (metis list.set_intros(1) list.set(1) empty_iff neq_Nil_conv)
  have st: "rollup_status s' (assess s') (rootable s') = rollup_status s (assess s) (rootable s)"
    unfolding rollup_status_def sel by (simp add: ne cpu mem)
  have pk: "prescribed_under_kinds (rollup_host s') = prescribed_under_kinds (rollup_host s)"
    unfolding prescribed_under_kinds_def using root
    by (intro filter_cong) (auto simp: rootable_iff ROOTABLE_UNDER_def)
  show ?thesis
    unfolding s'_def [symmetric] Let_def by (simp add: st pk classify_host_def)
qed

text \<open>
  Every short resource is prescribed, once, and nothing else is.  The
  list is not filtered by the root cause, so an induced symptom keeps its own action; and the
  prescription text is empty exactly when the host is not classified under-provisioned.
\<close>

theorem prescription_complete:
  "set (prescribed_under_kinds (rollup_host s)) = {k. status (assess s k) \<in> {Under, Filling}}
   \<and> distinct (prescribed_under_kinds (rollup_host s))
   \<and> (under_prescription (rollup_host s) = []) = (host_status (rollup_host s) \<noteq> HS_under)"
proof (intro conjI)
  show "set (prescribed_under_kinds (rollup_host s)) = {k. status (assess s k) \<in> {Under, Filling}}"
    by (rule prescribed_set)
  show "distinct (prescribed_under_kinds (rollup_host s))"
    by (simp add: prescribed_under_kinds_def UNDER_ORDER_def)
  have "under_prescription (rollup_host s) = [] \<longleftrightarrow> prescribed_under_kinds (rollup_host s) = []"
    by (auto simp: under_prescription_def join_tokens_Nil_iff resource_prescription_nonempty)
  also have "\<dots> \<longleftrightarrow> rootable s = []"
    using prescribed_set [of s] unfolding rootable_iff [symmetric] by (simp flip: set_empty)
  finally show "(under_prescription (rollup_host s) = []) = (host_status (rollup_host s) \<noteq> HS_under)"
    by (simp add: rollup_status_under_iff)
qed

text \<open>
  Claim C5: a shrink of CPU or memory is prescribed only on evidence.  The
  utilization was measured, at least 70% of the expected samples arrived (and their share is known),
  a known history spans at least 30 hours, a known burst ratio is at most 2, the trend is not
  rising; for CPU, moreover, the saturation signal was measured and absent and a known steal time is
  below 5%.
\<close>

theorem downsize_gate:
  assumes "downsize_prescribable (assess s k) s" and "k \<in> {Cpu, Memory}"
  shows "status (assess s k) = Over
    \<and> (\<exists>x. sample_sufficiency s = Some x \<and> x \<ge> RS_DOWNSIZE_MIN_SUFFICIENCY)
    \<and> (\<forall>h. history_hours s = Some h \<longrightarrow> h \<ge> 30)
    \<and> (\<forall>b. cpu_burst_ratio s = Some b \<longrightarrow> b \<le> 2)
    \<and> util_trend_rising s \<noteq> Some True
    \<and> (k = Cpu \<longrightarrow> cpu_p95_pct s \<noteq> None \<and> cpu_saturated s = Some False
                  \<and> (\<forall>x. cpu_steal_p95_pct s = Some x \<longrightarrow> x < 5))
    \<and> (k = Memory \<longrightarrow> mem_p95_pct s \<noteq> None \<and> \<not> mem_paging_active s \<and> \<not> oom_occurred s)"
proof -
  note gate = downsize_prescribableD [OF assms(1)]
  have conf: "low_precision (confidence (assess s k)) = precision_low s"
    "nonstationary (confidence (assess s k)) = truthy (util_trend_rising s)"
    using assms(2) by (auto simp: assess_cpu_confidence assess_memory_confidence)
  have prec: "\<not> precision_low s" using gate conf by (simp add: confidence_high_def)
  have hist: "\<forall>h. history_hours s = Some h \<longrightarrow> h \<ge> 30" "\<forall>b. cpu_burst_ratio s = Some b \<longrightarrow> b \<le> 2"
    using prec by (auto simp: precision_low_def sizing_simps is_some_and_iff split: if_splits)
  have cpu: "cpu_p95_pct s \<noteq> None \<and> cpu_saturated s = Some False
      \<and> (\<forall>x. cpu_steal_p95_pct s = Some x \<longrightarrow> x < 5)" if "k = Cpu"
    using gate that assess_cpu_gap [of s] assess_cpu_over_sat [of s]
    by (auto simp: confidence_high_def sizing_simps is_some_and_iff assess_cpu_confidence
        truthy_def not_le)
  have mem: "mem_p95_pct s \<noteq> None \<and> \<not> mem_paging_active s \<and> \<not> oom_occurred s" if "k = Memory"
    using gate that assess_memory_over [of s] by simp
  show ?thesis using gate conf hist cpu mem by (auto simp: truthy_def)
qed

theorem downsize_gate_witness:
  "let s = stats0\<lparr>cpu_p95_pct := Some 10, cpu_cores := Some 8, procs_running_p95 := Some 1,
                  sample_sufficiency := Some 1\<rparr>
   in downsize_prescribable (assess s Cpu) s \<and> cpu_saturated s = Some False"
proof -
  define s where "s = stats0\<lparr>cpu_p95_pct := Some 10, cpu_cores := Some 8, procs_running_p95 := Some 1,
                  sample_sufficiency := Some 1\<rparr>"
  have "downsize_prescribable (assess s Cpu) s" unfolding s_def by code_simp
  with downsize_gate [of s Cpu] show ?thesis unfolding s_def by simp
qed

text \<open>
  The symptoms listed under a root cause never include the root itself, are
  really pressed (CPU short or disk I/O bound), and are only listed when a root is named.
\<close>

theorem symptoms_sound:
  assumes "k \<in> set (symptom_of_root (rollup_host s))"
  shows "root_cause (rollup_host s) \<noteq> None \<and> root_cause (rollup_host s) \<noteq> Some k
     \<and> (k = Cpu \<and> status (assess s Cpu) = Under \<or> k = Disk_io \<and> status (assess s Disk_io) = Io_bound)"
  using assms rootable_set [of s] rootable_iff [of Cpu s] assess_cpu_status [of s]
  by (auto simp: rollup_root_def Let_def split: if_splits)

theorem symptoms_sound_witness:
  "let s = stats0\<lparr>mem_p95_pct := Some 95, mem_swap_paging := True, disk_await_p95_ms := Some 50\<rparr>
   in Disk_io \<in> set (symptom_of_root (rollup_host s)) \<and> status (assess s Disk_io) = Io_bound"
proof -
  define s where
    "s = stats0\<lparr>mem_p95_pct := Some 95, mem_swap_paging := True, disk_await_p95_ms := Some 50\<rparr>"
  have "Disk_io \<in> set (symptom_of_root (rollup_host s))" unfolding s_def by code_simp
  with symptoms_sound [of Disk_io s] show ?thesis unfolding s_def by simp
qed

text \<open>
  A host is reported as having insufficient data exactly when neither CPU
  nor memory could be judged and the disk capacity shows no shortage; in particular a host whose CPU
  or memory was judged never lands on that card.
\<close>

theorem insufficient_iff:
  "classify_host s = Rec_insufficient_data \<longleftrightarrow>
     status (assess_cpu s) = Unmeasured \<and> status (assess_memory s) = Unmeasured
     \<and> status (assess_disk_capacity s) \<noteq> Filling"
proof -
  have ne: "rootable s = [] \<longleftrightarrow> status (assess_cpu s) \<noteq> Under \<and> status (assess_memory s) \<noteq> Under
      \<and> status (assess_disk_capacity s) \<noteq> Filling"
    by (rule rootable_Nil_iff)
  have "classify_host s = Rec_insufficient_data \<longleftrightarrow> host_status (rollup_host s) = HS_insufficient"
    by (simp add: classify_host_def host_status_to_recommendation_def split: host_status.split)
  also have "\<dots> \<longleftrightarrow> rootable s = [] \<and> status (assess_cpu s) \<in> {Unmeasured, Insufficient}
      \<and> status (assess_memory s) \<in> {Unmeasured, Insufficient}"
    by (simp add: rollup_status_def Let_def)
  finally show ?thesis
    using ne assess_cpu_status [of s] assess_memory_status [of s] by auto
qed

end
