(* ===== verification/ReportRows.thy ===== *)
theory ReportRows
  imports LiveDashboardProps HostRollup
begin

text \<open>
  From a report row to the statistics a host is judged on: the row \<open>ReportRowRaw\<close> and the per-mount row
  \<open>MountCapacityRaw\<close> of \<open>db/dtos/outbound.py\<close>, and \<open>build_resource_stats\<close> of
  \<open>web/services/mappers/resource_stats.py\<close>, the one door through which every page and both interfaces
  reach \<open>rollup_host\<close>.  JSONB columns are lists of JSON objects.
\<close>

section \<open>Rows\<close>

record ReportRowRaw =
  rr_server_id :: int
  rr_public_id :: string
  rr_hostname :: string
  rr_os_family :: "string option"
  rr_os_id :: "string option"
  rr_os_version :: "string option"
  rr_os_codename :: "string option"
  rr_kernel_version :: "string option"
  rr_net_interfaces :: "json list option"
  rr_services :: "json list option"
  rr_last_seen_at :: "datetime option"
  rr_cpu_p95_pct :: "pyfloat option"
  rr_cpu_avg_pct :: "pyfloat option"
  rr_cpu_peak_pct :: "pyfloat option"
  rr_mem_p95_pct :: "pyfloat option"
  rr_mem_avg_pct :: "pyfloat option"
  rr_mem_peak_pct :: "pyfloat option"
  rr_mem_near_peak_pct :: "pyfloat option"
  rr_listen_ports :: "json list option"
  rr_iowait_p95_pct :: "pyfloat option"
  rr_iowait_peak_pct :: "pyfloat option"
  rr_cpu_run_queue_p95 :: "pyfloat option"
  rr_mem_pages_input_rate_p95 :: "pyfloat option"
  rr_cpu_cores :: "int option"
  rr_mem_total_bytes :: "int option"
  rr_block_devices :: "json list option"
  rr_lvm_vgs :: "json list option"
  rr_arch :: "string option"
  rr_bits :: "int option"
  rr_boot_firmware :: "string option"
  rr_secure_boot :: "bool option"
  rr_edition :: "string option"
  rr_product_name :: "string option"
  rr_timezone :: "string option"
  rr_rtc_utc :: "bool option"
  rr_boot :: "json option"
  rr_nonblock_mounts :: "json list option"
  rr_boot_time :: "datetime option"
  rr_worst_mount_used_pct :: "pyfloat option"
  rr_disk_capacity_worst_mount :: "string option"
  rr_reboot_count :: int
  rr_agent_restart_count :: int
  rr_disk_iops_baseline :: "int option"
  rr_disk_iops_p95 :: "pyfloat option"
  rr_disk_iops_peak :: "pyfloat option"
  rr_disk_throughput_kbps :: "pyfloat option"
  rr_disk_throughput_kbps_p95 :: "pyfloat option"
  rr_disk_throughput_kbps_peak :: "pyfloat option"
  rr_net_rx_kbps :: "pyfloat option"
  rr_net_rx_kbps_p95 :: "pyfloat option"
  rr_net_rx_kbps_peak :: "pyfloat option"
  rr_net_tx_kbps :: "pyfloat option"
  rr_net_tx_kbps_p95 :: "pyfloat option"
  rr_net_tx_kbps_peak :: "pyfloat option"
  rr_cpu_sufficiency :: "pyfloat option"
  rr_mem_sufficiency :: "pyfloat option"
  rr_cpu_steal_p95_pct :: "pyfloat option"
  rr_cpu_burst_ratio :: "pyfloat option"
  rr_procs_blocked_p95 :: "pyfloat option"
  rr_procs_running_p95 :: "pyfloat option"
  rr_mem_swap_paging :: bool
  rr_oom_occurred :: bool
  rr_history_hours :: "pyfloat option"
  rr_disk_await_p95_ms :: "pyfloat option"
  rr_disk_capacity_runway_days :: "pyfloat option"
  rr_disk_capacity_driving_mount :: "string option"
  rr_disk_inode_runway_days :: "pyfloat option"
  rr_disk_inode_used_pct :: "pyfloat option"
  rr_disk_capacity_target_gb :: "pyfloat option"
  rr_disk_capacity_proj_30d_pct :: "pyfloat option"
  rr_disk_capacity_driving_used_pct :: "pyfloat option"
  rr_net_drop_pct :: "pyfloat option"
  rr_net_retrans_pct :: "pyfloat option"
  rr_conntrack_ratio :: "pyfloat option"
  rr_cpu_trend_slope :: "pyfloat option"
  rr_mem_trend_slope :: "pyfloat option"
  rr_cpu_percore_p95_max :: "pyfloat option"

record MountCapacityRaw =
  mc_mountpoint :: string
  mc_total_bytes :: "int option"
  mc_used_pct :: "pyfloat option"
  mc_byte_runway_days :: "pyfloat option"
  mc_inode_runway_days :: "pyfloat option"
  mc_inode_used_pct :: "pyfloat option"
  mc_target_bytes :: "pyfloat option"

text \<open>The list of a nullable column, \<open>x or []\<close>.\<close>

definition rows_or_empty :: "'a list option \<Rightarrow> 'a list" where
  "rows_or_empty x = (case x of None \<Rightarrow> [] | Some xs \<Rightarrow> xs)"

section \<open>Statistics of a row\<close>

text \<open>\<open>(x or 0)\<close> on a nullable number.\<close>

definition or_zero :: "pyfloat option \<Rightarrow> pyfloat" where
  "or_zero x = (case x of None \<Rightarrow> 0 | Some v \<Rightarrow> v)"

definition net_total :: "ReportRowRaw \<Rightarrow> pyfloat option" where
  "net_total raw =
     (if rr_net_rx_kbps raw = None \<and> rr_net_tx_kbps raw = None then None
      else Some (fadd (or_zero (rr_net_rx_kbps raw)) (or_zero (rr_net_tx_kbps raw))))"

text \<open>The shares of expected samples that arrived, of the axes that were measured.\<close>

definition measured_sufficiencies :: "ReportRowRaw \<Rightarrow> pyfloat list" where
  "measured_sufficiencies raw =
     List.map_filter (\<lambda>(p95, s). if p95 = None then None else s)
       [(rr_cpu_p95_pct raw, rr_cpu_sufficiency raw), (rr_mem_p95_pct raw, rr_mem_sufficiency raw)]"

definition min_sufficiency :: "pyfloat list \<Rightarrow> pyfloat option" where
  "min_sufficiency suffs = (case suffs of [] \<Rightarrow> None | v # vs \<Rightarrow> Some (fold min vs v))"

definition build_resource_stats :: "ReportRowRaw \<Rightarrow> int option \<Rightarrow> ResourceStats" where
  "build_resource_stats raw disk_baseline =
     \<lparr>cpu_p95_pct = rr_cpu_p95_pct raw,
      cpu_peak_pct = rr_cpu_peak_pct raw,
      cpu_cores = rr_cpu_cores raw,
      mem_p95_pct = rr_mem_p95_pct raw,
      disk_used_pct = rr_worst_mount_used_pct raw,
      net_avg_kbytes_per_s = net_total raw,
      os_family = rr_os_family raw,
      sample_sufficiency = min_sufficiency (measured_sufficiencies raw),
      disk_queue_p95 = None,
      cpu_run_queue_p95 = rr_cpu_run_queue_p95 raw,
      mem_pages_input_rate_p95 = rr_mem_pages_input_rate_p95 raw,
      cpu_percore_p95_max = rr_cpu_percore_p95_max raw,
      procs_blocked_p95 = rr_procs_blocked_p95 raw,
      procs_running_p95 = rr_procs_running_p95 raw,
      mem_swap_paging = rr_mem_swap_paging raw,
      oom_occurred = rr_oom_occurred raw,
      mem_total_mb = map_option (\<lambda>b. b div 1024 ^ 2) (rr_mem_total_bytes raw),
      mem_near_peak_pct = rr_mem_near_peak_pct raw,
      disk_await_p95_ms = rr_disk_await_p95_ms raw,
      disk_iops_baseline = map_option of_int disk_baseline,
      disk_capacity_runway_days = rr_disk_capacity_runway_days raw,
      disk_inode_runway_days = rr_disk_inode_runway_days raw,
      disk_inode_used_pct = rr_disk_inode_used_pct raw,
      disk_capacity_target_gb = rr_disk_capacity_target_gb raw,
      net_retrans_pct = rr_net_retrans_pct raw,
      net_drop_pct = rr_net_drop_pct raw,
      conntrack_ratio = rr_conntrack_ratio raw,
      history_hours = rr_history_hours raw,
      cpu_burst_ratio = rr_cpu_burst_ratio raw,
      util_trend_rising =
        (if is_some_and (rr_history_hours raw) (\<lambda>h. h \<ge> RS_CONFIDENCE_MIN_HOURS)
         then util_trend_rising_from_slopes (rr_cpu_trend_slope raw) (rr_mem_trend_slope raw)
         else None),
      cpu_steal_p95_pct = rr_cpu_steal_p95_pct raw\<rparr>"

lemma build_resource_stats_sel [simp]:
  "cpu_p95_pct (build_resource_stats raw b) = rr_cpu_p95_pct raw"
  "cpu_cores (build_resource_stats raw b) = rr_cpu_cores raw"
  "mem_p95_pct (build_resource_stats raw b) = rr_mem_p95_pct raw"
  "disk_used_pct (build_resource_stats raw b) = rr_worst_mount_used_pct raw"
  "net_avg_kbytes_per_s (build_resource_stats raw b) = net_total raw"
  "os_family (build_resource_stats raw b) = rr_os_family raw"
  "sample_sufficiency (build_resource_stats raw b) = min_sufficiency (measured_sufficiencies raw)"
  "disk_queue_p95 (build_resource_stats raw b) = None"
  "cpu_run_queue_p95 (build_resource_stats raw b) = rr_cpu_run_queue_p95 raw"
  "mem_pages_input_rate_p95 (build_resource_stats raw b) = rr_mem_pages_input_rate_p95 raw"
  "procs_running_p95 (build_resource_stats raw b) = rr_procs_running_p95 raw"
  "mem_swap_paging (build_resource_stats raw b) = rr_mem_swap_paging raw"
  "oom_occurred (build_resource_stats raw b) = rr_oom_occurred raw"
  "mem_total_mb (build_resource_stats raw b) = map_option (\<lambda>n. n div 1024 ^ 2) (rr_mem_total_bytes raw)"
  "mem_near_peak_pct (build_resource_stats raw b) = rr_mem_near_peak_pct raw"
  "disk_await_p95_ms (build_resource_stats raw b) = rr_disk_await_p95_ms raw"
  "disk_iops_baseline (build_resource_stats raw b) = map_option of_int b"
  "net_retrans_pct (build_resource_stats raw b) = rr_net_retrans_pct raw"
  "net_drop_pct (build_resource_stats raw b) = rr_net_drop_pct raw"
  "conntrack_ratio (build_resource_stats raw b) = rr_conntrack_ratio raw"
  "history_hours (build_resource_stats raw b) = rr_history_hours raw"
  "cpu_burst_ratio (build_resource_stats raw b) = rr_cpu_burst_ratio raw"
  "cpu_steal_p95_pct (build_resource_stats raw b) = rr_cpu_steal_p95_pct raw"
  by (simp_all add: build_resource_stats_def)

end
