(* ===== verification/SharedDisplay.thy ===== *)
theory SharedDisplay
  imports ReportRows
begin

text \<open>
  The parts of a verdict that every page and both interfaces show the same way:
  \<open>web/services/mappers/shared.py\<close>.  Korean labels are constructors; a number printed with a fixed
  number of decimals is the integer it prints, in units of the last decimal.
\<close>

section \<open>Saturation axes\<close>

datatype axis_label = Axis_cpu_saturation | Axis_mem_saturation | Axis_disk_io_saturation

datatype axis_value =
  Value_na
  | Queue_per_core bool int     \<comment> \<open>\<open>W\<close> or \<open>L\<close>, hundredths\<close>
  | Pages_per_s int             \<comment> \<open>\<open>W\<close>, per second\<close>
  | Page_out bool               \<comment> \<open>\<open>L\<close>, occurred or not\<close>
  | Await_ms int

datatype axis_threshold = At_least pyfloat | At_least_per_s pyfloat | On_occurrence | Above_ms pyfloat

record SaturationAxisDisplay =
  sa_axis :: axis_label
  sa_signal :: string
  sa_value :: axis_value
  sa_threshold :: axis_threshold
  sa_measured :: bool
  sa_crossed :: bool

definition queue_per_core :: "pyfloat option \<Rightarrow> int option \<Rightarrow> pyfloat option" where
  "queue_per_core rq cores =
     (case (rq, cores) of
        (Some q, Some c) \<Rightarrow> if c = 0 then None else Some (fdiv q (of_pyint c))
      | _ \<Rightarrow> None)"

definition await_display :: "string \<Rightarrow> pyfloat option \<Rightarrow> SaturationAxisDisplay" where
  "await_display signal await_ms =
     \<lparr>sa_axis = Axis_disk_io_saturation, sa_signal = signal,
      sa_value = (case await_ms of None \<Rightarrow> Value_na | Some a \<Rightarrow> Await_ms (rhe a)),
      sa_threshold = Above_ms RS_DISKIO_AWAIT_MS, sa_measured = (await_ms \<noteq> None),
      sa_crossed = is_some_and await_ms (\<lambda>a. a > RS_DISKIO_AWAIT_MS)\<rparr>"

definition queue_display :: "bool \<Rightarrow> string \<Rightarrow> pyfloat option \<Rightarrow> pyfloat \<Rightarrow> SaturationAxisDisplay" where
  "queue_display win signal rq line =
     \<lparr>sa_axis = Axis_cpu_saturation, sa_signal = signal,
      sa_value = (case rq of None \<Rightarrow> Value_na | Some q \<Rightarrow> Queue_per_core win (rhe (q * 100))),
      sa_threshold = At_least line, sa_measured = (rq \<noteq> None),
      sa_crossed = is_some_and rq (\<lambda>q. q \<ge> line)\<rparr>"

definition saturation_axis_displays :: "ResourceStats \<Rightarrow> SaturationAxisDisplay list" where
  "saturation_axis_displays stats =
     (let cores = cpu_cores stats; await_ms = disk_await_p95_ms stats in
      if is_windows stats then
        let rq = queue_per_core (cpu_run_queue_p95 stats) cores;
            pages = mem_pages_input_rate_p95 stats
        in [queue_display True ''Processor Queue Length / core'' rq CPU_RUN_QUEUE_PER_CORE_SATURATION,
            \<lparr>sa_axis = Axis_mem_saturation, sa_signal = ''Memory Pages Input/sec p95'',
             sa_value = (case pages of None \<Rightarrow> Value_na | Some p \<Rightarrow> Pages_per_s (rhe p)),
             sa_threshold = At_least_per_s WIN_PAGES_INPUT_SATURATION, sa_measured = (pages \<noteq> None),
             sa_crossed = is_some_and pages (\<lambda>p. p \<ge> WIN_PAGES_INPUT_SATURATION)\<rparr>,
            await_display ''await p95 (IOCTL ReadTime/WriteTime)'' await_ms]
      else
        let rq = queue_per_core (procs_running_p95 stats) cores in
        [queue_display False ''run queue (procs_running) / core'' rq PROCS_RUNNING_PER_CORE_SATURATION,
         \<lparr>sa_axis = Axis_mem_saturation, sa_signal = ''swap page-out'',
          sa_value = Page_out (mem_swap_paging stats), sa_threshold = On_occurrence,
          sa_measured = True, sa_crossed = mem_swap_paging stats\<rparr>,
         await_display ''await p95'' await_ms])"

section \<open>Labels of the classification\<close>

datatype class_label = Lb_idle | Lb_excess | Lb_shortage | Lb_normal | Lb_few_samples

fun LABEL_KO :: "recommendation \<Rightarrow> class_label" where
  "LABEL_KO Rec_idle = Lb_idle"
| "LABEL_KO Rec_over_provisioned = Lb_excess"
| "LABEL_KO Rec_under_provisioned = Lb_shortage"
| "LABEL_KO Rec_optimal = Lb_normal"
| "LABEL_KO Rec_insufficient_data = Lb_few_samples"

section \<open>Confidence notes\<close>

datatype note_text =
  Note_saturation_unobserved | Note_few_samples | Note_window_short | Note_rising | Note_no_observation

definition build_host_confidence_notes :: "HostAssessment \<Rightarrow> note_text list" where
  "build_host_confidence_notes host =
     (if host_saturation_unmeasured host then [Note_saturation_unobserved] else []) @
     (if list_ex (\<lambda>k. is_some_and (resources host k) (\<lambda>r. low_precision (confidence r))) all_kinds
      then [Note_few_samples] else []) @
     (if is_some_and (host_sample_sufficiency host) (\<lambda>x. x < RS_DOWNSIZE_MIN_SUFFICIENCY)
      then [Note_window_short] else [])"

definition resource_confidence_notes :: "ConfidenceNote \<Rightarrow> note_text list" where
  "resource_confidence_notes c =
     (if low_precision c then [Note_few_samples] else []) @
     (if coverage_gap c then [Note_saturation_unobserved] else []) @
     (if nonstationary c then [Note_rising] else [])"

section \<open>Identity and specification\<close>

text \<open>The IPv4 addresses of the physical interfaces in order; the first one counts.\<close>

definition ipv4_nodes :: "json list \<Rightarrow> json list" where
  "ipv4_nodes interfaces =
     concat (map (\<lambda>i. if is_virtual_interface (get_str ''kind'' i) then []
                      else filter (\<lambda>a. get_str ''family'' a = Some ''ipv4'') (json_list i ''addresses''))
                 interfaces)"

definition primary_ip :: "ReportRowRaw \<Rightarrow> string option" where
  "primary_ip raw =
     (case ipv4_nodes (rows_or_empty (rr_net_interfaces raw)) of
        [] \<Rightarrow> None | a # _ \<Rightarrow> get_str ''address'' a)"

datatype spec_part = Spec_cores int | Spec_tenths_gb int | Spec_gb int | Spec_dash

definition spec_display_line :: "int option \<Rightarrow> int option \<Rightarrow> json list option \<Rightarrow> spec_part list" where
  "spec_display_line cores mem_total_bytes block_devices =
     (let disk_bytes = disk_total_bytes (rows_or_empty block_devices);
          mem_gib = bytes_to_gib mem_total_bytes;
          disk_gb = (if disk_bytes \<noteq> 0 then bytes_to_gb (Some disk_bytes) else None)
      in [case cores of None \<Rightarrow> Spec_dash | Some c \<Rightarrow> if c \<noteq> 0 then Spec_cores c else Spec_dash,
          case mem_gib of None \<Rightarrow> Spec_dash | Some m \<Rightarrow> if m \<noteq> 0 then Spec_tenths_gb (rhe (m * 10)) else Spec_dash,
          case disk_gb of None \<Rightarrow> Spec_dash | Some d \<Rightarrow> if d \<noteq> 0 then Spec_gb (rhe d) else Spec_dash])"

section \<open>Saturation blocks of the interfaces\<close>

record SaturationBlock =
  sb_signal :: string
  sb_value :: "pyfloat option"
  sb_threshold :: "pyfloat option"
  sb_unit :: string
  sb_measured :: bool
  sb_saturated :: "bool option"

definition saturation_dict ::
  "string \<Rightarrow> pyfloat option \<Rightarrow> pyfloat option \<Rightarrow> string \<Rightarrow> bool option \<Rightarrow> SaturationBlock" where
  "saturation_dict signal v threshold unit_name saturated =
     \<lparr>sb_signal = signal, sb_value = map_option (py_round 2) v, sb_threshold = threshold,
      sb_unit = unit_name, sb_measured = (v \<noteq> None), sb_saturated = saturated\<rparr>"

text \<open>Every kind but CPU and memory takes the branch of the disk.\<close>

definition saturation_block :: "resource_kind \<Rightarrow> ResourceStats \<Rightarrow> SaturationBlock" where
  "saturation_block knd stats =
     (let win = is_windows stats in
      if knd = Cpu then
        let rq = (if win then cpu_run_queue_p95 stats else procs_running_p95 stats);
            val = cpu_saturation_index rq (cpu_cores stats) (os_family stats);
            thr = (if win then CPU_RUN_QUEUE_PER_CORE_SATURATION else PROCS_RUNNING_PER_CORE_SATURATION);
            sig = (if win then ''Processor Queue Length/core'' else ''run queue (procs_running)/core'')
        in saturation_dict sig val (Some thr) ''per_core'' (cpu_saturated stats)
      else if knd = Memory then
        if win
        then saturation_dict ''Pages Input/sec'' (mem_pages_input_rate_p95 stats)
               (Some WIN_PAGES_INPUT_SATURATION) ''per_sec'' (mem_saturated stats)
        else
          let sat = mem_saturated stats in
          \<lparr>sb_signal = ''swap page-out'', sb_value = None, sb_threshold = None, sb_unit = ''event'',
           sb_measured = (sat \<noteq> None), sb_saturated = sat\<rparr>
      else
        (case disk_await_p95_ms stats of
           Some a \<Rightarrow> saturation_dict ''await'' (Some a) (Some RS_DISKIO_AWAIT_MS) ''ms'' (disk_io_saturated stats)
         | None \<Rightarrow>
             (case disk_queue_p95 stats of
                Some q \<Rightarrow> saturation_dict ''Avg Disk Queue Length'' (Some q)
                            (Some DISK_QUEUE_PER_DISK_SATURATION) ''queue'' (disk_io_saturated stats)
              | None \<Rightarrow>
                  \<lparr>sb_signal = ''await'', sb_value = None, sb_threshold = Some RS_DISKIO_AWAIT_MS, sb_unit = ''ms'',
                   sb_measured = False, sb_saturated = disk_io_saturated stats\<rparr>)))"

end
