(* ===== verification/RightSizing.thy ===== *)
theory RightSizing
  imports SharedDisplay
begin

text \<open>
  The right-sizing interface: \<open>web/services/mappers/right_sizing_api.py\<close>, with the records of
  \<open>web/view_models/right_sizing_api.py\<close>.  It answers, for one server, what each resource needs and which
  actions to take.  Korean labels are constructors and prescription texts are token lists.
\<close>

section \<open>Response records\<close>

record RsNetSignal =
  rn_value :: "pyfloat option"
  rn_threshold :: pyfloat
  rn_exceeded :: "bool option"
  rn_measured :: bool

record RsNetSignals =
  retransmit_pct :: RsNetSignal
  drop_pct :: RsNetSignal
  conntrack_signal :: RsNetSignal

datatype status_label =
  L_short | L_fit | L_room | L_few_samples | L_running_out | L_bottleneck | L_congested | L_normal
  | L_unobserved

record RsNetwork =
  nw_status :: resource_status
  nw_status_label :: status_label
  nw_congested :: bool
  nw_detail :: "detail option"
  nw_signals :: RsNetSignals

datatype action_op = Op_increase | Op_decrease | Op_tier_up

record RsAction =
  ac_resource :: resource_kind
  ac_op :: action_op
  ac_target_display :: "token list option"
  target_cores :: "int option"
  target_mb :: "int option"
  target_gb :: "int option"

datatype summary_text = Prescription "token list" | Action_text action_text

datatype recommendation_kind = Provision | Downsize | Decommission | Insufficient_kind | Maintain

record RsRecommendation =
  rs_summary :: summary_text
  rs_kind :: recommendation_kind
  rs_actions :: "RsAction list"
  rs_suppressed :: "RsAction list"

datatype evidence_label = Cause_label trigger_kind | Trigger_label trigger_kind

record RsCpuResource =
  rc_status :: resource_status
  rc_status_label :: status_label
  rc_utilization_p95_pct :: "pyfloat option"
  rc_saturation :: SaturationBlock
  rc_evidence :: "evidence_label list"
  rc_confidence_notes :: "note_text list"
  rc_current_cores :: "int option"
  rc_sizing_target_cores :: "int option"
  rc_recommendation :: "token list option"
  rc_detail :: "detail option"

record RsMemoryResource =
  rm_status :: resource_status
  rm_status_label :: status_label
  rm_utilization_p95_pct :: "pyfloat option"
  rm_saturation :: SaturationBlock
  rm_evidence :: "evidence_label list"
  rm_confidence_notes :: "note_text list"
  rm_current_mb :: "int option"
  rm_sizing_target_mb :: "int option"
  rm_recommendation :: "token list option"
  rm_detail :: "detail option"

record RsDiskCapacity =
  rd_status :: resource_status
  rd_status_label :: status_label
  rd_worst_mount :: "string option"
  rd_worst_mount_used_pct :: "pyfloat option"
  rd_days_until_full :: "int option"
  rd_evidence :: "evidence_label list"
  rd_confidence_notes :: "note_text list"
  rd_current_gb :: "int option"
  rd_sizing_target_gb :: "int option"
  rd_recommendation :: "token list option"
  rd_detail :: "detail option"

record RsDiskIo =
  ri_status :: resource_status
  ri_status_label :: status_label
  ri_saturation :: SaturationBlock
  ri_evidence :: "evidence_label list"
  ri_confidence_notes :: "note_text list"
  ri_detail :: "detail option"

record RsDisk =
  rk_capacity :: RsDiskCapacity
  rk_io :: RsDiskIo

record RsResources =
  re_cpu :: RsCpuResource
  re_memory :: RsMemoryResource
  re_disk :: RsDisk

record RightSizingServer =
  se_public_id :: string
  se_hostname :: string
  se_hostname_ambiguous :: bool
  se_primary_ip :: "string option"
  se_os_family :: "string option"
  se_online :: bool
  se_classification :: recommendation
  se_classification_label :: class_label
  se_root_cause :: "token list option"
  se_confidence_notes :: "note_text list"
  se_recommendation :: RsRecommendation
  se_resources :: RsResources
  se_network :: RsNetwork

section \<open>Labels\<close>

fun STATUS_LABEL_KO :: "resource_status \<Rightarrow> status_label" where
  "STATUS_LABEL_KO Under = L_short"
| "STATUS_LABEL_KO Optimal = L_fit"
| "STATUS_LABEL_KO Over = L_room"
| "STATUS_LABEL_KO Insufficient = L_few_samples"
| "STATUS_LABEL_KO Filling = L_running_out"
| "STATUS_LABEL_KO Capacity_ok = L_fit"
| "STATUS_LABEL_KO Io_bound = L_bottleneck"
| "STATUS_LABEL_KO Io_ok = L_fit"
| "STATUS_LABEL_KO Congested = L_congested"
| "STATUS_LABEL_KO Quality_ok = L_normal"
| "STATUS_LABEL_KO Unmeasured = L_unobserved"

text \<open>The keys of \<open>_CAUSE_LABEL_BY_TRIGGER\<close>, in its order.\<close>

definition CAUSE_LABEL_BY_TRIGGER :: "trigger_kind list" where
  "CAUSE_LABEL_BY_TRIGGER =
     [T_cpu_util, T_cpu_saturation, T_mem_util, T_mem_saturation, T_disk_capacity, T_disk_io]"

definition evidence_labels :: "trigger_kind list \<Rightarrow> evidence_label list" where
  "evidence_labels trs =
     map (\<lambda>t. if t \<in> set CAUSE_LABEL_BY_TRIGGER then Cause_label t else Trigger_label t) trs"

text \<open>\<open>x or None\<close> on a text.\<close>

definition tokens_or_none :: "token list \<Rightarrow> token list option" where
  "tokens_or_none x = (if x = [] then None else Some x)"

definition detail_or_none :: "detail \<Rightarrow> detail option" where
  "detail_or_none d = (if d = D_empty then None else Some d)"

definition sizeable_recommendation :: "resource_kind \<Rightarrow> ResourceAssessment \<Rightarrow> token list option" where
  "sizeable_recommendation knd ra =
     (if status ra \<in> {Under, Over, Io_bound, Filling} \<or> sizing_target ra \<noteq> None
      then tokens_or_none (resource_prescription knd ra) else None)"

section \<open>Resources\<close>

definition net_signal :: "pyfloat option \<Rightarrow> pyfloat \<Rightarrow> bool \<Rightarrow> RsNetSignal" where
  "net_signal v threshold inclusive =
     (case v of
        None \<Rightarrow> \<lparr>rn_value = None, rn_threshold = threshold, rn_exceeded = None, rn_measured = False\<rparr>
      | Some x \<Rightarrow>
          \<lparr>rn_value = Some (py_round 3 x), rn_threshold = threshold,
           rn_exceeded = Some (if inclusive then x \<ge> threshold else x > threshold), rn_measured = True\<rparr>)"

definition cpu_resource :: "ReportRowRaw \<Rightarrow> ResourceStats \<Rightarrow> HostAssessment \<Rightarrow> RsCpuResource" where
  "cpu_resource raw stats host =
     (let ra = the (resources host Cpu) in
      \<lparr>rc_status = status ra, rc_status_label = STATUS_LABEL_KO (status ra),
       rc_utilization_p95_pct = map_option (py_round 1) (rr_cpu_p95_pct raw),
       rc_saturation = saturation_block Cpu stats, rc_evidence = evidence_labels (triggers ra),
       rc_confidence_notes = resource_confidence_notes (confidence ra),
       rc_current_cores = cpu_cores stats, rc_sizing_target_cores = sizing_target ra,
       rc_recommendation = sizeable_recommendation Cpu ra, rc_detail = detail_or_none (detail_text ra)\<rparr>)"

definition memory_resource :: "ReportRowRaw \<Rightarrow> ResourceStats \<Rightarrow> HostAssessment \<Rightarrow> RsMemoryResource" where
  "memory_resource raw stats host =
     (let ra = the (resources host Memory) in
      \<lparr>rm_status = status ra, rm_status_label = STATUS_LABEL_KO (status ra),
       rm_utilization_p95_pct = map_option (py_round 1) (rr_mem_p95_pct raw),
       rm_saturation = saturation_block Memory stats, rm_evidence = evidence_labels (triggers ra),
       rm_confidence_notes = resource_confidence_notes (confidence ra),
       rm_current_mb = mem_total_mb stats, rm_sizing_target_mb = sizing_target ra,
       rm_recommendation = sizeable_recommendation Memory ra, rm_detail = detail_or_none (detail_text ra)\<rparr>)"

definition disk_resource :: "ReportRowRaw \<Rightarrow> ResourceStats \<Rightarrow> HostAssessment \<Rightarrow> RsDisk" where
  "disk_resource raw stats host =
     (let cap = the (resources host Disk_capacity);
          io = the (resources host Disk_io);
          dbytes = disk_total_bytes (rows_or_empty (rr_block_devices raw));
          dgb = (if dbytes \<noteq> 0 then bytes_to_gb (Some dbytes) else None)
      in
      \<lparr>rk_capacity =
         \<lparr>rd_status = status cap, rd_status_label = STATUS_LABEL_KO (status cap),
          rd_worst_mount = rr_disk_capacity_driving_mount raw,
          rd_worst_mount_used_pct = map_option (py_round 1) (rr_disk_capacity_driving_used_pct raw),
          rd_days_until_full = map_option py_int (rr_disk_capacity_runway_days raw),
          rd_evidence = evidence_labels (triggers cap),
          rd_confidence_notes = resource_confidence_notes (confidence cap),
          rd_current_gb = map_option py_int dgb, rd_sizing_target_gb = sizing_target cap,
          rd_recommendation = sizeable_recommendation Disk_capacity cap,
          rd_detail = detail_or_none (detail_text cap)\<rparr>,
       rk_io =
         \<lparr>ri_status = status io, ri_status_label = STATUS_LABEL_KO (status io),
          ri_saturation = saturation_block Disk_io stats, ri_evidence = evidence_labels (triggers io),
          ri_confidence_notes = resource_confidence_notes (confidence io),
          ri_detail = detail_or_none (detail_text io)\<rparr>\<rparr>)"

section \<open>The recommendation\<close>

definition action :: "resource_kind \<Rightarrow> ResourceAssessment \<Rightarrow> action_op \<Rightarrow> RsAction" where
  "action knd ra op =
     (let base = \<lparr>ac_resource = knd, ac_op = op,
                  ac_target_display = tokens_or_none (resource_prescription knd ra),
                  target_cores = None, target_mb = None, target_gb = None\<rparr>
      in case sizing_target ra of
           None \<Rightarrow> base
         | Some t \<Rightarrow>
             (case knd of
                Cpu \<Rightarrow> base\<lparr>target_cores := Some t\<rparr>
              | Memory \<Rightarrow> base\<lparr>target_mb := Some t\<rparr>
              | Disk_capacity \<Rightarrow> base\<lparr>target_gb := Some t\<rparr>
              | _ \<Rightarrow> base))"

definition io_advisory :: "HostAssessment \<Rightarrow> RsAction list" where
  "io_advisory host =
     (let io = the (resources host Disk_io) in
      if status io = Io_bound then [action Disk_io io Op_tier_up] else [])"

definition decrease_kinds :: "HostAssessment \<Rightarrow> ResourceStats \<Rightarrow> resource_kind list" where
  "decrease_kinds host stats =
     filter (\<lambda>k. let ra = the (resources host k) in
               status ra = Over \<and> downsize_prescribable ra stats \<and> sizing_target ra \<noteq> None)
       [Cpu, Memory]"

definition build_recommendation :: "HostAssessment \<Rightarrow> ResourceStats \<Rightarrow> recommendation \<Rightarrow> RsRecommendation" where
  "build_recommendation host stats r =
     (if r = Rec_under_provisioned then
        \<lparr>rs_summary = Prescription (under_prescription host), rs_kind = Provision,
         rs_actions = map (\<lambda>k. action k (the (resources host k)) Op_increase) (prescribed_under_kinds host)
                        @ io_advisory host,
         rs_suppressed = []\<rparr>
      else if r = Rec_over_provisioned then
        \<lparr>rs_summary = Action_text (recommend_action r stats), rs_kind = Downsize,
         rs_actions = map (\<lambda>k. action k (the (resources host k)) Op_decrease) (decrease_kinds host stats)
                        @ io_advisory host,
         rs_suppressed = []\<rparr>
      else
        \<lparr>rs_summary = Action_text (recommend_action r stats),
         rs_kind = (case r of Rec_idle \<Rightarrow> Decommission | Rec_insufficient_data \<Rightarrow> Insufficient_kind
                    | _ \<Rightarrow> Maintain),
         rs_actions = io_advisory host, rs_suppressed = []\<rparr>)"

section \<open>The entry of a server\<close>

definition build_right_sizing_entry :: "ReportRowRaw \<Rightarrow> bool \<Rightarrow> bool \<Rightarrow> RightSizingServer" where
  "build_right_sizing_entry raw is_online hostname_ambiguous =
     (let stats = build_resource_stats raw None;
          host = rollup_host stats;
          r = host_status_to_recommendation (host_status host);
          net = the (resources host Network)
      in
      \<lparr>se_public_id = rr_public_id raw, se_hostname = rr_hostname raw,
       se_hostname_ambiguous = hostname_ambiguous, se_primary_ip = primary_ip raw,
       se_os_family = rr_os_family raw, se_online = is_online, se_classification = r,
       se_classification_label = LABEL_KO r,
       se_root_cause = tokens_or_none (root_cause_display host),
       se_confidence_notes = build_host_confidence_notes host,
       se_recommendation = build_recommendation host stats r,
       se_resources = \<lparr>re_cpu = cpu_resource raw stats host, re_memory = memory_resource raw stats host,
                       re_disk = disk_resource raw stats host\<rparr>,
       se_network =
         \<lparr>nw_status = status net, nw_status_label = STATUS_LABEL_KO (status net),
          nw_congested = network_congested host, nw_detail = detail_or_none (detail_text net),
          nw_signals =
            \<lparr>retransmit_pct = net_signal (rr_net_retrans_pct raw) RS_NET_RETRANS_PCT False,
             drop_pct = net_signal (rr_net_drop_pct raw) RS_NET_DROP_PCT False,
             conntrack_signal = net_signal (rr_conntrack_ratio raw) RS_CONNTRACK_SATURATION_RATIO True\<rparr>\<rparr>\<rparr>)"

end
