(* ===== verification/AssessmentApi.thy ===== *)
theory AssessmentApi
  imports RightSizing
begin

text \<open>
  The assessment interface, the contract with the migration and recovery tools:
  \<open>web/services/mappers/assessment_api.py\<close> with the records of \<open>web/view_models/assessment_api.py\<close>.  An
  entry has the identity, the reproduction facts (JSON reshaped from the inventory columns), the sizing
  axes, the verdict with its confidence, and diagnostics.
\<close>

section \<open>Response records\<close>

record AssessmentIdentity =
  id_public_id :: string
  id_hostname :: string
  id_hostname_ambiguous :: bool
  id_primary_ip :: "string option"
  id_os_family :: "string option"
  id_online :: bool

datatype axis_action = Axis_increase | Axis_decrease | Axis_keep

datatype axis_quality = Q_exact | Q_floor | Q_uncertain

text \<open>The keys that only the axis of a mount has.\<close>

record DiskAxis =
  da_mountpoint :: string
  da_device_ref :: json
  da_used_pct :: "pyfloat option"
  da_runway_days :: "int option"
  da_inode_note :: bool

record SizingAxis =
  ax_axis :: resource_kind
  ax_current :: int
  ax_recommended :: int
  ax_unit :: string
  ax_action :: axis_action
  ax_quality :: axis_quality
  ax_disk :: "DiskAxis option"

datatype confidence_level = Conf_low | Conf_medium | Conf_high

record DataQuality =
  dq_sufficient :: bool
  dq_notes :: "note_text list"

record Assessment =
  as_classification :: recommendation
  as_confidence :: confidence_level
  as_data_quality :: DataQuality

record DiagUtilization =
  eval_pct :: "pyfloat option"
  sizing_pct :: "pyfloat option"

text \<open>The axis of a diagnosis names disk capacity \<open>disk\<close>; the field keeps the kind.\<close>

record DiagResource =
  dr_axis :: string
  dr_status :: resource_status
  dr_utilization :: DiagUtilization
  dr_saturation :: "SaturationBlock option"
  dr_confidence_notes :: "note_text list"

record DiagAdvisory =
  disk_io_tier_hint :: "string option"
  dv_network_congested :: bool

record Diagnostics =
  dg_root_cause :: "string option"
  dg_root_cause_detail :: "token list option"
  dg_resources :: "DiagResource list"
  dg_advisory :: DiagAdvisory

record AssessmentServer =
  sv_identity :: AssessmentIdentity
  sv_reproduction :: json
  sv_sizing :: "SizingAxis list"
  sv_assessment :: Assessment
  sv_diagnostics :: Diagnostics

section \<open>Identity\<close>

definition identity :: "ReportRowRaw \<Rightarrow> bool \<Rightarrow> bool \<Rightarrow> AssessmentIdentity" where
  "identity raw is_online hostname_ambiguous =
     \<lparr>id_public_id = rr_public_id raw, id_hostname = rr_hostname raw,
      id_hostname_ambiguous = hostname_ambiguous, id_primary_ip = primary_ip raw,
      id_os_family = rr_os_family raw, id_online = is_online\<rparr>"

section \<open>Reproduction\<close>

definition BOND_MODE_MAP :: "(string \<times> string) list" where
  "BOND_MODE_MAP =
     [(''802.3ad'', ''lacp''), (''active-backup'', ''active-backup''), (''balance-rr'', ''balance-rr''),
      (''balance-xor'', ''balance-xor''), (''broadcast'', ''broadcast''), (''balance-tlb'', ''balance-tlb''),
      (''balance-alb'', ''balance-alb'')]"

definition norm_bond_mode :: "json \<Rightarrow> json" where
  "norm_bond_mode v =
     (case v of
        JStr s \<Rightarrow> (case map_of BOND_MODE_MAP s of None \<Rightarrow> JNull | Some m \<Rightarrow> JStr m)
      | _ \<Rightarrow> JNull)"

text \<open>
  \<open>isinstance(v, int)\<close> holds of a bool too.  The text of a float, a list or an object is never all digits.
\<close>

definition norm_raid_level :: "json \<Rightarrow> json" where
  "norm_raid_level v =
     (case v of
        JInt n \<Rightarrow> JInt n
      | JBool b \<Rightarrow> JBool b
      | JStr s \<Rightarrow>
          (let l = str_lower s; d = (if prefix ''raid'' l then drop 4 l else l)
           in if isdigit d then JInt (int (nat_of_str d)) else JNull)
      | _ \<Rightarrow> JNull)"

definition BLOCK_DEVICE_KEYS :: "string list" where
  "BLOCK_DEVICE_KEYS =
     [''id'', ''id_type'', ''name'', ''type'', ''parent'', ''size_bytes'', ''partition_table'', ''sector_size'',
      ''serial'', ''wwn'', ''rotational'', ''part_number'', ''part_start_bytes'', ''part_type'', ''part_name'',
      ''part_flags'', ''fstype'', ''fs_uuid'', ''fs_label'', ''block_size'', ''mountpoint'', ''mount_options'',
      ''fs_freq'', ''fs_passno'', ''lvm_vg'', ''lvm_lv'', ''lvm_segtype'', ''lvm_stripes'',
      ''lvm_stripe_size_kib'', ''raid_level'', ''raid_chunk_kib'', ''raid_metadata'', ''raid_uuid'',
      ''crypt_type'']"

definition repro_block_device :: "json \<Rightarrow> json" where
  "repro_block_device d =
     JObj (map (\<lambda>k. (k, if k = ''raid_level'' then norm_raid_level (json_member d ''raid_level'')
                         else json_member d k)) BLOCK_DEVICE_KEYS)"

definition pick :: "json \<Rightarrow> string list \<Rightarrow> (string \<times> json) list" where
  "pick d ks = map (\<lambda>k. (k, json_member d k)) ks"

text \<open>\<open>link_speeds\<close> maps an interface id to bits per second.\<close>

definition interface_speed :: "json \<Rightarrow> (string \<rightharpoonup> int) option \<Rightarrow> json" where
  "interface_speed i link_speeds =
     (case (json_member i ''speed_mbps'', link_speeds, json_member i ''id'') of
        (JNull, Some speeds, JStr iface_id) \<Rightarrow>
          (case speeds iface_id of
             None \<Rightarrow> JNull
           | Some bps \<Rightarrow> if bps = 0 then JNull else JInt (bps div 1000000))
      | (speed, _, _) \<Rightarrow> speed)"

definition repro_interface :: "json \<Rightarrow> (string \<rightharpoonup> int) option \<Rightarrow> json" where
  "repro_interface i link_speeds =
     JObj (pick i [''id'', ''id_type'', ''name'', ''kind'', ''mtu''] @
           [(''addresses'',
             JList (map (\<lambda>a. JObj (pick a [''address'', ''prefix'', ''family'', ''origin'']))
                      (json_list i ''addresses'')))] @
           pick i [''gateway'', ''dns'', ''routes''] @
           [(''bond_mode'', norm_bond_mode (json_member i ''bond_mode''))] @
           pick i [''vlan_id''] @
           [(''speed_mbps'', interface_speed i link_speeds)])"

definition repro_lvm_vg :: "json \<Rightarrow> json" where
  "repro_lvm_vg v =
     JObj (pick v [''name'', ''vg_uuid'', ''size_bytes'', ''free_bytes'', ''extent_size_bytes'', ''pv_ids''])"

definition repro_mount :: "json \<Rightarrow> json" where
  "repro_mount m = JObj (pick m [''source'', ''target'', ''fstype'', ''options'', ''fs_freq'', ''fs_passno''])"

definition reproduction :: "ReportRowRaw \<Rightarrow> (string \<rightharpoonup> int) option \<Rightarrow> json" where
  "reproduction raw link_speeds =
     (let boot = (case rr_boot raw of None \<Rightarrow> JObj [] | Some b \<Rightarrow> b) in
      JObj
        [(''os'', JObj
           [(''family'', jstr (rr_os_family raw)), (''id'', jstr (rr_os_id raw)),
            (''version'', jstr (rr_os_version raw)), (''codename'', jstr (rr_os_codename raw)),
            (''kernel'', jstr (rr_kernel_version raw)), (''arch'', jstr (rr_arch raw)),
            (''bits'', jint (rr_bits raw)), (''boot_firmware'', jstr (rr_boot_firmware raw)),
            (''secure_boot'', jbool (rr_secure_boot raw)), (''edition'', jstr (rr_edition raw)),
            (''timezone'', jstr (rr_timezone raw)), (''rtc_utc'', jbool (rr_rtc_utc raw))]),
         (''boot'', JObj (pick boot [''kernel_cmdline'', ''root_ref_type'', ''grub_install_target''])),
         (''network'', JObj
           [(''interfaces'', JList (map (\<lambda>i. repro_interface i link_speeds)
                                     (rows_or_empty (rr_net_interfaces raw))))]),
         (''storage'', JObj
           [(''block_devices'', JList (map repro_block_device (rows_or_empty (rr_block_devices raw)))),
            (''lvm_vgs'', JList (map repro_lvm_vg (rows_or_empty (rr_lvm_vgs raw))))]),
         (''mounts'', JList (map repro_mount (rows_or_empty (rr_nonblock_mounts raw))))])"

section \<open>Sizing\<close>

definition axis_size :: "int \<Rightarrow> ResourceAssessment \<Rightarrow> ResourceStats \<Rightarrow> int \<times> axis_action \<times> axis_quality" where
  "axis_size current ra stats =
     (case status ra of
        Under \<Rightarrow>
          (case sizing_target ra of
             Some t \<Rightarrow> (t, Axis_increase, Q_exact)
           | None \<Rightarrow>
               (case sizing_floor ra of
                  Some f \<Rightarrow> (f, Axis_increase, Q_floor)
                | None \<Rightarrow> (current, Axis_keep, Q_uncertain)))
      | Over \<Rightarrow>
          (case sizing_target ra of
             Some t \<Rightarrow> if downsize_prescribable ra stats then (t, Axis_decrease, Q_exact)
                       else (current, Axis_keep, Q_exact)
           | None \<Rightarrow> (current, Axis_keep, Q_exact))
      | Unmeasured \<Rightarrow> (current, Axis_keep, Q_uncertain)
      | Insufficient \<Rightarrow> (current, Axis_keep, Q_uncertain)
      | _ \<Rightarrow> (current, Axis_keep, Q_exact))"

definition device_ref :: "ReportRowRaw \<Rightarrow> string option \<Rightarrow> json" where
  "device_ref raw mountpoint =
     (case List.find (\<lambda>d. json_member d ''mountpoint'' = jstr mountpoint)
             (rows_or_empty (rr_block_devices raw)) of
        None \<Rightarrow> JNull | Some d \<Rightarrow> json_member d ''id'')"

definition host_axis ::
  "ResourceStats \<Rightarrow> HostAssessment \<Rightarrow> resource_kind \<times> string \<times> int option \<Rightarrow> SizingAxis option" where
  "host_axis stats host = (\<lambda>(knd, unit_name, current).
     map_option
       (\<lambda>c. let (r, act, quality) = axis_size c (the (resources host knd)) stats in
            \<lparr>ax_axis = knd, ax_current = c, ax_recommended = r, ax_unit = unit_name,
             ax_action = act, ax_quality = quality, ax_disk = None\<rparr>)
       current)"

fun mount_axis_action :: "mount_action \<Rightarrow> axis_action" where
  "mount_axis_action Increase = Axis_increase"
| "mount_axis_action Keep = Axis_keep"

fun mount_axis_quality :: "estimate_quality \<Rightarrow> axis_quality" where
  "mount_axis_quality Exact = Q_exact"
| "mount_axis_quality Floor_estimate = Q_floor"

definition mount_axis :: "ReportRowRaw \<Rightarrow> MountCapacityRaw \<Rightarrow> SizingAxis option" where
  "mount_axis raw m =
     map_option
       (\<lambda>s. \<lparr>ax_axis = Disk_capacity, ax_current = current_gib s, ax_recommended = recommended_gib s,
             ax_unit = ''gib'', ax_action = mount_axis_action (mount_action s),
             ax_quality = mount_axis_quality (estimate s),
             ax_disk = Some \<lparr>da_mountpoint = mc_mountpoint m,
                             da_device_ref = device_ref raw (Some (mc_mountpoint m)),
                             da_used_pct = map_option (py_round 1) (mc_used_pct m),
                             da_runway_days = map_option py_int (mc_byte_runway_days m),
                             da_inode_note = inode_note s\<rparr>\<rparr>)
       (assess_mount_capacity (mc_total_bytes m) (mc_target_bytes m) (mc_byte_runway_days m) (mc_used_pct m)
          (mc_inode_runway_days m) (mc_inode_used_pct m))"

definition sizing ::
  "ReportRowRaw \<Rightarrow> ResourceStats \<Rightarrow> HostAssessment \<Rightarrow> MountCapacityRaw list \<Rightarrow> SizingAxis list" where
  "sizing raw stats host mounts =
     List.map_filter (host_axis stats host)
       [(Cpu, ''vcpus'', cpu_cores stats), (Memory, ''mib'', mem_total_mb stats)] @
     List.map_filter (mount_axis raw) mounts"

section \<open>Verdict and confidence\<close>

definition assessment :: "HostAssessment \<Rightarrow> Assessment" where
  "assessment host =
     (let r = host_status_to_recommendation (host_status host);
          notes = build_host_confidence_notes host;
          conf = (if r = Rec_insufficient_data then Conf_low
                  else if notes \<noteq> [] then Conf_medium else Conf_high);
          notes' = (if conf \<noteq> Conf_high \<and> notes = [] then [Note_no_observation] else notes)
      in \<lparr>as_classification = r, as_confidence = conf,
          as_data_quality = \<lparr>dq_sufficient = (conf = Conf_high), dq_notes = notes'\<rparr>\<rparr>)"

section \<open>Diagnostics\<close>

definition DIAG_AXES :: "resource_kind list" where
  "DIAG_AXES = [Cpu, Memory, Disk_capacity, Disk_io, Network]"

definition diag_util :: "resource_kind \<Rightarrow> ReportRowRaw \<Rightarrow> DiagUtilization" where
  "diag_util knd raw =
     (if knd = Cpu then
        (let p = map_option (py_round 1) (rr_cpu_p95_pct raw) in \<lparr>eval_pct = p, sizing_pct = p\<rparr>)
      else if knd = Memory then
        \<lparr>eval_pct = map_option (py_round 1) (rr_mem_p95_pct raw),
         sizing_pct = map_option (py_round 1) (rr_mem_near_peak_pct raw)\<rparr>
      else \<lparr>eval_pct = None, sizing_pct = None\<rparr>)"

text \<open>The lower-case names of the kinds, with disk capacity named \<open>disk\<close>.\<close>

fun axis_name :: "resource_kind \<Rightarrow> string" where
  "axis_name Cpu = ''cpu''"
| "axis_name Memory = ''memory''"
| "axis_name Disk_capacity = ''disk''"
| "axis_name Disk_io = ''disk_io''"
| "axis_name Network = ''network''"

definition diag_resource :: "resource_kind \<Rightarrow> ResourceAssessment \<Rightarrow> ReportRowRaw \<Rightarrow> ResourceStats \<Rightarrow> DiagResource" where
  "diag_resource knd ra raw stats =
     \<lparr>dr_axis = axis_name knd, dr_status = status ra, dr_utilization = diag_util knd raw,
      dr_saturation = (if knd \<in> {Cpu, Memory, Disk_io} then Some (saturation_block knd stats) else None),
      dr_confidence_notes = resource_confidence_notes (confidence ra)\<rparr>"

definition root_cause_axis :: "HostAssessment \<Rightarrow> string option" where
  "root_cause_axis host = map_option axis_name (root_cause host)"

definition diagnostics :: "ReportRowRaw \<Rightarrow> ResourceStats \<Rightarrow> HostAssessment \<Rightarrow> Diagnostics" where
  "diagnostics raw stats host =
     \<lparr>dg_root_cause = root_cause_axis host,
      dg_root_cause_detail = tokens_or_none (root_cause_display host),
      dg_resources = map (\<lambda>k. diag_resource k (the (resources host k)) raw stats) DIAG_AXES,
      dg_advisory =
        \<lparr>disk_io_tier_hint = (if status (the (resources host Disk_io)) = Io_bound then Some ''high_iops'' else None),
         dv_network_congested = network_congested host\<rparr>\<rparr>"

section \<open>The entry of a server and the envelope\<close>

definition build_assessment_entry ::
  "ReportRowRaw \<Rightarrow> MountCapacityRaw list \<Rightarrow> bool \<Rightarrow> bool \<Rightarrow> (string \<rightharpoonup> int) option \<Rightarrow> AssessmentServer" where
  "build_assessment_entry raw mounts is_online hostname_ambiguous link_speeds =
     (let stats = build_resource_stats raw None; host = rollup_host stats in
      \<lparr>sv_identity = identity raw is_online hostname_ambiguous,
       sv_reproduction = reproduction raw link_speeds,
       sv_sizing = sizing raw stats host mounts,
       sv_assessment = assessment host,
       sv_diagnostics = diagnostics raw stats host\<rparr>)"

definition API_CONTRACT_VERSION :: string where "API_CONTRACT_VERSION = ''1.0''"

record AssessmentWindow =
  aw_days :: int
  aw_start :: string
  aw_end :: string

record AssessmentWarnings =
  ambiguous_hostnames :: "string list"
  unresolved_pairs :: "string list"
  unmatched_filters :: "string list"

text \<open>The result of \<open>QueryService.get_assessment\<close>.\<close>

record AssessmentResult =
  ar_servers :: "AssessmentServer list"
  ar_warnings :: AssessmentWarnings

record AssessmentEnvelope =
  en_contract_version :: string
  en_generated_at :: string
  en_window :: AssessmentWindow
  en_filter :: json
  en_warnings :: AssessmentWarnings
  en_count :: nat
  en_servers :: "AssessmentServer list"

text \<open>The fixed text \<open>basis\<close> of the window is left out.\<close>

definition build_assessment_envelope ::
  "AssessmentResult \<Rightarrow> string \<Rightarrow> int \<Rightarrow> string \<Rightarrow> string \<Rightarrow> json \<Rightarrow> AssessmentEnvelope" where
  "build_assessment_envelope res generated_at window_days window_start window_end filters =
     \<lparr>en_contract_version = API_CONTRACT_VERSION, en_generated_at = generated_at,
      en_window = \<lparr>aw_days = window_days, aw_start = window_start, aw_end = window_end\<rparr>,
      en_filter = filters, en_warnings = ar_warnings res, en_count = length (ar_servers res),
      en_servers = ar_servers res\<rparr>"

end
