(* ===== verification/AssessmentContract.thy ===== *)
theory AssessmentContract
  imports AssessmentApi
begin

text \<open>
  What the two interfaces promise: the sizing contract of \<open>docs/reference/contracts/assessment-api.md\<close>, and the
  data-quality rule.  The agreement with the right-sizing actions is in \<open>InterfaceProps\<close>, the reproduction of
  what the agent reported in \<open>ReproductionProps\<close>.
\<close>

section \<open>One axis\<close>

text \<open>Section 4.4 of the contract, for one axis.\<close>

definition contract_axis :: "SizingAxis \<Rightarrow> bool" where
  "contract_axis a \<longleftrightarrow>
     (ax_action a = Axis_increase \<longleftrightarrow> ax_current a < ax_recommended a) \<and>
     (ax_action a = Axis_decrease \<longleftrightarrow> ax_recommended a < ax_current a) \<and>
     (ax_action a = Axis_keep \<longleftrightarrow> ax_recommended a = ax_current a) \<and>
     (ax_axis a = Disk_capacity \<longrightarrow> ax_action a \<noteq> Axis_decrease) \<and>
     (ax_action a, ax_quality a) \<in>
       {(Axis_increase, Q_exact), (Axis_increase, Q_floor), (Axis_keep, Q_exact), (Axis_keep, Q_uncertain),
        (Axis_decrease, Q_exact)}"

text \<open>The branches of \<open>axis_size\<close>, one equation each.\<close>

lemma axis_size_under:
  assumes "status ra = Under"
  shows "sizing_target ra = Some t \<Longrightarrow> axis_size c ra s = (t, Axis_increase, Q_exact)"
    and "sizing_target ra = None \<Longrightarrow> sizing_floor ra = Some f \<Longrightarrow> axis_size c ra s = (f, Axis_increase, Q_floor)"
  using assms by (simp_all add: axis_size_def)

lemma axis_size_over:
  assumes "status ra = Over" and "sizing_target ra = Some t"
  shows "axis_size c ra s = (if downsize_prescribable ra s then (t, Axis_decrease, Q_exact)
                              else (c, Axis_keep, Q_exact))"
  using assms by (simp add: axis_size_def)

lemma axis_size_other:
  assumes "status ra \<noteq> Under" and "status ra \<noteq> Over"
  shows "axis_size c ra s = (c, Axis_keep, Q_uncertain) \<or> axis_size c ra s = (c, Axis_keep, Q_exact)"
  using assms by (cases "status ra") (simp_all add: axis_size_def)

definition valid_size :: "int \<Rightarrow> ResourceAssessment \<Rightarrow> ResourceStats \<Rightarrow> bool" where
  "valid_size c ra s \<longleftrightarrow>
     (case axis_size c ra s of (r, act, q) \<Rightarrow>
        (act = Axis_increase \<longleftrightarrow> status ra = Under) \<and>
        (act = Axis_decrease \<longleftrightarrow> downsize_prescribable ra s) \<and>
        (act = Axis_increase \<longrightarrow> c < r) \<and> (act = Axis_decrease \<longrightarrow> r < c) \<and> (act = Axis_keep \<longrightarrow> r = c) \<and>
        (act, q) \<in> {(Axis_increase, Q_exact), (Axis_increase, Q_floor), (Axis_keep, Q_exact),
                     (Axis_keep, Q_uncertain), (Axis_decrease, Q_exact)} \<and>
        (act \<noteq> Axis_keep \<longrightarrow> q = Q_exact \<longrightarrow> sizing_target ra = Some r))"

lemma valid_sizeI:
  assumes up: "status ra = Under \<Longrightarrow> (\<exists>t > c. sizing_target ra = Some t) \<or>
                 sizing_target ra = None \<and> (\<exists>f > c. sizing_floor ra = Some f)"
    and down: "status ra = Over \<Longrightarrow> \<exists>t < c. sizing_target ra = Some t"
  shows "valid_size c ra s"
proof -
  consider (under) "status ra = Under" | (over) "status ra = Over"
    | (other) "status ra \<noteq> Under" "status ra \<noteq> Over" by blast
  then show ?thesis
  proof cases
    case under
    then have "\<not> downsize_prescribable ra s" by (simp add: downsize_prescribable_def)
    with up [OF under] under show ?thesis
      by (elim disjE exE conjE) (simp_all add: valid_size_def axis_size_under)
  next
    case over
    with down [OF over] show ?thesis
      by (elim exE conjE) (simp add: valid_size_def axis_size_over)
  next
    case other
    then have "\<not> downsize_prescribable ra s" by (simp add: downsize_prescribable_def)
    with axis_size_other [OF other, of c s] other show ?thesis
      by (elim disjE) (simp_all add: valid_size_def)
  qed
qed

lemma assess_memory_over_below:
  "status (assess_memory s) = Over \<Longrightarrow>
     \<exists>t g. mem_total_mb s = Some t \<and> sizing_target (assess_memory s) = Some g \<and> g < t"
  by (auto simp: assess_memory_def Let_def split: option.splits if_splits)

lemma assess_cpu_over_below:
  "status (assess_cpu s) = Over \<Longrightarrow>
     \<exists>c t. cpu_cores s = Some c \<and> sizing_target (assess_cpu s) = Some t \<and> t < c"
  by (auto simp: assess_cpu_def Let_def split: option.splits if_splits)

lemma valid_size_cpu: "cpu_cores s = Some c \<Longrightarrow> valid_size c (assess_cpu s) s"
  using assess_cpu_under_sized [of s] assess_cpu_over_below [of s] by (intro valid_sizeI) auto

lemma valid_size_memory:
  assumes "mem_total_mb s = Some t" "0 < t" "t \<le> 2 ^ 50"
  shows "valid_size t (assess_memory s) s"
  using assess_memory_under_sized [OF _ assms] assess_memory_over_below [of s] assms(1)
  by (intro valid_sizeI) auto

section \<open>The axes of an entry\<close>

abbreviation entry_stats :: "ReportRowRaw \<Rightarrow> ResourceStats" where
  "entry_stats raw \<equiv> build_resource_stats raw None"

lemma entry_sizing:
  "sv_sizing (build_assessment_entry raw mounts online ambiguous speeds) =
     sizing raw (entry_stats raw) (rollup_host (entry_stats raw)) mounts"
  by (simp add: build_assessment_entry_def Let_def)

lemma host_axis_Some:
  "host_axis s (rollup_host s) (k, u, cur) = Some a \<longleftrightarrow>
     (\<exists>c. cur = Some c \<and>
        a = (case axis_size c (assess s k) s of (r, act, q) \<Rightarrow>
               \<lparr>ax_axis = k, ax_current = c, ax_recommended = r, ax_unit = u, ax_action = act,
                ax_quality = q, ax_disk = None\<rparr>))"
  by (cases cur) (auto simp: host_axis_def Let_def)

lemma in_map_filter: "x \<in> set (List.map_filter f xs) \<longleftrightarrow> (\<exists>y \<in> set xs. f y = Some x)"
  by (induction xs) (auto simp: List.map_filter_simps split: option.splits)

lemma sizing_axis_cases:
  assumes "a \<in> set (sizing raw s (rollup_host s) mounts)"
  obtains (cpu) "host_axis s (rollup_host s) (Cpu, ''vcpus'', cpu_cores s) = Some a"
    | (memory) "host_axis s (rollup_host s) (Memory, ''mib'', mem_total_mb s) = Some a"
    | (disk) m where "m \<in> set mounts" "mount_axis raw m = Some a"
  using assms unfolding sizing_def set_append Un_iff in_map_filter
  by (elim disjE bexE) (auto intro: that)

lemma host_axis_contract:
  assumes a: "host_axis s (rollup_host s) (k, u, cur) = Some a" and k: "k \<noteq> Disk_capacity"
    and valid: "\<And>c. cur = Some c \<Longrightarrow> valid_size c (assess s k) s"
  shows "contract_axis a \<and> ax_axis a = k \<and>
    (ax_action a = Axis_increase \<longleftrightarrow> status (assess s k) = Under) \<and>
    (ax_action a = Axis_decrease \<longleftrightarrow> downsize_prescribable (assess s k) s)"
proof -
  obtain c where c: "cur = Some c" and
    a': "a = (case axis_size c (assess s k) s of (r, act, q) \<Rightarrow>
               \<lparr>ax_axis = k, ax_current = c, ax_recommended = r, ax_unit = u, ax_action = act,
                ax_quality = q, ax_disk = None\<rparr>)"
    using a unfolding host_axis_Some by blast
  obtain r act q where e: "axis_size c (assess s k) s = (r, act, q)" by (cases "axis_size c (assess s k) s")
  have v: "act = Axis_increase \<longleftrightarrow> status (assess s k) = Under"
    "act = Axis_decrease \<longleftrightarrow> downsize_prescribable (assess s k) s"
    "act = Axis_increase \<longrightarrow> c < r" "act = Axis_decrease \<longrightarrow> r < c" "act = Axis_keep \<longrightarrow> r = c"
    "(act, q) \<in> {(Axis_increase, Q_exact), (Axis_increase, Q_floor), (Axis_keep, Q_exact),
                 (Axis_keep, Q_uncertain), (Axis_decrease, Q_exact)}"
    using valid [OF c, unfolded valid_size_def e prod.case] by blast+
  have "contract_axis a"
    using v(3-6) k unfolding a' e contract_axis_def by (cases act) auto
  then show ?thesis using v(1,2) unfolding a' e by simp
qed

lemma mount_axis_contract:
  assumes a: "mount_axis raw m = Some a"
    and size: "\<And>b. mc_total_bytes m = Some b \<Longrightarrow> 0 \<le> b \<and> b \<le> 2 ^ 53"
  shows "contract_axis a \<and> ax_axis a = Disk_capacity"
proof -
  obtain z where z: "assess_mount_capacity (mc_total_bytes m) (mc_target_bytes m) (mc_byte_runway_days m)
      (mc_used_pct m) (mc_inode_runway_days m) (mc_inode_used_pct m) = Some z"
    and f: "ax_axis a = Disk_capacity" "ax_current a = current_gib z" "ax_recommended a = recommended_gib z"
      "ax_action a = mount_axis_action (mount_action z)" "ax_quality a = mount_axis_quality (estimate z)"
    using a by (auto simp: mount_axis_def)
  obtain b where b: "mc_total_bytes m = Some b" "b \<noteq> 0"
    using z by (cases "mc_total_bytes m") (auto simp: assess_mount_capacity_def split: if_splits)
  have grow: "current_gib z \<le> recommended_gib z \<and>
      (mount_action z = Increase \<longleftrightarrow> current_gib z < recommended_gib z)"
    using mount_never_shrinks [of b] z b size [OF b(1)] by simp
  have q: "mount_action z = Keep \<longrightarrow> estimate z = Exact"
    using z b by (auto simp: assess_mount_capacity_def Let_def split: option.splits bool.splits prod.splits if_splits)
  show ?thesis
    using grow q f unfolding contract_axis_def
    by (cases "mount_action z"; cases "estimate z") auto
qed

text \<open>
  Claim C1: the sizing contract of the assessment interface.  On every axis of every entry
  the action is an increase exactly when more is recommended than there is, a decrease exactly when less
  is, and otherwise the recommendation is the current size; a mount never shrinks; the estimate quality is
  one the contract allows for the action.  A CPU or memory axis grows exactly when the resource is short
  and shrinks exactly when the downsize gate lets it, whatever the binary64 roundings of the targets do.
\<close>

theorem sizing_contract:
  assumes "\<forall>b. rr_mem_total_bytes raw = Some b \<longrightarrow> 2 ^ 20 \<le> b \<and> b \<le> 2 ^ 53"
    and "\<forall>m \<in> set mounts. \<forall>b. mc_total_bytes m = Some b \<longrightarrow> 0 \<le> b \<and> b \<le> 2 ^ 53"
    and "a \<in> set (sv_sizing (build_assessment_entry raw mounts online ambiguous speeds))"
  shows "contract_axis a \<and> ax_axis a \<in> {Cpu, Memory, Disk_capacity} \<and>
    (ax_axis a \<noteq> Disk_capacity \<longrightarrow>
       (ax_action a = Axis_increase \<longleftrightarrow> status (assess (entry_stats raw) (ax_axis a)) = Under) \<and>
       (ax_action a = Axis_decrease \<longleftrightarrow>
          downsize_prescribable (assess (entry_stats raw) (ax_axis a)) (entry_stats raw)))"
  using assms(3) unfolding entry_sizing
proof (cases rule: sizing_axis_cases)
  case cpu
  from host_axis_contract [OF cpu] show ?thesis using valid_size_cpu by auto
next
  case memory
  have "valid_size t (assess_memory (entry_stats raw)) (entry_stats raw)"
    if t: "mem_total_mb (entry_stats raw) = Some t" for t
  proof -
    obtain b where b: "rr_mem_total_bytes raw = Some b" "t = b div 1024 ^ 2" using t by auto
    then have "2 ^ 20 \<le> b" "b \<le> 2 ^ 53" using assms(1) by auto
    then have "0 < t" "t \<le> 2 ^ 50" unfolding b(2) by (simp_all add: pos_imp_zdiv_pos_iff)
    then show ?thesis using t by (intro valid_size_memory)
  qed
  with host_axis_contract [OF memory] show ?thesis by auto
next
  case (disk m)
  with mount_axis_contract [OF disk(2)] assms(2) show ?thesis by auto
qed

text \<open>A row without any measurement.\<close>

definition row0 :: ReportRowRaw where
  "row0 =
     \<lparr>rr_server_id = 0, rr_public_id = '''', rr_hostname = '''', rr_os_family = None, rr_os_id = None,
      rr_os_version = None, rr_os_codename = None, rr_kernel_version = None, rr_net_interfaces = None,
      rr_services = None, rr_last_seen_at = None, rr_cpu_p95_pct = None, rr_cpu_avg_pct = None,
      rr_cpu_peak_pct = None, rr_mem_p95_pct = None, rr_mem_avg_pct = None, rr_mem_peak_pct = None,
      rr_mem_near_peak_pct = None, rr_listen_ports = None, rr_iowait_p95_pct = None, rr_iowait_peak_pct = None,
      rr_cpu_run_queue_p95 = None, rr_mem_pages_input_rate_p95 = None, rr_cpu_cores = None,
      rr_mem_total_bytes = None, rr_block_devices = None, rr_lvm_vgs = None, rr_arch = None, rr_bits = None,
      rr_boot_firmware = None, rr_secure_boot = None, rr_edition = None, rr_product_name = None,
      rr_timezone = None, rr_rtc_utc = None, rr_boot = None, rr_nonblock_mounts = None, rr_boot_time = None,
      rr_worst_mount_used_pct = None, rr_disk_capacity_worst_mount = None, rr_reboot_count = 0,
      rr_agent_restart_count = 0, rr_disk_iops_baseline = None, rr_disk_iops_p95 = None,
      rr_disk_iops_peak = None, rr_disk_throughput_kbps = None, rr_disk_throughput_kbps_p95 = None,
      rr_disk_throughput_kbps_peak = None, rr_net_rx_kbps = None, rr_net_rx_kbps_p95 = None,
      rr_net_rx_kbps_peak = None, rr_net_tx_kbps = None, rr_net_tx_kbps_p95 = None, rr_net_tx_kbps_peak = None,
      rr_cpu_sufficiency = None, rr_mem_sufficiency = None, rr_cpu_steal_p95_pct = None,
      rr_cpu_burst_ratio = None, rr_procs_blocked_p95 = None, rr_procs_running_p95 = None,
      rr_mem_swap_paging = False, rr_oom_occurred = False, rr_history_hours = None,
      rr_disk_await_p95_ms = None, rr_disk_capacity_runway_days = None, rr_disk_capacity_driving_mount = None,
      rr_disk_inode_runway_days = None, rr_disk_inode_used_pct = None, rr_disk_capacity_target_gb = None,
      rr_disk_capacity_proj_30d_pct = None, rr_disk_capacity_driving_used_pct = None, rr_net_drop_pct = None,
      rr_net_retrans_pct = None, rr_conntrack_ratio = None, rr_cpu_trend_slope = None,
      rr_mem_trend_slope = None, rr_cpu_percore_p95_max = None\<rparr>"

lemma row0_sel [simp]:
  "rr_cpu_cores row0 = None" "rr_cpu_p95_pct row0 = None" "rr_mem_total_bytes row0 = None"
  "rr_os_family row0 = None" "rr_procs_running_p95 row0 = None" "rr_mem_p95_pct row0 = None"
  "rr_cpu_run_queue_p95 row0 = None" "rr_disk_await_p95_ms row0 = None"
  by (simp_all add: row0_def)

theorem sizing_contract_witness:
  "\<exists>a \<in> set (sv_sizing (build_assessment_entry
      (row0\<lparr>rr_cpu_cores := Some 4, rr_cpu_p95_pct := Some 90\<rparr>)
      [\<lparr>mc_mountpoint = ''/'', mc_total_bytes = Some (2 ^ 30), mc_used_pct = Some 90, mc_byte_runway_days = None,
        mc_inode_runway_days = None, mc_inode_used_pct = None, mc_target_bytes = None\<rparr>] True False None)).
     ax_axis a = Cpu \<and> ax_current a < ax_recommended a"
proof -
  let ?raw = "row0\<lparr>rr_cpu_cores := Some 4, rr_cpu_p95_pct := Some 90\<rparr>"
  let ?ms = "[\<lparr>mc_mountpoint = ''/'', mc_total_bytes = Some (2 ^ 30), mc_used_pct = Some 90,
        mc_byte_runway_days = None, mc_inode_runway_days = None, mc_inode_used_pct = None,
        mc_target_bytes = None\<rparr>]"
  let ?s = "entry_stats ?raw"
  have cores: "cpu_cores ?s = Some 4" by simp
  have u: "status (assess_cpu ?s) = Under"
    using assess_cpu_known(1) [of ?s 4] by (simp add: cpu_saturated_def)
  obtain a where a: "host_axis ?s (rollup_host ?s) (Cpu, ''vcpus'', cpu_cores ?s) = Some a"
    unfolding host_axis_Some cores by blast
  then have m: "a \<in> set (sv_sizing (build_assessment_entry ?raw ?ms True False None))"
    unfolding entry_sizing sizing_def by (simp add: List.map_filter_simps)
  have k: "ax_axis a = Cpu" using a unfolding host_axis_Some by (auto split: prod.splits)
  have "contract_axis a \<and> (ax_action a = Axis_increase \<longleftrightarrow> status (assess ?s (ax_axis a)) = Under)"
    using sizing_contract [OF _ _ m] unfolding k by simp
  then have "ax_action a = Axis_increase" "contract_axis a" using u k by simp_all
  then have "ax_current a < ax_recommended a" unfolding contract_axis_def by blast
  with m k show ?thesis by blast
qed

section \<open>Confidence of the verdict\<close>

lemma assess_cpu_unmeasured_gap: "status (assess_cpu s) = Unmeasured \<Longrightarrow> coverage_gap (confidence (assess_cpu s))"
  unfolding assess_cpu_gap
  by (auto simp: assess_cpu_def cpu_saturated_def Let_def split: option.splits if_splits)

lemma unmeasured_hosts_have_a_note:
  assumes "host_status (rollup_host s) = HS_insufficient"
  shows "host_saturation_unmeasured (rollup_host s)"
proof -
  have "status (assess_cpu s) \<in> {Unmeasured, Insufficient}"
    using assms by (auto simp: rollup_status_def Let_def split: if_splits)
  then have "coverage_gap (confidence (assess_cpu s))"
    using assess_cpu_status [of s] assess_cpu_unmeasured_gap by auto
  then show ?thesis by (simp add: host_saturation_unmeasured_def SATURATION_KINDS_def)
qed

text \<open>
  The data-quality rule of the contract.  The data are called sufficient exactly
  when the confidence is high, exactly when there is no note; the confidence is low exactly on a host with
  insufficient data; and such a host always has a note of its own, so the emergency note of the code is
  never used.
\<close>

theorem data_quality_rule:
  "let v = sv_assessment (build_assessment_entry raw mounts online ambiguous speeds); q = as_data_quality v in
   (dq_sufficient q \<longleftrightarrow> as_confidence v = Conf_high) \<and> (as_confidence v = Conf_high \<longleftrightarrow> dq_notes q = []) \<and>
   (as_confidence v = Conf_low \<longleftrightarrow> as_classification v = Rec_insufficient_data) \<and>
   set (dq_notes q) \<subseteq> {Note_saturation_unobserved, Note_few_samples, Note_window_short} \<and> distinct (dq_notes q)"
proof -
  let ?h = "rollup_host (entry_stats raw)"
  let ?n = "build_host_confidence_notes ?h"
  have v: "sv_assessment (build_assessment_entry raw mounts online ambiguous speeds) = assessment ?h"
    by (simp add: build_assessment_entry_def Let_def)
  have some: "?n \<noteq> []" if "host_status_to_recommendation (host_status ?h) = Rec_insufficient_data"
    using unmeasured_hosts_have_a_note that
    by (auto simp: build_host_confidence_notes_def host_status_to_recommendation_def split: host_status.splits)
  have n: "set ?n \<subseteq> {Note_saturation_unobserved, Note_few_samples, Note_window_short}" "distinct ?n"
    by (auto simp: build_host_confidence_notes_def)
  show ?thesis
    unfolding v assessment_def Let_def using some n
    by (cases "host_status_to_recommendation (host_status ?h) = Rec_insufficient_data") simp_all
qed

end
