(* ===== verification/ReportSource.thy ===== *)
theory ReportSource
  imports ReportRows CollectInvariant
begin

text \<open>
  The rows of a report (\<open>report_aggregate\<close>, db/repositories/query/report_sql.py) as far as they come from the
  inventory: the statement selects the servers asked for, left-joins the aggregates of the period and passes
  the inventory columns through.  The aggregates are computed by the SQL of the time-series database; they
  are the argument \<open>aggregates\<close>, a row per server whose inventory columns do not matter.  The public
  identifiers and the order of the database's collation are arguments as well.
\<close>

definition report_row :: "(int \<Rightarrow> string) \<Rightarrow> (int \<Rightarrow> ReportRowRaw) \<Rightarrow> ServerInventory \<Rightarrow> ReportRowRaw" where
  "report_row public_id aggregates s =
     (aggregates (si_id s))
       \<lparr>rr_server_id := si_id s, rr_public_id := public_id (si_id s), rr_hostname := si_hostname s,
        rr_os_family := si_os_family s, rr_os_id := si_os_id s, rr_os_version := si_os_version s,
        rr_os_codename := si_os_codename s, rr_kernel_version := si_kernel_version s,
        rr_net_interfaces := Some (si_net_interfaces s), rr_services := si_services s,
        rr_listen_ports := Some (si_listen_ports s), rr_last_seen_at := Some (si_last_seen_at s),
        rr_cpu_cores := si_cpu_cores s, rr_mem_total_bytes := si_mem_total_bytes s,
        rr_block_devices := Some (si_block_devices s), rr_lvm_vgs := Some (si_lvm_vgs s),
        rr_boot_time := si_boot_time s, rr_arch := si_arch s, rr_bits := si_bits s,
        rr_boot_firmware := si_boot_firmware s, rr_secure_boot := si_secure_boot s,
        rr_edition := si_edition s, rr_product_name := si_product_name s, rr_timezone := si_timezone s,
        rr_rtc_utc := si_rtc_utc s, rr_boot := si_boot s, rr_nonblock_mounts := si_nonblock_mounts s\<rparr>"

definition report_aggregate ::
  "(string \<Rightarrow> 'k :: linorder) \<Rightarrow> (int \<Rightarrow> string) \<Rightarrow> (int \<Rightarrow> ReportRowRaw) \<Rightarrow> int list \<Rightarrow> db \<Rightarrow> ReportRowRaw list" where
  "report_aggregate collation public_id aggregates server_ids d =
     map (report_row public_id aggregates)
       (sort_key (\<lambda>s. collation (si_hostname s)) (filter (\<lambda>s. si_id s \<in> set server_ids) (servers d)))"

lemma report_row_sel [simp]:
  "rr_server_id (report_row pub agg s) = si_id s" "rr_os_family (report_row pub agg s) = si_os_family s"
  "rr_os_id (report_row pub agg s) = si_os_id s" "rr_os_version (report_row pub agg s) = si_os_version s"
  "rr_os_codename (report_row pub agg s) = si_os_codename s"
  "rr_kernel_version (report_row pub agg s) = si_kernel_version s" "rr_arch (report_row pub agg s) = si_arch s"
  "rr_bits (report_row pub agg s) = si_bits s" "rr_boot_firmware (report_row pub agg s) = si_boot_firmware s"
  "rr_secure_boot (report_row pub agg s) = si_secure_boot s" "rr_edition (report_row pub agg s) = si_edition s"
  "rr_timezone (report_row pub agg s) = si_timezone s" "rr_rtc_utc (report_row pub agg s) = si_rtc_utc s"
  "rr_boot (report_row pub agg s) = si_boot s" "rr_net_interfaces (report_row pub agg s) = Some (si_net_interfaces s)"
  "rr_block_devices (report_row pub agg s) = Some (si_block_devices s)"
  "rr_lvm_vgs (report_row pub agg s) = Some (si_lvm_vgs s)"
  "rr_nonblock_mounts (report_row pub agg s) = si_nonblock_mounts s"
  unfolding report_row_def by simp_all

lemma upsert_keeps_other_rows:
  assumes inv: "servers_inv d" and r: "r \<in> set (servers d)" and other: "si_agent_id r \<noteq> ic_agent_id x"
  shows "r \<in> set (servers (snd (upsert_server x d)))"
proof -
  have "r \<in> set (filter (\<lambda>r. si_agent_id r \<noteq> ic_agent_id x) (servers d))" using r other by simp
  then have "r \<in> set (filter (\<lambda>r. si_agent_id r \<noteq> ic_agent_id x) (servers (snd (upsert_statement x d))))"
    unfolding upsert_statement_servers(5) [OF inv, of x] .
  then show ?thesis unfolding upsert_server_sel(2) by simp
qed

lemma interfere_keeps_other_rows:
  "servers_inv d \<Longrightarrow> r \<in> set (servers d) \<Longrightarrow> si_agent_id r \<notin> ic_agent_id ` set xs \<Longrightarrow>
     r \<in> set (servers (interfere xs d))"
proof (induction xs arbitrary: d)
  case (Cons x xs)
  have "r \<in> set (servers (snd (upsert_server x d)))"
    using Cons.prems by (intro upsert_keeps_other_rows) simp_all
  then have "r \<in> set (servers (interfere xs (snd (upsert_server x d))))"
    using Cons.prems by (intro Cons.IH upsert_server_servers_inv) simp_all
  then show ?case by (simp add: interfere_def)
qed (simp add: interfere_def)

lemma filter_key_none: "k \<notin> f ` set xs \<Longrightarrow> filter (\<lambda>x. f x = k) xs = []"
  by (induction xs) auto

lemma filter_key_unique: "distinct (map f xs) \<Longrightarrow> s \<in> set xs \<Longrightarrow> filter (\<lambda>x. f x = f s) xs = [s]"
  by (induction xs) (auto simp: filter_key_none rev_image_eqI)

text \<open>A server asked for has one row in the report, built from its inventory row.\<close>

lemma report_row_unique:
  assumes inv: "servers_inv d" and s: "s \<in> set (servers d)" and ids: "si_id s \<in> set ids"
  shows "filter (\<lambda>r. rr_server_id r = si_id s) (report_aggregate coll pub agg ids d) = [report_row pub agg s]"
proof -
  let ?l = "sort_key (\<lambda>s. coll (si_hostname s)) (filter (\<lambda>s. si_id s \<in> set ids) (servers d))"
  have "distinct (map si_id (filter (\<lambda>s. si_id s \<in> set ids) (servers d)))"
    using inv by (simp add: servers_inv_def distinct_map_filter)
  then have "distinct (map si_id ?l)"
    by (simp add: distinct_map)
  moreover have "s \<in> set ?l" using s ids by simp
  ultimately have "filter (\<lambda>x. si_id x = si_id s) ?l = [s]" by (rule filter_key_unique)
  then show ?thesis by (simp add: report_aggregate_def filter_map comp_def)
qed

end
