(* ===== verification/ReproductionProps.thy ===== *)
theory ReproductionProps
  imports AssessmentContract ReportSource
begin

text \<open>
  What the agent reports about disks, interfaces, volume groups, mounts and boot is what a consumer of the
  assessment interface reads: the composition of \<open>to_inventory_create\<close> (consumer/mappers.py), the
  upsert, the report statement and \<open>_reproduction\<close>.  The wire mapper drops null layout keys, the interface gives them back.
\<close>

section \<open>Members of stored objects\<close>

lemma json_member_JObj: "json_member (JObj kvs) k = (case map_of kvs k of None \<Rightarrow> JNull | Some v \<Rightarrow> v)"
  by (simp add: json_member_def)

lemma member_sparse:
  assumes "distinct (map fst layout)"
  shows "json_member (JObj (base @ sparse layout)) k =
    (case map_of base k of Some v \<Rightarrow> v
     | None \<Rightarrow> (case map_of layout k of Some v \<Rightarrow> v | None \<Rightarrow> JNull))"
  using map_of_sparse [OF assms, of k]
  by (simp add: json_member_JObj map_add_def split: option.splits)

section \<open>What the contract says about the reported objects\<close>

definition reported_block_device :: "BlockDeviceInfo \<Rightarrow> json" where
  "reported_block_device b = JObj
     [(''id'', jstr (bd_id b)), (''id_type'', jstr (bd_id_type b)), (''name'', JStr (bd_name b)),
      (''type'', JStr (bd_type b)), (''parent'', jstr (bd_parent b)), (''size_bytes'', jint (bd_size_bytes b)),
      (''partition_table'', jstr (bd_partition_table b)), (''sector_size'', jint (bd_sector_size b)),
      (''serial'', jstr (bd_serial b)), (''wwn'', jstr (bd_wwn b)), (''rotational'', jbool (bd_rotational b)),
      (''part_number'', jint (bd_part_number b)), (''part_start_bytes'', jint (bd_part_start_bytes b)),
      (''part_type'', jstr (bd_part_type b)), (''part_name'', jstr (bd_part_name b)),
      (''part_flags'', jstrs (bd_part_flags b)), (''fstype'', jstr (bd_fstype b)),
      (''fs_uuid'', jstr (bd_fs_uuid b)), (''fs_label'', jstr (bd_fs_label b)),
      (''block_size'', jint (bd_block_size b)), (''mountpoint'', jstr (bd_mountpoint b)),
      (''mount_options'', jstrs (bd_mount_options b)), (''fs_freq'', jint (bd_fs_freq b)),
      (''fs_passno'', jint (bd_fs_passno b)), (''lvm_vg'', jstr (bd_lvm_vg b)),
      (''lvm_lv'', jstr (bd_lvm_lv b)), (''lvm_segtype'', jstr (bd_lvm_segtype b)),
      (''lvm_stripes'', jint (bd_lvm_stripes b)),
      (''lvm_stripe_size_kib'', jint (bd_lvm_stripe_size_kib b)),
      (''raid_level'', norm_raid_level (jraid (bd_raid_level b))),
      (''raid_chunk_kib'', jint (bd_raid_chunk_kib b)), (''raid_metadata'', jstr (bd_raid_metadata b)),
      (''raid_uuid'', jstr (bd_raid_uuid b)), (''crypt_type'', jstr (bd_crypt_type b))]"

definition reported_vg :: "LvmVgInfo \<Rightarrow> json" where
  "reported_vg v = JObj
     [(''name'', JStr (vg_name v)), (''vg_uuid'', jstr (vg_vg_uuid v)),
      (''size_bytes'', jint (vg_size_bytes v)), (''free_bytes'', jint (vg_free_bytes v)),
      (''extent_size_bytes'', jint (vg_extent_size_bytes v)), (''pv_ids'', jstrs (vg_pv_ids v))]"

lemma jopt_Some [simp]: "jopt f (Some x) = f x"
  by (simp add: jopt_def)

lemma block_device_back: "repro_block_device (block_device_json b) = reported_block_device b"
proof -
  have m: "json_member (block_device_json b) k =
     (case map_of
        [(''name'', jstr (Some (bd_name b))), (''type'', jstr (Some (bd_type b))),
         (''size_bytes'', jint (bd_size_bytes b)), (''fstype'', jstr (bd_fstype b)),
         (''mountpoint'', jstr (bd_mountpoint b)), (''parent'', jstr (bd_parent b)),
         (''id'', jstr (bd_id b)), (''id_type'', jstr (bd_id_type b))] k of
        Some v \<Rightarrow> v
      | None \<Rightarrow>
          (case map_of
             [(''partition_table'', jstr (bd_partition_table b)), (''sector_size'', jint (bd_sector_size b)),
              (''serial'', jstr (bd_serial b)), (''wwn'', jstr (bd_wwn b)),
              (''rotational'', jbool (bd_rotational b)), (''part_number'', jint (bd_part_number b)),
              (''part_start_bytes'', jint (bd_part_start_bytes b)), (''part_type'', jstr (bd_part_type b)),
              (''part_name'', jstr (bd_part_name b)), (''part_flags'', jstrs (bd_part_flags b)),
              (''fs_uuid'', jstr (bd_fs_uuid b)), (''fs_label'', jstr (bd_fs_label b)),
              (''block_size'', jint (bd_block_size b)), (''mount_options'', jstrs (bd_mount_options b)),
              (''fs_freq'', jint (bd_fs_freq b)), (''fs_passno'', jint (bd_fs_passno b)),
              (''lvm_vg'', jstr (bd_lvm_vg b)), (''lvm_lv'', jstr (bd_lvm_lv b)),
              (''lvm_segtype'', jstr (bd_lvm_segtype b)), (''lvm_stripes'', jint (bd_lvm_stripes b)),
              (''lvm_stripe_size_kib'', jint (bd_lvm_stripe_size_kib b)),
              (''raid_level'', jraid (bd_raid_level b)), (''raid_chunk_kib'', jint (bd_raid_chunk_kib b)),
              (''raid_metadata'', jstr (bd_raid_metadata b)), (''raid_uuid'', jstr (bd_raid_uuid b)),
              (''crypt_type'', jstr (bd_crypt_type b))] k of
             Some v \<Rightarrow> v | None \<Rightarrow> JNull))" for k
    unfolding block_device_json_def bd_layout_def by (rule member_sparse) simp
  show ?thesis
    unfolding repro_block_device_def reported_block_device_def BLOCK_DEVICE_KEYS_def m
    by (simp del: jopt_Some) simp
qed

lemma address_back:
  "json_member (address_json a) ''address'' = JStr (na_address a)"
  "json_member (address_json a) ''prefix'' = jint (na_prefix a)"
  "json_member (address_json a) ''family'' = JStr (na_family a)"
  "json_member (address_json a) ''origin'' = jstr (na_origin a)"
  by (simp_all add: address_json_def json_member_JObj jopt_def split: option.split)

text \<open>The speed of an interface: the reported one, or else the measured one.\<close>

definition reported_speed :: "NetInterfaceInfo \<Rightarrow> (string \<rightharpoonup> int) option \<Rightarrow> json" where
  "reported_speed n link_speeds =
     (case ni_speed_mbps n of
        Some s \<Rightarrow> JInt s
      | None \<Rightarrow>
          (case (link_speeds, ni_id n) of
             (Some speeds, Some i) \<Rightarrow>
               (case speeds i of None \<Rightarrow> JNull | Some bps \<Rightarrow> if bps = 0 then JNull else JInt (bps div 1000000))
           | _ \<Rightarrow> JNull))"

definition reported_interface :: "(string \<rightharpoonup> int) option \<Rightarrow> NetInterfaceInfo \<Rightarrow> json" where
  "reported_interface link_speeds n = JObj
     [(''id'', jstr (ni_id n)), (''id_type'', jstr (ni_id_type n)), (''name'', JStr (ni_name n)),
      (''kind'', jstr (ni_kind n)), (''mtu'', jint (ni_mtu n)),
      (''addresses'', JList (map (\<lambda>a. JObj
         [(''address'', JStr (na_address a)), (''prefix'', jint (na_prefix a)),
          (''family'', JStr (na_family a)), (''origin'', jstr (na_origin a))]) (ni_addresses n))),
      (''gateway'', jstr (ni_gateway n)), (''dns'', jstrs (ni_dns n)),
      (''routes'', (case ni_routes n of
                      None \<Rightarrow> JNull | Some rs \<Rightarrow> if rs = [] then JNull else JList (map route_json rs))),
      (''bond_mode'', norm_bond_mode (jstr (ni_bond_mode n))), (''vlan_id'', jint (ni_vlan_id n)),
      (''speed_mbps'', reported_speed n link_speeds)]"

lemma interface_back:
  "repro_interface (net_interface_json n) speeds = reported_interface speeds n"
proof -
  have m: "json_member (net_interface_json n) k =
     (case map_of
        [(''name'', JStr (ni_name n)), (''id'', jstr (ni_id n)), (''id_type'', jstr (ni_id_type n)),
         (''kind'', jstr (ni_kind n)), (''speed_mbps'', jint (ni_speed_mbps n)),
         (''addresses'', JList (map address_json (ni_addresses n))), (''gateway'', jstr (ni_gateway n))] k of
        Some v \<Rightarrow> v
      | None \<Rightarrow>
          (case map_of
             [(''mtu'', jint (ni_mtu n)), (''dns'', jstrs (ni_dns n)),
              (''routes'', (case ni_routes n of
                 None \<Rightarrow> JNull | Some rs \<Rightarrow> if rs = [] then JNull else JList (map route_json rs))),
              (''bond_mode'', jstr (ni_bond_mode n)), (''vlan_id'', jint (ni_vlan_id n))] k of
             Some v \<Rightarrow> v | None \<Rightarrow> JNull))" for k
    unfolding net_interface_json_def ni_layout_def by (rule member_sparse) simp
  have addresses: "json_list (net_interface_json n) ''addresses'' = map address_json (ni_addresses n)"
    unfolding json_list_def m by simp
  have speed: "interface_speed (net_interface_json n) speeds = reported_speed n speeds"
    unfolding interface_speed_def m reported_speed_def
    by (cases "ni_speed_mbps n"; cases speeds; cases "ni_id n") (simp_all add: jopt_def)
  show ?thesis
    unfolding repro_interface_def speed addresses pick_def m reported_interface_def
    by (simp add: address_back)
qed

lemma vg_back: "repro_lvm_vg (lvm_vg_json v) = reported_vg v"
proof -
  have m: "json_member (lvm_vg_json v) k =
     (case map_of
        [(''name'', jstr (Some (vg_name v))), (''size_bytes'', jint (vg_size_bytes v)),
         (''free_bytes'', jint (vg_free_bytes v)), (''data_percent'', jfloat (vg_data_percent v)),
         (''metadata_percent'', jfloat (vg_metadata_percent v))] k of
        Some w \<Rightarrow> w
      | None \<Rightarrow>
          (case map_of
             [(''vg_uuid'', jstr (vg_vg_uuid v)), (''extent_size_bytes'', jint (vg_extent_size_bytes v)),
              (''pv_ids'', jstrs (vg_pv_ids v))] k of
             Some w \<Rightarrow> w | None \<Rightarrow> JNull))" for k
    unfolding lvm_vg_json_def vg_layout_def by (rule member_sparse) simp
  show ?thesis unfolding repro_lvm_vg_def pick_def m reported_vg_def by simp
qed

lemma mount_back: "repro_mount (nonblock_mount_json m) = nonblock_mount_json m"
  by (simp add: repro_mount_def nonblock_mount_json_def pick_def json_member_JObj)

lemma boot_back:
  "JObj (pick (case map_option boot_json b of None \<Rightarrow> JObj [] | Some j \<Rightarrow> j)
      [''kernel_cmdline'', ''root_ref_type'', ''grub_install_target'']) =
   (case b of None \<Rightarrow> JObj [(''kernel_cmdline'', JNull), (''root_ref_type'', JNull), (''grub_install_target'', JNull)]
    | Some i \<Rightarrow> boot_json i)"
  by (cases b) (simp_all add: pick_def boot_json_def json_member_JObj)

section \<open>The whole block\<close>

definition reported_facts :: "InventoryInput \<Rightarrow> (string \<rightharpoonup> int) option \<Rightarrow> json" where
  "reported_facts d speeds = JObj
     [(''os'', JObj
        [(''family'', JStr (msg_os_family d)), (''id'', jstr (inv_os_id d)),
         (''version'', jstr (inv_os_version d)), (''codename'', jstr (inv_os_codename d)),
         (''kernel'', jstr (inv_kernel_version d)), (''arch'', jstr (inv_arch d)),
         (''bits'', jint (inv_bits d)), (''boot_firmware'', jstr (inv_boot_firmware d)),
         (''secure_boot'', jbool (inv_secure_boot d)), (''edition'', jstr (inv_edition d)),
         (''timezone'', jstr (inv_timezone d)), (''rtc_utc'', jbool (inv_rtc_utc d))]),
      (''boot'', case inv_boot d of
         None \<Rightarrow> JObj [(''kernel_cmdline'', JNull), (''root_ref_type'', JNull), (''grub_install_target'', JNull)]
       | Some i \<Rightarrow> boot_json i),
      (''network'', JObj [(''interfaces'', JList (map (reported_interface speeds) (inv_net_interfaces d)))]),
      (''storage'', JObj
        [(''block_devices'', JList (map reported_block_device (inv_block_devices d))),
         (''lvm_vgs'', JList (map reported_vg (inv_lvm_vgs d)))]),
      (''mounts'', JList (map nonblock_mount_json (rows_or_empty (inv_nonblock_mounts d))))]"

lemma reproduction_of_row:
  "reproduction (report_row pub agg (inventory_row sid (to_inventory_create d))) speeds = reported_facts d speeds"
proof -
  let ?s = "inventory_row sid (to_inventory_create d)"
  have mounts: "map repro_mount (rows_or_empty (map_option (map nonblock_mount_json) (inv_nonblock_mounts d))) =
      map nonblock_mount_json (rows_or_empty (inv_nonblock_mounts d))"
    by (cases "inv_nonblock_mounts d") (simp_all add: rows_or_empty_def mount_back)
  have cols: "si_os_family ?s = Some (msg_os_family d)" "si_os_id ?s = inv_os_id d"
    "si_os_version ?s = inv_os_version d" "si_os_codename ?s = inv_os_codename d"
    "si_kernel_version ?s = inv_kernel_version d" "si_arch ?s = inv_arch d" "si_bits ?s = inv_bits d"
    "si_boot_firmware ?s = inv_boot_firmware d" "si_secure_boot ?s = inv_secure_boot d"
    "si_edition ?s = inv_edition d" "si_timezone ?s = inv_timezone d" "si_rtc_utc ?s = inv_rtc_utc d"
    "si_boot ?s = map_option boot_json (inv_boot d)"
    "si_net_interfaces ?s = map net_interface_json (inv_net_interfaces d)"
    "si_block_devices ?s = map block_device_json (inv_block_devices d)"
    "si_lvm_vgs ?s = map lvm_vg_json (inv_lvm_vgs d)"
    "si_nonblock_mounts ?s = map_option (map nonblock_mount_json) (inv_nonblock_mounts d)"
    by (simp_all add: inventory_row_def to_inventory_create_def Let_def)
  have lists: "rows_or_empty (Some xs) = xs" for xs :: "json list"
    by (simp add: rows_or_empty_def)
  show ?thesis
    unfolding reproduction_def reported_facts_def Let_def report_row_sel cols lists mounts boot_back
    by (simp add: block_device_back interface_back vg_back comp_def)
qed

text \<open>
  Claim C4: the reproduction block of the assessment interface is the inventory the
  agent sent, through the wire mapper, the upsert and the report statement, whatever inventories of other
  agents are stored afterwards: the server has exactly one row in a report that asks for it, and its block
  carries the listed attributes of the operating system, the boot configuration and of every disk, interface,
  address, volume group and mount under their contract keys, with the value reported, or null where none was
  reported (although the wire mapper dropped the key).  What does not come back as reported, as
  \<open>reported_facts\<close> says: the RAID level and the bond mode are those the contract's normalisation gives (null
  for a value it does not know), an empty list of routes is null, an interface without a reported speed gets
  the measured one, and the fill percentages of a volume group are not part of the block.
\<close>

theorem reproduction_faithful:
  assumes inv: "db_inv d" and up: "upsert_server (to_inventory_create m) d = (sid, d1)"
    and others: "msg_agent_id m \<notin> ic_agent_id ` set others" and ids: "sid \<in> set ids"
  shows "\<exists>r. filter (\<lambda>r. rr_server_id r = sid) (report_aggregate collation pub agg ids (interfere others d1)) = [r]
    \<and> reproduction r speeds = reported_facts m speeds"
proof -
  let ?x = "to_inventory_create m"
  let ?s = "inventory_row sid ?x"
  have s: "servers_inv d" using inv by (simp add: db_inv_def)
  have sid: "fst (upsert_statement ?x d) = sid" "snd (upsert_server ?x d) = d1"
    using up upsert_server_sel(1) [of ?x d] by simp_all
  have agent: "ic_agent_id ?x = msg_agent_id m" by (simp add: to_inventory_create_def Let_def)
  have d1: "servers_inv d1" "?s \<in> set (servers d1)"
    using upsert_server_servers_inv [OF s, of ?x] upsert_statement_servers(3) [OF s, of ?x]
      upsert_server_sel(2) [of ?x d] unfolding sid by simp_all
  have "?s \<in> set (servers (interfere others d1))"
    using d1 others agent by (intro interfere_keeps_other_rows) simp_all
  from report_row_unique [OF interfere_servers_inv [OF d1(1)] this, of ids collation pub agg]
  show ?thesis using ids reproduction_of_row [of pub agg sid m speeds] by simp
qed

section \<open>An example\<close>

definition sample_message :: InventoryInput where
  "sample_message =
     \<lparr>msg_schema_version = [], msg_message_id = ''m1'', msg_collected_at = 10, msg_composite_id = None,
      msg_machine_id = None, msg_agent_version = None, msg_boot_time = None, msg_agent_started_at = None,
      msg_os_family = ''linux'', msg_agent_id = ''a1'', inv_hostname = ''web'', inv_os_id = Some ''ubuntu'',
      inv_os_version = None, inv_os_codename = None, inv_kernel_version = None, inv_cpu_model = None,
      inv_cpu_cores = None, inv_mem_total_bytes = None, inv_ip_external = None, inv_arch = None,
      inv_bits = None, inv_boot_firmware = None, inv_secure_boot = None, inv_edition = None,
      inv_product_name = None, inv_timezone = None, inv_rtc_utc = None, inv_boot = None,
      inv_nonblock_mounts = None, inv_block_devices = [], inv_net_interfaces = [],
      inv_lvm_vgs = [\<lparr>vg_name = ''vg0'', vg_size_bytes = Some 500, vg_free_bytes = None, vg_data_percent = Some 40,
       vg_metadata_percent = None, vg_vg_uuid = None, vg_extent_size_bytes = None, vg_pv_ids = None\<rparr>],
      inv_services = None, inv_listen_ports = []\<rparr>"

theorem reproduction_faithful_witness:
  "\<exists>r. filter (\<lambda>r. rr_server_id r = 1)
       (report_aggregate length (\<lambda>i. ''p1'') (\<lambda>i. row0) [1]
         (interfere [sample_inventory ''b'' 20] (snd (upsert_server (to_inventory_create sample_message) empty_db)))) = [r]
    \<and> json_member (json_member (reproduction r None) ''os'') ''id'' = JStr ''ubuntu''
    \<and> json_member (json_member (reproduction r None) ''storage'') ''lvm_vgs'' =
        JList [JObj [(''name'', JStr ''vg0''), (''vg_uuid'', JNull), (''size_bytes'', JInt 500),
          (''free_bytes'', JNull), (''extent_size_bytes'', JNull), (''pv_ids'', JNull)]]"
proof -
  let ?x = "to_inventory_create sample_message"
  have up: "upsert_server ?x empty_db = (1, snd (upsert_server ?x empty_db))"
    by (rule prod_eqI) (simp_all add: upsert_statement_def empty_db_def)
  have others: "msg_agent_id sample_message \<notin> ic_agent_id ` set [sample_inventory ''b'' 20]"
    by (simp add: sample_message_def sample_inventory_def)
  obtain r where r: "filter (\<lambda>r. rr_server_id r = 1)
       (report_aggregate length (\<lambda>i. ''p1'') (\<lambda>i. row0) [1]
         (interfere [sample_inventory ''b'' 20] (snd (upsert_server ?x empty_db)))) = [r]"
    and f: "reproduction r None = reported_facts sample_message None"
    using reproduction_faithful [OF empty_db_inv up others, of "[1]" length "\<lambda>i. ''p1''" "\<lambda>i. row0" None] by auto
  have "json_member (json_member (reported_facts sample_message None) ''os'') ''id'' = JStr ''ubuntu''"
    "json_member (json_member (reported_facts sample_message None) ''storage'') ''lvm_vgs'' =
        JList [JObj [(''name'', JStr ''vg0''), (''vg_uuid'', JNull), (''size_bytes'', JInt 500),
          (''free_bytes'', JNull), (''extent_size_bytes'', JNull), (''pv_ids'', JNull)]]"
    by (simp_all add: reported_facts_def sample_message_def json_member_JObj reported_vg_def jopt_def)
  then show ?thesis using r unfolding f [symmetric] by blast
qed

end
