(* ===== verification/InterfaceProps.thy ===== *)
theory InterfaceProps
  imports AssessmentContract
begin

text \<open>
  The right-sizing actions, their agreement with the sizing axes, and the saturation evidence shown beside
  a verdict.
\<close>

section \<open>Which actions a server gets\<close>

lemma action_sel [simp]:
  "ac_resource (action k ra op) = k" "ac_op (action k ra op) = op"
  by (simp_all add: action_def Let_def split: option.split resource_kind.split)

definition action_target :: "RsAction \<Rightarrow> int option" where
  "action_target a =
     (case ac_resource a of
        Cpu \<Rightarrow> target_cores a | Memory \<Rightarrow> target_mb a | Disk_capacity \<Rightarrow> target_gb a | _ \<Rightarrow> None)"

lemma action_target_action:
  "k \<in> {Cpu, Memory, Disk_capacity} \<Longrightarrow> action_target (action k ra op) = sizing_target ra"
  by (auto simp: action_target_def action_def Let_def split: option.split)

lemma over_has_target:
  assumes "k \<in> {Cpu, Memory}" "status (assess s k) = Over"
  shows "sizing_target (assess s k) \<noteq> None"
  using assms assess_cpu_over_below [of s] assess_memory_over_below [of s] by auto

lemma decrease_kinds_set:
  "set (decrease_kinds (rollup_host s) s) = {k \<in> {Cpu, Memory}. downsize_prescribable (assess s k) s}"
proof -
  have "downsize_prescribable (assess s k) s \<Longrightarrow> status (assess s k) = Over" for k
    by (rule downsize_prescribableD(1))
  moreover have "k \<in> {Cpu, Memory} \<Longrightarrow> status (assess s k) = Over \<Longrightarrow> sizing_target (assess s k) \<noteq> None" for k
    by (rule over_has_target)
  ultimately show ?thesis
    unfolding decrease_kinds_def Let_def set_filter rollup_host_sel option.sel set_simps by blast
qed

abbreviation entry_actions :: "ReportRowRaw \<Rightarrow> bool \<Rightarrow> bool \<Rightarrow> RsAction list" where
  "entry_actions raw online ambiguous \<equiv> rs_actions (se_recommendation (build_right_sizing_entry raw online ambiguous))"

lemma entry_actions_eq:
  "entry_actions raw online ambiguous =
     rs_actions (build_recommendation (rollup_host (entry_stats raw)) (entry_stats raw) (classify_host (entry_stats raw)))"
  by (simp add: build_right_sizing_entry_def Let_def classify_host_def)

definition increases :: "ResourceStats \<Rightarrow> RsAction set" where
  "increases s = (\<lambda>k. action k (assess s k) Op_increase) ` {k. status (assess s k) \<in> {Under, Filling}}"

definition decreases :: "ResourceStats \<Rightarrow> RsAction set" where
  "decreases s = (\<lambda>k. action k (assess s k) Op_decrease) ` {k \<in> {Cpu, Memory}. downsize_prescribable (assess s k) s}"

lemma classify_under_iff: "classify_host s = Rec_under_provisioned \<longleftrightarrow> (\<exists>k. status (assess s k) \<in> {Under, Filling})"
proof -
  have "classify_host s = Rec_under_provisioned \<longleftrightarrow> rollup_status s (assess s) (rootable s) = HS_under"
    unfolding classify_host_def host_status_to_recommendation_def rollup_host_sel
    by (cases "rollup_status s (assess s) (rootable s)") simp_all
  also have "\<dots> \<longleftrightarrow> set (rootable s) \<noteq> {}" by (simp add: rollup_status_under_iff)
  also have "\<dots> \<longleftrightarrow> (\<exists>k. k \<in> set (rootable s))" by (rule ex_in_conv [symmetric])
  finally show ?thesis unfolding rootable_iff .
qed

text \<open>The three shapes of the action list.\<close>

lemma recommendation_actions:
  "rs_actions (build_recommendation h s Rec_under_provisioned) =
     map (\<lambda>k. action k (the (resources h k)) Op_increase) (prescribed_under_kinds h) @ io_advisory h"
  "rs_actions (build_recommendation h s Rec_over_provisioned) =
     map (\<lambda>k. action k (the (resources h k)) Op_decrease) (decrease_kinds h s) @ io_advisory h"
  "r \<noteq> Rec_under_provisioned \<Longrightarrow> r \<noteq> Rec_over_provisioned \<Longrightarrow>
     rs_actions (build_recommendation h s r) = io_advisory h"
  by (simp_all add: build_recommendation_def)

lemma actions_set:
  "set (rs_actions (build_recommendation (rollup_host s) s (classify_host s))) =
     increases s \<union> (if classify_host s = Rec_over_provisioned then decreases s else {}) \<union>
     (if status (assess s Disk_io) = Io_bound then {action Disk_io (assess s Disk_io) Op_tier_up} else {})"
proof -
  have io: "set (io_advisory (rollup_host s)) =
      (if status (assess s Disk_io) = Io_bound then {action Disk_io (assess s Disk_io) Op_tier_up} else {})"
    by (simp add: io_advisory_def Let_def)
  have none: "increases s = {}" if "classify_host s \<noteq> Rec_under_provisioned"
    using that unfolding classify_under_iff increases_def by blast
  have pk: "(\<lambda>k. action k (the (resources (rollup_host s) k)) Op_increase) `
      set (prescribed_under_kinds (rollup_host s)) = increases s"
    unfolding prescribed_set increases_def by simp
  have dk: "(\<lambda>k. action k (the (resources (rollup_host s) k)) Op_decrease) `
      set (decrease_kinds (rollup_host s) s) = decreases s"
    unfolding decrease_kinds_set decreases_def by simp
  consider "classify_host s = Rec_under_provisioned" | "classify_host s = Rec_over_provisioned"
    | "classify_host s \<noteq> Rec_under_provisioned" "classify_host s \<noteq> Rec_over_provisioned" by blast
  then show ?thesis
  proof cases
    case 1
    then show ?thesis by (simp only: recommendation_actions set_append set_map pk io recommendation.distinct
      if_False Un_empty_right)
  next
    case 2
    then have "increases s = {}" by (intro none) simp
    with 2 show ?thesis by (simp only: recommendation_actions set_append set_map dk io if_True Un_empty_left refl)
  next
    case 3
    then have "increases s = {}" by (intro none)
    with 3 show ?thesis by (simp only: recommendation_actions(3) io if_False Un_empty_left not_False_eq_True)
  qed
qed

lemma distinct_prescribed: "distinct (prescribed_under_kinds h)"
  by (simp add: prescribed_under_kinds_def UNDER_ORDER_def)

text \<open>The size an action changes.\<close>

definition current_size :: "ResourceStats \<Rightarrow> resource_kind \<Rightarrow> int option" where
  "current_size s k = (if k = Cpu then cpu_cores s else if k = Memory then mem_total_mb s else None)"

lemma decrease_below:
  assumes "a \<in> decreases s"
  shows "\<exists>t c. action_target a = Some t \<and> current_size s (ac_resource a) = Some c \<and> t < c"
proof -
  obtain k where k: "k \<in> {Cpu, Memory}" "downsize_prescribable (assess s k) s" "a = action k (assess s k) Op_decrease"
    using assms unfolding decreases_def by blast
  have "status (assess s k) = Over" using k(2) by (rule downsize_prescribableD(1))
  moreover have "action_target a = sizing_target (assess s k)" "ac_resource a = k"
    using k(1) unfolding k(3) by (auto simp: action_target_action)
  ultimately show ?thesis
    using k(1) assess_cpu_over_below [of s] assess_memory_over_below [of s]
    by (auto simp: current_size_def)
qed

lemma ops:
  "a \<in> increases s \<Longrightarrow> ac_op a = Op_increase" "a \<in> decreases s \<Longrightarrow> ac_op a = Op_decrease"
  by (auto simp: increases_def decreases_def)

text \<open>
  Claim C3: the action list of a server is exactly its findings.  It raises every
  short resource and no other, shrinks CPU or memory only on an over-provisioned host and only behind the
  downsize gate, advises a faster disk tier exactly on an I/O-bound disk, names no resource twice, and
  every shrink carries a target below the current size.
\<close>

theorem right_sizing_actions_exact:
  "let s = entry_stats raw; acts = entry_actions raw online ambiguous in
   set (map (\<lambda>a. (ac_resource a, ac_op a)) acts) =
     {k. status (assess s k) \<in> {Under, Filling}} \<times> {Op_increase} \<union>
     (if classify_host s = Rec_over_provisioned
      then {k \<in> {Cpu, Memory}. downsize_prescribable (assess s k) s} \<times> {Op_decrease} else {}) \<union>
     (if status (assess s Disk_io) = Io_bound then {(Disk_io, Op_tier_up)} else {}) \<and>
   distinct (map ac_resource acts) \<and>
   (\<forall>a \<in> set acts. ac_op a = Op_decrease \<longrightarrow>
      (\<exists>t c. action_target a = Some t \<and> current_size s (ac_resource a) = Some c \<and> t < c))"
proof -
  let ?s = "entry_stats raw" and ?acts = "entry_actions raw online ambiguous"
  have set: "set ?acts = increases ?s \<union> (if classify_host ?s = Rec_over_provisioned then decreases ?s else {}) \<union>
     (if status (assess ?s Disk_io) = Io_bound then {action Disk_io (assess ?s Disk_io) Op_tier_up} else {})"
    unfolding entry_actions_eq by (rule actions_set)
  have inc: "(\<lambda>a. (ac_resource a, ac_op a)) ` increases ?s =
      {k. status (assess ?s k) \<in> {Under, Filling}} \<times> {Op_increase}"
    unfolding increases_def image_image action_sel by blast
  have dec: "(\<lambda>a. (ac_resource a, ac_op a)) ` decreases ?s =
      {k \<in> {Cpu, Memory}. downsize_prescribable (assess ?s k) ?s} \<times> {Op_decrease}"
    unfolding decreases_def image_image action_sel by blast
  have pairs: "set (map (\<lambda>a. (ac_resource a, ac_op a)) ?acts) =
     {k. status (assess ?s k) \<in> {Under, Filling}} \<times> {Op_increase} \<union>
     (if classify_host ?s = Rec_over_provisioned
      then {k \<in> {Cpu, Memory}. downsize_prescribable (assess ?s k) ?s} \<times> {Op_decrease} else {}) \<union>
     (if status (assess ?s Disk_io) = Io_bound then {(Disk_io, Op_tier_up)} else {})"
    unfolding set_map set image_Un inc [symmetric] dec [symmetric] if_distrib [of "image _"]
    by (simp split: if_split)
  have io: "io_advisory (rollup_host ?s) =
      (if status (assess ?s Disk_io) = Io_bound then [action Disk_io (assess ?s Disk_io) Op_tier_up] else [])"
    by (simp add: io_advisory_def Let_def)
  have "Disk_io \<notin> set (prescribed_under_kinds (rollup_host ?s))"
    using assess_disk_io_status [of ?s] unfolding prescribed_set by auto
  then have d1: "distinct (map ac_resource
      (map (\<lambda>k. action k (the (resources (rollup_host ?s) k)) Op_increase) (prescribed_under_kinds (rollup_host ?s))
       @ io_advisory (rollup_host ?s)))"
    unfolding io using distinct_prescribed by (simp add: comp_def)
  have d2: "distinct (map ac_resource
      (map (\<lambda>k. action k (the (resources (rollup_host ?s) k)) Op_decrease) (decrease_kinds (rollup_host ?s) ?s)
       @ io_advisory (rollup_host ?s)))"
    unfolding io by (simp add: comp_def decrease_kinds_def Let_def)
  have d3: "distinct (map ac_resource (io_advisory (rollup_host ?s)))" unfolding io by simp
  consider "classify_host ?s = Rec_under_provisioned" | "classify_host ?s = Rec_over_provisioned"
    | "classify_host ?s \<noteq> Rec_under_provisioned" "classify_host ?s \<noteq> Rec_over_provisioned" by blast
  then have dist: "distinct (map ac_resource ?acts)"
    unfolding entry_actions_eq
    by cases (simp_all only: recommendation_actions d1 d2 d3 not_False_eq_True)
  have "\<exists>t c. action_target a = Some t \<and> current_size ?s (ac_resource a) = Some c \<and> t < c"
    if "a \<in> set ?acts" "ac_op a = Op_decrease" for a
  proof -
    have "a \<in> decreases ?s"
      using that unfolding set by (auto dest: ops(1) split: if_splits)
    then show ?thesis by (rule decrease_below)
  qed
  with pairs dist show ?thesis unfolding Let_def by blast
qed

text \<open>
  Claim C2: how far the right-sizing and the assessment interface agree on the CPU and the
  memory of a server of known core count and RAM (one MiB to \<open>2 ^ 53\<close> bytes).  The resource has exactly one
  axis.  It is raised by an action exactly when that axis increases.  It is shrunk by an action exactly when
  the axis decreases \<^emph>\<open>and\<close> the host as a whole is over-provisioned: a gated shrink beside a shortage
  elsewhere, or on an idle host, is on the axis and not among the actions.  And whenever an action names the
  resource and the axis is of exact quality, the target of the action is the number the axis recommends.
\<close>

theorem interfaces_agree:
  assumes mem: "rr_mem_total_bytes raw = Some b" "2 ^ 20 \<le> b" "b \<le> 2 ^ 53" and cores: "rr_cpu_cores raw = Some c"
    and k: "k \<in> {Cpu, Memory}"
  shows "let acts = entry_actions raw online ambiguous;
             axes = sv_sizing (build_assessment_entry raw mounts online ambiguous speeds)
    in \<exists>x. {a \<in> set axes. ax_axis a = k} = {x} \<and>
       ((\<exists>a \<in> set acts. ac_resource a = k \<and> ac_op a = Op_increase) \<longleftrightarrow> ax_action x = Axis_increase) \<and>
       ((\<exists>a \<in> set acts. ac_resource a = k \<and> ac_op a = Op_decrease) \<longleftrightarrow>
          ax_action x = Axis_decrease \<and> classify_host (entry_stats raw) = Rec_over_provisioned) \<and>
       (\<forall>a \<in> set acts. ac_resource a = k \<longrightarrow> ax_quality x = Q_exact \<longrightarrow>
          action_target a = Some (ax_recommended x))"
proof -
  let ?s = "entry_stats raw"
  let ?acts = "entry_actions raw online ambiguous"
  let ?axes = "sv_sizing (build_assessment_entry raw mounts online ambiguous speeds)"
  define cur where "cur = (if k = Cpu then cpu_cores ?s else mem_total_mb ?s)"
  define u where "u = (if k = Cpu then ''vcpus'' else ''mib'')"
  obtain n where n: "cur = Some n" and valid: "valid_size n (assess ?s k) ?s"
  proof (cases "k = Cpu")
    case True
    then show thesis using cores valid_size_cpu [of ?s c] that [of c] by (simp add: cur_def)
  next
    case False
    have "0 < b div 1024 ^ 2" "b div 1024 ^ 2 \<le> 2 ^ 50" using mem by (simp_all add: pos_imp_zdiv_pos_iff)
    then have "valid_size (b div 1024 ^ 2) (assess_memory ?s) ?s"
      using mem(1) by (intro valid_size_memory) simp_all
    then show thesis using False k mem(1) that [of "b div 1024 ^ 2"] by (simp add: cur_def)
  qed
  obtain r act q where e: "axis_size n (assess ?s k) ?s = (r, act, q)" by (cases "axis_size n (assess ?s k) ?s")
  define x where "x = \<lparr>ax_axis = k, ax_current = n, ax_recommended = r, ax_unit = u, ax_action = act,
     ax_quality = q, ax_disk = None\<rparr>"
  have ha: "host_axis ?s (rollup_host ?s) (k, u, cur) = Some a \<longleftrightarrow> a = x" for a
    unfolding host_axis_Some n x_def using e by simp
  have only: "{a \<in> set ?axes. ax_axis a = k} = {x}"
  proof -
    have other: "host_axis ?s (rollup_host ?s) (k', u', cur') = Some a \<Longrightarrow> ax_axis a = k'" for k' u' cur' a
      unfolding host_axis_Some by (auto simp: case_prod_beta)
    have disk: "mount_axis raw m = Some a \<Longrightarrow> ax_axis a = Disk_capacity" for m a
      by (auto simp: mount_axis_def)
    have "a \<in> set ?axes \<and> ax_axis a = k \<longleftrightarrow> host_axis ?s (rollup_host ?s) (k, u, cur) = Some a" for a
      using k other disk unfolding entry_sizing sizing_def set_append Un_iff in_map_filter cur_def u_def
      by (cases "k = Cpu") (auto dest: other disk)
    then show ?thesis unfolding ha by auto
  qed
  have v: "act = Axis_increase \<longleftrightarrow> status (assess ?s k) = Under"
    "act = Axis_decrease \<longleftrightarrow> downsize_prescribable (assess ?s k) ?s"
    "act \<noteq> Axis_keep \<longrightarrow> q = Q_exact \<longrightarrow> sizing_target (assess ?s k) = Some r"
    using valid [unfolded valid_size_def e prod.case] by blast+
  have fill: "status (assess ?s k) \<noteq> Filling"
    using k assess_cpu_status [of ?s] assess_memory_status [of ?s] by auto
  have set: "set ?acts = increases ?s \<union> (if classify_host ?s = Rec_over_provisioned then decreases ?s else {}) \<union>
     (if status (assess ?s Disk_io) = Io_bound then {action Disk_io (assess ?s Disk_io) Op_tier_up} else {})"
    unfolding entry_actions_eq by (rule actions_set)
  have inc: "a \<in> set ?acts \<and> ac_resource a = k \<and> ac_op a = Op_increase \<longleftrightarrow>
      act = Axis_increase \<and> a = action k (assess ?s k) Op_increase" for a
    unfolding set v(1) using fill by (auto simp: increases_def decreases_def split: if_splits)
  have dec: "a \<in> set ?acts \<and> ac_resource a = k \<and> ac_op a = Op_decrease \<longleftrightarrow>
      act = Axis_decrease \<and> classify_host ?s = Rec_over_provisioned \<and> a = action k (assess ?s k) Op_decrease" for a
    unfolding set v(2) using k by (auto simp: increases_def decreases_def split: if_splits)
  have two: "ac_op a = Op_increase \<or> ac_op a = Op_decrease" if "a \<in> set ?acts" "ac_resource a = k" for a
    using that k unfolding set by (auto simp: increases_def decreases_def split: if_splits)
  have tgt: "action_target a = Some r" if "a \<in> set ?acts" "ac_resource a = k" "q = Q_exact" for a
  proof -
    have "act \<noteq> Axis_keep \<and> (\<exists>op. a = action k (assess ?s k) op)"
      using two [OF that(1,2)] inc [of a] dec [of a] that(1,2) by auto
    moreover have "action_target (action k (assess ?s k) op) = sizing_target (assess ?s k)" for op
      using k by (intro action_target_action) auto
    ultimately show ?thesis using v(3) that(3) by auto
  qed
  have fx: "ax_action x = act" "ax_quality x = q" "ax_recommended x = r" by (simp_all add: x_def)
  show ?thesis
    unfolding Let_def using inc dec tgt by (intro exI [of _ x]) (simp only: only fx, blast)
qed

theorem interfaces_agree_witness:
  "let raw = row0\<lparr>rr_cpu_cores := Some 7, rr_cpu_p95_pct := Some 80, rr_mem_total_bytes := Some (2 ^ 33)\<rparr>
   in \<exists>x. {a \<in> set (sv_sizing (build_assessment_entry raw [] True False None)). ax_axis a = Cpu} = {x} \<and>
     ax_current x = 7 \<and> ax_recommended x = 8 \<and> ax_action x = Axis_increase \<and> ax_quality x = Q_exact \<and>
     (\<exists>a \<in> set (entry_actions raw True False).
        ac_resource a = Cpu \<and> ac_op a = Op_increase \<and> action_target a = Some 8)"
proof -
  let ?raw = "row0\<lparr>rr_cpu_cores := Some 7, rr_cpu_p95_pct := Some 80, rr_mem_total_bytes := Some (2 ^ 33)\<rparr>"
  let ?s = "entry_stats ?raw"
  let ?axes = "sv_sizing (build_assessment_entry ?raw [] True False None)"
  have a: "rr_mem_total_bytes ?raw = Some (2 ^ 33)" "rr_cpu_cores ?raw = Some 7" by simp_all
  have h: "(2 :: int) ^ 20 \<le> 2 ^ 33" "(2 :: int) ^ 33 \<le> 2 ^ 53" "Cpu \<in> {Cpu, Memory}" by simp_all
  have cores: "cpu_cores ?s = Some 7" "cpu_p95_pct ?s = Some 80" by simp_all
  have "cpu_target_cores 80 7 (run_queue_value ?s) (os_family ?s) False = 8"
    by (simp add: cpu_target_cores_def pyfloat_ops sizing_simps Let_def)
  then have u: "status (assess_cpu ?s) = Under" "sizing_target (assess_cpu ?s) = Some 8"
    using assess_cpu_known [of ?s 7] by (simp_all add: cpu_saturated_def)
  obtain y where y: "host_axis ?s (rollup_host ?s) (Cpu, ''vcpus'', cpu_cores ?s) = Some y"
    unfolding host_axis_Some cores by blast
  then have f: "y \<in> set ?axes" "ax_axis y = Cpu" "ax_current y = 7" "ax_recommended y = 8"
      "ax_action y = Axis_increase" "ax_quality y = Q_exact"
    unfolding entry_sizing sizing_def host_axis_Some using cores u
    by (auto simp: List.map_filter_simps host_axis_def axis_size_def)
  obtain x where x: "{a \<in> set ?axes. ax_axis a = Cpu} = {x}"
    and inc: "(\<exists>a \<in> set (entry_actions ?raw True False). ac_resource a = Cpu \<and> ac_op a = Op_increase) \<longleftrightarrow>
       ax_action x = Axis_increase"
    and num: "\<forall>a \<in> set (entry_actions ?raw True False). ac_resource a = Cpu \<longrightarrow> ax_quality x = Q_exact \<longrightarrow>
       action_target a = Some (ax_recommended x)"
    using interfaces_agree [OF a(1) h(1,2) a(2) h(3), of True False "[]" None] unfolding Let_def by (elim exE conjE)
  have "y = x" using x f(1,2) by blast
  then show ?thesis unfolding Let_def using x inc num f by (intro exI [of _ x]) auto
qed

theorem right_sizing_actions_exact_witness:
  "(Cpu, Op_increase) \<in> set (map (\<lambda>a. (ac_resource a, ac_op a))
     (entry_actions (row0\<lparr>rr_cpu_cores := Some 4, rr_cpu_p95_pct := Some 90\<rparr>) True False))"
proof -
  let ?raw = "row0\<lparr>rr_cpu_cores := Some 4, rr_cpu_p95_pct := Some 90\<rparr>"
  have "status (assess (entry_stats ?raw) Cpu) = Under"
    using assess_cpu_known(1) [of "entry_stats ?raw" 4] by (simp add: cpu_saturated_def)
  then show ?thesis using right_sizing_actions_exact [of ?raw True False] unfolding Let_def by (elim conjE) auto
qed

section \<open>The evidence beside a verdict\<close>

text \<open>A saturation verdict on the queue or on the memory is an axis beyond its line.\<close>

lemma queue_axis_crossed: "truthy (cpu_saturated s) \<Longrightarrow> sa_crossed (saturation_axis_displays s ! 0)"
  by (auto simp: cpu_saturated_def saturation_axis_displays_def Let_def queue_display_def queue_per_core_def
      truthy_def split: option.splits if_splits bool.splits)

lemma paging_axis_crossed: "truthy (mem_saturated s) \<Longrightarrow> sa_crossed (saturation_axis_displays s ! 1)"
  by (auto simp: mem_saturated_def saturation_axis_displays_def Let_def truthy_def split: option.splits if_splits)

lemma await_axis_sel [simp]:
  "sa_crossed (saturation_axis_displays s ! 2) = is_some_and (disk_await_p95_ms s) (\<lambda>a. a > RS_DISKIO_AWAIT_MS)"
  "sa_measured (saturation_axis_displays s ! 2) = (disk_await_p95_ms s \<noteq> None)"
  by (simp_all add: saturation_axis_displays_def Let_def await_display_def)

text \<open>
  Claim C19: whenever the rules call the CPU queue, the memory or the disk of a
  server saturated, the axis shown for it has crossed its own line, on both systems; the disk axis carries
  exactly the verdict; and an axis shows a number or an event exactly when it was measured.
\<close>

theorem evidence_supports_verdict:
  "let s = build_resource_stats raw baseline; d = saturation_axis_displays s in
   map sa_axis d = [Axis_cpu_saturation, Axis_mem_saturation, Axis_disk_io_saturation] \<and>
   (T_cpu_saturation \<in> set (triggers (assess_cpu s)) \<longrightarrow> sa_crossed (d ! 0)) \<and>
   (T_mem_saturation \<in> set (triggers (assess_memory s)) \<longrightarrow> sa_crossed (d ! 1)) \<and>
   disk_io_saturated s = (if sa_measured (d ! 2) then Some (sa_crossed (d ! 2)) else None) \<and>
   (\<forall>a \<in> set d. (sa_measured a \<longleftrightarrow> sa_value a \<noteq> Value_na) \<and> (sa_crossed a \<longrightarrow> sa_measured a))"
proof -
  let ?s = "build_resource_stats raw baseline"
  let ?d = "saturation_axis_displays ?s"
  have t1: "T_cpu_saturation \<in> set (triggers (assess_cpu ?s)) \<Longrightarrow> truthy (cpu_saturated ?s)"
    by (auto simp: assess_cpu_def Let_def split: option.splits if_splits)
  have t2: "T_mem_saturation \<in> set (triggers (assess_memory ?s)) \<Longrightarrow> truthy (mem_saturated ?s)"
    by (auto simp: assess_memory_def Let_def mem_paging_active_def split: option.splits if_splits)
  note cpu = queue_axis_crossed [of ?s] and mem = paging_axis_crossed [of ?s]
  have disk: "disk_io_saturated ?s = (if sa_measured (?d ! 2) then Some (sa_crossed (?d ! 2)) else None)"
    by (cases "disk_await_p95_ms ?s") (simp_all add: disk_io_saturated_def del: build_resource_stats_def)
  have axes: "map sa_axis ?d = [Axis_cpu_saturation, Axis_mem_saturation, Axis_disk_io_saturation]"
    by (simp add: saturation_axis_displays_def Let_def queue_display_def await_display_def)
  have shown: "(sa_measured a \<longleftrightarrow> sa_value a \<noteq> Value_na) \<and> (sa_crossed a \<longrightarrow> sa_measured a)" if "a \<in> set ?d" for a
    using that by (auto simp: saturation_axis_displays_def Let_def queue_display_def await_display_def
        split: option.splits if_splits)
  show ?thesis unfolding Let_def using axes t1 t2 cpu mem disk shown by blast
qed

theorem evidence_supports_verdict_witness:
  "sa_crossed (saturation_axis_displays (build_resource_stats (row0\<lparr>rr_disk_await_p95_ms := Some 50\<rparr>) None) ! 2)"
proof -
  let ?s = "build_resource_stats (row0\<lparr>rr_disk_await_p95_ms := Some 50\<rparr>) None"
  have "disk_io_saturated ?s = Some True" by (simp add: disk_io_saturated_def sizing_simps)
  then show ?thesis
    using evidence_supports_verdict [of "row0\<lparr>rr_disk_await_p95_ms := Some 50\<rparr>" None] unfolding Let_def
    by (elim conjE) (simp only: option.inject option.distinct split: if_splits)
qed

text \<open>
  The CPU block of the interfaces shows a Windows host a value on another
  scale than its threshold.  The value is the saturation index, which is already divided by the threshold
  2, so a host whose queue is between two and three per core is reported saturated with a value of at most
  1.5 beside the threshold 2.0, both in the unit \<open>per_core\<close>.
\<close>

theorem windows_value_halved:
  assumes "is_windows s" and "cpu_cores s = Some c" and "0 < c" and "c \<le> 2 ^ 50"
    and "cpu_run_queue_p95 s = Some q" and "2 * of_int c \<le> q" and "q \<le> 3 * of_int c"
    and "cpu_p95_pct s = Some u" and "RS_CPU_UNDER_PCT \<le> u"
  shows "let b = saturation_block Cpu s in
    sb_saturated b = Some True \<and> sb_unit b = ''per_core'' \<and> sb_threshold b = Some 2 \<and>
    (\<exists>v. sb_value b = Some v \<and> v \<le> 3 / 2)"
proof -
  have c: "of_pyint c = of_int c" using assms(3,4) by (simp add: of_pyint_def fl_of_int)
  have lo: "2 \<le> fl (q / of_int c)" and hi: "fl (q / of_int c) \<le> 3"
    using int_le_fl [of 2 "q / of_int c"] fl_le_int [of 3 "q / of_int c"] assms(3,6,7)
    by (simp_all add: pos_le_divide_eq pos_divide_le_eq)
  have half: "is_binary64 (3 / 2)" using is_binary64I [of 3 "- 1"] by (simp add: power_int_def)
  have "fl (fl (q / of_int c) / 2) \<le> 3 / 2" using hi by (intro fl_le_iff_binary64 half) simp
  then have "py_round 2 (fl (fl (q / of_int c) / 2)) \<le> py_round 2 (3 / 2)" by (rule py_round_mono)
  also have "py_round 2 (3 / 2) = 3 / 2" by code_simp
  finally have v: "py_round 2 (fl (fl (q / of_int c) / 2)) \<le> 3 / 2" .
  have sat: "cpu_saturated s = Some True"
    using assms lo c by (simp add: cpu_saturated_def Let_def fdiv_def sizing_simps)
  show ?thesis
    using v assms(1-3,5) c
    by (simp add: saturation_block_def saturation_dict_def cpu_saturation_index_def Let_def fdiv_def sat
        CPU_RUN_QUEUE_PER_CORE_SATURATION_def)
qed

theorem windows_value_halved_witness:
  "sb_saturated (saturation_block Cpu
      (stats0\<lparr>os_family := Some windows, cpu_cores := Some 4, cpu_run_queue_p95 := Some 10, cpu_p95_pct := Some 95\<rparr>))
   = Some True"
  using windows_value_halved [of
      "stats0\<lparr>os_family := Some windows, cpu_cores := Some 4, cpu_run_queue_p95 := Some 10, cpu_p95_pct := Some 95\<rparr>"
      4 10 95]
  by (simp add: Let_def sizing_simps)

text \<open>
  The fallback on the disk queue is dead.  No row carries a queue into the
  statistics, so a server without a latency, on Windows too, has no disk verdict: its disk is never called
  I/O-bound and the interfaces report the signal \<open>await\<close> as not measured.
\<close>

theorem disk_queue_never_used:
  "let s = build_resource_stats raw baseline; b = saturation_block Disk_io s in
   disk_io_saturated s = map_option (\<lambda>a. a > RS_DISKIO_AWAIT_MS) (rr_disk_await_p95_ms raw) \<and>
   sb_signal b = ''await'' \<and> (sb_measured b \<longleftrightarrow> rr_disk_await_p95_ms raw \<noteq> None) \<and>
   (status (assess s Disk_io) = Io_bound \<longleftrightarrow> is_some_and (rr_disk_await_p95_ms raw) (\<lambda>a. a > RS_DISKIO_AWAIT_MS))"
  by (cases "rr_disk_await_p95_ms raw")
    (auto simp: Let_def disk_io_saturated_def saturation_block_def saturation_dict_def assess_disk_io_def)

end
