(* ===== verification/OsEol.thy ===== *)
theory OsEol
  imports OsEolCatalog TaskService
begin

text \<open>
  End of support of operating systems: \<open>web/services/mappers/os_eol.py\<close> on the shipped catalogue.  A date
  is its proleptic ordinal; \<open>date_of_iso\<close> is \<open>date.fromisoformat\<close> on the form \<open>YYYY-MM-DD\<close>, the only one
  the catalogue has, and \<open>None\<close> is its exception.
\<close>

section \<open>Dates and products\<close>

definition date_of_iso :: "string \<Rightarrow> int option" where
  "date_of_iso s0 = do {
     (y, s1) \<leftarrow> take_field 4 s0; s2 \<leftarrow> take_lit ''-'' s1;
     (m, s3) \<leftarrow> take_field 2 s2; s4 \<leftarrow> take_lit ''-'' s3;
     (d, s5) \<leftarrow> take_field 2 s4;
     if s5 \<noteq> [] \<or> y < 1 \<or> m < 1 \<or> 12 < m \<or> d < 1 \<or>
        month_lengths ! nat (m - 1) + (if m = 2 \<and> is_leap y then 1 else 0) < d
     then None else Some (ymd2ord y (nat m) d) }"

definition OS_ID_TO_EOL_PRODUCT :: "(string \<times> string) list" where
  "OS_ID_TO_EOL_PRODUCT =
     [(''debian'', ''debian''), (''ubuntu'', ''ubuntu''), (''rhel'', ''rhel''), (''rocky'', ''rocky-linux''),
      (''almalinux'', ''almalinux''), (''centos'', ''centos''), (''sles'', ''sles''),
      (''opensuse'', ''opensuse''), (''amzn'', ''amazon-linux''), (''fedora'', ''fedora''),
      (''ol'', ''oracle-linux''), (''oracle'', ''oracle-linux'')]"

definition os_id_to_distro :: "string option \<Rightarrow> string" where
  "os_id_to_distro os_id =
     (case nonblank os_id of
        None \<Rightarrow> []
      | Some i \<Rightarrow>
          if i = windows then ''windows-server''
          else (case map_of OS_ID_TO_EOL_PRODUCT i of Some p \<Rightarrow> p | None \<Rightarrow> i))"

section \<open>Support phases\<close>

datatype eol_status = Full | Security_only | Paid_only | Ended

record OsEolInfo =
  eol_iso :: string
  support_iso :: "string option"
  extended_support_iso :: "string option"
  eol_label :: string
  eol_status :: eol_status

text \<open>The position in \<open>_EOL_SEVERITY\<close>.\<close>

fun EOL_SEVERITY :: "eol_status \<Rightarrow> nat" where
  "EOL_SEVERITY Full = 0"
| "EOL_SEVERITY Security_only = 1"
| "EOL_SEVERITY Paid_only = 2"
| "EOL_SEVERITY Ended = 3"

text \<open>\<open>x and date.fromisoformat(x) <= today\<close>; the outer option is the exception.\<close>

definition passed :: "string option \<Rightarrow> int \<Rightarrow> bool option" where
  "passed boundary today =
     (case nonblank boundary of None \<Rightarrow> Some False | Some s \<Rightarrow> map_option (\<lambda>d. d \<le> today) (date_of_iso s))"

definition classify_eol :: "string option \<Rightarrow> string \<Rightarrow> string option \<Rightarrow> int \<Rightarrow> eol_status option" where
  "classify_eol support eol extended today = do {
     x \<leftarrow> passed extended today;
     if x then Some Ended
     else do {
       e \<leftarrow> map_option (\<lambda>d. d \<le> today) (date_of_iso eol);
       if e then Some (if nonblank extended \<noteq> None then Paid_only else Ended)
       else do { s \<leftarrow> passed support today; Some (if s then Security_only else Full) } } }"

definition classify_entry :: "EolEntry \<Rightarrow> int \<Rightarrow> eol_status option" where
  "classify_entry e today = classify_eol (ee_support e) (ee_eol e) (ee_extended_support e) today"

text \<open>\<open>max(xs, key=k)\<close> and \<open>min(xs, key=k)\<close> of a nonempty list: the first extreme element.\<close>

fun first_max :: "('a \<Rightarrow> 'k::linorder) \<Rightarrow> 'a \<Rightarrow> 'a list \<Rightarrow> 'a" where
  "first_max k best [] = best"
| "first_max k best (x # xs) = first_max k (if k best < k x then x else best) xs"

fun first_min :: "('a \<Rightarrow> 'k::linorder) \<Rightarrow> 'a \<Rightarrow> 'a list \<Rightarrow> 'a" where
  "first_min k best [] = best"
| "first_min k best (x # xs) = first_min k (if k x < k best then x else best) xs"

fun all_some :: "'a option list \<Rightarrow> 'a list option" where
  "all_some [] = Some []"
| "all_some (x # xs) = do { y \<leftarrow> x; ys \<leftarrow> all_some xs; Some (y # ys) }"

definition build_of :: "string option \<Rightarrow> string" where
  "build_of kernel_version =
     takeWhile (\<lambda>c. c \<noteq> CHR ''.'') (case kernel_version of None \<Rightarrow> [] | Some k \<Rightarrow> k)"

definition info_of :: "EolEntry \<Rightarrow> string \<Rightarrow> eol_status \<Rightarrow> OsEolInfo" where
  "info_of e label st =
     \<lparr>eol_iso = ee_eol e, support_iso = ee_support e, extended_support_iso = ee_extended_support e,
      eol_label = label, eol_status = st\<rparr>"

definition catalog_entries :: "(string \<times> EolEntry list) list \<Rightarrow> string \<Rightarrow> EolEntry list" where
  "catalog_entries catalog product = (case map_of catalog product of None \<Rightarrow> [] | Some es \<Rightarrow> es)"

text \<open>The label of a Linux host, \<open>" ".join(part for part in (os_id, os_version) if part) or "-"\<close>.\<close>

definition os_label :: "string \<Rightarrow> string option \<Rightarrow> string" where
  "os_label os_id os_version =
     (case nonblank os_version of None \<Rightarrow> os_id | Some v \<Rightarrow> os_id @ '' '' @ v)"

text \<open>
  The outer option is an exception of the date parser, the inner one an unknown release.  Windows takes
  the least severe phase of all channels that share the kernel build and shows the last to end.
\<close>

definition eol_info ::
  "(string \<times> EolEntry list) list \<Rightarrow> string option \<Rightarrow> string option \<Rightarrow> string option \<Rightarrow> int
     \<Rightarrow> OsEolInfo option option" where
  "eol_info catalog os_id os_version kernel_version today =
     (case nonblank os_id of
        None \<Rightarrow> Some None
      | Some i \<Rightarrow>
          if i = windows then
            (case filter (\<lambda>e. ee_build e = Some (build_of kernel_version)) (catalog_entries catalog ''windows-server'') of
               [] \<Rightarrow> Some None
             | e # es \<Rightarrow>
                 (let rep = first_max ee_eol e es in do {
                    sts \<leftarrow> all_some (map (\<lambda>x. classify_entry x today) (e # es));
                    Some (Some (info_of rep (''Windows Server '' @ ee_cycle rep)
                                  (first_min EOL_SEVERITY (hd sts) (tl sts)))) }))
          else
            (case map_of OS_ID_TO_EOL_PRODUCT i of
               None \<Rightarrow> Some None
             | Some product \<Rightarrow>
                 (let ver = (case os_version of None \<Rightarrow> [] | Some v \<Rightarrow> v) in
                  case List.find (\<lambda>e. ver = ee_cycle e \<or> prefix (ee_cycle e @ ''.'') ver)
                         (catalog_entries catalog product) of
                    None \<Rightarrow> Some None
                  | Some e \<Rightarrow> do {
                      st \<leftarrow> classify_entry e today;
                      Some (Some (info_of e (os_label i os_version) st)) })))"

definition lookup_os_eol ::
  "string option \<Rightarrow> string option \<Rightarrow> string option \<Rightarrow> int \<Rightarrow> OsEolInfo option option" where
  "lookup_os_eol os_id os_version kernel_version today =
     eol_info EOL_CATALOG os_id os_version kernel_version today"

definition resolve_os_eol ::
  "string option \<Rightarrow> string option \<Rightarrow> string option \<Rightarrow> int \<Rightarrow> (string \<times> string) option option" where
  "resolve_os_eol os_id os_version kernel_version today =
     map_option
       (\<lambda>info. case info of
                 None \<Rightarrow> None
               | Some i \<Rightarrow> if eol_status i \<in> {Paid_only, Ended} then Some (eol_iso i, eol_label i) else None)
       (eol_info EOL_CATALOG os_id os_version kernel_version today)"

section \<open>Display\<close>

datatype eol_text = T_ended | T_free_ended | T_security_only | T_supported | T_unknown

text \<open>
  The tooltip of a phase with its date; the templates of the two supported phases lose their last part
  when there is no date.
\<close>

datatype eol_title = Title_with eol_status string | Title_without_date eol_status | Title_unknown

record OsEolDisplay =
  ed_label :: eol_text
  ed_css :: string
  ed_title :: eol_title
  ed_sort :: int

definition OS_EOL_UNKNOWN :: OsEolDisplay where
  "OS_EOL_UNKNOWN = \<lparr>ed_label = T_unknown, ed_css = ''text-unknown'', ed_title = Title_unknown, ed_sort = 1\<rparr>"

fun OS_EOL_DISPLAY :: "eol_status \<Rightarrow> eol_text \<times> string \<times> int" where
  "OS_EOL_DISPLAY Ended = (T_ended, ''text-danger'', 4)"
| "OS_EOL_DISPLAY Paid_only = (T_free_ended, ''text-danger'', 3)"
| "OS_EOL_DISPLAY Security_only = (T_security_only, ''text-warn'', 2)"
| "OS_EOL_DISPLAY Full = (T_supported, ''text-meta'', 0)"

definition os_eol_display :: "eol_status option \<Rightarrow> string \<Rightarrow> OsEolDisplay" where
  "os_eol_display stage eol_date =
     (case stage of
        None \<Rightarrow> OS_EOL_UNKNOWN
      | Some st \<Rightarrow>
          (let (label, css, srt) = OS_EOL_DISPLAY st in
           \<lparr>ed_label = label, ed_css = css,
            ed_title = (if eol_date = [] \<and> st \<in> {Full, Security_only} then Title_without_date st
                        else Title_with st eol_date),
            ed_sort = srt\<rparr>))"

section \<open>Windows labels\<close>

definition WINDOWS_LEGACY_BUILD_LABEL :: "(string \<times> string) list" where
  "WINDOWS_LEGACY_BUILD_LABEL =
     [(''9600'', ''2012 R2''), (''9200'', ''2012''), (''7601'', ''2008 R2''), (''6003'', ''2008''),
      (''3790'', ''2003''), (''2195'', ''2000'')]"

definition windows_legacy_version_from_build :: "string option \<Rightarrow> string option" where
  "windows_legacy_version_from_build kernel_version =
     (case nonblank kernel_version of
        None \<Rightarrow> None | Some k \<Rightarrow> map_of WINDOWS_LEGACY_BUILD_LABEL (build_of (Some k)))"

text \<open>\<open>Windows Server (\d{4})(?:\s+(R2))?\<close> at the head of a text, case-insensitive.\<close>

definition match_server_year :: "string \<Rightarrow> string option" where
  "match_server_year s =
     (let rest = drop 15 s; year = take 4 rest; tail = dropWhile is_blank (drop 4 rest) in
      if prefix ''windows server '' (str_lower s) \<and> length year = 4 \<and> isdigit year
      then Some (if takeWhile is_blank (drop 4 rest) \<noteq> [] \<and> prefix ''r2'' (str_lower tail)
                 then year @ '' R2'' else year)
      else None)"

definition is_word_char :: "char \<Rightarrow> bool" where
  "is_word_char c = (is_alnum c \<or> c = CHR ''_'')"

text \<open>\<open>Windows (10|11)\b\<close> at the head of a text.\<close>

definition match_client_gen :: "string \<Rightarrow> string option" where
  "match_client_gen s =
     (let gen = take 2 (drop 8 s); rest = drop 10 s in
      if prefix ''windows '' (str_lower s) \<and> gen \<in> {''10'', ''11''} \<and>
         (case rest of [] \<Rightarrow> True | c # _ \<Rightarrow> \<not> is_word_char c)
      then Some gen else None)"

text \<open>\<open>re.search\<close>: the first position where the pattern matches.\<close>

fun re_search :: "(string \<Rightarrow> string option) \<Rightarrow> string \<Rightarrow> string option" where
  "re_search m [] = m []"
| "re_search m (c # s) = (case m (c # s) of Some r \<Rightarrow> Some r | None \<Rightarrow> re_search m s)"

definition windows_short_label_from_product_name :: "string option \<Rightarrow> string option" where
  "windows_short_label_from_product_name product_name =
     (case nonblank product_name of
        None \<Rightarrow> None
      | Some n \<Rightarrow>
          (case re_search match_server_year n of
             Some y \<Rightarrow> Some y | None \<Rightarrow> re_search match_client_gen n))"

end
