(* ===== verification/EolDates.thy ===== *)
theory EolDates
  imports OsEol
begin

text \<open>
  Dates of the catalogue: evaluation of a date text, and the fact that date texts order like the dates they
  denote, which the code uses when it takes the largest text.
\<close>

section \<open>Evaluation of a date text\<close>

text \<open>Evaluation of a date text by its characters.\<close>

definition dig :: "char \<Rightarrow> int" where "dig c = int (digit_val c)"

lemma date_of_iso_text:
  "date_of_iso [a, b, c, d, CHR ''-'', e, f, CHR ''-'', g, h] =
    (if list_all is_digit [a, b, c, d, e, f, g, h] then
       (let y = dig a * 1000 + dig b * 100 + dig c * 10 + dig d; m = dig e * 10 + dig f; k = dig g * 10 + dig h in
        if y < 1 \<or> m < 1 \<or> 12 < m \<or> k < 1 \<or>
           month_lengths ! nat (m - 1) + (if m = 2 \<and> is_leap y then 1 else 0) < k
        then None else Some (ymd2ord y (nat m) k))
     else None)"
  by (simp add: date_of_iso_def take_field_def take_lit_def int_field_def isdigit_def nat_of_str_def Let_def dig_def
      algebra_simps)

lemma dig_simps:
  "dig (CHR ''0'') = 0" "dig (CHR ''1'') = 1" "dig (CHR ''2'') = 2" "dig (CHR ''3'') = 3" "dig (CHR ''4'') = 4"
  "dig (CHR ''5'') = 5" "dig (CHR ''6'') = 6" "dig (CHR ''7'') = 7" "dig (CHR ''8'') = 8" "dig (CHR ''9'') = 9"
  by (simp_all add: dig_def digit_val_def)

lemma is_digit_simps:
  "is_digit (CHR ''0'')" "is_digit (CHR ''1'')" "is_digit (CHR ''2'')" "is_digit (CHR ''3'')" "is_digit (CHR ''4'')"
  "is_digit (CHR ''5'')" "is_digit (CHR ''6'')" "is_digit (CHR ''7'')" "is_digit (CHR ''8'')" "is_digit (CHR ''9'')"
  by (simp_all add: is_digit_def)

lemmas date_eval = date_of_iso_text dig_simps is_digit_simps Let_def month_lengths_def is_leap_def
  ymd2ord_def days_before_year_def days_before_month_def


section \<open>Date texts order like dates\<close>

definition month_length :: "bool \<Rightarrow> nat \<Rightarrow> int" where
  "month_length leap m = month_lengths ! (m - 1) + (if m = 2 \<and> leap then 1 else 0)"

lemma month_table:
  "list_all (\<lambda>leap. list_all (\<lambda>m.
     days_before_month leap m + month_length leap m \<le> 365 + (if leap then 1 else 0) \<and>
     0 \<le> days_before_month leap m \<and>
     list_all (\<lambda>m'. m < m' \<longrightarrow> days_before_month leap m + month_length leap m \<le> days_before_month leap m') [1..<13])
     [1..<13]) [True, False]"
  by code_simp

lemma month_in_year:
  assumes "1 \<le> m" "m \<le> 12"
  shows "days_before_month leap m + month_length leap m \<le> 365 + (if leap then 1 else 0)"
    "0 \<le> days_before_month leap m"
    "m < m' \<Longrightarrow> m' \<le> 12 \<Longrightarrow> days_before_month leap m + month_length leap m \<le> days_before_month leap m'"
proof -
  have l: "leap \<in> set [True, False]" and m: "m \<in> set [1..<13]" using assms by auto
  have row: "days_before_month leap m + month_length leap m \<le> 365 + (if leap then 1 else 0) \<and>
     0 \<le> days_before_month leap m \<and>
     (\<forall>m' \<in> set [1..<13]. m < m' \<longrightarrow> days_before_month leap m + month_length leap m \<le> days_before_month leap m')"
    using month_table [unfolded list_all_iff, THEN bspec, OF l, THEN bspec, OF m] .
  show "days_before_month leap m + month_length leap m \<le> 365 + (if leap then 1 else 0)"
    using row by (rule conjunct1)
  show "0 \<le> days_before_month leap m" using row by (elim conjE)
  assume "m < m'" "m' \<le> 12"
  then have "m' \<in> set [1..<13]" using assms by auto
  with row [THEN conjunct2, THEN conjunct2, THEN bspec, of m'] \<open>m < m'\<close>
  show "days_before_month leap m + month_length leap m \<le> days_before_month leap m'" by simp
qed

lemma div_step:
  fixes y k :: int assumes "0 < k"
  shows "y div k = (y - 1) div k + (if y mod k = 0 then 1 else 0)"
proof -
  define q r where "q = (y - 1) div k" and "r = (y - 1) mod k"
  have y: "y = q * k + (r + 1)" and r: "0 \<le> r" "r < k"
    using assms by (simp_all add: q_def r_def algebra_simps minus_mod_eq_mult_div)
  have yq: "(y - 1) div k = q" by (simp add: q_def)
  show ?thesis
  proof (cases "r + 1 = k")
    case True
    then have y': "y = (q + 1) * k" using y by (simp add: algebra_simps)
    have "y div k = q + 1" "y mod k = 0" unfolding y' using assms by simp_all
    then show ?thesis unfolding yq by simp
  next
    case False
    then have "r + 1 < k" using r by linarith
    then have "y div k = q" "y mod k = r + 1"
      using y r by (auto intro: int_div_pos_eq int_mod_pos_eq)
    then show ?thesis unfolding yq using r by simp
  qed
qed

lemma next_year: "days_before_year (y + 1) = days_before_year y + 365 + (if is_leap y then 1 else 0)"
proof -
  have m: "y mod 100 = 0 \<Longrightarrow> y mod 4 = 0" "y mod 400 = 0 \<Longrightarrow> y mod 100 = 0"
    using dvd_trans [of 4 100 y] dvd_trans [of 100 400 y] by (simp_all add: mod_eq_0_iff_dvd)
  have count: "A = A' + (if P then 1 else 0) \<Longrightarrow> B = B' + (if Q then 1 else 0) \<Longrightarrow>
      C = C' + (if R then 1 else 0) \<Longrightarrow> (Q \<longrightarrow> P) \<Longrightarrow> (R \<longrightarrow> Q) \<Longrightarrow>
      A - B + C = A' - B' + C' + (if P \<and> (\<not> Q \<or> R) then 1 else 0)" for A A' B B' C C' :: int and P Q R
    by (cases P; cases Q; cases R; simp)
  have "y div 4 - y div 100 + y div 400 =
      (y - 1) div 4 - (y - 1) div 100 + (y - 1) div 400 + (if is_leap y then 1 else 0)"
    unfolding is_leap_def by (rule count [OF div_step div_step div_step]) (use m in simp_all)
  then show ?thesis unfolding days_before_year_def by (simp add: algebra_simps)
qed

lemma days_before_year_mono: "y \<le> y' \<Longrightarrow> days_before_year y \<le> days_before_year y'"
proof (induction y' rule: int_ge_induct)
  case base
  then show ?case by simp
next
  case (step i)
  then show ?case unfolding next_year by simp
qed

lemma ymd2ord_lex:
  assumes m: "1 \<le> m" "m \<le> 12" "1 \<le> m'" "m' \<le> 12" and d: "d \<le> month_length (is_leap y) m" "1 \<le> d'"
    and lex: "y < y' \<or> y = y' \<and> (m < m' \<or> m = m' \<and> d \<le> d')"
  shows "ymd2ord y m d \<le> ymd2ord y' m' d'"
proof -
  consider "y + 1 \<le> y'" | "y = y'" "m < m'" | "y = y'" "m = m'" "d \<le> d'" using lex by linarith
  then show ?thesis
  proof cases
    case 1
    then have "days_before_year (y + 1) \<le> days_before_year y'" by (rule days_before_year_mono)
    then show ?thesis
      using month_in_year(1,2) [OF m(1,2), where leap = "is_leap y"]
        month_in_year(2) [OF m(3,4), where leap = "is_leap y'"] d
      unfolding next_year ymd2ord_def by linarith
  next
    case 2
    then show ?thesis using month_in_year(3) [OF m(1,2) 2(2) m(4), where leap = "is_leap y"] d 2(1) unfolding ymd2ord_def by simp
  next
    case 3
    then show ?thesis by (simp add: ymd2ord_def)
  qed
qed

lemma digit_order:
  assumes "is_digit a" "is_digit b"
  shows "a < b \<longleftrightarrow> dig a < dig b" "a = b \<longleftrightarrow> dig a = dig b" "0 \<le> dig a" "dig a \<le> 9"
  using assms by (auto simp: is_digit_def dig_def digit_val_def less_char_def)

lemma take_fieldD: "take_field w s = Some (v, r) \<Longrightarrow> \<exists>p. s = p @ r \<and> length p = w \<and> isdigit p"
  by (rule exI [of _ "take w s"]) (auto simp: take_field_def int_field_def split: if_splits)

lemma take_litD: "take_lit l s = Some r \<Longrightarrow> s = l @ r"
  by (auto simp: take_lit_def prefix_def split: if_splits)

lemma date_text_fields:
  assumes "date_of_iso s = Some n"
  obtains a b c d e f g h where "s = [a, b, c, d, CHR ''-'', e, f, CHR ''-'', g, h]"
    "list_all is_digit [a, b, c, d, e, f, g, h]"
proof -
  from assms obtain y s1 s2 m s3 s4 k where
    1: "take_field 4 s = Some (y, s1)" "take_lit ''-'' s1 = Some s2" "take_field 2 s2 = Some (m, s3)"
      "take_lit ''-'' s3 = Some s4" "take_field 2 s4 = Some (k, [])"
    unfolding date_of_iso_def by (auto simp: Option.bind_eq_Some_conv split: if_splits)
  obtain p q r where s: "s = p @ s1" "s2 = q @ s3" "s4 = r @ []"
    and l: "length p = 4" "length q = 2" "length r = 2" and dg: "isdigit p" "isdigit q" "isdigit r"
    using 1(1,3,5) [THEN take_fieldD] by blast
  have "s1 = ''-'' @ s2" "s3 = ''-'' @ s4" using 1(2,4) [THEN take_litD] .
  then have eq: "s = p @ ''-'' @ q @ ''-'' @ r" using s by simp
  obtain a b c d where p: "p = [a, b, c, d]" using l(1) by (auto simp: length_Suc_conv numeral_eq_Suc)
  obtain e f where q: "q = [e, f]" using l(2) by (auto simp: length_Suc_conv numeral_eq_Suc)
  obtain g h where r: "r = [g, h]" using l(3) by (auto simp: length_Suc_conv numeral_eq_Suc)
  show thesis
    by (rule that [of a b c d e f g h]) (use eq dg in \<open>auto simp: p q r isdigit_def\<close>)
qed

lemma digits_lex:
  fixes a e g :: int
  assumes r: "b \<le> 9" "c \<le> 9" "d \<le> 9" "f \<le> 9" "h \<le> 9" "0 \<le> b'" "0 \<le> c'" "0 \<le> d'" "0 \<le> f'" "0 \<le> h'"
    and lex: "a < a' \<or> a = a' \<and> (b < b' \<or> b = b' \<and> (c < c' \<or> c = c' \<and> (d < d' \<or> d = d' \<and> (e < e' \<or> e = e' \<and>
      (f < f' \<or> f = f' \<and> (g < g' \<or> g = g' \<and> h \<le> h'))))))"
    and y: "y = a * 1000 + b * 100 + c * 10 + d" "y' = a' * 1000 + b' * 100 + c' * 10 + d'"
    and m: "m = e * 10 + f" "m' = e' * 10 + f'" and k: "k = g * 10 + h" "k' = g' * 10 + h'"
  shows "y < y' \<or> y = y' \<and> (m < m' \<or> m = m' \<and> k \<le> k')"
  using lex
proof (elim disjE conjE)
qed (use r y m k in auto)

lemma date_texts_order:
  assumes s: "date_of_iso s = Some x" and t: "date_of_iso t = Some x'" and le: "s \<le> t"
  shows "x \<le> x'"
proof -
  obtain a b c d e f g h where
    s': "s = [a, b, c, d, CHR ''-'', e, f, CHR ''-'', g, h]" "list_all is_digit [a, b, c, d, e, f, g, h]"
    using s by (rule date_text_fields)
  obtain a' b' c' d' e' f' g' h' where
    t': "t = [a', b', c', d', CHR ''-'', e', f', CHR ''-'', g', h']" "list_all is_digit [a', b', c', d', e', f', g', h']"
    using t by (rule date_text_fields)
  define y m k where "y = dig a * 1000 + dig b * 100 + dig c * 10 + dig d" and "m = dig e * 10 + dig f"
    and "k = dig g * 10 + dig h"
  define y' m' k' where "y' = dig a' * 1000 + dig b' * 100 + dig c' * 10 + dig d'" and "m' = dig e' * 10 + dig f'"
    and "k' = dig g' * 10 + dig h'"
  note one = s [unfolded s'(1) date_of_iso_text Let_def, folded y_def m_def k_def]
  note two = t [unfolded t'(1) date_of_iso_text Let_def, folded y'_def m'_def k'_def]
  have x: "x = ymd2ord y (nat m) k" "1 \<le> m" "m \<le> 12" "k \<le> month_length (is_leap y) (nat m)"
    using one s'(2) by (auto simp: month_length_def nat_diff_distrib' not_less nat_eq_iff split: if_splits)
  have x': "x' = ymd2ord y' (nat m') k'" "1 \<le> m'" "m' \<le> 12" "1 \<le> k'"
    using two t'(2) by (auto simp: not_less split: if_splits)
  have lex: "y < y' \<or> y = y' \<and> (m < m' \<or> m = m' \<and> k \<le> k')"
  proof -
    have D: "\<And>z. z \<in> {a, b, c, d, e, f, g, h, a', b', c', d', e', f', g', h'} \<Longrightarrow> is_digit z"
      using s'(2) t'(2) by auto
    have step: "z # u \<le> w # v \<longleftrightarrow> dig z < dig w \<or> dig z = dig w \<and> u \<le> v" if "is_digit z" "is_digit w" for z w u v
      using digit_order(1,2) [OF that] by simp
    have dash: "CHR ''-'' # u \<le> CHR ''-'' # v \<longleftrightarrow> u \<le> v" for u v by simp
    have r: "0 \<le> dig z" "dig z \<le> 9" if "is_digit z" for z
      using digit_order(3,4) [OF that that] by simp_all
    have "dig a < dig a' \<or> dig a = dig a' \<and> (dig b < dig b' \<or> dig b = dig b' \<and> (dig c < dig c' \<or> dig c = dig c' \<and>
      (dig d < dig d' \<or> dig d = dig d' \<and> (dig e < dig e' \<or> dig e = dig e' \<and> (dig f < dig f' \<or> dig f = dig f' \<and>
      (dig g < dig g' \<or> dig g = dig g' \<and> dig h \<le> dig h'))))))"
      using le unfolding s'(1) t'(1)
      by (simp only: step D insert_iff simp_thms dash order_refl le_less [of "dig h"])
    then show ?thesis
      by (rule digits_lex [rotated 10, OF _ y_def y'_def m_def m'_def k_def k'_def])
        (simp_all only: r D insert_iff simp_thms)
  qed
  show ?thesis unfolding x(1) x'(1)
    by (rule ymd2ord_lex) (use x x' lex in auto)
qed

end
