(* ===== verification/OsEolProps.thy ===== *)
theory OsEolProps
  imports EolDates
begin

text \<open>
  The shipped catalogue is sound, support phases only get worse, an alert is raised exactly when the date
  it shows has passed, and Windows hosts get the benefit of the doubt between channels of one build.
\<close>

section \<open>The catalogue is sound\<close>

definition entry_ok :: "EolEntry \<Rightarrow> bool" where
  "entry_ok e \<longleftrightarrow>
     (case date_of_iso (ee_eol e) of
        None \<Rightarrow> False
      | Some d \<Rightarrow>
          (case ee_support e of
             None \<Rightarrow> True | Some s \<Rightarrow> s \<noteq> [] \<and> is_some_and (date_of_iso s) (\<lambda>x. x \<le> d)) \<and>
          (case ee_extended_support e of
             None \<Rightarrow> True | Some s \<Rightarrow> s \<noteq> [] \<and> is_some_and (date_of_iso s) (\<lambda>x. d \<le> x)))"

lemma EOL_debian_ok: "list_all entry_ok EOL_debian"
  by (simp add: EOL_debian_def entry_ok_def date_eval)

lemma EOL_ubuntu_ok: "list_all entry_ok EOL_ubuntu"
  by (simp add: EOL_ubuntu_def entry_ok_def date_eval)

lemma EOL_rhel_ok: "list_all entry_ok EOL_rhel"
  by (simp add: EOL_rhel_def entry_ok_def date_eval)

lemma EOL_rocky_linux_ok: "list_all entry_ok EOL_rocky_linux"
  by (simp add: EOL_rocky_linux_def entry_ok_def date_eval)

lemma EOL_almalinux_ok: "list_all entry_ok EOL_almalinux"
  by (simp add: EOL_almalinux_def entry_ok_def date_eval)

lemma EOL_centos_ok: "list_all entry_ok EOL_centos"
  by (simp add: EOL_centos_def entry_ok_def date_eval)

lemma EOL_centos_stream_ok: "list_all entry_ok EOL_centos_stream"
  by (simp add: EOL_centos_stream_def entry_ok_def date_eval)

lemma EOL_sles_ok: "list_all entry_ok EOL_sles"
  by (simp add: EOL_sles_def entry_ok_def date_eval)

lemma EOL_opensuse_ok: "list_all entry_ok EOL_opensuse"
  by (simp add: EOL_opensuse_def entry_ok_def date_eval)

lemma EOL_amazon_linux_ok: "list_all entry_ok EOL_amazon_linux"
  by (simp add: EOL_amazon_linux_def entry_ok_def date_eval)

lemma EOL_fedora_ok: "list_all entry_ok EOL_fedora"
  by (simp add: EOL_fedora_def entry_ok_def date_eval)

lemma EOL_oracle_linux_ok: "list_all entry_ok EOL_oracle_linux"
  by (simp add: EOL_oracle_linux_def entry_ok_def date_eval)

lemma EOL_windows_server_ok: "list_all entry_ok EOL_windows_server"
  by (simp add: EOL_windows_server_def entry_ok_def date_eval)

lemmas catalog_parts =
  EOL_debian_ok
  EOL_ubuntu_ok
  EOL_rhel_ok
  EOL_rocky_linux_ok
  EOL_almalinux_ok
  EOL_centos_ok
  EOL_centos_stream_ok
  EOL_sles_ok
  EOL_opensuse_ok
  EOL_amazon_linux_ok
  EOL_fedora_ok
  EOL_oracle_linux_ok
  EOL_windows_server_ok

lemma catalog_ok: "list_all (\<lambda>(p, es). list_all entry_ok es) EOL_CATALOG"
  by (simp add: EOL_CATALOG_def catalog_parts)

lemma catalog_entry_ok: "e \<in> set (catalog_entries EOL_CATALOG p) \<Longrightarrow> entry_ok e"
  using catalog_ok unfolding catalog_entries_def list_all_iff
  by (cases "map_of EOL_CATALOG p") (auto dest: map_of_SomeD)

definition eol_day :: "EolEntry \<Rightarrow> int" where
  "eol_day e = the (date_of_iso (ee_eol e))"

section \<open>Phases of one entry\<close>

lemma entry_okD:
  assumes "entry_ok e"
  shows "date_of_iso (ee_eol e) = Some (eol_day e)"
    and "ee_support e = Some s \<Longrightarrow> s \<noteq> [] \<and> (\<exists>x \<le> eol_day e. date_of_iso s = Some x)"
    and "ee_extended_support e = Some s \<Longrightarrow> s \<noteq> [] \<and> (\<exists>x \<ge> eol_day e. date_of_iso s = Some x)"
  using assms by (cases "date_of_iso (ee_eol e)"; auto simp: entry_ok_def eol_day_def is_some_and_iff)+

lemma nonblank_simps [simp]: "nonblank None = None" "s \<noteq> [] \<Longrightarrow> nonblank (Some s) = Some s"
  by (simp_all add: nonblank_def split: list.split)

text \<open>The boundary has passed: the closed form of \<open>passed\<close> on a sound entry.\<close>

definition over :: "string option \<Rightarrow> int \<Rightarrow> bool" where
  "over boundary today = is_some_and boundary (\<lambda>s. the (date_of_iso s) \<le> today)"

lemma classify_entry_closed:
  assumes "entry_ok e"
  shows "classify_entry e today = Some
    (if over (ee_extended_support e) today then Ended
     else if eol_day e \<le> today then (if ee_extended_support e \<noteq> None then Paid_only else Ended)
     else if over (ee_support e) today then Security_only else Full)"
proof -
  note e = entry_okD [OF assms]
  have px: "passed (ee_extended_support e) today = Some (over (ee_extended_support e) today)"
    using e(3) by (cases "ee_extended_support e") (auto simp: passed_def over_def)
  have ps: "passed (ee_support e) today = Some (over (ee_support e) today)"
    using e(2) by (cases "ee_support e") (auto simp: passed_def over_def)
  have nx: "nonblank (ee_extended_support e) = ee_extended_support e"
    using e(3) by (cases "ee_extended_support e") auto
  show ?thesis by (simp add: classify_entry_def classify_eol_def px ps nx e(1))
qed

lemma classify_entry_free:
  assumes "entry_ok e" and "classify_entry e today = Some st"
  shows "2 \<le> EOL_SEVERITY st \<longleftrightarrow> eol_day e \<le> today"
proof -
  have "over (ee_extended_support e) today \<Longrightarrow> eol_day e \<le> today"
    using entry_okD(3) [OF assms(1)] by (fastforce simp: over_def is_some_and_iff)
  then show ?thesis using assms(2) unfolding classify_entry_closed [OF assms(1)] by (auto split: if_splits)
qed

lemma over_later: "over b today \<Longrightarrow> today \<le> today' \<Longrightarrow> over b today'"
  by (auto simp: over_def is_some_and_iff)

lemma classify_entry_later:
  assumes "entry_ok e" and "today \<le> today'"
    and "classify_entry e today = Some st" "classify_entry e today' = Some st'"
  shows "EOL_SEVERITY st \<le> EOL_SEVERITY st'"
  using assms(3,4) over_later [OF _ assms(2)] assms(2)
  unfolding classify_entry_closed [OF assms(1)] by (auto split: if_splits)

section \<open>Extremes\<close>

lemma first_max_in: "first_max k b xs \<in> set (b # xs)"
  by (induction k b xs rule: first_max.induct) (auto split: if_splits)

lemma first_max_ge: "y \<in> set (b # xs) \<Longrightarrow> k y \<le> k (first_max k b xs)"
proof (induction k b xs arbitrary: y rule: first_max.induct)
  case (2 k b x xs)
  define m where "m = (if k b < k x then x else b)"
  have ih: "z \<in> set (m # xs) \<Longrightarrow> k z \<le> k (first_max k m xs)" for z unfolding m_def by (rule 2)
  have "k b \<le> k m" "k x \<le> k m" by (auto simp: m_def)
  then have "\<exists>z \<in> set (m # xs). k y \<le> k z" using 2(2) by auto
  then show ?case using ih by (auto simp flip: m_def intro: order_trans)
qed simp

lemma first_min_in: "first_min k b xs \<in> set (b # xs)"
  by (induction k b xs rule: first_min.induct) (auto split: if_splits)

lemma first_min_le: "y \<in> set (b # xs) \<Longrightarrow> k (first_min k b xs) \<le> k y"
proof (induction k b xs arbitrary: y rule: first_min.induct)
  case (2 k b x xs)
  define m where "m = (if k x < k b then x else b)"
  have ih: "z \<in> set (m # xs) \<Longrightarrow> k (first_min k m xs) \<le> k z" for z unfolding m_def by (rule 2)
  have "k m \<le> k b" "k m \<le> k x" by (auto simp: m_def)
  then have "\<exists>z \<in> set (m # xs). k z \<le> k y" using 2(2) by auto
  then show ?case using ih by (auto simp flip: m_def intro: order_trans)
qed simp

lemma all_some_map: "(\<And>x. x \<in> set xs \<Longrightarrow> f x = Some (g x)) \<Longrightarrow> all_some (map f xs) = Some (map g xs)"
  by (induction xs) simp_all

section \<open>Phases of a host\<close>

text \<open>The entries a host may be running, and the entry whose dates it shows.\<close>

definition candidates :: "string option \<Rightarrow> string option \<Rightarrow> string option \<Rightarrow> EolEntry list" where
  "candidates os_id os_version kernel_version =
     (case nonblank os_id of
        None \<Rightarrow> []
      | Some i \<Rightarrow>
          if i = windows
          then filter (\<lambda>e. ee_build e = Some (build_of kernel_version)) (catalog_entries EOL_CATALOG ''windows-server'')
          else (case map_of OS_ID_TO_EOL_PRODUCT i of
                  None \<Rightarrow> []
                | Some p \<Rightarrow>
                    (let ver = (case os_version of None \<Rightarrow> [] | Some v \<Rightarrow> v) in
                     case List.find (\<lambda>e. ver = ee_cycle e \<or> prefix (ee_cycle e @ ''.'') ver)
                            (catalog_entries EOL_CATALOG p) of
                       None \<Rightarrow> [] | Some e \<Rightarrow> [e])))"

definition status_at :: "EolEntry \<Rightarrow> int \<Rightarrow> eol_status" where
  "status_at e today = the (classify_entry e today)"

lemma find_in: "List.find P xs = Some x \<Longrightarrow> x \<in> set xs"
  by (induction xs) (auto split: if_splits)

lemma candidates_in:
  assumes "e \<in> set (candidates i v k)" shows "\<exists>p. e \<in> set (catalog_entries EOL_CATALOG p)"
proof -
  obtain n where n: "nonblank i = Some n" using assms by (cases "nonblank i") (auto simp: candidates_def)
  show ?thesis
  proof (cases "n = windows")
    case True
    then show ?thesis using assms n unfolding candidates_def by auto
  next
    case False
    then obtain p where p: "map_of OS_ID_TO_EOL_PRODUCT n = Some p"
      using assms n by (cases "map_of OS_ID_TO_EOL_PRODUCT n") (auto simp: candidates_def)
    let ?ver = "case v of None \<Rightarrow> [] | Some w \<Rightarrow> w"
    have "List.find (\<lambda>e. ?ver = ee_cycle e \<or> prefix (ee_cycle e @ ''.'') ?ver) (catalog_entries EOL_CATALOG p) = Some e"
      using assms n False p
      by (cases "List.find (\<lambda>e. ?ver = ee_cycle e \<or> prefix (ee_cycle e @ ''.'') ?ver) (catalog_entries EOL_CATALOG p)")
        (simp_all add: candidates_def Let_def)
    then show ?thesis by (intro exI) (rule find_in)
  qed
qed

lemma candidates_ok: "e \<in> set (candidates i v k) \<Longrightarrow> entry_ok e"
  using candidates_in catalog_entry_ok by blast

lemma status_at: "entry_ok e \<Longrightarrow> classify_entry e today = Some (status_at e today)"
  by (simp add: status_at_def classify_entry_closed)

text \<open>The lookup in one equation: total, decided by the candidates, with a label that no date changes.\<close>

lemma lookup_closed:
  "\<exists>label. \<forall>today. lookup_os_eol i v k today = Some
     (case candidates i v k of
        [] \<Rightarrow> None
      | e # es \<Rightarrow> Some (info_of (first_max ee_eol e es) label
                         (first_min EOL_SEVERITY (status_at e today) (map (\<lambda>x. status_at x today) es))))"
proof (cases "candidates i v k")
  case Nil
  then show ?thesis
    by (auto simp: lookup_os_eol_def eol_info_def candidates_def Let_def split: option.splits if_splits)
next
  case (Cons e es)
  have ok: "x \<in> set (e # es) \<Longrightarrow> classify_entry x today = Some (status_at x today)" for x today
    using candidates_ok [of x i v k] unfolding Cons by (intro status_at)
  have all: "all_some (map (\<lambda>x. classify_entry x today) (e # es)) = Some (map (\<lambda>x. status_at x today) (e # es))" for today
    by (rule all_some_map) (rule ok)
  obtain n where n: "nonblank i = Some n" using Cons by (cases "nonblank i") (auto simp: candidates_def)
  show ?thesis
  proof (cases "n = windows")
    case True
    then have f: "filter (\<lambda>e. ee_build e = Some (build_of k)) (catalog_entries EOL_CATALOG ''windows-server'') = e # es"
      using Cons n by (simp add: candidates_def)
    show ?thesis
      unfolding lookup_os_eol_def eol_info_def n Cons True
      by (rule exI [of _ "''Windows Server '' @ ee_cycle (first_max ee_eol e es)"], rule allI)
        (simp only: f all option.case list.case Let_def simp_thms if_True Option.bind.bind_lunit list.sel, simp)
  next
    case False
    then obtain p where p: "map_of OS_ID_TO_EOL_PRODUCT n = Some p"
      using Cons n by (cases "map_of OS_ID_TO_EOL_PRODUCT n") (auto simp: candidates_def)
    then have f: "List.find (\<lambda>e. (case v of None \<Rightarrow> [] | Some w \<Rightarrow> w) = ee_cycle e \<or>
        prefix (ee_cycle e @ ''.'') (case v of None \<Rightarrow> [] | Some w \<Rightarrow> w)) (catalog_entries EOL_CATALOG p) = Some e"
      and es: "es = []"
      using Cons n False by (auto simp: candidates_def Let_def split: option.splits)
    show ?thesis
      unfolding lookup_os_eol_def eol_info_def n Cons using False
      by (intro exI [of _ "os_label n v"] allI) (simp add: p f es ok Let_def)
  qed
qed

lemma lookup_cases:
  obtains (unknown) "candidates i v k = []" "\<And>today. lookup_os_eol i v k today = Some None"
    | (known) e es label where "candidates i v k = e # es"
        "\<And>today. lookup_os_eol i v k today = Some (Some (info_of (first_max ee_eol e es) label
            (first_min EOL_SEVERITY (status_at e today) (map (\<lambda>x. status_at x today) es))))"
  using lookup_closed [of i v k] by (cases "candidates i v k") auto

lemma resolve_lookup:
  "lookup_os_eol i v k today = Some None \<Longrightarrow> resolve_os_eol i v k today = Some None"
  "lookup_os_eol i v k today = Some (Some a) \<Longrightarrow>
     resolve_os_eol i v k today =
       Some (if 2 \<le> EOL_SEVERITY (eol_status a) then Some (eol_iso a, eol_label a) else None)"
  by (cases "eol_status a"; simp add: resolve_os_eol_def lookup_os_eol_def)+

lemma info_of_sel [simp]:
  "eol_iso (info_of e l st) = ee_eol e" "eol_label (info_of e l st) = l" "eol_status (info_of e l st) = st"
  by (simp_all add: info_of_def)

text \<open>
  Claim C32: on the shipped catalogue the lookup never fails, whether a release is known
  does not depend on the day, and as days pass a host keeps its label and its end date while its phase
  only moves from full support through security patches and paid patches to the end.
\<close>

theorem phases_only_advance:
  assumes "today \<le> today'"
  shows "case (lookup_os_eol i v k today, lookup_os_eol i v k today') of
      (Some None, Some None) \<Rightarrow> True
    | (Some (Some a), Some (Some b)) \<Rightarrow>
        eol_iso a = eol_iso b \<and> eol_label a = eol_label b \<and>
        EOL_SEVERITY (eol_status a) \<le> EOL_SEVERITY (eol_status b)
    | _ \<Rightarrow> False"
proof (cases rule: lookup_cases [of i v k])
  case unknown
  then show ?thesis by simp
next
  case (known e es label)
  let ?st = "\<lambda>t. first_min EOL_SEVERITY (status_at e t) (map (\<lambda>x. status_at x t) es)"
  have "?st today' \<in> set (status_at e today' # map (\<lambda>x. status_at x today') es)" by (rule first_min_in)
  then obtain x where x: "x \<in> set (e # es)" "?st today' = status_at x today'" by auto
  have ok: "entry_ok x" using x(1) candidates_ok [of x i v k] known(1) by simp
  have "EOL_SEVERITY (?st today) \<le> EOL_SEVERITY (status_at x today)"
    by (rule first_min_le) (use x(1) in auto)
  also have "\<dots> \<le> EOL_SEVERITY (status_at x today')"
    using classify_entry_later [OF ok assms] status_at [OF ok] by blast
  finally show ?thesis using x(2) by (simp add: known(2))
qed

theorem phases_only_advance_witness:
  "lookup_os_eol (Some ''centos'') (Some ''7.9'') None 700000 \<noteq> None"
  using phases_only_advance [of 700000 800000 "Some ''centos''" "Some ''7.9''" None]
  by (auto split: option.splits)

text \<open>
  Claim C33: an end-of-support alert is raised exactly when the end date it shows lies in the
  past, although a Windows build may belong to several channels, the phase is the mildest of theirs, and
  the date is found by comparing texts.
\<close>

theorem eol_alert_exact:
  "case lookup_os_eol i v k today of
     None \<Rightarrow> False
   | Some None \<Rightarrow> resolve_os_eol i v k today = Some None
   | Some (Some a) \<Rightarrow>
       (\<exists>d. date_of_iso (eol_iso a) = Some d \<and>
            resolve_os_eol i v k today = Some (if d \<le> today then Some (eol_iso a, eol_label a) else None)) \<and>
       (\<forall>e \<in> set (candidates i v k). EOL_SEVERITY (eol_status a) \<le> EOL_SEVERITY (status_at e today))"
proof (cases rule: lookup_cases [of i v k])
  case unknown
  then show ?thesis using resolve_lookup(1) by simp
next
  case (known e es label)
  let ?st = "first_min EOL_SEVERITY (status_at e today) (map (\<lambda>x. status_at x today) es)"
  let ?rep = "first_max ee_eol e es"
  have ok: "entry_ok x" if "x \<in> set (e # es)" for x using that candidates_ok [of x i v k] known(1) by simp
  have free: "2 \<le> EOL_SEVERITY (status_at x today) \<longleftrightarrow> eol_day x \<le> today" if "x \<in> set (e # es)" for x
    using classify_entry_free [OF ok [OF that] status_at [OF ok [OF that]]] .
  have rep: "?rep \<in> set (e # es)" by (rule first_max_in)
  have last: "eol_day x \<le> eol_day ?rep" if "x \<in> set (e # es)" for x
    using date_texts_order [OF entry_okD(1) [OF ok [OF that]] entry_okD(1) [OF ok [OF rep]] first_max_ge [OF that]] .
  have least: "EOL_SEVERITY ?st \<le> EOL_SEVERITY (status_at x today)" if "x \<in> set (e # es)" for x
    by (rule first_min_le) (use that in auto)
  have "?st \<in> set (status_at e today # map (\<lambda>x. status_at x today) es)" by (rule first_min_in)
  then obtain x where x: "x \<in> set (e # es)" "?st = status_at x today" by auto
  have "2 \<le> EOL_SEVERITY ?st \<longleftrightarrow> eol_day ?rep \<le> today"
  proof
    assume "2 \<le> EOL_SEVERITY ?st"
    then have "2 \<le> EOL_SEVERITY (status_at ?rep today)" using least [OF rep] by linarith
    then show "eol_day ?rep \<le> today" using free [OF rep] by simp
  next
    assume "eol_day ?rep \<le> today"
    then have "eol_day x \<le> today" using last [OF x(1)] by simp
    then show "2 \<le> EOL_SEVERITY ?st" using free [OF x(1)] x(2) by simp
  qed
  then show ?thesis
    using resolve_lookup(2) [OF known(2)] entry_okD(1) [OF ok [OF rep]] least
    unfolding known(1) by (simp add: known(2))
qed

theorem eol_alert_exact_witness:
  "resolve_os_eol (Some ''centos'') (Some ''7.9'') None 800000 \<noteq> None"
  using eol_alert_exact [of "Some ''centos''" "Some ''7.9''" None 800000] by (auto split: option.splits)

end
