(* ===== verification/PeriodCard.thy ===== *)
theory PeriodCard
  imports SharedDisplay
begin

text \<open>
  The card \<open>last N days\<close> of a server: \<open>web/services/mappers/period_assessment.py\<close> with the records of
  \<open>web/view_models/metric.py\<close>.  Each resource has its utilisation and saturation rows, its verdict, and
  groups of further signals.  Korean words are constructors; a number carries its unit and the digits it is
  printed with.
\<close>

section \<open>Records\<close>

datatype period_value =
  V_na
  | V_tenths int string          \<comment> \<open>one decimal, unit\<close>
  | V_hundredths int string      \<comment> \<open>two decimals, unit\<close>
  | V_whole int string           \<comment> \<open>no decimals, unit\<close>
  | V_tenths_mount int string    \<comment> \<open>percent and the worst mount\<close>
  | V_axis axis_value
  | V_stable                     \<comment> \<open>no trend\<close>
  | V_not_observed

datatype period_threshold =
  Th_none
  | Th_limit pyfloat string
  | Th_minimum pyfloat string
  | Th_min_observed pyfloat
  | Th_axis axis_threshold

datatype row_label =
  R_p95_usage | R_usage_worst_mount | R_run_queue | R_paging | R_response_delay | R_retrans | R_drop
  | R_conntrack | R_peak_usage | R_percore_max | R_dstate | R_burst | R_steal | R_hours | R_sufficiency
  | R_near_peak | R_capacity_runway | R_inode_runway | R_inode_usage | R_iops | R_target_capacity | R_traffic

record PeriodSignalRow =
  ps_label :: row_label
  ps_value :: period_value
  ps_threshold :: period_threshold
  ps_over :: bool
  ps_measured :: bool

datatype error_badge = B_count int | B_occurred | B_clean | B_not_applicable | B_waiting

record PeriodErrorRow =
  pe_key :: string
  pe_badge :: error_badge
  pe_badge_class :: string
  pe_note :: "error_context option"
  pe_sizing_signal :: bool       \<comment> \<open>the words \<open>memory shortage\<close>\<close>

datatype group_label = G_load | G_confidence

record PeriodExtraGroup =
  pg_label :: group_label
  pg_rows :: "PeriodSignalRow list"

datatype verdict_label =
  Vd_short | Vd_excess | Vd_filling | Vd_io_bottleneck | Vd_congested | Vd_unmeasured | Vd_few_samples
  | Vd_normal

record PeriodResource =
  pr_slug :: string
  pr_util_rows :: "PeriodSignalRow list"
  pr_util_over :: nat
  pr_sat_rows :: "PeriodSignalRow list"
  pr_sat_over :: nat
  pr_has_util :: bool
  pr_verdict :: "verdict_label \<times> string"
  pr_extra_groups :: "PeriodExtraGroup list"
  pr_error_rows :: "PeriodErrorRow list"
  pr_verdict2 :: "(verdict_label \<times> string) option"

record PeriodAssessment =
  pa_resources :: "PeriodResource list"
  pa_error_rows :: "PeriodErrorRow list"
  pa_window_days :: int
  pa_classification_label :: class_label
  pa_classification_color :: string

section \<open>Verdicts and error rows\<close>

fun VERDICT_LABEL :: "resource_status \<Rightarrow> verdict_label" where
  "VERDICT_LABEL Under = Vd_short"
| "VERDICT_LABEL Over = Vd_excess"
| "VERDICT_LABEL Filling = Vd_filling"
| "VERDICT_LABEL Io_bound = Vd_io_bottleneck"
| "VERDICT_LABEL Congested = Vd_congested"
| "VERDICT_LABEL Unmeasured = Vd_unmeasured"
| "VERDICT_LABEL Insufficient = Vd_few_samples"
| "VERDICT_LABEL _ = Vd_normal"

fun VERDICT_COLOR :: "resource_status \<Rightarrow> string" where
  "VERDICT_COLOR Under = ''#dc2626''"
| "VERDICT_COLOR Filling = ''#dc2626''"
| "VERDICT_COLOR Io_bound = ''#dc2626''"
| "VERDICT_COLOR Congested = ''#d97706''"
| "VERDICT_COLOR Over = ''var(--color-title)''"
| "VERDICT_COLOR _ = ''#94a3b8''"

definition verdict :: "resource_status \<Rightarrow> verdict_label \<times> string" where
  "verdict st = (VERDICT_LABEL st, VERDICT_COLOR st)"

definition period_error_row :: "ErrorSignal \<Rightarrow> PeriodErrorRow" where
  "period_error_row e =
     (let (badge, cls, nt) =
        (case es_state e of
           Occurred \<Rightarrow> (case es_count e of Some n \<Rightarrow> B_count n | None \<Rightarrow> B_occurred, ''badge-danger'', es_context e)
         | Clean \<Rightarrow> (B_clean, ''badge-ok'', None)
         | Err_not_applicable \<Rightarrow> (B_not_applicable, ''badge-muted'', None)
         | Err_no_data \<Rightarrow> (B_waiting, ''badge-muted'', None))
      in \<lparr>pe_key = es_key e, pe_badge = badge, pe_badge_class = cls, pe_note = nt,
          pe_sizing_signal = (es_key e = ''mem_oom'' \<and> es_state e = Occurred)\<rparr>)"

definition period_error_rows :: "ErrorSignal list \<Rightarrow> PeriodErrorRow list" where
  "period_error_rows errors = map period_error_row errors"

section \<open>Rows\<close>

definition extra_row ::
  "row_label \<Rightarrow> pyfloat option \<Rightarrow> string \<Rightarrow> pyfloat option \<Rightarrow> bool \<Rightarrow> PeriodSignalRow" where
  "extra_row label val unit_name thr over =
     \<lparr>ps_label = label,
      ps_value = (case val of None \<Rightarrow> V_na | Some v \<Rightarrow> V_tenths (rhe (v * 10)) unit_name),
      ps_threshold = (case thr of None \<Rightarrow> Th_none | Some t \<Rightarrow> Th_limit t unit_name),
      ps_over = over, ps_measured = (val \<noteq> None)\<rparr>"

definition confidence_rows :: "ResourceStats \<Rightarrow> PeriodSignalRow list" where
  "confidence_rows stats =
     [\<lparr>ps_label = R_hours,
       ps_value = (case history_hours stats of None \<Rightarrow> V_na | Some h \<Rightarrow> V_whole (rhe h) ''h''),
       ps_threshold = Th_minimum RS_CONFIDENCE_MIN_HOURS ''h'',
       ps_over = is_some_and (history_hours stats) (\<lambda>h. h < RS_CONFIDENCE_MIN_HOURS),
       ps_measured = (history_hours stats \<noteq> None)\<rparr>,
      \<lparr>ps_label = R_sufficiency,
       ps_value = (case sample_sufficiency stats of None \<Rightarrow> V_na | Some x \<Rightarrow> V_whole (rhe (fmul x 100)) ''%''),
       ps_threshold = Th_minimum (fmul RS_DOWNSIZE_MIN_SUFFICIENCY 100) ''%'',
       ps_over = is_some_and (sample_sufficiency stats) (\<lambda>x. x < RS_DOWNSIZE_MIN_SUFFICIENCY),
       ps_measured = (sample_sufficiency stats \<noteq> None)\<rparr>]"

definition cpu_extra_groups :: "ResourceStats \<Rightarrow> PeriodExtraGroup list" where
  "cpu_extra_groups stats =
     [\<lparr>pg_label = G_load, pg_rows =
        [extra_row R_peak_usage (cpu_peak_pct stats) ''%'' None False,
         extra_row R_percore_max (cpu_percore_p95_max stats) ''%'' (Some RS_CPU_PERCORE_HOLD_PCT)
           (is_some_and (cpu_percore_p95_max stats) (\<lambda>x. x \<ge> RS_CPU_PERCORE_HOLD_PCT)),
         extra_row R_dstate (procs_blocked_p95 stats) [] (Some PROCS_BLOCKED_DSTATE_SATURATION)
           (is_some_and (procs_blocked_p95 stats) (\<lambda>x. x \<ge> PROCS_BLOCKED_DSTATE_SATURATION))]\<rparr>,
      \<lparr>pg_label = G_confidence, pg_rows =
        [extra_row R_burst (cpu_burst_ratio stats) ''x'' (Some RS_BURST_RATIO_MAX)
           (is_some_and (cpu_burst_ratio stats) (\<lambda>x. x > RS_BURST_RATIO_MAX)),
         extra_row R_steal (cpu_steal_p95_pct stats) ''%'' (Some RS_CPU_STEAL_BIAS_PCT)
           (is_some_and (cpu_steal_p95_pct stats) (\<lambda>x. x \<ge> RS_CPU_STEAL_BIAS_PCT))]
        @ confidence_rows stats\<rparr>]"

definition mem_extra_groups :: "ResourceStats \<Rightarrow> PeriodExtraGroup list" where
  "mem_extra_groups stats =
     [\<lparr>pg_label = G_load, pg_rows = [extra_row R_near_peak (mem_near_peak_pct stats) ''%'' None False]\<rparr>,
      \<lparr>pg_label = G_confidence, pg_rows = confidence_rows stats\<rparr>]"

definition runway_row :: "ResourceStats \<Rightarrow> row_label \<Rightarrow> pyfloat option \<Rightarrow> PeriodSignalRow" where
  "runway_row stats label val =
     (let stable = is_some_and (history_hours stats) (\<lambda>h. h \<ge> RS_CONFIDENCE_MIN_HOURS);
          (v, thr) = (case val of
             Some d \<Rightarrow> (V_whole (rhe d) ''d'', Th_minimum RS_DISK_RUNWAY_DAYS ''d'')
           | None \<Rightarrow> if stable then (V_stable, Th_none)
                     else (V_not_observed, Th_min_observed RS_CONFIDENCE_MIN_HOURS))
      in \<lparr>ps_label = label, ps_value = v, ps_threshold = thr,
          ps_over = is_some_and val (\<lambda>d. d < RS_DISK_RUNWAY_DAYS), ps_measured = (val \<noteq> None \<or> stable)\<rparr>)"

definition storage_extra_groups :: "ResourceStats \<Rightarrow> PeriodExtraGroup list" where
  "storage_extra_groups stats =
     [\<lparr>pg_label = G_confidence, pg_rows = confidence_rows stats\<rparr>,
      \<lparr>pg_label = G_load, pg_rows =
        [runway_row stats R_capacity_runway (disk_capacity_runway_days stats),
         runway_row stats R_inode_runway (disk_inode_runway_days stats),
         extra_row R_inode_usage (disk_inode_used_pct stats) ''%'' (Some RS_DISK_STATIC_GUARD_PCT)
           (is_some_and (disk_inode_used_pct stats) (\<lambda>x. x \<ge> RS_DISK_STATIC_GUARD_PCT)),
         extra_row R_iops (disk_iops_baseline stats) '' IOPS'' None False,
         extra_row R_target_capacity (disk_capacity_target_gb stats) ''GB'' None False]\<rparr>]"

definition network_extra_groups :: "ResourceStats \<Rightarrow> PeriodExtraGroup list" where
  "network_extra_groups stats =
     [\<lparr>pg_label = G_load, pg_rows = [extra_row R_traffic (net_avg_kbytes_per_s stats) '' kB/s'' None False]\<rparr>,
      \<lparr>pg_label = G_confidence, pg_rows = confidence_rows stats\<rparr>]"

definition util_row :: "row_label \<Rightarrow> pyfloat option \<Rightarrow> pyfloat \<Rightarrow> PeriodSignalRow" where
  "util_row label val thr =
     \<lparr>ps_label = label,
      ps_value = (case val of None \<Rightarrow> V_na | Some v \<Rightarrow> V_tenths (rhe (v * 10)) ''%''),
      ps_threshold = Th_limit thr ''%'', ps_over = is_some_and val (\<lambda>v. v \<ge> thr), ps_measured = (val \<noteq> None)\<rparr>"

text \<open>The row of a saturation axis; the card prints its threshold without the comparison sign.\<close>

definition sat_row :: "row_label \<Rightarrow> SaturationAxisDisplay \<Rightarrow> PeriodSignalRow" where
  "sat_row label d =
     \<lparr>ps_label = label, ps_value = V_axis (sa_value d), ps_threshold = Th_axis (sa_threshold d),
      ps_over = sa_crossed d, ps_measured = sa_measured d\<rparr>"

definition net_row :: "row_label \<Rightarrow> pyfloat option \<Rightarrow> pyfloat \<Rightarrow> string \<Rightarrow> PeriodSignalRow" where
  "net_row label val thr unit_name =
     \<lparr>ps_label = label,
      ps_value = (case val of None \<Rightarrow> V_na | Some v \<Rightarrow> V_hundredths (rhe (v * 100)) unit_name),
      ps_threshold = Th_limit thr unit_name, ps_over = is_some_and val (\<lambda>v. v \<ge> thr),
      ps_measured = (val \<noteq> None)\<rparr>"

definition count_over :: "PeriodSignalRow list \<Rightarrow> nat" where
  "count_over rows = length (filter ps_over rows)"

section \<open>The card\<close>

definition DONUT_SEGMENT_DEFS :: "(recommendation \<times> string) list" where
  "DONUT_SEGMENT_DEFS =
     [(Rec_under_provisioned, ''#ef4444''), (Rec_over_provisioned, ''var(--color-title)''),
      (Rec_idle, ''#64748b''), (Rec_optimal, ''#22c55e''), (Rec_insufficient_data, ''#cbd5e1'')]"

definition WINDOW_DAYS :: int where "WINDOW_DAYS = 14"

definition storage_util_row :: "ResourceStats \<Rightarrow> string option \<Rightarrow> PeriodSignalRow" where
  "storage_util_row stats worst_mount =
     \<lparr>ps_label = R_usage_worst_mount,
      ps_value = (case disk_used_pct stats of
                    None \<Rightarrow> V_na
                  | Some v \<Rightarrow> (case nonblank worst_mount of
                                None \<Rightarrow> V_tenths (rhe (v * 10)) ''%''
                              | Some m \<Rightarrow> V_tenths_mount (rhe (v * 10)) m)),
      ps_threshold = Th_limit RS_DISK_STATIC_GUARD_PCT ''%'',
      ps_over = is_some_and (disk_used_pct stats) (\<lambda>v. v \<ge> RS_DISK_STATIC_GUARD_PCT),
      ps_measured = (disk_used_pct stats \<noteq> None)\<rparr>"

definition period_resource ::
  "string \<Rightarrow> PeriodSignalRow list \<Rightarrow> PeriodSignalRow list \<Rightarrow> bool \<Rightarrow> resource_status \<Rightarrow> PeriodExtraGroup list
     \<Rightarrow> PeriodErrorRow list \<Rightarrow> resource_status option \<Rightarrow> PeriodResource" where
  "period_resource slug util sat has_util st extra errs st2 =
     \<lparr>pr_slug = slug, pr_util_rows = util, pr_util_over = count_over util, pr_sat_rows = sat,
      pr_sat_over = count_over sat, pr_has_util = has_util, pr_verdict = verdict st, pr_extra_groups = extra,
      pr_error_rows = errs, pr_verdict2 = map_option verdict st2\<rparr>"

definition build_period_assessment ::
  "ResourceStats \<Rightarrow> ErrorSignal list \<Rightarrow> string option \<Rightarrow> int option \<Rightarrow> PeriodAssessment" where
  "build_period_assessment stats errors worst_mount window_days =
     (let axes = saturation_axis_displays stats;
          net_s = [net_row R_retrans (net_retrans_pct stats) RS_NET_RETRANS_PCT ''%'',
                   net_row R_drop (net_drop_pct stats) RS_NET_DROP_PCT ''%'',
                   net_row R_conntrack (conntrack_ratio stats) RS_CONNTRACK_SATURATION_RATIO []];
          host = rollup_host stats;
          seg_key = host_status_to_recommendation (host_status host);
          rstat = (\<lambda>k. case resources host k of Some a \<Rightarrow> status a | None \<Rightarrow> Unmeasured);
          error_rows = period_error_rows errors;
          mem_error_rows = filter (\<lambda>r. prefix ''mem_'' (pe_key r)) error_rows
      in \<lparr>pa_resources =
            [period_resource ''cpu'' [util_row R_p95_usage (cpu_p95_pct stats) RS_CPU_UNDER_PCT]
               [sat_row R_run_queue (axes ! 0)] True (rstat Cpu) (cpu_extra_groups stats) [] None,
             period_resource ''memory'' [util_row R_p95_usage (mem_p95_pct stats) RS_MEM_UNDER_PCT]
               [sat_row R_paging (axes ! 1)] True (rstat Memory) (mem_extra_groups stats) mem_error_rows None,
             period_resource ''storage'' [storage_util_row stats worst_mount]
               [sat_row R_response_delay (axes ! 2)] True (rstat Disk_capacity) (storage_extra_groups stats) []
               (Some (rstat Disk_io)),
             period_resource ''network'' [] net_s False (rstat Network) (network_extra_groups stats) [] None],
          pa_error_rows = error_rows,
          pa_window_days = (case window_days of Some d \<Rightarrow> d | None \<Rightarrow> WINDOW_DAYS),
          pa_classification_label = LABEL_KO seg_key,
          pa_classification_color = the (map_of DONUT_SEGMENT_DEFS seg_key)\<rparr>)"

end
