(* ===== verification/PeriodCardProps.thy ===== *)
theory PeriodCardProps
  imports PeriodCard InterfaceProps
begin

text \<open>
  The card of a server against the verdict it carries: a problem verdict always has a row of the same
  resource beyond its line, and where the two sides of the code use different comparisons is stated.
\<close>

section \<open>Evidence rows\<close>

definition evidence_rows :: "PeriodResource \<Rightarrow> PeriodSignalRow list" where
  "evidence_rows r = pr_util_rows r @ pr_sat_rows r @ concat (map pg_rows (filter (\<lambda>g. pg_label g = G_load) (pr_extra_groups r)))"

definition problem_verdicts :: "verdict_label set" where
  "problem_verdicts = {Vd_short, Vd_filling, Vd_io_bottleneck, Vd_congested}"

lemma problem_verdict_iff:
  "fst (verdict st) \<in> problem_verdicts \<longleftrightarrow> st \<in> {Under, Filling, Io_bound, Congested}"
  by (cases st) (simp_all add: verdict_def problem_verdicts_def)

lemma period_card_resources:
  "pa_resources (build_period_assessment s errs m w) =
     [period_resource ''cpu'' [util_row R_p95_usage (cpu_p95_pct s) RS_CPU_UNDER_PCT]
        [sat_row R_run_queue (saturation_axis_displays s ! 0)] True (status (assess_cpu s)) (cpu_extra_groups s) [] None,
      period_resource ''memory'' [util_row R_p95_usage (mem_p95_pct s) RS_MEM_UNDER_PCT]
        [sat_row R_paging (saturation_axis_displays s ! 1)] True (status (assess_memory s)) (mem_extra_groups s)
        (filter (\<lambda>r. prefix ''mem_'' (pe_key r)) (period_error_rows errs)) None,
      period_resource ''storage'' [storage_util_row s m]
        [sat_row R_response_delay (saturation_axis_displays s ! 2)] True (status (assess_disk_capacity s))
        (storage_extra_groups s) [] (Some (status (assess_disk_io s))),
      period_resource ''network'' []
        [net_row R_retrans (net_retrans_pct s) RS_NET_RETRANS_PCT ''%'',
         net_row R_drop (net_drop_pct s) RS_NET_DROP_PCT ''%'',
         net_row R_conntrack (conntrack_ratio s) RS_CONNTRACK_SATURATION_RATIO []]
        False (status (assess_network s)) (network_extra_groups s) [] None]"
  by (simp add: build_period_assessment_def Let_def)

lemma card_cpu:
  "pa_resources (build_period_assessment s errs m w) ! 0 =
     period_resource ''cpu'' [util_row R_p95_usage (cpu_p95_pct s) RS_CPU_UNDER_PCT]
        [sat_row R_run_queue (saturation_axis_displays s ! 0)] True (status (assess_cpu s)) (cpu_extra_groups s) [] None"
  and card_mem: "pa_resources (build_period_assessment s errs m w) ! 1 =
     period_resource ''memory'' [util_row R_p95_usage (mem_p95_pct s) RS_MEM_UNDER_PCT]
        [sat_row R_paging (saturation_axis_displays s ! 1)] True (status (assess_memory s)) (mem_extra_groups s)
        (filter (\<lambda>r. prefix ''mem_'' (pe_key r)) (period_error_rows errs)) None"
  and card_net: "pa_resources (build_period_assessment s errs m w) ! 3 =
     period_resource ''network'' []
        [net_row R_retrans (net_retrans_pct s) RS_NET_RETRANS_PCT ''%'',
         net_row R_drop (net_drop_pct s) RS_NET_DROP_PCT ''%'',
         net_row R_conntrack (conntrack_ratio s) RS_CONNTRACK_SATURATION_RATIO []]
        False (status (assess_network s)) (network_extra_groups s) [] None"
  and card_disk:
  "pa_resources (build_period_assessment s errs m w) ! 2 =
     period_resource ''storage'' [storage_util_row s m]
        [sat_row R_response_delay (saturation_axis_displays s ! 2)] True (status (assess_disk_capacity s))
        (storage_extra_groups s) [] (Some (status (assess_disk_io s)))"
  by (simp_all add: period_card_resources)

text \<open>Without saturation and below the line the CPU target never exceeds the cores.\<close>

lemma cpu_under_row:
  assumes "status (assess_cpu s) = Under" and bnd: "\<And>c. cpu_cores s = Some c \<Longrightarrow> 70 * c \<le> 2 ^ 53"
  shows "ps_over (util_row R_p95_usage (cpu_p95_pct s) RS_CPU_UNDER_PCT) \<or> truthy (cpu_saturated s)"
proof (rule ccontr)
  assume no: "\<not> ?thesis"
  obtain c where c: "cpu_cores s = Some c" "0 < c"
    using assms(1) by (auto simp: assess_cpu_def Let_def split: option.splits if_splits)
  obtain u where u: "cpu_p95_pct s = Some u"
    using assms(1) no by (auto simp: assess_cpu_def Let_def split: option.splits if_splits)
  have lt: "u < 70" using no u by (simp add: util_row_def is_some_and_iff sizing_simps not_le)
  have "cpu_target_cores u c (run_queue_value s) (os_family s) False \<le> c"
    using lt c bnd by (intro cpu_target_cores_le) simp_all
  with assms(1) no u c lt show False
    using assess_cpu_known [of s c] by (simp add: is_some_and_iff split: if_splits)
qed

lemma memory_under_row:
  "status (assess_memory s) = Under \<Longrightarrow>
     ps_over (util_row R_p95_usage (mem_p95_pct s) RS_MEM_UNDER_PCT) \<or> truthy (mem_saturated s) \<or> oom_occurred s"
  by (auto simp: assess_memory_def Let_def util_row_def is_some_and_def mem_paging_active_def
      split: option.splits if_splits)

lemma filling_causes:
  assumes "status (assess_disk_capacity s) = Filling"
  shows "is_some_and (disk_used_pct s) (\<lambda>v. v \<ge> RS_DISK_STATIC_GUARD_PCT) \<or>
     is_some_and (disk_inode_used_pct s) (\<lambda>v. v \<ge> RS_DISK_STATIC_GUARD_PCT) \<or>
     is_some_and (disk_capacity_runway_days s) (\<lambda>d. d < RS_DISK_RUNWAY_DAYS) \<or>
     is_some_and (disk_inode_runway_days s) (\<lambda>d. d < RS_DISK_RUNWAY_DAYS)"
proof -
  have runway: "is_some_and (min_runway [a, b]) (\<lambda>d. d < RS_DISK_RUNWAY_DAYS) \<Longrightarrow>
      is_some_and a (\<lambda>d. d < RS_DISK_RUNWAY_DAYS) \<or> is_some_and b (\<lambda>d. d < RS_DISK_RUNWAY_DAYS)" for a b
    by (cases a; cases b) (auto simp: min_runway_def is_some_and_iff min_def split: if_splits)
  show ?thesis
    using assms runway [of "disk_capacity_runway_days s" "disk_inode_runway_days s"]
    by (auto simp: assess_disk_capacity_def Let_def split: if_splits option.splits)
qed

lemma filling_row:
  assumes "status (assess_disk_capacity s) = Filling"
  shows "ps_over (storage_util_row s m) \<or>
     (\<exists>g \<in> set (storage_extra_groups s). pg_label g = G_load \<and> (\<exists>r \<in> set (pg_rows g). ps_over r))"
  using filling_causes [OF assms]
  by (auto simp: storage_util_row_def storage_extra_groups_def runway_row_def extra_row_def Let_def case_prod_beta)

lemma congested_row:
  "status (assess_network s) = Congested \<Longrightarrow>
     \<exists>r \<in> {net_row R_retrans (net_retrans_pct s) RS_NET_RETRANS_PCT ''%'',
         net_row R_drop (net_drop_pct s) RS_NET_DROP_PCT ''%'',
         net_row R_conntrack (conntrack_ratio s) RS_CONNTRACK_SATURATION_RATIO []}. ps_over r"
  by (auto simp: assess_network_def network_triggers_def Let_def net_row_def is_some_and_iff less_imp_le split: if_splits)


section \<open>A problem verdict has its row\<close>

definition problem :: "PeriodResource \<Rightarrow> bool" where
  "problem r = (fst (pr_verdict r) \<in> problem_verdicts \<or> (\<exists>v. pr_verdict2 r = Some v \<and> fst v \<in> problem_verdicts))"

definition shows_evidence :: "PeriodResource \<Rightarrow> bool" where
  "shows_evidence r = ((\<exists>row \<in> set (evidence_rows r). ps_over row) \<or>
     pr_slug r = ''memory'' \<and> (\<exists>e \<in> set (pr_error_rows r). pe_sizing_signal e \<and> pe_badge_class e = ''badge-danger''))"

lemma problem_period_resource:
  "problem (period_resource slug util sat hu st extra errs st2) \<longleftrightarrow>
     st \<in> {Under, Filling, Io_bound, Congested} \<or> (\<exists>x. st2 = Some x \<and> x \<in> {Under, Filling, Io_bound, Congested})"
  by (cases st2) (simp_all add: problem_def period_resource_def problem_verdict_iff)

lemma shows_evidence_period_resource:
  "shows_evidence (period_resource slug util sat hu st extra errs st2) \<longleftrightarrow>
     (\<exists>row \<in> set util \<union> set sat. ps_over row) \<or>
     (\<exists>g \<in> set extra. pg_label g = G_load \<and> (\<exists>row \<in> set (pg_rows g). ps_over row)) \<or>
     slug = ''memory'' \<and> (\<exists>e \<in> set errs. pe_sizing_signal e \<and> pe_badge_class e = ''badge-danger'')"
  unfolding shows_evidence_def evidence_rows_def period_resource_def by auto

lemma oom_error_row:
  assumes "e \<in> set errs" "es_key e = ''mem_oom''" "es_state e = Occurred"
  shows "\<exists>r \<in> set (filter (\<lambda>r. prefix ''mem_'' (pe_key r)) (period_error_rows errs)).
    pe_sizing_signal r \<and> pe_badge_class r = ''badge-danger''"
proof
  show "period_error_row e \<in> set (filter (\<lambda>r. prefix ''mem_'' (pe_key r)) (period_error_rows errs))"
    using assms by (simp add: period_error_rows_def) (simp add: period_error_row_def Let_def)
  show "pe_sizing_signal (period_error_row e) \<and> pe_badge_class (period_error_row e) = ''badge-danger''"
    using assms by (simp add: period_error_row_def Let_def)
qed

text \<open>
  Claim C20: the card never says that a resource is short, filling up, slow or
  congested without showing why.  Whatever the measurements, a resource with a problem verdict has a
  utilisation, saturation or load row beyond its line in the same card; the only exception is memory,
  where it may be the out-of-memory kill of the error column, marked in red as a memory shortage.
\<close>

theorem card_verdict_has_evidence:
  assumes "r \<in> set (pa_resources (build_period_assessment (build_resource_stats raw baseline) errs m w))"
    and "problem r" and "\<And>c. rr_cpu_cores raw = Some c \<Longrightarrow> 70 * c \<le> 2 ^ 53"
    and "rr_oom_occurred raw \<Longrightarrow> \<exists>e \<in> set errs. es_key e = ''mem_oom'' \<and> es_state e = Occurred"
  shows "shows_evidence r"
proof -
  let ?s = "build_resource_stats raw baseline"
  have io: "status (assess_disk_io ?s) = Io_bound \<Longrightarrow>
      ps_over (sat_row R_response_delay (saturation_axis_displays ?s ! 2))"
    by (simp add: sat_row_def assess_disk_io_def disk_io_saturated_def Let_def split: option.splits if_splits)
  consider (cpu) "r = pa_resources (build_period_assessment ?s errs m w) ! 0"
    | (mem) "r = pa_resources (build_period_assessment ?s errs m w) ! 1"
    | (disk) "r = pa_resources (build_period_assessment ?s errs m w) ! 2"
    | (net) "r = pa_resources (build_period_assessment ?s errs m w) ! 3"
    using assms(1) by (auto simp: period_card_resources)
  then show ?thesis
  proof cases
    case cpu
    have "status (assess_cpu ?s) = Under"
      using assms(2) assess_cpu_status [of ?s] unfolding cpu card_cpu problem_period_resource by auto
    then have "ps_over (util_row R_p95_usage (cpu_p95_pct ?s) RS_CPU_UNDER_PCT) \<or>
        ps_over (sat_row R_run_queue (saturation_axis_displays ?s ! 0))"
      using cpu_under_row [of ?s] queue_axis_crossed [of ?s] assms(3) by (auto simp: sat_row_def)
    then show ?thesis unfolding cpu card_cpu shows_evidence_period_resource by auto
  next
    case mem
    have "status (assess_memory ?s) = Under"
      using assms(2) assess_memory_status [of ?s] unfolding mem card_mem problem_period_resource by auto
    then consider "ps_over (util_row R_p95_usage (mem_p95_pct ?s) RS_MEM_UNDER_PCT)"
      | "ps_over (sat_row R_paging (saturation_axis_displays ?s ! 1))" | "oom_occurred ?s"
      using memory_under_row [of ?s] paging_axis_crossed [of ?s] by (auto simp: sat_row_def)
    then have "shows_evidence (pa_resources (build_period_assessment ?s errs m w) ! 1)"
    proof cases
      case 1
      then show ?thesis unfolding card_mem shows_evidence_period_resource by simp
    next
      case 2
      then show ?thesis unfolding card_mem shows_evidence_period_resource by simp
    next
      case 3
      then obtain e where "e \<in> set errs" "es_key e = ''mem_oom''" "es_state e = Occurred" using assms(4) by auto
      from oom_error_row [OF this] show ?thesis unfolding card_mem shows_evidence_period_resource by blast
    qed
    then show ?thesis unfolding mem .
  next
    case disk
    have "status (assess_disk_capacity ?s) = Filling \<or> status (assess_disk_io ?s) = Io_bound"
      using assms(2) assess_disk_capacity_status [of ?s] assess_disk_io_status [of ?s]
      unfolding disk card_disk problem_period_resource by fastforce
    then show ?thesis using filling_row [of ?s m] io unfolding disk card_disk shows_evidence_period_resource by auto
  next
    case net
    have "status (assess_network ?s) = Congested"
      using assms(2) assess_network_status [of ?s] unfolding net card_net problem_period_resource by auto
    from congested_row [OF this] show ?thesis unfolding net card_net shows_evidence_period_resource by auto
  qed
qed

theorem card_verdict_has_evidence_witness:
  "\<exists>r \<in> set (pa_resources (build_period_assessment
       (build_resource_stats (row0\<lparr>rr_cpu_cores := Some 4, rr_cpu_p95_pct := Some 95\<rparr>) None) [] None None)).
     fst (pr_verdict r) = Vd_short \<and> shows_evidence r"
proof -
  let ?raw = "row0\<lparr>rr_cpu_cores := Some 4, rr_cpu_p95_pct := Some 95\<rparr>"
  let ?r = "pa_resources (build_period_assessment (build_resource_stats ?raw None) [] None None) ! 0"
  have st: "status (assess_cpu (build_resource_stats ?raw None)) = Under"
    using assess_cpu_known(1) [of "build_resource_stats ?raw None" 4] by (simp add: sizing_simps)
  have mem: "?r \<in> set (pa_resources (build_period_assessment (build_resource_stats ?raw None) [] None None))"
    unfolding period_card_resources by simp
  have p: "problem ?r" unfolding card_cpu problem_period_resource using st by simp
  have v: "fst (pr_verdict ?r) = Vd_short" unfolding card_cpu using st by (simp add: period_resource_def verdict_def)
  have "shows_evidence ?r"
    by (rule card_verdict_has_evidence [OF mem p]) (simp_all add: row0_def)
  with mem v show ?thesis by blast
qed

end
