(* ===== verification/InventoryViews.thy ===== *)
theory InventoryViews
  imports SharedDisplay OsEol "HOL-Library.AList"
begin

text \<open>
  The inventory as the query services see it: the row of \<open>db/dtos/outbound.py\<close> and the workload counters
  of \<open>mappers/server.py\<close> that every screen, export and report takes its categories from.  A Python
  dictionary is an association list in insertion order, \<open>AList.update\<close> being its item assignment.
\<close>

section \<open>Rows\<close>

record ServerDetail =
  sd_id :: int
  sd_public_id :: string
  sd_agent_id :: string
  sd_composite_id :: "string option"
  sd_machine_id :: "string option"
  sd_hostname :: string
  sd_agent_version :: "string option"
  sd_os_family :: "string option"
  sd_os_id :: "string option"
  sd_os_version :: "string option"
  sd_os_codename :: "string option"
  sd_kernel_version :: "string option"
  sd_cpu_cores :: "int option"
  sd_cpu_model :: "string option"
  sd_cpu_arch :: "string option"
  sd_cpu_bits :: "int option"
  sd_mem_total_bytes :: "int option"
  sd_boot_time :: "datetime option"
  sd_agent_started_at :: "datetime option"
  sd_net_interfaces :: "json list"
  sd_ip_external :: "string list option"
  sd_block_devices :: "json list"
  sd_lvm_vgs :: "json list"
  sd_services :: "json list option"
  sd_listen_ports :: "json list"
  sd_last_seen_at :: "datetime option"
  sd_service_categories :: "string list option"
  sd_product_name :: "string option"
  sd_edition :: "string option"

section \<open>Workloads of a host\<close>

type_synonym counter = "(string \<times> int) list"

definition counter_get :: "counter \<Rightarrow> string \<Rightarrow> int" where
  "counter_get c k = (case map_of c k of None \<Rightarrow> 0 | Some n \<Rightarrow> n)"

text \<open>One service: its unit must be a nonempty name of no basic service and be of a known category.\<close>

definition count_service :: "ListenPort list option \<Rightarrow> json \<Rightarrow> counter \<Rightarrow> counter" where
  "count_service ports s c =
     (case get_str ''unit'' s of
        None \<Rightarrow> c
      | Some u \<Rightarrow>
          if u = [] \<or> is_baseline_service (Some u) then c
          else
            let cat = classify u ports (get_int ''pid'' s) in
            if cat = ''unknown'' then c
            else AList.update cat (if cat \<in> set SINGLE_INSTANCE_CATEGORIES then 1 else counter_get c cat + 1) c)"

definition count_socket_category :: "string set \<Rightarrow> string \<Rightarrow> counter \<Rightarrow> counter" where
  "count_socket_category name_cats cat c = (if cat \<in> name_cats then c else AList.update cat 1 c)"

definition workload_category_counter :: "json list option \<Rightarrow> json list option \<Rightarrow> counter" where
  "workload_category_counter services listen_ports =
     (let ports = map_option (map listen_port_of_json) listen_ports;
          by_name = fold (count_service ports) (rows_or_empty services) [];
          name_cats = fst ` set by_name;
          non_baseline_ports = filter (\<lambda>p. \<not> is_baseline_socket p) (rows_or_empty ports)
      in fold (count_socket_category name_cats) (map fst (detect_listen_categories non_baseline_ports)) by_name)"

text \<open>\<open>s.get("display_name") or unit\<close>, appended to the names of its category.\<close>

definition service_name_entry :: "ListenPort list option \<Rightarrow> json \<Rightarrow> (string \<times> string) option" where
  "service_name_entry ports s =
     (case get_str ''unit'' s of
        None \<Rightarrow> None
      | Some u \<Rightarrow>
          if u = [] \<or> is_baseline_service (Some u) then None
          else
            let cat = classify u ports (get_int ''pid'' s) in
            if cat = ''unknown'' then None
            else Some (cat, case nonblank (get_str ''display_name'' s) of None \<Rightarrow> u | Some n \<Rightarrow> n))"

definition workload_services_by_category :: "json list option \<Rightarrow> json list option \<Rightarrow> (string \<times> string list) list" where
  "workload_services_by_category services listen_ports =
     (let ports = map_option (map listen_port_of_json) listen_ports in
      fold (\<lambda>(cat, n). dict_append cat n) (List.map_filter (service_name_entry ports) (rows_or_empty services)) [])"

text \<open>\<open>Counter.most_common(1)\<close> takes the first maximum in insertion order.\<close>

definition infer_role :: "json list option \<Rightarrow> json list option \<Rightarrow> string" where
  "infer_role services listen_ports =
     (case workload_category_counter services listen_ports of
        [] \<Rightarrow> ''unknown''
      | x # xs \<Rightarrow> fst (first_max snd x xs))"

end
