(* ===== verification/Workloads.thy ===== *)
theory Workloads
  imports InventoryViews
begin

text \<open>
  The workload counter against the categories stored at ingestion: both loops see the same services and
  sockets, so the badges, the filters, the exports and the environment charts agree.
\<close>

section \<open>Counters\<close>

lemma fst_update: "fst ` set (AList.update k v c) = insert k (fst ` set c)"
  using dom_update [of k v c] by (simp add: dom_map_of_conv_image_fst)

definition cats_of :: "ListenPort list option \<Rightarrow> json list \<Rightarrow> string list" where
  "cats_of ports services = List.map_filter (\<lambda>s. service_category ports (service_of_json s)) services"

lemma count_service_cases:
  "count_service ports s c =
     (case service_category ports (service_of_json s) of
        None \<Rightarrow> c
      | Some cat \<Rightarrow> AList.update cat (if cat \<in> set SINGLE_INSTANCE_CATEGORIES then 1 else counter_get c cat + 1) c)"
  by (simp add: count_service_def service_category_def service_of_json_def Let_def split: option.split)

lemma counter_get_update: "counter_get (AList.update k v c) x = (if x = k then v else counter_get c x)"
  by (simp add: counter_get_def update_conv')

lemma keys_count_services:
  "fst ` set (fold (count_service ports) ss c) = fst ` set c \<union> set (cats_of ports ss)"
  by (induction ss arbitrary: c)
    (auto simp: cats_of_def count_service_cases fst_update split: option.split)

lemma distinct_count_services: "distinct (map fst c) \<Longrightarrow> distinct (map fst (fold (count_service ports) ss c))"
  by (induction ss arbitrary: c)
    (auto simp: count_service_cases distinct_update split: option.split)

lemma count_services_value:
  "counter_get (fold (count_service ports) ss c) cat =
     (if cat \<in> set SINGLE_INSTANCE_CATEGORIES
      then (if cat \<in> set (cats_of ports ss) then 1 else counter_get c cat)
      else counter_get c cat + int (count_list (cats_of ports ss) cat))"
  by (induction ss arbitrary: c)
    (auto simp: cats_of_def count_service_cases counter_get_update split: option.split)

lemma keys_count_sockets:
  "fst ` set (fold (count_socket_category N) cats c) = fst ` set c \<union> (set cats - N)"
  by (induction cats arbitrary: c) (auto simp: count_socket_category_def fst_update)

lemma distinct_count_sockets: "distinct (map fst c) \<Longrightarrow> distinct (map fst (fold (count_socket_category N) cats c))"
  by (induction cats arbitrary: c) (auto simp: count_socket_category_def distinct_update)

lemma count_sockets_value:
  "counter_get (fold (count_socket_category N) cats c) cat =
     (if cat \<in> set cats \<and> cat \<notin> N then 1 else counter_get c cat)"
  by (induction cats arbitrary: c) (auto simp: count_socket_category_def counter_get_update)

section \<open>The two loops agree\<close>

definition ports_of :: "json list option \<Rightarrow> ListenPort list option" where
  "ports_of listen_ports = map_option (map listen_port_of_json) listen_ports"

definition socket_cats :: "json list option \<Rightarrow> string list" where
  "socket_cats listen_ports =
     map fst (detect_listen_categories (filter (\<lambda>p. \<not> is_baseline_socket p) (rows_or_empty (ports_of listen_ports))))"

lemma workload_counter_eq:
  "workload_category_counter services listen_ports =
     fold (count_socket_category (set (cats_of (ports_of listen_ports) (rows_or_empty services)))) (socket_cats listen_ports)
       (fold (count_service (ports_of listen_ports)) (rows_or_empty services) [])"
  by (simp add: workload_category_counter_def Let_def keys_count_services ports_of_def socket_cats_def)

lemma stored_eq:
  "compute_service_categories (map_option (map service_of_json) services) (ports_of listen_ports) =
     sort (remdups (cats_of (ports_of listen_ports) (rows_or_empty services) @ socket_cats listen_ports))"
proof -
  have "List.map_filter (service_category p) (map service_of_json ss) = cats_of p ss" for p ss
    by (induction ss) (simp_all add: cats_of_def split: option.split)
  moreover have "cats_of p [] = []" for p by (simp add: cats_of_def)
  ultimately show ?thesis
    by (simp add: compute_service_categories_def Let_def rows_or_empty_def socket_cats_def split: option.split)
qed

lemma keys_workload: 
  "fst ` set (workload_category_counter services listen_ports) =
     set (cats_of (ports_of listen_ports) (rows_or_empty services)) \<union> set (socket_cats listen_ports)"
  by (auto simp: workload_counter_eq keys_count_sockets keys_count_services)

text \<open>
  Claim C40: the counter of a host has a key exactly for the categories stored at
  ingestion, each once.  Its value is the number of services of that category, except that a runtime stack
  and a category seen on sockets only count once; so no value is zero, and the total of a chart over many
  hosts never counts a workload twice.
\<close>

theorem workload_counts_exact:
  "let c = workload_category_counter services listen_ports;
       named = cats_of (ports_of listen_ports) (rows_or_empty services)
   in fst ` set c = set (compute_service_categories (map_option (map service_of_json) services) (ports_of listen_ports))
      \<and> distinct (map fst c)
      \<and> (\<forall>(k, n) \<in> set c. n = (if k \<in> set named \<and> k \<notin> set SINGLE_INSTANCE_CATEGORIES
                              then int (count_list named k) else 1) \<and> 1 \<le> n)"
proof -
  let ?c = "workload_category_counter services listen_ports"
  let ?named = "cats_of (ports_of listen_ports) (rows_or_empty services)"
  have d: "distinct (map fst ?c)"
    by (simp add: workload_counter_eq distinct_count_sockets distinct_count_services)
  have get: "counter_get ?c k = (if k \<in> set ?named \<and> k \<notin> set SINGLE_INSTANCE_CATEGORIES
      then int (count_list ?named k) else 1)" if "k \<in> fst ` set ?c" for k
    using that unfolding keys_workload
    by (auto simp: workload_counter_eq count_sockets_value count_services_value) (simp_all add: counter_get_def)
  have v: "n = (if k \<in> set ?named \<and> k \<notin> set SINGLE_INSTANCE_CATEGORIES then int (count_list ?named k) else 1) \<and> 1 \<le> n"
    if kn: "(k, n) \<in> set ?c" for k n
  proof -
    have "counter_get ?c k = n" using map_of_is_SomeI [OF d kn] by (simp add: counter_get_def)
    moreover have "k \<in> fst ` set ?c" using kn by force
    moreover have "k \<in> set ?named \<Longrightarrow> 1 \<le> int (count_list ?named k)"
      using count_list_0_iff [of ?named k] by linarith
    ultimately show ?thesis using get [of k] by auto
  qed
  show ?thesis unfolding Let_def using d v by (auto simp: keys_workload stored_eq)
qed

theorem workload_counts_exact_witness:
  "\<exists>n \<ge> 1. (''db'', n) \<in> set (workload_category_counter (Some [JObj [(''unit'', JStr ''mysqld.service'')]]) None)"
proof -
  let ?svcs = "Some [JObj [(''unit'', JStr ''mysqld.service'')]]"
  have cats: "compute_service_categories (map_option (map service_of_json) ?svcs) (ports_of None) = [''db'']" by code_simp
  then have "''db'' \<in> fst ` set (workload_category_counter ?svcs None)"
    using workload_counts_exact [of ?svcs None] unfolding Let_def cats by auto
  then obtain n where n: "(''db'', n) \<in> set (workload_category_counter ?svcs None)" by force
  then have "1 \<le> n" using workload_counts_exact [of ?svcs None] unfolding Let_def by auto
  with n show ?thesis by blast
qed

text \<open>
  The names shown for a category are one per counted service, and only categories seen on sockets have
  none.
\<close>

lemma service_name_entry_cases:
  "map_option fst (service_name_entry ports s) = service_category ports (service_of_json s)"
  by (simp add: service_name_entry_def service_category_def service_of_json_def Let_def split: option.split)

lemma keys_dict_append: "fst ` set (dict_append k v d) = insert k (fst ` set d)"
  by (induction k v d rule: dict_append.induct) auto

lemma names_of_category:
  "fst ` set (fold (\<lambda>(cat, n). dict_append cat n) es c) = fst ` set c \<union> fst ` set es"
  by (induction es arbitrary: c) (simp_all add: keys_dict_append case_prod_beta)

lemma named_categories:
  "fst ` set (workload_services_by_category services listen_ports) =
     set (cats_of (ports_of listen_ports) (rows_or_empty services))"
proof -
  have "fst ` set (List.map_filter (service_name_entry p) ss) = set (cats_of p ss)" for p ss
    by (induction ss) (auto simp: cats_of_def service_name_entry_cases [symmetric] split: option.split)
  then show ?thesis
    using names_of_category [of "List.map_filter (service_name_entry (ports_of listen_ports)) (rows_or_empty services)" "[]"]
    by (simp add: workload_services_by_category_def Let_def ports_of_def)
qed

text \<open>The role of a host is a stored category of it, or unknown exactly when it has none.\<close>

lemma infer_role_stored:
  "infer_role services listen_ports \<in> fst ` set (workload_category_counter services listen_ports)
   \<or> workload_category_counter services listen_ports = [] \<and> infer_role services listen_ports = ''unknown''"
proof (cases "workload_category_counter services listen_ports")
  case (Cons a xs)
  have "first_max f y ys \<in> set (y # ys)" for f :: "string \<times> int \<Rightarrow> int" and y ys
    by (induction f y ys rule: first_max.induct) auto
  from this [of snd a xs] show ?thesis unfolding infer_role_def Cons by auto
qed (simp add: infer_role_def)

end
