(* ===== verification/ServerFilters.thy ===== *)
theory ServerFilters
  imports InventoryViews TaskService
begin

text \<open>
  The server filters of the contract interfaces: the query parameters of \<open>web/routers/_contract_params.py\<close>
  and the matching of \<open>EnvironmentQueryMixin._resolve_matches\<close> in \<open>web/services/query/environment.py\<close>.  The
  repository is the list of all identifiers and the function that loads their rows.
\<close>

section \<open>Query parameters\<close>

definition is_space :: "char \<Rightarrow> bool" where
  "is_space c = ((of_char c :: nat) \<in> {9, 10, 11, 12, 13, 28, 29, 30, 31, 32, 133, 160})"

definition strip :: "string \<Rightarrow> string" where
  "strip s = rev (dropWhile is_space (rev (dropWhile is_space s)))"

definition stripped :: "string list \<Rightarrow> string list" where
  "stripped tokens = filter (\<lambda>t. t \<noteq> []) (map strip tokens)"

definition split_csv :: "string option \<Rightarrow> string list" where
  "split_csv value = stripped (split_on (CHR '','') (case value of None \<Rightarrow> [] | Some v \<Rightarrow> v))"

text \<open>\<open>token.partition("~")\<close>; a token without the separator is skipped, and so is one with a blank side.\<close>

definition pair_of_token :: "string \<Rightarrow> (string \<times> string) option" where
  "pair_of_token t =
     (let host = takeWhile (\<lambda>c. c \<noteq> CHR 0x7E) t; rest = dropWhile (\<lambda>c. c \<noteq> CHR 0x7E) t in
      case rest of
        [] \<Rightarrow> None
      | _ # disc \<Rightarrow> if strip host \<noteq> [] \<and> strip disc \<noteq> [] then Some (strip host, strip disc) else None)"

definition split_pairs :: "string list \<Rightarrow> (string \<times> string) list" where
  "split_pairs tokens = List.map_filter pair_of_token tokens"

definition split_pairs_csv :: "string option \<Rightarrow> (string \<times> string) list" where
  "split_pairs_csv value = split_pairs (split_csv value)"

section \<open>Matching\<close>

definition addrs :: "ServerDetail \<Rightarrow> string list" where
  "addrs s = List.map_filter (get_str ''address'') (concat (map (\<lambda>i. json_list i ''addresses'') (sd_net_interfaces s)))"

definition disc_match :: "ServerDetail \<Rightarrow> string \<Rightarrow> bool" where
  "disc_match s disc = (disc = sd_public_id s \<or> disc \<in> set (addrs s))"

record filter_set =
  fs_hostnames :: "string list"
  fs_ips :: "string list"
  fs_public_ids :: "string list"
  fs_pairs :: "(string \<times> string) list"

definition matches_filters :: "filter_set \<Rightarrow> ServerDetail \<Rightarrow> bool" where
  "matches_filters f s =
     (if fs_hostnames f = [] \<and> fs_ips f = [] \<and> fs_public_ids f = [] \<and> fs_pairs f = [] then True
      else if sd_hostname s \<in> set (fs_hostnames f) then True
      else if sd_public_id s \<in> set (fs_public_ids f) then True
      else if list_ex (\<lambda>a. a \<in> set (fs_ips f)) (addrs s) then True
      else list_ex (\<lambda>(h, disc). sd_hostname s = h \<and> disc_match s disc) (fs_pairs f))"

definition pair_text :: "string \<times> string \<Rightarrow> string" where
  "pair_text p = fst p @ [CHR 0x7E] @ snd p"

record match_result =
  mr_matched :: "ServerDetail list"
  mr_ambiguous :: "string list"
  mr_ambiguous_in_filter :: "string list"
  mr_unresolved_pairs :: "string list"
  mr_unmatched_filters :: "string list"

definition no_matches :: match_result where
  "no_matches = \<lparr>mr_matched = [], mr_ambiguous = [], mr_ambiguous_in_filter = [], mr_unresolved_pairs = [],
                 mr_unmatched_filters = []\<rparr>"

definition resolve_matches ::
  "int list \<Rightarrow> (int list \<Rightarrow> ServerDetail list) \<Rightarrow> string list \<Rightarrow> string list \<Rightarrow> string list
     \<Rightarrow> (string \<times> string) list \<Rightarrow> match_result" where
  "resolve_matches all_ids get_servers hostnames ips public_ids pairs =
     (if all_ids = [] then no_matches
      else
        let all_details = get_servers all_ids;
            hn = remdups (stripped hostnames);
            ipset = remdups (stripped ips);
            pid = remdups (stripped public_ids);
            names = map sd_hostname all_details;
            ambiguous = remdups (filter (\<lambda>h. count_list names h > 1) names);
            f = \<lparr>fs_hostnames = hn, fs_ips = ipset, fs_public_ids = pid, fs_pairs = pairs\<rparr>
        in \<lparr>mr_matched = filter (matches_filters f) all_details,
            mr_ambiguous = ambiguous,
            mr_ambiguous_in_filter = sort (filter (\<lambda>h. h \<in> set ambiguous) hn),
            mr_unresolved_pairs =
              map pair_text
                (filter (\<lambda>(h, disc). \<not> list_ex (\<lambda>d. sd_hostname d = h \<and> disc_match d disc) all_details) pairs),
            mr_unmatched_filters =
              filter (\<lambda>h. h \<notin> set names) (sort hn) @
              filter (\<lambda>i. i \<notin> set (concat (map addrs all_details))) (sort ipset) @
              filter (\<lambda>p. p \<notin> set (map sd_public_id all_details)) (sort pid)\<rparr>)"

text \<open>The four parameters of a request, from the router to the result.\<close>

definition resolve_request ::
  "int list \<Rightarrow> (int list \<Rightarrow> ServerDetail list) \<Rightarrow> string option \<Rightarrow> string option \<Rightarrow> string option \<Rightarrow> string option
     \<Rightarrow> match_result" where
  "resolve_request all_ids get_servers hostname ip public_id pair =
     resolve_matches all_ids get_servers (split_csv hostname) (split_csv ip) (split_csv public_id)
       (split_pairs_csv pair)"

end
