(* ===== verification/FilterProps.thy ===== *)
theory FilterProps
  imports ServerFilters
begin

text \<open>
  The filters of the contract interfaces: no token of a request is lost silently, a shared host name is
  always reported, and the one case in which a request selects more than it names.
\<close>

section \<open>Tokens\<close>

lemma dropWhile_head: "dropWhile P xs = [] \<or> \<not> P (hd (dropWhile P xs))"
  using hd_dropWhile [of P xs] by auto

lemma dropWhile_id: "xs = [] \<or> \<not> P (hd xs) \<Longrightarrow> dropWhile P xs = xs"
  by (cases xs) auto

lemma strip_idem: "strip (strip s) = strip s"
proof -
  let ?u = "dropWhile is_space s"
  let ?w = "dropWhile is_space (rev ?u)"
  have w: "?w = [] \<or> \<not> is_space (hd ?w)" by (rule dropWhile_head)
  have "rev ?w = [] \<or> \<not> is_space (hd (rev ?w))"
  proof (cases "?w = []")
    case False
    obtain p where p: "rev ?u = p @ ?w" by (metis takeWhile_dropWhile_id)
    from p have "?u = rev ?w @ rev p" by (metis rev_append rev_rev_ident)
    then have "hd (rev ?w) = hd ?u" using False by (metis Nil_is_rev_conv hd_append2)
    moreover have "?u \<noteq> []" using p False by (metis Nil_is_append_conv rev_is_Nil_conv)
    ultimately show ?thesis using dropWhile_head [of is_space s] by (simp del: dropWhile_eq_Nil_conv)
  qed simp
  then have "dropWhile is_space (rev ?w) = rev ?w" by (rule dropWhile_id)
  then show ?thesis using w by (simp add: strip_def dropWhile_id)
qed

lemma stripped_idem: "stripped (stripped ts) = stripped ts"
  by (induction ts) (simp_all add: stripped_def strip_idem)

lemma stripped_split_csv [simp]: "stripped (split_csv v) = split_csv v"
  by (simp add: split_csv_def stripped_idem)

lemma split_pairs_host:
  assumes "(h, disc) \<in> set (split_pairs_csv v)" shows "CHR 0x7E \<notin> set h"
proof -
  obtain t where t: "pair_of_token t = Some (h, disc)"
    using assms by (auto simp: split_pairs_csv_def split_pairs_def set_map_filter_iff)
  have sub: "set (dropWhile P y) \<subseteq> set y" for P and y :: string by (auto dest: set_dropWhileD)
  have "set (strip x) \<subseteq> set x" for x
    using sub [of is_space x] sub [of is_space "rev (dropWhile is_space x)"] unfolding strip_def set_rev by blast
  moreover have "h = strip (takeWhile (\<lambda>c. c \<noteq> CHR 0x7E) t)"
    using t by (auto simp: pair_of_token_def Let_def split: list.splits if_splits)
  ultimately have "set h \<subseteq> set (takeWhile (\<lambda>c. c \<noteq> CHR 0x7E) t)" by simp
  then show ?thesis using set_takeWhileD [of "CHR 0x7E" "\<lambda>c. c \<noteq> CHR 0x7E" t] by blast
qed

lemma pair_text_inject:
  "CHR 0x7E \<notin> set (fst p) \<Longrightarrow> CHR 0x7E \<notin> set (fst q) \<Longrightarrow> pair_text p = pair_text q \<longleftrightarrow> p = q"
proof
  assume n: "CHR 0x7E \<notin> set (fst p)" "CHR 0x7E \<notin> set (fst q)" and e: "pair_text p = pair_text q"
  have cut: "CHR 0x7E \<notin> set h \<Longrightarrow> takeWhile (\<lambda>c. c \<noteq> CHR 0x7E) (h @ CHR 0x7E # d) = h" for h d
    by (induction h) auto
  from e have "fst p = fst q" using n cut [of "fst p" "snd p"] cut [of "fst q" "snd q"] by (simp add: pair_text_def)
  with e show "p = q" by (simp add: pair_text_def prod_eq_iff)
qed simp

section \<open>Results\<close>

definition named_by :: "string list \<Rightarrow> string list \<Rightarrow> string list \<Rightarrow> (string \<times> string) list \<Rightarrow> ServerDetail \<Rightarrow> bool" where
  "named_by hs is ps prs d =
     (sd_hostname d \<in> set hs \<or> (\<exists>a \<in> set (addrs d). a \<in> set is) \<or> sd_public_id d \<in> set ps \<or>
      (\<exists>(h, disc) \<in> set prs. sd_hostname d = h \<and> disc_match d disc))"

lemma stripped_Nil_iff: "remdups (stripped ts) = [] \<longleftrightarrow> stripped ts = []"
  by simp

lemma matches_filters_iff:
  "matches_filters \<lparr>fs_hostnames = remdups hs, fs_ips = remdups is, fs_public_ids = remdups ps, fs_pairs = prs\<rparr> d \<longleftrightarrow>
     hs = [] \<and> is = [] \<and> ps = [] \<and> prs = [] \<or> named_by hs is ps prs d"
  by (auto simp: matches_filters_def named_by_def list_ex_iff)

lemma request_fields:
  fixes hostname ip public_id pair :: "string option"
  assumes "ids \<noteq> []"
  defines "hs \<equiv> split_csv hostname" and "is \<equiv> split_csv ip" and "ps \<equiv> split_csv public_id" and "prs \<equiv> split_pairs_csv pair"
  shows "mr_matched (resolve_request ids gs hostname ip public_id pair) =
      filter (\<lambda>d. hs = [] \<and> is = [] \<and> ps = [] \<and> prs = [] \<or> named_by hs is ps prs d) (gs ids)"
    and "set (mr_ambiguous_in_filter (resolve_request ids gs hostname ip public_id pair)) =
      {h \<in> set hs. 1 < count_list (map sd_hostname (gs ids)) h}"
    and "mr_unresolved_pairs (resolve_request ids gs hostname ip public_id pair) =
      map pair_text (filter (\<lambda>(h, disc). \<not> (\<exists>d \<in> set (gs ids). sd_hostname d = h \<and> disc_match d disc)) prs)"
    and "set (mr_unmatched_filters (resolve_request ids gs hostname ip public_id pair)) =
      {h \<in> set hs. \<forall>d \<in> set (gs ids). sd_hostname d \<noteq> h} \<union>
      {i \<in> set is. \<forall>d \<in> set (gs ids). i \<notin> set (addrs d)} \<union>
      {p \<in> set ps. \<forall>d \<in> set (gs ids). sd_public_id d \<noteq> p}"
proof -
  have pos: "Suc 0 < count_list xs x \<Longrightarrow> x \<in> set xs" for x :: string and xs
    using count_list_0_iff [of xs x] by fastforce
  note defs = resolve_request_def resolve_matches_def Let_def hs_def is_def ps_def prs_def
  show "mr_matched (resolve_request ids gs hostname ip public_id pair) =
      filter (\<lambda>d. hs = [] \<and> is = [] \<and> ps = [] \<and> prs = [] \<or> named_by hs is ps prs d) (gs ids)"
    using assms(1) by (simp add: defs matches_filters_iff cong: filter_cong)
  show "set (mr_ambiguous_in_filter (resolve_request ids gs hostname ip public_id pair)) =
      {h \<in> set hs. 1 < count_list (map sd_hostname (gs ids)) h}"
    using assms(1) by (auto simp: defs dest: pos simp del: set_map)
  show "mr_unresolved_pairs (resolve_request ids gs hostname ip public_id pair) =
      map pair_text (filter (\<lambda>(h, disc). \<not> (\<exists>d \<in> set (gs ids). sd_hostname d = h \<and> disc_match d disc)) prs)"
    using assms(1) by (simp add: defs list_ex_iff)
  show "set (mr_unmatched_filters (resolve_request ids gs hostname ip public_id pair)) =
      {h \<in> set hs. \<forall>d \<in> set (gs ids). sd_hostname d \<noteq> h} \<union>
      {i \<in> set is. \<forall>d \<in> set (gs ids). i \<notin> set (addrs d)} \<union>
      {p \<in> set ps. \<forall>d \<in> set (gs ids). sd_public_id d \<noteq> p}"
    using assms(1) by (auto simp: defs image_iff)
qed

text \<open>
  Every host name, address, identifier and well-formed pair that the parser yields
  is answered (a token without the separator of a pair never gets here: \<open>split_pairs\<close> drops it).  The result
  only holds servers of the fleet that some of them names; a host name, address or identifier without a
  server is among the unmatched filters and nothing else is; a pair is unresolved exactly when no result has
  that name and discriminator; and a plain host name carried by several servers is reported as ambiguous, with all of them in the result.
\<close>

theorem filters_accounted:
  assumes "ids \<noteq> []" and "split_csv hostname \<noteq> [] \<or> split_csv ip \<noteq> [] \<or> split_csv public_id \<noteq> [] \<or> split_pairs_csv pair \<noteq> []"
  shows "let m = resolve_request ids gs hostname ip public_id pair; fleet = set (gs ids); found = set (mr_matched m);
             unmatched = set (mr_unmatched_filters m)
    in found \<subseteq> fleet \<and>
       (\<forall>d \<in> found. named_by (split_csv hostname) (split_csv ip) (split_csv public_id) (split_pairs_csv pair) d) \<and>
       (\<forall>h \<in> set (split_csv hostname). h \<in> unmatched \<or> (\<exists>d \<in> found. sd_hostname d = h)) \<and>
       (\<forall>i \<in> set (split_csv ip). i \<in> unmatched \<or> (\<exists>d \<in> found. i \<in> set (addrs d))) \<and>
       (\<forall>p \<in> set (split_csv public_id). p \<in> unmatched \<or> (\<exists>d \<in> found. sd_public_id d = p)) \<and>
       (\<forall>t \<in> unmatched. (\<forall>d \<in> fleet. sd_hostname d \<noteq> t) \<or> (\<forall>d \<in> fleet. t \<notin> set (addrs d)) \<or> (\<forall>d \<in> fleet. sd_public_id d \<noteq> t)) \<and>
       (\<forall>pr \<in> set (split_pairs_csv pair).
          pair_text pr \<in> set (mr_unresolved_pairs m) \<longleftrightarrow> \<not> (\<exists>d \<in> found. sd_hostname d = fst pr \<and> disc_match d (snd pr))) \<and>
       (\<forall>h \<in> set (split_csv hostname). 1 < count_list (map sd_hostname (gs ids)) h \<longrightarrow>
          h \<in> set (mr_ambiguous_in_filter m) \<and> {d \<in> fleet. sd_hostname d = h} \<subseteq> found)"
proof -
  note f = request_fields [OF assms(1), where hostname = hostname and ip = ip and public_id = public_id and pair = pair and gs = gs]
  have found: "set (mr_matched (resolve_request ids gs hostname ip public_id pair)) =
      {d \<in> set (gs ids). named_by (split_csv hostname) (split_csv ip) (split_csv public_id) (split_pairs_csv pair) d}"
    using assms(2) unfolding f(1) by auto
  have pairs: "pair_text pr \<in> set (mr_unresolved_pairs (resolve_request ids gs hostname ip public_id pair)) \<longleftrightarrow>
      \<not> (\<exists>d \<in> set (gs ids). sd_hostname d = fst pr \<and> disc_match d (snd pr))" if "pr \<in> set (split_pairs_csv pair)" for pr
  proof -
    have host: "CHR 0x7E \<notin> set (fst q)" if "q \<in> set (split_pairs_csv pair)" for q
      using split_pairs_host [of "fst q" "snd q" pair] that by simp
    have "pair_text pr \<in> pair_text ` Q \<longleftrightarrow> pr \<in> Q" if "Q \<subseteq> set (split_pairs_csv pair)" for Q
      using pair_text_inject [OF host [OF \<open>pr \<in> set (split_pairs_csv pair)\<close>] host] that by blast
    then show ?thesis
      using that unfolding f(3) set_map by (auto simp: case_prod_beta)
  qed
  show ?thesis unfolding Let_def found f(2,4)
    using pairs by (auto simp: named_by_def; blast)
qed

text \<open>A fleet for the witnesses.\<close>

definition plain_detail :: "int \<Rightarrow> string \<Rightarrow> string \<Rightarrow> ServerDetail" where
  "plain_detail i pid name =
     \<lparr>sd_id = i, sd_public_id = pid, sd_agent_id = [], sd_composite_id = None, sd_machine_id = None,
      sd_hostname = name, sd_agent_version = None, sd_os_family = None, sd_os_id = None, sd_os_version = None,
      sd_os_codename = None, sd_kernel_version = None, sd_cpu_cores = None, sd_cpu_model = None,
      sd_cpu_arch = None, sd_cpu_bits = None, sd_mem_total_bytes = None, sd_boot_time = None,
      sd_agent_started_at = None, sd_net_interfaces = [], sd_ip_external = None, sd_block_devices = [],
      sd_lvm_vgs = [], sd_services = None, sd_listen_ports = [], sd_last_seen_at = None,
      sd_service_categories = None, sd_product_name = None, sd_edition = None\<rparr>"

definition two_named_web :: "int list \<Rightarrow> ServerDetail list" where
  "two_named_web ids = [plain_detail 1 ''u1'' ''web'', plain_detail 2 ''u2'' ''web'', plain_detail 3 ''u3'' ''db'']"

lemma csv_web: "split_csv (Some '' web'') = [''web'']" "split_csv None = []" "split_pairs_csv None = []"
  by code_simp+

theorem filters_accounted_witness:
  "''web'' \<in> set (mr_ambiguous_in_filter (resolve_request [1, 2, 3] two_named_web (Some '' web'') None None None))"
  using filters_accounted [of "[1, 2, 3]" "Some '' web''" None None None two_named_web]
  by (simp add: csv_web two_named_web_def plain_detail_def Let_def)

section \<open>A request that names one server and gets them all\<close>

text \<open>
  Claim C29: a request whose only filter is a list of pairs without the separator
  between the name and the address is answered with every server of the fleet and without a single warning:
  the malformed pairs are dropped, and no filter means no restriction.
\<close>

theorem malformed_pair_selects_fleet:
  assumes "\<forall>t \<in> set (split_csv pair). CHR 0x7E \<notin> set t" and "ids \<noteq> []"
  shows "let m = resolve_request ids gs None None None pair
    in mr_matched m = gs ids \<and> mr_unresolved_pairs m = [] \<and> mr_unmatched_filters m = [] \<and>
       mr_ambiguous_in_filter m = []"
proof -
  have none: "pair_of_token t = None" if "CHR 0x7E \<notin> set t" for t
  proof -
    have "dropWhile (\<lambda>c. c \<noteq> CHR 0x7E) t = []" using that by auto
    then show ?thesis by (simp only: pair_of_token_def Let_def list.case)
  qed
  have "split_pairs ts = []" if "\<forall>t \<in> set ts. CHR 0x7E \<notin> set t" for ts
    using that by (induction ts) (simp_all add: split_pairs_def none)
  then have "split_pairs_csv pair = []" using assms(1) unfolding split_pairs_csv_def by blast
  then show ?thesis using assms(2)
    by (simp add: resolve_request_def resolve_matches_def Let_def csv_web stripped_def matches_filters_def)
qed

theorem malformed_pair_selects_fleet_witness:
  "length (mr_matched (resolve_request [1, 2, 3] two_named_web None None None (Some ''web''))) = 3"
proof -
  have t: "\<forall>t \<in> set (split_csv (Some ''web'')). CHR 0x7E \<notin> set t" by code_simp
  show ?thesis
    using malformed_pair_selects_fleet [OF t, of "[1, 2, 3]" two_named_web] by (simp add: Let_def two_named_web_def)
qed

end
