(* ===== verification/Attention.thy ===== *)
theory Attention
  imports InventoryViews RightSizing SnapshotSignals PeriodCard "HOL-Library.Product_Lexorder"
begin

text \<open>
  The environment screens: \<open>web/services/mappers/attention.py\<close> with the records of
  \<open>web/view_models/attention.py\<close>.  Operational signals, donuts, the overview of the environment, the
  resource table of all servers and the live load table.  Korean words are constructors; numbers carry the
  digits they are printed with.
\<close>

section \<open>Operational signals\<close>

record MetricGapWarningRaw =
  mg_public_id :: string
  mg_hostname :: string
  mg_last_metric_at :: datetime

datatype row_badge = Gap_minutes int | Distro string | Restarts int

datatype row_meta = Meta_last_collected | Meta_eol string string | Meta_low_trust

record AttentionRow =
  ar_badge_class :: string
  ar_badge_text :: row_badge
  ar_link_href :: string
  ar_link_text :: string
  ar_meta_text :: row_meta
  ar_meta_at :: "datetime option"
  ar_eol_days_over :: "int option"

record AttentionCatalogEntry =
  ce_label :: string
  ce_count :: nat
  ce_active :: bool

record AttentionCards =
  gap_cards :: "AttentionRow list"
  eol_cards :: "AttentionRow list"
  unstable_cards :: "AttentionRow list"

definition card_catalog :: "AttentionCards \<Rightarrow> AttentionCatalogEntry list" where
  "card_catalog a =
     map (\<lambda>(l, rows). \<lparr>ce_label = l, ce_count = length rows, ce_active = (rows \<noteq> [])\<rparr>)
       [(''gap'', gap_cards a), (''os_eol'', eol_cards a), (''agent_unstable'', unstable_cards a)]"

definition has_any :: "AttentionCards \<Rightarrow> bool" where
  "has_any a = (gap_cards a \<noteq> [] \<or> eol_cards a \<noteq> [] \<or> unstable_cards a \<noteq> [])"

definition ATTN_ACTIVE_BADGE :: string where "ATTN_ACTIVE_BADGE = ''attn-active''"

definition seconds_between :: "datetime \<Rightarrow> datetime \<Rightarrow> pyfloat" where
  "seconds_between a b = fl (of_int (a - b) / 1000000)"

definition to_gap_warning_item :: "MetricGapWarningRaw \<Rightarrow> datetime \<Rightarrow> AttentionRow" where
  "to_gap_warning_item raw now =
     \<lparr>ar_badge_class = ATTN_ACTIVE_BADGE,
      ar_badge_text = Gap_minutes \<lfloor>seconds_between now (mg_last_metric_at raw) / 60\<rfloor>,
      ar_link_href = ''/servers/'' @ mg_public_id raw, ar_link_text = mg_hostname raw,
      ar_meta_text = Meta_last_collected, ar_meta_at = Some (mg_last_metric_at raw), ar_eol_days_over = None\<rparr>"

definition date_of :: "datetime \<Rightarrow> int" where
  "date_of t = t div DAY + EPOCH_ORD"

text \<open>The outer option is the error of a broken catalogue date.\<close>

definition to_os_eol_warning_item :: "ReportRowRaw \<Rightarrow> datetime \<Rightarrow> AttentionRow option option" where
  "to_os_eol_warning_item raw now =
     map_option
       (\<lambda>result. case result of
          None \<Rightarrow> None
        | Some (eol, label) \<Rightarrow>
            Some \<lparr>ar_badge_class = ATTN_ACTIVE_BADGE, ar_badge_text = Distro label,
                  ar_link_href = ''/servers/'' @ rr_public_id raw, ar_link_text = rr_hostname raw,
                  ar_meta_text = Meta_eol label eol, ar_meta_at = None,
                  ar_eol_days_over = map_option (\<lambda>d. date_of now - d) (date_of_iso eol)\<rparr>)
       (resolve_os_eol (rr_os_id raw) (rr_os_version raw) (rr_kernel_version raw) (date_of now))"

definition to_agent_unstable_item :: "string \<Rightarrow> string \<Rightarrow> int \<Rightarrow> AttentionRow" where
  "to_agent_unstable_item public_id hostname restart_count =
     \<lparr>ar_badge_class = ATTN_ACTIVE_BADGE, ar_badge_text = Restarts restart_count,
      ar_link_href = ''/servers/'' @ public_id, ar_link_text = hostname,
      ar_meta_text = Meta_low_trust, ar_meta_at = None, ar_eol_days_over = None\<rparr>"

text \<open>The list \<open>xs\<close> may still grow: \<open>limit is None or len(xs) < limit\<close>.\<close>

definition below_limit :: "nat option \<Rightarrow> 'a list \<Rightarrow> bool" where
  "below_limit limit xs = (case limit of None \<Rightarrow> True | Some n \<Rightarrow> length xs < n)"

fun eol_rows_from :: "nat option \<Rightarrow> datetime \<Rightarrow> AttentionRow list \<Rightarrow> ReportRowRaw list \<Rightarrow> AttentionRow list option" where
  "eol_rows_from limit now acc [] = Some acc"
| "eol_rows_from limit now acc (raw # raws) =
     (case to_os_eol_warning_item raw now of
        None \<Rightarrow> None
      | Some item \<Rightarrow>
          eol_rows_from limit now
            (case item of Some r \<Rightarrow> if below_limit limit acc then acc @ [r] else acc | None \<Rightarrow> acc) raws)"

definition unstable_step ::
  "nat option \<Rightarrow> int \<Rightarrow> ReportRowRaw list \<Rightarrow> int \<times> int \<Rightarrow> AttentionRow list \<Rightarrow> AttentionRow list" where
  "unstable_step limit threshold_n raws e acc =
     (if snd e \<ge> threshold_n then
        (case map_of (rev (map (\<lambda>r. (rr_server_id r, r)) raws)) (fst e) of
           None \<Rightarrow> acc
         | Some raw \<Rightarrow>
             if below_limit limit acc
             then acc @ [to_agent_unstable_item (rr_public_id raw) (rr_hostname raw) (snd e)] else acc)
      else acc)"

definition assemble_attention ::
  "int \<Rightarrow> ReportRowRaw list \<Rightarrow> MetricGapWarningRaw list \<Rightarrow> (int \<times> int) list \<Rightarrow> datetime \<Rightarrow> nat option
     \<Rightarrow> AttentionCards option" where
  "assemble_attention threshold_n raws_period gap_raws restart_counts now limit_each =
     map_option
       (\<lambda>eol. \<lparr>gap_cards = map (\<lambda>r. to_gap_warning_item r now) gap_raws, eol_cards = eol,
               unstable_cards = fold (unstable_step limit_each threshold_n raws_period) restart_counts []\<rparr>)
       (eol_rows_from limit_each now [] raws_period)"

definition filter_attention :: "AttentionCards \<Rightarrow> string set \<Rightarrow> AttentionCards" where
  "filter_attention a hostnames =
     \<lparr>gap_cards = filter (\<lambda>w. ar_link_text w \<in> hostnames) (gap_cards a),
      eol_cards = filter (\<lambda>w. ar_link_text w \<in> hostnames) (eol_cards a),
      unstable_cards = filter (\<lambda>w. ar_link_text w \<in> hostnames) (unstable_cards a)\<rparr>"

section \<open>Donuts\<close>

definition UTIL_GAUGE_COLOR :: string where "UTIL_GAUGE_COLOR = ''var(--color-title)''"
definition UTIL_COLOR_NONE :: string where "UTIL_COLOR_NONE = ''#cbd5e1''"
definition NET_CONGESTED_COLOR :: string where "NET_CONGESTED_COLOR = ''#dc2626''"

text \<open>\<open>math.pi\<close> is this binary64 number.\<close>

definition MATH_PI :: pyfloat where "MATH_PI = 884279719003555 / 281474976710656"

definition UTIL_DONUT_CIRC :: pyfloat where "UTIL_DONUT_CIRC = fmul (fmul 2 MATH_PI) 42"

definition WORKLOAD_COLORS :: "(string \<times> string) list" where
  "WORKLOAD_COLORS =
     [(''web'', ''#2563eb''), (''db'', ''#e11d48''), (''cache'', ''#059669''), (''mq'', ''#9333ea''),
      (''container'', ''#0891b2''), (''monitor'', ''#ea580c'')]"

definition bar_color_of :: "pyfloat option \<Rightarrow> string" where
  "bar_color_of pct = (case pct of None \<Rightarrow> UTIL_COLOR_NONE | Some _ \<Rightarrow> UTIL_GAUGE_COLOR)"

definition dash_length_of :: "pyfloat option \<Rightarrow> pyfloat" where
  "dash_length_of pct =
     (case pct of None \<Rightarrow> 0 | Some p \<Rightarrow> fmul (fdiv (max 0 (min p 100)) 100) UTIL_DONUT_CIRC)"

definition donut_dash :: "int \<Rightarrow> int \<Rightarrow> pyfloat" where
  "donut_dash n total_n = (if total_n > 0 \<and> n > 0 then fmul (idiv n total_n) UTIL_DONUT_CIRC else 0)"

definition donut_pct :: "int \<Rightarrow> int \<Rightarrow> pyfloat" where
  "donut_pct n total_n = (if total_n > 0 then py_round 1 (fmul (idiv n total_n) 100) else 0)"

datatype bar_label = Bar_cpu | Bar_memory | Bar_disk_capacity

record UtilizationBar =
  ub_label :: bar_label
  ub_pct :: "pyfloat option"
  ub_color :: string
  ub_dash_length :: pyfloat

definition util_bar :: "bar_label \<Rightarrow> pyfloat option \<Rightarrow> UtilizationBar" where
  "util_bar label pct =
     \<lparr>ub_label = label, ub_pct = pct, ub_color = bar_color_of pct, ub_dash_length = dash_length_of pct\<rparr>"

datatype segment_key = Seg_class recommendation | Seg_category string

datatype segment_label = Lab_class class_label | Lab_category string

datatype segment_note = Note_class recommendation | Note_none

record RiskDonutSegment =
  rs_key :: segment_key
  rs_label :: segment_label
  rs_color :: string
  rs_count :: int
  rs_dash_length :: pyfloat
  rs_dash_offset :: pyfloat
  rs_description :: segment_note
  rs_pct :: pyfloat

text \<open>The common loop of the two donuts: a segment starts where the ones before it end.\<close>

fun lay_segments ::
  "pyfloat \<Rightarrow> int \<Rightarrow> ('k \<Rightarrow> segment_key \<times> segment_label \<times> string \<times> segment_note) \<Rightarrow> ('k \<times> int) list
     \<Rightarrow> RiskDonutSegment list" where
  "lay_segments cum total_n look [] = []"
| "lay_segments cum total_n look ((k, n) # rest) =
     (let (key, label, color, descr) = look k; dash = donut_dash n total_n
      in \<lparr>rs_key = key, rs_label = label, rs_color = color, rs_count = n, rs_dash_length = dash,
          rs_dash_offset = - cum, rs_description = descr, rs_pct = donut_pct n total_n\<rparr>
         # lay_segments (fadd cum dash) total_n look rest)"

type_synonym risk_counts = "(recommendation \<times> int) list"

definition risk_count :: "risk_counts \<Rightarrow> recommendation \<Rightarrow> int" where
  "risk_count counts k = (case map_of counts k of None \<Rightarrow> 0 | Some n \<Rightarrow> n)"

definition build_risk_donut_segments :: "risk_counts \<Rightarrow> RiskDonutSegment list \<times> int \<times> int" where
  "build_risk_donut_segments counts =
     (let total_n = sum_list (map snd counts) in
      (lay_segments 0 total_n (\<lambda>k. (Seg_class k, Lab_class (LABEL_KO k), UTIL_GAUGE_COLOR, Note_class k))
         (map (\<lambda>(k, _). (k, risk_count counts k)) DONUT_SEGMENT_DEFS),
       total_n, risk_count counts Rec_under_provisioned))"

datatype sat_label =
  Sat_cpu | Sat_memory | Sat_disk_io | Sat_network | Live_run_queue | Live_paging | Live_disk_latency | Live_network

record SaturationDonut =
  dn_label :: sat_label
  dn_count :: int
  dn_total :: int
  dn_dash_length :: pyfloat
  dn_color :: string

definition build_saturation_donut :: "sat_label \<Rightarrow> int \<Rightarrow> int \<Rightarrow> SaturationDonut" where
  "build_saturation_donut label n total_n =
     \<lparr>dn_label = label, dn_count = n, dn_total = total_n, dn_dash_length = donut_dash n total_n,
      dn_color = UTIL_GAUGE_COLOR\<rparr>"

record FleetErrorRaw =
  fe_total :: int
  fe_mce_hosts :: int
  fe_oom_hosts :: int
  fe_corrupted_hosts :: int
  fe_net_error_hosts :: int
  fe_disk_error_hosts :: int

record FleetErrorItem =
  fi_key :: string
  fi_affected :: int
  fi_total :: int
  fi_tone :: string

definition build_error_fleet :: "FleetErrorRaw option \<Rightarrow> FleetErrorItem list" where
  "build_error_fleet err =
     (case err of
        None \<Rightarrow> []
      | Some e \<Rightarrow>
          map (\<lambda>(k, n). \<lparr>fi_key = k, fi_affected = n, fi_total = fe_total e, fi_tone = ''danger''\<rparr>)
            [(''cpu_mce'', fe_mce_hosts e), (''mem_oom'', fe_oom_hosts e), (''mem_corrupted'', fe_corrupted_hosts e),
             (''disk_errors'', fe_disk_error_hosts e), (''net_errors'', fe_net_error_hosts e)])"

text \<open>The counters \<open>passed, security_only, unknown, supported\<close>.\<close>

record eol_counts =
  n_passed :: int
  n_security_only :: int
  n_unknown :: int
  n_supported :: int

definition count_eol :: "OsEolInfo option \<Rightarrow> eol_counts \<Rightarrow> eol_counts" where
  "count_eol info c =
     (case info of
        None \<Rightarrow> c\<lparr>n_unknown := n_unknown c + 1\<rparr>
      | Some i \<Rightarrow>
          (if eol_status i \<in> {Paid_only, Ended} then c\<lparr>n_passed := n_passed c + 1\<rparr>
           else if eol_status i = Security_only then c\<lparr>n_security_only := n_security_only c + 1\<rparr>
           else c\<lparr>n_supported := n_supported c + 1\<rparr>))"

fun os_eol_counts :: "eol_counts \<Rightarrow> ServerDetail list \<Rightarrow> int \<Rightarrow> eol_counts option" where
  "os_eol_counts c [] today = Some c"
| "os_eol_counts c (d # ds) today =
     (if nonblank (sd_os_id d) = None then os_eol_counts c ds today
      else (case lookup_os_eol (sd_os_id d) (sd_os_version d) (sd_kernel_version d) today of
              None \<Rightarrow> None
            | Some info \<Rightarrow> os_eol_counts (count_eol info c) ds today))"

definition os_eol_summary :: "ServerDetail list \<Rightarrow> int \<Rightarrow> eol_counts option" where
  "os_eol_summary details today =
     os_eol_counts \<lparr>n_passed = 0, n_security_only = 0, n_unknown = 0, n_supported = 0\<rparr> details today"

definition workload_donut_segments :: "counter \<Rightarrow> RiskDonutSegment list \<times> int" where
  "workload_donut_segments role_sorted =
     (let total_n = sum_list (map snd role_sorted) in
      (lay_segments 0 total_n
         (\<lambda>cat. (Seg_category cat, Lab_category cat,
                 case map_of WORKLOAD_COLORS cat of None \<Rightarrow> ''#94a3b8'' | Some c \<Rightarrow> c, Note_none))
         role_sorted, total_n))"

section \<open>The resource table\<close>

datatype action_cell = Prescription "token list" | Advice action_text

datatype net_label = Net_normal | Net_congested | Net_unmeasured | Net_other resource_status

fun NET_STATUS_LABEL :: "resource_status \<Rightarrow> net_label" where
  "NET_STATUS_LABEL Quality_ok = Net_normal"
| "NET_STATUS_LABEL Congested = Net_congested"
| "NET_STATUS_LABEL Unmeasured = Net_unmeasured"
| "NET_STATUS_LABEL st = Net_other st"

record CapacityWarningItem =
  cw_public_id :: string
  cw_hostname :: string
  cw_classification :: recommendation
  cw_classification_label :: class_label
  cw_badge_class :: string
  cw_classification_rank :: nat
  cw_active_causes :: "trigger_kind list"
  cw_services :: counter
  cw_confidence_notes :: "note_text list"
  cw_recommendation_action :: action_cell
  cw_root_cause_label :: "token list"
  cw_severity_score :: pyfloat
  cw_net_status_label :: net_label
  cw_net_status_color :: string
  cw_disk_io_status_label :: status_label
  cw_disk_io_status_color :: string
  cw_spec_display :: "spec_part list"

fun BADGE_CLASS :: "recommendation \<Rightarrow> string" where
  "BADGE_CLASS Rec_idle = ''rec-idle''"
| "BADGE_CLASS Rec_over_provisioned = ''rec-over_provisioned''"
| "BADGE_CLASS Rec_under_provisioned = ''rec-under_provisioned''"
| "BADGE_CLASS Rec_optimal = ''rec-optimal''"
| "BADGE_CLASS Rec_insufficient_data = ''rec-insufficient_data''"

definition host_triggers :: "HostAssessment \<Rightarrow> trigger_kind set" where
  "host_triggers host = set (concat (map (\<lambda>k. case resources host k of None \<Rightarrow> [] | Some r \<Rightarrow> triggers r) all_kinds))"

definition peak_util :: "ReportRowRaw \<Rightarrow> pyfloat" where
  "peak_util raw =
     (case List.map_filter (\<lambda>x. x) [rr_cpu_p95_pct raw, rr_mem_p95_pct raw, rr_worst_mount_used_pct raw] of
        [] \<Rightarrow> 0 | v # vs \<Rightarrow> fold max vs v)"

definition severity_score :: "recommendation \<Rightarrow> bool \<Rightarrow> nat \<Rightarrow> pyfloat \<Rightarrow> pyfloat" where
  "severity_score r swap_active causes peak =
     (if r = Rec_under_provisioned
      then fadd (fadd (if swap_active then 10000 else 0) (fmul (of_pyint (int causes)) 100)) peak
      else fsub 100 peak)"

definition to_capacity_warning_item :: "ReportRowRaw \<Rightarrow> CapacityWarningItem" where
  "to_capacity_warning_item raw =
     (let stats = build_resource_stats raw None;
          host = rollup_host stats;
          r = host_status_to_recommendation (host_status host);
          hit = host_triggers host;
          swap_active = (T_mem_saturation \<in> hit);
          active_causes = filter (\<lambda>t. t \<in> hit) CAUSE_LABEL_BY_TRIGGER;
          net_status = status (the (resources host Network));
          io_status = status (the (resources host Disk_io))
      in \<lparr>cw_public_id = rr_public_id raw, cw_hostname = rr_hostname raw, cw_classification = r,
          cw_classification_label = LABEL_KO r, cw_badge_class = BADGE_CLASS r,
          cw_classification_rank = CLASSIFICATION_ORDER r, cw_active_causes = active_causes,
          cw_services = workload_category_counter (rr_services raw) (rr_listen_ports raw),
          cw_confidence_notes = build_host_confidence_notes host,
          cw_recommendation_action =
            (if r = Rec_under_provisioned then Prescription (under_prescription host)
             else Advice (recommend_action r stats)),
          cw_root_cause_label = root_cause_display host,
          cw_severity_score = severity_score r swap_active (length active_causes) (peak_util raw),
          cw_net_status_label = NET_STATUS_LABEL net_status,
          cw_net_status_color = (if net_status = Congested then NET_CONGESTED_COLOR else []),
          cw_disk_io_status_label = STATUS_LABEL_KO io_status,
          cw_disk_io_status_color = (if io_status = Io_bound then NET_CONGESTED_COLOR else []),
          cw_spec_display = spec_display_line (rr_cpu_cores raw) (rr_mem_total_bytes raw) (rr_block_devices raw)\<rparr>)"

record ActionTargets =
  at_hosts :: "CapacityWarningItem list"
  at_total :: nat
  at_under_count :: nat
  at_efficiency_count :: nat
  at_efficiency_vcpus :: int
  at_efficiency_memory_gb :: pyfloat
  at_efficiency_disk_gb :: int

definition int_or_0 :: "int option \<Rightarrow> int" where
  "int_or_0 x = (case x of None \<Rightarrow> 0 | Some n \<Rightarrow> n)"

definition disk_gb_of :: "int \<Rightarrow> int" where
  "disk_gb_of total_bytes = py_int (case bytes_to_gb (Some total_bytes) of None \<Rightarrow> 0 | Some g \<Rightarrow> g)"

definition build_action_targets :: "ReportRowRaw list \<Rightarrow> ActionTargets" where
  "build_action_targets raws =
     (let items = map to_capacity_warning_item raws;
          eff_raws = filter (\<lambda>raw. cw_classification (to_capacity_warning_item raw) \<in> {Rec_over_provisioned, Rec_idle}) raws
      in \<lparr>at_hosts = sort_key (\<lambda>it. (CLASSIFICATION_ORDER (cw_classification it), - cw_severity_score it, cw_hostname it)) items,
          at_total = length items,
          at_under_count = length (filter (\<lambda>it. cw_classification it = Rec_under_provisioned) items),
          at_efficiency_count = length eff_raws,
          at_efficiency_vcpus = sum_list (map (\<lambda>r. int_or_0 (rr_cpu_cores r)) eff_raws),
          at_efficiency_memory_gb =
            py_round 1 (py_sum (map (\<lambda>r. idiv (int_or_0 (rr_mem_total_bytes r)) (1024 ^ 3)) eff_raws)),
          at_efficiency_disk_gb =
            disk_gb_of (sum_list (map (\<lambda>r. disk_total_bytes (rows_or_empty (rr_block_devices r))) eff_raws))\<rparr>)"

end
