(* ===== verification/EnvironmentViews.thy ===== *)
theory EnvironmentViews
  imports Attention LiveDashboard
begin

text \<open>
  The environment screens assembled: \<open>build_environment_overview\<close> and \<open>build_environment_realtime\<close> of
  \<open>web/services/mappers/attention.py\<close>, with \<open>assemble_overview\<close> and \<open>_assemble_realtime\<close> of
  \<open>web/services/query/environment.py\<close>.  The latest metrics and saturation values of a server are arguments.
\<close>

section \<open>The overview\<close>

record EnvironmentUtilizationRaw =
  eu_cpu_avg_pct :: "pyfloat option"
  eu_mem_avg_pct :: "pyfloat option"
  eu_disk_avg_pct :: "pyfloat option"
  eu_sample_size :: int
  eu_cpu_p95_pct :: "pyfloat option"
  eu_mem_p95_pct :: "pyfloat option"

record EnvironmentOverview =
  eo_total :: int
  eo_online :: int
  eo_offline :: int
  eo_total_vcpus :: int
  eo_total_memory_gb :: pyfloat
  eo_total_disk_gb :: int
  eo_os_distribution :: counter
  eo_role_distribution :: counter
  eo_workload_donut :: "RiskDonutSegment list"
  eo_workload_total :: int
  eo_role_unknown_count :: int
  eo_utilization :: "UtilizationBar list"
  eo_utilization_p95 :: "UtilizationBar list"
  eo_util_sample_size :: int
  eo_saturation_donuts :: "SaturationDonut list"
  eo_error_fleet :: "FleetErrorItem list"
  eo_os_eol :: eol_counts
  eo_risk_donut :: "RiskDonutSegment list"
  eo_risk_donut_total :: int
  eo_risk_high_count :: int
  eo_under_hosts :: "CapacityWarningItem list"
  eo_under_hosts_count :: nat
  eo_under_hosts_shown :: nat

definition counter_add :: "string \<Rightarrow> int \<Rightarrow> counter \<Rightarrow> counter" where
  "counter_add k n c = AList.update k (counter_get c k + n) c"

definition os_counter :: "ServerDetail list \<Rightarrow> counter" where
  "os_counter details =
     fold (\<lambda>d. counter_add (case nonblank (sd_os_family d) of None \<Rightarrow> ''unknown'' | Some f \<Rightarrow> f) 1) details []"

definition workload_of :: "ServerDetail \<Rightarrow> counter" where
  "workload_of d = workload_category_counter (sd_services d) (Some (sd_listen_ports d))"

definition role_counter :: "ServerDetail list \<Rightarrow> counter" where
  "role_counter details = fold (\<lambda>d. fold (\<lambda>(k, n). counter_add k n) (workload_of d)) details []"

definition role_unknown :: "ServerDetail list \<Rightarrow> int" where
  "role_unknown details = int (length (filter (\<lambda>d. workload_of d = []) details))"

definition index_in :: "string list \<Rightarrow> string \<Rightarrow> nat" where
  "index_in xs x = length (takeWhile (\<lambda>y. y \<noteq> x) xs)"

definition role_sorted :: "counter \<Rightarrow> counter" where
  "role_sorted c =
     sort_key (\<lambda>kv. (- snd kv, index_in SIGNATURE_CATEGORIES (fst kv)))
       (map (\<lambda>cat. (cat, counter_get c cat)) SIGNATURE_CATEGORIES)"

definition under_order :: "CapacityWarningItem list \<Rightarrow> CapacityWarningItem list" where
  "under_order items = sort_key (\<lambda>c. (- cw_severity_score c, str_lower (cw_hostname c))) items"

definition UNDER_PROVISIONED_DISPLAY_MAX :: nat where "UNDER_PROVISIONED_DISPLAY_MAX = 3"

definition overview_saturation :: "counter option \<Rightarrow> SaturationDonut list" where
  "overview_saturation saturation_counts =
     (case saturation_counts of
        None \<Rightarrow> []
      | Some c \<Rightarrow>
          map (\<lambda>(l, k). build_saturation_donut l (counter_get c k) (counter_get c ''total''))
            [(Sat_cpu, ''cpu''), (Sat_memory, ''mem''), (Sat_disk_io, ''disk_io''), (Sat_network, ''net'')])"

text \<open>The option is the error of a broken catalogue date in the summary of support phases.\<close>

definition build_environment_overview ::
  "ServerDetail list \<Rightarrow> int \<Rightarrow> EnvironmentUtilizationRaw option \<Rightarrow> risk_counts option
     \<Rightarrow> CapacityWarningItem list \<Rightarrow> nat option \<Rightarrow> counter option \<Rightarrow> FleetErrorRaw option \<Rightarrow> int
     \<Rightarrow> EnvironmentOverview option" where
  "build_environment_overview details online_count utilization counts under_hosts under_limit saturation_counts
      error_summary today =
     (let total_n = int (length details);
          roles = role_sorted (role_counter details);
          (workload_segments, wl_total) = workload_donut_segments roles;
          (risk_segments, risk_total, risk_under) =
            (case counts of None \<Rightarrow> ([], 0, 0) | Some c \<Rightarrow> build_risk_donut_segments c);
          under_all = under_order under_hosts;
          under_shown = (case under_limit of None \<Rightarrow> under_all | Some n \<Rightarrow> take n under_all)
      in map_option
           (\<lambda>eol.
             \<lparr>eo_total = total_n, eo_online = online_count, eo_offline = total_n - online_count,
              eo_total_vcpus = sum_list (map (\<lambda>d. int_or_0 (sd_cpu_cores d)) details),
              eo_total_memory_gb =
                (case bytes_to_gib (Some (sum_list (map (\<lambda>d. int_or_0 (sd_mem_total_bytes d)) details))) of
                   None \<Rightarrow> 0 | Some g \<Rightarrow> g),
              eo_total_disk_gb = disk_gb_of (sum_list (map (\<lambda>d. disk_total_bytes (sd_block_devices d)) details)),
              eo_os_distribution = sort_key (\<lambda>kv. (- snd kv, fst kv)) (os_counter details),
              eo_role_distribution = roles, eo_workload_donut = workload_segments, eo_workload_total = wl_total,
              eo_role_unknown_count = role_unknown details,
              eo_utilization =
                (case utilization of None \<Rightarrow> []
                 | Some u \<Rightarrow> [util_bar Bar_cpu (eu_cpu_avg_pct u), util_bar Bar_memory (eu_mem_avg_pct u),
                             util_bar Bar_disk_capacity (eu_disk_avg_pct u)]),
              eo_utilization_p95 =
                (case utilization of None \<Rightarrow> []
                 | Some u \<Rightarrow> [util_bar Bar_cpu (eu_cpu_p95_pct u), util_bar Bar_memory (eu_mem_p95_pct u)]),
              eo_util_sample_size = (case utilization of None \<Rightarrow> 0 | Some u \<Rightarrow> eu_sample_size u),
              eo_saturation_donuts = overview_saturation saturation_counts,
              eo_error_fleet = build_error_fleet error_summary, eo_os_eol = eol,
              eo_risk_donut = risk_segments, eo_risk_donut_total = risk_total, eo_risk_high_count = risk_under,
              eo_under_hosts = under_shown, eo_under_hosts_count = length under_all,
              eo_under_hosts_shown = length under_shown\<rparr>)
           (os_eol_summary details today))"

text \<open>The statistics of a row with the disk activity it carries, and the counters of the loop over the rows.\<close>

definition overview_stats :: "ReportRowRaw \<Rightarrow> ResourceStats" where
  "overview_stats raw = build_resource_stats raw (rr_disk_iops_baseline raw)"

definition count_risk :: "ReportRowRaw \<Rightarrow> risk_counts \<Rightarrow> risk_counts" where
  "count_risk raw counts =
     (let r = classify_host (overview_stats raw) in AList.update r (risk_count counts r + 1) counts)"

definition count_rows :: "(ResourceStats \<Rightarrow> bool) \<Rightarrow> ReportRowRaw list \<Rightarrow> int" where
  "count_rows f raws = int (length (filter (\<lambda>raw. f (overview_stats raw)) raws))"

definition saturation_counts_of :: "EnvironmentUtilizationRaw \<Rightarrow> ReportRowRaw list \<Rightarrow> counter" where
  "saturation_counts_of util raws =
     (let cpu = count_rows (\<lambda>s. truthy (cpu_saturated s)) raws;
          mem = count_rows (\<lambda>s. truthy (mem_saturated s)) raws;
          disk = count_rows (\<lambda>s. truthy (disk_io_saturated s)) raws;
          net = count_rows (\<lambda>s. status (assess_network s) = Congested) raws
      in [(''cpu'', cpu), (''mem'', mem), (''disk_io'', disk), (''net'', net),
          (''total'', max (max (max (max (eu_sample_size util) cpu) mem) disk) net)])"

definition assemble_overview ::
  "ServerDetail list \<Rightarrow> EnvironmentUtilizationRaw \<Rightarrow> ReportRowRaw list \<Rightarrow> (int \<rightharpoonup> bool) \<Rightarrow> bool
     \<Rightarrow> FleetErrorRaw option \<Rightarrow> int \<Rightarrow> EnvironmentOverview option" where
  "assemble_overview details util raws_period online_by_id full_under error_summary today =
     build_environment_overview details
       (int (length (filter (\<lambda>d. truthy (online_by_id (sd_id d))) details)))
       (Some util)
       (Some (fold count_risk raws_period []))
       (map to_capacity_warning_item
         (filter (\<lambda>raw. classify_host (overview_stats raw) = Rec_under_provisioned) raws_period))
       (if full_under then None else Some UNDER_PROVISIONED_DISPLAY_MAX)
       (Some (saturation_counts_of util raws_period)) error_summary today"

section \<open>The live view\<close>

text \<open>The dictionary of a server in \<open>_assemble_realtime\<close>.\<close>

record RealtimeSnapshot =
  rs_hostname :: string
  rs_public_id :: string
  rs_os_family :: "string option"
  rs_cpu_pct :: "pyfloat option"
  rs_mem_pct :: "pyfloat option"
  rs_cpu_sat_index :: "pyfloat option"
  rs_disk_sat_index :: "pyfloat option"
  rs_disk_util_pct :: "pyfloat option"
  rs_paging_rate :: "pyfloat option"
  rs_net_kbps :: "pyfloat option"
  rs_mem_pressure :: bool
  rs_net_congested :: bool
  rs_cpu_cores :: "int option"
  rs_mem_used_bytes :: "int option"
  rs_mem_total_bytes :: "int option"

text \<open>Pairs of a known value with a known nonzero weight.\<close>

definition weighted :: "('s \<Rightarrow> 'v option) \<Rightarrow> ('s \<Rightarrow> int option) \<Rightarrow> 's list \<Rightarrow> ('v \<times> int) list" where
  "weighted value weight snapshots =
     List.map_filter
       (\<lambda>s. case (value s, weight s) of (Some v, Some w) \<Rightarrow> if w = 0 then None else Some (v, w) | _ \<Rightarrow> None)
       snapshots"

definition cap_weighted ::
  "(RealtimeSnapshot \<Rightarrow> pyfloat option) \<Rightarrow> (RealtimeSnapshot \<Rightarrow> int option) \<Rightarrow> RealtimeSnapshot list \<Rightarrow> pyfloat option" where
  "cap_weighted value weight snapshots =
     (let vw = weighted value weight snapshots; den = sum_list (map snd vw) in
      if den = 0 then None
      else Some (py_round 1 (fdiv (py_sum (map (\<lambda>(v, w). fmul v (of_pyint w)) vw)) (of_pyint den))))"

definition ratio_of ::
  "(RealtimeSnapshot \<Rightarrow> int option) \<Rightarrow> (RealtimeSnapshot \<Rightarrow> int option) \<Rightarrow> RealtimeSnapshot list \<Rightarrow> pyfloat option" where
  "ratio_of used_of total_of snapshots =
     (let vw = weighted used_of total_of snapshots; den = sum_list (map snd vw) in
      if den = 0 then None else Some (py_round 1 (fmul (idiv (sum_list (map fst vw)) den) 100)))"

datatype cell_text =
  Cell_dash
  | Cell_tenths_pct int
  | Cell_whole_pct int
  | Cell_index int              \<comment> \<open>hundredths\<close>
  | Cell_rate bool int          \<comment> \<open>the tag \<open>W\<close> or \<open>L\<close> and hundredths per second\<close>
  | Cell_congested
  | Cell_normal

record RealtimeLoadCell =
  lc_value :: "pyfloat option"
  lc_display :: cell_text
  lc_color :: string

record RealtimeLoadRow =
  lr_hostname :: string
  lr_public_id :: string
  lr_cpu :: RealtimeLoadCell
  lr_mem :: RealtimeLoadCell
  lr_run_queue :: RealtimeLoadCell
  lr_paging :: RealtimeLoadCell
  lr_disk_util :: RealtimeLoadCell
  lr_disk_io :: RealtimeLoadCell
  lr_network :: RealtimeLoadCell

definition net_status_cell :: "bool \<Rightarrow> RealtimeLoadCell" where
  "net_status_cell congested =
     (if congested then \<lparr>lc_value = Some 1, lc_display = Cell_congested, lc_color = NET_CONGESTED_COLOR\<rparr>
      else \<lparr>lc_value = Some 0, lc_display = Cell_normal, lc_color = []\<rparr>)"

definition load_cell :: "pyfloat option \<Rightarrow> (pyfloat \<Rightarrow> cell_text) \<Rightarrow> bool \<Rightarrow> RealtimeLoadCell" where
  "load_cell val fmt exceeded =
     (case val of
        None \<Rightarrow> \<lparr>lc_value = None, lc_display = Cell_dash, lc_color = []\<rparr>
      | Some v \<Rightarrow> \<lparr>lc_value = Some v, lc_display = fmt v, lc_color = (if exceeded then NET_CONGESTED_COLOR else [])\<rparr>)"

definition index_exceeded :: "pyfloat option \<Rightarrow> bool" where
  "index_exceeded i = (or_zero i \<ge> 1)"

definition load_row :: "RealtimeSnapshot \<Rightarrow> RealtimeLoadRow" where
  "load_row s =
     \<lparr>lr_hostname = rs_hostname s, lr_public_id = rs_public_id s,
      lr_cpu = load_cell (rs_cpu_pct s) (\<lambda>v. Cell_tenths_pct (rhe (v * 10))) False,
      lr_mem = load_cell (rs_mem_pct s) (\<lambda>v. Cell_tenths_pct (rhe (v * 10))) False,
      lr_run_queue =
        load_cell (rs_cpu_sat_index s) (\<lambda>v. Cell_index (rhe (v * 100))) (index_exceeded (rs_cpu_sat_index s)),
      lr_paging =
        load_cell (rs_paging_rate s) (\<lambda>v. Cell_rate (rs_os_family s = Some windows) (rhe (v * 100)))
          (rs_mem_pressure s),
      lr_disk_util = load_cell (rs_disk_util_pct s) (\<lambda>v. Cell_whole_pct (rhe v)) False,
      lr_disk_io =
        load_cell (rs_disk_sat_index s) (\<lambda>v. Cell_index (rhe (v * 100))) (index_exceeded (rs_disk_sat_index s)),
      lr_network = net_status_cell (rs_net_congested s)\<rparr>"

record EnvironmentRealtime =
  er_total :: int
  er_online :: int
  er_offline :: int
  er_sample_size :: int
  er_utilization :: "UtilizationBar list"
  er_last_collected_at :: "datetime option"
  er_load_rows :: "RealtimeLoadRow list"
  er_saturation_donuts :: "SaturationDonut list"

definition count_snapshots :: "(RealtimeSnapshot \<Rightarrow> bool) \<Rightarrow> RealtimeSnapshot list \<Rightarrow> int" where
  "count_snapshots f snapshots = int (length (filter f snapshots))"

definition build_environment_realtime ::
  "int \<Rightarrow> int \<Rightarrow> RealtimeSnapshot list \<Rightarrow> datetime option \<Rightarrow> EnvironmentRealtime" where
  "build_environment_realtime total_n online snapshots last_collected_at =
     (let sample = int (length snapshots) in
      \<lparr>er_total = total_n, er_online = online, er_offline = total_n - online, er_sample_size = sample,
       er_utilization =
         [util_bar Bar_cpu (cap_weighted rs_cpu_pct rs_cpu_cores snapshots),
          util_bar Bar_memory (ratio_of rs_mem_used_bytes rs_mem_total_bytes snapshots)],
       er_last_collected_at = last_collected_at,
       er_load_rows = sort_key lr_hostname (map load_row snapshots),
       er_saturation_donuts =
         [build_saturation_donut Live_run_queue (count_snapshots (\<lambda>s. index_exceeded (rs_cpu_sat_index s)) snapshots) sample,
          build_saturation_donut Live_paging (count_snapshots rs_mem_pressure snapshots) sample,
          build_saturation_donut Live_disk_latency (count_snapshots (\<lambda>s. index_exceeded (rs_disk_sat_index s)) snapshots) sample,
          build_saturation_donut Live_network (count_snapshots rs_net_congested snapshots) sample]\<rparr>)"

text \<open>The value \<open>SaturationRaw()\<close> of a server without fresh samples.\<close>

definition no_saturation :: SaturationRaw where
  "no_saturation =
     \<lparr>sr_run_queue = None, sr_await_ms = None, sr_pending_ops = None, sr_disk_io_util_pct = None,
      sr_paging_major_rate = None, sr_retrans_pct = None, sr_drop_pct = None, sr_conntrack_ratio = None,
      sr_psi_cpu = None, sr_psi_mem = None, sr_psi_io = None\<rparr>"

definition snapshot_of :: "ServerDetail \<Rightarrow> SaturationRaw \<Rightarrow> MetricDashboard \<Rightarrow> RealtimeSnapshot" where
  "snapshot_of d sat m =
     (let mem = da_memory m;
          net_rate = (if da_net_io m = [] then None
                      else Some (py_sum (map (\<lambda>n. fadd (or_zero (ns_rx_kbps n)) (or_zero (ns_tx_kbps n))) (da_net_io m))))
      in \<lparr>rs_hostname = sd_hostname d, rs_public_id = sd_public_id d, rs_os_family = sd_os_family d,
          rs_cpu_pct = Option.bind (da_cpu m) cs_usage_pct, rs_mem_pct = Option.bind mem ms_usage_pct,
          rs_cpu_sat_index = cpu_saturation_index (sr_run_queue sat) (sd_cpu_cores d) (sd_os_family d),
          rs_disk_sat_index = disk_io_saturation_index (sr_await_ms sat) (sr_pending_ops sat) (sd_os_family d),
          rs_disk_util_pct = sr_disk_io_util_pct sat, rs_paging_rate = sr_paging_major_rate sat,
          rs_net_kbps = net_rate,
          rs_mem_pressure = mem_pressure_active (sr_paging_major_rate sat) (sd_os_family d),
          rs_net_congested =
            net_signal_active (sr_retrans_pct sat) (sr_drop_pct sat) (sr_conntrack_ratio sat) net_rate,
          rs_cpu_cores = sd_cpu_cores d, rs_mem_used_bytes = Option.bind mem ms_used_bytes,
          rs_mem_total_bytes = Option.bind mem ms_total_bytes\<rparr>)"

text \<open>The fresh snapshot of a server, with its time; \<open>None\<close> is a \<open>continue\<close> of the loop.\<close>

definition fresh_snapshot ::
  "ServerDetail list \<Rightarrow> (int \<rightharpoonup> SaturationRaw) \<Rightarrow> (int \<Rightarrow> SaturationRaw \<Rightarrow> MetricDashboard option) \<Rightarrow> datetime \<Rightarrow> int
     \<Rightarrow> (RealtimeSnapshot \<times> datetime) option" where
  "fresh_snapshot details sat_map latest_metric fresh_threshold sid =
     (case map_of (rev (map (\<lambda>d. (sd_id d, d)) details)) sid of
        None \<Rightarrow> None
      | Some d \<Rightarrow>
          (let sat = (case sat_map sid of None \<Rightarrow> no_saturation | Some s \<Rightarrow> s) in
           case latest_metric sid sat of
             None \<Rightarrow> None
           | Some m \<Rightarrow>
               (case da_collected_at m of
                  None \<Rightarrow> None
                | Some t \<Rightarrow> if t < fresh_threshold then None else Some (snapshot_of d sat m, t))))"

definition later :: "datetime \<Rightarrow> datetime option \<Rightarrow> datetime option" where
  "later t seen = (case seen of None \<Rightarrow> Some t | Some l \<Rightarrow> if t > l then Some t else Some l)"

definition assemble_realtime ::
  "int list \<Rightarrow> ServerDetail list \<Rightarrow> datetime \<Rightarrow> int \<Rightarrow> (int \<rightharpoonup> SaturationRaw)
     \<Rightarrow> (int \<Rightarrow> SaturationRaw \<Rightarrow> MetricDashboard option) \<Rightarrow> EnvironmentRealtime" where
  "assemble_realtime server_ids details now redis_ttl_online sat_map latest_metric =
     (let fresh = List.map_filter
            (fresh_snapshot details sat_map latest_metric (now - redis_ttl_online * 1000000)) server_ids
      in build_environment_realtime (int (length server_ids)) (int (length fresh)) (map fst fresh)
           (fold later (map snd fresh) None))"

end
