(* ===== verification/AttentionProps.thy ===== *)
theory AttentionProps
  imports EnvironmentViews AssessmentContract OsEolProps
begin

text \<open>
  The environment screens: the order of the resource table, the counts of the overview, the agreement of
  the table with the donuts, and the live table with its own donuts.
\<close>

section \<open>Classes in order\<close>

text \<open>The screens list the classes in the order of \<open>CLASSIFICATION_ORDER\<close>.\<close>

instantiation recommendation :: linorder
begin

definition less_eq_recommendation :: "recommendation \<Rightarrow> recommendation \<Rightarrow> bool" where
  "r \<le> r' \<longleftrightarrow> CLASSIFICATION_ORDER r \<le> CLASSIFICATION_ORDER r'"

definition less_recommendation :: "recommendation \<Rightarrow> recommendation \<Rightarrow> bool" where
  "r < r' \<longleftrightarrow> CLASSIFICATION_ORDER r < CLASSIFICATION_ORDER r'"

instance
proof
  fix r r' :: recommendation
  show "r \<le> r' \<Longrightarrow> r' \<le> r \<Longrightarrow> r = r'"
    by (cases r; cases r') (simp_all add: less_eq_recommendation_def)
qed (auto simp: less_eq_recommendation_def less_recommendation_def)

end

section \<open>Urgency\<close>

definition paging :: "CapacityWarningItem \<Rightarrow> bool" where
  "paging it = (T_mem_saturation \<in> set (cw_active_causes it))"

definition causes :: "CapacityWarningItem \<Rightarrow> nat" where
  "causes it = length (cw_active_causes it)"

lemma item_sel [simp]:
  "cw_hostname (to_capacity_warning_item raw) = rr_hostname raw"
  "cw_public_id (to_capacity_warning_item raw) = rr_public_id raw"
  "cw_classification (to_capacity_warning_item raw) = classify_host (build_resource_stats raw None)"
  by (simp_all add: to_capacity_warning_item_def Let_def classify_host_def del: rollup_host_sel)

lemma item_causes:
  "cw_active_causes (to_capacity_warning_item raw) =
     filter (\<lambda>t. t \<in> host_triggers (rollup_host (build_resource_stats raw None))) CAUSE_LABEL_BY_TRIGGER"
  by (simp add: to_capacity_warning_item_def Let_def del: rollup_host_sel)

lemma causes_le: "causes (to_capacity_warning_item raw) \<le> 6"
proof -
  have "length (filter P CAUSE_LABEL_BY_TRIGGER) \<le> length CAUSE_LABEL_BY_TRIGGER" for P by (rule length_filter_le)
  then show ?thesis unfolding causes_def item_causes by (simp add: CAUSE_LABEL_BY_TRIGGER_def)
qed

lemma item_severity:
  assumes "classify_host (build_resource_stats raw None) = Rec_under_provisioned"
  shows "cw_severity_score (to_capacity_warning_item raw) =
    fl (of_int ((if paging (to_capacity_warning_item raw) then 10000 else 0) +
                100 * int (causes (to_capacity_warning_item raw))) + peak_util raw)"
proof -
  let ?it = "to_capacity_warning_item raw"
  have pag: "paging ?it \<longleftrightarrow> T_mem_saturation \<in> host_triggers (rollup_host (build_resource_stats raw None))"
    unfolding paging_def item_causes by (simp add: CAUSE_LABEL_BY_TRIGGER_def)
  have score: "cw_severity_score ?it = severity_score Rec_under_provisioned (paging ?it) (causes ?it) (peak_util raw)"
    using assms unfolding pag causes_def item_causes
    by (simp add: to_capacity_warning_item_def Let_def classify_host_def del: rollup_host_sel)
  have n: "int (causes ?it) \<le> 6" using causes_le [of raw] by simp
  have small: "fl (of_int i) = of_int i" if "0 \<le> i" "i \<le> 20000" for i :: int
    using that by (intro fl_of_int) simp
  have "of_pyint (int (causes ?it)) = of_int (int (causes ?it))"
    unfolding of_pyint_def using n by (intro small) simp_all
  then have c: "fmul (of_pyint (int (causes ?it))) 100 = of_int (100 * int (causes ?it))"
    using small [of "100 * int (causes ?it)"] n by (simp add: fmul_def mult.commute)
  have "fadd (if paging ?it then 10000 else 0) (fmul (of_pyint (int (causes ?it))) 100) =
      of_int ((if paging ?it then 10000 else 0) + 100 * int (causes ?it))"
    using small [of "(if paging ?it then 10000 else 0) + 100 * int (causes ?it)"] n unfolding c
    by (cases "paging ?it") (simp_all add: fadd_def)
  then show ?thesis by (simp add: score severity_score_def) (simp add: fadd_def)
qed

definition rank :: "CapacityWarningItem \<Rightarrow> int" where
  "rank it = (if paging it then 10000 else 0) + 100 * int (causes it)"

lemma score_gap:
  fixes i j :: int
  assumes "i + 100 \<le> j" "0 \<le> i" "j \<le> 20000" "p \<le> 9999 / 100" "0 \<le> q"
  shows "fl (of_int i + p) < fl (of_int j + q)"
proof -
  let ?top = "of_int (128 * (i + 100) - 1) * 2 powi (- 7) :: rat"
  have top: "?top = of_int i + 100 - 1 / 128" by (simp add: power_int_def field_simps)
  have "is_binary64 ?top" using assms(1-3) by (intro is_binary64I) simp_all
  moreover have "of_int i + p \<le> ?top" using assms(4) unfolding top by simp
  ultimately have "fl (of_int i + p) \<le> ?top" by (rule fl_le_iff_binary64)
  also have "?top < of_int j" using assms(1) unfolding top by (simp flip: of_int_le_iff [where ?'a = rat])
  also have "of_int j \<le> fl (of_int j + q)" using assms by (intro int_le_fl) simp_all
  finally show ?thesis .
qed

lemma rank_bounds: "0 \<le> rank (to_capacity_warning_item raw)" "rank (to_capacity_warning_item raw) \<le> 10600"
  using causes_le [of raw] by (simp_all add: rank_def)

lemma severity_rank:
  assumes "classify_host (build_resource_stats a None) = Rec_under_provisioned"
    and "classify_host (build_resource_stats b None) = Rec_under_provisioned"
    and "peak_util a \<le> 9999 / 100" "0 \<le> peak_util b"
    and "cw_severity_score (to_capacity_warning_item b) \<le> cw_severity_score (to_capacity_warning_item a)"
  shows "rank (to_capacity_warning_item b) \<le> rank (to_capacity_warning_item a)"
proof (rule ccontr)
  assume "\<not> ?thesis"
  moreover have hundreds: "\<exists>k. rank it = 100 * k" for it
    by (rule exI [of _ "(if paging it then 100 else 0) + int (causes it)"]) (simp add: rank_def)
  obtain k m where "rank (to_capacity_warning_item a) = 100 * k" "rank (to_capacity_warning_item b) = 100 * m"
    using hundreds by blast
  ultimately have "rank (to_capacity_warning_item a) + 100 \<le> rank (to_capacity_warning_item b)" by simp
  then have "fl (of_int (rank (to_capacity_warning_item a)) + peak_util a) < fl (of_int (rank (to_capacity_warning_item b)) + peak_util b)"
    using rank_bounds [of a] rank_bounds [of b] assms(3,4) by (intro score_gap) simp_all
  then show False using assms(5) unfolding item_severity [OF assms(1)] item_severity [OF assms(2)] rank_def by simp
qed

definition no_later_urgent :: "CapacityWarningItem \<Rightarrow> CapacityWarningItem \<Rightarrow> bool" where
  "no_later_urgent x y =
     (cw_classification x \<le> cw_classification y \<and>
      (cw_classification x = cw_classification y \<longrightarrow> cw_severity_score y \<le> cw_severity_score x) \<and>
      (cw_classification x = Rec_under_provisioned \<and> cw_classification y = Rec_under_provisioned \<longrightarrow>
        (paging y \<longrightarrow> paging x) \<and> (paging x = paging y \<longrightarrow> causes y \<le> causes x)))"

lemma rank_le_urgent: 
  assumes "rank y \<le> rank x" "causes x \<le> 6"
  shows "(paging y \<longrightarrow> paging x) \<and> (paging x = paging y \<longrightarrow> causes y \<le> causes x)"
  using assms by (auto simp: rank_def split: if_splits)

text \<open>
  Claim C21: the resource table of the environment holds every server once and lists the most
  urgent first.  Classes come in their fixed order; among the short hosts a paging one never stands below
  one that does not page, and with equal paging the one with more causes never stands below; so the
  weights 10000, 100 and 1 of the score cannot be outweighed, as long as utilisations are at most 99.99
  percent.
\<close>

theorem urgent_first:
  assumes "\<forall>raw \<in> set raws. 0 \<le> peak_util raw \<and> peak_util raw \<le> 9999 / 100"
  shows "mset (at_hosts (build_action_targets raws)) = image_mset to_capacity_warning_item (mset raws)
    \<and> sorted_wrt no_later_urgent (at_hosts (build_action_targets raws))"
proof
  let ?key = "\<lambda>it. (CLASSIFICATION_ORDER (cw_classification it), - cw_severity_score it, cw_hostname it)"
  let ?hosts = "at_hosts (build_action_targets raws)"
  have hosts: "?hosts = sort_key ?key (map to_capacity_warning_item raws)"
    by (simp add: build_action_targets_def Let_def)
  show "mset ?hosts = image_mset to_capacity_warning_item (mset raws)" unfolding hosts by simp
  have step: "no_later_urgent x y" if xy: "x \<in> set ?hosts" "y \<in> set ?hosts" "?key x \<le> ?key y" for x y
  proof -
    obtain a b where a: "x = to_capacity_warning_item a" "a \<in> set raws" and b: "y = to_capacity_warning_item b" "b \<in> set raws"
      using xy(1,2) unfolding hosts by auto
    have le: "cw_classification x \<le> cw_classification y"
      using xy(3) by (auto simp: less_eq_recommendation_def)
    have sev: "cw_severity_score y \<le> cw_severity_score x" if "cw_classification x = cw_classification y"
      using that xy(3) by auto
    have "rank y \<le> rank x" if "cw_classification x = Rec_under_provisioned" "cw_classification y = Rec_under_provisioned"
      using severity_rank [of a b] sev that assms a b by simp
    then show ?thesis
      using le sev rank_le_urgent [of y x] causes_le [of a] unfolding no_later_urgent_def a(1) by blast
  qed
  have "sorted_wrt (\<lambda>x y. ?key x \<le> ?key y) ?hosts"
    using sorted_sort_key [of ?key "map to_capacity_warning_item raws"] unfolding hosts sorted_map by simp
  then show "sorted_wrt no_later_urgent ?hosts"
    by (rule sorted_wrt_mono_rel [rotated]) (rule step)
qed

theorem urgent_first_witness:
  "sorted_wrt no_later_urgent (at_hosts (build_action_targets
     [row0\<lparr>rr_cpu_cores := Some 4, rr_cpu_p95_pct := Some 95\<rparr>, row0\<lparr>rr_mem_swap_paging := True, rr_mem_p95_pct := Some 60\<rparr>]))"
proof -
  have "\<forall>raw \<in> set [row0\<lparr>rr_cpu_cores := Some 4, rr_cpu_p95_pct := Some 95\<rparr>,
      row0\<lparr>rr_mem_swap_paging := True, rr_mem_p95_pct := Some 60\<rparr>]. 0 \<le> peak_util raw \<and> peak_util raw \<le> 9999 / 100"
    by (simp add: peak_util_def row0_def List.map_filter_simps)
  from urgent_first [OF this] show ?thesis by blast
qed

section \<open>The table and the donut\<close>

lemma baseline_irrelevant:
  assumes "k \<noteq> Disk_io"
  shows "assess (s\<lparr>disk_iops_baseline := x\<rparr>) k = assess s k"
proof -
  let ?t = "s\<lparr>disk_iops_baseline := x\<rparr>"
  have sel: "os_family ?t = os_family s" "cpu_cores ?t = cpu_cores s" "cpu_p95_pct ?t = cpu_p95_pct s"
    "cpu_run_queue_p95 ?t = cpu_run_queue_p95 s" "procs_running_p95 ?t = procs_running_p95 s"
    "mem_p95_pct ?t = mem_p95_pct s" "mem_swap_paging ?t = mem_swap_paging s" "mem_total_mb ?t = mem_total_mb s"
    "mem_pages_input_rate_p95 ?t = mem_pages_input_rate_p95 s" "oom_occurred ?t = oom_occurred s"
    "mem_near_peak_pct ?t = mem_near_peak_pct s" "disk_capacity_runway_days ?t = disk_capacity_runway_days s"
    "disk_inode_runway_days ?t = disk_inode_runway_days s" "disk_used_pct ?t = disk_used_pct s"
    "disk_inode_used_pct ?t = disk_inode_used_pct s" "disk_capacity_target_gb ?t = disk_capacity_target_gb s"
    "disk_await_p95_ms ?t = disk_await_p95_ms s" "disk_queue_p95 ?t = disk_queue_p95 s"
    "cpu_steal_p95_pct ?t = cpu_steal_p95_pct s" "cpu_percore_p95_max ?t = cpu_percore_p95_max s"
    "history_hours ?t = history_hours s" "cpu_burst_ratio ?t = cpu_burst_ratio s"
    "util_trend_rising ?t = util_trend_rising s" "net_avg_kbytes_per_s ?t = net_avg_kbytes_per_s s"
    "net_retrans_pct ?t = net_retrans_pct s" "net_drop_pct ?t = net_drop_pct s"
    "conntrack_ratio ?t = conntrack_ratio s" "sample_sufficiency ?t = sample_sufficiency s"
    by simp_all
  have conf: "base_confidence ?t a b = base_confidence s a b" for a b
    unfolding base_confidence_def precision_low_def sel ..
  have sig: "cpu_saturated ?t = cpu_saturated s" "mem_saturated ?t = mem_saturated s"
      "disk_io_saturated ?t = disk_io_saturated s" "run_queue_value ?t = run_queue_value s"
    unfolding cpu_saturated_def mem_saturated_def disk_io_saturated_def run_queue_value_def sel by (rule refl)+
  have pag: "mem_paging_active ?t = mem_paging_active s" unfolding mem_paging_active_def sig ..
  have tgt: "mem_under_target y ?t = mem_under_target y s" for y unfolding mem_under_target_def pag sel ..
  have net: "network_triggers ?t = network_triggers s" unfolding network_triggers_def sel ..
  have cpu: "assess_cpu ?t = assess_cpu s" unfolding assess_cpu_def conf sig sel ..
  have mem: "assess_memory ?t = assess_memory s" unfolding assess_memory_def conf pag tgt sel ..
  have disk: "assess_disk_capacity ?t = assess_disk_capacity s" unfolding assess_disk_capacity_def conf sel ..
  have nw: "assess_network ?t = assess_network s" by (simp add: assess_network_def conf net)
  show ?thesis using assms by (cases k) (simp_all only: assess.simps cpu mem disk nw simp_thms)
qed

lemma stats_baseline: "build_resource_stats raw b = build_resource_stats raw None\<lparr>disk_iops_baseline := map_option of_int b\<rparr>"
  by (simp add: build_resource_stats_def)

lemma baseline_status:
  defines "act \<equiv> \<lambda>b. is_some_and (map_option of_int b :: pyfloat option) (\<lambda>i. i > IDLE_DISK_IOPS)"
  shows "classify_host (build_resource_stats raw b) = classify_host (build_resource_stats raw None) \<or>
    act b \<and> classify_host (build_resource_stats raw None) = Rec_idle \<and>
    classify_host (build_resource_stats raw b) \<in> {Rec_over_provisioned, Rec_optimal}"
proof -
  let ?s = "build_resource_stats raw None"
  let ?t = "?s\<lparr>disk_iops_baseline := map_option of_int b\<rparr>"
  have cpu_mem: "assess ?t Cpu = assess ?s Cpu" "assess ?t Memory = assess ?s Memory"
    by (rule baseline_irrelevant; simp)+
  have "k \<in> set (rootable ?t) \<longleftrightarrow> k \<in> set (rootable ?s)" for k
    unfolding rootable_iff using baseline_irrelevant [of k "map_option of_int b" ?s]
      assess_disk_io_status [of ?s] assess_disk_io_status [of ?t] by (cases "k = Disk_io") auto
  then have root: "rootable ?t = [] \<longleftrightarrow> rootable ?s = []" by (metis ex_in_conv set_empty)
  have "classify_host ?t = classify_host ?s \<or>
    act b \<and> classify_host ?s = Rec_idle \<and> classify_host ?t \<in> {Rec_over_provisioned, Rec_optimal}"
    by (auto simp: classify_host_def host_status_to_recommendation_def rollup_status_def Let_def cpu_mem root act_def
        simp del: assess.simps split: if_splits)
  then show ?thesis unfolding stats_baseline [of raw b] .
qed

text \<open>
  Claim C28: in a report the donut of classes and the resource table come from the same
  rows, but only the donut sees the disk activity.  A server is classified differently in the two exactly
  on one side: the table calls it idle, the donut excessive or optimal, and its disk does more than five
  operations per second.  So all counts of short and unmeasured servers agree, and the table never shows
  fewer idle servers than the donut.
\<close>

theorem table_calls_more_idle:
  "let table = map cw_classification (map to_capacity_warning_item raws);
       donut = map (\<lambda>raw. classify_host (overview_stats raw)) raws
   in list_all2 (\<lambda>raw (t, d). t = d \<or> t = Rec_idle \<and> d \<in> {Rec_over_provisioned, Rec_optimal} \<and>
                     is_some_and (rr_disk_iops_baseline raw) (\<lambda>n. 5 < n)) raws (zip table donut) \<and>
      count_list table Rec_under_provisioned = count_list donut Rec_under_provisioned \<and>
      count_list table Rec_insufficient_data = count_list donut Rec_insufficient_data \<and>
      count_list donut Rec_idle \<le> count_list table Rec_idle"
proof -
  have one: "classify_host (overview_stats raw) = classify_host (build_resource_stats raw None) \<or>
      is_some_and (rr_disk_iops_baseline raw) (\<lambda>n. 5 < n) \<and> classify_host (build_resource_stats raw None) = Rec_idle \<and>
      classify_host (overview_stats raw) \<in> {Rec_over_provisioned, Rec_optimal}" for raw
    using baseline_status [of raw "rr_disk_iops_baseline raw"]
    by (auto simp: overview_stats_def is_some_and_iff sizing_simps)
  show ?thesis
  proof (induction raws)
    case (Cons raw raws)
    then show ?case using one [of raw] by (auto simp: Let_def)
  qed simp
qed

end
