(* ===== verification/OverviewProps.thy ===== *)
theory OverviewProps
  imports AttentionProps PeriodCardProps
begin

text \<open>
  The counts of the environment screens: every chart of the overview adds up, no ring is filled beyond its
  circumference, and the live donuts count exactly the red cells of the live table.
\<close>

text \<open>A server whose processors and network sleep while its disk works: idle in the table only.\<close>

lemma idle_only_in_table:
  "let raw = row0\<lparr>rr_cpu_cores := Some 4, rr_cpu_p95_pct := Some 2, rr_net_rx_kbps := Some 1, rr_net_tx_kbps := Some 1,
                  rr_disk_iops_baseline := Some 100\<rparr>
   in cw_classification (to_capacity_warning_item raw) = Rec_idle \<and> classify_host (overview_stats raw) \<noteq> Rec_idle"
proof -
  let ?raw = "row0\<lparr>rr_cpu_cores := Some 4, rr_cpu_p95_pct := Some 2, rr_net_rx_kbps := Some 1, rr_net_tx_kbps := Some 1,
                  rr_disk_iops_baseline := Some 100\<rparr>"
  have row: "disk_used_pct (build_resource_stats ?raw b) = None" "disk_inode_used_pct (build_resource_stats ?raw b) = None"
    "disk_capacity_runway_days (build_resource_stats ?raw b) = None" "disk_inode_runway_days (build_resource_stats ?raw b) = None"
    "oom_occurred (build_resource_stats ?raw b) = False" for b
    by (simp_all add: build_resource_stats_def row0_def)
  have row0: "rr_worst_mount_used_pct row0 = None" by (simp add: row0_def)
  have "status (assess_cpu (build_resource_stats ?raw b)) \<noteq> Under" for b
    using cpu_under_row [of "build_resource_stats ?raw b"]
    by (auto simp: util_row_def cpu_saturated_def is_some_and_iff sizing_simps)
  moreover have "status (assess_memory (build_resource_stats ?raw b)) \<noteq> Under" for b
    using memory_under_row [of "build_resource_stats ?raw b"] row(5) [of b]
    by (auto simp: util_row_def mem_saturated_def is_some_and_iff)
  moreover have "status (assess_disk_capacity (build_resource_stats ?raw b)) \<noteq> Filling" for b
    using filling_causes [of "build_resource_stats ?raw b"] by (auto simp: row row0 is_some_and_def)
  ultimately have root: "rootable (build_resource_stats ?raw b) = []" for b unfolding rootable_Nil_iff by blast
  have cpu: "status (assess (build_resource_stats ?raw b) Cpu) \<notin> {Unmeasured, Insufficient}" for b
    using assess_cpu_known(1) [of "build_resource_stats ?raw b" 4] by (simp add: cpu_saturated_def split: if_splits)
  have net: "net_total ?raw = Some 2" by (simp add: net_total_def or_zero_def fadd_def)
  have "fl (2 / 125) \<le> fl 2" by (rule fl_mono) simp
  then have small: "fl (2 / 125) \<le> 2" by simp
  show ?thesis
    unfolding Let_def item_sel overview_stats_def classify_host_def host_status_to_recommendation_def rollup_host_sel
    using cpu by (simp add: rollup_status_def root net small is_some_and_def Let_def sizing_simps fmul_def fdiv_def del: assess.simps)
qed

section \<open>Counters\<close>

definition sum_counts :: "('k \<times> int) list \<Rightarrow> int" where
  "sum_counts c = sum_list (map snd c)"

lemma sum_update:
  "distinct (map fst c) \<Longrightarrow>
     sum_counts (AList.update k v c) = sum_counts c - (case map_of c k of None \<Rightarrow> 0 | Some n \<Rightarrow> n) + v"
proof (induction c)
  case (Cons kn c)
  obtain a n where kn: "kn = (a, n)" by (cases kn)
  show ?case
  proof (cases "a = k")
    case True
    then show ?thesis by (simp add: kn sum_counts_def)
  next
    case False
    then show ?thesis using Cons by (simp add: kn sum_counts_def)
  qed
qed (simp add: sum_counts_def)

lemma sum_counter_add: "distinct (map fst c) \<Longrightarrow> sum_counts (counter_add k n c) = sum_counts c + n"
  by (simp add: counter_add_def sum_update counter_get_def)

lemma distinct_counter_add: "distinct (map fst c) \<Longrightarrow> distinct (map fst (counter_add k n c))"
  by (simp add: counter_add_def distinct_update)

lemma fold_counter_sum:
  "distinct (map fst c) \<Longrightarrow> sum_counts (fold (\<lambda>d. counter_add (f d) 1) ds c) = sum_counts c + int (length ds)"
  by (induction ds arbitrary: c) (simp_all add: sum_counter_add distinct_counter_add)

lemma os_counter_sum: "sum_counts (os_counter details) = int (length details)"
  unfolding os_counter_def by (subst fold_counter_sum) (simp_all add: sum_counts_def)

lemma sum_sort_key: "sum_counts (sort_key f c) = sum_counts c"
proof -
  have "mset (map snd (sort_key f c)) = mset (map snd c)" by simp
  then have "sum_mset (mset (map snd (sort_key f c))) = sum_mset (mset (map snd c))" by (rule arg_cong)
  then show ?thesis by (simp only: sum_counts_def sum_mset_sum_list)
qed

lemma count_risk_get: "risk_count (count_risk raw c) k = risk_count c k + (if classify_host (overview_stats raw) = k then 1 else 0)"
  by (simp add: count_risk_def Let_def risk_count_def update_conv')

lemma fold_risk:
  "risk_count (fold count_risk raws c) k = risk_count c k + int (length (filter (\<lambda>raw. classify_host (overview_stats raw) = k) raws))"
  by (induction raws arbitrary: c) (simp_all add: count_risk_get)

lemma fold_risk_sum:
  "distinct (map fst c) \<Longrightarrow> sum_counts (fold count_risk raws c) = sum_counts c + int (length raws)"
proof (induction raws arbitrary: c)
  case (Cons raw raws)
  have "distinct (map fst (count_risk raw c))" using Cons.prems by (simp add: count_risk_def Let_def distinct_update)
  moreover have "sum_counts (count_risk raw c) = sum_counts c + 1"
    using Cons.prems by (simp add: count_risk_def Let_def sum_update risk_count_def)
  ultimately show ?case by (simp add: Cons.IH)
qed simp

section \<open>Rings\<close>

lemma circ_float: "fl UTIL_DONUT_CIRC = UTIL_DONUT_CIRC" "0 \<le> UTIL_DONUT_CIRC"
  by (simp_all add: UTIL_DONUT_CIRC_def fmul_def MATH_PI_def fl_nonneg)

lemma donut_dash_bounds:
  assumes "n \<le> total_n"
  shows "0 \<le> donut_dash n total_n" "donut_dash n total_n \<le> UTIL_DONUT_CIRC"
proof -
  have "0 \<le> donut_dash n total_n \<and> donut_dash n total_n \<le> UTIL_DONUT_CIRC"
  proof (cases "total_n > 0 \<and> n > 0")
    case True
    have q: "0 \<le> idiv n total_n" "idiv n total_n \<le> 1"
      using True assms fl_mono [of "of_int n / of_int total_n" 1] by (simp_all add: idiv_def fl_nonneg)
    have "idiv n total_n * UTIL_DONUT_CIRC \<le> UTIL_DONUT_CIRC"
      using q circ_float(2) by (simp add: mult_left_le_one_le)
    then have "fl (idiv n total_n * UTIL_DONUT_CIRC) \<le> UTIL_DONUT_CIRC"
      using fl_mono [of "idiv n total_n * UTIL_DONUT_CIRC" UTIL_DONUT_CIRC] by (simp add: circ_float)
    then show ?thesis using True q circ_float(2) by (simp add: donut_dash_def fmul_def fl_nonneg)
  qed (auto simp: donut_dash_def circ_float)
  then show "0 \<le> donut_dash n total_n" "donut_dash n total_n \<le> UTIL_DONUT_CIRC" by simp_all
qed

definition sound_ring :: "SaturationDonut \<Rightarrow> bool" where
  "sound_ring d = (0 \<le> dn_count d \<and> dn_count d \<le> dn_total d \<and> 0 \<le> dn_dash_length d \<and> dn_dash_length d \<le> UTIL_DONUT_CIRC)"

lemma dn_count_build: "dn_count (build_saturation_donut l n t) = n"
  by (simp add: build_saturation_donut_def)

lemma sound_ringI: "0 \<le> n \<Longrightarrow> n \<le> t \<Longrightarrow> sound_ring (build_saturation_donut l n t)"
  using donut_dash_bounds [of n t] by (simp add: sound_ring_def build_saturation_donut_def)

lemma lay_counts: "map rs_count (lay_segments cum t look kns) = map snd kns"
  by (induction kns arbitrary: cum) (auto simp: Let_def case_prod_beta)

lemma eol_counts_total:
  "\<exists>r. os_eol_counts c ds today = Some r \<and>
     n_passed r + n_security_only r + n_unknown r + n_supported r =
     n_passed c + n_security_only c + n_unknown c + n_supported c + int (length (filter (\<lambda>d. nonblank (sd_os_id d) \<noteq> None) ds))"
proof (induction ds arbitrary: c)
  case (Cons d ds)
  have "lookup_os_eol (sd_os_id d) (sd_os_version d) (sd_kernel_version d) today \<noteq> None"
    by (cases rule: lookup_cases [of "sd_os_id d" "sd_os_version d" "sd_kernel_version d"]) simp_all
  then obtain info where i: "lookup_os_eol (sd_os_id d) (sd_os_version d) (sd_kernel_version d) today = Some info" by blast
  have "n_passed (count_eol info c) + n_security_only (count_eol info c) + n_unknown (count_eol info c) + n_supported (count_eol info c)
      = n_passed c + n_security_only c + n_unknown c + n_supported c + 1"
    by (simp add: count_eol_def split: option.split)
  then show ?case using Cons.IH [of c] Cons.IH [of "count_eol info c"] by (auto simp: i)
qed simp

section \<open>The overview adds up\<close>

text \<open>The fields of an assembled overview that carry counts; the summary of support phases cannot fail.\<close>

lemma overview_fields:
  "\<exists>ov eol. assemble_overview details util raws online_by_id full err today = Some ov \<and>
     os_eol_summary details today = Some eol \<and> eo_os_eol ov = eol \<and>
     eo_total ov = int (length details) \<and>
     eo_online ov = int (length (filter (\<lambda>d. truthy (online_by_id (sd_id d))) details)) \<and>
     eo_offline ov = eo_total ov - eo_online ov \<and>
     sum_counts (eo_os_distribution ov) = sum_counts (os_counter details) \<and>
     (eo_risk_donut ov, eo_risk_donut_total ov, eo_risk_high_count ov) = build_risk_donut_segments (fold count_risk raws []) \<and>
     eo_under_hosts_count ov = length (filter (\<lambda>raw. classify_host (overview_stats raw) = Rec_under_provisioned) raws) \<and>
     eo_saturation_donuts ov = overview_saturation (Some (saturation_counts_of util raws)) \<and>
     eo_role_distribution ov = role_sorted (role_counter details) \<and>
     (eo_workload_donut ov, eo_workload_total ov) = workload_donut_segments (role_sorted (role_counter details)) \<and>
     length (eo_under_hosts ov) = eo_under_hosts_shown ov \<and>
     eo_under_hosts_shown ov = (if full then eo_under_hosts_count ov else min 3 (eo_under_hosts_count ov))"
proof -
  obtain eol where "os_eol_summary details today = Some eol"
    using eol_counts_total [of "\<lparr>n_passed = 0, n_security_only = 0, n_unknown = 0, n_supported = 0\<rparr>" details today]
    by (auto simp: os_eol_summary_def)
  then show ?thesis
    by (cases full) (simp_all add: assemble_overview_def build_environment_overview_def Let_def under_order_def
        sum_sort_key case_prod_beta UNDER_PROVISIONED_DISPLAY_MAX_def min.commute)
qed

lemma risk_donut_counts:
  "(segs, t, u) = build_risk_donut_segments (fold count_risk raws []) \<Longrightarrow>
     sum_list (map rs_count segs) = int (length raws) \<and> t = int (length raws) \<and>
     u = int (length (filter (\<lambda>raw. classify_host (overview_stats raw) = Rec_under_provisioned) raws))"
proof -
  assume seg: "(segs, t, u) = build_risk_donut_segments (fold count_risk raws [])"
  let ?n = "\<lambda>k. int (length (filter (\<lambda>raw. classify_host (overview_stats raw) = k) raws))"
  have n: "risk_count (fold count_risk raws []) k = ?n k" for k by (simp add: fold_risk) (simp add: risk_count_def)
  have parts: "?n Rec_under_provisioned + ?n Rec_over_provisioned + ?n Rec_idle + ?n Rec_optimal + ?n Rec_insufficient_data
      = int (length raws)"
  proof (induction raws)
    case (Cons raw raws)
    then show ?case by (cases "classify_host (overview_stats raw)") simp_all
  qed simp
  have "t = sum_counts (fold count_risk raws [])" "u = ?n Rec_under_provisioned"
    "map rs_count segs = map (\<lambda>(k, _). ?n k) DONUT_SEGMENT_DEFS"
    using seg by (simp_all add: build_risk_donut_segments_def Let_def sum_counts_def n lay_counts case_prod_beta comp_def)
  then show ?thesis using parts fold_risk_sum [of "[]" raws] by (simp add: DONUT_SEGMENT_DEFS_def sum_counts_def)
qed

lemma saturation_rings: "0 \<le> eu_sample_size util \<Longrightarrow> list_all sound_ring (overview_saturation (Some (saturation_counts_of util raws)))"
  by (simp add: overview_saturation_def saturation_counts_of_def Let_def counter_get_def count_rows_def sound_ringI)

text \<open>How often a category occurs in the workloads of a server.\<close>

definition category_count :: "string \<Rightarrow> ServerDetail \<Rightarrow> int" where
  "category_count k d = sum_list (map snd (filter (\<lambda>p. fst p = k) (workload_of d)))"

lemma counter_get_add: "counter_get (counter_add k n c) k' = counter_get c k' + (if k = k' then n else 0)"
  by (simp add: counter_add_def counter_get_def update_conv')

lemma counter_get_adds:
  "counter_get (fold (\<lambda>(k, n). counter_add k n) kns c) k = counter_get c k + sum_list (map snd (filter (\<lambda>p. fst p = k) kns))"
  by (induction kns arbitrary: c) (auto simp: counter_get_add)

lemma role_counter_get: "counter_get (role_counter details) k = sum_list (map (category_count k) details)"
proof -
  have "counter_get (fold (\<lambda>d. fold (\<lambda>(k, n). counter_add k n) (workload_of d)) details c) k =
      counter_get c k + sum_list (map (category_count k) details)" for c
    by (induction details arbitrary: c) (simp_all add: counter_get_adds category_count_def)
  then show ?thesis by (simp add: role_counter_def counter_get_def)
qed

lemma role_sorted_counts:
  "p \<in> set (role_sorted (role_counter details)) \<Longrightarrow> snd p = sum_list (map (category_count (fst p)) details)"
  by (auto simp: role_sorted_def role_counter_get)

text \<open>
  Claim C22: whatever the rows, the overview exists and its counts add up.  The classes of the
  donut sum to the number of assessed servers; the number of short servers is that of the list behind it, of
  which all or the first three are shown; the system families and the online and offline counts sum to the
  number of servers; the four support phases sum to the servers with a known system; every workload category
  has the sum of its counts over the servers, and the workload donut repeats these counts and their total.
  No \<^emph>\<open>saturation\<close> ring counts more servers than its total or is filled beyond its circumference, although its
  numerator and its denominator come from different tables.  (The segments of the class and workload donuts
  are laid end to end in floating point, and their sum may pass the circumference in the last places.)
\<close>

theorem overview_adds_up:
  assumes "0 \<le> eu_sample_size util"
  shows "\<exists>ov. assemble_overview details util raws online_by_id full err today = Some ov \<and>
     sum_list (map rs_count (eo_risk_donut ov)) = int (length raws) \<and> eo_risk_donut_total ov = int (length raws) \<and>
     eo_risk_high_count ov = int (eo_under_hosts_count ov) \<and>
     length (eo_under_hosts ov) = eo_under_hosts_shown ov \<and>
     eo_under_hosts_shown ov = (if full then eo_under_hosts_count ov else min 3 (eo_under_hosts_count ov)) \<and>
     sum_counts (eo_os_distribution ov) = eo_total ov \<and>
     0 \<le> eo_online ov \<and> 0 \<le> eo_offline ov \<and> eo_online ov + eo_offline ov = eo_total ov \<and>
     n_passed (eo_os_eol ov) + n_security_only (eo_os_eol ov) + n_unknown (eo_os_eol ov) + n_supported (eo_os_eol ov)
       = int (length (filter (\<lambda>d. nonblank (sd_os_id d) \<noteq> None) details)) \<and>
     (\<forall>p \<in> set (eo_role_distribution ov). snd p = sum_list (map (category_count (fst p)) details)) \<and>
     map rs_count (eo_workload_donut ov) = map snd (eo_role_distribution ov) \<and>
     eo_workload_total ov = sum_list (map snd (eo_role_distribution ov)) \<and>
     list_all sound_ring (eo_saturation_donuts ov)"
proof -
  obtain ov eol where ov: "assemble_overview details util raws online_by_id full err today = Some ov"
      and eol: "os_eol_summary details today = Some eol" "eo_os_eol ov = eol"
      and total: "eo_total ov = int (length details)"
      and online: "eo_online ov = int (length (filter (\<lambda>d. truthy (online_by_id (sd_id d))) details))"
        "eo_offline ov = eo_total ov - eo_online ov"
      and os: "sum_counts (eo_os_distribution ov) = sum_counts (os_counter details)"
      and risk: "(eo_risk_donut ov, eo_risk_donut_total ov, eo_risk_high_count ov) = build_risk_donut_segments (fold count_risk raws [])"
      and under: "eo_under_hosts_count ov = length (filter (\<lambda>raw. classify_host (overview_stats raw) = Rec_under_provisioned) raws)"
      and rings: "eo_saturation_donuts ov = overview_saturation (Some (saturation_counts_of util raws))"
      and roles: "eo_role_distribution ov = role_sorted (role_counter details)"
        "(eo_workload_donut ov, eo_workload_total ov) = workload_donut_segments (role_sorted (role_counter details))"
      and shown: "length (eo_under_hosts ov) = eo_under_hosts_shown ov"
        "eo_under_hosts_shown ov = (if full then eo_under_hosts_count ov else min 3 (eo_under_hosts_count ov))"
    using overview_fields [of details util raws online_by_id full err today] by (elim exE conjE)
  have eols: "n_passed eol + n_security_only eol + n_unknown eol + n_supported eol = int (length (filter (\<lambda>d. nonblank (sd_os_id d) \<noteq> None) details))"
    using eol_counts_total [of "\<lparr>n_passed = 0, n_security_only = 0, n_unknown = 0, n_supported = 0\<rparr>" details today] eol(1)
    by (auto simp: os_eol_summary_def)
  have ring: "list_all sound_ring (eo_saturation_donuts ov)" unfolding rings by (rule saturation_rings [OF assms])
  have wl: "map rs_count (eo_workload_donut ov) = map snd (eo_role_distribution ov)"
    "eo_workload_total ov = sum_list (map snd (eo_role_distribution ov))"
    using roles by (simp_all add: workload_donut_segments_def Let_def lay_counts)
  have cats: "\<forall>p \<in> set (eo_role_distribution ov). snd p = sum_list (map (category_count (fst p)) details)"
    unfolding roles(1) using role_sorted_counts by blast
  have counts: "sum_list (map rs_count (eo_risk_donut ov)) = int (length raws)" "eo_risk_donut_total ov = int (length raws)"
    "eo_risk_high_count ov = int (eo_under_hosts_count ov)" "sum_counts (eo_os_distribution ov) = eo_total ov"
    "0 \<le> eo_online ov" "0 \<le> eo_offline ov" "eo_online ov + eo_offline ov = eo_total ov"
    using total online os_counter_sum [of details] os risk_donut_counts [OF risk] under
      length_filter_le [of "\<lambda>d. truthy (online_by_id (sd_id d))" details] by simp_all
  show ?thesis
    by (intro exI [of _ ov] conjI ov counts shown wl cats ring) (simp add: eol(2) eols)
qed

theorem overview_adds_up_witness:
  "\<exists>ov. assemble_overview [] \<lparr>eu_cpu_avg_pct = None, eu_mem_avg_pct = None, eu_disk_avg_pct = None, eu_sample_size = 1,
      eu_cpu_p95_pct = None, eu_mem_p95_pct = None\<rparr> [row0\<lparr>rr_cpu_cores := Some 4, rr_cpu_p95_pct := Some 95\<rparr>] Map.empty
      False None 740000 = Some ov \<and> eo_risk_donut_total ov = 1"
  using overview_adds_up [of "\<lparr>eu_cpu_avg_pct = None, eu_mem_avg_pct = None, eu_disk_avg_pct = None, eu_sample_size = 1,
      eu_cpu_p95_pct = None, eu_mem_p95_pct = None\<rparr>" "[]" "[row0\<lparr>rr_cpu_cores := Some 4, rr_cpu_p95_pct := Some 95\<rparr>]"
      Map.empty False None 740000] by auto

section \<open>The live view\<close>

definition red :: "RealtimeLoadCell \<Rightarrow> bool" where
  "red c = (lc_color c = NET_CONGESTED_COLOR)"

lemma red_load_cell: "red (load_cell v fmt e) \<longleftrightarrow> e \<and> v \<noteq> None"
  by (simp add: red_def load_cell_def NET_CONGESTED_COLOR_def split: option.split)

lemma red_net_cell: "red (net_status_cell c) \<longleftrightarrow> c"
  by (simp add: red_def net_status_cell_def NET_CONGESTED_COLOR_def)

lemma exceeded_known: "index_exceeded i \<Longrightarrow> i \<noteq> None"
  by (cases i) (simp_all add: index_exceeded_def or_zero_def)

lemma fresh_origin:
  assumes "fresh_snapshot details sat_map latest c i = Some p"
  shows "\<exists>d sat m. fst p = snapshot_of d sat m"
proof -
  obtain d where d: "map_of (rev (map (\<lambda>d. (sd_id d, d)) details)) i = Some d"
    using assms by (auto simp: fresh_snapshot_def split: option.splits)
  define sat where "sat = (case sat_map i of None \<Rightarrow> no_saturation | Some s \<Rightarrow> s)"
  obtain m where m: "latest i sat = Some m"
    using assms by (simp add: fresh_snapshot_def d Let_def flip: sat_def split: option.splits)
  obtain t where "da_collected_at m = Some t"
    using assms by (simp add: fresh_snapshot_def d m Let_def flip: sat_def split: option.splits)
  then have "p = (snapshot_of d sat m, t)"
    using assms by (simp add: fresh_snapshot_def d m Let_def flip: sat_def split: if_splits)
  then show ?thesis by (simp only: fst_conv) blast
qed

lemma snapshot_pressure: "rs_mem_pressure (snapshot_of d sat m) \<Longrightarrow> rs_paging_rate (snapshot_of d sat m) \<noteq> None"
  by (cases "sr_paging_major_rate sat") (simp_all add: snapshot_of_def Let_def mem_pressure_active_def)

lemma count_red:
  "count_snapshots f snaps = int (length (filter (\<lambda>r. red (col r)) (sort_key lr_hostname (map load_row snaps))))"
  if "\<And>s. s \<in> set snaps \<Longrightarrow> red (col (load_row s)) = f s"
proof -
  have "length (filter (\<lambda>r. red (col r)) (sort_key lr_hostname (map load_row snaps))) =
      length (filter (\<lambda>r. red (col r)) (map load_row snaps))"
    by (metis mset_filter mset_sort size_mset)
  also have "\<dots> = length (filter f snaps)" using that by (simp add: filter_map comp_def cong: filter_cong)
  finally show ?thesis by (simp add: count_snapshots_def)
qed

text \<open>
  Claim C23: in the live view every fresh server is one row, and the four signal
  donuts count exactly the red cells of their columns out of all fresh servers; a dash is never red.
\<close>

theorem live_donuts_count_red_cells:
  "let r = assemble_realtime ids details now ttl sat_map latest;
       reds = (\<lambda>col. int (length (filter (\<lambda>row. red (col row)) (er_load_rows r))))
   in er_online r = int (length (er_load_rows r)) \<and> er_sample_size r = er_online r \<and>
      er_online r + er_offline r = int (length ids) \<and> 0 \<le> er_offline r \<and>
      map dn_count (er_saturation_donuts r) = [reds lr_run_queue, reds lr_paging, reds lr_disk_io, reds lr_network] \<and>
      list_all sound_ring (er_saturation_donuts r)"
proof -
  define fresh where "fresh = List.map_filter (fresh_snapshot details sat_map latest (now - ttl * 1000000)) ids"
  define snaps where "snaps = map fst fresh"
  have origin: "\<exists>d sat m. s = snapshot_of d sat m" if "s \<in> set snaps" for s
    using that fresh_origin [of details sat_map latest] by (fastforce simp: in_map_filter snaps_def fresh_def)
  have "length (List.map_filter g ids) \<le> length ids" for g :: "int \<Rightarrow> (RealtimeSnapshot \<times> datetime) option"
    by (induction ids) (auto split: option.split)
  then have len: "length snaps \<le> length ids" by (simp add: snaps_def fresh_def)
  have c1: "count_snapshots (\<lambda>s. index_exceeded (rs_cpu_sat_index s)) snaps =
      int (length (filter (\<lambda>r. red (lr_run_queue r)) (sort_key lr_hostname (map load_row snaps))))"
    by (rule count_red) (auto simp: load_row_def red_load_cell dest: exceeded_known)
  have c2: "count_snapshots rs_mem_pressure snaps =
      int (length (filter (\<lambda>r. red (lr_paging r)) (sort_key lr_hostname (map load_row snaps))))"
    by (rule count_red) (use origin snapshot_pressure in \<open>fastforce simp: load_row_def red_load_cell\<close>)
  have c3: "count_snapshots (\<lambda>s. index_exceeded (rs_disk_sat_index s)) snaps =
      int (length (filter (\<lambda>r. red (lr_disk_io r)) (sort_key lr_hostname (map load_row snaps))))"
    by (rule count_red) (auto simp: load_row_def red_load_cell dest: exceeded_known)
  have c4: "count_snapshots rs_net_congested snaps =
      int (length (filter (\<lambda>r. red (lr_network r)) (sort_key lr_hostname (map load_row snaps))))"
    by (rule count_red) (simp add: load_row_def red_net_cell)
  have ring: "sound_ring (build_saturation_donut l (count_snapshots f snaps) (int (length snaps)))" for l f
    by (rule sound_ringI) (simp_all add: count_snapshots_def length_filter_le)
  have r: "assemble_realtime ids details now ttl sat_map latest =
      build_environment_realtime (int (length ids)) (int (length snaps)) snaps (fold later (map snd fresh) None)"
    by (simp add: assemble_realtime_def fresh_def snaps_def Let_def)
  then have "list_all sound_ring (er_saturation_donuts (assemble_realtime ids details now ttl sat_map latest))"
    by (simp add: build_environment_realtime_def Let_def ring)
  moreover have "map dn_count (er_saturation_donuts (assemble_realtime ids details now ttl sat_map latest)) =
      map (\<lambda>col. int (length (filter (\<lambda>row. red (col row)) (er_load_rows (assemble_realtime ids details now ttl sat_map latest)))))
        [lr_run_queue, lr_paging, lr_disk_io, lr_network]"
    unfolding r build_environment_realtime_def Let_def using c1 c2 c3 c4 by (simp add: dn_count_build)
  ultimately show ?thesis
    unfolding Let_def using len by (simp add: r build_environment_realtime_def Let_def)
qed

end
