(* ===== verification/TaskReaper.thy ===== *)
theory TaskReaper
  imports TaskLifecycle ReportWorker
begin

text \<open>
  The other half of the worker process: the loop that fails overdue install tasks
  (\<open>worker/task_reaper.py\<close>), the waiting and draining helpers (\<open>worker/worker_lifecycle.py\<close>) and the
  shutdown of the process (\<open>worker/main.py\<close>).  Time is explicit.  The loop has no bound of its own, so it
  is a partial function whose value \<open>None\<close> means that it does not return.
\<close>

section \<open>The loop\<close>

text \<open>
  \<open>asyncio.Event\<close>: the time at which it is set, if ever; it is never cleared.  \<open>sleep_or_stop\<close> returns
  when the event is set or after the given time, whichever is first.
\<close>

type_synonym stop_event = "datetime option"

definition is_set :: "stop_event \<Rightarrow> datetime \<Rightarrow> bool" where
  "is_set stop now = is_some_and stop (\<lambda>s. s \<le> now)"

definition sleep_or_stop :: "stop_event \<Rightarrow> int \<Rightarrow> datetime \<Rightarrow> datetime" where
  "sleep_or_stop stop interval now =
     (case stop of None \<Rightarrow> now + interval | Some s \<Rightarrow> if s \<le> now then now else min s (now + interval))"

text \<open>
  What surrounds one tick: the fate of its transaction, how long it takes, and what the other processes do
  to the database before the next check.
\<close>

record tick =
  tk_fault :: call_fault
  tk_duration :: int
  tk_others :: "db \<Rightarrow> db"

datatype reaper_log = Reaper_expired nat | Reaper_tick_failed

definition reaper_tick :: "call_fault \<Rightarrow> datetime \<Rightarrow> db \<Rightarrow> reaper_log list \<times> db" where
  "reaper_tick f now d =
     (let (expired, d1) = expire_all_overdue_tasks now d in
      case f of
        Call_failed \<Rightarrow> ([Reaper_tick_failed], d)
      | Call_unacknowledged \<Rightarrow> ([Reaper_tick_failed], d1)
      | Call_ok \<Rightarrow> (if expired > 0 then [Reaper_expired expired] else [], d1))"

record reaper_state =
  rp_ticks :: nat
  rp_now :: datetime
  rp_db :: db
  rp_log :: "reaper_log list"

definition reaper_step :: "(nat \<Rightarrow> tick) \<Rightarrow> stop_event \<Rightarrow> int \<Rightarrow> reaper_state \<Rightarrow> reaper_state" where
  "reaper_step env stop interval s =
     (let tk = env (rp_ticks s);
          (log, d) = reaper_tick (tk_fault tk) (rp_now s) (rp_db s)
      in \<lparr>rp_ticks = Suc (rp_ticks s),
          rp_now = sleep_or_stop stop interval (rp_now s + tk_duration tk),
          rp_db = tk_others tk d,
          rp_log = rp_log s @ log\<rparr>)"

partial_function (option) run_task_reaper ::
  "(nat \<Rightarrow> tick) \<Rightarrow> stop_event \<Rightarrow> int \<Rightarrow> reaper_state \<Rightarrow> reaper_state option" where
  "run_task_reaper env stop interval s =
     (if is_set stop (rp_now s) then Some s
      else run_task_reaper env stop interval (reaper_step env stop interval s))"

declare run_task_reaper.simps [code]

section \<open>Draining and shutdown\<close>

text \<open>
  A loop seen from \<open>main\<close>: when it ends by itself once the event is set and with which exception, and how
  long it takes to unwind after a cancellation and with which outcome.
\<close>

datatype task_exn = Exn_timeout | Exn_cancelled | Exn_other string

record loop_task =
  lt_ends :: "datetime option"
  lt_error :: "task_exn option"
  lt_unwind :: int
  lt_unwind_error :: "task_exn option"

text \<open>
  \<open>graceful_drain\<close>: whether the warning is logged, the exception that leaves it, and the time.
  \<open>wait_for\<close> turns the cancellation it caused into \<open>TimeoutError\<close>.
\<close>

record drain =
  dr_warned :: bool
  dr_raised :: "string option"
  dr_at :: datetime

definition drain_end :: "task_exn option \<Rightarrow> datetime \<Rightarrow> drain" where
  "drain_end e now =
     (case e of
        None \<Rightarrow> \<lparr>dr_warned = False, dr_raised = None, dr_at = now\<rparr>
      | Some Exn_timeout \<Rightarrow> \<lparr>dr_warned = True, dr_raised = None, dr_at = now\<rparr>
      | Some Exn_cancelled \<Rightarrow> \<lparr>dr_warned = False, dr_raised = None, dr_at = now\<rparr>
      | Some (Exn_other m) \<Rightarrow> \<lparr>dr_warned = False, dr_raised = Some m, dr_at = now\<rparr>)"

definition graceful_drain :: "loop_task \<Rightarrow> int \<Rightarrow> datetime \<Rightarrow> drain" where
  "graceful_drain task shutdown_timeout now =
     (if is_some_and (lt_ends task) (\<lambda>t. t \<le> now + shutdown_timeout)
      then drain_end (lt_error task) (max now (the (lt_ends task)))
      else drain_end (if lt_unwind_error task = Some Exn_cancelled then Some Exn_timeout else lt_unwind_error task)
             (now + shutdown_timeout + lt_unwind task))"

record shutdown =
  sh_warnings :: "bool list"
  sh_engine_disposed :: bool
  sh_pool_closed :: bool
  sh_raised :: "string option"
  sh_at :: datetime

definition first_failure :: "string option list \<Rightarrow> string option" where
  "first_failure fs = (case List.map_filter id fs of [] \<Rightarrow> None | m # _ \<Rightarrow> Some m)"

definition worker_shutdown :: "loop_task \<Rightarrow> loop_task \<Rightarrow> int \<Rightarrow> int \<Rightarrow> datetime \<Rightarrow> shutdown" where
  "worker_shutdown report reaper report_timeout reaper_timeout now =
     (let d1 = graceful_drain report report_timeout now;
          d2 = graceful_drain reaper reaper_timeout (dr_at d1)
      in \<lparr>sh_warnings = [dr_warned d1, dr_warned d2], sh_engine_disposed = True, sh_pool_closed = True,
          sh_raised = first_failure [dr_raised d1, dr_raised d2], sh_at = dr_at d2\<rparr>)"

section \<open>Iterating the loop body\<close>

definition reaper_at :: "(nat \<Rightarrow> tick) \<Rightarrow> stop_event \<Rightarrow> int \<Rightarrow> nat \<Rightarrow> reaper_state \<Rightarrow> reaper_state" where
  "reaper_at env stop interval k = reaper_step env stop interval ^^ k"

lemma reaper_at_0 [simp]: "reaper_at env stop interval 0 s = s"
  by (simp add: reaper_at_def)

lemma reaper_at_Suc: "reaper_at env stop interval (Suc k) s = reaper_step env stop interval (reaper_at env stop interval k s)"
  by (simp add: reaper_at_def)

lemma reaper_at_Suc2: "reaper_at env stop interval (Suc k) s = reaper_at env stop interval k (reaper_step env stop interval s)"
  by (simp add: reaper_at_def funpow_swap1)

lemma run_at:
  "is_set stop (rp_now (reaper_at env stop interval k s)) \<Longrightarrow>
   (\<And>j. j < k \<Longrightarrow> \<not> is_set stop (rp_now (reaper_at env stop interval j s))) \<Longrightarrow>
     run_task_reaper env stop interval s = Some (reaper_at env stop interval k s)"
proof (induction k arbitrary: s)
  case 0
  then show ?case by (subst run_task_reaper.simps) simp
next
  case (Suc k)
  have "run_task_reaper env stop interval (reaper_step env stop interval s) =
      Some (reaper_at env stop interval k (reaper_step env stop interval s))"
    using Suc.prems by (intro Suc.IH) (simp_all flip: reaper_at_Suc2)
  then show ?case using Suc.prems(2) [of 0] by (subst run_task_reaper.simps) (simp add: reaper_at_Suc2)
qed

lemma ticks_at: "rp_ticks (reaper_at env stop interval k s) = rp_ticks s + k"
  by (induction k) (simp_all add: reaper_at_Suc reaper_step_def Let_def case_prod_beta)

lemma now_step: "rp_now (reaper_step env stop interval s) = sleep_or_stop stop interval (rp_now s + tk_duration (env (rp_ticks s)))"
  by (simp add: reaper_step_def Let_def case_prod_beta)

section \<open>Time\<close>

definition paced :: "(nat \<Rightarrow> tick) \<Rightarrow> int \<Rightarrow> bool" where
  "paced env longest = (\<forall>n. 0 \<le> tk_duration (env n) \<and> tk_duration (env n) \<le> longest)"

text \<open>One step: time moves on, towards the stop and not far beyond it.\<close>

lemma step_time:
  assumes "0 < interval" "paced env longest"
  shows "rp_now s \<le> rp_now (reaper_step env (Some e) interval s)"
    and "rp_now (reaper_step env (Some e) interval s) \<le> rp_now s + (interval + longest)"
    and "min e (rp_now s + interval) \<le> rp_now (reaper_step env (Some e) interval s)"
    and "rp_now s < e \<Longrightarrow> rp_now (reaper_step env (Some e) interval s) \<le> e + longest"
proof -
  have "0 \<le> tk_duration (env (rp_ticks s))" "tk_duration (env (rp_ticks s)) \<le> longest"
    using assms(2) by (simp_all add: paced_def)
  then show "rp_now s \<le> rp_now (reaper_step env (Some e) interval s)"
    "rp_now (reaper_step env (Some e) interval s) \<le> rp_now s + (interval + longest)"
    "min e (rp_now s + interval) \<le> rp_now (reaper_step env (Some e) interval s)"
    "rp_now s < e \<Longrightarrow> rp_now (reaper_step env (Some e) interval s) \<le> e + longest"
    using assms(1) by (auto simp: now_step sleep_or_stop_def)
qed

lemma at_mono:
  assumes "0 < interval" "paced env longest" "i \<le> j"
  shows "rp_now (reaper_at env (Some e) interval i s) \<le> rp_now (reaper_at env (Some e) interval j s)"
  using assms(3)
proof (induction rule: dec_induct)
  case (step n)
  then show ?case using step_time(1) [OF assms(1,2)] by (fastforce simp: reaper_at_Suc intro: order_trans)
qed simp

lemma at_upper:
  assumes "0 < interval" "paced env longest"
  shows "rp_now (reaper_at env (Some e) interval (i + j) s) \<le> rp_now (reaper_at env (Some e) interval i s) + int j * (interval + longest)"
proof (induction j)
  case (Suc j)
  have "rp_now (reaper_at env (Some e) interval (i + Suc j) s) \<le> rp_now (reaper_at env (Some e) interval (i + j) s) + (interval + longest)"
    using step_time(2) [OF assms] by (simp add: reaper_at_Suc)
  also have "\<dots> \<le> rp_now (reaper_at env (Some e) interval i s) + int j * (interval + longest) + (interval + longest)"
    using Suc by simp
  finally show ?case by (simp add: algebra_simps)
qed simp

lemma at_lower:
  assumes "0 < interval" "paced env longest"
  shows "min e (rp_now s + int k * interval) \<le> rp_now (reaper_at env (Some e) interval k s)"
proof (induction k)
  case (Suc k)
  have "min e (rp_now (reaper_at env (Some e) interval k s) + interval) \<le> rp_now (reaper_at env (Some e) interval (Suc k) s)"
    using step_time(3) [OF assms] by (simp add: reaper_at_Suc)
  moreover have "int (Suc k) * interval = int k * interval + interval" by (simp add: algebra_simps)
  ultimately show ?case using Suc assms(1) by linarith
qed simp

lemma is_set_Some [simp]: "is_set (Some e) t \<longleftrightarrow> e \<le> t"
  by (simp add: is_set_def)

text \<open>The turn at which the loop ends.\<close>

lemma reaper_turns:
  assumes "0 < interval" "paced env longest"
  obtains k where "run_task_reaper env (Some e) interval s = Some (reaper_at env (Some e) interval k s)"
    and "e \<le> rp_now (reaper_at env (Some e) interval k s)"
    and "\<And>j. j < k \<Longrightarrow> rp_now (reaper_at env (Some e) interval j s) < e"
proof -
  let ?p = "\<lambda>k. e \<le> rp_now (reaper_at env (Some e) interval k s)"
  have "int (nat (e - rp_now s)) * 1 \<le> int (nat (e - rp_now s)) * interval"
    using assms(1) by (intro mult_left_mono) simp_all
  then have "e \<le> rp_now s + int (nat (e - rp_now s)) * interval" by linarith
  then have "?p (nat (e - rp_now s))" using at_lower [OF assms, of e s "nat (e - rp_now s)"] by linarith
  then have p: "?p (LEAST k. ?p k)" by (rule LeastI)
  have before: "rp_now (reaper_at env (Some e) interval j s) < e" if "j < (LEAST k. ?p k)" for j
    using not_less_Least [OF that] by simp
  show thesis
  proof (rule that [OF _ p before])
    show "run_task_reaper env (Some e) interval s = Some (reaper_at env (Some e) interval (LEAST k. ?p k) s)"
      by (rule run_at) (use p before in \<open>simp_all add: not_le\<close>)
  qed
qed

lemma unset_diverges: "run_task_reaper env None interval s = None"
proof -
  have "stop \<noteq> None" if "run_task_reaper env stop interval s = Some r" for stop r
    by (rule run_task_reaper.raw_induct [OF _ that]) (auto simp: is_set_def split: if_splits)
  then show ?thesis by (cases "run_task_reaper env None interval s") auto
qed

text \<open>
  Claim C16: the loop ends if and only if it is told to.  Whatever its transactions meet, once
  the event is set at \<open>e\<close> it returns, not before \<open>e\<close> and at most one tick after it, having done at most one
  tick for every started interval; while the event is never set no failure makes it return.
\<close>

theorem reaper_stops:
  assumes "0 < interval" "paced env longest"
  shows "(\<exists>r. run_task_reaper env (Some e) interval s = Some r \<and> e \<le> rp_now r \<and> rp_now r \<le> max (rp_now s) (e + longest) \<and>
             int (rp_ticks r) \<le> int (rp_ticks s) + max 0 ((e - rp_now s + interval - 1) div interval))
         \<and> run_task_reaper env None interval s = None"
proof -
  let ?at = "\<lambda>k. reaper_at env (Some e) interval k s"
  obtain k where run: "run_task_reaper env (Some e) interval s = Some (?at k)" and e: "e \<le> rp_now (?at k)"
    and before: "\<And>j. j < k \<Longrightarrow> rp_now (?at j) < e"
    using reaper_turns [OF assms, of e s] by blast
  have "rp_now (?at k) \<le> max (rp_now s) (e + longest) \<and> int k \<le> max 0 ((e - rp_now s + interval - 1) div interval)"
  proof (cases k)
    case (Suc j)
    have lt: "rp_now (?at j) < e" using before Suc by simp
    then have "int j * interval < e - rp_now s" using at_lower [OF assms, of e s j] by linarith
    then have "int k * interval \<le> e - rp_now s + interval - 1" by (simp add: Suc algebra_simps)
    then have "int k \<le> (e - rp_now s + interval - 1) div interval"
      using zdiv_mono1 [of "int k * interval" _ interval] assms(1) by simp
    moreover have "rp_now (?at k) \<le> e + longest"
      using step_time(4) [OF assms lt] by (simp add: Suc reaper_at_Suc)
    ultimately show ?thesis by simp
  qed simp
  then show ?thesis using run e unset_diverges [of env interval s] by (auto simp: ticks_at)
qed

theorem reaper_stops_witness:
  "\<exists>r. run_task_reaper (\<lambda>_. \<lparr>tk_fault = Call_failed, tk_duration = 2, tk_others = id\<rparr>) (Some 95) 30
         \<lparr>rp_ticks = 0, rp_now = 0, rp_db = empty_db, rp_log = []\<rparr> = Some r \<and> rp_now r \<le> 97 \<and> rp_ticks r \<le> 4"
  using reaper_stops [of 30 "\<lambda>_. \<lparr>tk_fault = Call_failed, tk_duration = 2, tk_others = id\<rparr>" 2 95
      "\<lparr>rp_ticks = 0, rp_now = 0, rp_db = empty_db, rp_log = []\<rparr>"]
  by (auto simp: paced_def)

section \<open>Every deadline is met\<close>

definition none_overdue :: "datetime \<Rightarrow> db \<Rightarrow> bool" where
  "none_overdue t d = list_all (\<lambda>x. \<not> overdue t x) (tasks d)"

text \<open>What the other processes may do: create and finish tasks, but not bring one back past its deadline.\<close>

definition no_revival :: "(nat \<Rightarrow> tick) \<Rightarrow> datetime \<Rightarrow> bool" where
  "no_revival env t = (\<forall>n d. none_overdue t d \<longrightarrow> none_overdue t (tk_others (env n) d))"

lemma overdue_mono: "overdue t x \<Longrightarrow> t \<le> u \<Longrightarrow> overdue u x"
  by (auto simp: overdue_def is_some_and_iff)

lemma expire_all_tasks:
  "tasks (snd (expire_all_overdue_tasks now d)) = map (\<lambda>t. if overdue now t then expire_task now t else t) (tasks d)"
  by (simp add: expire_all_overdue_tasks_def expire_where_def)

lemma tick_clears: "f \<noteq> Call_failed \<Longrightarrow> t \<le> now \<Longrightarrow> none_overdue t (snd (reaper_tick f now d))"
  by (cases f)
    (auto simp: reaper_tick_def none_overdue_def list_all_iff expire_all_tasks Let_def case_prod_beta dest: overdue_mono)

lemma tick_keeps: "none_overdue t d \<Longrightarrow> none_overdue t (snd (reaper_tick f now d))"
  by (cases f)
    (auto simp: reaper_tick_def none_overdue_def list_all_iff expire_all_tasks Let_def case_prod_beta)

lemma db_step: "rp_db (reaper_step env stop interval s) =
    tk_others (env (rp_ticks s)) (snd (reaper_tick (tk_fault (env (rp_ticks s))) (rp_now s) (rp_db s)))"
  by (simp add: reaper_step_def Let_def case_prod_beta)

lemma at_keeps:
  assumes "no_revival env t" "none_overdue t (rp_db (reaper_at env stop interval i s))" "i \<le> j"
  shows "none_overdue t (rp_db (reaper_at env stop interval j s))"
  using assms(3)
proof (induction rule: dec_induct)
  case (step n)
  then show ?case using assms(1) by (simp add: reaper_at_Suc db_step no_revival_def tick_keeps)
qed (rule assms(2))

text \<open>
  Claim C17: no task stays pending beyond its deadline.  If among any \<open>k + 1\<close> ticks in a row
  one reaches the database, then every task whose deadline passes before \<open>t\<close> has left the pending state
  within \<open>k + 1\<close> intervals (each with its tick) after \<open>t\<close>, and stays out of it until the loop returns.
\<close>

theorem overdue_tasks_fail:
  assumes "0 < interval" "paced env longest" "no_revival env t"
    and good: "\<And>n. \<exists>j \<le> k. tk_fault (env (n + j)) \<noteq> Call_failed"
    and room: "max (rp_now s) t + (int k + 1) * (interval + longest) \<le> e"
  shows "\<exists>r. run_task_reaper env (Some e) interval s = Some r \<and> none_overdue t (rp_db r)"
proof -
  let ?at = "\<lambda>k. reaper_at env (Some e) interval k s"
  have D: "0 \<le> longest" using assms(2) by (auto simp: paced_def intro: order_trans)
  obtain n where run: "run_task_reaper env (Some e) interval s = Some (?at n)" and e: "e \<le> rp_now (?at n)"
    and before: "\<And>j. j < n \<Longrightarrow> rp_now (?at j) < e"
    using reaper_turns [OF assms(1,2), of e s] by blast
  have "0 \<le> (int k + 1) * (interval + longest)" using assms(1) D by simp
  then have "t \<le> rp_now (?at n)" using e room by linarith
  then obtain i where i: "t \<le> rp_now (?at i)" and first: "\<And>j. j < i \<Longrightarrow> rp_now (?at j) < t"
    using exists_least_iff [of "\<lambda>i. t \<le> rp_now (?at i)"] by (auto simp: not_le)
  have start: "rp_now (?at i) < max (rp_now s) t + (interval + longest)"
  proof (cases i)
    case (Suc j)
    then show ?thesis using first [of j] step_time(2) [OF assms(1,2), of e "?at j"] by (simp add: reaper_at_Suc)
  qed (use assms(1) D in simp)
  obtain j where j: "j \<le> k" "tk_fault (env (rp_ticks s + i + j)) \<noteq> Call_failed" using good by blast
  have "int j * (interval + longest) \<le> int k * (interval + longest)"
    using j(1) assms(1) D by (intro mult_right_mono) simp_all
  then have "rp_now (?at (i + j)) < e"
    using start at_upper [OF assms(1,2), of e i j s] room by (simp add: algebra_simps)
  then have m: "Suc (i + j) \<le> n" using e at_mono [OF assms(1,2), of n "i + j" e s] by (meson not_le not_less_eq_eq order_trans)
  have "t \<le> rp_now (?at (i + j))" using i at_mono [OF assms(1,2), of i "i + j" e s] by simp
  then have "none_overdue t (rp_db (?at (Suc (i + j))))"
    using assms(3) j(2) tick_clears by (simp add: reaper_at_Suc db_step no_revival_def ticks_at add.assoc)
  then show ?thesis using run at_keeps [OF assms(3) _ m] by blast
qed

theorem overdue_tasks_fail_witness:
  "\<exists>r. run_task_reaper (\<lambda>n. \<lparr>tk_fault = if even n then Call_failed else Call_ok, tk_duration = 2, tk_others = id\<rparr>) (Some 500) 30
         \<lparr>rp_ticks = 0, rp_now = 0, rp_db = empty_db, rp_log = []\<rparr> = Some r \<and> none_overdue 400 (rp_db r)"
proof -
  let ?env = "\<lambda>n. \<lparr>tk_fault = if even n then Call_failed else Call_ok, tk_duration = 2, tk_others = id\<rparr>"
  have "\<exists>j \<le> (1::nat). tk_fault (?env (n + j)) \<noteq> Call_failed" for n :: nat
    by (cases "even n") (auto intro: exI [of _ 0] exI [of _ 1])
  then show ?thesis
    using overdue_tasks_fail [of 30 ?env 2 400 1 "\<lparr>rp_ticks = 0, rp_now = 0, rp_db = empty_db, rp_log = []\<rparr>" 500]
    by (simp add: paced_def no_revival_def)
qed

section \<open>Shutdown\<close>

lemma drain_end_at [simp]: "dr_at (drain_end e t) = t"
  by (simp add: drain_end_def split: option.split task_exn.split)

text \<open>
  The process shuts down within the sum of the two limits and of the unwinding of
  the loops it cancels, releases its resources whatever the loops do, and exits with an error exactly when
  a loop was lost to an exception other than a timeout or a cancellation.
\<close>

theorem shutdown_bounded:
  assumes "0 \<le> report_timeout" "0 \<le> reaper_timeout" "0 \<le> lt_unwind report" "0 \<le> lt_unwind reaper"
  shows "let r = worker_shutdown report reaper report_timeout reaper_timeout now in
    now \<le> sh_at r \<and> sh_at r \<le> now + report_timeout + reaper_timeout + lt_unwind report + lt_unwind reaper \<and>
    sh_engine_disposed r \<and> sh_pool_closed r \<and>
    (sh_raised r = None \<longleftrightarrow>
       dr_raised (graceful_drain report report_timeout now) = None \<and>
       dr_raised (graceful_drain reaper reaper_timeout (dr_at (graceful_drain report report_timeout now))) = None)"
proof -
  have drain: "u \<le> dr_at (graceful_drain l w u)" "dr_at (graceful_drain l w u) \<le> u + w + lt_unwind l"
    if "0 \<le> w" "0 \<le> lt_unwind l" for l w u
    using that by (auto simp: graceful_drain_def is_some_and_iff)
  let ?d = "graceful_drain report report_timeout now"
  show ?thesis
    using drain [OF assms(1,3), of now] drain [OF assms(2,4), of "dr_at ?d"]
    by (cases "dr_raised ?d"; cases "dr_raised (graceful_drain reaper reaper_timeout (dr_at ?d))")
      (simp_all add: worker_shutdown_def Let_def first_failure_def)
qed

end
