(* ===== verification/StorageTree.thy ===== *)
theory StorageTree
  imports InventoryViews LiveDashboard
begin

text \<open>
  The storage layout of a server (\<open>web/services/mappers/server.py\<close>, \<open>build_storage_tree\<close>): the flat list of
  block devices, whose rows name their parents, becomes a forest under the physical disks.  A device with
  several parents has one row for each.  The two mutable arguments of the recursion, the visited
  identifiers and the disk each array is shown under, are the state of the model.  Nothing bounds the
  recursion but the visited set, so it is a partial function.
\<close>

section \<open>Nodes\<close>

datatype node_kind = Device_kind string | Kind_raid_member | Kind_unallocated | Kind_vg_free

datatype kind_label =
  Label_disk | Label_partition | Label_lv | Label_raid | Label_crypt | Label_swap | Label_volume | Label_multipath
  | Label_dynamic | Label_unallocated | Label_vg_free | Label_text string | Label_member_of_raid string | Label_member_of_array

datatype node_meta = Meta_parts "string list" | Meta_detail_under string | Meta_detail_elsewhere | Meta_room

datatype node_badge = Badge_raid string | Badge_text string | Badge_encrypted

datatype size_text = Size_unknown | Size_tb int | Size_gb int | Size_mb int

text \<open>\<open>storagesize\<close>: two decimals, in the unit chosen by the value.\<close>

definition storagesize :: "pyfloat option \<Rightarrow> size_text" where
  "storagesize gb =
     (case gb of
        None \<Rightarrow> Size_unknown
      | Some g \<Rightarrow>
          if g \<ge> 1024 then Size_tb (rhe (fdiv g 1024 * 100))
          else if g \<ge> 1 then Size_gb (rhe (g * 100))
          else Size_mb (rhe (fmul g 1024 * 100)))"

record NodeInfo =
  sn_name :: string
  sn_kind :: node_kind
  sn_kind_label :: kind_label
  sn_size_gb :: "pyfloat option"
  sn_meta :: node_meta
  sn_badges :: "node_badge list"
  sn_mount :: string
  sn_usage_pct :: "pyfloat option"
  sn_usage_label :: "(size_text \<times> size_text) option"
  sn_usage_class :: string
  sn_inode_pct :: "pyfloat option"
  sn_inode_label :: "pyfloat option"
  sn_inode_class :: string
  sn_gauge_info_width_px :: "int option"

datatype StorageNode = StorageNode (sn_info: NodeInfo) (sn_children: "StorageNode list")

definition node_info :: "string \<Rightarrow> node_kind \<Rightarrow> kind_label \<Rightarrow> pyfloat option \<Rightarrow> node_meta \<Rightarrow> NodeInfo" where
  "node_info name k label size_gb meta =
     \<lparr>sn_name = name, sn_kind = k, sn_kind_label = label, sn_size_gb = size_gb, sn_meta = meta, sn_badges = [],
      sn_mount = [], sn_usage_pct = None, sn_usage_label = None, sn_usage_class = [], sn_inode_pct = None,
      sn_inode_label = None, sn_inode_class = [], sn_gauge_info_width_px = None\<rparr>"

section \<open>Labels\<close>

definition USAGE_WARN_PCT :: pyfloat where "USAGE_WARN_PCT = 75"
definition USAGE_DANGER_PCT :: pyfloat where "USAGE_DANGER_PCT = 90"

datatype severity = Sev_ok | Sev_warn | Sev_danger

definition usage_severity :: "pyfloat option \<Rightarrow> severity" where
  "usage_severity pct =
     (case pct of
        None \<Rightarrow> Sev_ok
      | Some p \<Rightarrow> if p < USAGE_WARN_PCT then Sev_ok else if p < USAGE_DANGER_PCT then Sev_warn else Sev_danger)"

fun BADGE_CLASS_BY_SEVERITY :: "severity \<Rightarrow> string" where
  "BADGE_CLASS_BY_SEVERITY Sev_ok = ''badge-ok''"
| "BADGE_CLASS_BY_SEVERITY Sev_warn = ''badge-warn''"
| "BADGE_CLASS_BY_SEVERITY Sev_danger = ''badge-danger''"

definition usage_badge_class :: "pyfloat option \<Rightarrow> string" where
  "usage_badge_class pct = (if pct = None then [] else BADGE_CLASS_BY_SEVERITY (usage_severity pct))"

definition STORAGE_KIND_LABEL :: "(string \<times> kind_label) list" where
  "STORAGE_KIND_LABEL =
     [(''disk'', Label_disk), (''part'', Label_partition), (''lvm'', Label_lv), (''raid'', Label_raid),
      (''crypt'', Label_crypt), (''swap'', Label_swap), (''volume'', Label_volume), (''mpath'', Label_multipath),
      (''dynamic'', Label_dynamic), (''unallocated'', Label_unallocated), (''vg_free'', Label_vg_free)]"

definition UNALLOC_MIN_BYTES :: int where "UNALLOC_MIN_BYTES = 64 * 1024 * 1024"
definition STREE_INDENT_PX :: int where "STREE_INDENT_PX = 33"
definition STREE_INFO_TARGET_PX :: int where "STREE_INFO_TARGET_PX = 340"
definition STREE_INFO_MIN_PX :: int where "STREE_INFO_MIN_PX = 160"

definition rotational_label :: "json \<Rightarrow> string" where
  "rotational_label r = (case r of JBool True \<Rightarrow> ''HDD'' | JBool False \<Rightarrow> ''SSD'' | _ \<Rightarrow> [])"

definition ptable_label :: "string option \<Rightarrow> string" where
  "ptable_label pt =
     (case nonblank pt of
        None \<Rightarrow> []
      | Some t \<Rightarrow>
          let p = str_lower t in
          if p = ''gpt'' then ''GPT'' else if p \<in> set [''dos'', ''mbr'', ''msdos''] then ''MBR'' else t)"

definition remove_raid :: "string \<Rightarrow> string" where
  "remove_raid s = (if prefix ''raid'' s then drop 4 s else s)"

definition raid_level_num :: "json \<Rightarrow> string" where
  "raid_level_num l =
     (case l of JInt n \<Rightarrow> remove_raid (str_lower (show_int n)) | JStr s \<Rightarrow> remove_raid (str_lower s) | _ \<Rightarrow> [])"

definition text_parts :: "string option list \<Rightarrow> string list" where
  "text_parts xs = List.map_filter nonblank xs"

definition upper_char :: "char \<Rightarrow> char" where
  "upper_char c = (let n = of_char c :: nat in if 97 \<le> n \<and> n \<le> 122 then char_of (n - 32) else c)"

definition storage_node_meta :: "json \<Rightarrow> string \<Rightarrow> string list \<times> node_badge list" where
  "storage_node_meta d k =
     (let fstp = get_str ''fstype'' d;
          mp = nonblank (get_str ''mountpoint'' d);
          own = (if k = ''disk'' then
                   text_parts [Some (rotational_label (json_member d ''rotational'')),
                               Some (ptable_label (get_str ''partition_table'' d))]
                 else if k = ''lvm'' then
                   text_parts [get_str ''lvm_segtype'' d, map_option (\<lambda>v. ''VG '' @ v) (nonblank (get_str ''lvm_vg'' d)),
                               if mp = None then fstp else None]
                 else if k = ''swap'' then [''[SWAP]''] else []);
          badges = (if k = ''raid'' then
                      (let lvl = raid_level_num (json_member d ''raid_level'') in if lvl \<noteq> [] then [Badge_raid lvl] else [])
                    else if k = ''crypt'' then
                      [case nonblank (get_str ''crypt_type'' d) of
                         None \<Rightarrow> Badge_encrypted
                       | Some ct \<Rightarrow> if str_in ''luks'' (str_lower ct) then Badge_text (map upper_char ct) else Badge_encrypted]
                    else []);
          shared = (if k = ''part'' \<or> k = ''volume'' \<or> k = ''lvm'' \<and> mp \<noteq> None then text_parts [fstp, mp] else [])
      in (own @ shared, badges))"

section \<open>Usage\<close>

definition fs_total :: "MountUsageRaw \<Rightarrow> int option" where
  "fs_total fs =
     (case (mu_used_bytes fs, mu_free_bytes fs) of (Some u, Some f) \<Rightarrow> Some (u + f) | _ \<Rightarrow> None)"

definition attach_fs_usage :: "MountUsageRaw \<Rightarrow> NodeInfo \<Rightarrow> NodeInfo" where
  "attach_fs_usage fs n =
     (let total_n = fs_total fs;
          pct = usage_pct (mu_used_bytes fs) total_n;
          n1 = n\<lparr>sn_usage_pct := pct, sn_usage_class := usage_badge_class pct,
                sn_usage_label := Some (storagesize (bytes_to_gb (mu_used_bytes fs)), storagesize (bytes_to_gb total_n))\<rparr>
      in case (mu_inodes_used fs, mu_inodes_free fs) of
           (Some iu, Some ifr) \<Rightarrow>
             (let ip = usage_pct (Some iu) (Some (iu + ifr))
              in n1\<lparr>sn_inode_pct := ip, sn_inode_class := usage_badge_class ip, sn_inode_label := ip\<rparr>)
         | _ \<Rightarrow> n1)"

section \<open>The recursion\<close>

definition SPANNING_KINDS :: "string list" where "SPANNING_KINDS = [''raid'', ''mpath'', ''dynamic'']"

text \<open>What does not change during the assembly, and what does.\<close>

record tree_env =
  te_devs :: "json list"
  te_fs_by_dev :: "string \<rightharpoonup> MountUsageRaw"
  te_fs_by_mount :: "string \<rightharpoonup> MountUsageRaw"
  te_vg_free_gb :: "string \<rightharpoonup> pyfloat option"

record tree_state =
  ts_visited :: "string option set"
  ts_array_home :: "string option \<rightharpoonup> string"

definition dev_id :: "json \<Rightarrow> string option" where
  "dev_id d = get_str ''id'' d"

definition dev_name :: "json \<Rightarrow> string" where
  "dev_name d = (case get_str ''name'' d of None \<Rightarrow> [] | Some n \<Rightarrow> n)"

definition dev_kind :: "json \<Rightarrow> string" where
  "dev_kind d = (case nonblank (get_str ''type'' d) of None \<Rightarrow> ''?'' | Some t \<Rightarrow> t)"

definition children_of :: "tree_env \<Rightarrow> string option \<Rightarrow> json list" where
  "children_of te did = filter (\<lambda>c. get_str ''parent'' c = did) (te_devs te)"

definition member_ref_node :: "json \<Rightarrow> (string option \<rightharpoonup> string) \<Rightarrow> StorageNode" where
  "member_ref_node c array_home =
     (let lvl = raid_level_num (json_member c ''raid_level'') in
      StorageNode
        (node_info (dev_name c) Kind_raid_member (if lvl \<noteq> [] then Label_member_of_raid lvl else Label_member_of_array)
           (bytes_to_gb (get_int ''size_bytes'' c))
           (case nonblank (array_home (dev_id c)) of None \<Rightarrow> Meta_detail_elsewhere | Some h \<Rightarrow> Meta_detail_under h)) [])"

text \<open>The attributes of a device node: those of its own layer, and its usage when it carries a data volume.\<close>

definition device_info :: "tree_env \<Rightarrow> int \<Rightarrow> json \<Rightarrow> NodeInfo" where
  "device_info te depth d =
     (let k = dev_kind d;
          (parts, badges) = storage_node_meta d k;
          n = (node_info (dev_name d) (Device_kind k)
                 (case map_of STORAGE_KIND_LABEL k of None \<Rightarrow> Label_text k | Some l \<Rightarrow> l)
                 (bytes_to_gb (get_int ''size_bytes'' d)) (Meta_parts parts))\<lparr>sn_badges := badges\<rparr>
      in case nonblank (get_str ''mountpoint'' d) of
           None \<Rightarrow> n
         | Some mp \<Rightarrow>
             if is_swap (Some k) \<or> \<not> is_data_volume (get_str ''fstype'' d) (Some mp) then n
             else
               (case first_some (\<lambda>f. f) [Option.bind (nonblank (dev_id d)) (te_fs_by_dev te), te_fs_by_mount te mp] of
                  None \<Rightarrow> n\<lparr>sn_mount := mp\<rparr>
                | Some fs \<Rightarrow>
                    (let u = attach_fs_usage fs (n\<lparr>sn_mount := mp\<rparr>)
                     in if sn_usage_pct u = None then u
                        else u\<lparr>sn_gauge_info_width_px :=
                                Some (max STREE_INFO_MIN_PX (STREE_INFO_TARGET_PX - depth * STREE_INDENT_PX))\<rparr>)))"

definition visit :: "string \<Rightarrow> json \<Rightarrow> tree_state \<Rightarrow> tree_state" where
  "visit root_disk d s =
     s\<lparr>ts_visited := insert (dev_id d) (ts_visited s),
       ts_array_home :=
         (if dev_kind d \<in> set SPANNING_KINDS \<and> ts_array_home s (dev_id d) = None
          then (ts_array_home s)(dev_id d \<mapsto> root_disk) else ts_array_home s)\<rparr>"

text \<open>The unpartitioned rest of a disk, and the free space of the volume groups whose volumes lie below.\<close>

definition gap_nodes :: "json \<Rightarrow> json list \<Rightarrow> StorageNode list" where
  "gap_nodes d direct =
     (let gap = size_or_0 d - sum_list (map size_or_0 direct) in
      if is_physical_disk (Some (dev_kind d)) \<and> gap \<ge> UNALLOC_MIN_BYTES
      then [StorageNode (node_info ''unallocated'' Kind_unallocated Label_unallocated (bytes_to_gb (Some gap)) (Meta_parts [])) []]
      else [])"

definition vg_nodes :: "tree_env \<Rightarrow> json list \<Rightarrow> StorageNode list" where
  "vg_nodes te direct =
     (let vgs = remdups (List.map_filter (\<lambda>c. if get_str ''type'' c = Some ''lvm'' then nonblank (get_str ''lvm_vg'' c) else None) direct)
      in map (\<lambda>vg. StorageNode (node_info (''VG '' @ vg) Kind_vg_free Label_vg_free (the (te_vg_free_gb te vg)) Meta_room) [])
           (sort (filter (\<lambda>vg. te_vg_free_gb te vg \<noteq> None) vgs)))"

text \<open>
  The loop over the rows below a device: a row that is already placed leaves a reference when it is an
  array and nothing otherwise.
\<close>

fun place_children ::
  "(json \<Rightarrow> tree_state \<Rightarrow> (StorageNode \<times> tree_state) option) \<Rightarrow> json list \<Rightarrow> tree_state
     \<Rightarrow> (StorageNode list \<times> tree_state) option" where
  "place_children build [] s = Some ([], s)"
| "place_children build (c # cs) s =
     (if dev_id c \<in> ts_visited s then
        Option.bind (place_children build cs s)
          (\<lambda>r. Some ((if get_str ''type'' c \<in> Some ` set SPANNING_KINDS then [member_ref_node c (ts_array_home s)] else []) @ fst r,
                     snd r))
      else
        Option.bind (build c s)
          (\<lambda>n. Option.bind (place_children build cs (snd n)) (\<lambda>r. Some (fst n # fst r, snd r))))"

lemma place_children_mono [partial_function_mono]:
  assumes "\<And>d s. mono_option (\<lambda>f. B f d s)"
  shows "mono_option (\<lambda>f. place_children (B f) cs s)"
proof (induction cs arbitrary: s)
  case Nil
  show ?case by (simp add: option.const_mono)
next
  case (Cons c cs)
  show ?case
    by (cases "dev_id c \<in> ts_visited s") (simp_all add: assms Cons bind_mono option.const_mono)
qed

partial_function (option) build_storage_node ::
  "tree_env \<Rightarrow> string \<Rightarrow> int \<Rightarrow> json \<Rightarrow> tree_state \<Rightarrow> (StorageNode \<times> tree_state) option" where
  "build_storage_node te root_disk depth d s =
     Option.bind
       (place_children (build_storage_node te root_disk (depth + 1)) (children_of te (dev_id d)) (visit root_disk d s))
       (\<lambda>r. Some (StorageNode (device_info te depth d)
                    (fst r @ gap_nodes d (children_of te (dev_id d)) @ vg_nodes te (children_of te (dev_id d))), snd r))"

text \<open>
  The two passes over the rows: every physical disk, then whatever hangs below nothing that is known and has
  not been placed.  The condition of the second sees what the first ones placed.
\<close>

fun place_roots ::
  "(json \<Rightarrow> tree_state \<Rightarrow> bool) \<Rightarrow> tree_env \<Rightarrow> json list \<Rightarrow> tree_state \<Rightarrow> (StorageNode list \<times> tree_state) option" where
  "place_roots cond te [] s = Some ([], s)"
| "place_roots cond te (d # ds) s =
     (if cond d s then
        Option.bind (build_storage_node te (dev_name d) 0 d s)
          (\<lambda>n. Option.bind (place_roots cond te ds (snd n)) (\<lambda>r. Some (fst n # fst r, snd r)))
      else place_roots cond te ds s)"

definition is_disk :: "json \<Rightarrow> bool" where
  "is_disk d = is_physical_disk (get_str ''type'' d)"

definition stray :: "json list \<Rightarrow> json \<Rightarrow> bool" where
  "stray devs d =
     (\<not> is_disk d \<and>
      (case get_str ''parent'' d of
         None \<Rightarrow> True | Some p \<Rightarrow> p \<notin> set (List.map_filter (\<lambda>e. nonblank (dev_id e)) devs)))"

definition fs_index :: "(MountUsageRaw \<Rightarrow> string option) \<Rightarrow> MountUsageRaw list \<Rightarrow> string \<rightharpoonup> MountUsageRaw" where
  "fs_index f fss = map_of (rev (List.map_filter (\<lambda>fs. map_option (\<lambda>k. (k, fs)) (nonblank (f fs))) fss))"

definition vg_free_index :: "json list \<Rightarrow> string \<rightharpoonup> pyfloat option" where
  "vg_free_index vgs =
     map_of (rev (List.map_filter
       (\<lambda>v. map_option (\<lambda>n. (n, bytes_to_gb (get_int ''free_bytes'' v))) (nonblank (get_str ''name'' v))) vgs))"

definition build_storage_tree :: "json list \<Rightarrow> json list \<Rightarrow> MountUsageRaw list \<Rightarrow> StorageNode list option" where
  "build_storage_tree block_devices lvm_vgs filesystems =
     (let te = \<lparr>te_devs = block_devices, te_fs_by_dev = fs_index mu_device_id filesystems,
                te_fs_by_mount = fs_index (\<lambda>fs. Some (mu_mountpoint fs)) filesystems,
                te_vg_free_gb = vg_free_index lvm_vgs\<rparr>
      in Option.bind (place_roots (\<lambda>d _. is_disk d) te block_devices \<lparr>ts_visited = {}, ts_array_home = Map.empty\<rparr>)
           (\<lambda>roots. Option.bind
              (place_roots (\<lambda>d s. dev_id d \<notin> ts_visited s \<and> stray block_devices d) te block_devices (snd roots))
              (\<lambda>orphans. Some (fst roots @ fst orphans))))"

end
