(* ===== verification/StorageTreeProps.thy ===== *)
theory StorageTreeProps
  imports StorageTree
begin

text \<open>
  The storage tree is a depth-first search: it ends on every list of rows, and when the rows are identified
  it shows every device that hangs below a disk or below nothing exactly once.
\<close>

section \<open>What a tree shows\<close>

fun details :: "StorageNode \<Rightarrow> (string \<times> string) list" where
  "details (StorageNode n cs) =
     (case sn_kind n of Device_kind k \<Rightarrow> [(sn_name n, k)] | _ \<Rightarrow> []) @ concat (map details cs)"

definition shown :: "json \<Rightarrow> string \<times> string" where
  "shown d = (dev_name d, dev_kind d)"

definition edges :: "json list \<Rightarrow> (string option \<times> string option) set" where
  "edges devs = {(a, b). \<exists>c \<in> set devs. get_str ''parent'' c = a \<and> dev_id c = b}"

lemma edge_children: "edges (te_devs te) `` {dev_id d} = dev_id ` set (children_of te (dev_id d))"
  by (auto simp: edges_def children_of_def)

lemma device_info_sel [simp]:
  "sn_name (device_info te depth d) = dev_name d" "sn_kind (device_info te depth d) = Device_kind (dev_kind d)"
  by (auto simp: device_info_def attach_fs_usage_def node_info_def Let_def split: option.splits prod.splits)

lemma details_member [simp]: "details (member_ref_node c h) = []"
  by (simp add: member_ref_node_def node_info_def Let_def)

lemma details_gap [simp]: "concat (map details (gap_nodes d cs)) = []"
  by (simp add: gap_nodes_def node_info_def Let_def)

lemma details_vg [simp]: "concat (map details (vg_nodes te cs)) = []"
  by (simp add: vg_nodes_def node_info_def Let_def)

section \<open>Depth-first search\<close>

text \<open>A stretch of the search below \<open>goals\<close>: what it visits, that this is closed, and what it shows.\<close>

definition placed :: "json list \<Rightarrow> string option set \<Rightarrow> tree_state \<Rightarrow> StorageNode list \<Rightarrow> tree_state \<Rightarrow> bool" where
  "placed devs goals s nodes s' =
     (ts_visited s \<subseteq> ts_visited s' \<and> goals \<subseteq> ts_visited s' \<and> ts_visited s' \<subseteq> ts_visited s \<union> (edges devs)\<^sup>* `` goals \<and>
      edges devs `` (ts_visited s' - ts_visited s) \<subseteq> ts_visited s' \<and>
      (\<exists>rows. concat (map details nodes) = map shown rows \<and> set rows \<subseteq> set devs \<and> distinct (map dev_id rows) \<and>
              dev_id ` set rows = ts_visited s' - ts_visited s))"

lemma placed_rows:
  "placed devs goals s nodes s' \<Longrightarrow>
     \<exists>rows. concat (map details nodes) = map shown rows \<and> set rows \<subseteq> set devs \<and> distinct (map dev_id rows) \<and>
       dev_id ` set rows = ts_visited s' - ts_visited s"
  by (simp add: placed_def)

lemma placed_Nil: "placed devs {} s [] s"
  by (simp add: placed_def)

lemma placed_known: "x \<in> ts_visited s \<Longrightarrow> concat (map details nodes) = [] \<Longrightarrow> placed devs {x} s nodes s"
  by (auto simp: placed_def)

lemma placed_append:
  assumes "placed devs A s ns s1" "placed devs B s1 ms s2"
  shows "placed devs (A \<union> B) s (ns @ ms) s2"
proof -
  obtain p where p: "concat (map details ns) = map shown p" "set p \<subseteq> set devs" "distinct (map dev_id p)"
      "dev_id ` set p = ts_visited s1 - ts_visited s"
    using placed_rows [OF assms(1)] by blast
  obtain q where q: "concat (map details ms) = map shown q" "set q \<subseteq> set devs" "distinct (map dev_id q)"
      "dev_id ` set q = ts_visited s2 - ts_visited s1"
    using placed_rows [OF assms(2)] by blast
  have sub: "ts_visited s \<subseteq> ts_visited s1" "ts_visited s1 \<subseteq> ts_visited s2" using assms by (simp_all add: placed_def)
  have "distinct (map dev_id (p @ q))" unfolding map_append distinct_append set_map p(4) q(4) using p(3) q(3) by blast
  moreover have "dev_id ` set (p @ q) = ts_visited s2 - ts_visited s" unfolding set_append image_Un p(4) q(4) using sub by blast
  ultimately have "\<exists>rows. concat (map details (ns @ ms)) = map shown rows \<and> set rows \<subseteq> set devs \<and>
      distinct (map dev_id rows) \<and> dev_id ` set rows = ts_visited s2 - ts_visited s"
    using p(1,2) q(1,2) by (intro exI [of _ "p @ q"]) simp
  moreover have "edges devs `` (ts_visited s2 - ts_visited s) \<subseteq> ts_visited s2"
  proof -
    have "edges devs `` (ts_visited s1 - ts_visited s) \<subseteq> ts_visited s1"
      "edges devs `` (ts_visited s2 - ts_visited s1) \<subseteq> ts_visited s2"
      using assms by (simp_all add: placed_def)
    then show ?thesis using sub by blast
  qed
  moreover have "ts_visited s2 \<subseteq> ts_visited s \<union> (edges devs)\<^sup>* `` (A \<union> B)"
  proof -
    have "ts_visited s2 \<subseteq> ts_visited s1 \<union> (edges devs)\<^sup>* `` B" "ts_visited s1 \<subseteq> ts_visited s \<union> (edges devs)\<^sup>* `` A"
      using assms by (simp_all add: placed_def)
    then show ?thesis unfolding Image_Un by blast
  qed
  moreover have "A \<union> B \<subseteq> ts_visited s2" using assms sub by (auto simp: placed_def)
  moreover have "ts_visited s \<subseteq> ts_visited s2" using sub by (rule subset_trans)
  ultimately show ?thesis unfolding placed_def by (intro conjI)
qed

lemma placed_node:
  assumes "placed (te_devs te) (dev_id ` set (children_of te (dev_id d))) (visit disk d s) cs s'"
    and "dev_id d \<notin> ts_visited s" "d \<in> set (te_devs te)" "concat (map details extra) = []"
  shows "placed (te_devs te) {dev_id d} s [StorageNode (device_info te depth d) (cs @ extra)] s'"
proof -
  let ?E = "edges (te_devs te)" and ?i = "dev_id d"
  have vis: "ts_visited (visit disk d s) = insert ?i (ts_visited s)" by (simp add: visit_def)
  obtain rows where rows: "concat (map details cs) = map shown rows" "set rows \<subseteq> set (te_devs te)" "distinct (map dev_id rows)"
      "dev_id ` set rows = ts_visited s' - insert ?i (ts_visited s)"
    using placed_rows [OF assms(1)] unfolding vis by blast
  have up: "insert ?i (ts_visited s) \<subseteq> ts_visited s'" "?E `` {?i} \<subseteq> ts_visited s'"
    "?E `` (ts_visited s' - insert ?i (ts_visited s)) \<subseteq> ts_visited s'"
    "ts_visited s' \<subseteq> insert ?i (ts_visited s) \<union> ?E\<^sup>* `` (?E `` {?i})"
    using assms(1) unfolding placed_def vis by (simp_all add: edge_children)
  have "?E\<^sup>* `` (?E `` {?i}) \<subseteq> ?E\<^sup>* `` {?i}" by (auto intro: converse_rtrancl_into_rtrancl)
  then have "ts_visited s' \<subseteq> ts_visited s \<union> ?E\<^sup>* `` {?i}" using up(4) by auto
  moreover have "?E `` (ts_visited s' - ts_visited s) \<subseteq> ts_visited s'" using up(2,3) by blast
  moreover have "distinct (map dev_id (d # rows))" using rows(3) by (simp add: rows(4))
  moreover have "dev_id ` set (d # rows) = ts_visited s' - ts_visited s"
    unfolding list.set image_insert rows(4) using up(1) assms(2) by blast
  moreover have "concat (map details [StorageNode (device_info te depth d) (cs @ extra)]) = map shown (d # rows)"
    using rows(1) assms(4) by (simp add: shown_def)
  moreover have "set (d # rows) \<subseteq> set (te_devs te)" using assms(3) rows(2) by simp
  moreover have "ts_visited s \<subseteq> ts_visited s'" "{?i} \<subseteq> ts_visited s'" using up(1) by simp_all
  ultimately show ?thesis unfolding placed_def by (intro conjI exI [of _ "d # rows"])
qed

text \<open>The rows that are still to be visited bound the search.\<close>

definition open_ids :: "tree_env \<Rightarrow> tree_state \<Rightarrow> nat" where
  "open_ids te s = card (dev_id ` set (te_devs te) - ts_visited s)"

lemma open_mono: "ts_visited s \<subseteq> ts_visited s' \<Longrightarrow> open_ids te s' \<le> open_ids te s"
  unfolding open_ids_def by (rule card_mono) auto

lemma open_visit: "d \<in> set (te_devs te) \<Longrightarrow> dev_id d \<notin> ts_visited s \<Longrightarrow> open_ids te (visit disk d s) < open_ids te s"
  unfolding open_ids_def visit_def by (rule psubset_card_mono) auto

definition builds :: "tree_env \<Rightarrow> string \<Rightarrow> nat \<Rightarrow> bool" where
  "builds te disk n =
     (\<forall>depth d s. d \<in> set (te_devs te) \<longrightarrow> dev_id d \<notin> ts_visited s \<longrightarrow> open_ids te s \<le> n \<longrightarrow>
        (\<exists>node s'. build_storage_node te disk depth d s = Some (node, s') \<and> placed (te_devs te) {dev_id d} s [node] s'))"

lemma place_children_placed:
  assumes "builds te disk n"
  shows "set cs \<subseteq> set (te_devs te) \<Longrightarrow> open_ids te s \<le> n \<Longrightarrow>
    \<exists>nodes s'. place_children (build_storage_node te disk depth) cs s = Some (nodes, s') \<and>
      placed (te_devs te) (dev_id ` set cs) s nodes s'"
proof (induction cs arbitrary: s)
  case Nil
  then show ?case by (simp add: placed_Nil)
next
  case (Cons c cs)
  show ?case
  proof (cases "dev_id c \<in> ts_visited s")
    case True
    let ?stub = "if get_str ''type'' c \<in> Some ` set SPANNING_KINDS then [member_ref_node c (ts_array_home s)] else []"
    obtain nodes s' where r: "place_children (build_storage_node te disk depth) cs s = Some (nodes, s')"
        "placed (te_devs te) (dev_id ` set cs) s nodes s'"
      using Cons.IH [of s] Cons.prems by auto
    have "placed (te_devs te) {dev_id c} s ?stub s" by (rule placed_known [OF True]) simp
    from placed_append [OF this r(2)] show ?thesis using True r(1) by simp
  next
    case False
    obtain node s1 where n: "build_storage_node te disk depth c s = Some (node, s1)"
        "placed (te_devs te) {dev_id c} s [node] s1"
      using assms Cons.prems False unfolding builds_def by (metis list.set_intros(1) subsetD)
    have "open_ids te s1 \<le> n" using n(2) Cons.prems(2) open_mono [of s s1 te] by (simp add: placed_def)
    then obtain nodes s' where r: "place_children (build_storage_node te disk depth) cs s1 = Some (nodes, s')"
        "placed (te_devs te) (dev_id ` set cs) s1 nodes s'"
      using Cons.IH [of s1] Cons.prems by auto
    from placed_append [OF n(2) r(2)] show ?thesis using False n(1) r(1) by simp
  qed
qed

lemma children_devs: "set (children_of te i) \<subseteq> set (te_devs te)"
  by (auto simp: children_of_def)

lemma builds_all: "builds te disk n"
proof (induction n rule: less_induct)
  case (less n)
  show ?case unfolding builds_def
  proof (intro allI impI)
    fix depth d s
    assume d: "d \<in> set (te_devs te)" "dev_id d \<notin> ts_visited s" "open_ids te s \<le> n"
    have lt: "open_ids te (visit disk d s) < n" using open_visit [OF d(1,2), of disk] d(3) by simp
    obtain cs s' where r: "place_children (build_storage_node te disk (depth + 1)) (children_of te (dev_id d)) (visit disk d s) = Some (cs, s')"
        "placed (te_devs te) (dev_id ` set (children_of te (dev_id d))) (visit disk d s) cs s'"
      using place_children_placed [OF less.IH [OF lt] children_devs order_refl, of "depth + 1" "dev_id d"] by blast
    have run: "build_storage_node te disk depth d s =
        Some (StorageNode (device_info te depth d)
                (cs @ gap_nodes d (children_of te (dev_id d)) @ vg_nodes te (children_of te (dev_id d))), s')"
      by (subst build_storage_node.simps) (simp add: r(1))
    let ?extra = "gap_nodes d (children_of te (dev_id d)) @ vg_nodes te (children_of te (dev_id d))"
    have "concat (map details ?extra) = []" unfolding map_append concat_append details_gap details_vg by simp
    from placed_node [OF r(2) d(2,1) this]
    show "\<exists>node s'. build_storage_node te disk depth d s = Some (node, s') \<and> placed (te_devs te) {dev_id d} s [node] s'"
      unfolding run by blast
  qed
qed

lemma build_placed:
  "d \<in> set (te_devs te) \<Longrightarrow> dev_id d \<notin> ts_visited s \<Longrightarrow>
     \<exists>node s'. build_storage_node te disk depth d s = Some (node, s') \<and> placed (te_devs te) {dev_id d} s [node] s'"
  using builds_all [of te disk "open_ids te s"] unfolding builds_def by blast

lemma build_ends: "\<exists>node s'. build_storage_node te disk depth d s = Some (node, s')"
proof -
  obtain cs s' where "place_children (build_storage_node te disk (depth + 1)) (children_of te (dev_id d)) (visit disk d s) = Some (cs, s')"
    using place_children_placed [OF builds_all children_devs order_refl, where ?depth = "depth + 1" and ?s = "visit disk d s"] by blast
  then show ?thesis by (subst build_storage_node.simps) simp
qed

lemma place_roots_ends: "\<exists>nodes s'. place_roots cond te ds s = Some (nodes, s')"
proof (induction ds arbitrary: s)
  case (Cons d ds)
  obtain node s1 where "build_storage_node te (dev_name d) 0 d s = Some (node, s1)"
    using build_ends [of te "dev_name d" 0 d s] by blast
  then show ?case using Cons [of s1] Cons [of s] by auto
qed simp

text \<open>
  Claim C25: the tree of any inventory is built in finite time, whatever the parents of the
  rows are: cycles, devices below themselves, repeated and missing identifiers.
\<close>

theorem storage_tree_ends: "\<exists>tree. build_storage_tree devs vgs fss = Some tree"
proof -
  have "\<exists>r. place_roots cond te ds s = Some r" for cond te ds s using place_roots_ends by blast
  then show ?thesis unfolding build_storage_tree_def Let_def by (metis (no_types, lifting) bind.bind_lunit)
qed

section \<open>Every device once\<close>

text \<open>
  Rows as the agent sends them when every device has a stable key: keys are present, a disk has one row and
  no parent, and no other row carries its key.
\<close>

definition identified :: "json list \<Rightarrow> bool" where
  "identified devs =
     (list_all (\<lambda>d. dev_id d \<noteq> None) devs \<and> distinct (map dev_id (filter is_disk devs)) \<and>
      list_all (\<lambda>d. is_disk d \<longrightarrow> get_str ''parent'' d = None) devs \<and>
      list_all (\<lambda>d. list_all (\<lambda>e. dev_id d = dev_id e \<longrightarrow> is_disk d = is_disk e) devs) devs)"

text \<open>What the forest hangs from, and every identifier below it along the parents of the rows.\<close>

definition top_ids :: "json list \<Rightarrow> string option set" where
  "top_ids devs = dev_id ` {d \<in> set devs. is_disk d \<or> stray devs d}"

definition attached :: "json list \<Rightarrow> string option set" where
  "attached devs = (edges devs)\<^sup>* `` top_ids devs"

lemma disk_reached:
  assumes "identified devs" "(a, dev_id d) \<in> (edges devs)\<^sup>*" "is_disk d" "d \<in> set devs" "a \<in> dev_id ` set devs"
  shows "a = dev_id d"
  using assms(2)
proof (cases rule: rtranclE)
  case (step b)
  then obtain c where c: "c \<in> set devs" "get_str ''parent'' c = b" "dev_id c = dev_id d" by (auto simp: edges_def)
  have "is_disk c" using assms(1,3,4) c(1,3) unfolding identified_def list_all_iff by metis
  then have "b = None" using assms(1) c(1,2) unfolding identified_def list_all_iff by metis
  moreover have "b = a \<or> b \<in> dev_id ` set devs"
    using step(1) by (cases rule: rtranclE) (auto simp: edges_def)
  ultimately have "None \<in> dev_id ` set devs" using assms(5) by blast
  moreover have "None \<notin> dev_id ` set devs" using assms(1) unfolding identified_def list_all_iff by fastforce
  ultimately show ?thesis by blast
qed

lemma roots_placed:
  assumes "identified (te_devs te)" "set ds \<subseteq> set (te_devs te)" "distinct (map dev_id (filter is_disk ds))"
    and "\<And>d. d \<in> set ds \<Longrightarrow> is_disk d \<Longrightarrow> dev_id d \<notin> ts_visited s"
  shows "\<exists>nodes s'. place_roots (\<lambda>d _. is_disk d) te ds s = Some (nodes, s') \<and>
    placed (te_devs te) (dev_id ` {d \<in> set ds. is_disk d}) s nodes s'"
  using assms(2-)
proof (induction ds arbitrary: s)
  case (Cons d ds)
  show ?case
  proof (cases "is_disk d")
    case True
    have d: "d \<in> set (te_devs te)" "dev_id d \<notin> ts_visited s" using Cons.prems(1,3) True by simp_all
    obtain node s1 where n: "build_storage_node te (dev_name d) 0 d s = Some (node, s1)"
        "placed (te_devs te) {dev_id d} s [node] s1"
      using build_placed [OF d] by blast
    have "dev_id e \<notin> ts_visited s1" if "e \<in> set ds" "is_disk e" for e
    proof
      assume "dev_id e \<in> ts_visited s1"
      then have "(dev_id d, dev_id e) \<in> (edges (te_devs te))\<^sup>*"
        using n(2) Cons.prems(3) [of e] that unfolding placed_def by auto
      then have "dev_id d = dev_id e" using disk_reached [OF assms(1), of "dev_id d" e] that Cons.prems(1) d(1) by auto
      then show False using Cons.prems(2) that True by auto
    qed
    then obtain nodes s' where r: "place_roots (\<lambda>d _. is_disk d) te ds s1 = Some (nodes, s')"
        "placed (te_devs te) (dev_id ` {d \<in> set ds. is_disk d}) s1 nodes s'"
      using Cons.IH [of s1] Cons.prems True by auto
    have "{dev_id d} \<union> dev_id ` {d \<in> set ds. is_disk d} = dev_id ` {x \<in> set (d # ds). is_disk x}" using True by auto
    then show ?thesis using placed_append [OF n(2) r(2)] n(1) r(1) True by simp
  next
    case False
    then have "{x \<in> set (d # ds). is_disk x} = {x \<in> set ds. is_disk x}" by auto
    then show ?thesis using Cons.IH [of s] Cons.prems False by simp
  qed
qed (simp add: placed_Nil)

lemma strays_placed:
  assumes "set ds \<subseteq> set (te_devs te)"
  shows "\<exists>nodes s'. place_roots (\<lambda>d s. dev_id d \<notin> ts_visited s \<and> stray (te_devs te) d) te ds s = Some (nodes, s') \<and>
    placed (te_devs te) (dev_id ` {d \<in> set ds. stray (te_devs te) d}) s nodes s'"
  using assms
proof (induction ds arbitrary: s)
  case (Cons d ds)
  let ?S = "\<lambda>ds. dev_id ` {d \<in> set ds. stray (te_devs te) d}"
  have sub: "set ds \<subseteq> set (te_devs te)" using Cons.prems by simp
  show ?case
  proof (cases "dev_id d \<notin> ts_visited s \<and> stray (te_devs te) d")
    case True
    obtain node s1 where n: "build_storage_node te (dev_name d) 0 d s = Some (node, s1)"
        "placed (te_devs te) {dev_id d} s [node] s1"
      using build_placed [of d te s] True Cons.prems by (meson list.set_intros(1) subsetD)
    obtain nodes s' where r: "place_roots (\<lambda>d s. dev_id d \<notin> ts_visited s \<and> stray (te_devs te) d) te ds s1 = Some (nodes, s')"
        "placed (te_devs te) (?S ds) s1 nodes s'"
      using Cons.IH [OF sub, of s1] by blast
    have "{dev_id d} \<union> ?S ds = ?S (d # ds)" using True by auto
    then show ?thesis using placed_append [OF n(2) r(2)] n(1) r(1) True by simp
  next
    case False
    obtain nodes s' where r: "place_roots (\<lambda>d s. dev_id d \<notin> ts_visited s \<and> stray (te_devs te) d) te ds s = Some (nodes, s')"
        "placed (te_devs te) (?S ds) s nodes s'"
      using Cons.IH [OF sub, of s] by blast
    have "placed (te_devs te) (?S (d # ds)) s nodes s'"
    proof (cases "stray (te_devs te) d")
      case True
      then have known: "dev_id d \<in> ts_visited s" using False by simp
      have "{dev_id d} \<union> ?S ds = ?S (d # ds)" using True by auto
      then show ?thesis using placed_append [OF placed_known [OF known, of "[]" "te_devs te"] r(2)] by simp
    next
      case no: False
      then have "?S (d # ds) = ?S ds" by auto
      then show ?thesis using r(2) by simp
    qed
    then show ?thesis using r(1) False by auto
  qed
qed (simp add: placed_Nil)

text \<open>
  Claim C24: on an inventory whose devices are identified, the detail rows of the tree,
  read from top to bottom, are one row for every device that hangs below a disk or below nothing known: none
  is missing, and none is shown twice, although a mirrored or striped device has a row for each of its
  disks.
\<close>

theorem storage_tree_complete:
  assumes "identified devs"
  shows "\<exists>tree rows. build_storage_tree devs vgs fss = Some tree \<and>
    concat (map details tree) = map shown rows \<and> set rows \<subseteq> set devs \<and> distinct (map dev_id rows) \<and>
    dev_id ` set rows = attached devs"
proof -
  let ?te = "\<lparr>te_devs = devs, te_fs_by_dev = fs_index mu_device_id fss, te_fs_by_mount = fs_index (\<lambda>fs. Some (mu_mountpoint fs)) fss,
      te_vg_free_gb = vg_free_index vgs\<rparr>"
  let ?s0 = "\<lparr>ts_visited = {}, ts_array_home = Map.empty\<rparr>"
  have te: "te_devs ?te = devs" by simp
  obtain roots s1 where r: "place_roots (\<lambda>d _. is_disk d) ?te devs ?s0 = Some (roots, s1)"
      "placed devs (dev_id ` {d \<in> set devs. is_disk d}) ?s0 roots s1"
    using roots_placed [of ?te devs ?s0] assms by (auto simp: identified_def)
  obtain strays s2 where o: "place_roots (\<lambda>d s. dev_id d \<notin> ts_visited s \<and> stray devs d) ?te devs s1 = Some (strays, s2)"
      "placed devs (dev_id ` {d \<in> set devs. stray devs d}) s1 strays s2"
    using strays_placed [of devs ?te s1] by auto
  have "dev_id ` {d \<in> set devs. is_disk d} \<union> dev_id ` {d \<in> set devs. stray devs d} = top_ids devs"
    by (auto simp: top_ids_def)
  then have all: "placed devs (top_ids devs) ?s0 (roots @ strays) s2" using placed_append [OF r(2) o(2)] by simp
  then have "top_ids devs \<subseteq> ts_visited s2" "edges devs `` ts_visited s2 \<subseteq> ts_visited s2" "ts_visited s2 \<subseteq> attached devs"
    by (simp_all add: placed_def attached_def)
  moreover have "(edges devs)\<^sup>* `` ts_visited s2 \<subseteq> ts_visited s2" using calculation(2) by (rule Image_closed_trancl [THEN equalityD1])
  ultimately have "ts_visited s2 = attached devs" unfolding attached_def by blast
  moreover have "build_storage_tree devs vgs fss = Some (roots @ strays)"
    by (simp add: build_storage_tree_def Let_def r(1) o(1))
  ultimately show ?thesis using placed_rows [OF all] by auto
qed

definition small_inventory :: "json list" where
  "small_inventory =
     [JObj [(''name'', JStr ''sda''), (''type'', JStr ''disk''), (''id'', JStr ''d'')],
      JObj [(''name'', JStr ''sda1''), (''type'', JStr ''part''), (''id'', JStr ''p''), (''parent'', JStr ''d'')],
      JObj [(''name'', JStr ''lost''), (''type'', JStr ''lvm''), (''id'', JStr ''l''), (''parent'', JStr ''gone'')]]"

theorem storage_tree_complete_witness:
  "\<exists>tree rows. build_storage_tree small_inventory [] [] = Some tree \<and> concat (map details tree) = map shown rows \<and>
     set rows \<subseteq> set small_inventory \<and> distinct (map dev_id rows) \<and> dev_id ` set rows = attached small_inventory"
proof (rule storage_tree_complete)
  show "identified small_inventory"
    by (simp add: identified_def small_inventory_def dev_id_def is_disk_def is_physical_disk_def get_str_def json_get_def)
qed

text \<open>
  The key is nullable on the wire.  A disk without one is looked up under the key of all rows that have no
  parent, so the other disks of the host appear below it, and once more at their own place.
\<close>

lemma missing_key_nests_disks:
  "map_option (\<lambda>t. concat (map details t))
     (build_storage_tree
        [JObj [(''name'', JStr ''vda''), (''type'', JStr ''disk'')],
         JObj [(''name'', JStr ''vdb''), (''type'', JStr ''disk''), (''id'', JStr ''b'')]] [] []) =
   Some [(''vda'', ''disk''), (''vdb'', ''disk''), (''vdb'', ''disk'')]"
proof -
  let ?a = "JObj [(''name'', JStr ''vda''), (''type'', JStr ''disk'')]"
  let ?b = "JObj [(''name'', JStr ''vdb''), (''type'', JStr ''disk''), (''id'', JStr ''b'')]"
  have sel: "get_str ''id'' ?a = None" "get_str ''id'' ?b = Some ''b''" "get_str ''parent'' ?a = None" "get_str ''parent'' ?b = None"
    "get_str ''type'' ?a = Some ''disk''" "get_str ''type'' ?b = Some ''disk''" "get_str ''name'' ?a = Some ''vda''"
    "get_str ''name'' ?b = Some ''vdb''"
    by (simp_all add: get_str_def json_get_def)
  have kinds: "dev_kind ?a = ''disk''" "dev_kind ?b = ''disk''" "dev_name ?a = ''vda''" "dev_name ?b = ''vdb''"
    "dev_id ?a = None" "dev_id ?b = Some ''b''" "is_disk ?a" "is_disk ?b" "\<not> stray devs ?a" "\<not> stray devs ?b" for devs
    by (simp_all add: dev_kind_def dev_name_def dev_id_def is_disk_def is_physical_disk_def stray_def nonblank_def sel)
  let ?te = "\<lparr>te_devs = [?a, ?b], te_fs_by_dev = fs_index mu_device_id [],
      te_fs_by_mount = fs_index (\<lambda>fs. Some (mu_mountpoint fs)) [], te_vg_free_gb = vg_free_index []\<rparr>"
  have kids: "children_of ?te None = [?a, ?b]" "children_of ?te (Some ''b'') = []"
    by (simp_all add: children_of_def sel)
  have b: "build_storage_node ?te r depth ?b s =
      Some (StorageNode (device_info ?te depth ?b) (gap_nodes ?b [] @ vg_nodes ?te []), visit r ?b s)" for r depth s
    by (subst build_storage_node.simps) (simp add: kinds kids)
  have a: "\<exists>n s'. build_storage_node ?te r 0 ?a \<lparr>ts_visited = {}, ts_array_home = Map.empty\<rparr> = Some (n, s') \<and>
      details n = [(''vda'', ''disk''), (''vdb'', ''disk'')]" for r
    by (subst build_storage_node.simps)
      (simp add: kinds kids b visit_def sel SPANNING_KINDS_def image_iff)
  obtain n s' where n: "build_storage_node ?te ''vda'' 0 ?a \<lparr>ts_visited = {}, ts_array_home = Map.empty\<rparr> = Some (n, s')"
      "details n = [(''vda'', ''disk''), (''vdb'', ''disk'')]"
    using a by blast
  show ?thesis
    unfolding build_storage_tree_def Let_def by (simp add: kinds n b)
qed

end
