(* ===== verification/ServerPages.thy ===== *)
theory ServerPages
  imports StorageTree Workloads
begin

text \<open>
  The list and detail pages of a server: the view models of \<open>web/view_models/server.py\<close> and the mappers of
  \<open>web/services/mappers/server.py\<close> that fill them from the rows of \<open>db/dtos/outbound.py\<close>.
\<close>

section \<open>Items\<close>

record DiskItem =
  di_name :: string
  di_size_gb :: "pyfloat option"

record VolumeItem =
  vo_mount :: string
  vo_fstype :: "string option"
  vo_total_gb :: "pyfloat option"

record IpAddr =
  ia_value :: string
  ia_is_ipv4 :: bool

record ServiceItem =
  si_unit :: string
  si_sub :: string
  si_category :: string
  si_ports :: "MatchedPort list"
  si_display_name :: string
  si_category_count :: int

record ListenPortItem =
  lp_proto :: string
  lp_addr :: string
  lp_port :: int
  lp_uid :: "int option"
  lp_pid :: "int option"
  lp_comm :: "string option"
  lp_is_significant :: bool

record NetIfaceAddress =
  na_value :: string
  na_is_ipv4 :: bool
  na_origin :: string

record NetworkInterfaceInfo =
  nf_name :: string
  nf_mac :: string
  nf_mtu :: "int option"
  nf_speed_mbps :: "int option"
  nf_gateway :: string
  nf_dns :: "string list"
  nf_addresses :: "NetIfaceAddress list"

record MountUsageItem =
  mi_mount :: string
  mi_fstype :: "string option"
  mi_total_gb :: "pyfloat option"
  mi_used_gb :: "pyfloat option"
  mi_avail_gb :: "pyfloat option"
  mi_usage_pct :: "pyfloat option"
  mi_badge_class :: string
  mi_bar_color :: string

section \<open>Addresses and interfaces\<close>

text \<open>\<open>f"{addr}/{prefix}"\<close>, or the address alone without a prefix length.\<close>

definition cidr_text :: "json \<Rightarrow> string" where
  "cidr_text a =
     (let addr = (case get_str ''address'' a of None \<Rightarrow> [] | Some s \<Rightarrow> s) in
      case get_int ''prefix'' a of None \<Rightarrow> addr | Some p \<Rightarrow> addr @ ''/'' @ show_int p)"

definition is_ipv4_node :: "json \<Rightarrow> bool" where
  "is_ipv4_node a = (get_str ''family'' a = Some ''ipv4'')"

definition to_ip_addrs :: "json list \<Rightarrow> IpAddr list" where
  "to_ip_addrs net_interfaces =
     sort_key (\<lambda>x. \<not> ia_is_ipv4 x)
       (concat (map (\<lambda>i. if get_str ''kind'' i = Some ''loopback'' then []
                          else map (\<lambda>a. \<lparr>ia_value = cidr_text a, ia_is_ipv4 = is_ipv4_node a\<rparr>) (json_list i ''addresses''))
                    net_interfaces))"

definition ext_ip_addrs :: "string list option \<Rightarrow> IpAddr list" where
  "ext_ip_addrs ips =
     sort_key (\<lambda>x. \<not> ia_is_ipv4 x)
       (map (\<lambda>s. \<lparr>ia_value = s, ia_is_ipv4 = (CHR '':'' \<notin> set s)\<rparr>) (rows_or_empty ips))"

definition str_items :: "json \<Rightarrow> string \<Rightarrow> string list" where
  "str_items d key = List.map_filter (\<lambda>j. case j of JStr s \<Rightarrow> Some s | _ \<Rightarrow> None) (json_list d key)"

definition network_interface :: "(string \<rightharpoonup> int) \<Rightarrow> json \<Rightarrow> NetworkInterfaceInfo" where
  "network_interface link_speed_by_iface i =
     \<lparr>nf_name = (case get_str ''name'' i of None \<Rightarrow> [] | Some n \<Rightarrow> n),
      nf_mac = (if get_str ''id_type'' i = Some ''mac'' then str_or (get_str ''id'' i) [] else []),
      nf_mtu = get_int ''mtu'' i,
      nf_speed_mbps =
        (case get_int ''speed_mbps'' i of
           Some s \<Rightarrow> Some s
         | None \<Rightarrow> map_option (\<lambda>bps. rhe (idiv bps 1000000)) (Option.bind (nonblank (get_str ''id'' i)) link_speed_by_iface)),
      nf_gateway = str_or (get_str ''gateway'' i) [],
      nf_dns = str_items i ''dns'',
      nf_addresses =
        sort_key (\<lambda>a. \<not> na_is_ipv4 a)
          (map (\<lambda>a. \<lparr>na_value = cidr_text a, na_is_ipv4 = is_ipv4_node a, na_origin = str_or (get_str ''origin'' a) []\<rparr>)
             (json_list i ''addresses''))\<rparr>"

definition build_network_interfaces :: "json list \<Rightarrow> (string \<rightharpoonup> int) \<Rightarrow> NetworkInterfaceInfo list" where
  "build_network_interfaces net_interfaces link_speed_by_iface =
     map (network_interface link_speed_by_iface)
       (filter (\<lambda>i. \<not> is_virtual_interface (get_str ''kind'' i)) net_interfaces)"

section \<open>Storage items\<close>

text \<open>A mounted data volume, with its mount point.\<close>

definition data_mount :: "json \<Rightarrow> string option" where
  "data_mount d =
     (case nonblank (get_str ''mountpoint'' d) of
        None \<Rightarrow> None
      | Some p \<Rightarrow> if is_swap (get_str ''type'' d) \<or> \<not> is_data_volume (get_str ''fstype'' d) (Some p) then None else Some p)"

definition to_volumes :: "json list \<Rightarrow> VolumeItem list" where
  "to_volumes block_devices =
     sort_key vo_mount
       (List.map_filter
          (\<lambda>d. map_option (\<lambda>p. \<lparr>vo_mount = p, vo_fstype = get_str ''fstype'' d,
                                vo_total_gb = bytes_to_gb (get_int ''size_bytes'' d)\<rparr>) (data_mount d)) block_devices)"

definition to_disk_item :: "json \<Rightarrow> DiskItem option" where
  "to_disk_item d =
     (if is_physical_disk (get_str ''type'' d)
      then Some \<lparr>di_name = dev_name d, di_size_gb = bytes_to_gb (get_int ''size_bytes'' d)\<rparr> else None)"

definition storage_layers_gb :: "json list \<Rightarrow> pyfloat option \<times> pyfloat option \<times> pyfloat option" where
  "storage_layers_gb block_devices =
     (let allocated = bytes_to_gb (Some (disk_total_bytes block_devices));
          fs_bytes = sum_list (map size_or_0 (filter (\<lambda>d. data_mount d \<noteq> None) block_devices));
          filesystem = (if fs_bytes \<noteq> 0 then bytes_to_gb (Some fs_bytes) else None);
          unallocated = (case (allocated, filesystem) of
                           (Some a, Some f) \<Rightarrow> Some (py_round 2 (max 0 (fsub a f))) | _ \<Rightarrow> None)
      in (map_option (py_round 2) allocated, map_option (py_round 2) filesystem, unallocated))"

definition MOUNT_BAR_COLOR :: string where "MOUNT_BAR_COLOR = ''var(--color-title)''"

definition build_mount_item :: "string \<Rightarrow> string option \<Rightarrow> int option \<Rightarrow> int option \<Rightarrow> MountUsageItem" where
  "build_mount_item mount fstype used free =
     (let total_bytes = (case (used, free) of (Some u, Some f) \<Rightarrow> Some (u + f) | _ \<Rightarrow> None);
          pct = usage_pct used total_bytes
      in \<lparr>mi_mount = mount, mi_fstype = fstype, mi_total_gb = bytes_to_gb total_bytes, mi_used_gb = bytes_to_gb used,
          mi_avail_gb = bytes_to_gb free, mi_usage_pct = pct, mi_badge_class = usage_badge_class pct,
          mi_bar_color = MOUNT_BAR_COLOR\<rparr>)"

section \<open>Services and sockets\<close>

definition DYNAMIC_PORT_MIN :: int where "DYNAMIC_PORT_MIN = 49152"

definition to_listen_port_item :: "json \<Rightarrow> ListenPortItem" where
  "to_listen_port_item p =
     (let port = (case get_int ''port'' p of None \<Rightarrow> 0 | Some n \<Rightarrow> n) in
      \<lparr>lp_proto = (case get_str ''proto'' p of None \<Rightarrow> [] | Some s \<Rightarrow> s),
       lp_addr = (case get_str ''addr'' p of None \<Rightarrow> [] | Some s \<Rightarrow> s), lp_port = port,
       lp_uid = get_int ''uid'' p, lp_pid = get_int ''pid'' p, lp_comm = get_str ''comm'' p,
       lp_is_significant = port < DYNAMIC_PORT_MIN\<rparr>)"

definition to_service_item :: "ListenPort list option \<Rightarrow> json \<Rightarrow> ServiceItem" where
  "to_service_item listen_ports s =
     (let unit = (case get_str ''unit'' s of None \<Rightarrow> [] | Some u \<Rightarrow> u); pid = get_int ''pid'' s in
      \<lparr>si_unit = unit, si_sub = (case get_str ''sub'' s of None \<Rightarrow> [] | Some u \<Rightarrow> u),
       si_category = classify unit listen_ports pid,
       si_ports = (case listen_ports of None \<Rightarrow> [] | Some ps \<Rightarrow> if ps = [] then [] else matched_ports unit ps pid),
       si_display_name = removesuffix service_suffix unit, si_category_count = 1\<rparr>)"

definition services_or_none :: "json list option \<Rightarrow> json list option \<Rightarrow> ServiceItem list option" where
  "services_or_none raw listen_ports =
     map_option (map (to_service_item (map_option (map listen_port_of_json) listen_ports))) raw"

section \<open>Names of systems\<close>

definition os_display ::
  "string option \<Rightarrow> string option \<Rightarrow> string option \<Rightarrow> string option \<Rightarrow> string" where
  "os_display os_id os_version kernel_version product_name =
     (let ver = (if os_id = Some ''windows'' then
                   (case nonblank (windows_short_label_from_product_name product_name) of
                      Some short \<Rightarrow> Some short
                    | None \<Rightarrow> if nonblank os_version = None then windows_legacy_version_from_build kernel_version else os_version)
                 else os_version);
          text = join '' '' (text_parts [os_id, ver])
      in if text = [] then ''-'' else text)"

section \<open>The detail page\<close>

record ServerDetailResponse =
  dt_id :: int
  dt_public_id :: string
  dt_agent_id :: string
  dt_composite_id :: "string option"
  dt_machine_id :: "string option"
  dt_hostname :: string
  dt_agent_version :: "string option"
  dt_os_family :: "string option"
  dt_os_id :: "string option"
  dt_os_version :: "string option"
  dt_os_codename :: "string option"
  dt_kernel_version :: "string option"
  dt_cpu_cores :: "int option"
  dt_cpu_model :: "string option"
  dt_cpu_arch :: "string option"
  dt_cpu_bits :: "int option"
  dt_mem_total_gb :: "pyfloat option"
  dt_swap_total_gb :: "pyfloat option"
  dt_boot_time :: "datetime option"
  dt_agent_started_at :: "datetime option"
  dt_ip_internal :: "IpAddr list"
  dt_ip_external :: "IpAddr list option"
  dt_disks :: "DiskItem list"
  dt_services :: "ServiceItem list option"
  dt_listen_ports :: "ListenPortItem list"
  dt_last_seen_at :: "datetime option"
  dt_product_name :: "string option"
  dt_edition :: "string option"
  dt_disk_total_gb :: "pyfloat option"
  dt_disk_unallocated_gb :: "pyfloat option"
  dt_volumes :: "VolumeItem list"
  dt_volume_total_gb :: "pyfloat option"
  dt_sorted_services :: "ServiceItem list"
  dt_sorted_listen_ports :: "ListenPortItem list"
  dt_known_services :: "ServiceItem list"
  dt_show_unknown_badge :: bool
  dt_key_listen_ports :: "ListenPortItem list"
  dt_os_display :: string
  dt_cpu_display :: string
  dt_services_count :: int
  dt_listen_ports_count :: int
  dt_disks_count :: int
  dt_volumes_count :: int

text \<open>
  The chips: a port is taken when its text \<open>proto:port\<close> was not seen before.  The state is the list of ports
  taken so far, of this badge and in total.
\<close>

definition chip_key :: "MatchedPort \<Rightarrow> string \<times> int" where
  "chip_key p = (mp_proto p, mp_port p)"

fun take_chips :: "MatchedPort list \<Rightarrow> MatchedPort list \<Rightarrow> MatchedPort list \<times> MatchedPort list" where
  "take_chips shown_chips [] = ([], shown_chips)"
| "take_chips shown_chips (p # ps) =
     (if chip_key p \<in> chip_key ` set shown_chips then take_chips shown_chips ps
      else (let (ports, rest) = take_chips (shown_chips @ [p]) ps in (p # ports, rest)))"

definition sort_chips :: "MatchedPort list \<Rightarrow> MatchedPort list" where
  "sort_chips ports = sort_key (\<lambda>p. (mp_port p, mp_proto p)) ports"

definition badge :: "string \<Rightarrow> string \<Rightarrow> string \<Rightarrow> MatchedPort list \<Rightarrow> string \<Rightarrow> ServiceItem" where
  "badge unit sub category ports display =
     \<lparr>si_unit = unit, si_sub = sub, si_category = category, si_ports = sort_chips ports, si_display_name = display,
      si_category_count = 1\<rparr>"

text \<open>One badge per category of a service; the unit that listens speaks for its category.\<close>

definition ports_of_category :: "(string \<times> MatchedPort list) list \<Rightarrow> string \<Rightarrow> MatchedPort list" where
  "ports_of_category listen_by_cat c = (case map_of listen_by_cat c of None \<Rightarrow> [] | Some ps \<Rightarrow> ps)"

fun service_badges ::
  "(string \<times> MatchedPort list) list \<Rightarrow> (string \<times> ServiceItem list) list \<Rightarrow> MatchedPort list
     \<Rightarrow> ServiceItem list \<times> MatchedPort list" where
  "service_badges listen_by_cat [] shown_chips = ([], shown_chips)"
| "service_badges listen_by_cat ((c, svcs) # cats) shown_chips =
     (let (ports, s1) = take_chips shown_chips (concat (map si_ports svcs) @ ports_of_category listen_by_cat c);
          rep = (case List.find (\<lambda>s. si_ports s \<noteq> []) svcs of Some s \<Rightarrow> s | None \<Rightarrow> hd svcs);
          (known, s2) = service_badges listen_by_cat cats s1
      in (badge (si_unit rep) (si_sub rep) c ports (si_display_name rep) # known, s2))"

fun socket_badges ::
  "string set \<Rightarrow> (string \<times> MatchedPort list) list \<Rightarrow> MatchedPort list \<Rightarrow> ServiceItem list \<times> MatchedPort list" where
  "socket_badges known_categories [] shown_chips = ([], shown_chips)"
| "socket_badges known_categories ((c, ps) # cats) shown_chips =
     (if c \<in> known_categories then socket_badges known_categories cats shown_chips
      else
        (let (ports, s1) = take_chips shown_chips ps; (known, s2) = socket_badges known_categories cats s1
         in (badge [] [] c ports [] # known, s2)))"

definition services_by_category :: "ServiceItem list \<Rightarrow> (string \<times> ServiceItem list) list" where
  "services_by_category services =
     fold (\<lambda>s. dict_append (si_category s) s) (filter (\<lambda>s. si_category s \<noteq> ''unknown'') services) []"

definition listen_of_item :: "ListenPortItem \<Rightarrow> ListenPort" where
  "listen_of_item lp =
     \<lparr>port_proto = Some (lp_proto lp), port_number = Some (lp_port lp), port_pid = None, port_comm = lp_comm lp\<rparr>"

definition all_badges :: "ServiceItem list \<Rightarrow> ListenPortItem list \<Rightarrow> ServiceItem list \<times> MatchedPort list" where
  "all_badges services listen_ports =
     (let listen_by_cat = detect_listen_categories (map listen_of_item listen_ports);
          (by_service, s1) = service_badges listen_by_cat (services_by_category services) [];
          (by_socket, s2) = socket_badges (set (map si_category by_service)) listen_by_cat s1
      in (sort_key si_category (by_service @ by_socket), s2))"

definition items_or_empty :: "'a list option \<Rightarrow> 'a list" where
  "items_or_empty x = (case x of None \<Rightarrow> [] | Some xs \<Rightarrow> xs)"

definition cpu_display :: "string option \<Rightarrow> int option \<Rightarrow> string" where
  "cpu_display model cores =
     (let text = join '' '' (text_parts [model, Option.bind cores (\<lambda>c. if c = 0 then None else Some (show_int c @ '' cores''))]) in
      if text = [] then ''-'' else text)"

definition enrich_server_detail :: "ServerDetailResponse \<Rightarrow> ServerDetailResponse" where
  "enrich_server_detail d =
     (let services = items_or_empty (dt_services d);
          (known, shown_chips) = all_badges services (dt_listen_ports d);
          shown_numbers = mp_port ` set shown_chips
      in d\<lparr>dt_known_services := known,
           dt_show_unknown_badge := (services \<noteq> [] \<and> known = []),
           dt_key_listen_ports :=
             sort_key (\<lambda>lp. (lp_port lp, lp_proto lp))
               (filter (\<lambda>lp. lp_is_significant lp \<and> lp_port lp \<notin> shown_numbers) (dt_listen_ports d)),
           dt_sorted_services := sort_key si_unit services,
           dt_sorted_listen_ports := sort_key (\<lambda>lp. (lp_port lp, lp_proto lp)) (dt_listen_ports d),
           dt_os_display := os_display (dt_os_id d) (dt_os_version d) (dt_kernel_version d) (dt_product_name d),
           dt_cpu_display := cpu_display (dt_cpu_model d) (dt_cpu_cores d),
           dt_services_count := int (length services),
           dt_listen_ports_count := int (length (dt_listen_ports d)),
           dt_disks_count := int (length (dt_disks d)),
           dt_volumes_count := int (length (dt_volumes d))\<rparr>)"

definition to_server_detail :: "ServerDetail \<Rightarrow> ServerDetailResponse" where
  "to_server_detail dto =
     (let (allocated, filesystem, unallocated) = storage_layers_gb (sd_block_devices dto) in
      enrich_server_detail
        \<lparr>dt_id = sd_id dto, dt_public_id = sd_public_id dto, dt_agent_id = sd_agent_id dto,
         dt_composite_id = sd_composite_id dto, dt_machine_id = sd_machine_id dto, dt_hostname = sd_hostname dto,
         dt_agent_version = sd_agent_version dto, dt_os_family = sd_os_family dto, dt_os_id = sd_os_id dto,
         dt_os_version = sd_os_version dto, dt_os_codename = sd_os_codename dto,
         dt_kernel_version = sd_kernel_version dto, dt_cpu_cores = sd_cpu_cores dto, dt_cpu_model = sd_cpu_model dto,
         dt_cpu_arch = sd_cpu_arch dto, dt_cpu_bits = sd_cpu_bits dto,
         dt_mem_total_gb = bytes_to_gib (sd_mem_total_bytes dto),
         dt_swap_total_gb = bytes_to_gib (Some (swap_total_bytes (sd_block_devices dto))),
         dt_boot_time = sd_boot_time dto, dt_agent_started_at = sd_agent_started_at dto,
         dt_ip_internal = to_ip_addrs (sd_net_interfaces dto),
         dt_ip_external = (if rows_or_empty (sd_ip_external dto) = [] then None else Some (ext_ip_addrs (sd_ip_external dto))),
         dt_disks = List.map_filter to_disk_item (sd_block_devices dto),
         dt_services = services_or_none (sd_services dto) (Some (sd_listen_ports dto)),
         dt_listen_ports = map to_listen_port_item (sd_listen_ports dto),
         dt_last_seen_at = sd_last_seen_at dto, dt_product_name = sd_product_name dto, dt_edition = sd_edition dto,
         dt_disk_total_gb = allocated, dt_disk_unallocated_gb = unallocated,
         dt_volumes = to_volumes (sd_block_devices dto), dt_volume_total_gb = filesystem,
         dt_sorted_services = [], dt_sorted_listen_ports = [], dt_known_services = [], dt_show_unknown_badge = False,
         dt_key_listen_ports = [], dt_os_display = [], dt_cpu_display = [], dt_services_count = 0,
         dt_listen_ports_count = 0, dt_disks_count = 0, dt_volumes_count = 0\<rparr>)"

section \<open>The storage and network tabs\<close>

record StorageWithUsage =
  su_server_id :: int
  su_public_id :: string
  su_hostname :: string
  su_block_devices :: "json list"
  su_lvm_vgs :: "json list"
  su_filesystems :: "MountUsageRaw list"
  su_inventory_at :: "datetime option"
  su_os_family :: "string option"

record StorageDetailResponse =
  sx_server_id :: int
  sx_public_id :: string
  sx_hostname :: string
  sx_disks :: "DiskItem list"
  sx_mounts :: "MountUsageItem list"
  sx_fs_total_gb :: "pyfloat option"
  sx_snapshot_at :: "datetime option"
  sx_inventory_at :: "datetime option"
  sx_disk_total_gb :: "pyfloat option"
  sx_disk_unallocated_gb :: "pyfloat option"
  sx_tree :: "StorageNode list"
  sx_os_family :: "string option"

definition max_option :: "'a::linorder list \<Rightarrow> 'a option" where
  "max_option xs = (case xs of [] \<Rightarrow> None | y # ys \<Rightarrow> Some (fold max ys y))"

text \<open>The option is that of the tree, which always exists.\<close>

definition to_storage_detail :: "StorageWithUsage \<Rightarrow> StorageDetailResponse option" where
  "to_storage_detail dto =
     (let mounts = map (\<lambda>fs. build_mount_item (mu_mountpoint fs) (mu_fstype fs) (mu_used_bytes fs) (mu_free_bytes fs))
                     (filter (\<lambda>fs. is_data_volume (mu_fstype fs) (Some (mu_mountpoint fs))) (su_filesystems dto));
          (allocated_gb, _, unallocated_gb) = storage_layers_gb (su_block_devices dto)
      in map_option
           (\<lambda>tree.
             \<lparr>sx_server_id = su_server_id dto, sx_public_id = su_public_id dto, sx_hostname = su_hostname dto,
              sx_disks = List.map_filter to_disk_item (su_block_devices dto), sx_mounts = sort_key mi_mount mounts,
              sx_fs_total_gb = (if mounts = [] then None else Some (py_sum (List.map_filter mi_total_gb mounts))),
              sx_snapshot_at = max_option (List.map_filter mu_collected_at (su_filesystems dto)),
              sx_inventory_at = su_inventory_at dto, sx_disk_total_gb = allocated_gb,
              sx_disk_unallocated_gb = unallocated_gb, sx_tree = tree, sx_os_family = su_os_family dto\<rparr>)
           (build_storage_tree (su_block_devices dto) (su_lvm_vgs dto) (su_filesystems dto)))"

record NetworkWithIo =
  nw_server_id :: int
  nw_public_id :: string
  nw_hostname :: string
  nw_net_interfaces :: "json list"
  nw_ip_external :: "string list option"
  nw_net_io :: "NetIoRaw list"
  nw_inventory_at :: "datetime option"
  nw_os_family :: "string option"
  nw_link_speed_by_iface :: "string \<rightharpoonup> int"

record NetworkDetailResponse =
  nd_server_id :: int
  nd_public_id :: string
  nd_hostname :: string
  nd_ip_internal :: "IpAddr list"
  nd_ip_external :: "IpAddr list option"
  nd_interfaces :: "NetIoSnapshot list"
  nd_inventory_at :: "datetime option"
  nd_snapshot_at :: "datetime option"
  nd_interfaces_info :: "NetworkInterfaceInfo list"
  nd_os_family :: "string option"

definition to_network_detail :: "NetworkWithIo \<Rightarrow> NetworkDetailResponse" where
  "to_network_detail dto =
     \<lparr>nd_server_id = nw_server_id dto, nd_public_id = nw_public_id dto, nd_hostname = nw_hostname dto,
      nd_ip_internal = to_ip_addrs (nw_net_interfaces dto),
      nd_ip_external = (if rows_or_empty (nw_ip_external dto) = [] then None else Some (ext_ip_addrs (nw_ip_external dto))),
      nd_interfaces = compute_net_io (nw_net_io dto) None, nd_inventory_at = nw_inventory_at dto,
      nd_snapshot_at = max_option (map nr_collected_at (nw_net_io dto)),
      nd_interfaces_info = build_network_interfaces (nw_net_interfaces dto) (nw_link_speed_by_iface dto),
      nd_os_family = nw_os_family dto\<rparr>"

section \<open>The list\<close>

record ServerSummary =
  ss_id :: int
  ss_public_id :: string
  ss_composite_id :: "string option"
  ss_hostname :: string
  ss_os_id :: "string option"
  ss_os_version :: "string option"
  ss_kernel_version :: "string option"
  ss_product_name :: "string option"
  ss_cpu_cores :: "int option"
  ss_mem_total_bytes :: "int option"
  ss_ip_external :: "string list option"
  ss_block_devices :: "json list"
  ss_service_categories :: "string list"
  ss_last_seen_at :: "datetime option"

text \<open>The phase column: not asked for, not decidable, or a phase.\<close>

datatype phase_cell = Phase_blank | Phase_unknown | Phase eol_status

record ServerListItem =
  sl_id :: int
  sl_public_id :: string
  sl_hostname :: string
  sl_os_id :: "string option"
  sl_os_version :: "string option"
  sl_cpu_cores :: "int option"
  sl_mem_total_gb :: "pyfloat option"
  sl_storage_total_gb :: "pyfloat option"
  sl_is_online :: bool
  sl_ip_external :: "string list option"
  sl_services :: "ServiceItem list"
  sl_known_services :: "ServiceItem list"
  sl_show_unknown_badge :: bool
  sl_os_display :: string
  sl_spec_display :: "spec_part list"
  sl_os_eol :: string
  sl_os_eol_status :: phase_cell
  sl_os_eol_display :: OsEolDisplay
  sl_recommendation_label :: "class_label option"
  sl_provisioning_class :: "recommendation option"
  sl_has_operational_event :: bool
  sl_os_distro :: string

text \<open>The outer option is the error of a broken catalogue date.\<close>

definition to_server_list_item ::
  "ServerSummary \<Rightarrow> ReportRowRaw option \<Rightarrow> int option \<Rightarrow> int set option \<Rightarrow> ServerListItem option" where
  "to_server_list_item dto raw_period today error_hosts =
     (let disk_bytes = disk_total_bytes (ss_block_devices dto);
          disk_gb = (if disk_bytes \<noteq> 0 then bytes_to_gb (Some disk_bytes) else None);
          known = map (\<lambda>cat. \<lparr>si_unit = [], si_sub = [], si_category = cat, si_ports = [], si_display_name = [],
                             si_category_count = 1\<rparr>)
                    (filter (\<lambda>cat. cat \<in> set SIGNATURE_CATEGORIES) (ss_service_categories dto));
          cls = map_option (\<lambda>raw. host_status_to_recommendation (host_status (rollup_host (build_resource_stats raw None)))) raw_period
      in map_option
           (\<lambda>info.
             \<lparr>sl_id = ss_id dto, sl_public_id = ss_public_id dto, sl_hostname = ss_hostname dto, sl_os_id = ss_os_id dto,
              sl_os_version = ss_os_version dto, sl_cpu_cores = ss_cpu_cores dto,
              sl_mem_total_gb = bytes_to_gib (ss_mem_total_bytes dto),
              sl_storage_total_gb = map_option (py_round 1) disk_gb, sl_is_online = False,
              sl_ip_external = ss_ip_external dto, sl_services = known, sl_known_services = known,
              sl_show_unknown_badge = False,
              sl_os_display = os_display (ss_os_id dto) (ss_os_version dto) (ss_kernel_version dto) (ss_product_name dto),
              sl_spec_display = spec_display_line (ss_cpu_cores dto) (ss_mem_total_bytes dto) (Some (ss_block_devices dto)),
              sl_os_eol = (case info of None \<Rightarrow> [] | Some i \<Rightarrow> eol_iso i),
              sl_os_eol_status =
                (case info of Some i \<Rightarrow> Phase (eol_status i) | None \<Rightarrow> if today = None then Phase_blank else Phase_unknown),
              sl_os_eol_display = (case info of None \<Rightarrow> os_eol_display None [] | Some i \<Rightarrow> os_eol_display (Some (eol_status i)) (eol_iso i)),
              sl_recommendation_label = map_option LABEL_KO cls, sl_provisioning_class = cls,
              sl_has_operational_event = is_some_and error_hosts (\<lambda>hs. ss_id dto \<in> hs),
              sl_os_distro = os_id_to_distro (ss_os_id dto)\<rparr>)
           (case today of
              None \<Rightarrow> Some None
            | Some t \<Rightarrow> lookup_os_eol (ss_os_id dto) (ss_os_version dto) (ss_kernel_version dto) t))"

section \<open>The inventory of a single report\<close>

record MemoryBreakdown =
  mb_used_pct :: "pyfloat option"
  mb_available_pct :: "pyfloat option"
  mb_cached_pct :: "pyfloat option"
  mb_buffers_pct :: "pyfloat option"

record CpuBreakdown =
  cb_user_pct :: "pyfloat option"
  cb_system_pct :: "pyfloat option"
  cb_iowait_pct :: "pyfloat option"

text \<open>The rows of the query have the same fields as the view models they become.\<close>

definition build_memory_breakdown :: "MemoryBreakdown \<Rightarrow> MemoryBreakdown" where
  "build_memory_breakdown raw =
     \<lparr>mb_used_pct = mb_used_pct raw, mb_available_pct = mb_available_pct raw, mb_cached_pct = mb_cached_pct raw,
      mb_buffers_pct = mb_buffers_pct raw\<rparr>"

definition build_cpu_breakdown :: "CpuBreakdown \<Rightarrow> CpuBreakdown" where
  "build_cpu_breakdown raw =
     \<lparr>cb_user_pct = cb_user_pct raw, cb_system_pct = cb_system_pct raw, cb_iowait_pct = cb_iowait_pct raw\<rparr>"

record ServerInventorySnapshot =
  iv_hostname :: string
  iv_os_display :: string
  iv_os_codename :: "string option"
  iv_kernel_version :: "string option"
  iv_cpu_model :: "string option"
  iv_cpu_cores :: "int option"
  iv_mem_total_gb :: "pyfloat option"
  iv_swap_total_gb :: "pyfloat option"
  iv_disk_total_gb :: "int option"
  iv_ip_internal :: "IpAddr list"
  iv_ip_external :: "IpAddr list"
  iv_boot_time :: "datetime option"
  iv_agent_started_at :: "datetime option"
  iv_last_seen_at :: "datetime option"
  iv_agent_version :: "string option"
  iv_composite_id :: "string option"
  iv_machine_id :: "string option"
  iv_is_online :: bool
  iv_public_id :: string
  iv_agent_id :: string
  iv_cpu_arch :: "string option"
  iv_cpu_bits :: "int option"
  iv_boot_firmware :: "string option"
  iv_secure_boot :: "bool option"
  iv_os_edition :: "string option"
  iv_timezone :: "string option"

definition build_server_inventory :: "ServerDetail \<Rightarrow> bool \<Rightarrow> ReportRowRaw option \<Rightarrow> ServerInventorySnapshot" where
  "build_server_inventory d is_online raw =
     \<lparr>iv_hostname = sd_hostname d,
      iv_os_display = os_display (sd_os_id d) (sd_os_version d) (sd_kernel_version d) (sd_product_name d),
      iv_os_codename = sd_os_codename d, iv_kernel_version = sd_kernel_version d, iv_cpu_model = sd_cpu_model d,
      iv_cpu_cores = sd_cpu_cores d, iv_mem_total_gb = bytes_to_gib (sd_mem_total_bytes d),
      iv_swap_total_gb = bytes_to_gib (Some (swap_total_bytes (sd_block_devices d))),
      iv_disk_total_gb =
        Some (py_int (case bytes_to_gb (Some (disk_total_bytes (sd_block_devices d))) of None \<Rightarrow> 0 | Some g \<Rightarrow> g)),
      iv_ip_internal = to_ip_addrs (sd_net_interfaces d), iv_ip_external = ext_ip_addrs (sd_ip_external d),
      iv_boot_time = sd_boot_time d, iv_agent_started_at = sd_agent_started_at d, iv_last_seen_at = sd_last_seen_at d,
      iv_agent_version = sd_agent_version d, iv_composite_id = sd_composite_id d, iv_machine_id = sd_machine_id d,
      iv_is_online = is_online, iv_public_id = sd_public_id d, iv_agent_id = sd_agent_id d,
      iv_cpu_arch = sd_cpu_arch d, iv_cpu_bits = sd_cpu_bits d,
      iv_boot_firmware = Option.bind raw rr_boot_firmware, iv_secure_boot = Option.bind raw rr_secure_boot,
      iv_os_edition = Option.bind raw rr_edition, iv_timezone = Option.bind raw rr_timezone\<rparr>"

end
