(* ===== verification/CacheSerde.thy ===== *)
theory CacheSerde
  imports ServerPages PyDateTime
begin

text \<open>
  The cached page of a server: \<open>web/services/cache_serializer.py\<close> and \<open>web/services/serialization.py\<close> at the level
  of JSON values.  What is read back is typed here: a value of another type, which the code would carry on, is
  an error, None.  The fields the pages derive are not trusted but computed again.
\<close>

section \<open>Writing\<close>

definition opt_json :: "('a \<Rightarrow> json) \<Rightarrow> 'a option \<Rightarrow> json" where
  "opt_json f x = (case x of None \<Rightarrow> JNull | Some v \<Rightarrow> f v)"

text \<open>\<open>json_default\<close>: an instant is its ISO text.\<close>

definition json_date :: "datetime \<Rightarrow> json" where
  "json_date t = JStr (isoformat t)"

definition ip_json :: "IpAddr \<Rightarrow> json" where
  "ip_json a = JObj [(''value'', JStr (ia_value a)), (''is_ipv4'', JBool (ia_is_ipv4 a))]"

definition disk_json :: "DiskItem \<Rightarrow> json" where
  "disk_json d = JObj [(''name'', JStr (di_name d)), (''size_gb'', opt_json JFloat (di_size_gb d))]"

definition volume_json :: "VolumeItem \<Rightarrow> json" where
  "volume_json v =
     JObj [(''mount'', JStr (vo_mount v)), (''fstype'', opt_json JStr (vo_fstype v)),
           (''total_gb'', opt_json JFloat (vo_total_gb v))]"

definition port_json :: "MatchedPort \<Rightarrow> json" where
  "port_json p = JObj [(''proto'', JStr (mp_proto p)), (''port'', JInt (mp_port p))]"

definition service_json :: "ServiceItem \<Rightarrow> json" where
  "service_json s =
     JObj [(''unit'', JStr (si_unit s)), (''sub'', JStr (si_sub s)), (''category'', JStr (si_category s)),
           (''ports'', JList (map port_json (si_ports s))), (''display_name'', JStr (si_display_name s)),
           (''category_count'', JInt (si_category_count s))]"

definition listen_json :: "ListenPortItem \<Rightarrow> json" where
  "listen_json p =
     JObj [(''proto'', JStr (lp_proto p)), (''addr'', JStr (lp_addr p)), (''port'', JInt (lp_port p)),
           (''uid'', opt_json JInt (lp_uid p)), (''pid'', opt_json JInt (lp_pid p)), (''comm'', opt_json JStr (lp_comm p)),
           (''is_significant'', JBool (lp_is_significant p))]"

definition server_detail_to_json :: "ServerDetailResponse \<Rightarrow> json" where
  "server_detail_to_json v =
     JObj [(''id'', JInt (dt_id v)), (''public_id'', JStr (dt_public_id v)), (''agent_id'', JStr (dt_agent_id v)),
           (''composite_id'', opt_json JStr (dt_composite_id v)), (''machine_id'', opt_json JStr (dt_machine_id v)),
           (''hostname'', JStr (dt_hostname v)), (''agent_version'', opt_json JStr (dt_agent_version v)),
           (''os_family'', opt_json JStr (dt_os_family v)), (''os_id'', opt_json JStr (dt_os_id v)),
           (''os_version'', opt_json JStr (dt_os_version v)), (''os_codename'', opt_json JStr (dt_os_codename v)),
           (''kernel_version'', opt_json JStr (dt_kernel_version v)), (''cpu_cores'', opt_json JInt (dt_cpu_cores v)),
           (''cpu_model'', opt_json JStr (dt_cpu_model v)), (''cpu_arch'', opt_json JStr (dt_cpu_arch v)),
           (''cpu_bits'', opt_json JInt (dt_cpu_bits v)), (''mem_total_gb'', opt_json JFloat (dt_mem_total_gb v)),
           (''swap_total_gb'', opt_json JFloat (dt_swap_total_gb v)), (''boot_time'', opt_json json_date (dt_boot_time v)),
           (''agent_started_at'', opt_json json_date (dt_agent_started_at v)),
           (''ip_internal'', JList (map ip_json (dt_ip_internal v))),
           (''ip_external'', opt_json (\<lambda>xs. JList (map ip_json xs)) (dt_ip_external v)),
           (''disks'', JList (map disk_json (dt_disks v))),
           (''services'', opt_json (\<lambda>xs. JList (map service_json xs)) (dt_services v)),
           (''listen_ports'', JList (map listen_json (dt_listen_ports v))),
           (''last_seen_at'', opt_json json_date (dt_last_seen_at v)),
           (''product_name'', opt_json JStr (dt_product_name v)), (''edition'', opt_json JStr (dt_edition v)),
           (''sorted_services'', JList (map service_json (dt_sorted_services v))),
           (''sorted_listen_ports'', JList (map listen_json (dt_sorted_listen_ports v))),
           (''known_services'', JList (map service_json (dt_known_services v))),
           (''show_unknown_badge'', JBool (dt_show_unknown_badge v)),
           (''key_listen_ports'', JList (map listen_json (dt_key_listen_ports v))),
           (''os_display'', JStr (dt_os_display v)), (''cpu_display'', JStr (dt_cpu_display v)),
           (''disk_total_gb'', opt_json JFloat (dt_disk_total_gb v)),
           (''disk_unallocated_gb'', opt_json JFloat (dt_disk_unallocated_gb v)),
           (''services_count'', JInt (dt_services_count v)), (''listen_ports_count'', JInt (dt_listen_ports_count v)),
           (''disks_count'', JInt (dt_disks_count v)), (''volumes'', JList (map volume_json (dt_volumes v))),
           (''volume_total_gb'', opt_json JFloat (dt_volume_total_gb v)), (''volumes_count'', JInt (dt_volumes_count v))]"

section \<open>Reading\<close>

definition rd_str :: "json \<Rightarrow> string option" where "rd_str j = (case j of JStr s \<Rightarrow> Some s | _ \<Rightarrow> None)"
definition rd_int :: "json \<Rightarrow> int option" where "rd_int j = (case j of JInt n \<Rightarrow> Some n | _ \<Rightarrow> None)"
definition rd_bool :: "json \<Rightarrow> bool option" where "rd_bool j = (case j of JBool b \<Rightarrow> Some b | _ \<Rightarrow> None)"
definition rd_float :: "json \<Rightarrow> pyfloat option" where "rd_float j = (case j of JFloat x \<Rightarrow> Some x | _ \<Rightarrow> None)"

definition rd_opt :: "(json \<Rightarrow> 'a option) \<Rightarrow> json \<Rightarrow> 'a option option" where
  "rd_opt rd j = (case j of JNull \<Rightarrow> Some None | _ \<Rightarrow> map_option Some (rd j))"

definition rd_date :: "json \<Rightarrow> datetime option" where
  "rd_date j = (case j of JStr s \<Rightarrow> fromisoformat s | _ \<Rightarrow> None)"

text \<open>\<open>json_list\<close>: a missing or null member is the empty list.\<close>

definition rd_items :: "(json \<Rightarrow> 'a option) \<Rightarrow> json \<Rightarrow> string \<Rightarrow> 'a list option" where
  "rd_items rd d k =
     (case json_get k d of
        None \<Rightarrow> Some [] | Some JNull \<Rightarrow> Some [] | Some (JList xs) \<Rightarrow> all_some (map rd xs) | _ \<Rightarrow> None)"

definition rd_list :: "(json \<Rightarrow> 'a option) \<Rightarrow> json \<Rightarrow> 'a list option" where
  "rd_list rd j = (case j of JList xs \<Rightarrow> all_some (map rd xs) | _ \<Rightarrow> None)"

text \<open>A member that must be there, and one with a default.\<close>

definition req :: "json \<Rightarrow> string \<Rightarrow> (json \<Rightarrow> 'a option) \<Rightarrow> 'a option" where
  "req d k rd = Option.bind (json_get k d) rd"

definition dflt :: "json \<Rightarrow> string \<Rightarrow> 'a \<Rightarrow> (json \<Rightarrow> 'a option) \<Rightarrow> 'a option" where
  "dflt d k v rd = (case json_get k d of None \<Rightarrow> Some v | Some j \<Rightarrow> rd j)"

definition ip_of :: "json \<Rightarrow> IpAddr option" where
  "ip_of d = do { v \<leftarrow> req d ''value'' rd_str; b \<leftarrow> req d ''is_ipv4'' rd_bool; Some \<lparr>ia_value = v, ia_is_ipv4 = b\<rparr> }"

definition disk_of :: "json \<Rightarrow> DiskItem option" where
  "disk_of d = do { n \<leftarrow> req d ''name'' rd_str; g \<leftarrow> dflt d ''size_gb'' None (rd_opt rd_float);
     Some \<lparr>di_name = n, di_size_gb = g\<rparr> }"

definition volume_of :: "json \<Rightarrow> VolumeItem option" where
  "volume_of d = do { m \<leftarrow> req d ''mount'' rd_str; f \<leftarrow> req d ''fstype'' (rd_opt rd_str);
     g \<leftarrow> req d ''total_gb'' (rd_opt rd_float); Some \<lparr>vo_mount = m, vo_fstype = f, vo_total_gb = g\<rparr> }"

definition port_of :: "json \<Rightarrow> MatchedPort option" where
  "port_of d = do { p \<leftarrow> req d ''proto'' rd_str; n \<leftarrow> req d ''port'' rd_int; Some \<lparr>mp_proto = p, mp_port = n\<rparr> }"

definition service_of :: "json \<Rightarrow> ServiceItem option" where
  "service_of d = do {
     u \<leftarrow> req d ''unit'' rd_str; s \<leftarrow> req d ''sub'' rd_str;
     c \<leftarrow> dflt d ''category'' None (rd_opt rd_str); ps \<leftarrow> rd_items port_of d ''ports'';
     n \<leftarrow> dflt d ''display_name'' None (rd_opt rd_str); k \<leftarrow> dflt d ''category_count'' 1 rd_int;
     Some \<lparr>si_unit = u, si_sub = s, si_category = str_or c ''unknown'', si_ports = ps,
           si_display_name = str_or n (removesuffix service_suffix u), si_category_count = k\<rparr> }"

definition listen_of :: "json \<Rightarrow> ListenPortItem option" where
  "listen_of d = do {
     p \<leftarrow> req d ''proto'' rd_str; a \<leftarrow> req d ''addr'' rd_str; n \<leftarrow> req d ''port'' rd_int;
     u \<leftarrow> dflt d ''uid'' None (rd_opt rd_int); i \<leftarrow> dflt d ''pid'' None (rd_opt rd_int);
     c \<leftarrow> dflt d ''comm'' None (rd_opt rd_str); b \<leftarrow> dflt d ''is_significant'' (n < DYNAMIC_PORT_MIN) rd_bool;
     Some \<lparr>lp_proto = p, lp_addr = a, lp_port = n, lp_uid = u, lp_pid = i, lp_comm = c, lp_is_significant = b\<rparr> }"

definition DETAIL_DISPLAY_FIELDS :: "string list" where
  "DETAIL_DISPLAY_FIELDS =
     [''known_services'', ''show_unknown_badge'', ''key_listen_ports'', ''os_display'', ''cpu_display'',
      ''sorted_services'', ''sorted_listen_ports'', ''services_count'', ''listen_ports_count'', ''disks_count'',
      ''volumes_count'']"

text \<open>The other fields of the view model; a key beyond them is an unexpected keyword.\<close>

definition DETAIL_FIELDS :: "string list" where
  "DETAIL_FIELDS =
     [''id'', ''public_id'', ''agent_id'', ''composite_id'', ''machine_id'', ''hostname'', ''agent_version'', ''os_family'',
      ''os_id'', ''os_version'', ''os_codename'', ''kernel_version'', ''cpu_cores'', ''cpu_model'', ''cpu_arch'', ''cpu_bits'',
      ''mem_total_gb'', ''swap_total_gb'', ''boot_time'', ''agent_started_at'', ''ip_internal'', ''ip_external'', ''disks'',
      ''services'', ''listen_ports'', ''last_seen_at'', ''product_name'', ''edition'', ''disk_total_gb'',
      ''disk_unallocated_gb'', ''volumes'', ''volume_total_gb'']"

definition known_keys :: "json \<Rightarrow> bool" where
  "known_keys d =
     (case d of JObj kvs \<Rightarrow> list_all (\<lambda>(k, _). k \<in> set DETAIL_FIELDS \<or> k \<in> set DETAIL_DISPLAY_FIELDS) kvs | _ \<Rightarrow> False)"

definition stored_detail :: "json \<Rightarrow> ServerDetailResponse option" where
  "stored_detail d = do {
     v_id \<leftarrow> req d ''id'' rd_int; public_id \<leftarrow> dflt d ''public_id'' [] rd_str; agent_id \<leftarrow> dflt d ''agent_id'' [] rd_str;
     composite_id \<leftarrow> dflt d ''composite_id'' None (rd_opt rd_str); machine_id \<leftarrow> dflt d ''machine_id'' None (rd_opt rd_str);
     hostname \<leftarrow> req d ''hostname'' rd_str; agent_version \<leftarrow> req d ''agent_version'' (rd_opt rd_str);
     os_fam \<leftarrow> dflt d ''os_family'' None (rd_opt rd_str); os_id \<leftarrow> req d ''os_id'' (rd_opt rd_str);
     os_version \<leftarrow> req d ''os_version'' (rd_opt rd_str); os_codename \<leftarrow> req d ''os_codename'' (rd_opt rd_str);
     kernel_version \<leftarrow> req d ''kernel_version'' (rd_opt rd_str); cores \<leftarrow> req d ''cpu_cores'' (rd_opt rd_int);
     cpu_model \<leftarrow> req d ''cpu_model'' (rd_opt rd_str); cpu_arch \<leftarrow> req d ''cpu_arch'' (rd_opt rd_str);
     cpu_bits \<leftarrow> req d ''cpu_bits'' (rd_opt rd_int); mem_gb \<leftarrow> req d ''mem_total_gb'' (rd_opt rd_float);
     swap_gb \<leftarrow> req d ''swap_total_gb'' (rd_opt rd_float); boot \<leftarrow> req d ''boot_time'' (rd_opt rd_date);
     started \<leftarrow> req d ''agent_started_at'' (rd_opt rd_date); ips \<leftarrow> rd_items ip_of d ''ip_internal'';
     ext \<leftarrow> req d ''ip_external'' (rd_opt (rd_list ip_of)); disks \<leftarrow> rd_items disk_of d ''disks'';
     svcs \<leftarrow> dflt d ''services'' None (rd_opt (rd_list service_of)); listen \<leftarrow> rd_items listen_of d ''listen_ports'';
     seen \<leftarrow> req d ''last_seen_at'' (rd_opt rd_date); product_name \<leftarrow> dflt d ''product_name'' None (rd_opt rd_str);
     edition \<leftarrow> dflt d ''edition'' None (rd_opt rd_str); disk_gb \<leftarrow> dflt d ''disk_total_gb'' None (rd_opt rd_float);
     free_gb \<leftarrow> dflt d ''disk_unallocated_gb'' None (rd_opt rd_float); vols \<leftarrow> rd_items volume_of d ''volumes'';
     vol_gb \<leftarrow> dflt d ''volume_total_gb'' None (rd_opt rd_float);
     Some \<lparr>dt_id = v_id, dt_public_id = public_id, dt_agent_id = agent_id, dt_composite_id = composite_id,
       dt_machine_id = machine_id, dt_hostname = hostname, dt_agent_version = agent_version, dt_os_family = os_fam,
       dt_os_id = os_id, dt_os_version = os_version, dt_os_codename = os_codename, dt_kernel_version = kernel_version,
       dt_cpu_cores = cores, dt_cpu_model = cpu_model, dt_cpu_arch = cpu_arch, dt_cpu_bits = cpu_bits,
       dt_mem_total_gb = mem_gb, dt_swap_total_gb = swap_gb, dt_boot_time = boot, dt_agent_started_at = started,
       dt_ip_internal = ips, dt_ip_external = ext, dt_disks = disks, dt_services = svcs, dt_listen_ports = listen,
       dt_last_seen_at = seen, dt_product_name = product_name, dt_edition = edition, dt_disk_total_gb = disk_gb,
       dt_disk_unallocated_gb = free_gb, dt_volumes = vols, dt_volume_total_gb = vol_gb,
       dt_sorted_services = [], dt_sorted_listen_ports = [], dt_known_services = [], dt_show_unknown_badge = False,
       dt_key_listen_ports = [], dt_os_display = [], dt_cpu_display = [], dt_services_count = 0,
       dt_listen_ports_count = 0, dt_disks_count = 0, dt_volumes_count = 0\<rparr> }"

definition server_detail_from_json :: "json \<Rightarrow> ServerDetailResponse option" where
  "server_detail_from_json d = (if known_keys d then map_option enrich_server_detail (stored_detail d) else None)"

end
