(* ===== verification/ServerQuery.thy ===== *)
theory ServerQuery
  imports CacheSerde EnvironmentViews Handlers
begin

text \<open>
  The queries behind the pages of the servers: \<open>web/services/query/_base.py\<close>, \<open>web/services/query/server.py\<close>
  and \<open>web/services/query/metric.py\<close>.  What the repository answers is an argument; the Redis server is the
  model of \<open>cache/redis.py\<close>.
\<close>

section \<open>Baselines and the online flag\<close>

record NetIoBaselineRaw =
  nb_rx_kbps_baseline :: "pyfloat option"
  nb_tx_kbps_baseline :: "pyfloat option"
  nb_rx_p95 :: "pyfloat option"
  nb_rx_peak :: "pyfloat option"
  nb_tx_p95 :: "pyfloat option"
  nb_tx_peak :: "pyfloat option"

text \<open>\<open>replace(raw, **_net_baseline_fields(net))\<close>: without a baseline the row stays.\<close>

definition net_baseline_fields :: "NetIoBaselineRaw option \<Rightarrow> ReportRowRaw \<Rightarrow> ReportRowRaw" where
  "net_baseline_fields net raw =
     (case net of
        None \<Rightarrow> raw
      | Some n \<Rightarrow>
          raw\<lparr>rr_net_rx_kbps := nb_rx_kbps_baseline n, rr_net_tx_kbps := nb_tx_kbps_baseline n,
              rr_net_rx_kbps_p95 := nb_rx_p95 n, rr_net_rx_kbps_peak := nb_rx_peak n,
              rr_net_tx_kbps_p95 := nb_tx_p95 n, rr_net_tx_kbps_peak := nb_tx_peak n\<rparr>)"

definition with_net_baseline :: "(int \<rightharpoonup> NetIoBaselineRaw) \<Rightarrow> ReportRowRaw list \<Rightarrow> ReportRowRaw list" where
  "with_net_baseline net_io raws = map (\<lambda>raw. net_baseline_fields (net_io (rr_server_id raw)) raw) raws"

text \<open>Seen after the threshold: \<open>bool(seen and seen > threshold)\<close>.\<close>

definition seen_after :: "datetime option \<Rightarrow> datetime \<Rightarrow> bool" where
  "seen_after seen threshold_at = is_some_and seen (\<lambda>t. t > threshold_at)"

definition online_threshold :: "datetime \<Rightarrow> datetime" where
  "online_threshold now = now - redis_ttl_online * 1000000"

definition online_map :: "int list \<Rightarrow> ServerDetail list \<Rightarrow> datetime \<Rightarrow> redis \<Rightarrow> (int \<rightharpoonup> bool) \<times> redis" where
  "online_map server_ids details now r =
     (case safe_mget (map (\<lambda>sid. redis_key_online (show_int sid)) server_ids) r of
        (None, r1) \<Rightarrow>
          (map_of (rev (map (\<lambda>d. (sd_id d, seen_after (sd_last_seen_at d) (online_threshold now))) details)), r1)
      | (Some flags, r1) \<Rightarrow> (map_of (rev (zip server_ids (map (\<lambda>f. f \<noteq> None) flags))), r1))"

definition is_online_flag :: "int \<Rightarrow> redis \<Rightarrow> bool \<times> redis" where
  "is_online_flag server_id r =
     (let (flag, r1) = safe_get (redis_key_online (show_int server_id)) r in (flag \<noteq> None, r1))"

section \<open>Identifiers\<close>

definition redis_key_cache_resolve :: "string \<Rightarrow> string" where
  "redis_key_cache_resolve x = ''cache:resolve:'' @ x"

text \<open>\<open>int(cached)\<close> of a value that is no number raises, the outer None.\<close>

definition resolve_server_id :: "(string \<rightharpoonup> int) \<Rightarrow> string \<Rightarrow> redis \<Rightarrow> (int option) option \<times> redis" where
  "resolve_server_id repo public_id r =
     (let key = redis_key_cache_resolve public_id; (cached, r1) = safe_get key r in
      case nonblank cached of
        Some c \<Rightarrow> (map_option Some (parse_int c), r1)
      | None \<Rightarrow>
          (case repo public_id of
             None \<Rightarrow> (Some None, r1)
           | Some sid \<Rightarrow> (Some (Some sid), snd (safe_set key (show_int sid) None r1))))"

definition resolve_server_ids_of :: "(string \<rightharpoonup> int) \<Rightarrow> string list \<Rightarrow> string \<rightharpoonup> int" where
  "resolve_server_ids_of repo public_ids = repo |` set public_ids"

section \<open>The list of servers\<close>

fun class_key :: "recommendation \<Rightarrow> string" where
  "class_key Rec_idle = ''idle''"
| "class_key Rec_over_provisioned = ''over_provisioned''"
| "class_key Rec_under_provisioned = ''under_provisioned''"
| "class_key Rec_optimal = ''optimal''"
| "class_key Rec_insufficient_data = ''insufficient_data''"

record ListFilter =
  lf_is_online :: "bool option"
  lf_service :: "string option"
  lf_os_distro :: "string option"
  lf_classification :: "string option"
  lf_os_eol :: "string option"

definition provisioning_key :: "ServerListItem \<Rightarrow> string" where
  "provisioning_key i = (case sl_provisioning_class i of None \<Rightarrow> [] | Some c \<Rightarrow> class_key c)"

text \<open>The three ways to ask for the support phase; any other text asks for nothing.\<close>

definition eol_matches :: "string option \<Rightarrow> ServerListItem \<Rightarrow> bool" where
  "eol_matches os_eol i =
     (if os_eol = Some ''unknown'' then sl_os_eol_status i = Phase_unknown
      else if os_eol = Some ''eol'' then sl_os_eol_status i \<in> {Phase Paid_only, Phase Ended}
      else if os_eol = Some ''supported'' then sl_os_eol_status i \<in> {Phase Full, Phase Security_only}
      else True)"

definition passes :: "ListFilter \<Rightarrow> ServerListItem \<Rightarrow> bool" where
  "passes f i =
     ((case lf_is_online f of None \<Rightarrow> True | Some b \<Rightarrow> sl_is_online i = b) \<and>
      (case nonblank (lf_service f) of None \<Rightarrow> True | Some c \<Rightarrow> list_ex (\<lambda>s. si_category s = c) (sl_known_services i)) \<and>
      (case nonblank (lf_os_distro f) of None \<Rightarrow> True | Some x \<Rightarrow> sl_os_distro i = x) \<and>
      (case nonblank (lf_classification f) of None \<Rightarrow> True | Some c \<Rightarrow> provisioning_key i = c) \<and>
      eol_matches (lf_os_eol f) i)"

definition list_order :: "ServerListItem \<Rightarrow> bool \<times> string" where
  "list_order i = (\<not> sl_is_online i, str_lower (sl_hostname i))"

text \<open>One row with its online flag; None is the error of a broken catalogue date.\<close>

definition list_item ::
  "ReportRowRaw list \<Rightarrow> datetime \<Rightarrow> int set \<Rightarrow> ServerSummary \<times> bool \<Rightarrow> ServerListItem option" where
  "list_item raws now error_hosts p =
     (case p of (dto, on) \<Rightarrow>
        map_option (\<lambda>i. i\<lparr>sl_is_online := on\<rparr>)
          (to_server_list_item dto (map_of (rev (map (\<lambda>x. (rr_server_id x, x)) raws)) (ss_id dto))
             (Some (date_of now)) (Some error_hosts)))"

definition online_flags_of :: "ServerSummary list \<Rightarrow> datetime \<Rightarrow> redis \<Rightarrow> bool list \<times> redis" where
  "online_flags_of dtos now r =
     (case safe_mget (map (\<lambda>d. redis_key_online (show_int (ss_id d))) dtos) r of
        (None, r1) \<Rightarrow> (map (\<lambda>d. seen_after (ss_last_seen_at d) (online_threshold now)) dtos, r1)
      | (Some flags, r1) \<Rightarrow> (map (\<lambda>f. f \<noteq> None) flags, r1))"

definition list_servers ::
  "ServerSummary list \<Rightarrow> ReportRowRaw list \<Rightarrow> (int \<rightharpoonup> NetIoBaselineRaw) \<Rightarrow> int set \<Rightarrow> datetime \<Rightarrow> ListFilter \<Rightarrow> redis
     \<Rightarrow> ServerListItem list option \<times> redis" where
  "list_servers dtos raws_period net_io error_hosts now f r =
     (if dtos = [] then (Some [], r)
      else
        (let (flags, r1) = online_flags_of dtos now r;
             raws = with_net_baseline net_io raws_period
         in (map_option (\<lambda>items. sort_key list_order (filter (passes f) items))
               (all_some (map (list_item raws now error_hosts) (zip dtos flags))), r1)))"

section \<open>The pages of one server\<close>

definition redis_ttl_cache_detail :: int where "redis_ttl_cache_detail = 300"

text \<open>
  The text of a cached page is \<open>json.dumps\<close> of its JSON value, read by \<open>json.loads\<close>; both are arguments.  A cached
  text that is no page raises, the outer None.
\<close>

definition cached_detail ::
  "(string \<Rightarrow> json) \<Rightarrow> int \<Rightarrow> redis \<Rightarrow> ServerDetailResponse option option \<times> redis" where
  "cached_detail of_text server_id r =
     (let (cached, r1) = safe_get (redis_key_cache_inventory (show_int server_id)) r in
      (map_option (\<lambda>c. server_detail_from_json (of_text c)) (nonblank cached), r1))"

definition store_detail :: "(json \<Rightarrow> string) \<Rightarrow> int \<Rightarrow> ServerDetail \<Rightarrow> redis \<Rightarrow> redis" where
  "store_detail to_text server_id dto r =
     snd (safe_set (redis_key_cache_inventory (show_int server_id)) (to_text (server_detail_to_json (to_server_detail dto)))
            (Some redis_ttl_cache_detail) r)"

definition get_server ::
  "(json \<Rightarrow> string) \<Rightarrow> (string \<Rightarrow> json) \<Rightarrow> (int \<rightharpoonup> ServerDetail) \<Rightarrow> int \<Rightarrow> redis
     \<Rightarrow> ServerDetailResponse option option \<times> redis" where
  "get_server to_text of_text repo server_id r =
     (case cached_detail of_text server_id r of
        (Some v, r1) \<Rightarrow> (map_option Some v, r1)
      | (None, r1) \<Rightarrow>
          (case repo server_id of
             None \<Rightarrow> (Some None, r1)
           | Some dto \<Rightarrow> (Some (Some (to_server_detail dto)), store_detail to_text server_id dto r1)))"

record ServerStabilitySignals =
  sg_reboot_count :: int
  sg_agent_restart_count :: int
  sg_os_eol_label :: "(string \<times> eol_status) option"

definition get_server_stability ::
  "(int \<rightharpoonup> int) \<Rightarrow> (int \<rightharpoonup> int) \<Rightarrow> ServerDetailResponse \<Rightarrow> datetime \<Rightarrow> ServerStabilitySignals option" where
  "get_server_stability uptime restart d end_dt =
     map_option
       (\<lambda>info. \<lparr>sg_reboot_count = (case uptime (dt_id d) of None \<Rightarrow> 0 | Some n \<Rightarrow> n),
                sg_agent_restart_count = (case restart (dt_id d) of None \<Rightarrow> 0 | Some n \<Rightarrow> n),
                sg_os_eol_label = map_option (\<lambda>i. (eol_iso i, eol_status i)) info\<rparr>)
       (lookup_os_eol (dt_os_id d) (dt_os_version d) (dt_kernel_version d) (date_of end_dt))"

definition get_period_assessment ::
  "ReportRowRaw list \<Rightarrow> (int \<rightharpoonup> NetIoBaselineRaw) \<Rightarrow> ErrorFleetRaw \<Rightarrow> PeriodAssessment option" where
  "get_period_assessment raws net_io err =
     (case with_net_baseline net_io raws of
        [] \<Rightarrow> None
      | raw # _ \<Rightarrow>
          Some (build_period_assessment (build_resource_stats raw None) (build_error_signals err (rr_os_family raw))
            (rr_disk_capacity_worst_mount raw) (Some WINDOW_DAYS)))"

definition get_storage :: "StorageWithUsage option \<Rightarrow> StorageDetailResponse option" where
  "get_storage dto = Option.bind dto to_storage_detail"

definition get_network :: "NetworkWithIo option \<Rightarrow> NetworkDetailResponse option" where
  "get_network dto = map_option to_network_detail dto"

record CollectionStatus =
  co_last_metric_at :: "datetime option"
  co_last_inventory_at :: "datetime option"

record CollectionStatusItem = CollectionStatus +
  co_is_online :: bool

definition to_collection_status_item :: "CollectionStatus \<Rightarrow> bool \<Rightarrow> CollectionStatusItem" where
  "to_collection_status_item dto is_online =
     \<lparr>co_last_metric_at = co_last_metric_at dto, co_last_inventory_at = co_last_inventory_at dto, co_is_online = is_online\<rparr>"

definition get_collection_status :: "CollectionStatus option \<Rightarrow> int \<Rightarrow> redis \<Rightarrow> CollectionStatusItem option \<times> redis" where
  "get_collection_status dto server_id r =
     (case dto of
        None \<Rightarrow> (None, r)
      | Some x \<Rightarrow> let (on, r1) = is_online_flag server_id r in (Some (to_collection_status_item x on), r1))"

section \<open>The latest metrics\<close>

text \<open>The dashboard and the four lists of signals the code attaches to it.\<close>

type_synonym live_snapshot = "MetricDashboard \<times> (string \<times> SaturationSignal list) list"

definition live_snapshot_of :: "DashboardRaw \<Rightarrow> SaturationRaw \<Rightarrow> live_snapshot" where
  "live_snapshot_of raw sat =
     (let d = build_dashboard raw;
          cur = (case db_metrics raw of c # _ \<Rightarrow> Some c | _ \<Rightarrow> None)
      in (d, build_saturation_signals (db_os_family raw) (db_kernel_version raw) (Option.bind cur mp_cpu_run_queue)
               (Option.bind cur mp_cpu_logical_count) (Option.bind (da_cpu d) cs_steal_pct) sat
               (Option.bind cur mp_cpu_blocked)))"

text \<open>What \<open>latest_metric\<close> computes when the cache has nothing; the cached dashboard is not modelled.\<close>

definition latest_metric ::
  "DashboardRaw option \<Rightarrow> (int \<rightharpoonup> SaturationRaw) \<Rightarrow> int \<Rightarrow> SaturationRaw option \<Rightarrow> live_snapshot option" where
  "latest_metric latest_dashboard latest_saturation server_id saturation =
     (case latest_dashboard of
        None \<Rightarrow> None
      | Some raw \<Rightarrow>
          if db_metrics raw = [] then None
          else Some (live_snapshot_of raw
                 (case saturation of
                    Some s \<Rightarrow> s
                  | None \<Rightarrow> (case latest_saturation server_id of Some s \<Rightarrow> s | None \<Rightarrow> no_saturation))))"

record MetricSeries =
  me_collected_at :: datetime
  me_value :: "pyfloat option"
  me_dimension :: "string option"

definition to_metric_series_item :: "MetricSeries \<Rightarrow> MetricSeries" where
  "to_metric_series_item dto =
     \<lparr>me_collected_at = me_collected_at dto, me_value = map_option fl (me_value dto), me_dimension = me_dimension dto\<rparr>"

end
