(* ===== verification/CacheSerdeProps.thy ===== *)
theory CacheSerdeProps
  imports CacheSerde
begin

text \<open>What is written to the cache is read back, and the derived fields come out the same.\<close>

lemmas readers = rd_str_def rd_int_def rd_bool_def rd_float_def rd_opt_def rd_date_def rd_list_def req_def dflt_def json_get_def

lemma all_some_written: "(\<And>x. x \<in> set xs \<Longrightarrow> rd (wr x) = Some x) \<Longrightarrow> all_some (map rd (map wr xs)) = Some xs"
  by (induction xs) simp_all

lemma opt_read [simp]:
  "rd_opt rd_str (opt_json JStr x) = Some x" "rd_opt rd_int (opt_json JInt i) = Some i"
  "rd_opt rd_float (opt_json JFloat g) = Some g"
  by (simp_all add: opt_json_def readers split: option.split)

lemma opt_list_read:
  assumes "\<And>xs. ys = Some xs \<Longrightarrow> rd_list rd (JList (map wr xs)) = Some xs"
  shows "rd_opt (rd_list rd) (opt_json (\<lambda>xs. JList (map wr xs)) ys) = Some ys"
  using assms by (cases ys) (simp_all add: opt_json_def rd_opt_def)

lemma opt_date_read [simp]: "pred_option in_calendar t \<Longrightarrow> rd_opt rd_date (opt_json json_date t) = Some t"
  by (cases t) (simp_all add: opt_json_def json_date_def rd_opt_def rd_date_def isoformat_text)

lemma items_read [simp]:
  "ip_of (ip_json a) = Some a" "disk_of (disk_json d) = Some d" "volume_of (volume_json v) = Some v"
  "port_of (port_json p) = Some p" "listen_of (listen_json l) = Some l"
  by (simp_all add: ip_of_def ip_json_def disk_of_def disk_json_def volume_of_def volume_json_def port_of_def port_json_def
      listen_of_def listen_json_def req_def dflt_def json_get_def rd_str_def [of "JStr _"] rd_int_def [of "JInt _"]
      rd_bool_def [of "JBool _"])

text \<open>A service whose category has a name and whose shown name is that of its unit.\<close>

definition plain_service :: "ServiceItem \<Rightarrow> bool" where
  "plain_service s = (si_category s \<noteq> [] \<and> si_display_name s = removesuffix service_suffix (si_unit s))"

lemma service_read [simp]:
  assumes "plain_service s" shows "service_of (service_json s) = Some s"
proof -
  have "all_some (map port_of (map port_json (si_ports s))) = Some (si_ports s)" by (rule all_some_written) simp
  then have ports: "rd_items port_of (service_json s) ''ports'' = Some (si_ports s)"
    by (simp add: rd_items_def service_json_def json_get_def del: map_map)
  have "req (service_json s) ''unit'' rd_str = Some (si_unit s)" "req (service_json s) ''sub'' rd_str = Some (si_sub s)"
    "dflt (service_json s) ''category'' None (rd_opt rd_str) = Some (Some (si_category s))"
    "dflt (service_json s) ''display_name'' None (rd_opt rd_str) = Some (Some (si_display_name s))"
    "dflt (service_json s) ''category_count'' 1 rd_int = Some (si_category_count s)"
    by (simp_all add: service_json_def readers)
  then show ?thesis
    using assms ports by (simp add: service_of_def str_or_def plain_service_def)
qed

lemma ips_read [simp]: "all_some (map ip_of (map ip_json as)) = Some as" by (rule all_some_written) simp
lemma disks_read [simp]: "all_some (map disk_of (map disk_json ds)) = Some ds" by (rule all_some_written) simp
lemma volumes_read [simp]: "all_some (map volume_of (map volume_json vs)) = Some vs" by (rule all_some_written) simp
lemma listens_read [simp]: "all_some (map listen_of (map listen_json ls)) = Some ls" by (rule all_some_written) simp

lemma services_read [simp]:
  assumes "list_all plain_service ss" shows "all_some (map service_of (map service_json ss)) = Some ss"
  by (rule all_some_written) (use assms in \<open>simp add: list_all_iff\<close>)

definition display_reset :: "ServerDetailResponse \<Rightarrow> ServerDetailResponse" where
  "display_reset d =
     d\<lparr>dt_sorted_services := [], dt_sorted_listen_ports := [], dt_known_services := [], dt_show_unknown_badge := False,
       dt_key_listen_ports := [], dt_os_display := [], dt_cpu_display := [], dt_services_count := 0,
       dt_listen_ports_count := 0, dt_disks_count := 0, dt_volumes_count := 0\<rparr>"

lemma enrich_reset: "enrich_server_detail (display_reset (enrich_server_detail d)) = enrich_server_detail d"
proof -
  obtain known shown where b: "all_badges (items_or_empty (dt_services d)) (dt_listen_ports d) = (known, shown)"
    by (cases "all_badges (items_or_empty (dt_services d)) (dt_listen_ports d)")
  show ?thesis
  proof (cases d)
    case fields: fields
    show ?thesis
      using b unfolding fields enrich_server_detail_def display_reset_def Let_def by simp
  qed
qed

lemma known_keys_written: "known_keys (server_detail_to_json v)"
  unfolding known_keys_def server_detail_to_json_def json.case list.pred_inject prod.case
  by (intro conjI TrueI; code_simp)

definition storable :: "ServerDetailResponse \<Rightarrow> bool" where
  "storable v =
     (pred_option in_calendar (dt_boot_time v) \<and> pred_option in_calendar (dt_agent_started_at v) \<and>
      pred_option in_calendar (dt_last_seen_at v) \<and> pred_option (list_all plain_service) (dt_services v))"

lemma stored_written:
  assumes "storable v"
  shows "stored_detail (server_detail_to_json v) = Some (display_reset v)"
proof -
  let ?d = "server_detail_to_json v"
  have members:
    "json_get ''id'' ?d = Some (JInt (dt_id v))" "json_get ''public_id'' ?d = Some (JStr (dt_public_id v))"
    "json_get ''agent_id'' ?d = Some (JStr (dt_agent_id v))"
    "json_get ''composite_id'' ?d = Some (opt_json JStr (dt_composite_id v))"
    "json_get ''machine_id'' ?d = Some (opt_json JStr (dt_machine_id v))"
    "json_get ''hostname'' ?d = Some (JStr (dt_hostname v))"
    "json_get ''agent_version'' ?d = Some (opt_json JStr (dt_agent_version v))"
    "json_get ''os_family'' ?d = Some (opt_json JStr (dt_os_family v))"
    "json_get ''os_id'' ?d = Some (opt_json JStr (dt_os_id v))"
    "json_get ''os_version'' ?d = Some (opt_json JStr (dt_os_version v))"
    "json_get ''os_codename'' ?d = Some (opt_json JStr (dt_os_codename v))"
    "json_get ''kernel_version'' ?d = Some (opt_json JStr (dt_kernel_version v))"
    "json_get ''cpu_cores'' ?d = Some (opt_json JInt (dt_cpu_cores v))"
    "json_get ''cpu_model'' ?d = Some (opt_json JStr (dt_cpu_model v))"
    "json_get ''cpu_arch'' ?d = Some (opt_json JStr (dt_cpu_arch v))"
    "json_get ''cpu_bits'' ?d = Some (opt_json JInt (dt_cpu_bits v))"
    "json_get ''mem_total_gb'' ?d = Some (opt_json JFloat (dt_mem_total_gb v))"
    "json_get ''swap_total_gb'' ?d = Some (opt_json JFloat (dt_swap_total_gb v))"
    "json_get ''boot_time'' ?d = Some (opt_json json_date (dt_boot_time v))"
    "json_get ''agent_started_at'' ?d = Some (opt_json json_date (dt_agent_started_at v))"
    "json_get ''ip_internal'' ?d = Some (JList (map ip_json (dt_ip_internal v)))"
    "json_get ''ip_external'' ?d = Some (opt_json (\<lambda>xs. JList (map ip_json xs)) (dt_ip_external v))"
    "json_get ''disks'' ?d = Some (JList (map disk_json (dt_disks v)))"
    "json_get ''services'' ?d = Some (opt_json (\<lambda>xs. JList (map service_json xs)) (dt_services v))"
    "json_get ''listen_ports'' ?d = Some (JList (map listen_json (dt_listen_ports v)))"
    "json_get ''last_seen_at'' ?d = Some (opt_json json_date (dt_last_seen_at v))"
    "json_get ''product_name'' ?d = Some (opt_json JStr (dt_product_name v))"
    "json_get ''edition'' ?d = Some (opt_json JStr (dt_edition v))"
    "json_get ''disk_total_gb'' ?d = Some (opt_json JFloat (dt_disk_total_gb v))"
    "json_get ''disk_unallocated_gb'' ?d = Some (opt_json JFloat (dt_disk_unallocated_gb v))"
    "json_get ''volumes'' ?d = Some (JList (map volume_json (dt_volumes v)))"
    "json_get ''volume_total_gb'' ?d = Some (opt_json JFloat (dt_volume_total_gb v))"
    by (simp_all add: json_get_def server_detail_to_json_def)
  have ext: "rd_opt (rd_list ip_of) (opt_json (\<lambda>xs. JList (map ip_json xs)) (dt_ip_external v)) = Some (dt_ip_external v)"
    by (rule opt_list_read) (simp add: rd_list_def del: map_map)
  have svc: "rd_opt (rd_list service_of) (opt_json (\<lambda>xs. JList (map service_json xs)) (dt_services v)) = Some (dt_services v)"
    using assms by (intro opt_list_read) (simp add: rd_list_def storable_def del: map_map)
  show ?thesis
    using assms ext svc
    by (simp add: stored_detail_def req_def dflt_def rd_items_def members storable_def display_reset_def rd_str_def [of "JStr _"]
        rd_int_def [of "JInt _"] del: map_map)
qed

lemma classify_named: "classify u ps pid \<noteq> []"
proof -
  have "[] \<notin> insert ''unknown'' (set SERVICE_CATEGORIES)" by code_simp
  then show ?thesis using classify_range [of u ps pid] by metis
qed

lemma to_server_detail_enriched: "\<exists>d. to_server_detail dto = enrich_server_detail d"
  by (auto simp: to_server_detail_def split: prod.split)

lemma to_server_detail_sel:
  "dt_boot_time (to_server_detail dto) = sd_boot_time dto" "dt_agent_started_at (to_server_detail dto) = sd_agent_started_at dto"
  "dt_last_seen_at (to_server_detail dto) = sd_last_seen_at dto"
  "dt_services (to_server_detail dto) = services_or_none (sd_services dto) (Some (sd_listen_ports dto))"
  by (simp_all add: to_server_detail_def enrich_server_detail_def Let_def split: prod.split)

lemma services_plain: "pred_option (list_all plain_service) (services_or_none raw ps)"
  by (cases raw) (simp_all add: services_or_none_def list_all_iff plain_service_def to_service_item_def Let_def classify_named)

lemma cached_roundtrip:
  assumes "pred_option in_calendar (sd_boot_time dto)" and "pred_option in_calendar (sd_agent_started_at dto)"
    and "pred_option in_calendar (sd_last_seen_at dto)"
  shows "server_detail_from_json (server_detail_to_json (to_server_detail dto)) = Some (to_server_detail dto)"
proof -
  obtain d where d: "to_server_detail dto = enrich_server_detail d" using to_server_detail_enriched by blast
  have "storable (to_server_detail dto)" using assms by (simp add: storable_def to_server_detail_sel services_plain)
  then show ?thesis
    by (simp add: server_detail_from_json_def known_keys_written stored_written) (simp add: d enrich_reset)
qed

text \<open>
  Claim C26: the page of a server that is stored in the cache and read back is the page
  that was stored, with all its derived fields computed again, for every server whose three times lie
  between the years 1 and 9999.
\<close>

theorem cached_detail_roundtrip:
  assumes "pred_option in_calendar (sd_boot_time dto)" and "pred_option in_calendar (sd_agent_started_at dto)"
    and "pred_option in_calendar (sd_last_seen_at dto)"
  shows "server_detail_from_json (server_detail_to_json (to_server_detail dto)) = Some (to_server_detail dto)"
  using assms by (rule cached_roundtrip)

definition plain_server :: ServerDetail where
  "plain_server =
     \<lparr>sd_id = 1, sd_public_id = ''p1'', sd_agent_id = ''a1'', sd_composite_id = None, sd_machine_id = None,
      sd_hostname = ''web01'', sd_agent_version = None, sd_os_family = Some ''linux'', sd_os_id = Some ''debian'',
      sd_os_version = Some ''12'', sd_os_codename = None, sd_kernel_version = None, sd_cpu_cores = Some 4,
      sd_cpu_model = None, sd_cpu_arch = None, sd_cpu_bits = None, sd_mem_total_bytes = Some 8589934592,
      sd_boot_time = Some 1700000000000000, sd_agent_started_at = Some 1700000100000000, sd_net_interfaces = [], sd_ip_external = None,
      sd_block_devices = [], sd_lvm_vgs = [],
      sd_services = Some [JObj [(''unit'', JStr ''nginx.service''), (''sub'', JStr ''running'')]],
      sd_listen_ports = [JObj [(''proto'', JStr ''tcp''), (''port'', JInt 80), (''comm'', JStr ''nginx'')]],
      sd_last_seen_at = Some 1700000200000000, sd_service_categories = None, sd_product_name = None, sd_edition = None\<rparr>"

lemma sample_times [simp]: "in_calendar 1700000000000000" "in_calendar 1700000100000000" "in_calendar 1700000200000000"
  by code_simp+

theorem cached_detail_roundtrip_witness:
  "server_detail_from_json (server_detail_to_json (to_server_detail plain_server)) = Some (to_server_detail plain_server)"
  by (rule cached_detail_roundtrip) (simp_all add: plain_server_def)

end
