(* ===== verification/ServerQueryProps.thy ===== *)
theory ServerQueryProps
  imports ServerQuery CacheSerdeProps OsEolProps
begin

text \<open>The list answers its filters exactly, and a page is never older than its lifetime in the cache allows.\<close>

section \<open>The list and its filters\<close>

definition no_filter :: ListFilter where
  "no_filter = \<lparr>lf_is_online = None, lf_service = None, lf_os_distro = None, lf_classification = None, lf_os_eol = None\<rparr>"

lemma passes_no_filter [simp]: "passes no_filter = (\<lambda>_. True)"
  by (rule ext) (simp add: passes_def no_filter_def eol_matches_def nonblank_def)

lemma list_item_exists: "\<exists>i. list_item raws now errs p = Some i \<and> sl_id i = ss_id (fst p) \<and> sl_is_online i = snd p \<and>
    sl_os_eol_status i \<noteq> Phase_blank"
proof -
  obtain dto on where p: "p = (dto, on)" by (cases p)
  show ?thesis
    by (cases rule: lookup_cases [of "ss_os_id dto" "ss_os_version dto" "ss_kernel_version dto"])
      (auto simp: p list_item_def to_server_list_item_def Let_def)
qed

lemma list_items_exist:
  "\<exists>is. all_some (map (list_item raws now errs) ps) = Some is \<and> map sl_id is = map (ss_id \<circ> fst) ps \<and>
     list_all (\<lambda>i. sl_os_eol_status i \<noteq> Phase_blank) is"
proof (induction ps)
  case (Cons p ps)
  then show ?case using list_item_exists [of raws now errs p] by auto
qed simp

lemma flags_length: "length (fst (online_flags_of dtos now r)) = length dtos"
proof -
  have "length fs = length ks" if "fst (safe_mget ks r) = Some fs" for ks fs
    using that by (auto simp: safe_mget_def split: if_splits prod.splits bool.splits)
  then show ?thesis
    by (auto simp: online_flags_of_def split: prod.split option.split) (metis fst_conv length_map)
qed

text \<open>Every item that is not blank is in exactly one of the three groups.\<close>

lemma three_phases:
  assumes "sl_os_eol_status i \<noteq> Phase_blank"
  shows "of_bool (eol_matches (Some ''eol'') i) + of_bool (eol_matches (Some ''supported'') i) +
         of_bool (eol_matches (Some ''unknown'') i) = (1::nat)"
proof (cases "sl_os_eol_status i")
  case (Phase ph)
  then show ?thesis by (cases ph) (simp_all add: eol_matches_def)
qed (use assms in \<open>simp_all add: eol_matches_def\<close>)

lemma passes_split:
  "passes (f\<lparr>lf_os_eol := e\<rparr>) i \<longleftrightarrow> passes (f\<lparr>lf_os_eol := None\<rparr>) i \<and> eol_matches e i"
  by (auto simp: passes_def eol_matches_def [of None])

lemma three_filters:
  assumes "list_all (\<lambda>i. sl_os_eol_status i \<noteq> Phase_blank) is"
  shows "mset (filter (passes (f\<lparr>lf_os_eol := Some ''eol''\<rparr>)) is) + mset (filter (passes (f\<lparr>lf_os_eol := Some ''supported''\<rparr>)) is) +
         mset (filter (passes (f\<lparr>lf_os_eol := Some ''unknown''\<rparr>)) is) = mset (filter (passes (f\<lparr>lf_os_eol := None\<rparr>)) is)"
  using assms
proof (induction "is")
  case (Cons i "is")
  have "of_bool (eol_matches (Some ''eol'') i) + of_bool (eol_matches (Some ''supported'') i) +
         of_bool (eol_matches (Some ''unknown'') i) = (1::nat)"
    using Cons.prems by (intro three_phases) simp
  then show ?case
    using Cons passes_split [where f = f and i = i and e = "Some ''eol''"] passes_split [where f = f and i = i and e = "Some ''supported''"]
      passes_split [where f = f and i = i and e = "Some ''unknown''"]
    by (auto split: if_splits simp: of_bool_def)
qed simp

text \<open>
  The list always exists.  Without a filter it has every server of the page
  once, those online first and each group by name without regard to case; with filters it is the
  sublist of the servers that pass them all; and the three support phases one can ask for split the
  list of the other filters into disjoint parts, an undecidable release being none of the supported.
\<close>

theorem list_answers_filters:
  "\<exists>items. let run = (\<lambda>g. fst (list_servers dtos raws net errs now g r)) in
     run no_filter = Some items \<and> mset (map sl_id items) = mset (map ss_id dtos) \<and> sorted (map list_order items) \<and>
     run f = Some (filter (passes f) items) \<and>
     (let asked = (\<lambda>e. mset (the (run (f\<lparr>lf_os_eol := e\<rparr>)))) in
        asked (Some ''eol'') + asked (Some ''supported'') + asked (Some ''unknown'') = asked None)"
proof (cases "dtos = []")
  case True
  then show ?thesis by (simp add: list_servers_def)
next
  case False
  define flags where "flags = fst (online_flags_of dtos now r)"
  obtain xs where xs: "all_some (map (list_item (with_net_baseline net raws) now errs) (zip dtos flags)) = Some xs"
      "map sl_id xs = map (ss_id \<circ> fst) (zip dtos flags)" "list_all (\<lambda>i. sl_os_eol_status i \<noteq> Phase_blank) xs"
    using list_items_exist by blast
  have len: "length flags = length dtos" by (simp add: flags_def flags_length)
  have run: "fst (list_servers dtos raws net errs now g r) = Some (filter (passes g) (sort_key list_order xs))" for g
    using False xs(1) by (cases "online_flags_of dtos now r") (simp add: list_servers_def flags_def filter_sort)
  have "map (ss_id \<circ> fst) (zip dtos flags) = map ss_id dtos"
    using len by (metis map_fst_zip map_map)
  then have "mset (map sl_id (sort_key list_order xs)) = mset (map ss_id dtos)"
    using xs(2) by (metis mset_map mset_sort)
  moreover have "list_all (\<lambda>i. sl_os_eol_status i \<noteq> Phase_blank) (sort_key list_order xs)"
    using xs(3) by (simp add: list_all_iff)
  note three_filters [OF this, of f]
  ultimately show ?thesis by (simp add: run Let_def)
qed

section \<open>How old a page can be\<close>

text \<open>
  The row of a server, the cache and the readers between the query that missed the cache and the write that
  fills it.  The rows of the past stand with the second they were committed, newest first.
\<close>

record view_state =
  vs_redis :: redis
  vs_detail :: ServerDetail
  vs_past :: "(int \<times> ServerDetail) list"
  vs_readers :: "(int \<times> ServerDetail) list"

text \<open>The row \<open>d\<close> was the current one at some moment of the second \<open>t\<close>.\<close>

fun held :: "(int \<times> ServerDetail) list \<Rightarrow> int \<Rightarrow> ServerDetail \<Rightarrow> bool" where
  "held [] t d = False"
| "held ((since, x) # past) t d = (x = d \<and> since \<le> t \<or> t \<le> since \<and> held past t d)"

abbreviation now_of :: "view_state \<Rightarrow> int" where
  "now_of s \<equiv> clock (vs_redis s)"

definition detail_key :: "int \<Rightarrow> string" where
  "detail_key sid = redis_key_cache_inventory (show_int sid)"

text \<open>
  The steps: a report of the agent commits a row and, in a step of its own, deletes the cached page; a reader
  hits, or misses and keeps the row it loads, and later stores it; the cache may fail; time passes, but no
  reader is under way for more than \<open>dur\<close> seconds.
\<close>

inductive view_step ::
  "(json \<Rightarrow> string) \<Rightarrow> (string \<Rightarrow> json) \<Rightarrow> ServerDetail set \<Rightarrow> int \<Rightarrow> int \<Rightarrow> view_state \<Rightarrow> view_state \<Rightarrow> bool"
  for to_text of_text rows dur sid where
  commit: "d \<in> rows \<Longrightarrow> view_step to_text of_text rows dur sid s
     (s\<lparr>vs_detail := d, vs_past := (now_of s, d) # vs_past s\<rparr>)"
| invalidate: "view_step to_text of_text rows dur sid s
     (s\<lparr>vs_redis := snd (safe_delete (detail_key sid) (vs_redis s))\<rparr>)"
| hit: "cached_detail of_text sid (vs_redis s) = (Some v, r) \<Longrightarrow> view_step to_text of_text rows dur sid s (s\<lparr>vs_redis := r\<rparr>)"
| miss: "cached_detail of_text sid (vs_redis s) = (None, r) \<Longrightarrow> view_step to_text of_text rows dur sid s
     (s\<lparr>vs_redis := r, vs_readers := (now_of s, vs_detail s) # vs_readers s\<rparr>)"
| fill: "(t, d) \<in> set (vs_readers s) \<Longrightarrow> view_step to_text of_text rows dur sid s
     (s\<lparr>vs_redis := store_detail to_text sid d (vs_redis s), vs_readers := remove1 (t, d) (vs_readers s)\<rparr>)"
| outage: "view_step to_text of_text rows dur sid s (s\<lparr>vs_redis := (vs_redis s)\<lparr>outages := os\<rparr>\<rparr>)"
| pass: "0 \<le> n \<Longrightarrow> (\<And>t d. (t, d) \<in> set (vs_readers s) \<Longrightarrow> now_of s + n \<le> t + dur) \<Longrightarrow>
     view_step to_text of_text rows dur sid s (s\<lparr>vs_redis := (vs_redis s)\<lparr>clock := now_of s + n\<rparr>\<rparr>)"

inductive view_reachable ::
  "(json \<Rightarrow> string) \<Rightarrow> (string \<Rightarrow> json) \<Rightarrow> ServerDetail set \<Rightarrow> int \<Rightarrow> int \<Rightarrow> view_state \<Rightarrow> bool"
  for to_text of_text rows dur sid where
  start: "d \<in> rows \<Longrightarrow> kv r (detail_key sid) = None \<Longrightarrow> view_reachable to_text of_text rows dur sid
     \<lparr>vs_redis = r, vs_detail = d, vs_past = [(clock r, d)], vs_readers = []\<rparr>"
| step: "view_reachable to_text of_text rows dur sid s \<Longrightarrow> view_step to_text of_text rows dur sid s s' \<Longrightarrow>
     view_reachable to_text of_text rows dur sid s'"

text \<open>A row that was current at some time between \<open>lo\<close> and \<open>hi\<close>.\<close>

definition held_within :: "view_state \<Rightarrow> ServerDetail set \<Rightarrow> int \<Rightarrow> ServerDetail \<Rightarrow> bool" where
  "held_within s rows lo d = (d \<in> rows \<and> (\<exists>t. lo \<le> t \<and> t \<le> now_of s \<and> held (vs_past s) t d))"

definition view_inv :: "(json \<Rightarrow> string) \<Rightarrow> ServerDetail set \<Rightarrow> int \<Rightarrow> int \<Rightarrow> view_state \<Rightarrow> bool" where
  "view_inv to_text rows dur sid s \<longleftrightarrow>
     vs_detail s \<in> rows \<and> (\<exists>since rest. vs_past s = (since, vs_detail s) # rest \<and> since \<le> now_of s) \<and>
     (\<forall>(t, d) \<in> set (vs_readers s). d \<in> rows \<and> t \<le> now_of s \<and> now_of s \<le> t + dur \<and> held (vs_past s) t d) \<and>
     (\<forall>v e. kv (vs_redis s) (detail_key sid) = Some (v, e) \<longrightarrow>
        (\<exists>x d. e = Some x \<and> v = to_text (server_detail_to_json (to_server_detail d)) \<and>
               held_within s rows (x - redis_ttl_cache_detail - dur) d))"

lemma held_newer: "held past t d \<Longrightarrow> t \<le> since \<Longrightarrow> held ((since, x) # past) t d"
  by simp

lemma cached_detail_redis:
  assumes "cached_detail of_text sid r = (x, r')" shows "kv r' = kv r \<and> clock r' = clock r"
  using assms by (auto simp: cached_detail_def safe_get_def split: prod.splits bool.splits dest: next_outage_simps)

lemma store_detail_redis:
  "clock (store_detail to_text sid d r) = clock r \<and>
   kv (store_detail to_text sid d r) (detail_key sid) \<in>
     {kv r (detail_key sid), Some (to_text (server_detail_to_json (to_server_detail d)), Some (clock r + redis_ttl_cache_detail))}"
  by (auto simp: store_detail_def safe_set_def redis_put_def detail_key_def split: prod.split bool.split dest: next_outage_simps)

lemma safe_delete_redis:
  "clock (snd (safe_delete k r)) = clock r \<and> kv (snd (safe_delete k r)) k \<in> {kv r k, None}"
  by (auto simp: safe_delete_def split: prod.split bool.split dest: next_outage_simps)

lemma view_inv_cong:
  assumes "view_inv to_text rows dur sid s" and "clock r = now_of s" and "kv r (detail_key sid) \<in> {kv (vs_redis s) (detail_key sid), None}"
  shows "view_inv to_text rows dur sid (s\<lparr>vs_redis := r\<rparr>)"
  using assms by (auto simp: view_inv_def held_within_def)

lemma view_inv_start:
  assumes "d \<in> rows" and "kv r (detail_key sid) = None"
  shows "view_inv to_text rows dur sid \<lparr>vs_redis = r, vs_detail = d, vs_past = [(clock r, d)], vs_readers = []\<rparr>"
  using assms by (simp add: view_inv_def)

lemma view_inv_commit:
  assumes "view_inv to_text rows dur sid s" and "d \<in> rows"
  shows "view_inv to_text rows dur sid (s\<lparr>vs_detail := d, vs_past := (now_of s, d) # vs_past s\<rparr>)"
proof -
  have "held_within (s\<lparr>vs_detail := d, vs_past := (now_of s, d) # vs_past s\<rparr>) rows lo x" if "held_within s rows lo x" for lo x
    using that by (auto simp: held_within_def)
  then show ?thesis
    using assms by (fastforce simp: view_inv_def)
qed

lemma view_inv_pass:
  assumes "view_inv to_text rows dur sid s" and "0 \<le> n" and "\<And>t d. (t, d) \<in> set (vs_readers s) \<Longrightarrow> now_of s + n \<le> t + dur"
  shows "view_inv to_text rows dur sid (s\<lparr>vs_redis := (vs_redis s)\<lparr>clock := now_of s + n\<rparr>\<rparr>)"
proof -
  have "held_within (s\<lparr>vs_redis := (vs_redis s)\<lparr>clock := now_of s + n\<rparr>\<rparr>) rows lo x" if "held_within s rows lo x" for lo x
    using that assms(2) by (fastforce simp: held_within_def)
  then show ?thesis
    using assms by (fastforce simp: view_inv_def)
qed

lemma view_inv_miss:
  assumes "view_inv to_text rows dur sid s" and "0 \<le> dur" and "kv r = kv (vs_redis s)" and "clock r = now_of s"
  shows "view_inv to_text rows dur sid (s\<lparr>vs_redis := r, vs_readers := (now_of s, vs_detail s) # vs_readers s\<rparr>)"
  using assms by (auto simp: view_inv_def held_within_def)

lemma view_inv_fill:
  assumes "view_inv to_text rows dur sid s" and rd: "(t, d) \<in> set (vs_readers s)"
  shows "view_inv to_text rows dur sid
    (s\<lparr>vs_redis := store_detail to_text sid d (vs_redis s), vs_readers := remove1 (t, d) (vs_readers s)\<rparr>)"
proof -
  let ?r = "store_detail to_text sid d (vs_redis s)"
  let ?s = "s\<lparr>vs_redis := ?r, vs_readers := remove1 (t, d) (vs_readers s)\<rparr>"
  have c: "clock ?r = now_of s" using store_detail_redis by blast
  have reader: "d \<in> rows" "t \<le> now_of s" "now_of s \<le> t + dur" "held (vs_past s) t d"
    using assms by (auto simp: view_inv_def)
  have same: "held_within ?s rows lo x = held_within s rows lo x" for lo x by (simp add: held_within_def c)
  have "held_within s rows (now_of s + redis_ttl_cache_detail - redis_ttl_cache_detail - dur) d"
    unfolding held_within_def by (intro conjI exI [of _ t]) (use reader in simp_all)
  moreover have "set (remove1 (t, d) (vs_readers s)) \<subseteq> set (vs_readers s)" by (rule set_remove1_subset)
  ultimately show ?thesis
    using assms(1) store_detail_redis [of to_text sid d "vs_redis s"]
    unfolding view_inv_def same by (auto simp: c)
qed

lemma view_reachable_inv:
  assumes "view_reachable to_text of_text rows dur sid s" and "0 \<le> dur"
  shows "view_inv to_text rows dur sid s"
  using assms(1)
proof (induction rule: view_reachable.induct)
  case (start d r)
  then show ?case by (rule view_inv_start)
next
  case (step s s')
  from step.hyps(2) step.IH show ?case
  proof (induction rule: view_step.induct)
    case (hit s v r)
    then show ?case using cached_detail_redis [OF hit(1)] by (intro view_inv_cong) simp_all
  next
    case (miss s r)
    then show ?case using cached_detail_redis [OF miss(1)] assms(2) by (intro view_inv_miss) simp_all
  next
    case (invalidate s)
    then show ?case using safe_delete_redis by (intro view_inv_cong) simp_all
  next
    case (outage s os)
    then show ?case by (intro view_inv_cong) simp_all
  qed (simp_all add: view_inv_commit view_inv_fill view_inv_pass)
qed

text \<open>The row a page is asked for is the current one.\<close>

abbreviation view_page ::
  "(json \<Rightarrow> string) \<Rightarrow> (string \<Rightarrow> json) \<Rightarrow> int \<Rightarrow> view_state \<Rightarrow> ServerDetailResponse option option" where
  "view_page to_text of_text sid s \<equiv> fst (get_server to_text of_text (\<lambda>i. if i = sid then Some (vs_detail s) else None) sid (vs_redis s))"

definition calendar_server :: "ServerDetail \<Rightarrow> bool" where
  "calendar_server d =
     (pred_option in_calendar (sd_boot_time d) \<and> pred_option in_calendar (sd_agent_started_at d) \<and>
      pred_option in_calendar (sd_last_seen_at d))"

lemma safe_get_value:
  assumes "safe_get k r = (Some c, r')"
  shows "\<exists>e. kv r k = Some (c, e) \<and> (case e of None \<Rightarrow> True | Some x \<Rightarrow> clock r < x)"
proof -
  obtain r1 where o: "next_outage r = (False, r1)" "redis_get k r1 = Some c"
    using assms by (auto simp: safe_get_def split: prod.splits bool.splits)
  then have "redis_get k r = Some c" using next_outage_simps [OF o(1)] redis_get_cong by metis
  then show ?thesis by (auto simp: redis_get_def split: option.splits prod.splits if_splits)
qed

lemma cached_detail_value:
  assumes "cached_detail of_text sid r = (Some v, r')"
  shows "\<exists>c e. kv r (detail_key sid) = Some (c, e) \<and> (case e of None \<Rightarrow> True | Some x \<Rightarrow> clock r < x) \<and>
    v = server_detail_from_json (of_text c)"
proof -
  obtain cached where g: "safe_get (detail_key sid) r = (cached, r')" "map_option (\<lambda>c. server_detail_from_json (of_text c)) (nonblank cached) = Some v"
    using assms by (auto simp: cached_detail_def detail_key_def split: prod.splits)
  then obtain c where c: "cached = Some c" "v = server_detail_from_json (of_text c)"
    by (auto simp: nonblank_def split: option.splits list.splits)
  then show ?thesis using safe_get_value [of "detail_key sid" r c r'] g(1) by blast
qed

lemma view_page_cases:
  obtains (old) v r where "cached_detail of_text sid (vs_redis s) = (Some v, r)" "view_page to_text of_text sid s = map_option Some v"
  | (fresh) "view_page to_text of_text sid s = Some (Some (to_server_detail (vs_detail s)))"
proof -
  obtain x r where x: "cached_detail of_text sid (vs_redis s) = (x, r)" by (cases "cached_detail of_text sid (vs_redis s)")
  show thesis
  proof (cases x)
    case None
    then have "view_page to_text of_text sid s = Some (Some (to_server_detail (vs_detail s)))"
      using x by (simp add: get_server_def)
    then show ?thesis by (rule fresh)
  next
    case (Some v)
    then have "view_page to_text of_text sid s = map_option Some v" using x by (simp add: get_server_def)
    then show ?thesis using old x Some by blast
  qed
qed

lemma view_page_deleted:
  assumes "\<not> fst (next_outage (vs_redis s))"
  shows "view_page to_text of_text sid (s\<lparr>vs_redis := snd (safe_delete (detail_key sid) (vs_redis s))\<rparr>) =
    Some (Some (to_server_detail (vs_detail s)))"
proof -
  let ?r = "snd (safe_delete (detail_key sid) (vs_redis s))"
  have gone: "kv ?r (detail_key sid) = None"
    using assms by (auto simp: safe_delete_def split: prod.split bool.split)
  have "cached_detail of_text sid ?r \<noteq> (Some v, r)" for v r
    using cached_detail_value [of of_text sid ?r v r] gone by auto
  then have "fst (cached_detail of_text sid ?r) = None"
    by (metis not_Some_eq prod.collapse)
  then show ?thesis by (cases "cached_detail of_text sid ?r") (simp add: get_server_def)
qed

text \<open>
  Claim C27: the page of a server never fails and shows a row of that server that was current
  less than 300 seconds, the lifetime in the cache, and the longest reader before the request, however
  commits, deletions, outages and readers interleave.  A deletion that reaches the cache makes the next
  page show the current row.  The text layer is assumed to give back what it wrote, and the times of a
  row to lie in the calendar.
\<close>

theorem pages_are_recent:
  assumes "view_reachable to_text of_text rows dur sid s" and "0 \<le> dur"
    and "\<And>d. d \<in> rows \<Longrightarrow> calendar_server d \<and>
      of_text (to_text (server_detail_to_json (to_server_detail d))) = server_detail_to_json (to_server_detail d)"
  shows "(\<exists>d t. view_page to_text of_text sid s = Some (Some (to_server_detail d)) \<and> d \<in> rows \<and> held (vs_past s) t d \<and>
            now_of s - (300 + dur) < t \<and> t \<le> now_of s) \<and>
         (fst (next_outage (vs_redis s)) \<or>
          view_page to_text of_text sid (s\<lparr>vs_redis := snd (safe_delete (detail_key sid) (vs_redis s))\<rparr>) =
            Some (Some (to_server_detail (vs_detail s))))"
proof (intro conjI)
  have inv: "view_inv to_text rows dur sid s" using assms(1,2) by (rule view_reachable_inv)
  show "\<exists>d t. view_page to_text of_text sid s = Some (Some (to_server_detail d)) \<and> d \<in> rows \<and> held (vs_past s) t d \<and>
            now_of s - (300 + dur) < t \<and> t \<le> now_of s"
  proof (cases rule: view_page_cases [of of_text sid s to_text])
    case (old v r)
    obtain c e where c: "kv (vs_redis s) (detail_key sid) = Some (c, e)" "case e of None \<Rightarrow> True | Some x \<Rightarrow> now_of s < x"
        "v = server_detail_from_json (of_text c)"
      using cached_detail_value [OF old(1)] by blast
    then obtain x d where d: "e = Some x" "c = to_text (server_detail_to_json (to_server_detail d))"
        "held_within s rows (x - redis_ttl_cache_detail - dur) d"
      using inv unfolding view_inv_def by blast
    then obtain t where t: "d \<in> rows" "x - redis_ttl_cache_detail - dur \<le> t" "t \<le> now_of s" "held (vs_past s) t d"
      by (auto simp: held_within_def)
    have "v = Some (to_server_detail d)"
      using assms(3) [OF t(1)] cached_roundtrip [of d] c(3) d(2) by (simp add: calendar_server_def)
    then show ?thesis
      using old(2) t c(2) d(1) by (intro exI [of _ d] exI [of _ t]) (simp add: redis_ttl_cache_detail_def)
  next
    case fresh
    moreover obtain since rest where "vs_past s = (since, vs_detail s) # rest" "since \<le> now_of s" "vs_detail s \<in> rows"
      using inv unfolding view_inv_def by blast
    ultimately show ?thesis using assms(2) by (intro exI [of _ "vs_detail s"] exI [of _ "now_of s"]) simp
  qed
  show "fst (next_outage (vs_redis s)) \<or>
          view_page to_text of_text sid (s\<lparr>vs_redis := snd (safe_delete (detail_key sid) (vs_redis s))\<rparr>) =
            Some (Some (to_server_detail (vs_detail s)))"
    using view_page_deleted [of s to_text of_text sid] by blast
qed

text \<open>
  An instance: a reader misses and stores the page, then a report of the agent renames the server; until the
  deletion, the page still has the old name.
\<close>

definition renamed_server :: ServerDetail where
  "renamed_server = plain_server\<lparr>sd_hostname := ''db01''\<rparr>"

definition two_texts :: "json \<Rightarrow> string" where
  "two_texts j = (if j = server_detail_to_json (to_server_detail plain_server) then ''x'' else ''y'')"

definition text_pages :: "string \<Rightarrow> json" where
  "text_pages c = server_detail_to_json (to_server_detail (if c = ''x'' then plain_server else renamed_server))"

definition renamed_state :: view_state where
  "renamed_state =
     \<lparr>vs_redis = store_detail two_texts 1 plain_server \<lparr>kv = Map.empty, clock = 7, outages = []\<rparr>,
      vs_detail = renamed_server, vs_past = [(7, renamed_server), (7, plain_server)], vs_readers = []\<rparr>"

lemma renamed_reachable: "view_reachable two_texts text_pages {plain_server, renamed_server} 5 1 renamed_state"
proof -
  let ?r = "\<lparr>kv = Map.empty, clock = 7, outages = []\<rparr>"
  let ?s = "\<lparr>vs_redis = ?r, vs_detail = plain_server, vs_past = [(7, plain_server)], vs_readers = []\<rparr>"
  let ?reach = "view_reachable two_texts text_pages {plain_server, renamed_server} 5 1"
  have "?reach ?s"
    using view_reachable.start [of plain_server "{plain_server, renamed_server}" ?r 1] by simp
  moreover have "cached_detail text_pages 1 (vs_redis ?s) = (None, ?r)"
    by (simp add: cached_detail_def safe_get_def next_outage_def redis_get_def nonblank_def)
  ultimately have "?reach (?s\<lparr>vs_redis := ?r, vs_readers := (now_of ?s, vs_detail ?s) # vs_readers ?s\<rparr>)"
    by (rule view_reachable.step [OF _ view_step.miss])
  then have "?reach (?s\<lparr>vs_readers := [(7, plain_server)]\<rparr>)" by simp
  then have "?reach ((?s\<lparr>vs_readers := [(7, plain_server)]\<rparr>)\<lparr>vs_redis := store_detail two_texts 1 plain_server ?r, vs_readers := []\<rparr>)"
    using view_step.fill [of 7 plain_server "?s\<lparr>vs_readers := [(7, plain_server)]\<rparr>"] view_reachable.step by fastforce
  then have "?reach (?s\<lparr>vs_redis := store_detail two_texts 1 plain_server ?r\<rparr>)" by simp
  moreover have "clock (store_detail two_texts 1 plain_server ?r) = 7"
    by (simp add: store_detail_def safe_set_def next_outage_def redis_put_def)
  ultimately show ?thesis
    using view_reachable.step [OF _ view_step.commit [of renamed_server "{plain_server, renamed_server}"]]
    by (fastforce simp: renamed_state_def)
qed

theorem pages_are_recent_witness:
  "(\<exists>d t. view_page two_texts text_pages 1 renamed_state = Some (Some (to_server_detail d)) \<and>
      d \<in> {plain_server, renamed_server} \<and> t \<le> now_of renamed_state) \<and>
   (fst (next_outage (vs_redis renamed_state)) \<or>
    view_page two_texts text_pages 1 (renamed_state\<lparr>vs_redis := snd (safe_delete (detail_key 1) (vs_redis renamed_state))\<rparr>) =
      Some (Some (to_server_detail renamed_server)))"
proof -
  have rows: "calendar_server d \<and>
      text_pages (two_texts (server_detail_to_json (to_server_detail d))) = server_detail_to_json (to_server_detail d)"
    if "d \<in> {plain_server, renamed_server}" for d
    using that by (auto simp: calendar_server_def renamed_server_def plain_server_def two_texts_def text_pages_def)
  have "vs_detail renamed_state = renamed_server" by (simp add: renamed_state_def)
  with pages_are_recent [OF renamed_reachable _ rows] show ?thesis by auto
qed

end
