(* ===== verification/ReportItems.thy ===== *)
theory ReportItems
  imports ServerPages EnvironmentViews
begin

text \<open>
  One line of a report per server: \<open>web/services/mappers/report.py\<close> with the view models of
  \<open>web/view_models/report.py\<close>.  Korean words are constructors and joined texts are lists of parts.
\<close>

section \<open>View models\<close>

record ReportWorkloadGroup =
  wg_category :: string
  wg_names_label :: string
  wg_ports :: "string list"

record ReportListenItem =
  rl_port :: int
  rl_proto :: string
  rl_comm :: string
  rl_addr :: string
  rl_uid :: "int option"
  rl_pid :: "int option"

datatype risk_level = Risk_high | Risk_attention | Risk_low_usage | Risk_normal

datatype diagnosis =
  Dg_memory_short bool      \<comment> \<open>paging on Windows, swapping elsewhere\<close>
  | Dg_disk_io | Dg_cpu_saturated | Dg_memory_pressure | Dg_cpu_pressure | Dg_disk_capacity
  | Dg_network | Dg_burst | Dg_unused | Dg_spare | Dg_normal

datatype missing_metric = Miss_cpu | Miss_memory | Miss_win_run_queue | Miss_run_queue | Miss_disk_await | Miss_disk

datatype insufficient_reason = Why_offline | Why_missing "missing_metric list" | Why_few_samples

text \<open>A line without enough samples gives the reason; any other the diagnosis, marked when the server is offline.\<close>

datatype diagnosis_cell = Reason insufficient_reason | Diagnosis bool diagnosis

record ReportRowItem =
  ri_server_id :: int
  ri_public_id :: string
  ri_hostname :: string
  ri_role :: string
  ri_is_online :: bool
  ri_os_family :: "string option"
  ri_os_display :: string
  ri_kernel_version :: "string option"
  ri_internal_ip :: "string option"
  ri_cpu_p95_pct :: "pyfloat option"
  ri_cpu_avg_pct :: "pyfloat option"
  ri_cpu_peak_pct :: "pyfloat option"
  ri_mem_p95_pct :: "pyfloat option"
  ri_mem_avg_pct :: "pyfloat option"
  ri_mem_peak_pct :: "pyfloat option"
  ri_recommendation :: recommendation
  ri_recommendation_label :: class_label
  ri_badge_class :: string
  ri_risk_level :: risk_level
  ri_risk_badge_class :: string
  ri_cpu_cores :: "int option"
  ri_mem_total_gb :: "pyfloat option"
  ri_disk_total_gb :: "pyfloat option"
  ri_cpu_run_queue_p95 :: "pyfloat option"
  ri_iowait_p95_pct :: "pyfloat option"
  ri_iowait_peak_pct :: "pyfloat option"
  ri_worst_mount_used_pct :: "pyfloat option"
  ri_disk_capacity_driving_mount :: "string option"
  ri_disk_capacity_runway_days :: "int option"
  ri_uptime_days :: "int option"
  ri_reboot_count :: int
  ri_agent_restart_count :: int
  ri_cpu_variance_ratio :: "pyfloat option"
  ri_mem_variance_ratio :: "pyfloat option"
  ri_disk_iops_baseline :: "int option"
  ri_disk_iops_p95 :: "pyfloat option"
  ri_disk_iops_peak :: "pyfloat option"
  ri_disk_throughput_kbps :: "pyfloat option"
  ri_disk_throughput_kbps_p95 :: "pyfloat option"
  ri_disk_throughput_kbps_peak :: "pyfloat option"
  ri_net_rx_kbps :: "pyfloat option"
  ri_net_rx_kbps_p95 :: "pyfloat option"
  ri_net_rx_kbps_peak :: "pyfloat option"
  ri_net_tx_kbps :: "pyfloat option"
  ri_net_tx_kbps_p95 :: "pyfloat option"
  ri_net_tx_kbps_peak :: "pyfloat option"
  ri_diagnosis :: diagnosis_cell
  ri_recommendation_action :: action_cell
  ri_root_cause_label :: "token list"
  ri_net_status_label :: net_label
  ri_net_congested :: bool
  ri_mem_swap_paging :: bool
  ri_is_partial :: bool
  ri_confidence_notes :: "note_text list"
  ri_workload_groups :: "ReportWorkloadGroup list"
  ri_listen_ports_detail :: "ReportListenItem list"
  ri_workload_categories :: "string list"
  ri_signature_workload_categories :: "string list"
  ri_workload_services :: "(string \<times> string list) list"
  ri_os_eol :: string
  ri_os_eol_status :: "eol_status option"
  ri_os_eol_display :: OsEolDisplay
  ri_has_operational_event :: bool

record ReportTotals =
  to_total_vcpus :: int
  to_total_memory_gb :: pyfloat
  to_total_disk_gb :: int

section \<open>Risk\<close>

fun RISK_FROM_RECOMMENDATION :: "recommendation \<Rightarrow> risk_level \<times> string" where
  "RISK_FROM_RECOMMENDATION Rec_under_provisioned = (Risk_high, ''rec-under_provisioned'')"
| "RISK_FROM_RECOMMENDATION Rec_idle = (Risk_attention, ''rec-over_provisioned'')"
| "RISK_FROM_RECOMMENDATION Rec_over_provisioned = (Risk_attention, ''rec-over_provisioned'')"
| "RISK_FROM_RECOMMENDATION Rec_optimal = (Risk_normal, ''rec-optimal'')"
| "RISK_FROM_RECOMMENDATION Rec_insufficient_data = (Risk_normal, ''rec-optimal'')"

fun RISK_LEVEL_ORDER :: "risk_level \<Rightarrow> nat" where
  "RISK_LEVEL_ORDER Risk_high = 0"
| "RISK_LEVEL_ORDER Risk_attention = 1"
| "RISK_LEVEL_ORDER Risk_low_usage = 2"
| "RISK_LEVEL_ORDER Risk_normal = 3"

definition VARIANCE_BURST_RATIO :: pyfloat where "VARIANCE_BURST_RATIO = 3 / 2"
definition BURST_PEAK_FLOOR_CPU_PCT :: pyfloat where "BURST_PEAK_FLOOR_CPU_PCT = 30"
definition BURST_PEAK_FLOOR_MEM_PCT :: pyfloat where "BURST_PEAK_FLOOR_MEM_PCT = 50"

section \<open>Figures of a group of servers\<close>

definition float_mean :: "pyfloat list \<Rightarrow> pyfloat option" where
  "float_mean vals = (if vals = [] then None else Some (fdiv (py_sum vals) (of_pyint (int (length vals)))))"

definition compute_report_avg_p95 :: "ReportRowItem list \<Rightarrow> pyfloat option \<times> pyfloat option" where
  "compute_report_avg_p95 rows =
     (float_mean (List.map_filter ri_cpu_p95_pct rows), float_mean (List.map_filter ri_mem_p95_pct rows))"

definition compute_report_totals_from_raw :: "ReportRowRaw list \<Rightarrow> ReportTotals" where
  "compute_report_totals_from_raw raws =
     \<lparr>to_total_vcpus = sum_list (map (\<lambda>r. int_or_0 (rr_cpu_cores r)) raws),
      to_total_memory_gb =
        (case bytes_to_gib (Some (sum_list (map (\<lambda>r. int_or_0 (rr_mem_total_bytes r)) raws))) of None \<Rightarrow> 0 | Some g \<Rightarrow> g),
      to_total_disk_gb = disk_gb_of (sum_list (map (\<lambda>r. disk_total_bytes (rows_or_empty (rr_block_devices r))) raws))\<rparr>"

definition build_role_distribution :: "ReportRowRaw list \<Rightarrow> counter" where
  "build_role_distribution raws =
     sort_key (\<lambda>kv. - snd kv)
       (fold (\<lambda>r. counter_add (infer_role (rr_services r) (rr_listen_ports r)) 1) raws [])"

datatype family_label = Family string | Family_unknown

definition OS_FAMILY_LABEL_KO :: "string \<Rightarrow> family_label" where
  "OS_FAMILY_LABEL_KO k =
     (if k = ''linux'' then Family ''Linux'' else if k = ''windows'' then Family ''Windows''
      else if k = ''unknown'' then Family_unknown else Family k)"

text \<open>The parts of the two summaries; no part of the second is the text that nothing was classified.\<close>

definition build_selection_context ::
  "ReportRowItem list \<Rightarrow> counter \<Rightarrow> (family_label \<times> int) list \<times> (string \<times> int) list" where
  "build_selection_context items role_distribution =
     (map (\<lambda>(k, v). (OS_FAMILY_LABEL_KO k, v))
        (sort_key (\<lambda>kv. (- snd kv, fst kv))
          (fold (\<lambda>it. counter_add (str_or (ri_os_family it) ''unknown'') 1) items [])),
      sort_key (\<lambda>kv. (- snd kv, fst kv)) role_distribution)"

definition sort_rows_for_report :: "ReportRowItem list \<Rightarrow> ReportRowItem list" where
  "sort_rows_for_report items =
     sort_key (\<lambda>it. (RISK_LEVEL_ORDER (ri_risk_level it), - or_zero (ri_cpu_p95_pct it), ri_hostname it)) items"

section \<open>Advice and diagnosis\<close>

definition build_recommendation_action :: "HostAssessment \<Rightarrow> ResourceStats \<Rightarrow> action_cell" where
  "build_recommendation_action host stats =
     (let r = host_status_to_recommendation (host_status host) in
      if r = Rec_under_provisioned then Prescription (under_prescription host) else Advice (recommend_action r stats))"

definition is_burst :: "pyfloat option \<Rightarrow> pyfloat option \<Rightarrow> pyfloat \<Rightarrow> bool" where
  "is_burst variance peak floor_pct =
     (is_some_and variance (\<lambda>v. v \<ge> VARIANCE_BURST_RATIO) \<and> is_some_and peak (\<lambda>p. p > floor_pct))"

definition build_diagnosis ::
  "HostAssessment \<Rightarrow> ReportRowRaw \<Rightarrow> pyfloat option \<Rightarrow> pyfloat option \<Rightarrow> diagnosis" where
  "build_diagnosis host raw cpu_variance mem_variance =
     (let mem = the (resources host Memory); cpu = the (resources host Cpu) in
      if status mem = Under \<and> (T_mem_saturation \<in> set (triggers mem) \<or> T_mem_oom \<in> set (triggers mem))
      then Dg_memory_short (rr_os_family raw = Some windows)
      else if status (the (resources host Disk_io)) = Io_bound then Dg_disk_io
      else if status cpu = Under \<and> T_cpu_saturation \<in> set (triggers cpu) then Dg_cpu_saturated
      else if status mem = Under \<and> T_mem_util \<in> set (triggers mem) then Dg_memory_pressure
      else if status cpu = Under \<and> T_cpu_util \<in> set (triggers cpu) then Dg_cpu_pressure
      else if status (the (resources host Disk_capacity)) = Filling then Dg_disk_capacity
      else if network_congested host then Dg_network
      else if is_burst cpu_variance (rr_cpu_peak_pct raw) BURST_PEAK_FLOOR_CPU_PCT \<or>
              is_burst mem_variance (rr_mem_peak_pct raw) BURST_PEAK_FLOOR_MEM_PCT then Dg_burst
      else if host_status host = HS_idle then Dg_unused
      else if host_status host = HS_over then Dg_spare
      else Dg_normal)"

definition missing_metrics :: "ReportRowRaw \<Rightarrow> missing_metric list" where
  "missing_metrics raw =
     (if rr_cpu_p95_pct raw = None then [Miss_cpu] else []) @
     (if rr_mem_p95_pct raw = None then [Miss_memory] else []) @
     (if rr_os_family raw = Some windows
      then (if rr_cpu_run_queue_p95 raw = None then [Miss_win_run_queue] else [])
      else (if rr_procs_running_p95 raw = None then [Miss_run_queue] else [])) @
     (if rr_disk_await_p95_ms raw = None then [Miss_disk_await] else []) @
     (if rr_worst_mount_used_pct raw = None then [Miss_disk] else [])"

definition build_insufficient_reason :: "ReportRowRaw \<Rightarrow> bool \<Rightarrow> insufficient_reason" where
  "build_insufficient_reason raw is_online =
     (if \<not> is_online then Why_offline
      else if missing_metrics raw \<noteq> [] then Why_missing (missing_metrics raw) else Why_few_samples)"

section \<open>Services of a line\<close>

definition group_name_of :: "ServiceItem \<Rightarrow> string" where
  "group_name_of si = (if si_display_name si \<noteq> [] then si_display_name si else si_unit si)"

definition port_text :: "MatchedPort \<Rightarrow> string" where
  "port_text p = show_int (mp_port p) @ ''/'' @ mp_proto p"

definition values_of :: "(string \<times> 'a list) list \<Rightarrow> string \<Rightarrow> 'a list" where
  "values_of d k = (case map_of d k of None \<Rightarrow> [] | Some v \<Rightarrow> v)"

definition workload_groups_of :: "ServiceItem list \<Rightarrow> ListenPort list \<Rightarrow> ReportWorkloadGroup list" where
  "workload_groups_of services ports =
     (let known = filter (\<lambda>si. si_category si \<noteq> ''unknown'') services;
          by_cat = fold (\<lambda>si. dict_append (si_category si) (group_name_of si)) (filter (\<lambda>si. group_name_of si \<noteq> []) known) [];
          cats = map fst by_cat @ map fst (detect_listen_categories ports)
      in map (\<lambda>cat. \<lparr>wg_category = cat, wg_names_label = join '', '' (keys_in_order (values_of by_cat cat)),
                     wg_ports = keys_in_order (map port_text (concat (map si_ports (filter (\<lambda>si. si_category si = cat) known))))\<rparr>)
           (sort (remdups cats)))"

definition listen_detail_of :: "json list \<Rightarrow> ReportListenItem list" where
  "listen_detail_of ports =
     sort_key (\<lambda>x. (rl_port x, rl_proto x))
       (map (\<lambda>p. let lp = to_listen_port_item p in
                 \<lparr>rl_port = lp_port lp, rl_proto = lp_proto lp, rl_comm = str_or (lp_comm lp) [], rl_addr = lp_addr lp,
                  rl_uid = lp_uid lp, rl_pid = lp_pid lp\<rparr>) ports)"

definition build_workload_display :: "ReportRowRaw \<Rightarrow> ReportWorkloadGroup list \<times> ReportListenItem list" where
  "build_workload_display raw =
     (workload_groups_of (items_or_empty (services_or_none (rr_services raw) (rr_listen_ports raw)))
        (map listen_port_of_json (rows_or_empty (rr_listen_ports raw))),
      listen_detail_of (rows_or_empty (rr_listen_ports raw)))"

section \<open>The line\<close>

definition variance_of :: "pyfloat option \<Rightarrow> pyfloat option \<Rightarrow> pyfloat option" where
  "variance_of p95 peak =
     (case (p95, peak) of
        (Some a, Some b) \<Rightarrow> if b \<noteq> 0 \<and> a > 0 then Some (fdiv b a) else None
      | _ \<Rightarrow> None)"

definition uptime_days_of :: "datetime option \<Rightarrow> datetime \<Rightarrow> int option" where
  "uptime_days_of boot now = map_option (\<lambda>b. max 0 \<lfloor>seconds_between now b / 86400\<rfloor>) boot"

definition row_net_label :: "resource_status \<Rightarrow> net_label" where
  "row_net_label st = (case NET_STATUS_LABEL st of Net_other _ \<Rightarrow> Net_unmeasured | l \<Rightarrow> l)"

definition diagnosis_cell_of ::
  "HostAssessment \<Rightarrow> ReportRowRaw \<Rightarrow> bool \<Rightarrow> diagnosis_cell" where
  "diagnosis_cell_of host raw is_online =
     (if host_status_to_recommendation (host_status host) = Rec_insufficient_data
      then Reason (build_insufficient_reason raw is_online)
      else Diagnosis (\<not> is_online)
             (build_diagnosis host raw (variance_of (rr_cpu_p95_pct raw) (rr_cpu_peak_pct raw))
               (variance_of (rr_mem_p95_pct raw) (rr_mem_peak_pct raw))))"

text \<open>The option is the error of a broken catalogue date.\<close>

definition to_report_row_item :: "ReportRowRaw \<Rightarrow> bool \<Rightarrow> datetime \<Rightarrow> bool \<Rightarrow> ReportRowItem option" where
  "to_report_row_item raw is_online now has_operational_event =
     (let stats = build_resource_stats raw (rr_disk_iops_baseline raw);
          host = rollup_host stats;
          r = host_status_to_recommendation (host_status host);
          (groups, listen) = build_workload_display raw;
          cats = map fst (workload_category_counter (rr_services raw) (rr_listen_ports raw));
          disk_bytes = disk_total_bytes (rows_or_empty (rr_block_devices raw))
      in map_option
           (\<lambda>info.
             \<lparr>ri_server_id = rr_server_id raw, ri_public_id = rr_public_id raw, ri_hostname = rr_hostname raw,
              ri_role = infer_role (rr_services raw) (rr_listen_ports raw), ri_is_online = is_online,
              ri_os_family = rr_os_family raw,
              ri_os_display = os_display (rr_os_id raw) (rr_os_version raw) (rr_kernel_version raw) (rr_product_name raw),
              ri_kernel_version = rr_kernel_version raw, ri_internal_ip = primary_ip raw,
              ri_cpu_p95_pct = rr_cpu_p95_pct raw, ri_cpu_avg_pct = rr_cpu_avg_pct raw,
              ri_cpu_peak_pct = rr_cpu_peak_pct raw, ri_mem_p95_pct = rr_mem_p95_pct raw,
              ri_mem_avg_pct = rr_mem_avg_pct raw, ri_mem_peak_pct = rr_mem_peak_pct raw,
              ri_recommendation = r, ri_recommendation_label = LABEL_KO r, ri_badge_class = BADGE_CLASS r,
              ri_risk_level = fst (RISK_FROM_RECOMMENDATION r), ri_risk_badge_class = snd (RISK_FROM_RECOMMENDATION r),
              ri_cpu_cores = rr_cpu_cores raw, ri_mem_total_gb = bytes_to_gib (rr_mem_total_bytes raw),
              ri_disk_total_gb =
                (if disk_bytes \<noteq> 0 then Some (py_round 1 (or_zero (bytes_to_gb (Some disk_bytes)))) else None),
              ri_cpu_run_queue_p95 = rr_cpu_run_queue_p95 raw, ri_iowait_p95_pct = rr_iowait_p95_pct raw,
              ri_iowait_peak_pct = rr_iowait_peak_pct raw, ri_worst_mount_used_pct = rr_worst_mount_used_pct raw,
              ri_disk_capacity_driving_mount = rr_disk_capacity_driving_mount raw,
              ri_disk_capacity_runway_days = map_option py_int (rr_disk_capacity_runway_days raw),
              ri_uptime_days = uptime_days_of (rr_boot_time raw) now, ri_reboot_count = rr_reboot_count raw,
              ri_agent_restart_count = rr_agent_restart_count raw,
              ri_cpu_variance_ratio = variance_of (rr_cpu_p95_pct raw) (rr_cpu_peak_pct raw),
              ri_mem_variance_ratio = variance_of (rr_mem_p95_pct raw) (rr_mem_peak_pct raw),
              ri_disk_iops_baseline = rr_disk_iops_baseline raw, ri_disk_iops_p95 = rr_disk_iops_p95 raw,
              ri_disk_iops_peak = rr_disk_iops_peak raw, ri_disk_throughput_kbps = rr_disk_throughput_kbps raw,
              ri_disk_throughput_kbps_p95 = rr_disk_throughput_kbps_p95 raw,
              ri_disk_throughput_kbps_peak = rr_disk_throughput_kbps_peak raw,
              ri_net_rx_kbps = rr_net_rx_kbps raw, ri_net_rx_kbps_p95 = rr_net_rx_kbps_p95 raw,
              ri_net_rx_kbps_peak = rr_net_rx_kbps_peak raw, ri_net_tx_kbps = rr_net_tx_kbps raw,
              ri_net_tx_kbps_p95 = rr_net_tx_kbps_p95 raw, ri_net_tx_kbps_peak = rr_net_tx_kbps_peak raw,
              ri_diagnosis = diagnosis_cell_of host raw is_online,
              ri_recommendation_action = build_recommendation_action host stats,
              ri_root_cause_label = root_cause_display host,
              ri_net_status_label = row_net_label (status (the (resources host Network))),
              ri_net_congested = network_congested host, ri_mem_swap_paging = rr_mem_swap_paging raw,
              ri_is_partial = host_saturation_unmeasured host,
              ri_confidence_notes = build_host_confidence_notes host,
              ri_workload_groups = groups, ri_listen_ports_detail = listen, ri_workload_categories = cats,
              ri_signature_workload_categories = filter (\<lambda>c. c \<in> set SIGNATURE_CATEGORIES) cats,
              ri_workload_services = workload_services_by_category (rr_services raw) (rr_listen_ports raw),
              ri_os_eol = (case info of None \<Rightarrow> [] | Some i \<Rightarrow> eol_iso i),
              ri_os_eol_status = map_option eol_status info,
              ri_os_eol_display =
                (case info of None \<Rightarrow> os_eol_display None [] | Some i \<Rightarrow> os_eol_display (Some (eol_status i)) (eol_iso i)),
              ri_has_operational_event = has_operational_event\<rparr>)
           (lookup_os_eol (rr_os_id raw) (rr_os_version raw) (rr_kernel_version raw) (date_of now)))"

end
