(* ===== verification/ReportItemsProps.thy ===== *)
theory ReportItemsProps
  imports ReportItems AssessmentContract OsEolProps
begin

text \<open>What the lines of a report say agrees with the class of the server.\<close>

section \<open>Reasons of a verdict\<close>

lemma memory_under_triggers:
  assumes "status (assess_memory s) = Under"
  shows "T_mem_util \<in> set (triggers (assess_memory s)) \<or> T_mem_saturation \<in> set (triggers (assess_memory s)) \<or>
         T_mem_oom \<in> set (triggers (assess_memory s))"
  using assms by (auto simp: assess_memory_def Let_def split: option.splits if_splits)

lemma cpu_under_cores:
  assumes "status (assess_cpu s) = Under"
  shows "\<exists>c. cpu_cores s = Some c \<and> 0 < c \<and> (cpu_p95_pct s \<noteq> None \<or> truthy (cpu_saturated s))"
  using assms by (auto simp: assess_cpu_def Let_def split: option.splits if_splits)

text \<open>No processor is short for a reason the line cannot name, up to the cores at which binary64 is exact.\<close>

lemma cpu_under_triggers:
  assumes u: "status (assess_cpu s) = Under" and "\<And>c. cpu_cores s = Some c \<Longrightarrow> 70 * c \<le> 2 ^ 53"
  shows "T_cpu_util \<in> set (triggers (assess_cpu s)) \<or> T_cpu_saturation \<in> set (triggers (assess_cpu s))"
proof -
  obtain c where c: "cpu_cores s = Some c" "0 < c" "cpu_p95_pct s \<noteq> None \<or> truthy (cpu_saturated s)"
    using cpu_under_cores [OF u] by blast
  have "is_some_and (cpu_p95_pct s) (\<lambda>u. u \<ge> RS_CPU_UNDER_PCT) \<or> truthy (cpu_saturated s)"
    using assess_cpu_under_iff [OF c(1,2) assms(2) [OF c(1)] c(3)] u by simp
  then show ?thesis
    using c by (auto simp: assess_cpu_def Let_def)
qed

lemma rollup_status_cases:
  assumes "rootable s = []"
  shows "rollup_status s (assess s) (rootable s) \<in> {HS_insufficient, HS_idle, HS_over, HS_optimal}"
  using assms by (simp add: rollup_status_def Let_def)

section \<open>Diagnosis and class\<close>

definition shortage_texts :: "diagnosis set" where
  "shortage_texts = {Dg_memory_short True, Dg_memory_short False, Dg_cpu_saturated, Dg_memory_pressure, Dg_cpu_pressure,
     Dg_disk_capacity}"

text \<open>The texts a class may carry; the bottleneck of the disk goes with every class.\<close>

fun texts_of :: "recommendation \<Rightarrow> diagnosis set" where
  "texts_of Rec_under_provisioned = insert Dg_disk_io shortage_texts"
| "texts_of Rec_idle = {Dg_disk_io, Dg_network, Dg_burst, Dg_unused}"
| "texts_of Rec_over_provisioned = {Dg_disk_io, Dg_network, Dg_burst, Dg_spare}"
| "texts_of Rec_optimal = {Dg_disk_io, Dg_network, Dg_burst, Dg_normal}"
| "texts_of Rec_insufficient_data = {}"

lemma diagnosis_under:
  assumes cores: "\<And>c. cpu_cores s = Some c \<Longrightarrow> 70 * c \<le> 2 ^ 53" and "rootable s \<noteq> []"
  shows "build_diagnosis (rollup_host s) raw cv mv \<in> insert Dg_disk_io shortage_texts"
proof -
  consider "status (assess_memory s) = Under" | "status (assess_cpu s) = Under" | "status (assess_disk_capacity s) = Filling"
    using assms(2) by (auto simp: rootable_Nil_iff)
  then show ?thesis
  proof cases
    case 1
    then show ?thesis
      using memory_under_triggers [OF 1] by (auto simp: build_diagnosis_def Let_def shortage_texts_def)
  next
    case 2
    then show ?thesis
      using cpu_under_triggers [OF 2 cores] by (auto simp: build_diagnosis_def Let_def shortage_texts_def)
  next
    case 3
    then show ?thesis by (auto simp: build_diagnosis_def Let_def shortage_texts_def)
  qed
qed

lemma diagnosis_not_under:
  assumes "rootable s = []"
  shows "build_diagnosis (rollup_host s) raw cv mv \<in>
           {Dg_disk_io, Dg_network, Dg_burst,
            (if host_status (rollup_host s) = HS_idle then Dg_unused
             else if host_status (rollup_host s) = HS_over then Dg_spare else Dg_normal)}"
proof -
  have "status (assess_memory s) \<noteq> Under" "status (assess_cpu s) \<noteq> Under" "status (assess_disk_capacity s) \<noteq> Filling"
    using assms by (simp_all add: rootable_Nil_iff)
  then show ?thesis by (simp add: build_diagnosis_def Let_def)
qed

lemma diagnosis_in_texts:
  assumes "\<And>c. cpu_cores s = Some c \<Longrightarrow> 70 * c \<le> 2 ^ 53" and "classify_host s \<noteq> Rec_insufficient_data"
  shows "build_diagnosis (rollup_host s) raw cv mv \<in> texts_of (classify_host s)"
proof (cases "rootable s = []")
  case False
  then have "classify_host s = Rec_under_provisioned"
    using rollup_status_under_iff [of s "assess s" "rootable s"] by (simp add: classify_host_def host_status_to_recommendation_def)
  then show ?thesis using diagnosis_under [OF assms(1) False] by simp
next
  case True
  from rollup_status_cases [OF True] show ?thesis
    using diagnosis_not_under [OF True, of raw cv mv] assms(2)
    by (auto simp: classify_host_def host_status_to_recommendation_def)
qed

lemma disk_text_iff:
  "build_diagnosis (rollup_host s) raw cv mv = Dg_disk_io \<longleftrightarrow>
     status (assess_disk_io s) = Io_bound \<and>
     \<not> (status (assess_memory s) = Under \<and> {T_mem_saturation, T_mem_oom} \<inter> set (triggers (assess_memory s)) \<noteq> {})"
  by (simp add: build_diagnosis_def Let_def)

lemma report_row_exists: "\<exists>it. to_report_row_item raw on now ev = Some it"
  using lookup_cases [of "rr_os_id raw" "rr_os_version raw" "rr_kernel_version raw"]
  by (cases rule: lookup_cases [of "rr_os_id raw" "rr_os_version raw" "rr_kernel_version raw"])
    (auto simp: to_report_row_item_def Let_def split: prod.splits)

lemma report_line_sel:
  assumes "to_report_row_item raw on now ev = Some it"
  shows "ri_recommendation it = classify_host (build_resource_stats raw (rr_disk_iops_baseline raw))"
    and "ri_diagnosis it = diagnosis_cell_of (rollup_host (build_resource_stats raw (rr_disk_iops_baseline raw))) raw on"
    and "ri_is_online it = on" and "ri_risk_level it = fst (RISK_FROM_RECOMMENDATION (ri_recommendation it))"
    and "ri_cpu_p95_pct it = rr_cpu_p95_pct raw" and "ri_public_id it = rr_public_id raw"
    and "ri_server_id it = rr_server_id raw" and "ri_hostname it = rr_hostname raw"
  using assms by (auto simp: to_report_row_item_def Let_def classify_host_def split: prod.splits)

text \<open>
  Every row has a line in the report.  Its diagnosis is a reason of missing
  data exactly when the class is that of too few samples; otherwise it is a text that belongs to the class:
  a shortage of memory, processor or disk space only on an under-provisioned server, unused only on an idle
  one, room only on an over-provisioned one and normal only on an optimal one.  The bottleneck of the disk
  is the exception: it is said only when the response time of the disk is beyond its line, then unless memory
  is short, and it may stand beside every class.
\<close>

theorem diagnosis_fits_class:
  assumes "\<forall>c. rr_cpu_cores raw = Some c \<longrightarrow> 70 * c \<le> 2 ^ 53"
  shows "\<exists>it. to_report_row_item raw on now ev = Some it \<and>
    (case ri_diagnosis it of
       Reason why \<Rightarrow> ri_recommendation it = Rec_insufficient_data \<and> (why = Why_offline \<longleftrightarrow> \<not> on)
     | Diagnosis off d \<Rightarrow>
         ri_recommendation it \<noteq> Rec_insufficient_data \<and> off = (\<not> on) \<and> d \<in> texts_of (ri_recommendation it) \<and>
         (d = Dg_disk_io \<longrightarrow> is_some_and (rr_disk_await_p95_ms raw) (\<lambda>a. a > 20)) \<and>
         (is_some_and (rr_disk_await_p95_ms raw) (\<lambda>a. a > 20) \<longrightarrow>
            d \<in> {Dg_disk_io, Dg_memory_short True, Dg_memory_short False}))"
proof -
  obtain it where it: "to_report_row_item raw on now ev = Some it" using report_row_exists by blast
  let ?s = "build_resource_stats raw (rr_disk_iops_baseline raw)"
  note sel = report_line_sel [OF it]
  have io: "status (assess_disk_io ?s) = Io_bound \<longleftrightarrow> is_some_and (rr_disk_await_p95_ms raw) (\<lambda>a. a > 20)"
    by (auto simp: assess_disk_io_def disk_io_saturated_def RS_DISKIO_AWAIT_MS_def Let_def split: option.splits if_splits)
  have cores: "70 * c \<le> 2 ^ 53" if "cpu_cores ?s = Some c" for c using assms that by simp
  show ?thesis
  proof (cases "classify_host ?s = Rec_insufficient_data")
    case True
    then have "ri_diagnosis it = Reason (build_insufficient_reason raw on)"
      using sel(2) by (simp add: diagnosis_cell_of_def classify_host_def)
    then show ?thesis using it sel(1) True by (auto simp: build_insufficient_reason_def)
  next
    case False
    then have "\<exists>cv mv. ri_diagnosis it = Diagnosis (\<not> on) (build_diagnosis (rollup_host ?s) raw cv mv)"
      using sel(2) by (auto simp: diagnosis_cell_of_def classify_host_def)
    then obtain cv mv where d: "ri_diagnosis it = Diagnosis (\<not> on) (build_diagnosis (rollup_host ?s) raw cv mv)" by blast
    have "build_diagnosis (rollup_host ?s) raw cv mv \<in> texts_of (classify_host ?s)"
      by (rule diagnosis_in_texts) (use cores False in auto)
    moreover have "build_diagnosis (rollup_host ?s) raw cv mv \<in> {Dg_disk_io, Dg_memory_short True, Dg_memory_short False}"
      if "status (assess_disk_io ?s) = Io_bound"
      using that by (simp add: build_diagnosis_def Let_def)
    ultimately show ?thesis
      using it sel(1) False d io disk_text_iff [of ?s raw cv mv] by auto
  qed
qed

theorem diagnosis_fits_class_witness:
  "\<exists>it. to_report_row_item (row0\<lparr>rr_cpu_cores := Some 4, rr_cpu_p95_pct := Some 90\<rparr>) True 0 False = Some it \<and>
    (case ri_diagnosis it of
       Reason why \<Rightarrow> ri_recommendation it = Rec_insufficient_data \<and> (why = Why_offline) = False
     | Diagnosis off d \<Rightarrow>
         ri_recommendation it \<noteq> Rec_insufficient_data \<and> \<not> off \<and> d \<in> texts_of (ri_recommendation it))"
  using diagnosis_fits_class [of "row0\<lparr>rr_cpu_cores := Some 4, rr_cpu_p95_pct := Some 90\<rparr>" True 0 False]
  by (auto split: diagnosis_cell.splits)

text \<open>
  The comment above the code takes the first six texts for texts of a shortage.  A slow disk is advisory in
  the class, so a server that lacks nothing is labelled normal and diagnosed with a bottleneck.
\<close>

lemma bottleneck_without_shortage:
  "\<exists>raw it. to_report_row_item raw True 0 False = Some it \<and>
     ri_recommendation it = Rec_optimal \<and> ri_diagnosis it = Diagnosis False Dg_disk_io"
proof -
  let ?raw = "row0\<lparr>rr_mem_p95_pct := Some 50, rr_disk_await_p95_ms := Some 25\<rparr>"
  let ?s = "build_resource_stats ?raw (rr_disk_iops_baseline ?raw)"
  obtain it where it: "to_report_row_item ?raw True 0 False = Some it" using report_row_exists by blast
  have raw: "rr_disk_iops_baseline row0 = None" "rr_worst_mount_used_pct row0 = None" "rr_oom_occurred row0 = False"
    "rr_mem_swap_paging row0 = False" "rr_mem_near_peak_pct row0 = None"
    by (simp_all add: row0_def)
  have s: "rootable ?s = []" "status (assess_disk_io ?s) = Io_bound" "status (assess_memory ?s) = Optimal"
    "status (assess_cpu ?s) = Unmeasured"
    by (simp_all add: rootable_Nil_iff assess_memory_def assess_cpu_def assess_disk_capacity_def assess_disk_io_def Let_def
        build_resource_stats_def row0_def disk_io_saturated_def cpu_saturated_def mem_paging_active_def mem_saturated_def
        RS_DISKIO_AWAIT_MS_def RS_MEM_UNDER_PCT_def min_runway_def List.map_filter_simps mem_target_mb_def)
  have "classify_host ?s = Rec_optimal"
    using s by (simp add: classify_host_def rollup_status_def host_status_to_recommendation_def Let_def)
  moreover have "build_diagnosis (rollup_host ?s) ?raw cv mv = Dg_disk_io" for cv mv
    using s by (simp add: disk_text_iff)
  ultimately show ?thesis
    using it report_line_sel(1,2) [OF it]
    by (intro exI [of _ ?raw] exI [of _ it]) (simp add: diagnosis_cell_of_def classify_host_def)
qed

end
