(* ===== verification/ReportQuery.thy ===== *)
theory ReportQuery
  imports ReportItems ServerQuery
begin

text \<open>
  A report: the summary sentences of \<open>web/services/mappers/report_summary.py\<close>, the view model \<open>ReportSummary\<close>
  and its assembly in \<open>web/services/query/report.py\<close>.  The answers of the repository are arguments; a sentence
  is the datatype of what it says.
\<close>

section \<open>Sentences\<close>

datatype report_view = Customer | Engineer

text \<open>The hosts a sentence names: the first three, and whether there are more.\<close>

type_synonym 'a phrase = "'a list \<times> bool"

definition top_phrase :: "'a list \<Rightarrow> 'a phrase" where
  "top_phrase labels = (take 3 labels, length labels > 3)"

datatype bullet =
  Bullet_no_servers
  | Bullet_disk_io nat "string phrase"
  | Bullet_disk_fill nat "(string \<times> string \<times> int) phrase"
  | Bullet_reboots nat "(string \<times> int) phrase"
  | Bullet_role_cpu string int
  | Bullet_cpu_saturated nat "string phrase"
  | Bullet_burst nat "string phrase"
  | Bullet_os_eol nat "(string \<times> string \<times> string) phrase"

definition bullet_of :: "(nat \<Rightarrow> 'a phrase \<Rightarrow> bullet) \<Rightarrow> 'a list \<Rightarrow> bullet list" where
  "bullet_of mk labels = (if labels = [] then [] else [mk (length labels) (top_phrase labels)])"

definition REBOOT_UNSTABLE_COUNT :: int where "REBOOT_UNSTABLE_COUNT = 3"
definition CPU_UPSIZE_P95_PCT :: pyfloat where "CPU_UPSIZE_P95_PCT = 70"

definition filling_label :: "ReportRowRaw \<Rightarrow> (string \<times> string \<times> int) option" where
  "filling_label r =
     (case rr_disk_capacity_runway_days r of
        None \<Rightarrow> None
      | Some days \<Rightarrow>
          if status (assess_disk_capacity (overview_stats r)) = Filling
          then Some (rr_hostname r, str_or (rr_disk_capacity_driving_mount r) ''?'', py_int days) else None)"

text \<open>The role with the highest mean, the first of several.\<close>

definition role_cpu_of :: "ReportRowItem list \<Rightarrow> (string \<times> pyfloat list) list" where
  "role_cpu_of rows =
     fold (\<lambda>(role, v). dict_append role v)
       (List.map_filter (\<lambda>r. map_option (Pair (ri_role r)) (ri_cpu_p95_pct r)) rows) []"

definition mean_of :: "pyfloat list \<Rightarrow> pyfloat" where
  "mean_of vals = fdiv (py_sum vals) (of_pyint (int (length vals)))"

definition role_bullet :: "ReportRowItem list \<Rightarrow> bullet list" where
  "role_bullet rows =
     (case role_cpu_of rows of
        [] \<Rightarrow> []
      | e # es \<Rightarrow>
          let (role, vals) = first_max (\<lambda>p. mean_of (snd p)) e es in
          if mean_of vals \<ge> CPU_UPSIZE_P95_PCT then [Bullet_role_cpu role (rhe (mean_of vals))] else [])"

definition burst_row :: "ReportRowItem \<Rightarrow> bool" where
  "burst_row r = is_burst (ri_cpu_variance_ratio r) (ri_cpu_peak_pct r) BURST_PEAK_FLOOR_CPU_PCT"

definition eol_label_of :: "int \<Rightarrow> ReportRowRaw \<Rightarrow> (string \<times> string \<times> string) option option" where
  "eol_label_of today r =
     map_option (map_option (\<lambda>(iso, label). (rr_hostname r, label, iso)))
       (resolve_os_eol (rr_os_id r) (rr_os_version r) (rr_kernel_version r) today)"

definition build_report_summary_bullets ::
  "ReportRowItem list \<Rightarrow> ReportRowRaw list \<Rightarrow> report_view \<Rightarrow> int \<Rightarrow> bullet list option" where
  "build_report_summary_bullets rows raws view today =
     (if rows = [] then Some [Bullet_no_servers]
      else
        map_option
          (\<lambda>eol.
            bullet_of Bullet_disk_io (map rr_hostname (filter (\<lambda>r. truthy (disk_io_saturated (overview_stats r))) raws)) @
            bullet_of Bullet_disk_fill (List.map_filter filling_label raws) @
            bullet_of Bullet_reboots
              (map (\<lambda>r. (ri_hostname r, ri_reboot_count r)) (filter (\<lambda>r. ri_reboot_count r \<ge> REBOOT_UNSTABLE_COUNT) rows)) @
            (if view = Engineer then
               role_bullet rows @
               bullet_of Bullet_cpu_saturated (map rr_hostname (filter (\<lambda>r. truthy (cpu_saturated (overview_stats r))) raws)) @
               bullet_of Bullet_burst (map ri_hostname (filter burst_row rows))
             else []) @
            bullet_of Bullet_os_eol (List.map_filter (\<lambda>x. x) eol))
          (all_some (map (eol_label_of today) raws)))"

section \<open>Baselines of the report path\<close>

record DiskIoBaselineRaw =
  qb_iops_baseline :: "int option"
  qb_throughput_kbps_baseline :: "pyfloat option"
  qb_iops_p95 :: "pyfloat option"
  qb_iops_peak :: "pyfloat option"
  qb_kbps_p95 :: "pyfloat option"
  qb_kbps_peak :: "pyfloat option"

definition disk_fields :: "DiskIoBaselineRaw option \<Rightarrow> ReportRowRaw \<Rightarrow> ReportRowRaw" where
  "disk_fields disk raw =
     (case disk of
        None \<Rightarrow> raw
      | Some d \<Rightarrow>
          raw\<lparr>rr_disk_iops_baseline := qb_iops_baseline d, rr_disk_throughput_kbps := qb_throughput_kbps_baseline d,
              rr_disk_iops_p95 := qb_iops_p95 d, rr_disk_iops_peak := qb_iops_peak d,
              rr_disk_throughput_kbps_p95 := qb_kbps_p95 d, rr_disk_throughput_kbps_peak := qb_kbps_peak d\<rparr>)"

definition with_report_baselines ::
  "ReportRowRaw \<Rightarrow> int \<Rightarrow> int \<Rightarrow> DiskIoBaselineRaw option \<Rightarrow> NetIoBaselineRaw option \<Rightarrow> ReportRowRaw" where
  "with_report_baselines raw reboots restarts disk net =
     net_baseline_fields net
       (disk_fields disk (raw\<lparr>rr_reboot_count := reboots, rr_agent_restart_count := restarts\<rparr>))"

definition count_of :: "(int \<rightharpoonup> int) \<Rightarrow> int \<Rightarrow> int" where
  "count_of m k = (case m k of None \<Rightarrow> 0 | Some n \<Rightarrow> n)"

definition assemble_report_raws ::
  "ReportRowRaw list \<Rightarrow> (int \<rightharpoonup> int) \<Rightarrow> (int \<rightharpoonup> int) \<Rightarrow> (int \<rightharpoonup> DiskIoBaselineRaw) \<Rightarrow> (int \<rightharpoonup> NetIoBaselineRaw)
     \<Rightarrow> ReportRowRaw list" where
  "assemble_report_raws raws uptime restart disk_io net_io =
     map (\<lambda>raw. with_report_baselines raw (count_of uptime (rr_server_id raw)) (count_of restart (rr_server_id raw))
            (disk_io (rr_server_id raw)) (net_io (rr_server_id raw))) raws"

section \<open>The report\<close>

record ReportSummary =
  rp_rows :: "ReportRowItem list"
  rp_period_days :: pyfloat
  rp_total :: nat
  rp_online :: nat
  rp_risk_attention :: nat
  rp_risk_high :: nat
  rp_avg_cpu_p95_pct :: "pyfloat option"
  rp_avg_mem_p95_pct :: "pyfloat option"
  rp_totals :: ReportTotals
  rp_summary_bullets :: "bullet list"
  rp_role_distribution :: counter
  rp_os_family_summary :: "(family_label \<times> int) list"
  rp_workload_summary :: "(string \<times> int) list"
  rp_generated_at :: datetime
  rp_anchor_at :: datetime

text \<open>\<open>has_event\<close>: an error of any of the five kinds in the window.\<close>

definition had_errors :: "ErrorFleetRaw \<Rightarrow> bool" where
  "had_errors e =
     (ef_mce_count e \<noteq> 0 \<or> ef_oom_count e \<noteq> 0 \<or> is_some_and (ef_corrupted_bytes e) (\<lambda>b. b > 0) \<or>
      ef_net_error_count e \<noteq> 0 \<or> ef_disk_error_count e \<noteq> 0)"

definition report_online :: "ReportRowRaw list \<Rightarrow> datetime \<Rightarrow> redis \<Rightarrow> bool list \<times> redis" where
  "report_online raws end_dt r =
     (case safe_mget (map (\<lambda>x. redis_key_online (show_int (rr_server_id x))) raws) r of
        (None, r1) \<Rightarrow> (map (\<lambda>x. seen_after (rr_last_seen_at x) (online_threshold end_dt)) raws, r1)
      | (Some flags, r1) \<Rightarrow> (map (\<lambda>f. f \<noteq> None) flags, r1))"

definition window_start :: "datetime \<Rightarrow> pyfloat \<Rightarrow> datetime" where
  "window_start end_dt period_days = end_dt - rhe (period_days * of_int DAY)"

text \<open>
  The summary sentences are dated by the clock \<open>now\<close>, the rows by the anchor \<open>end_dt\<close>.
\<close>

definition get_report ::
  "ReportRowRaw list \<Rightarrow> pyfloat \<Rightarrow> datetime \<Rightarrow> report_view \<Rightarrow> (int \<Rightarrow> datetime \<Rightarrow> ErrorFleetRaw) option \<Rightarrow> datetime \<Rightarrow> redis
     \<Rightarrow> ReportSummary option \<times> redis" where
  "get_report raws period_days end_dt view errors now r =
     (let (flags, r1) = report_online raws end_dt r;
          event = (\<lambda>raw. case errors of None \<Rightarrow> False | Some f \<Rightarrow> had_errors (f (rr_server_id raw) (window_start end_dt period_days)))
      in (do {
            items \<leftarrow> all_some (map (\<lambda>(raw, on). to_report_row_item raw on end_dt (event raw)) (zip raws flags));
            bullets \<leftarrow> build_report_summary_bullets items raws view (date_of now);
            Some (let (avg_cpu, avg_mem) = compute_report_avg_p95 items;
                      roles = build_role_distribution raws;
                      (os_summary, work_summary) = build_selection_context items roles
                  in \<lparr>rp_rows = sort_rows_for_report items, rp_period_days = period_days, rp_total = length items,
                      rp_online = length (filter ri_is_online items),
                      rp_risk_attention = length (filter (\<lambda>it. ri_risk_level it = Risk_attention) items),
                      rp_risk_high = length (filter (\<lambda>it. ri_risk_level it = Risk_high) items),
                      rp_avg_cpu_p95_pct = avg_cpu, rp_avg_mem_p95_pct = avg_mem,
                      rp_totals = compute_report_totals_from_raw raws, rp_summary_bullets = bullets,
                      rp_role_distribution = roles, rp_os_family_summary = os_summary, rp_workload_summary = work_summary,
                      rp_generated_at = now, rp_anchor_at = end_dt\<rparr>) }, r1))"

end
