(* ===== verification/ReportQueryProps.thy ===== *)
theory ReportQueryProps
  imports ReportQuery OverviewProps ReportItemsProps
begin

text \<open>A report always exists, and its figures are those of the overview printed above it.\<close>

lemma all_some_Cons: "all_some (o1 # os) = Some zs \<longleftrightarrow> (\<exists>y ys. o1 = Some y \<and> all_some os = Some ys \<and> zs = y # ys)"
  by (cases o1; cases "all_some os") auto

lemma all_some_exists: "(\<And>x. x \<in> set xs \<Longrightarrow> \<exists>y. f x = Some y) \<Longrightarrow> \<exists>ys. all_some (map f xs) = Some ys"
proof (induction xs)
  case (Cons a xs)
  obtain y where "f a = Some y" using Cons.prems [of a] by auto
  moreover obtain ys where "all_some (map f xs) = Some ys" using Cons by auto
  ultimately show ?case by simp
qed simp

lemma all_some_nth: "all_some (map f xs) = Some ys \<Longrightarrow> list_all2 (\<lambda>x y. f x = Some y) xs ys"
proof (induction xs arbitrary: ys)
  case (Cons a xs)
  then obtain z zs where "f a = Some z" "all_some (map f xs) = Some zs" "ys = z # zs"
    unfolding list.map all_some_Cons by blast
  with Cons.IH show ?case by simp
qed simp

lemma eol_label_exists: "\<exists>y. eol_label_of today r = Some y"
proof (cases rule: lookup_cases [of "rr_os_id r" "rr_os_version r" "rr_kernel_version r"])
  case unknown
  then show ?thesis by (simp add: eol_label_of_def resolve_lookup(1) del: not_None_eq)
next
  case (known e es label)
  show ?thesis unfolding eol_label_of_def resolve_lookup(2) [OF known(2)] option.map by blast
qed

lemma bullets_exist: "\<exists>bs. build_report_summary_bullets rows raws view today = Some bs"
proof (cases "rows = []")
  case True
  then show ?thesis by (simp add: build_report_summary_bullets_def)
next
  case False
  obtain es where es: "all_some (map (eol_label_of today) raws) = Some es"
    using all_some_exists [of raws "eol_label_of today"] eol_label_exists by blast
  show ?thesis unfolding build_report_summary_bullets_def es option.map if_not_P [OF False] by blast
qed

lemma zipped_lines:
  assumes "list_all2 P (zip xs ys) zs" and "length ys = length xs"
  shows "list_all2 (\<lambda>x z. \<exists>y. P (x, y) z) xs zs"
  using assms unfolding list_all2_conv_all_nth by auto

lemma report_flags: "length (fst (report_online raws end_dt r)) = length raws"
proof -
  have "length fs = length ks" if "fst (safe_mget ks r) = Some fs" for ks fs
    using that by (auto simp: safe_mget_def split: if_splits prod.splits bool.splits)
  then show ?thesis
    by (auto simp: report_online_def split: prod.split option.split) (metis fst_conv length_map)
qed

definition row_rank :: "ReportRowItem \<Rightarrow> nat \<times> pyfloat \<times> string" where
  "row_rank it = (RISK_LEVEL_ORDER (ri_risk_level it), - or_zero (ri_cpu_p95_pct it), ri_hostname it)"

definition row_class :: "ReportRowRaw \<Rightarrow> recommendation" where
  "row_class raw = classify_host (overview_stats raw)"

lemma row_levels:
  "ri_recommendation it = row_class raw \<Longrightarrow> ri_risk_level it = fst (RISK_FROM_RECOMMENDATION (ri_recommendation it)) \<Longrightarrow>
     (ri_risk_level it = Risk_high \<longleftrightarrow> row_class raw = Rec_under_provisioned) \<and>
     (ri_risk_level it = Risk_attention \<longleftrightarrow> row_class raw \<in> {Rec_idle, Rec_over_provisioned})"
  by (cases "row_class raw") simp_all

text \<open>The report and the lines it is made of.\<close>

lemma report_fields:
  "\<exists>rep items. fst (get_report raws days end_dt view errors now r) = Some rep \<and>
     list_all2 (\<lambda>raw it. ri_recommendation it = row_class raw \<and> ri_server_id it = rr_server_id raw \<and>
        ri_risk_level it = fst (RISK_FROM_RECOMMENDATION (ri_recommendation it))) raws items \<and>
     rp_rows rep = sort_key row_rank items \<and> rp_total rep = length items \<and>
     rp_online rep = length (filter ri_is_online items) \<and>
     rp_risk_attention rep = length (filter (\<lambda>it. ri_risk_level it = Risk_attention) items) \<and>
     rp_risk_high rep = length (filter (\<lambda>it. ri_risk_level it = Risk_high) items)"
proof -
  define flags where "flags = fst (report_online raws end_dt r)"
  let ?ev = "\<lambda>raw. case errors of None \<Rightarrow> False | Some f \<Rightarrow> had_errors (f (rr_server_id raw) (window_start end_dt days))"
  let ?mk = "\<lambda>(raw, on). to_report_row_item raw on end_dt (?ev raw)"
  have mk: "\<exists>y. ?mk p = Some y" for p
    by (cases p) (simp only: prod.case report_row_exists)
  obtain items where items: "all_some (map ?mk (zip raws flags)) = Some items"
    using all_some_exists [of "zip raws flags" ?mk, OF mk] by (elim exE)
  obtain bs where bs: "build_report_summary_bullets items raws view (date_of now) = Some bs"
    using bullets_exist by blast
  have len: "length flags = length raws" using report_flags by (simp add: flags_def)
  have "list_all2 (\<lambda>x it. ?mk x = Some it) (zip raws flags) items" by (rule all_some_nth [OF items])
  note zipped_lines [OF this len]
  then have "list_all2 (\<lambda>raw it. ri_recommendation it = row_class raw \<and> ri_server_id it = rr_server_id raw \<and>
        ri_risk_level it = fst (RISK_FROM_RECOMMENDATION (ri_recommendation it))) raws items"
  proof (rule list_all2_mono)
    fix raw it
    assume "\<exists>on. ?mk (raw, on) = Some it"
    then obtain on where "to_report_row_item raw on end_dt (?ev raw) = Some it"
      unfolding prod.case by (elim exE)
    from report_line_sel(1,4,7) [OF this]
    show "ri_recommendation it = row_class raw \<and> ri_server_id it = rr_server_id raw \<and>
        ri_risk_level it = fst (RISK_FROM_RECOMMENDATION (ri_recommendation it))"
      by (simp add: row_class_def overview_stats_def)
  qed
  moreover have "\<exists>rep. fst (get_report raws days end_dt view errors now r) = Some rep \<and>
     rp_rows rep = sort_key row_rank items \<and> rp_total rep = length items \<and>
     rp_online rep = length (filter ri_is_online items) \<and>
     rp_risk_attention rep = length (filter (\<lambda>it. ri_risk_level it = Risk_attention) items) \<and>
     rp_risk_high rep = length (filter (\<lambda>it. ri_risk_level it = Risk_high) items)"
    using items bs
    by (cases "report_online raws end_dt r")
      (simp add: get_report_def flags_def sort_rows_for_report_def row_rank_def [abs_def] Let_def case_prod_beta)
  ultimately show ?thesis by blast
qed

lemma count_lines:
  assumes "list_all2 R raws items" and "\<And>raw it. R raw it \<Longrightarrow> P it \<longleftrightarrow> Q raw"
  shows "length (filter P items) = length (filter Q raws)"
  using assms(1) by (induction rule: list_all2_induct) (simp_all add: assms(2))

lemma donut_of_rows:
  assumes "(segs, t, u) = build_risk_donut_segments (fold count_risk raws [])"
  shows "sum_list (map rs_count (filter (\<lambda>s. rs_key s = Seg_class k) segs)) = int (length (filter (\<lambda>raw. row_class raw = k) raws))"
proof -
  have n: "risk_count (fold count_risk raws []) k = int (length (filter (\<lambda>raw. row_class raw = k) raws))" for k
    by (simp add: fold_risk row_class_def) (simp add: risk_count_def)
  show ?thesis
    using assms by (cases k) (simp_all add: build_risk_donut_segments_def Let_def n DONUT_SEGMENT_DEFS_def)
qed

text \<open>
  The report of a group of servers always exists, whatever Redis answers.
  It has one line for every server, ordered by risk, then load, then name; and it agrees with the overview
  assembled from the same rows: its high risks are the short servers of the overview, its servers to watch
  are the idle and the over-provisioned part of the ring, and both together with the online servers never
  exceed the servers it counts.
\<close>

theorem report_matches_overview:
  "\<exists>rep ov. fst (get_report raws days end_dt view errors now r) = Some rep \<and>
     assemble_overview details util raws online_by_id full err today = Some ov \<and>
     mset (map ri_server_id (rp_rows rep)) = mset (map rr_server_id raws) \<and> sorted (map row_rank (rp_rows rep)) \<and>
     int (rp_total rep) = eo_risk_donut_total ov \<and> int (rp_risk_high rep) = eo_risk_high_count ov \<and>
     int (rp_risk_attention rep) =
       (\<Sum>k\<leftarrow>[Rec_idle, Rec_over_provisioned]. sum_list (map rs_count (filter (\<lambda>s. rs_key s = Seg_class k) (eo_risk_donut ov)))) \<and>
     rp_risk_high rep + rp_risk_attention rep \<le> rp_total rep \<and> rp_online rep \<le> rp_total rep"
proof -
  obtain rep items where rep: "fst (get_report raws days end_dt view errors now r) = Some rep"
      and rows: "list_all2 (\<lambda>raw it. ri_recommendation it = row_class raw \<and> ri_server_id it = rr_server_id raw \<and>
        ri_risk_level it = fst (RISK_FROM_RECOMMENDATION (ri_recommendation it))) raws items"
      and f: "rp_rows rep = sort_key row_rank items" "rp_total rep = length items"
        "rp_online rep = length (filter ri_is_online items)"
        "rp_risk_attention rep = length (filter (\<lambda>it. ri_risk_level it = Risk_attention) items)"
        "rp_risk_high rep = length (filter (\<lambda>it. ri_risk_level it = Risk_high) items)"
    using report_fields [of raws days end_dt view errors now r] by blast
  obtain ov where ov: "assemble_overview details util raws online_by_id full err today = Some ov"
      and risk: "(eo_risk_donut ov, eo_risk_donut_total ov, eo_risk_high_count ov) = build_risk_donut_segments (fold count_risk raws [])"
    using overview_fields [of details util raws online_by_id full err today] by blast
  have len: "length items = length raws" using rows by (simp add: list_all2_lengthD)
  have "map ri_server_id items = map rr_server_id raws"
    using rows by (induction rule: list_all2_induct) simp_all
  then have ids: "mset (map ri_server_id (rp_rows rep)) = mset (map rr_server_id raws)"
    by (simp add: f(1)) (metis mset_map)
  have high: "rp_risk_high rep = length (filter (\<lambda>raw. row_class raw = Rec_under_provisioned) raws)"
    unfolding f(5) by (rule count_lines [OF rows]) (use row_levels in blast)
  have att: "rp_risk_attention rep = length (filter (\<lambda>raw. row_class raw \<in> {Rec_idle, Rec_over_provisioned}) raws)"
    unfolding f(4) by (rule count_lines [OF rows]) (use row_levels in blast)
  have parts: "length (filter (\<lambda>raw. row_class raw \<in> {Rec_idle, Rec_over_provisioned}) rs) =
      length (filter (\<lambda>raw. row_class raw = Rec_idle) rs) + length (filter (\<lambda>raw. row_class raw = Rec_over_provisioned) rs)" for rs
    by (induction rs) auto
  have le: "length (filter (\<lambda>raw. row_class raw = Rec_under_provisioned) rs) +
      length (filter (\<lambda>raw. row_class raw \<in> {Rec_idle, Rec_over_provisioned}) rs) \<le> length rs" for rs
    by (induction rs) auto
  have totals: "eo_risk_donut_total ov = int (length raws)"
    "eo_risk_high_count ov = int (length (filter (\<lambda>raw. row_class raw = Rec_under_provisioned) raws))"
    using risk_donut_counts [OF risk] by (simp_all add: row_class_def)
  show ?thesis
    using rep ov ids f len high att parts [of raws] totals donut_of_rows [OF risk] le [of raws]
      length_filter_le [of ri_is_online items]
    by (intro exI [of _ rep] exI [of _ ov]) simp
qed

end
