(* ===== verification/TaskViews.thy ===== *)
theory TaskViews
  imports TaskLifecycle
begin

text \<open>
  What the pages show of a task: the rows of \<open>db/repositories/query/task_sql.py\<close>, the mapper
  \<open>web/services/mappers/task.py\<close> and the queries of \<open>web/services/query/task.py\<close>.  A task whose deadline
  has passed is shown as failed before the reaper has failed it.  Korean labels are constructors.
\<close>

section \<open>Rows\<close>

record TaskRow =
  tw_public_id :: string
  tw_target_server_id :: int
  tw_target_public_id :: "string option"
  tw_target_hostname :: "string option"
  tw_task_type :: string
  tw_status :: string
  tw_created_at :: datetime
  tw_completed_at :: "datetime option"
  tw_failure_reason :: "string option"
  tw_exit_code :: "int option"
  tw_signal_no :: "int option"
  tw_duration_ms :: "int option"
  tw_stdout_tail :: "string option"
  tw_stderr_tail :: "string option"
  tw_params :: "json option"
  tw_deadline_at :: "datetime option"

text \<open>
  The outer join with the inventory: a task stays when its server is gone.  The public id of a server is
  drawn by the database on insert; the argument \<open>pub\<close> gives it by the key of the server.
\<close>

definition target_of :: "db \<Rightarrow> Task \<Rightarrow> ServerInventory option" where
  "target_of d t = List.find (\<lambda>s. si_id s = t_target_server_id t) (servers d)"

definition row_to_task :: "(int \<Rightarrow> string) \<Rightarrow> db \<Rightarrow> Task \<Rightarrow> TaskRow" where
  "row_to_task pub d t =
     \<lparr>tw_public_id = t_public_id t, tw_target_server_id = t_target_server_id t,
      tw_target_public_id = map_option (\<lambda>s. pub (si_id s)) (target_of d t),
      tw_target_hostname = map_option si_hostname (target_of d t), tw_task_type = t_task_type t,
      tw_status = t_status t, tw_created_at = t_created_at t, tw_completed_at = t_completed_at t,
      tw_failure_reason = t_failure_reason t, tw_exit_code = t_exit_code t, tw_signal_no = t_signal_no t,
      tw_duration_ms = t_duration_ms t, tw_stdout_tail = t_stdout_tail t, tw_stderr_tail = t_stderr_tail t,
      tw_params = t_params t, tw_deadline_at = t_deadline_at t\<rparr>"

definition get_task_by_public_id :: "(int \<Rightarrow> string) \<Rightarrow> string \<Rightarrow> db \<Rightarrow> TaskRow option" where
  "get_task_by_public_id pub public_id d =
     map_option (row_to_task pub d) (List.find (\<lambda>t. t_public_id t = public_id) (tasks d))"

section \<open>Labels\<close>

datatype task_badge = Running_badge | Success_badge | Failure_badge | Dash_badge

definition TASK_STATUS_UNKNOWN :: "string \<times> task_badge" where
  "TASK_STATUS_UNKNOWN = (''rec-unknown'', Dash_badge)"

definition TASK_STATUS_DISPLAY :: "(string \<times> string \<times> task_badge) list" where
  "TASK_STATUS_DISPLAY =
     [(''pending'', ''rec-pending'', Running_badge), (''in_progress'', ''rec-pending'', Running_badge),
      (''success'', ''rec-success'', Success_badge), (''failure'', ''rec-failure'', Failure_badge),
      (''failed'', ''rec-failure'', Failure_badge)]"

definition task_status_display :: "string option \<Rightarrow> string \<times> task_badge" where
  "task_status_display st =
     (case Option.bind st (map_of TASK_STATUS_DISPLAY) of None \<Rightarrow> TASK_STATUS_UNKNOWN | Some b \<Rightarrow> b)"

definition task_type_label :: "string \<Rightarrow> string" where
  "task_type_label ty = (if ty = ''zconverter_install'' then ''ZConverter Install'' else ty)"

text \<open>A reason of the catalogue has a Korean label, any other stands for itself.\<close>

datatype failure_text = Ko_reason string | Raw_reason string

definition FAILURE_REASONS :: "string list" where
  "FAILURE_REASONS =
     [''url_not_allowed'', ''download_failed'', ''sha256_mismatch'', ''extract_failed'', ''script_not_found'',
      ''script_failed'', ''script_timeout'', ''insufficient_disk'', ''internal_error'', ''already_done'',
      ''unsupported_install_type'', ''timeout'', ''install_unverified'']"

definition failure_label :: "string option \<Rightarrow> failure_text option" where
  "failure_label reason = map_option (\<lambda>r. if r \<in> set FAILURE_REASONS then Ko_reason r else Raw_reason r) reason"

definition SIGNAL_NAME :: "(int \<times> string) list" where
  "SIGNAL_NAME =
     [(1, ''SIGHUP''), (2, ''SIGINT''), (3, ''SIGQUIT''), (4, ''SIGILL''), (5, ''SIGTRAP''), (6, ''SIGABRT''),
      (7, ''SIGBUS''), (8, ''SIGFPE''), (9, ''SIGKILL''), (11, ''SIGSEGV''), (13, ''SIGPIPE''), (14, ''SIGALRM''),
      (15, ''SIGTERM''), (24, ''SIGXCPU''), (25, ''SIGXFSZ'')]"

definition signal_label :: "int option \<Rightarrow> string option" where
  "signal_label signal_no =
     map_option (\<lambda>n. case map_of SIGNAL_NAME n of Some s \<Rightarrow> s @ '' ('' @ show_int n @ '')'' | None \<Rightarrow> show_int n) signal_no"

section \<open>The mapper\<close>

record TaskSummaryItem =
  tq_task_id :: string
  tq_task_type :: string
  tq_status :: string
  tq_badge_class :: string
  tq_badge_label :: task_badge
  tq_failure_label :: "failure_text option"
  tq_created_at :: datetime
  tq_completed_at :: "datetime option"
  tq_duration_ms :: "int option"

record TaskDetailItem =
  tx_task_id :: string
  tx_target_public_id :: "string option"
  tx_target_hostname :: "string option"
  tx_task_type :: string
  tx_status :: string
  tx_badge_class :: string
  tx_badge_label :: task_badge
  tx_failure_reason :: "string option"
  tx_failure_label :: "failure_text option"
  tx_exit_code :: "int option"
  tx_signal_no :: "int option"
  tx_signal_label :: "string option"
  tx_duration_ms :: "int option"
  tx_created_at :: datetime
  tx_completed_at :: "datetime option"
  tx_stdout_tail :: "string option"
  tx_stderr_tail :: "string option"
  tx_params :: "json option"

definition is_timeout :: "TaskRow \<Rightarrow> datetime \<Rightarrow> bool" where
  "is_timeout row now =
     (tw_failure_reason row = Some ''timeout'' \<or>
      tw_status row = ''pending'' \<and> is_some_and (tw_deadline_at row) (\<lambda>dl. now > dl))"

definition effective_display ::
  "TaskRow \<Rightarrow> datetime \<Rightarrow> string \<times> string option \<times> (string \<times> task_badge) \<times> failure_text option" where
  "effective_display row now =
     (if is_timeout row now
      then (''failure'', Some ''timeout'', task_status_display (Some ''failure''), failure_label (Some ''timeout''))
      else (tw_status row, tw_failure_reason row, task_status_display (Some (tw_status row)),
            failure_label (tw_failure_reason row)))"

definition to_task_summary :: "TaskRow \<Rightarrow> datetime \<Rightarrow> TaskSummaryItem" where
  "to_task_summary row now =
     (let (st, _, (cls, label), why) = effective_display row now in
      \<lparr>tq_task_id = tw_public_id row, tq_task_type = task_type_label (tw_task_type row), tq_status = st,
       tq_badge_class = cls, tq_badge_label = label, tq_failure_label = why, tq_created_at = tw_created_at row,
       tq_completed_at = tw_completed_at row, tq_duration_ms = tw_duration_ms row\<rparr>)"

definition to_task_detail :: "TaskRow \<Rightarrow> datetime \<Rightarrow> TaskDetailItem" where
  "to_task_detail row now =
     (let (st, reason, (cls, label), why) = effective_display row now in
      \<lparr>tx_task_id = tw_public_id row, tx_target_public_id = tw_target_public_id row,
       tx_target_hostname = tw_target_hostname row, tx_task_type = task_type_label (tw_task_type row), tx_status = st,
       tx_badge_class = cls, tx_badge_label = label, tx_failure_reason = reason, tx_failure_label = why,
       tx_exit_code = tw_exit_code row, tx_signal_no = tw_signal_no row, tx_signal_label = signal_label (tw_signal_no row),
       tx_duration_ms = tw_duration_ms row, tx_created_at = tw_created_at row, tx_completed_at = tw_completed_at row,
       tx_stdout_tail = tw_stdout_tail row, tx_stderr_tail = tw_stderr_tail row, tx_params = tw_params row\<rparr>)"

section \<open>Queries of the pages\<close>

definition latest_task_summaries :: "(int \<Rightarrow> string) \<Rightarrow> int list \<Rightarrow> datetime \<Rightarrow> db \<Rightarrow> int \<rightharpoonup> TaskSummaryItem" where
  "latest_task_summaries pub server_ids now d =
     (\<lambda>sid. map_option (\<lambda>t. to_task_summary (row_to_task pub d t) now) (latest_tasks_by_servers server_ids d sid))"

definition get_task :: "(int \<Rightarrow> string) \<Rightarrow> string \<Rightarrow> datetime \<Rightarrow> db \<Rightarrow> TaskDetailItem option" where
  "get_task pub task_id now d = map_option (\<lambda>r. to_task_detail r now) (get_task_by_public_id pub task_id d)"

definition list_recent_summaries :: "(int \<Rightarrow> string) \<Rightarrow> string \<Rightarrow> nat \<Rightarrow> datetime option \<Rightarrow> datetime \<Rightarrow> db \<Rightarrow> TaskSummaryItem list" where
  "list_recent_summaries pub server_public_id limit cursor now d =
     (case List.find (\<lambda>s. pub (si_id s) = server_public_id) (servers d) of
        None \<Rightarrow> []
      | Some s \<Rightarrow> map (\<lambda>t. to_task_summary (row_to_task pub d t) now) (list_recent_tasks (si_id s) limit cursor d))"

section \<open>The pages run ahead of the reaper\<close>

lemma expire_task_rest [simp]:
  "t_public_id (expire_task now t) = t_public_id t" "t_target_server_id (expire_task now t) = t_target_server_id t"
  "t_task_type (expire_task now t) = t_task_type t" "t_created_at (expire_task now t) = t_created_at t"
  "t_deadline_at (expire_task now t) = t_deadline_at t" "t_id (expire_task now t) = t_id t"
  "t_status (expire_task now t) = ''failure''" "t_failure_reason (expire_task now t) = Some ''timeout''"
  "t_exit_code (expire_task now t) = t_exit_code t" "t_signal_no (expire_task now t) = t_signal_no t"
  "t_duration_ms (expire_task now t) = t_duration_ms t" "t_stdout_tail (expire_task now t) = t_stdout_tail t"
  "t_stderr_tail (expire_task now t) = t_stderr_tail t" "t_params (expire_task now t) = t_params t"
  by (simp_all add: expire_task_def)

text \<open>A summary and a detail without the time of completion, which the reaper stamps.\<close>

definition summary_shown :: "TaskSummaryItem \<Rightarrow> TaskSummaryItem" where
  "summary_shown x = x\<lparr>tq_completed_at := None\<rparr>"

definition detail_shown :: "TaskDetailItem \<Rightarrow> TaskDetailItem" where
  "detail_shown x = x\<lparr>tx_completed_at := None\<rparr>"

definition reaped :: "datetime \<Rightarrow> Task \<Rightarrow> Task" where
  "reaped now t = (if overdue now t then expire_task now t else t)"

lemma reaped_key [simp]:
  "recent_order (reaped now t) = recent_order t" "t_public_id (reaped now t) = t_public_id t"
  "t_target_server_id (reaped now t) = t_target_server_id t" "t_created_at (reaped now t) = t_created_at t"
  by (simp_all add: reaped_def recent_order_def)

lemma expire_all_reaped:
  "snd (expire_all_overdue_tasks now d) = d\<lparr>tasks := map (reaped now) (tasks d)\<rparr>"
  by (simp add: expire_all_overdue_tasks_def expire_where_def reaped_def)

lemma display_reaped:
  assumes "now \<le> later"
  shows "effective_display (row_to_task pub (d\<lparr>tasks := ts\<rparr>) (reaped now t)) later = effective_display (row_to_task pub d t) later"
  using assms
  by (auto simp: effective_display_def is_timeout_def row_to_task_def reaped_def overdue_def is_pending_def target_of_def
      split: option.splits)

lemma row_rest_reaped:
  "row_to_task pub (d\<lparr>tasks := ts\<rparr>) (reaped now t) =
     (row_to_task pub d t)\<lparr>tw_status := t_status (reaped now t), tw_failure_reason := t_failure_reason (reaped now t),
        tw_completed_at := t_completed_at (reaped now t)\<rparr>"
  by (simp add: row_to_task_def reaped_def target_of_def)

lemma summary_reaped:
  assumes "now \<le> later"
  shows "summary_shown (to_task_summary (row_to_task pub (d\<lparr>tasks := ts\<rparr>) (reaped now t)) later) =
         summary_shown (to_task_summary (row_to_task pub d t) later)"
  by (simp add: to_task_summary_def summary_shown_def display_reaped [OF assms] split: prod.split)
    (simp add: row_rest_reaped)

lemma detail_reaped:
  assumes "now \<le> later"
  shows "detail_shown (to_task_detail (row_to_task pub (d\<lparr>tasks := ts\<rparr>) (reaped now t)) later) =
         detail_shown (to_task_detail (row_to_task pub d t) later)"
  by (simp add: to_task_detail_def detail_shown_def display_reaped [OF assms] split: prod.split)
    (simp add: row_rest_reaped)

lemma sort_reaped: "sort_key recent_order (map (reaped now) ts) = map (reaped now) (sort_key recent_order ts)"
proof -
  have ins: "insort_key recent_order (reaped now t) (map (reaped now) us) = map (reaped now) (insort_key recent_order t us)"
    for t us by (induction us) auto
  show ?thesis by (induction ts) (auto simp: ins)
qed

lemma find_reaped:
  "List.find (\<lambda>t. t_public_id t = p) (map (reaped now) ts) = map_option (reaped now) (List.find (\<lambda>t. t_public_id t = p) ts)"
  by (induction ts) auto

lemma recent_reaped:
  "list_recent_tasks sid n c (d\<lparr>tasks := map (reaped now) (tasks d)\<rparr>) = map (reaped now) (list_recent_tasks sid n c d)"
  by (cases c) (simp_all add: list_recent_tasks_def filter_map o_def sort_reaped take_map)

lemma latest_reaped:
  "latest_tasks_by_servers sids (d\<lparr>tasks := map (reaped now) (tasks d)\<rparr>) sid =
     map_option (reaped now) (latest_tasks_by_servers sids d sid)"
  by (simp add: latest_tasks_by_servers_def filter_map o_def sort_reaped split: list.split)

text \<open>
  A page does not depend on whether the reaper has run: the task list of a server,
  the last task of every server and the page of a task show the same before and after the overdue tasks
  are failed, apart from the time of completion, at the time of the expiry and at every later time.
\<close>

theorem pages_run_ahead:
  assumes "now \<le> later"
  shows "let d' = snd (expire_all_overdue_tasks now d) in
    map summary_shown (list_recent_summaries pub sp n c later d') = map summary_shown (list_recent_summaries pub sp n c later d) \<and>
    map_option summary_shown (latest_task_summaries pub sids later d' sid) =
      map_option summary_shown (latest_task_summaries pub sids later d sid) \<and>
    map_option detail_shown (get_task pub p later d') = map_option detail_shown (get_task pub p later d)"
proof -
  let ?d = "d\<lparr>tasks := map (reaped now) (tasks d)\<rparr>"
  note r = summary_reaped [OF assms] detail_reaped [OF assms]
  have "map summary_shown (list_recent_summaries pub sp n c later ?d) = map summary_shown (list_recent_summaries pub sp n c later d)"
    by (simp add: list_recent_summaries_def r recent_reaped split: option.split)
  moreover have "map_option summary_shown (latest_task_summaries pub sids later ?d sid) =
      map_option summary_shown (latest_task_summaries pub sids later d sid)"
    by (simp add: latest_task_summaries_def r latest_reaped option.map_comp o_def)
  moreover have "map_option detail_shown (get_task pub p later ?d) = map_option detail_shown (get_task pub p later d)"
    by (simp add: get_task_def get_task_by_public_id_def r find_reaped option.map_comp o_def)
  ultimately show ?thesis by (simp add: Let_def expire_all_reaped)
qed

theorem pages_run_ahead_witness:
  "map summary_shown (list_recent_summaries (\<lambda>_. ''p'') ''p'' 5 None 20 (snd (expire_all_overdue_tasks 10 empty_db))) =
     map summary_shown (list_recent_summaries (\<lambda>_. ''p'') ''p'' 5 None 20 empty_db)"
  using pages_run_ahead [of 10 20 empty_db "\<lambda>_. ''p''" "''p''" 5 None "[]" 1 "''t''"] by (simp add: Let_def)

end
