(* ===== verification/Spec2Isabelle.thy ===== *)
theory Spec2Isabelle
  imports HandlerProps ReportWorker TaskServiceProps ReproductionProps InterfaceProps OsEolProps PeriodCardProps Workloads FilterProps
    OverviewProps TaskReaper StorageTreeProps ServerQueryProps ReportItemsProps ReportQueryProps TaskViews
begin

text \<open>
  \<^bold>\<open>Verification of the assessment engine.\<close>  Agents on servers send inventories, metrics, task results and
  errors through a broker.  A consumer process stores them; a web process shows the servers, judges whether
  each has too much or too little CPU, memory and disk, issues install tasks and publishes reports; a worker
  process generates the reports and fails overdue tasks.  All three share one PostgreSQL database and one
  Redis.  Paths below are relative to \<open>src/src/assessment_engine\<close>.  The properties are the theorems whose text
  begins with a claim number; their order is the order of importance.

  \<^bold>\<open>Foundations.\<close>  \<open>Prelude\<close> has the Python idioms and the fact collections.  \<open>PyFloat\<close> is binary64 arithmetic
  as exact rational arithmetic followed by rounding to nearest even, with the locale \<open>rounding\<close> in which the
  bounds of the sizing formulas are proved; overflow, infinities and NaN are outside.  \<open>PyDateTime\<close> and \<open>BootTime\<close>
  (boot_time.py) have instants as microseconds and the calendar, \<open>PyJson\<close> JSON values and their canonical text
  (json_types.py).

  \<^bold>\<open>Ingestion\<close> (consumer/, db/repositories/collect_sql.py).  \<open>WireTypes\<close> has the messages and storage records,
  \<open>WireMappers\<close> the mappers between them, \<open>ServiceCatalog\<close> and \<open>ServiceClassifier\<close> the categories of services
  (service_classifier.py).  \<open>CollectRepo\<close> is the repository on an explicit database state, one function per
  method.  \<open>CollectStore\<close> states the contract of a conflict-ignoring table as the locale \<open>natural_key_table\<close>,
  interpreted on the seven time-series tables.  \<open>CollectInvariant\<close> has the transactions as a step relation, the
  invariant with unique keys and references, and that nothing stored is lost.  \<open>RedisCache\<close> (cache/redis.py) is
  Redis with expiry and outages, with the locale \<open>once_store\<close> for claims.  \<open>Handlers\<close> and \<open>HandlerProps\<close> are the
  four message handlers with retries, idempotency and lost acknowledgements; the locale \<open>replay_safe\<close> is
  interpreted on the three stored operations.  \<open>TaskPolicy\<close> is the verdict on a task result.

  \<^bold>\<open>Right-sizing rules\<close> (recommendation.py).  \<open>Recommendation\<close> has thresholds, signals and the five assessments,
  \<open>HostRollup\<close> the verdict of a host, its causes, prescriptions and the gate before every shrink; \<open>CpuSizing\<close>,
  \<open>MemorySizing\<close> and \<open>StorageSizing\<close> prove the targets sound.  \<open>ReportRows\<close> (resource_stats.py) is the one door
  from a database row to the rules, \<open>ReportSource\<close> the inventory part of the statement behind the row.

  \<^bold>\<open>Interfaces\<close> (web/services/mappers/assessment_api.py, right_sizing_api.py, shared.py).  \<open>SharedDisplay\<close>,
  \<open>RightSizing\<close> and \<open>AssessmentApi\<close> are the entries of the two machine interfaces.  \<open>AssessmentContract\<close> proves the
  sizing contract, \<open>InterfaceProps\<close> how far the two interfaces agree and that the evidence supports the verdict,
  \<open>ReproductionProps\<close> that the reported facts come back.  \<open>InventoryViews\<close>, \<open>Workloads\<close>, \<open>ServerFilters\<close> and
  \<open>FilterProps\<close> are workload counters and the filters of requests.

  \<^bold>\<open>Screens\<close> (web/services/mappers, web/services/query).  \<open>DeviceFilters\<close>, \<open>LiveDashboard\<close>, \<open>SnapshotSignals\<close> and
  \<open>LiveDashboardProps\<close>: the live page of a server.  \<open>OsEolCatalog\<close>, \<open>OsEol\<close>, \<open>EolDates\<close>, \<open>OsEolProps\<close>: support phases,
  on the shipped catalogue.  \<open>PeriodCard\<close> and \<open>PeriodCardProps\<close>: the card of the last days.  \<open>Attention\<close>,
  \<open>EnvironmentViews\<close>, \<open>AttentionProps\<close>, \<open>OverviewProps\<close>: resource table, overview and live view.  \<open>StorageTree\<close> and
  \<open>StorageTreeProps\<close>: the storage layout.  \<open>ServerPages\<close>, \<open>CacheSerde\<close>, \<open>CacheSerdeProps\<close>, \<open>ServerQuery\<close>,
  \<open>ServerQueryProps\<close>: the pages of a server, their cache, and how old a page can be.

  \<^bold>\<open>Tasks and reports\<close> (web/services/task_service.py, worker/, db/repositories/diagnostic_sql.py).  \<open>TaskLifecycle\<close>,
  \<open>TaskService\<close> and \<open>TaskServiceProps\<close>: creation, expiry and completion, and the publish-then-commit transaction of
  an install task.  \<open>TaskViews\<close>: the pages of tasks.  \<open>TaskReaper\<close>: the loop that fails overdue tasks.  \<open>ReportJobs\<close>,
  \<open>ReportQueue\<close>, \<open>ReportRequests\<close>, \<open>ReportWorker\<close>: the job queue as a step relation of web and worker processes, its
  refinement to the locale \<open>fifo_queue\<close>, and the turn of a worker.  \<open>ReportItems\<close>, \<open>ReportItemsProps\<close>, \<open>ReportQuery\<close>,
  \<open>ReportQueryProps\<close>: the lines and sentences of a report, and its agreement with the overview.

  \<^bold>\<open>Bounds and loops.\<close>  The retry loop of the handlers makes at most three attempts and the publishing loop of
  reports two, the constants of the source.  The loop of the reaper and the depth-first search of the storage
  tree are partial functions without a bound; that they return is proved (\<open>reaper_stops\<close>, \<open>storage_tree_ends\<close>).
  Other loops are structural recursion.  No fuel is used.

  \<^bold>\<open>Assumptions that appear in statements.\<close>  A recovery of report jobs meets no generation older than the stale
  limit (\<open>timely\<close> in \<open>queue_step\<close>); without it two workers can generate one job.  The reaper is paced and its
  failures are not endless (\<open>overdue_tasks_fail\<close>).  The text layer gives back what it wrote and the times of a
  row lie in the calendar (\<open>pages_are_recent\<close>).  Sizes are below the precision of binary64 where a bound is
  claimed.

  \<^bold>\<open>Arguments of the model.\<close>  The broker's answers, HTTP, SHA-256, the clock, UUIDs, JSON text, the collation and
  the public identifiers the database generates, and the rows that the aggregate SQL returns.

  \<^bold>\<open>Not modelled.\<close>  The SQL over the time-series aggregates (metric_sql.py and most of report_sql.py), since it
  is text for the database; the environment report and topology mappers; routes, templates and exports;
  start-up, settings, logging and migrations.  Korean display text is represented by constructors.
\<close>

end
